(* ===== verification/Prelude.thy ===== *)
theory Prelude
  imports Main "HOL-Library.AList"
begin

text \<open>
  Prelude of the development: Go values that every component uses (string maps, times and
  durations, quoting), lemmas on lists that several components share, and the two interfaces
  \<open>key_lookup\<close> and \<open>keyed_store\<close> of the slices that the program uses as small tables
  (conditions, object references, execution generations). The collection \<open>go_defs\<close> holds the
  defining equations of the small Go operations, so that \<open>simp add: go_defs\<close> unfolds them.
\<close>

named_theorems go_defs \<open>definitions of the Go value operations\<close>

section \<open>Go values\<close>

subsection \<open>Maps from strings to strings\<close>

text \<open>
  A Go \<open>map[string]string\<close> (labels, annotations) is an association list whose keys are
  distinct. A missing key reads as the empty string, as in Go. \<open>nil\<close> and the empty map are
  not told apart; no operation that is modelled does so.
\<close>

type_synonym smap = "(string \<times> string) list"

definition smap_get :: "smap \<Rightarrow> string \<Rightarrow> string" where
  [go_defs]: "smap_get m k = (case map_of m k of None \<Rightarrow> [] | Some v \<Rightarrow> v)"

definition smap_has :: "smap \<Rightarrow> string \<Rightarrow> bool" where
  [go_defs]: "smap_has m k = (map_of m k \<noteq> None)"

definition smap_set :: "smap \<Rightarrow> string \<Rightarrow> string \<Rightarrow> smap" where
  "smap_set m k v = AList.update k v m"

definition smap_del :: "smap \<Rightarrow> string \<Rightarrow> smap" where
  "smap_del m k = AList.delete k m"

lemma map_of_smap_set [simp]: "map_of (smap_set m k v) = (map_of m)(k \<mapsto> v)"
  by (simp add: smap_set_def update_conv')

lemma map_of_smap_del [simp]: "map_of (smap_del m k) = (map_of m)(k := None)"
  by (simp add: smap_del_def delete_conv')

lemma smap_set_id: "map_of m k = Some v \<Longrightarrow> smap_set m k v = m"
  by (simp add: smap_set_def update_triv)

lemma smap_get_set: "smap_get (smap_set m k v) k' = (if k' = k then v else smap_get m k')"
  by (simp add: smap_get_def)

lemma smap_get_del: "smap_get (smap_del m k) k' = (if k' = k then [] else smap_get m k')"
  by (simp add: smap_get_def)

lemma smap_has_set: "smap_has (smap_set m k v) k' \<longleftrightarrow> k' = k \<or> smap_has m k'"
  by (simp add: smap_has_def)

lemma smap_has_del: "smap_has (smap_del m k) k' \<longleftrightarrow> k' \<noteq> k \<and> smap_has m k'"
  by (simp add: smap_has_def)

lemma smap_del_id: "\<not> smap_has m k \<Longrightarrow> smap_del m k = m"
  unfolding smap_has_def smap_del_def
  by (metis delete_id map_of_eq_None_iff)

lemmas smap_simps = smap_get_set smap_get_del smap_has_set smap_has_del

subsection \<open>Times and durations\<close>

text \<open>
  A time is the number of nanoseconds since Go's zero time, so the zero value of
  \<open>time.Time\<close> is \<open>0\<close>. A duration is a signed 64 bit number of nanoseconds: it is an
  \<open>int\<close> here, with the saturation of \<open>Time.Sub\<close> and the wrap-around of the built-in
  arithmetic written out.
\<close>

type_synonym time = int
type_synonym duration = int

definition min_duration :: duration where
  [go_defs]: "min_duration = - 9223372036854775808"

definition max_duration :: duration where
  [go_defs]: "max_duration = 9223372036854775807"

definition second :: duration where
  [go_defs]: "second = 1000000000"

definition minute :: duration where
  [go_defs]: "minute = 60 * second"

definition wrap64 :: "int \<Rightarrow> int" where
  "wrap64 x = (x + 9223372036854775808) mod 18446744073709551616 - 9223372036854775808"

definition time_sub :: "time \<Rightarrow> time \<Rightarrow> duration" where
  "time_sub t u = max min_duration (min max_duration (t - u))"

lemma wrap64_id: "min_duration \<le> x \<Longrightarrow> x \<le> max_duration \<Longrightarrow> wrap64 x = x"
  by (simp add: wrap64_def go_defs)

lemma wrap64_range: "min_duration \<le> wrap64 x \<and> wrap64 x \<le> max_duration"
proof -
  have "0 \<le> (x + 9223372036854775808) mod 18446744073709551616"
    and "(x + 9223372036854775808) mod 18446744073709551616 < 18446744073709551616"
    by simp_all
  then show ?thesis by (simp add: wrap64_def go_defs)
qed

lemma time_sub_range: "min_duration \<le> time_sub t u \<and> time_sub t u \<le> max_duration"
  by (simp add: time_sub_def go_defs)

lemma time_sub_exact:
  "min_duration \<le> t - u \<Longrightarrow> t - u \<le> max_duration \<Longrightarrow> time_sub t u = t - u"
  by (simp add: time_sub_def)

lemma time_sub_self [simp]: "time_sub t t = 0"
  by (simp add: time_sub_def go_defs)

text \<open>Go's integer division truncates towards zero.\<close>

definition quot64 :: "int \<Rightarrow> int \<Rightarrow> int" where
  "quot64 a b = sgn a * sgn b * (\<bar>a\<bar> div \<bar>b\<bar>)"

subsection \<open>Formatting\<close>

text \<open>
  The parts of \<open>fmt.Sprintf\<close> that the modelled messages use: \<open>%d\<close> of an integer and
  \<open>%q\<close> of a string. Quoting escapes the quote, the backslash and the usual control
  characters, and writes other bytes as they are (printable text; the names that are quoted
  are Kubernetes names).
\<close>

fun digits_of :: "nat \<Rightarrow> string" where
  "digits_of n = (if n < 10 then [char_of (48 + n)]
                  else digits_of (n div 10) @ [char_of (48 + n mod 10)])"

declare digits_of.simps [simp del]

definition show_int :: "int \<Rightarrow> string" where
  "show_int i = (if i < 0 then CHR ''-'' # digits_of (nat (- i)) else digits_of (nat i))"

definition quote_char :: "char \<Rightarrow> string" where
  "quote_char c =
     (if c = CHR 0x22 then [CHR 0x5C, CHR 0x22]
      else if c = CHR 0x5C then [CHR 0x5C, CHR 0x5C]
      else if c = CHR 0x0A then [CHR 0x5C, CHR ''n'']
      else if c = CHR 0x09 then [CHR 0x5C, CHR ''t'']
      else if c = CHR 0x0D then [CHR 0x5C, CHR ''r'']
      else [c])"

definition go_quote :: "string \<Rightarrow> string" where
  "go_quote s = CHR 0x22 # concat (map quote_char s) @ [CHR 0x22]"

text \<open>\<open>strings.Join\<close> and \<open>strings.Split\<close> with a one character separator.\<close>

fun str_join :: "string list \<Rightarrow> char \<Rightarrow> string" where
  "str_join [] c = []"
| "str_join [s] c = s"
| "str_join (s # t # ss) c = s @ c # str_join (t # ss) c"

fun str_split :: "string \<Rightarrow> char \<Rightarrow> string list" where
  "str_split [] c = [[]]"
| "str_split (x # xs) c =
     (if x = c then [] # str_split xs c
      else (case str_split xs c of [] \<Rightarrow> [[x]] | s # ss \<Rightarrow> (x # s) # ss))"

lemma str_split_no_sep: "c \<notin> set s \<Longrightarrow> str_split s c = [s]"
  by (induction s) auto

lemma str_split_append_sep: "c \<notin> set s \<Longrightarrow> str_split (s @ c # t) c = s # str_split t c"
  by (induction s) auto

lemma str_split_parts: "s \<in> set (str_split t c) \<Longrightarrow> c \<notin> set s"
  by (induction t c arbitrary: s rule: str_split.induct) (auto split: if_splits list.splits)

lemma str_split_join:
  "ss \<noteq> [] \<Longrightarrow> \<forall>s \<in> set ss. c \<notin> set s \<Longrightarrow> str_split (str_join ss c) c = ss"
  by (induction ss c rule: str_join.induct) (auto simp: str_split_no_sep str_split_append_sep)

section \<open>Lists\<close>

text \<open>Two lists that agree on a function are told apart by the keys it gives.\<close>

lemma distinct_map_key_unique:
  "distinct (map f xs) \<Longrightarrow> x \<in> set xs \<Longrightarrow> y \<in> set xs \<Longrightarrow> f x = f y \<Longrightarrow> x = y"
  by (metis distinct_map inj_onD)

lemma find_Some_iff_distinct:
  "distinct (map f xs) \<Longrightarrow> List.find (\<lambda>x. f x = k) xs = Some x \<longleftrightarrow> x \<in> set xs \<and> f x = k"
  by (induction xs) (auto split: if_splits)

lemma find_None_key: "List.find (\<lambda>x. f x = k) xs = None \<longleftrightarrow> k \<notin> f ` set xs"
  by (auto simp: find_None_iff)

section \<open>Slices used as tables\<close>

text \<open>
  The contract of the small tables: \<open>lookup\<close> returns an element with the given key when there
  is one, and \<open>store\<close> replaces or adds an element under its key and leaves the others. The
  invariant \<open>invar\<close> is what a table needs for the laws (true, or distinct keys).
\<close>

locale key_lookup =
  fixes key :: "'a \<Rightarrow> 'k"
    and lookup :: "'a list \<Rightarrow> 'k \<Rightarrow> 'a option"
  assumes lookup_sound: "lookup xs k = Some x \<Longrightarrow> x \<in> set xs \<and> key x = k"
    and lookup_complete: "x \<in> set xs \<Longrightarrow> lookup xs (key x) \<noteq> None"
begin

lemma lookup_None_iff: "lookup xs k = None \<longleftrightarrow> k \<notin> key ` set xs"
proof
  assume "lookup xs k = None"
  then show "k \<notin> key ` set xs" by (auto dest: lookup_complete)
next
  assume "k \<notin> key ` set xs"
  then show "lookup xs k = None" using lookup_sound by (cases "lookup xs k") auto
qed

lemma lookup_Nil: "lookup [] k = None"
  by (simp add: lookup_None_iff)

lemma lookup_unique:
  assumes "distinct (map key xs)" and "x \<in> set xs"
  shows "lookup xs (key x) = Some x"
proof -
  obtain y where y: "lookup xs (key x) = Some y"
    using lookup_complete [OF assms(2)] by blast
  then have "y \<in> set xs" and "key y = key x" by (auto dest: lookup_sound)
  with assms have "y = x" by (blast intro: distinct_map_key_unique)
  with y show ?thesis by simp
qed

end

locale keyed_store = key_lookup +
  fixes store :: "'a list \<Rightarrow> 'a \<Rightarrow> 'a list"
    and invar :: "'a list \<Rightarrow> bool"
  assumes invar_store: "invar xs \<Longrightarrow> invar (store xs x)"
    and lookup_store_same: "invar xs \<Longrightarrow> lookup (store xs x) (key x) = Some x"
    and lookup_store_other: "invar xs \<Longrightarrow> k \<noteq> key x \<Longrightarrow> lookup (store xs x) k = lookup xs k"
begin

lemma lookup_store:
  "invar xs \<Longrightarrow> lookup (store xs x) k = (if k = key x then Some x else lookup xs k)"
  by (simp add: lookup_store_same lookup_store_other)

lemma key_in_store: "invar xs \<Longrightarrow> key x \<in> key ` set (store xs x)"
  using lookup_store_same [of xs x] lookup_None_iff [of "store xs x" "key x"] by force

lemma keys_store:
  assumes "invar xs"
  shows "key ` set (store xs x) = insert (key x) (key ` set xs)"
proof -
  have "k \<in> key ` set (store xs x) \<longleftrightarrow> k \<in> insert (key x) (key ` set xs)" for k
    using lookup_store [OF assms, of x k] lookup_None_iff [of "store xs x" k]
      lookup_None_iff [of xs k]
    by (auto split: if_splits)
  then show ?thesis by blast
qed

lemma store_commutes:
  assumes "invar xs" and "key x \<noteq> key y"
  shows "lookup (store (store xs x) y) k = lookup (store (store xs y) x) k"
  using assms by (simp add: lookup_store invar_store)

lemma store_twice:
  assumes "invar xs" and "key x = key y"
  shows "lookup (store (store xs x) y) k = lookup (store xs y) k"
  using assms by (simp add: lookup_store invar_store)

lemma invar_fold_store: "invar xs \<Longrightarrow> invar (foldl store xs ys)"
  by (induction ys arbitrary: xs) (auto intro: invar_store)

lemma lookup_fold_store_untouched:
  "invar xs \<Longrightarrow> k \<notin> key ` set ys \<Longrightarrow> lookup (foldl store xs ys) k = lookup xs k"
  by (induction ys arbitrary: xs) (auto simp: lookup_store invar_store)

lemma lookup_fold_store_last:
  assumes "invar xs" and "key x \<notin> key ` set zs"
  shows "lookup (foldl store xs (ys @ x # zs)) (key x) = Some x"
proof -
  let ?t = "foldl store xs ys"
  have t: "invar ?t" using assms(1) by (rule invar_fold_store)
  then have "lookup (foldl store (store ?t x) zs) (key x) = lookup (store ?t x) (key x)"
    using assms(2) by (intro lookup_fold_store_untouched invar_store)
  with t show ?thesis by (simp add: lookup_store_same)
qed

end

end
