(* ===== verification/CoreTypes.thy ===== *)
theory CoreTypes
  imports Prelude
begin

text \<open>
  The data model of the landscaper API (\<open>apis/core/v1alpha1\<close> and its internal twin
  \<open>apis/core\<close>): one record per struct, with the fields in the order of the source and a short
  prefix in the place of the struct's name, and one datatype per enumeration. A pointer that
  may be \<open>nil\<close> is an \<open>option\<close>; a slice whose \<open>nil\<close>-ness the code tests is an
  \<open>option\<close> of a list. Raw JSON (\<open>RawExtension\<close>, \<open>AnyJSON\<close>) is its text. The metadata
  of Kubernetes objects is reduced to the fields the program reads or writes.
\<close>

section \<open>Shared types (types\_shared.go)\<close>

text \<open>
  A phase is a Go string; the empty string and the declared constants have constructors, every
  other string is \<open>PhOther\<close>. \<open>ExecutionPhase\<close> and \<open>ComponentInstallationPhase\<close> are
  converted into each other without change, so both are this type.
\<close>

datatype phase =
    PhEmpty | PhInit | PhPending | PhProgressing | PhDeleting | PhAborted
  | PhSucceeded | PhFailed | PhOther string

datatype condition_status =
    ConditionTrue | ConditionFalse | ConditionUnknown | ConditionProgressing
  | ConditionStatusOther string

datatype error_code =
    ErrorUnauthorized | ErrorCleanupResources | ErrorConfigurationProblem
  | ErrorInternalProblem | ErrorReadinessCheckTimeout | ErrorTimeout | ErrorOther string

definition UnrecoverableErrorCodes :: "error_code list" where
  "UnrecoverableErrorCodes =
     [ErrorConfigurationProblem, ErrorInternalProblem, ErrorReadinessCheckTimeout, ErrorTimeout]"

type_synonym condition_type = string

record condition =
  co_type :: condition_type
  co_status :: condition_status
  co_lastTransitionTime :: time
  co_lastUpdateTime :: time
  co_reason :: string
  co_message :: string
  co_codes :: "error_code list"

record ls_error =
  er_operation :: string
  er_lastTransitionTime :: time
  er_lastUpdateTime :: time
  er_reason :: string
  er_message :: string
  er_codes :: "error_code list"

record object_reference =
  or_name :: string
  or_namespace :: string

record named_object_reference =
  no_name :: string
  no_reference :: object_reference

record versioned_object_reference =
  vo_ref :: object_reference
  vo_observedGeneration :: int

record versioned_named_object_reference =
  vn_name :: string
  vn_reference :: versioned_object_reference

record secret_reference =
  sr_ref :: object_reference
  sr_key :: string

record config_map_reference =
  cm_ref :: object_reference
  cm_key :: string

section \<open>Object metadata\<close>

record owner_reference =
  ow_apiVersion :: string
  ow_kind :: string
  ow_name :: string
  ow_controller :: "bool option"

record object_meta =
  om_name :: string
  om_generateName :: string
  om_namespace :: string
  om_generation :: int
  om_deletionTimestamp :: "time option"
  om_labels :: smap
  om_annotations :: smap
  om_finalizers :: "string list"
  om_ownerReferences :: "owner_reference list"

text \<open>\<open>(*metav1.Time).IsZero\<close>: a \<open>nil\<close> pointer or the zero time.\<close>

definition time_is_zero :: "time option \<Rightarrow> bool" where
  [go_defs]: "time_is_zero t = (case t of None \<Rightarrow> True | Some x \<Rightarrow> x = 0)"

section \<open>Deploy items and executions (types\_deployitem.go, types\_execution.go)\<close>

record deployer_information =
  dp_identity :: string
  dp_name :: string
  dp_version :: string

record deploy_item_spec =
  di_type :: string
  di_target :: "object_reference option"
  di_context :: string
  di_configuration :: "string option"
  di_registryPullSecrets :: "object_reference list"
  di_timeout :: "duration option"

record deploy_item_status =
  ds_phase :: phase
  ds_observedGeneration :: int
  ds_conditions :: "condition list"
  ds_lastError :: "ls_error option"
  ds_lastReconcileTime :: "time option"
  ds_deployer :: deployer_information
  ds_providerStatus :: "string option"
  ds_exportReference :: "object_reference option"

record deploy_item =
  di_meta :: object_meta
  di_spec :: deploy_item_spec
  di_status :: deploy_item_status

record deploy_item_template =
  dt_name :: string
  dt_type :: string
  dt_target :: "object_reference option"
  dt_labels :: smap
  dt_configuration :: "string option"
  dt_dependsOn :: "string list"

record execution_generation =
  eg_name :: string
  eg_observedGeneration :: int

record execution_spec =
  ex_context :: string
  ex_deployItems :: "deploy_item_template list"
  ex_registryPullSecrets :: "object_reference list"

record execution_status =
  es_phase :: phase
  es_observedGeneration :: int
  es_conditions :: "condition list"
  es_lastError :: "ls_error option"
  es_exportReference :: "object_reference option"
  es_deployItemReferences :: "versioned_named_object_reference list"
  es_executionGenerations :: "execution_generation list"

record execution =
  ex_meta :: object_meta
  ex_spec :: execution_spec
  ex_status :: execution_status

section \<open>Installations (types\_installation.go)\<close>

record component_descriptor_reference =
  cr_repositoryContext :: "string option"
  cr_componentName :: string
  cr_version :: string

record data_import =
  im_name :: string
  im_dataRef :: string
  im_version :: string
  im_secretRef :: "secret_reference option"
  im_configMapRef :: "config_map_reference option"

record data_export =
  dx_name :: string
  dx_dataRef :: string

record target_import =
  ti_name :: string
  ti_target :: string
  ti_targets :: "string list option"
  ti_targetListReference :: string

record target_export =
  tx_name :: string
  tx_target :: string

record component_descriptor_import_data =
  cl_ref :: "component_descriptor_reference option"
  cl_secretRef :: "secret_reference option"
  cl_configMapRef :: "config_map_reference option"
  cl_dataRef :: string

record component_descriptor_import =
  ci_name :: string
  ci_ref :: "component_descriptor_reference option"
  ci_secretRef :: "secret_reference option"
  ci_configMapRef :: "config_map_reference option"
  ci_list :: "component_descriptor_import_data list option"
  ci_dataRef :: string

record installation_imports =
  ii_data :: "data_import list"
  ii_targets :: "target_import list"
  ii_componentDescriptors :: "component_descriptor_import list"

record installation_exports =
  ix_data :: "data_export list"
  ix_targets :: "target_export list"

record blueprint_definition =
  bd_reference :: "string option"
  bd_inline :: "string option"

record component_descriptor_definition =
  cd_reference :: "component_descriptor_reference option"
  cd_inline :: "string option"

datatype import_status_type =
    DataImportStatusType | TargetImportStatusType | TargetListImportStatusType
  | CDImportStatusType | CDListImportStatusType | ImportStatusTypeOther string

record target_import_status =
  ts_target :: string
  ts_sourceRef :: "object_reference option"
  ts_configGeneration :: string

record cd_import_status =
  cs_componentDescriptorRef :: "component_descriptor_reference option"
  cs_secretRef :: string
  cs_configMapRef :: string
  cs_sourceRef :: "object_reference option"

record import_status =
  is_name :: string
  is_type :: import_status_type
  is_target :: string
  is_targets :: "target_import_status list"
  is_componentDescriptorRef :: "component_descriptor_reference option"
  is_componentDescriptors :: "cd_import_status list"
  is_dataRef :: string
  is_secretRef :: string
  is_configMapRef :: string
  is_sourceRef :: "object_reference option"
  is_configGeneration :: string

record installation_spec =
  in_context :: string
  in_componentDescriptor :: "component_descriptor_definition option"
  in_blueprint :: blueprint_definition
  in_registryPullSecrets :: "object_reference list"
  in_imports :: installation_imports
  in_importDataMappings :: smap
  in_exports :: installation_exports
  in_exportDataMappings :: smap

record installation_status =
  ins_phase :: phase
  ins_observedGeneration :: int
  ins_conditions :: "condition list"
  ins_lastError :: "ls_error option"
  ins_configGeneration :: string
  ins_imports :: "import_status list"
  ins_installationReferences :: "named_object_reference list"
  ins_executionReference :: "object_reference option"

record installation =
  in_meta :: object_meta
  in_spec :: installation_spec
  in_status :: installation_status

section \<open>Blueprints and installation templates (types\_blueprint.go)\<close>

record field_value_definition =
  fv_name :: string
  fv_schema :: "string option"
  fv_targetType :: string

text \<open>Conditional imports nest, so an import definition is a datatype.\<close>

datatype import_definition =
  ImportDefinition
    (id_fieldValue: field_value_definition)
    (id_type: string)
    (id_required: "bool option")
    (id_default: "string option")
    (id_conditionalImports: "import_definition list")

record export_definition =
  xd_fieldValue :: field_value_definition
  xd_type :: string

record template_executor =
  te_name :: string
  te_type :: string
  te_file :: string
  te_template :: "string option"

record installation_template_blueprint_definition =
  tb_ref :: string
  tb_filesystem :: string

record installation_template =
  it_name :: string
  it_blueprint :: installation_template_blueprint_definition
  it_imports :: installation_imports
  it_importDataMappings :: smap
  it_exports :: installation_exports
  it_exportDataMappings :: smap

record subinstallation_template =
  st_file :: string
  st_installationTemplate :: "installation_template option"

record blueprint =
  bp_annotations :: smap
  bp_jsonSchemaVersion :: string
  bp_localTypes :: smap
  bp_imports :: "import_definition list"
  bp_importExecutions :: "template_executor list"
  bp_exports :: "export_definition list"
  bp_subinstallations :: "subinstallation_template list"
  bp_subinstallationExecutions :: "template_executor list"
  bp_deployExecutions :: "template_executor list"
  bp_exportExecutions :: "template_executor list"

section \<open>Component overwrites (types\_component\_overwrite.go)\<close>

record component_overwrite_reference =
  ov_repositoryContext :: "string option"
  ov_componentName :: string
  ov_version :: string

record component_overwrite =
  ov_component :: component_overwrite_reference
  ov_target :: component_overwrite_reference

record component_overwrites =
  ov_meta :: object_meta
  ov_overwrites :: "component_overwrite list"

section \<open>Targets and contexts (types\_target.go, types\_context.go)\<close>

text \<open>The configuration of a target is its text, \<open>None\<close> the missing raw message.\<close>

record target_spec =
  tg_type :: string
  tg_configuration :: "string option"

record target =
  tg_meta :: object_meta
  tg_spec :: target_spec

record ls_context =
  lc_meta :: object_meta
  lc_repositoryContext :: "string option"
  lc_registryPullSecrets :: "string list"
  lc_configurations :: smap

text \<open>The selector of a deployer (types\_deployitem.go).\<close>

record requirement =
  rq_key :: string
  rq_operator :: string
  rq_values :: "string list"

record target_selector =
  ts_targets :: "object_reference list"
  ts_annotations :: "requirement list"
  ts_labels :: "requirement list"

section \<open>Names (constants.go, types\_execution.go)\<close>

definition LandscaperFinalizer :: string where
  "LandscaperFinalizer = ''finalizer.landscaper.gardener.cloud''"

definition OperationAnnotation :: string where
  "OperationAnnotation = ''landscaper.gardener.cloud/operation''"

definition ReconcileTimestampAnnotation :: string where
  "ReconcileTimestampAnnotation = ''landscaper.gardener.cloud/reconcile-time''"

definition AbortTimestampAnnotation :: string where
  "AbortTimestampAnnotation = ''landscaper.gardener.cloud/abort-time''"

definition ExecutionManagedByLabel :: string where
  "ExecutionManagedByLabel = ''execution.landscaper.gardener.cloud/managed-by''"

definition ExecutionManagedNameLabel :: string where
  "ExecutionManagedNameLabel = ''execution.landscaper.gardener.cloud/name''"

definition ExecutionDependsOnAnnotation :: string where
  "ExecutionDependsOnAnnotation = ''execution.landscaper.gardener.cloud/dependsOn''"

definition ReconcileDeployItemsCondition :: string where
  "ReconcileDeployItemsCondition = ''ReconcileDeployItems''"

definition ReconcileOperation :: string where
  "ReconcileOperation = ''reconcile''"

definition ForceReconcileOperation :: string where
  "ForceReconcileOperation = ''force-reconcile''"

definition AbortOperation :: string where
  "AbortOperation = ''abort''"

definition PickupTimeoutReason :: string where
  "PickupTimeoutReason = ''PickupTimeout''"

definition PickupTimeoutOperation :: string where
  "PickupTimeoutOperation = ''WaitingForPickup''"

definition AbortingTimeoutReason :: string where
  "AbortingTimeoutReason = ''AbortingTimeout''"

definition AbortingTimeoutOperation :: string where
  "AbortingTimeoutOperation = ''WaitingForAbort''"

lemma annotation_names_distinct [simp]:
  "OperationAnnotation \<noteq> ReconcileTimestampAnnotation"
  "OperationAnnotation \<noteq> AbortTimestampAnnotation"
  "ReconcileTimestampAnnotation \<noteq> AbortTimestampAnnotation"
  "ReconcileTimestampAnnotation \<noteq> OperationAnnotation"
  "AbortTimestampAnnotation \<noteq> OperationAnnotation"
  "AbortTimestampAnnotation \<noteq> ReconcileTimestampAnnotation"
  "ExecutionDependsOnAnnotation \<noteq> OperationAnnotation"
  "ExecutionDependsOnAnnotation \<noteq> ReconcileTimestampAnnotation"
  "OperationAnnotation \<noteq> ExecutionDependsOnAnnotation"
  "ReconcileTimestampAnnotation \<noteq> ExecutionDependsOnAnnotation"
  by (simp_all add: OperationAnnotation_def ReconcileTimestampAnnotation_def
      AbortTimestampAnnotation_def ExecutionDependsOnAnnotation_def)

lemma operation_names_distinct [simp]:
  "ReconcileOperation \<noteq> ForceReconcileOperation" "ForceReconcileOperation \<noteq> ReconcileOperation"
  "ReconcileOperation \<noteq> AbortOperation" "AbortOperation \<noteq> ReconcileOperation"
  "ForceReconcileOperation \<noteq> AbortOperation" "AbortOperation \<noteq> ForceReconcileOperation"
  "ReconcileOperation \<noteq> []" "ForceReconcileOperation \<noteq> []" "AbortOperation \<noteq> []"
  by (simp_all add: ReconcileOperation_def ForceReconcileOperation_def AbortOperation_def)

lemma label_names_distinct [simp]:
  "ExecutionManagedByLabel \<noteq> ExecutionManagedNameLabel"
  "ExecutionManagedNameLabel \<noteq> ExecutionManagedByLabel"
  by (simp_all add: ExecutionManagedByLabel_def ExecutionManagedNameLabel_def)

end
