(* ===== verification/ApiHelpers.thy ===== *)
theory ApiHelpers
  imports CoreTypes
begin

text \<open>
  The helpers of \<open>apis/core/v1alpha1/helper/helpers.go\<close> and the metadata helpers of
  \<open>controller-utils/pkg/kubernetes/kubernetes.go\<close>: operation and timestamp annotations,
  conditions, named references, and the combination of phases. Clock reads are arguments
  (\<open>now\<close>); one call of a helper sees one time. How a time is written into an annotation and
  read back depends on the zone of the process: the formatter and the parser are arguments.
\<close>

section \<open>Annotations\<close>

datatype timestamp_annotation = ReconcileTimestamp | AbortTimestamp

fun timestamp_annotation_name :: "timestamp_annotation \<Rightarrow> string" where
  "timestamp_annotation_name ReconcileTimestamp = ReconcileTimestampAnnotation"
| "timestamp_annotation_name AbortTimestamp = AbortTimestampAnnotation"

definition SetMetaDataAnnotation :: "object_meta \<Rightarrow> string \<Rightarrow> string \<Rightarrow> object_meta" where
  "SetMetaDataAnnotation m k v = m\<lparr>om_annotations := smap_set (om_annotations m) k v\<rparr>"

definition HasAnnotation :: "object_meta \<Rightarrow> string \<Rightarrow> bool" where
  "HasAnnotation m k = smap_has (om_annotations m) k"

definition HasOperation :: "object_meta \<Rightarrow> string \<Rightarrow> bool" where
  "HasOperation m op = (case map_of (om_annotations m) OperationAnnotation of
     None \<Rightarrow> False
   | Some currentOp \<Rightarrow> currentOp = op)"

definition GetOperation :: "object_meta \<Rightarrow> string" where
  "GetOperation m = smap_get (om_annotations m) OperationAnnotation"

definition SetOperation :: "object_meta \<Rightarrow> string \<Rightarrow> object_meta" where
  "SetOperation m op = SetMetaDataAnnotation m OperationAnnotation op"

definition GetTimestampAnnotation ::
    "(string \<Rightarrow> time option) \<Rightarrow> object_meta \<Rightarrow> timestamp_annotation \<Rightarrow> time option" where
  "GetTimestampAnnotation parse m ta =
     parse (smap_get (om_annotations m) (timestamp_annotation_name ta))"

definition SetTimestampAnnotationNow ::
    "(time \<Rightarrow> string) \<Rightarrow> time \<Rightarrow> object_meta \<Rightarrow> timestamp_annotation \<Rightarrow> object_meta" where
  "SetTimestampAnnotationNow fmt now m ta =
     SetMetaDataAnnotation m (timestamp_annotation_name ta) (fmt now)"

definition SetAbortOperationAndTimestamp ::
    "(time \<Rightarrow> string) \<Rightarrow> time \<Rightarrow> object_meta \<Rightarrow> object_meta" where
  "SetAbortOperationAndTimestamp fmt now m =
     SetTimestampAnnotationNow fmt now (SetOperation m AbortOperation) AbortTimestamp"

definition RemoveAbortOperationAndTimestamp :: "object_meta \<Rightarrow> object_meta" where
  "RemoveAbortOperationAndTimestamp m =
     (if om_annotations m = [] then m
      else let anns = om_annotations m;
               anns1 = (if map_of anns OperationAnnotation = Some AbortOperation
                        then smap_del anns OperationAnnotation else anns)
           in m\<lparr>om_annotations := smap_del anns1 AbortTimestampAnnotation\<rparr>)"

section \<open>Finalizers, labels and owners (kubernetes.go)\<close>

fun HasFinalizer :: "string list \<Rightarrow> string \<Rightarrow> bool" where
  "HasFinalizer [] finalizer = False"
| "HasFinalizer (f # fs) finalizer = (if f = finalizer then True else HasFinalizer fs finalizer)"

text \<open>\<open>controllerutil.AddFinalizer\<close> and \<open>RemoveFinalizer\<close> of the client library.\<close>

definition AddFinalizer :: "object_meta \<Rightarrow> string \<Rightarrow> object_meta" where
  "AddFinalizer m f = (if f \<in> set (om_finalizers m) then m
                       else m\<lparr>om_finalizers := om_finalizers m @ [f]\<rparr>)"

definition RemoveFinalizer :: "object_meta \<Rightarrow> string \<Rightarrow> object_meta" where
  "RemoveFinalizer m f = m\<lparr>om_finalizers := filter (\<lambda>g. g \<noteq> f) (om_finalizers m)\<rparr>"

definition SetMetaDataLabel :: "object_meta \<Rightarrow> string \<Rightarrow> string \<Rightarrow> object_meta" where
  "SetMetaDataLabel m lab value = m\<lparr>om_labels := smap_set (om_labels m) lab value\<rparr>"

definition HasLabel :: "object_meta \<Rightarrow> string \<Rightarrow> bool" where
  "HasLabel m lab = smap_has (om_labels m) lab"

definition HasLabelWithValue :: "object_meta \<Rightarrow> string \<Rightarrow> string \<Rightarrow> bool" where
  "HasLabelWithValue m lab value =
     (case map_of (om_labels m) lab of None \<Rightarrow> False | Some v \<Rightarrow> v = value)"

text \<open>\<open>schema.ParseGroupVersion\<close>: at most one slash; \<open>None\<close> is the error.\<close>

definition ParseGroupVersion :: "string \<Rightarrow> (string \<times> string) option" where
  "ParseGroupVersion gv =
     (if gv = [] \<or> gv = ''/'' then Some ([], [])
      else case str_split gv (CHR ''/'') of
             [v] \<Rightarrow> Some ([], v)
           | [g, v] \<Rightarrow> Some (g, v)
           | _ \<Rightarrow> None)"

fun OwnerOfGVK :: "owner_reference list \<Rightarrow> string \<Rightarrow> string \<Rightarrow> string option" where
  "OwnerOfGVK [] gvkGroup gvkKind = None"
| "OwnerOfGVK (r # rs) gvkGroup gvkKind =
     (case ParseGroupVersion (ow_apiVersion r) of
        None \<Rightarrow> OwnerOfGVK rs gvkGroup gvkKind
      | Some (g, v) \<Rightarrow>
          (if g = gvkGroup \<and> ow_kind r = gvkKind then Some (ow_name r)
           else OwnerOfGVK rs gvkGroup gvkKind))"

fun controlling_owner :: "owner_reference list \<Rightarrow> owner_reference option" where
  "controlling_owner [] = None"
| "controlling_owner (r # rs) =
     (if ow_controller r = Some True then Some r else controlling_owner rs)"

definition GetOwner :: "object_meta \<Rightarrow> owner_reference option" where
  "GetOwner m = (case om_ownerReferences m of
     [r] \<Rightarrow> Some r
   | rs \<Rightarrow> controlling_owner rs)"

section \<open>Conditions\<close>

definition InitCondition :: "time \<Rightarrow> condition_type \<Rightarrow> condition" where
  "InitCondition now conditionType =
     \<lparr>co_type = conditionType, co_status = ConditionUnknown,
      co_lastTransitionTime = now, co_lastUpdateTime = 0,
      co_reason = ''ConditionInitialized'',
      co_message = ''The condition has been initialized but its semantic check has not been performed yet.'',
      co_codes = []\<rparr>"

fun GetCondition :: "condition list \<Rightarrow> condition_type \<Rightarrow> condition option" where
  "GetCondition [] conditionType = None"
| "GetCondition (c # cs) conditionType =
     (if co_type c = conditionType then Some c else GetCondition cs conditionType)"

definition GetOrInitCondition :: "time \<Rightarrow> condition list \<Rightarrow> condition_type \<Rightarrow> condition" where
  "GetOrInitCondition now conditions conditionType =
     (case GetCondition conditions conditionType of
        Some c \<Rightarrow> c
      | None \<Rightarrow> InitCondition now conditionType)"

definition UpdatedCondition ::
    "time \<Rightarrow> condition \<Rightarrow> condition_status \<Rightarrow> string \<Rightarrow> string \<Rightarrow> error_code list \<Rightarrow> condition" where
  "UpdatedCondition now condition status reason message codes =
     (let newCondition =
            \<lparr>co_type = co_type condition, co_status = status,
             co_lastTransitionTime = co_lastTransitionTime condition,
             co_lastUpdateTime = co_lastUpdateTime condition,
             co_reason = reason, co_message = message, co_codes = codes\<rparr>;
          newCondition1 = (if condition \<noteq> newCondition
                           then newCondition\<lparr>co_lastUpdateTime := now\<rparr> else newCondition)
      in if co_status condition \<noteq> status
         then newCondition1\<lparr>co_lastTransitionTime := now\<rparr> else newCondition1)"

fun CreateOrUpdateConditions ::
    "time \<Rightarrow> condition list \<Rightarrow> condition_type \<Rightarrow> condition_status \<Rightarrow> string \<Rightarrow> string
      \<Rightarrow> error_code list \<Rightarrow> condition list" where
  "CreateOrUpdateConditions now [] condType status reason message codes =
     [UpdatedCondition now (InitCondition now condType) status reason message codes]"
| "CreateOrUpdateConditions now (c # cs) condType status reason message codes =
     (if co_type c = condType
      then UpdatedCondition now c status reason message codes # cs
      else c # CreateOrUpdateConditions now cs condType status reason message codes)"

text \<open>
  \<open>MergeConditions\<close> indexes the old conditions by type, the last one winning, and replaces
  in place or appends. A type that only occurs among the new conditions is not indexed.
\<close>

fun type_to_index :: "nat \<Rightarrow> condition list \<Rightarrow> (condition_type \<rightharpoonup> nat) \<Rightarrow> condition_type \<rightharpoonup> nat" where
  "type_to_index i [] m = m"
| "type_to_index i (c # cs) m = type_to_index (Suc i) cs (m(co_type c \<mapsto> i))"

fun merge_new :: "(condition_type \<rightharpoonup> nat) \<Rightarrow> condition list \<Rightarrow> condition list \<Rightarrow> condition list" where
  "merge_new typeToIndex out [] = out"
| "merge_new typeToIndex out (c # cs) =
     (case typeToIndex (co_type c) of
        Some index \<Rightarrow> merge_new typeToIndex (out[index := c]) cs
      | None \<Rightarrow> merge_new typeToIndex (out @ [c]) cs)"

definition MergeConditions :: "condition list \<Rightarrow> condition list \<Rightarrow> condition list" where
  "MergeConditions oldConditions newConditions =
     merge_new (type_to_index 0 oldConditions Map.empty) oldConditions newConditions"

fun IsConditionStatus :: "condition list \<Rightarrow> condition_status \<Rightarrow> bool" where
  "IsConditionStatus [] status = True"
| "IsConditionStatus (c # cs) status =
     (if co_status c \<noteq> status then False else IsConditionStatus cs status)"

section \<open>Object references\<close>

definition ObjectReferenceFromObject :: "object_meta \<Rightarrow> object_reference" where
  "ObjectReferenceFromObject m = \<lparr>or_name = om_name m, or_namespace = om_namespace m\<rparr>"

fun CreateOrUpdateVersionedObjectReferences ::
    "versioned_object_reference list \<Rightarrow> object_reference \<Rightarrow> int \<Rightarrow> versioned_object_reference list" where
  "CreateOrUpdateVersionedObjectReferences [] ref gen =
     [\<lparr>vo_ref = ref, vo_observedGeneration = gen\<rparr>]"
| "CreateOrUpdateVersionedObjectReferences (v # vs) ref gen =
     (if vo_ref v = ref then \<lparr>vo_ref = ref, vo_observedGeneration = gen\<rparr> # vs
      else v # CreateOrUpdateVersionedObjectReferences vs ref gen)"

fun GetNamedObjectReference ::
    "named_object_reference list \<Rightarrow> string \<Rightarrow> named_object_reference option" where
  "GetNamedObjectReference [] name = None"
| "GetNamedObjectReference (r # rs) name =
     (if no_name r = name then Some r else GetNamedObjectReference rs name)"

fun GetVersionedNamedObjectReference ::
    "versioned_named_object_reference list \<Rightarrow> string \<Rightarrow> versioned_named_object_reference option" where
  "GetVersionedNamedObjectReference [] name = None"
| "GetVersionedNamedObjectReference (r # rs) name =
     (if vn_name r = name then Some r else GetVersionedNamedObjectReference rs name)"

definition ReferenceIsObject :: "object_reference \<Rightarrow> object_meta \<Rightarrow> bool" where
  "ReferenceIsObject ref m = (or_name ref = om_name m \<and> or_namespace ref = om_namespace m)"

fun SetVersionedNamedObjectReference ::
    "versioned_named_object_reference list \<Rightarrow> versioned_named_object_reference
      \<Rightarrow> versioned_named_object_reference list" where
  "SetVersionedNamedObjectReference [] obj = [obj]"
| "SetVersionedNamedObjectReference (r # rs) obj =
     (if vn_name r = vn_name obj then obj # rs
      else r # SetVersionedNamedObjectReference rs obj)"

section \<open>Phases\<close>

definition IsCompletedInstallationPhase :: "phase \<Rightarrow> bool" where
  "IsCompletedInstallationPhase p = (p = PhFailed \<or> p = PhAborted \<or> p = PhSucceeded)"

definition IsProgressingInstallationPhase :: "phase \<Rightarrow> bool" where
  "IsProgressingInstallationPhase p = (p = PhProgressing \<or> p = PhPending \<or> p = PhDeleting)"

fun combine_phases :: "phase list \<Rightarrow> bool \<Rightarrow> bool \<Rightarrow> bool \<Rightarrow> bool \<Rightarrow> phase" where
  "combine_phases [] failed aborted init none =
     (if aborted then PhAborted
      else if failed then PhFailed
      else if init then PhInit
      else if none then PhEmpty
      else PhSucceeded)"
| "combine_phases (p # ps) failed aborted init none =
     (case p of
        PhProgressing \<Rightarrow> PhProgressing
      | PhPending \<Rightarrow> PhProgressing
      | PhDeleting \<Rightarrow> PhProgressing
      | PhFailed \<Rightarrow> combine_phases ps True aborted init False
      | PhAborted \<Rightarrow> combine_phases ps failed True init False
      | PhInit \<Rightarrow> combine_phases ps failed aborted True False
      | PhSucceeded \<Rightarrow> combine_phases ps failed aborted init False
      | _ \<Rightarrow> combine_phases ps failed aborted init none)"

definition CombinedInstallationPhase :: "phase list \<Rightarrow> phase" where
  "CombinedInstallationPhase phases =
     (if phases = [] then PhEmpty else combine_phases phases False False False True)"

definition IsCompletedExecutionPhase :: "phase \<Rightarrow> bool" where
  "IsCompletedExecutionPhase p = IsCompletedInstallationPhase p"

definition IsProgressingExecutionPhase :: "phase \<Rightarrow> bool" where
  "IsProgressingExecutionPhase p = IsProgressingInstallationPhase p"

definition CombinedExecutionPhase :: "phase list \<Rightarrow> phase" where
  "CombinedExecutionPhase phases = CombinedInstallationPhase phases"

section \<open>Facts about phases\<close>

text \<open>
  The specification of the combination: every phase has a rank, and the combined phase is the
  phase of the greatest rank. The loop of the code, with its flags and its early return,
  computes exactly that.
\<close>

fun phase_rank :: "phase \<Rightarrow> nat" where
  "phase_rank PhSucceeded = 1"
| "phase_rank PhInit = 2"
| "phase_rank PhFailed = 3"
| "phase_rank PhAborted = 4"
| "phase_rank PhProgressing = 5"
| "phase_rank PhPending = 5"
| "phase_rank PhDeleting = 5"
| "phase_rank PhEmpty = 0"
| "phase_rank (PhOther s) = 0"

definition phase_of_rank :: "nat \<Rightarrow> phase" where
  "phase_of_rank n =
     (if n = 0 then PhEmpty else if n = 1 then PhSucceeded else if n = 2 then PhInit
      else if n = 3 then PhFailed else if n = 4 then PhAborted else PhProgressing)"

definition max_rank :: "phase list \<Rightarrow> nat" where
  "max_rank ps = foldr (\<lambda>p. max (phase_rank p)) ps 0"

lemma max_rank_simps [simp]:
  "max_rank [] = 0" "max_rank (p # ps) = max (phase_rank p) (max_rank ps)"
  by (simp_all add: max_rank_def)

lemma phase_rank_le_5: "phase_rank p \<le> 5"
  by (cases p) simp_all

lemma max_rank_le_5: "max_rank ps \<le> 5"
  by (induction ps) (simp_all add: phase_rank_le_5)

lemma max_rank_append [simp]: "max_rank (ps @ qs) = max (max_rank ps) (max_rank qs)"
  by (induction ps) auto

lemma max_rank_ge_iff: "0 < n \<Longrightarrow> n \<le> max_rank ps \<longleftrightarrow> (\<exists>p \<in> set ps. n \<le> phase_rank p)"
  by (induction ps) auto

lemma max_rank_set: "set ps = set qs \<Longrightarrow> max_rank ps = max_rank qs"
proof (induction "max_rank ps" rule: less_induct)
  case less
  have "max_rank ps \<le> max_rank qs" "max_rank qs \<le> max_rank ps"
    using max_rank_ge_iff [of "max_rank ps" ps] max_rank_ge_iff [of "max_rank ps" qs]
      max_rank_ge_iff [of "max_rank qs" ps] max_rank_ge_iff [of "max_rank qs" qs] less.prems
    by (cases "max_rank ps = 0"; cases "max_rank qs = 0"; auto)+
  then show ?case by simp
qed

lemma phase_rank_of_rank: "n \<le> 5 \<Longrightarrow> phase_rank (phase_of_rank n) = n"
  by (simp add: phase_of_rank_def)

lemma phase_of_rank_eq_iff:
  "phase_of_rank n = PhSucceeded \<longleftrightarrow> n = 1"
  "phase_of_rank n = PhEmpty \<longleftrightarrow> n = 0"
  "phase_of_rank n = PhInit \<longleftrightarrow> n = 2"
  "phase_of_rank n = PhFailed \<longleftrightarrow> n = 3"
  "phase_of_rank n = PhAborted \<longleftrightarrow> n = 4"
  "phase_of_rank n = PhProgressing \<longleftrightarrow> 5 \<le> n"
  by (auto simp: phase_of_rank_def)

fun flags_rank :: "bool \<Rightarrow> bool \<Rightarrow> bool \<Rightarrow> bool \<Rightarrow> nat" where
  "flags_rank failed aborted init none =
     (if aborted then 4 else if failed then 3 else if init then 2 else if none then 0 else 1)"

lemma flags_rank_step:
  "flags_rank True aborted init False = max 3 (flags_rank failed aborted init none)"
  "flags_rank failed True init False = max 4 (flags_rank failed aborted init none)"
  "flags_rank failed aborted True False = max 2 (flags_rank failed aborted init none)"
  "flags_rank failed aborted init False = max 1 (flags_rank failed aborted init none)"
  by auto

lemma combine_phases_rank:
  "(failed \<or> aborted \<or> init \<longrightarrow> \<not> none) \<Longrightarrow>
   combine_phases ps failed aborted init none =
     phase_of_rank (max (max_rank ps) (flags_rank failed aborted init none))"
proof (induction ps arbitrary: failed aborted init none)
  case Nil
  then show ?case by (simp add: phase_of_rank_def)
next
  case (Cons p ps)
  have five: "phase_of_rank (max (max 5 m) k) = PhProgressing" for m k
    by (auto simp: phase_of_rank_eq_iff)
  show ?case
    using Cons.prems Cons.IH [of True aborted init False] Cons.IH [of failed True init False]
      Cons.IH [of failed aborted True False] Cons.IH [of failed aborted init False]
      Cons.IH [of failed aborted init none] five
    by (cases p)
      (simp_all del: flags_rank.simps
        add: flags_rank_step(1) [of aborted init failed none]
          flags_rank_step(2) [of failed init aborted none]
          flags_rank_step(3) [of failed aborted init none]
          flags_rank_step(4) [of failed aborted init none] max.left_commute max.assoc)
qed

theorem CombinedInstallationPhase_rank:
  "CombinedInstallationPhase ps = phase_of_rank (max_rank ps)"
  by (simp add: CombinedInstallationPhase_def combine_phases_rank phase_of_rank_def)

lemma CombinedInstallationPhase_set:
  "set ps = set qs \<Longrightarrow> CombinedInstallationPhase ps = CombinedInstallationPhase qs"
  by (simp add: CombinedInstallationPhase_rank cong: max_rank_set)

lemma CombinedInstallationPhase_append:
  "CombinedInstallationPhase (ps @ qs) =
     CombinedInstallationPhase [CombinedInstallationPhase ps, CombinedInstallationPhase qs]"
  by (simp add: CombinedInstallationPhase_rank phase_rank_of_rank max_rank_le_5)

lemma CombinedInstallationPhase_completed:
  "IsCompletedInstallationPhase (CombinedInstallationPhase ps) \<longleftrightarrow>
     max_rank ps \<in> {1, 3, 4}"
  by (auto simp: IsCompletedInstallationPhase_def CombinedInstallationPhase_rank phase_of_rank_eq_iff)

lemma CombinedExecutionPhase_rank: "CombinedExecutionPhase ps = phase_of_rank (max_rank ps)"
  by (simp add: CombinedExecutionPhase_def CombinedInstallationPhase_rank)

lemma rank_CombinedExecutionPhase [simp]: "phase_rank (CombinedExecutionPhase ps) = max_rank ps"
  by (simp add: CombinedExecutionPhase_rank phase_rank_of_rank max_rank_le_5)

lemma IsCompletedExecutionPhase_rank:
  "IsCompletedExecutionPhase p \<longleftrightarrow> phase_rank p \<in> {1, 3, 4}"
  by (cases p) (simp_all add: IsCompletedExecutionPhase_def IsCompletedInstallationPhase_def)

lemma max_rank_Succeeded:
  "max_rank ps = 1 \<longleftrightarrow> PhSucceeded \<in> set ps \<and> (\<forall>p \<in> set ps. phase_rank p \<le> 1)"
proof -
  have one: "phase_rank p = 1 \<longleftrightarrow> p = PhSucceeded" for p by (cases p) simp_all
  have "max_rank ps = 1 \<longleftrightarrow> 1 \<le> max_rank ps \<and> \<not> 2 \<le> max_rank ps" by auto
  also have "\<dots> \<longleftrightarrow> (\<exists>p \<in> set ps. 1 \<le> phase_rank p) \<and> \<not> (\<exists>p \<in> set ps. 2 \<le> phase_rank p)"
    by (simp only: max_rank_ge_iff zero_less_one zero_less_numeral)
  also have "\<dots> \<longleftrightarrow> PhSucceeded \<in> set ps \<and> (\<forall>p \<in> set ps. phase_rank p \<le> 1)"
    by (metis le_antisym not_less_eq_eq numeral_2_eq_2 one phase_rank.simps(1) One_nat_def order_refl)
  finally show ?thesis .
qed

section \<open>Facts about the tables\<close>

interpretation condition_lookup: key_lookup co_type GetCondition
proof
  show "GetCondition xs k = Some x \<Longrightarrow> x \<in> set xs \<and> co_type x = k" for xs k x
    by (induction xs) (auto split: if_splits)
  show "x \<in> set xs \<Longrightarrow> GetCondition xs (co_type x) \<noteq> None" for xs and x :: condition
    by (induction xs) auto
qed

interpretation named_refs: key_lookup no_name GetNamedObjectReference
proof
  show "GetNamedObjectReference xs k = Some x \<Longrightarrow> x \<in> set xs \<and> no_name x = k" for xs k x
    by (induction xs) (auto split: if_splits)
  show "x \<in> set xs \<Longrightarrow> GetNamedObjectReference xs (no_name x) \<noteq> None"
    for xs and x :: named_object_reference
    by (induction xs) auto
qed

interpretation item_refs: keyed_store vn_name GetVersionedNamedObjectReference
  SetVersionedNamedObjectReference "\<lambda>_. True"
proof
  show "GetVersionedNamedObjectReference xs k = Some x \<Longrightarrow> x \<in> set xs \<and> vn_name x = k" for xs k x
    by (induction xs) (auto split: if_splits)
  show "x \<in> set xs \<Longrightarrow> GetVersionedNamedObjectReference xs (vn_name x) \<noteq> None"
    for xs and x :: versioned_named_object_reference
    by (induction xs) auto
  show "True \<Longrightarrow> GetVersionedNamedObjectReference (SetVersionedNamedObjectReference xs x)
      (vn_name x) = Some x" for xs and x :: versioned_named_object_reference
    by (induction xs) auto
  show "True \<Longrightarrow> k \<noteq> vn_name x \<Longrightarrow>
      GetVersionedNamedObjectReference (SetVersionedNamedObjectReference xs x) k =
      GetVersionedNamedObjectReference xs k" for xs k and x :: versioned_named_object_reference
    by (induction xs) auto
qed simp

subsection \<open>Merging conditions\<close>

lemma type_to_index_notin:
  "t \<notin> co_type ` set cs \<Longrightarrow> type_to_index i cs m t = m t"
  by (induction cs arbitrary: i m) auto

lemma type_to_index_in:
  "t \<in> co_type ` set cs \<Longrightarrow>
   \<exists>j < length cs. type_to_index i cs m t = Some (i + j) \<and> co_type (cs ! j) = t"
proof (induction cs arbitrary: i m)
  case Nil
  then show ?case by simp
next
  case (Cons c cs)
  show ?case
  proof (cases "t \<in> co_type ` set cs")
    case True
    from Cons.IH [OF True, of "Suc i" "m(co_type c \<mapsto> i)"] obtain j where "j < length cs"
      and "type_to_index (Suc i) cs (m(co_type c \<mapsto> i)) t = Some (Suc i + j)" and "co_type (cs ! j) = t"
      by blast
    then show ?thesis by (intro exI [of _ "Suc j"]) simp
  next
    case False
    with Cons.prems have "co_type c = t" by auto
    with False show ?thesis by (intro exI [of _ 0]) (simp add: type_to_index_notin)
  qed
qed

lemma MergeConditions_single:
  assumes "distinct (map co_type old)"
  shows "MergeConditions old [c] =
    (if co_type c \<in> co_type ` set old
     then map (\<lambda>x. if co_type x = co_type c then c else x) old else old @ [c])"
proof (cases "co_type c \<in> co_type ` set old")
  case True
  from type_to_index_in [OF True, of 0 Map.empty] obtain j where j: "j < length old"
    "type_to_index 0 old Map.empty (co_type c) = Some j" "co_type (old ! j) = co_type c" by auto
  have "old[j := c] = map (\<lambda>x. if co_type x = co_type c then c else x) old"
  proof (rule nth_equalityI)
    fix i assume "i < length (old[j := c])"
    then have i: "i < length old" by simp
    have "co_type (old ! i) = co_type c \<longleftrightarrow> i = j"
      using assms i j(1,3) by (metis length_map nth_eq_iff_index_eq nth_map)
    then show "old[j := c] ! i = map (\<lambda>x. if co_type x = co_type c then c else x) old ! i"
      using i by (simp add: nth_list_update)
  qed simp
  with True j show ?thesis by (simp add: MergeConditions_def)
next
  case False
  then show ?thesis by (simp add: MergeConditions_def type_to_index_notin)
qed

lemma MergeConditions_types:
  assumes "distinct (map co_type old)"
  shows "distinct (map co_type (MergeConditions old [c]))"
proof -
  have "map co_type (map (\<lambda>x. if co_type x = co_type c then c else x) old) = map co_type old"
    by simp
  with assms show ?thesis
    by (cases "co_type c \<in> co_type ` set old")
      (simp_all add: MergeConditions_single del: map_map)
qed

interpretation condition_table: keyed_store co_type GetCondition
  "\<lambda>cs c. MergeConditions cs [c]" "\<lambda>cs. distinct (map co_type cs)"
proof
  fix xs :: "condition list" and x k
  assume d: "distinct (map co_type xs)"
  show "distinct (map co_type (MergeConditions xs [x]))"
    by (rule MergeConditions_types [OF d])
  have upd: "GetCondition (map (\<lambda>y. if co_type y = co_type x then x else y) zs) k' =
      (if k' = co_type x \<and> k' \<in> co_type ` set zs then Some x else GetCondition zs k')" for zs k'
    by (induction zs) auto
  have app: "GetCondition (zs @ [x]) k' =
      (case GetCondition zs k' of None \<Rightarrow> if k' = co_type x then Some x else None | Some y \<Rightarrow> Some y)"
    for zs k'
    by (induction zs) auto
  show "GetCondition (MergeConditions xs [x]) (co_type x) = Some x"
    by (simp add: MergeConditions_single [OF d] upd app condition_lookup.lookup_None_iff
        split: option.splits)
      (metis condition_lookup.lookup_None_iff option.distinct(1))
  show "GetCondition (MergeConditions xs [x]) k = GetCondition xs k" if "k \<noteq> co_type x"
    using that by (simp add: MergeConditions_single [OF d] upd app split: option.splits)
qed

text \<open>
  Updating a condition moves the transition time exactly when the status changes, and the update
  time exactly when anything changes.
\<close>

lemma UpdatedCondition_status [simp]:
  "co_status (UpdatedCondition now c s r msg codes) = s"
  "co_type (UpdatedCondition now c s r msg codes) = co_type c"
  by (cases c, auto simp: UpdatedCondition_def Let_def)+

section \<open>Facts about annotations\<close>

lemma HasOperation_SetOperation: "HasOperation (SetOperation m op) op' \<longleftrightarrow> op = op'"
  by (simp add: HasOperation_def SetOperation_def SetMetaDataAnnotation_def)

lemma RemoveAbort_not_HasOperation:
  "\<not> HasOperation (RemoveAbortOperationAndTimestamp m) AbortOperation"
  by (auto simp: HasOperation_def RemoveAbortOperationAndTimestamp_def Let_def split: option.splits)

lemma RemoveAbort_no_timestamp:
  "\<not> HasAnnotation (RemoveAbortOperationAndTimestamp m) AbortTimestampAnnotation"
  by (simp add: HasAnnotation_def RemoveAbortOperationAndTimestamp_def Let_def smap_has_def)

lemma RemoveAbort_other_operation:
  "op \<noteq> AbortOperation \<Longrightarrow>
   HasOperation (RemoveAbortOperationAndTimestamp m) op \<longleftrightarrow> HasOperation m op"
  by (auto simp: HasOperation_def RemoveAbortOperationAndTimestamp_def Let_def split: option.splits)

lemma HasFinalizer_iff [simp]: "HasFinalizer fs f \<longleftrightarrow> f \<in> set fs"
  by (induction fs) auto

lemma RemoveFinalizer_AddFinalizer:
  assumes "f \<notin> set (om_finalizers m)"
  shows "RemoveFinalizer (AddFinalizer m f) f = m"
proof -
  have "filter (\<lambda>g. g \<noteq> f) (om_finalizers m) = om_finalizers m"
    using assms by (auto simp: filter_id_conv)
  with assms show ?thesis by (simp add: RemoveFinalizer_def AddFinalizer_def)
qed

subsection \<open>Merging many conditions\<close>

lemma merge_new_cong:
  "(\<And>c. c \<in> set cs \<Longrightarrow> m (co_type c) = m' (co_type c)) \<Longrightarrow> merge_new m out cs = merge_new m' out cs"
  by (induction cs arbitrary: out) (auto split: option.splits)

lemma type_to_index_types:
  "map co_type cs = map co_type cs' \<Longrightarrow> type_to_index i cs m = type_to_index i cs' m"
proof (induction cs arbitrary: cs' i m)
  case (Cons c cs)
  then obtain c' ds where "cs' = c' # ds" "co_type c = co_type c'" "map co_type cs = map co_type ds" by auto
  with Cons.IH [of ds] show ?case by simp
qed simp

lemma type_to_index_append:
  "type_to_index i (cs @ cs') m = type_to_index (i + length cs) cs' (type_to_index i cs m)"
  by (induction cs arbitrary: i m) auto

lemma MergeConditions_Cons:
  assumes "distinct (map co_type old)" and "co_type c \<notin> co_type ` set cs"
  shows "MergeConditions old (c # cs) = MergeConditions (MergeConditions old [c]) cs"
proof (cases "co_type c \<in> co_type ` set old")
  case True
  then have m: "MergeConditions old [c] = map (\<lambda>x. if co_type x = co_type c then c else x) old"
    by (simp add: MergeConditions_single [OF assms(1)])
  have "map co_type (MergeConditions old [c]) = map co_type old" by (simp add: m)
  from type_to_index_types [OF this] show ?thesis
    by (auto simp: MergeConditions_def split: option.splits)
next
  case False
  then have m: "MergeConditions old [c] = old @ [c]" by (simp add: MergeConditions_single [OF assms(1)])
  with False have "MergeConditions old (c # cs) = merge_new (type_to_index 0 old Map.empty) (old @ [c]) cs"
    by (simp add: MergeConditions_def type_to_index_notin)
  also have "\<dots> = merge_new (type_to_index 0 (old @ [c]) Map.empty) (old @ [c]) cs"
    using assms(2) by (intro merge_new_cong) (auto simp: type_to_index_append image_iff)
  finally show ?thesis by (simp add: m) (simp add: MergeConditions_def)
qed

lemma MergeConditions_foldl:
  "distinct (map co_type old) \<Longrightarrow> distinct (map co_type new) \<Longrightarrow>
   MergeConditions old new = foldl (\<lambda>cs c. MergeConditions cs [c]) old new"
proof (induction new arbitrary: old)
  case Nil
  then show ?case by (simp add: MergeConditions_def)
next
  case (Cons c cs)
  have "distinct (map co_type (MergeConditions old [c]))" by (rule MergeConditions_types [OF Cons.prems(1)])
  from Cons.IH [OF this] Cons.prems MergeConditions_Cons [OF Cons.prems(1), of c cs] show ?case by simp
qed

section \<open>Properties\<close>

text \<open>
  The phase combined from the phases of the parts is the most urgent one: progressing as soon as
  one part is pending, progressing or deleting, otherwise aborted, failed, init and succeeded in
  this order, and empty when no part has a phase. The flags and the early return of the loop
  implement exactly this order.
\<close>

theorem combined_phase_is_most_urgent:
  "CombinedInstallationPhase ps =
     (if list_ex IsProgressingInstallationPhase ps then PhProgressing
      else if PhAborted \<in> set ps then PhAborted
      else if PhFailed \<in> set ps then PhFailed
      else if PhInit \<in> set ps then PhInit
      else if PhSucceeded \<in> set ps then PhSucceeded
      else PhEmpty)"
proof -
  have ge: "5 \<le> phase_rank p \<longleftrightarrow> IsProgressingInstallationPhase p"
    "4 \<le> phase_rank p \<longleftrightarrow> IsProgressingInstallationPhase p \<or> p = PhAborted"
    "3 \<le> phase_rank p \<longleftrightarrow> IsProgressingInstallationPhase p \<or> p = PhAborted \<or> p = PhFailed"
    "2 \<le> phase_rank p \<longleftrightarrow> IsProgressingInstallationPhase p \<or> p = PhAborted \<or> p = PhFailed \<or> p = PhInit"
    "Suc 0 \<le> phase_rank p \<longleftrightarrow> IsProgressingInstallationPhase p \<or> p = PhAborted \<or> p = PhFailed
       \<or> p = PhInit \<or> p = PhSucceeded" for p
    unfolding IsProgressingInstallationPhase_def by (induction p) simp_all
  have "5 \<le> max_rank ps \<longleftrightarrow> list_ex IsProgressingInstallationPhase ps"
    "4 \<le> max_rank ps \<longleftrightarrow> list_ex IsProgressingInstallationPhase ps \<or> PhAborted \<in> set ps"
    "3 \<le> max_rank ps \<longleftrightarrow> list_ex IsProgressingInstallationPhase ps \<or> PhAborted \<in> set ps \<or> PhFailed \<in> set ps"
    "2 \<le> max_rank ps \<longleftrightarrow> list_ex IsProgressingInstallationPhase ps \<or> PhAborted \<in> set ps \<or> PhFailed \<in> set ps
       \<or> PhInit \<in> set ps"
    "Suc 0 \<le> max_rank ps \<longleftrightarrow> list_ex IsProgressingInstallationPhase ps \<or> PhAborted \<in> set ps
       \<or> PhFailed \<in> set ps \<or> PhInit \<in> set ps \<or> PhSucceeded \<in> set ps"
    by (auto simp: max_rank_ge_iff ge list_ex_iff)
  moreover have "phase_of_rank n = (if 5 \<le> n then PhProgressing else if 4 \<le> n then PhAborted
      else if 3 \<le> n then PhFailed else if 2 \<le> n then PhInit else if Suc 0 \<le> n then PhSucceeded else PhEmpty)" for n
    by (auto simp: phase_of_rank_def)
  ultimately show ?thesis by (simp only: CombinedInstallationPhase_rank) auto
qed

text \<open>
  The combination composes along the hierarchy of installations. The combined phase does not depend on
  the order or the number of occurrences of the phases, and combining two groups first and then
  their results gives what combining all of them at once gives.
\<close>

theorem combined_phase_composes:
  "CombinedInstallationPhase (ps @ qs) =
     CombinedInstallationPhase [CombinedInstallationPhase ps, CombinedInstallationPhase qs]
   \<and> CombinedInstallationPhase (remdups ps) = CombinedInstallationPhase ps
   \<and> CombinedInstallationPhase (rev ps) = CombinedInstallationPhase ps"
  using CombinedInstallationPhase_append CombinedInstallationPhase_set [of "remdups ps" ps]
    CombinedInstallationPhase_set [of "rev ps" ps] by simp

text \<open>
  Merging conditions keeps at most one condition per type and is an update of the table of
  conditions: a type among the new conditions has its new condition, every other type keeps its
  old one, also when the types that are new to the list are appended.
\<close>

theorem MergeConditions_updates_table:
  assumes "distinct (map co_type old)" and "distinct (map co_type new)"
  shows "distinct (map co_type (MergeConditions old new)) \<and>
    GetCondition (MergeConditions old new) t =
      (case GetCondition new t of Some c \<Rightarrow> Some c | None \<Rightarrow> GetCondition old t)"
proof (cases "GetCondition new t")
  case None
  then have "t \<notin> co_type ` set new" by (simp add: condition_lookup.lookup_None_iff)
  with None assms show ?thesis
    by (simp add: MergeConditions_foldl condition_table.invar_fold_store
      condition_table.lookup_fold_store_untouched)
next
  case (Some c)
  then have "c \<in> set new" "co_type c = t" by (auto dest: condition_lookup.lookup_sound)
  then obtain xs ys where new: "new = xs @ c # ys" by (meson split_list)
  with assms(2) have "co_type c \<notin> co_type ` set ys" by auto
  from condition_table.lookup_fold_store_last [OF assms(1) this, of xs]
  have "GetCondition (MergeConditions old new) t = Some c"
    using assms new \<open>co_type c = t\<close> by (simp only: MergeConditions_foldl)
  moreover have "distinct (map co_type (MergeConditions old new))"
    using condition_table.invar_fold_store [OF assms(1)] assms by (simp only: MergeConditions_foldl)
  ultimately show ?thesis using Some by simp
qed

text \<open>
  Removing the abort operation undoes setting it. It removes the abort timestamp, and the operation
  annotation if it says abort, and keeps every other annotation, another operation and all
  the other metadata as they are.
\<close>

theorem RemoveAbort_exact:
  "map_of (om_annotations (RemoveAbortOperationAndTimestamp m)) k =
     (if k = AbortTimestampAnnotation \<or> k = OperationAnnotation \<and> HasOperation m AbortOperation
      then None else map_of (om_annotations m) k)
   \<and> om_annotations_update (\<lambda>_. om_annotations m) (RemoveAbortOperationAndTimestamp m) = m
   \<and> \<not> HasOperation (RemoveAbortOperationAndTimestamp m) AbortOperation
   \<and> HasOperation (SetAbortOperationAndTimestamp fmt now m) AbortOperation
   \<and> GetTimestampAnnotation parse (SetAbortOperationAndTimestamp fmt now m) AbortTimestamp = parse (fmt now)"
  by (auto simp: RemoveAbortOperationAndTimestamp_def HasOperation_def SetAbortOperationAndTimestamp_def
      SetTimestampAnnotationNow_def GetTimestampAnnotation_def SetOperation_def SetMetaDataAnnotation_def
      Let_def smap_get_set split: option.splits)

definition example_condition :: "string \<Rightarrow> condition_status \<Rightarrow> condition" where
  "example_condition ty s = \<lparr>co_type = ty, co_status = s, co_lastTransitionTime = 1,
     co_lastUpdateTime = 1, co_reason = [], co_message = [], co_codes = []\<rparr>"

lemma MergeConditions_updates_table_witness:
  "GetCondition (MergeConditions
      [example_condition ''a'' ConditionTrue, example_condition ''b'' ConditionTrue]
      [example_condition ''c'' ConditionFalse, example_condition ''b'' ConditionFalse]) ''b''
   = Some (example_condition ''b'' ConditionFalse)"
proof -
  let ?old = "[example_condition ''a'' ConditionTrue, example_condition ''b'' ConditionTrue]"
  let ?new = "[example_condition ''c'' ConditionFalse, example_condition ''b'' ConditionFalse]"
  have "distinct (map co_type ?old)" "distinct (map co_type ?new)" by (simp_all add: example_condition_def)
  from MergeConditions_updates_table [OF this, of "''b''"]
  have "GetCondition (MergeConditions ?old ?new) ''b'' =
    (case GetCondition ?new ''b'' of Some c \<Rightarrow> Some c | None \<Rightarrow> GetCondition ?old ''b'')" by simp
  then show ?thesis by (simp add: example_condition_def)
qed

end
