(* ===== verification/LsErrors.thy ===== *)
theory LsErrors
  imports ApiHelpers
begin

text \<open>
  Errors: the Go errors that the program builds and takes apart, and the landscaper error of
  \<open>apis/errors/error.go\<close> with its life in the status of an object (\<open>TryUpdateError\<close>,
  \<open>UpdatedError\<close>, \<open>GetPhaseForLastError\<close>).
\<close>

section \<open>Go errors\<close>

text \<open>
  An error is a plain error (its text), an error status of the API server, a landscaper error
  around an optional other error, or an error wrapped by \<open>fmt.Errorf\<close> with \<open>%w\<close> (the
  formatted text and the wrapped error). \<open>nil\<close> is the absence of an error: a function that
  returns only an error has an \<open>option\<close> as its result.
\<close>

datatype api_reason = ReasonNotFound | ReasonConflict | ReasonOther string

datatype gerr =
    PlainError string
  | ApiError api_reason string
  | LsError ls_error "gerr option"
  | WrapError string gerr

fun IsNotFound :: "gerr \<Rightarrow> bool" where
  "IsNotFound (ApiError r msg) = (r = ReasonNotFound)"
| "IsNotFound (LsError l None) = False"
| "IsNotFound (LsError l (Some e)) = IsNotFound e"
| "IsNotFound (WrapError msg e) = IsNotFound e"
| "IsNotFound (PlainError msg) = False"

fun IsConflict :: "gerr \<Rightarrow> bool" where
  "IsConflict (ApiError r msg) = (r = ReasonConflict)"
| "IsConflict (LsError l None) = False"
| "IsConflict (LsError l (Some e)) = IsConflict e"
| "IsConflict (WrapError msg e) = IsConflict e"
| "IsConflict (PlainError msg) = False"

section \<open>Landscaper errors (error.go)\<close>

definition ls_error_text :: "ls_error \<Rightarrow> string" where
  "ls_error_text l =
     ''Op: '' @ go_quote (er_operation l) @ '' - Reason: '' @ go_quote (er_reason l)
       @ '' - Message: '' @ go_quote (er_message l)"

fun error_string :: "gerr \<Rightarrow> string" where
  "error_string (PlainError msg) = msg"
| "error_string (ApiError r msg) = msg"
| "error_string (LsError l (Some e)) = error_string e"
| "error_string (LsError l None) = ls_error_text l"
| "error_string (WrapError msg e) = msg"

fun unwrap_error :: "gerr \<Rightarrow> gerr option" where
  "unwrap_error (PlainError msg) = None"
| "unwrap_error (ApiError r msg) = None"
| "unwrap_error (LsError l e) = e"
| "unwrap_error (WrapError msg e) = Some e"

definition NewError :: "time \<Rightarrow> string \<Rightarrow> string \<Rightarrow> string \<Rightarrow> error_code list \<Rightarrow> gerr" where
  "NewError now operation reason message codes =
     LsError \<lparr>er_operation = operation, er_lastTransitionTime = now, er_lastUpdateTime = now,
              er_reason = reason, er_message = message, er_codes = codes\<rparr> None"

definition NewWrappedError ::
    "time \<Rightarrow> gerr \<Rightarrow> string \<Rightarrow> string \<Rightarrow> string \<Rightarrow> error_code list \<Rightarrow> gerr" where
  "NewWrappedError now err operation reason message codes =
     LsError \<lparr>er_operation = operation, er_lastTransitionTime = now, er_lastUpdateTime = now,
              er_reason = reason, er_message = message, er_codes = codes\<rparr> (Some err)"

definition NewErrorOrNil ::
    "time \<Rightarrow> gerr option \<Rightarrow> string \<Rightarrow> string \<Rightarrow> error_code list \<Rightarrow> gerr option" where
  "NewErrorOrNil now err operation reason codes =
     (case err of
        None \<Rightarrow> None
      | Some e \<Rightarrow> Some (LsError
          \<lparr>er_operation = operation, er_lastTransitionTime = now, er_lastUpdateTime = now,
           er_reason = reason, er_message = error_string e, er_codes = codes\<rparr> (Some e)))"

text \<open>\<open>IsError\<close> walks down the wrapped errors to the outermost landscaper error.\<close>

fun IsError :: "gerr \<Rightarrow> ls_error option" where
  "IsError (LsError l e) = Some l"
| "IsError (WrapError msg e) = IsError e"
| "IsError (PlainError msg) = None"
| "IsError (ApiError r msg) = None"

definition UpdatedError ::
    "time \<Rightarrow> ls_error option \<Rightarrow> string \<Rightarrow> string \<Rightarrow> string \<Rightarrow> error_code list \<Rightarrow> ls_error" where
  "UpdatedError now lastError operation reason message codes =
     (let newError = \<lparr>er_operation = operation, er_lastTransitionTime = now,
                      er_lastUpdateTime = now, er_reason = reason, er_message = message,
                      er_codes = codes\<rparr>
      in case lastError of
           None \<Rightarrow> newError
         | Some l \<Rightarrow> (if er_operation l = operation
             then newError\<lparr>er_lastTransitionTime := er_lastTransitionTime l\<rparr> else newError))"

text \<open>The method \<open>(Error).UpdatedError\<close>.\<close>

definition error_UpdatedError :: "time \<Rightarrow> ls_error \<Rightarrow> ls_error option \<Rightarrow> ls_error" where
  "error_UpdatedError now e lastError =
     UpdatedError now lastError (er_operation e) (er_reason e) (er_message e) (er_codes e)"

definition TryUpdateError :: "time \<Rightarrow> ls_error option \<Rightarrow> gerr option \<Rightarrow> ls_error option" where
  "TryUpdateError now lastErr err =
     (case err of
        None \<Rightarrow> None
      | Some e \<Rightarrow> (case IsError e of
                     Some intErr \<Rightarrow> Some (error_UpdatedError now intErr lastErr)
                   | None \<Rightarrow> None))"

fun HasErrorCode :: "error_code list \<Rightarrow> error_code \<Rightarrow> bool" where
  "HasErrorCode [] expected = False"
| "HasErrorCode (c # cs) expected = (if c = expected then True else HasErrorCode cs expected)"

fun ContainsAnyErrorCode :: "error_code list \<Rightarrow> error_code list \<Rightarrow> bool" where
  "ContainsAnyErrorCode codes [] = False"
| "ContainsAnyErrorCode codes (x # xs) =
     (if HasErrorCode codes x then True else ContainsAnyErrorCode codes xs)"

definition GetPhaseForLastError :: "phase \<Rightarrow> ls_error option \<Rightarrow> duration \<Rightarrow> phase" where
  "GetPhaseForLastError p lastError d =
     (case lastError of
        None \<Rightarrow> p
      | Some l \<Rightarrow>
          if p = PhEmpty then PhFailed
          else if ContainsAnyErrorCode (er_codes l) UnrecoverableErrorCodes then PhFailed
          else if d < time_sub (er_lastUpdateTime l) (er_lastTransitionTime l) then PhFailed
          else p)"

section \<open>Facts\<close>

lemma HasErrorCode_iff [simp]: "HasErrorCode cs c \<longleftrightarrow> c \<in> set cs"
  by (induction cs) auto

lemma ContainsAnyErrorCode_iff [simp]:
  "ContainsAnyErrorCode cs xs \<longleftrightarrow> set cs \<inter> set xs \<noteq> {}"
  by (induction xs) auto

lemma UpdatedError_sel [simp]:
  "er_operation (UpdatedError now le op r m cs) = op"
  "er_reason (UpdatedError now le op r m cs) = r"
  "er_message (UpdatedError now le op r m cs) = m"
  "er_codes (UpdatedError now le op r m cs) = cs"
  "er_lastUpdateTime (UpdatedError now le op r m cs) = now"
  by (simp_all add: UpdatedError_def Let_def split: option.splits)

lemma UpdatedError_transition:
  "er_lastTransitionTime (UpdatedError now le op r m cs) =
     (case le of None \<Rightarrow> now
      | Some l \<Rightarrow> if er_operation l = op then er_lastTransitionTime l else now)"
  by (simp add: UpdatedError_def Let_def split: option.splits)

lemma GetPhaseForLastError_None [simp]: "GetPhaseForLastError p None d = p"
  by (simp add: GetPhaseForLastError_def)

text \<open>
  A sequence of failing reconciliations, at the given times, that all report the same error:
  the error that is left in the status.
\<close>

fun repeat_error :: "ls_error option \<Rightarrow> gerr \<Rightarrow> time list \<Rightarrow> ls_error option" where
  "repeat_error l e [] = l"
| "repeat_error l e (t # ts) = repeat_error (TryUpdateError t l (Some e)) e ts"

lemma repeat_error_keeps_transition:
  assumes "IsError e = Some i" and "er_operation l = er_operation i"
  shows "\<exists>l'. repeat_error (Some l) e ts = Some l' \<and> er_operation l' = er_operation i \<and>
    er_lastTransitionTime l' = er_lastTransitionTime l \<and>
    (ts \<noteq> [] \<longrightarrow> er_lastUpdateTime l' = last ts \<and> er_codes l' = er_codes i)"
  using assms(2)
proof (induction ts arbitrary: l)
  case Nil
  then show ?case by simp
next
  case (Cons t ts)
  let ?l = "error_UpdatedError t i (Some l)"
  have op: "er_operation ?l = er_operation i" by (simp add: error_UpdatedError_def)
  from Cons.IH [OF op] obtain l' where l': "repeat_error (Some ?l) e ts = Some l'"
    "er_operation l' = er_operation i" "er_lastTransitionTime l' = er_lastTransitionTime ?l"
    "ts \<noteq> [] \<longrightarrow> er_lastUpdateTime l' = last ts \<and> er_codes l' = er_codes i"
    by blast
  have tr: "er_lastTransitionTime ?l = er_lastTransitionTime l"
    using Cons.prems by (simp add: error_UpdatedError_def UpdatedError_transition)
  have "ts = [] \<Longrightarrow> l' = ?l" using l'(1) by simp
  with l' tr assms(1) show ?case
    by (auto simp: TryUpdateError_def error_UpdatedError_def)
qed

section \<open>Properties\<close>

text \<open>
  An operation that keeps failing fails for good once it has failed for longer than the
  given duration. After the same error was recorded at the times \<open>t # ts\<close>, the phase computed
  for the error in the status is failed if the phase was not set, if the error has an
  unrecoverable code, or if the last failure is more than the duration after the first one, in
  exactly these cases; otherwise the phase is kept.
\<close>

theorem repeated_error_fails_in_the_end:
  assumes "IsError e = Some i"
  shows "GetPhaseForLastError p (repeat_error None e (t # ts)) d =
    (if p = PhEmpty \<or> set (er_codes i) \<inter> set UnrecoverableErrorCodes \<noteq> {}
        \<or> d < time_sub (last (t # ts)) t
     then PhFailed else p)"
proof -
  let ?l = "error_UpdatedError t i None"
  have l: "er_operation ?l = er_operation i" "er_lastTransitionTime ?l = t" "er_lastUpdateTime ?l = t"
    "er_codes ?l = er_codes i"
    by (simp_all add: error_UpdatedError_def UpdatedError_transition)
  have step: "repeat_error None e (t # ts) = repeat_error (Some ?l) e ts"
    using assms by (simp add: TryUpdateError_def)
  from repeat_error_keeps_transition [OF assms l(1), of ts] obtain l' where
    l': "repeat_error (Some ?l) e ts = Some l'" "er_lastTransitionTime l' = t"
      "ts \<noteq> [] \<longrightarrow> er_lastUpdateTime l' = last ts \<and> er_codes l' = er_codes i"
    using l(2) by auto
  have "er_lastUpdateTime l' = last (t # ts)" "er_codes l' = er_codes i"
    using l l' by (cases ts; simp)+
  moreover have "repeat_error None e (t # ts) = Some l'" using step l'(1) by simp
  ultimately show ?thesis using l'(2) by (simp only: GetPhaseForLastError_def) auto
qed

lemma repeated_error_fails_in_the_end_witness:
  "GetPhaseForLastError PhProgressing
     (repeat_error None (NewError 0 ''Reconcile'' ''Down'' ''no answer'' []) [0, 60 * second, 400 * second])
     (300 * second) = PhFailed"
proof -
  have "IsError (NewError 0 ''Reconcile'' ''Down'' ''no answer'' []) =
    Some \<lparr>er_operation = ''Reconcile'', er_lastTransitionTime = 0, er_lastUpdateTime = 0,
      er_reason = ''Down'', er_message = ''no answer'', er_codes = []\<rparr>"
    by (simp add: NewError_def)
  from repeated_error_fails_in_the_end [OF this, of PhProgressing 0 "[60 * second, 400 * second]" "300 * second"]
  show ?thesis by (simp add: time_sub_def go_defs)
qed

text \<open>
  The error in a status keeps the time of its first occurrence as long as the operation is the same.
  A new error of the same operation takes over the old transition time, an error of another
  operation starts a new one, no error clears it, and an error that is no landscaper error
  clears it too.
\<close>

theorem TryUpdateError_transition:
  "map_option (\<lambda>l. (er_operation l, er_lastTransitionTime l, er_lastUpdateTime l))
     (TryUpdateError now prev err) =
   (case Option.bind err IsError of
      None \<Rightarrow> None
    | Some i \<Rightarrow> Some (er_operation i,
        (case prev of
           Some l \<Rightarrow> if er_operation l = er_operation i then er_lastTransitionTime l else now
         | None \<Rightarrow> now), now))"
  by (cases err)
    (auto simp: TryUpdateError_def error_UpdatedError_def UpdatedError_transition split: option.splits)

end
