(* ===== verification/FieldErrors.thy ===== *)
theory FieldErrors
  imports LsErrors
begin

text \<open>
  Field errors of the validation (the \<open>field\<close> package of Kubernetes, as far as it is used) and
  \<open>apis/core/validation/helper.go\<close>. Reflection over a struct is the list of its fields, in
  order, each with the answer to "is it set": not \<open>nil\<close> where it can be, or not the zero value.
\<close>

section \<open>Field paths and errors\<close>

datatype path_element = PName string | PIndex nat | PKey string

type_synonym field_path = "path_element list"

definition path_Child :: "field_path \<Rightarrow> string \<Rightarrow> field_path" where
  "path_Child p n = p @ [PName n]"

definition path_Index :: "field_path \<Rightarrow> nat \<Rightarrow> field_path" where
  "path_Index p i = p @ [PIndex i]"

definition path_Key :: "field_path \<Rightarrow> string \<Rightarrow> field_path" where
  "path_Key p k = p @ [PKey k]"

definition path_New :: "string \<Rightarrow> field_path" where
  "path_New n = [PName n]"

text \<open>The value an error carries: none, a text, a list of texts (a cycle), or a whole object.\<close>

datatype bad_value = NoValue | TextValue string | TextsValue "string list" | ObjectValue

datatype field_error =
    FRequired field_path string
  | FInvalid field_path bad_value string
  | FDuplicate field_path string
  | FForbidden field_path string
  | FNotFound field_path string
  | FNotSupported field_path string "string list"

section \<open>Helpers (helper.go)\<close>

type_synonym struct_fields = "(string \<times> bool) list"

fun stringContains :: "string list \<Rightarrow> string \<Rightarrow> bool" where
  "stringContains [] value = False"
| "stringContains (e # es) value = (if e = value then True else stringContains es value)"

fun set_fields :: "struct_fields \<Rightarrow> string list \<Rightarrow> string list" where
  "set_fields [] configs = []"
| "set_fields ((fieldName, isSet) # fs) configs =
     (if \<not> stringContains configs fieldName then set_fields fs configs
      else if isSet then fieldName # set_fields fs configs
      else set_fields fs configs)"

text \<open>\<open>strings.Join (configs, ", ")\<close>.\<close>

fun join_comma :: "string list \<Rightarrow> string" where
  "join_comma [] = []"
| "join_comma [s] = s"
| "join_comma (s # t # ss) = s @ '', '' @ join_comma (t # ss)"

text \<open>\<open>None\<close> is a \<open>nil\<close> pointer to the struct.\<close>

definition ValidateExactlyOneOf ::
    "field_path \<Rightarrow> struct_fields option \<Rightarrow> string list \<Rightarrow> field_error list" where
  "ValidateExactlyOneOf fldPath input configs =
     (case input of
        None \<Rightarrow> [FRequired fldPath (''exactly one of ['' @ join_comma configs @ ''] must be set (currently set: none)'')]
      | Some fs \<Rightarrow>
          let setFields = set_fields fs configs
          in if 1 < length setFields
             then [FInvalid fldPath ObjectValue (''exactly one of ['' @ join_comma configs
                     @ ''] must be set (currently set: ['' @ join_comma setFields @ ''])'')]
             else if length setFields = 0
             then [FRequired fldPath (''exactly one of ['' @ join_comma configs
                     @ ''] must be set (currently set: none)'')]
             else [])"

text \<open>
  The tables of import and export types with their expected configuration. The relevant fields
  are the union of the expected ones; Go iterates over that map in an arbitrary order, here the
  order of first occurrence.
\<close>

definition importTypesWithExpectedConfig :: "(string \<times> string list) list" where
  "importTypesWithExpectedConfig =
     [(''data'', [''Schema'']), (''target'', [''TargetType'']), (''targetList'', [''TargetType'']),
      (''componentDescriptor'', []), (''componentDescriptorList'', [])]"

definition exportTypesWithExpectedConfig :: "(string \<times> string list) list" where
  "exportTypesWithExpectedConfig = [(''data'', [''Schema'']), (''target'', [''TargetType''])]"

definition isFieldValueDefinition :: "string list" where
  "isFieldValueDefinition = [''Schema'', ''TargetType'']"

definition computeRelevantConfigFields :: "string list" where
  "computeRelevantConfigFields =
     remdups (concat (map snd importTypesWithExpectedConfig)
              @ concat (map snd exportTypesWithExpectedConfig))"

text \<open>
  \<open>keys\<close> allocates a slice with the length of the map and then appends: the result starts with
  as many empty strings as the map has entries.
\<close>

definition keys :: "(string \<times> string list) list \<Rightarrow> string list" where
  "keys m = replicate (length m) [] @ map fst m"

section \<open>Facts\<close>

lemma stringContains_iff [simp]: "stringContains xs x \<longleftrightarrow> x \<in> set xs"
  by (induction xs) auto

lemma set_fields_filter:
  "set_fields fs configs = map fst (filter (\<lambda>(n, s). s \<and> n \<in> set configs) fs)"
  by (induction fs configs rule: set_fields.induct) auto

text \<open>The validation accepts exactly the structs in which one of the named fields is set.\<close>

lemma ValidateExactlyOneOf_Nil_iff:
  "ValidateExactlyOneOf p (Some fs) configs = [] \<longleftrightarrow>
     length (filter (\<lambda>(n, s). s \<and> n \<in> set configs) fs) = 1"
proof -
  let ?n = "length (filter (\<lambda>(n, s). s \<and> n \<in> set configs) fs)"
  have n: "length (set_fields fs configs) = ?n" by (simp add: set_fields_filter)
  consider "?n = 0" | "?n = 1" | "1 < ?n" by linarith
  then show ?thesis
    by cases (simp_all only: ValidateExactlyOneOf_def Let_def option.case n, simp_all)
qed

text \<open>The common cases: the named fields are the struct's own, in a fixed number.\<close>

lemma length_filter_set:
  "length (filter (\<lambda>(n, s). s \<and> n \<in> set cs) []) = 0"
  "length (filter (\<lambda>(n, s). s \<and> n \<in> set cs) ((n, s) # fs)) =
     (if s \<and> n \<in> set cs then 1 else 0) + length (filter (\<lambda>(n, s). s \<and> n \<in> set cs) fs)"
  by simp_all

end
