(* ===== verification/ExecutionValidation.thy ===== *)
theory ExecutionValidation
  imports FieldErrors
begin

text \<open>
  \<open>apis/core/validation/execution.go\<close>: the validation of a list of deploy item templates, with
  its depth-first search for cyclic and undefined dependencies, and the theorem that the search
  is exact: a list passes if and only if its names are unique and its dependencies can be
  ordered. \<open>deployitem.go\<close> and the object references of \<open>installation.go\<close> are here as well.

  The search recurses along dependencies. Every nested call first adds its own item to the set
  of visited names, so the depth is at most the number of items; the model gives the recursion
  that much fuel, and running out of fuel would be the result \<open>None\<close>. The lemma
  \<open>dependency_search_total\<close> shows that it never is.
\<close>

section \<open>References and deploy items\<close>

definition ValidateObjectReference :: "object_reference \<Rightarrow> field_path \<Rightarrow> field_error list" where
  "ValidateObjectReference r fldPath =
     (if or_name r = [] then [FRequired (path_Child fldPath ''name'') ''name must not be empty''] else [])
     @ (if or_namespace r = [] then [FRequired (path_Child fldPath ''namespace'') ''namespace must not be empty''] else [])"

fun validate_reference_list :: "nat \<Rightarrow> object_reference list \<Rightarrow> field_path \<Rightarrow> field_error list" where
  "validate_reference_list i [] fldPath = []"
| "validate_reference_list i (e # es) fldPath =
     ValidateObjectReference e (path_Index fldPath i) @ validate_reference_list (Suc i) es fldPath"

definition ValidateObjectReferenceList ::
    "object_reference list \<Rightarrow> field_path \<Rightarrow> field_error list" where
  "ValidateObjectReferenceList orl fldPath = validate_reference_list 0 orl fldPath"

definition ValidateSecretReference :: "secret_reference \<Rightarrow> field_path \<Rightarrow> field_error list" where
  "ValidateSecretReference sr fldPath = ValidateObjectReference (sr_ref sr) fldPath"

definition ValidateConfigMapReference :: "config_map_reference \<Rightarrow> field_path \<Rightarrow> field_error list" where
  "ValidateConfigMapReference cmr fldPath = ValidateObjectReference (cm_ref cmr) fldPath"

definition ValidateDeployItemSpec :: "field_path \<Rightarrow> deploy_item_spec \<Rightarrow> field_error list" where
  "ValidateDeployItemSpec fldPath diSpec =
     (if di_type diSpec = [] then [FRequired (path_Child fldPath ''type'') ''type must not be empty''] else [])
     @ (case di_target diSpec of
          None \<Rightarrow> []
        | Some t \<Rightarrow>
            (if or_name t = [] then [FRequired (path_Child (path_Child fldPath ''target'') ''name'')
                                       ''target name must not be empty''] else [])
            @ (if or_namespace t = [] then [FRequired (path_Child (path_Child fldPath ''target'') ''namespace'')
                                              ''target namespace must not be empty''] else []))"

definition ValidateDeployItem :: "deploy_item \<Rightarrow> field_error list" where
  "ValidateDeployItem d = ValidateDeployItemSpec (path_New ''spec'') (di_spec d)"

section \<open>Deploy item templates\<close>

text \<open>
  \<open>ValidateLabels\<close> belongs to the Kubernetes libraries: it is the argument \<open>vl\<close>, from a label
  map and a path to the errors.
\<close>

type_synonym label_validator = "smap \<Rightarrow> field_path \<Rightarrow> field_error list"

definition ValidateDeployItemTemplate ::
    "label_validator \<Rightarrow> field_path \<Rightarrow> deploy_item_template \<Rightarrow> field_error list" where
  "ValidateDeployItemTemplate vl fldPath tmpl =
     (if dt_name tmpl = [] then [FRequired (path_Child fldPath ''name'') ''name must not be empty''] else [])
     @ (if dt_type tmpl = [] then [FRequired (path_Child fldPath ''type'') ''type must not be empty''] else [])
     @ (case dt_target tmpl of
          None \<Rightarrow> []
        | Some t \<Rightarrow> ValidateObjectReference t (path_Child fldPath ''target''))
     @ (if dt_labels tmpl \<noteq> [] then vl (dt_labels tmpl) (path_Child fldPath ''labels'') else [])"

text \<open>\<open>None\<close> is the index \<open>-1\<close>.\<close>

fun template_index :: "nat \<Rightarrow> deploy_item_template list \<Rightarrow> string \<Rightarrow> nat option" where
  "template_index i [] name = None"
| "template_index i (t # ts) name =
     (if dt_name t = name then Some i else template_index (Suc i) ts name)"

definition getDeployItemTemplateByName :: "deploy_item_template list \<Rightarrow> string \<Rightarrow> nat option" where
  "getDeployItemTemplateByName ts name = template_index 0 ts name"

fun getCycle :: "string list \<Rightarrow> string \<Rightarrow> string list option" where
  "getCycle [] new = None"
| "getCycle (e # es) new = (if new = e then Some (e # es) else getCycle es new)"

record undefined_reference =
  ur_source :: string
  ur_target :: string

type_synonym search_result = "string list list \<times> undefined_reference list \<times> string list"

text \<open>
  The search below an item. \<open>sets.String\<close> is a map and is shared: the set \<open>done\<close> is threaded
  through the calls. \<open>visited\<close> is the path from the start to the item.
\<close>

fun getCyclesAndUndefinedDependencies ::
    "nat \<Rightarrow> deploy_item_template list \<Rightarrow> nat \<Rightarrow> string list \<Rightarrow> string list \<Rightarrow> search_result option"
  and search_dependencies ::
    "nat \<Rightarrow> deploy_item_template list \<Rightarrow> string \<Rightarrow> string list \<Rightarrow> string list \<Rightarrow> string list
      \<Rightarrow> search_result option" where
  "getCyclesAndUndefinedDependencies 0 ts index visited dn = None"
| "getCyclesAndUndefinedDependencies (Suc fuel) ts index visited dn =
     (let current = ts ! index
      in if dt_name current \<in> set dn then Some ([], [], dn)
         else let dn1 = List.insert (dt_name current) dn
              in if dt_dependsOn current = [] then Some ([], [], List.insert (dt_name current) dn1)
                 else search_dependencies fuel ts (dt_name current)
                        (visited @ [dt_name current]) (dt_dependsOn current) dn1)"
| "search_dependencies fuel ts source visitedNew [] dn = Some ([], [], dn)"
| "search_dependencies fuel ts source visitedNew (dep # deps) dn =
     (case getCycle visitedNew dep of
        Some cycle \<Rightarrow>
          (case search_dependencies fuel ts source visitedNew deps dn of
             None \<Rightarrow> None
           | Some (c, u, d) \<Rightarrow> Some (cycle # c, u, d))
      | None \<Rightarrow>
          (case getDeployItemTemplateByName ts dep of
             None \<Rightarrow>
               (case search_dependencies fuel ts source visitedNew deps dn of
                  None \<Rightarrow> None
                | Some (c, u, d) \<Rightarrow> Some (c, \<lparr>ur_source = source, ur_target = dep\<rparr> # u, d))
           | Some idx \<Rightarrow>
               (case getCyclesAndUndefinedDependencies fuel ts idx visitedNew dn of
                  None \<Rightarrow> None
                | Some (c1, u1, newDone) \<Rightarrow>
                    (case search_dependencies fuel ts source visitedNew deps (List.union newDone dn) of
                       None \<Rightarrow> None
                     | Some (c, u, d) \<Rightarrow> Some (c1 @ c, u1 @ u, d)))))"

text \<open>The loop over all items.\<close>

fun search_all :: "deploy_item_template list \<Rightarrow> nat list \<Rightarrow> string list \<Rightarrow>
    (string list list \<times> undefined_reference list) option" where
  "search_all ts [] dn = Some ([], [])"
| "search_all ts (i # is) dn =
     (case getCyclesAndUndefinedDependencies (Suc (length ts)) ts i [] dn of
        None \<Rightarrow> None
      | Some (c, u, d) \<Rightarrow>
          (case search_all ts is (List.union d dn) of
             None \<Rightarrow> None
           | Some (cs, us) \<Rightarrow> Some (c @ cs, u @ us)))"

text \<open>The first loop: duplicates and the single templates.\<close>

fun validate_templates ::
    "label_validator \<Rightarrow> field_path \<Rightarrow> nat \<Rightarrow> deploy_item_template list \<Rightarrow> string list
      \<Rightarrow> field_error list \<times> bool" where
  "validate_templates vl fldPath i [] names = ([], False)"
| "validate_templates vl fldPath i (tmpl # ts) names =
     (let tmplPath = path_Index fldPath i;
          dup = (dt_name tmpl \<noteq> [] \<and> dt_name tmpl \<in> set names);
          dupErrs = (if dup then [FDuplicate tmplPath (dt_name tmpl)] else []);
          names1 = (if dt_name tmpl \<noteq> [] then List.insert (dt_name tmpl) names else names);
          tmplPath1 = (if dt_name tmpl \<noteq> [] then path_Key tmplPath (dt_name tmpl) else tmplPath);
          (errs, hasDuplicates) = validate_templates vl fldPath (Suc i) ts names1
      in (dupErrs @ ValidateDeployItemTemplate vl tmplPath1 tmpl @ errs, dup \<or> hasDuplicates))"

definition cycle_error :: "field_path \<Rightarrow> string list \<Rightarrow> field_error" where
  "cycle_error fldPath c = FInvalid fldPath (TextsValue c) ''cycle found in dependencies''"

text \<open>The source of an undefined reference is an item of the list, so its index is found.\<close>

definition undefined_error ::
    "field_path \<Rightarrow> deploy_item_template list \<Rightarrow> undefined_reference \<Rightarrow> field_error" where
  "undefined_error fldPath ts u =
     (case getDeployItemTemplateByName ts (ur_source u) of
        Some idx \<Rightarrow> FInvalid (path_Key (path_Index fldPath idx) (ur_source u))
                      (TextValue (ur_target u)) ''depends on undefined deploy item''
      | None \<Rightarrow> FInvalid (path_Key fldPath (ur_source u))
                      (TextValue (ur_target u)) ''depends on undefined deploy item'')"

definition ValidateDeployItemTemplateList ::
    "label_validator \<Rightarrow> field_path \<Rightarrow> deploy_item_template list \<Rightarrow> field_error list option" where
  "ValidateDeployItemTemplateList vl fldPath ts =
     (let (errs, hasDuplicates) = validate_templates vl fldPath 0 ts []
      in if hasDuplicates then Some errs
         else (case search_all ts [0..<length ts] [] of
                 None \<Rightarrow> None
               | Some (cycles, undef) \<Rightarrow>
                   Some (errs @ map (cycle_error fldPath) cycles @ map (undefined_error fldPath ts) undef)))"

definition ValidateExecutionSpec ::
    "label_validator \<Rightarrow> field_path \<Rightarrow> execution_spec \<Rightarrow> field_error list option" where
  "ValidateExecutionSpec vl fldPath spec =
     ValidateDeployItemTemplateList vl (path_Child fldPath ''deployItems'') (ex_deployItems spec)"

definition ValidateExecution :: "label_validator \<Rightarrow> execution \<Rightarrow> field_error list option" where
  "ValidateExecution vl e = ValidateExecutionSpec vl (path_New ''spec'') (ex_spec e)"

section \<open>The dependency relation\<close>

definition template_names :: "deploy_item_template list \<Rightarrow> string set" where
  "template_names ts = dt_name ` set ts"

text \<open>\<open>(x, d)\<close> is in the relation when an item of the name \<open>x\<close> depends on \<open>d\<close>.\<close>

definition dep_rel :: "deploy_item_template list \<Rightarrow> (string \<times> string) set" where
  "dep_rel ts = {(dt_name t, d) | t d. t \<in> set ts \<and> d \<in> set (dt_dependsOn t)}"

definition deps_closed :: "deploy_item_template list \<Rightarrow> bool" where
  "deps_closed ts = (\<forall>t \<in> set ts. \<forall>d \<in> set (dt_dependsOn t). d \<in> template_names ts)"

lemma dep_relI: "t \<in> set ts \<Longrightarrow> d \<in> set (dt_dependsOn t) \<Longrightarrow> (dt_name t, d) \<in> dep_rel ts"
  by (auto simp: dep_rel_def)

lemma dep_rel_nth:
  assumes "distinct (map dt_name ts)" and "i < length ts"
  shows "(dt_name (ts ! i), d) \<in> dep_rel ts \<longleftrightarrow> d \<in> set (dt_dependsOn (ts ! i))"
proof
  assume "(dt_name (ts ! i), d) \<in> dep_rel ts"
  then obtain t where t: "t \<in> set ts" "dt_name t = dt_name (ts ! i)" "d \<in> set (dt_dependsOn t)"
    by (auto simp: dep_rel_def)
  with assms have "t = ts ! i"
    by (metis distinct_map_key_unique nth_mem)
  with t show "d \<in> set (dt_dependsOn (ts ! i))" by simp
qed (use assms in \<open>auto intro: dep_relI\<close>)

text \<open>
  A list of items in which every item comes before the items it depends on, which are all in
  the list: the order in which the search finishes the items, last one first.
\<close>

fun dep_ordered :: "deploy_item_template list \<Rightarrow> string list \<Rightarrow> bool" where
  "dep_ordered ts [] = True"
| "dep_ordered ts (x # L) =
     ((\<forall>d. (x, d) \<in> dep_rel ts \<longrightarrow> d \<in> set L) \<and> x \<notin> set L \<and> dep_ordered ts L)"

fun height_in :: "string list \<Rightarrow> string \<Rightarrow> nat" where
  "height_in [] x = 0"
| "height_in (y # L) x = (if x = y then Suc (length L) else height_in L x)"

lemma height_in_le: "height_in L x \<le> length L"
  by (induction L) auto

lemma dep_ordered_height:
  "dep_ordered ts L \<Longrightarrow> x \<in> set L \<Longrightarrow> (x, d) \<in> dep_rel ts \<Longrightarrow>
   d \<in> set L \<and> height_in L d < height_in L x"
proof (induction L)
  case Nil
  then show ?case by simp
next
  case (Cons y L)
  show ?case
  proof (cases "x = y")
    case True
    with Cons.prems have "d \<in> set L" and "d \<noteq> y" by auto
    with True show ?thesis using height_in_le [of L d] by simp
  next
    case False
    with Cons.prems Cons.IH have "d \<in> set L \<and> height_in L d < height_in L x" by simp
    with False Cons.prems show ?thesis by auto
  qed
qed

lemma dep_ordered_acyclic:
  assumes "dep_ordered ts L" and "template_names ts \<subseteq> set L"
  shows "acyclic (dep_rel ts)"
proof -
  have "(dep_rel ts)\<inverse> \<subseteq> measure (height_in L)"
  proof
    fix p assume "p \<in> (dep_rel ts)\<inverse>"
    then obtain x d where p: "p = (d, x)" "(x, d) \<in> dep_rel ts" by auto
    then have "x \<in> template_names ts" by (auto simp: dep_rel_def template_names_def)
    with assms have "x \<in> set L" by auto
    from dep_ordered_height [OF assms(1) this p(2)] p show "p \<in> measure (height_in L)" by simp
  qed
  then have "wf ((dep_rel ts)\<inverse>)" by (rule wf_subset [OF wf_measure])
  then have "acyclic ((dep_rel ts)\<inverse>)" by (rule wf_acyclic)
  then show ?thesis by simp
qed

lemma dep_ordered_closed:
  assumes "dep_ordered ts L" and "set L = template_names ts"
  shows "deps_closed ts"
proof (unfold deps_closed_def, intro ballI)
  fix t d assume t: "t \<in> set ts" "d \<in> set (dt_dependsOn t)"
  then have "dt_name t \<in> set L" using assms(2) by (simp add: template_names_def)
  from dep_ordered_height [OF assms(1) this dep_relI [OF t]] assms(2)
  show "d \<in> template_names ts" by simp
qed

section \<open>The search\<close>

lemma template_index_Some:
  "template_index i ts n = Some j \<Longrightarrow> i \<le> j \<and> j < i + length ts \<and> dt_name (ts ! (j - i)) = n"
proof (induction i ts n rule: template_index.induct)
  case (2 i t ts name)
  then show ?case by (auto simp: nth_Cons' Suc_diff_Suc split: if_splits)
qed simp

lemma template_index_None: "template_index i ts n = None \<longleftrightarrow> n \<notin> dt_name ` set ts"
  by (induction i ts n rule: template_index.induct) auto

lemma getDeployItemTemplateByName_Some:
  "getDeployItemTemplateByName ts n = Some j \<Longrightarrow> j < length ts \<and> dt_name (ts ! j) = n"
  unfolding getDeployItemTemplateByName_def by (drule template_index_Some) simp

lemma getDeployItemTemplateByName_None:
  "getDeployItemTemplateByName ts n = None \<longleftrightarrow> n \<notin> template_names ts"
  by (simp add: getDeployItemTemplateByName_def template_index_None template_names_def)

lemma getCycle_None [simp]: "getCycle v n = None \<longleftrightarrow> n \<notin> set v"
  by (induction v) auto

lemma getCycle_Some: "getCycle v n = Some c \<Longrightarrow> \<exists>us. v = us @ c \<and> c \<noteq> [] \<and> hd c = n"
proof (induction v)
  case (Cons e v)
  show ?case
  proof (cases "n = e")
    case True
    with Cons.prems show ?thesis by (intro exI [of _ "[]"]) auto
  next
    case False
    with Cons obtain us where "v = us @ c" "c \<noteq> []" "hd c = n" by auto
    then show ?thesis by (intro exI [of _ "e # us"]) simp
  qed
qed simp

text \<open>Inversion of one step of the loop over the dependencies, and of one call.\<close>

lemma search_ConsE:
  assumes "search_dependencies fuel ts src V (dep # deps) dn = Some (c, u, d)"
  obtains (cyc) cyc c' where "getCycle V dep = Some cyc"
      "search_dependencies fuel ts src V deps dn = Some (c', u, d)" "c = cyc # c'"
  | (undef) u' where "dep \<notin> set V" "dep \<notin> template_names ts"
      "search_dependencies fuel ts src V deps dn = Some (c, u', d)"
      "u = \<lparr>ur_source = src, ur_target = dep\<rparr> # u'"
  | (rec) idx c1 u1 nd c' u' where "dep \<notin> set V" "idx < length ts" "dt_name (ts ! idx) = dep"
      "getCyclesAndUndefinedDependencies fuel ts idx V dn = Some (c1, u1, nd)"
      "search_dependencies fuel ts src V deps (List.union nd dn) = Some (c', u', d)"
      "c = c1 @ c'" "u = u1 @ u'"
proof (cases "getCycle V dep")
  case (Some x)
  with assms cyc show ?thesis by (auto split: option.splits)
next
  case None
  then have V: "dep \<notin> set V" by simp
  show ?thesis
  proof (cases "getDeployItemTemplateByName ts dep")
    case None2: None
    with assms None V undef show ?thesis
      by (auto simp: getDeployItemTemplateByName_None split: option.splits)
  next
    case (Some idx)
    then have idx: "idx < length ts" "dt_name (ts ! idx) = dep"
      by (auto dest: getDeployItemTemplateByName_Some)
    from assms None Some rec [OF V idx] show ?thesis by (auto split: option.splits)
  qed
qed

lemma get_SucE:
  assumes "getCyclesAndUndefinedDependencies (Suc fuel) ts i V dn = Some (c, u, d)"
  obtains (seen) "dt_name (ts ! i) \<in> set dn" "c = []" "u = []" "d = dn"
  | (leaf) "dt_name (ts ! i) \<notin> set dn" "dt_dependsOn (ts ! i) = []" "c = []" "u = []"
      "set d = insert (dt_name (ts ! i)) (set dn)"
  | (inner) dn1 where "dt_name (ts ! i) \<notin> set dn" "set dn1 = insert (dt_name (ts ! i)) (set dn)"
      "search_dependencies fuel ts (dt_name (ts ! i)) (V @ [dt_name (ts ! i)])
         (dt_dependsOn (ts ! i)) dn1 = Some (c, u, d)"
proof (cases "dt_name (ts ! i) \<in> set dn \<or> dt_dependsOn (ts ! i) = []")
  case True
  with assms seen leaf show ?thesis by (auto simp: Let_def split: if_splits)
next
  case False
  with assms inner [of "List.insert (dt_name (ts ! i)) dn"] show ?thesis by (simp add: Let_def)
qed

lemma search_mono:
  assumes "\<And>i V dn c u d. getCyclesAndUndefinedDependencies fuel ts i V dn = Some (c, u, d) \<Longrightarrow>
             set dn \<subseteq> set d"
  shows "search_dependencies fuel ts src V deps dn = Some (c, u, d) \<Longrightarrow> set dn \<subseteq> set d"
proof (induction deps arbitrary: dn c u d)
  case (Cons dep deps)
  from Cons.prems show ?case
    by (cases rule: search_ConsE) (use Cons.IH assms in fastforce)+
qed simp

lemma get_mono:
  "getCyclesAndUndefinedDependencies fuel ts i V dn = Some (c, u, d) \<Longrightarrow> set dn \<subseteq> set d"
proof (induction fuel arbitrary: i V dn c u d)
  case (Suc fuel)
  from Suc.prems show ?case
  proof (cases rule: get_SucE)
    case (inner dn1)
    from search_mono [OF Suc.IH inner(3)] inner(2) show ?thesis by auto
  qed auto
qed simp

lemma search_dependencies_mono:
  "search_dependencies fuel ts src V deps dn = Some (c, u, d) \<Longrightarrow> set dn \<subseteq> set d"
  by (rule search_mono) (rule get_mono)

subsection \<open>The fuel is enough\<close>

definition pending :: "deploy_item_template list \<Rightarrow> string list \<Rightarrow> nat" where
  "pending ts dn = card (template_names ts - set dn)"

lemma finite_template_names [simp]: "finite (template_names ts)"
  by (simp add: template_names_def)

lemma pending_mono: "set dn \<subseteq> set d \<Longrightarrow> pending ts d \<le> pending ts dn"
  unfolding pending_def by (intro card_mono) auto

lemma pending_insert:
  assumes "n \<in> template_names ts" "n \<notin> set dn" "set d = insert n (set dn)"
  shows "pending ts d < pending ts dn"
  unfolding pending_def using assms by (intro psubset_card_mono) auto

lemma search_total:
  assumes get: "\<And>i V dn. i < length ts \<Longrightarrow> pending ts dn < fuel \<Longrightarrow>
             getCyclesAndUndefinedDependencies fuel ts i V dn \<noteq> None"
  shows "pending ts dn < fuel \<Longrightarrow> search_dependencies fuel ts src V deps dn \<noteq> None"
proof (induction deps arbitrary: dn)
  case (Cons dep deps)
  have dn: "search_dependencies fuel ts src V deps dn \<noteq> None"
    using Cons.IH Cons.prems by blast
  show ?case
  proof (cases "getCycle V dep = None \<and> getDeployItemTemplateByName ts dep \<noteq> None")
    case True
    then obtain idx where idx: "getDeployItemTemplateByName ts dep = Some idx" by auto
    with get Cons.prems obtain c1 u1 nd where
      r: "getCyclesAndUndefinedDependencies fuel ts idx V dn = Some (c1, u1, nd)"
      using getDeployItemTemplateByName_Some by (metis not_None_eq prod_cases3)
    have "pending ts (List.union nd dn) \<le> pending ts dn" by (rule pending_mono) simp
    with Cons.prems have "pending ts (List.union nd dn) < fuel" by simp
    then have "search_dependencies fuel ts src V deps (List.union nd dn) \<noteq> None"
      by (rule Cons.IH)
    then obtain a where a: "search_dependencies fuel ts src V deps (List.union nd dn) = Some a" by auto
    have "getCycle V dep = None" using True by blast
    with a idx r show ?thesis by (cases a) (simp del: getCycle_None)
  next
    case False
    with dn show ?thesis by (auto split: option.splits)
  qed
qed simp

lemma get_total:
  "i < length ts \<Longrightarrow> pending ts dn < fuel \<Longrightarrow>
   getCyclesAndUndefinedDependencies fuel ts i V dn \<noteq> None"
proof (induction fuel arbitrary: i V dn)
  case (Suc fuel)
  let ?n = "dt_name (ts ! i)"
  show ?case
  proof (cases "?n \<in> set dn \<or> dt_dependsOn (ts ! i) = []")
    case True
    then show ?thesis by (auto simp: Let_def)
  next
    case False
    have "?n \<in> template_names ts" using Suc.prems(1) by (simp add: template_names_def)
    with False have "pending ts (List.insert ?n dn) < pending ts dn"
      by (intro pending_insert) auto
    with Suc.prems(2) have "pending ts (List.insert ?n dn) < fuel" by simp
    from search_total [OF Suc.IH this] False show ?thesis by (simp add: Let_def)
  qed
qed simp

lemma search_all_total: "\<forall>i \<in> set is. i < length ts \<Longrightarrow> search_all ts is dn \<noteq> None"
proof (induction "is" arbitrary: dn)
  case (Cons i "is")
  have "pending ts dn \<le> length ts"
    using card_mono [of "template_names ts" "template_names ts - set dn"]
      card_image_le [of "set ts" dt_name] card_length [of ts]
    by (simp add: pending_def template_names_def)
  with Cons.prems have "getCyclesAndUndefinedDependencies (Suc (length ts)) ts i [] dn \<noteq> None"
    by (intro get_total) auto
  then obtain c u d where r: "getCyclesAndUndefinedDependencies (Suc (length ts)) ts i [] dn = Some (c, u, d)"
    by auto
  have "search_all ts is (List.union d dn) \<noteq> None" using Cons by auto
  with r show ?case by auto
qed simp

subsection \<open>A search without findings yields an order\<close>

definition finished :: "deploy_item_template list \<Rightarrow> string list \<Rightarrow> string list \<Rightarrow> bool" where
  "finished ts V dn \<longleftrightarrow> set V \<subseteq> set dn \<and> set dn \<subseteq> template_names ts \<and>
     (\<exists>L. dep_ordered ts L \<and> set L = set dn - set V)"

lemma finished_cong: "set d = set dn \<Longrightarrow> finished ts V d = finished ts V dn"
  by (simp add: finished_def)

lemma finished_push:
  "finished ts V dn \<Longrightarrow> n \<notin> set dn \<Longrightarrow> n \<in> template_names ts \<Longrightarrow> set d = insert n (set dn) \<Longrightarrow>
   finished ts (V @ [n]) d"
  unfolding finished_def by (auto simp: subset_insertI2)

lemma finished_pop:
  assumes fin: "finished ts (V @ [n]) d" and n: "n \<notin> set V"
    and deps: "\<And>x. (n, x) \<in> dep_rel ts \<Longrightarrow> x \<in> set d - set (V @ [n])"
  shows "finished ts V d"
proof -
  obtain L where L: "dep_ordered ts L" "set L = set d - set (V @ [n])" and sub: "set (V @ [n]) \<subseteq> set d"
    using fin by (auto simp: finished_def)
  have "dep_ordered ts (n # L)" using L deps by auto
  moreover have "set (n # L) = set d - set V" using L(2) n sub by auto
  moreover have "set V \<subseteq> set d" "set d \<subseteq> template_names ts" using sub fin by (auto simp: finished_def)
  ultimately show ?thesis unfolding finished_def by blast
qed

lemma search_order:
  assumes get: "\<And>i V dn d. i < length ts \<Longrightarrow> finished ts V dn \<Longrightarrow>
      getCyclesAndUndefinedDependencies fuel ts i V dn = Some ([], [], d) \<Longrightarrow>
      finished ts V d \<and> dt_name (ts ! i) \<in> set d"
  shows "finished ts V dn \<Longrightarrow> search_dependencies fuel ts src V deps dn = Some ([], [], d) \<Longrightarrow>
    finished ts V d \<and> set deps \<subseteq> set d - set V"
proof (induction deps arbitrary: dn)
  case (Cons dep deps)
  from Cons.prems(2) show ?case
  proof (cases rule: search_ConsE)
    case (rec idx c1 u1 nd c' u')
    then have g: "getCyclesAndUndefinedDependencies fuel ts idx V dn = Some ([], [], nd)" by simp
    from get [OF rec(2) Cons.prems(1) g] rec(3) have fin: "finished ts V nd" and dep: "dep \<in> set nd"
      by auto
    have un: "set (List.union nd dn) = set nd" using get_mono [OF g] by auto
    from fin have fin': "finished ts V (List.union nd dn)" by (simp only: finished_cong [OF un])
    have "search_dependencies fuel ts src V deps (List.union nd dn) = Some ([], [], d)"
      using rec(5-7) by simp
    from Cons.IH [OF fin' this] search_dependencies_mono [OF this] dep un rec(1) show ?thesis by auto
  qed auto
qed simp

lemma get_order:
  assumes dist: "distinct (map dt_name ts)"
  shows "i < length ts \<Longrightarrow> finished ts V dn \<Longrightarrow>
     getCyclesAndUndefinedDependencies fuel ts i V dn = Some ([], [], d) \<Longrightarrow>
     finished ts V d \<and> dt_name (ts ! i) \<in> set d"
proof (induction fuel arbitrary: i V dn d)
  case (Suc fuel)
  let ?n = "dt_name (ts ! i)"
  have name: "?n \<in> template_names ts" using Suc.prems(1) by (simp add: template_names_def)
  from Suc.prems(3) show ?case
  proof (cases rule: get_SucE)
    case seen
    with Suc.prems(2) show ?thesis by simp
  next
    case leaf
    have "\<And>x. (?n, x) \<notin> dep_rel ts" using dep_rel_nth [OF dist Suc.prems(1)] leaf(2) by simp
    moreover have "?n \<notin> set V" using leaf(1) Suc.prems(2) by (auto simp: finished_def)
    ultimately have "finished ts V d"
      by (intro finished_pop [OF finished_push [OF Suc.prems(2) leaf(1) name leaf(5)]]) auto
    with leaf(5) show ?thesis by simp
  next
    case (inner dn1)
    have V: "?n \<notin> set V" using inner(1) Suc.prems(2) by (auto simp: finished_def)
    from finished_push [OF Suc.prems(2) inner(1) name inner(2)] have fin: "finished ts (V @ [?n]) dn1" .
    from search_order [OF Suc.IH fin inner(3)]
    have r: "finished ts (V @ [?n]) d" "set (dt_dependsOn (ts ! i)) \<subseteq> set d - set (V @ [?n])" by auto
    have "finished ts V d"
      by (rule finished_pop [OF r(1) V]) (use r(2) dep_rel_nth [OF dist Suc.prems(1)] in auto)
    moreover have "?n \<in> set d" using r(1) by (auto simp: finished_def)
    ultimately show ?thesis ..
  qed
qed simp

lemma search_all_order:
  assumes dist: "distinct (map dt_name ts)"
  shows "\<forall>i \<in> set is. i < length ts \<Longrightarrow> finished ts [] dn \<Longrightarrow> search_all ts is dn = Some ([], []) \<Longrightarrow>
    \<exists>d. finished ts [] d \<and> set dn \<subseteq> set d \<and> (\<forall>i \<in> set is. dt_name (ts ! i) \<in> set d)"
proof (induction "is" arbitrary: dn)
  case (Cons i "is")
  from Cons.prems(3) obtain d where
    g: "getCyclesAndUndefinedDependencies (Suc (length ts)) ts i [] dn = Some ([], [], d)" and
    s: "search_all ts is (List.union d dn) = Some ([], [])"
    by (auto split: option.splits simp del: getCyclesAndUndefinedDependencies.simps)
  have "i < length ts" using Cons.prems(1) by simp
  from get_order [OF dist this Cons.prems(2) g]
  have fin: "finished ts [] d" and i: "dt_name (ts ! i) \<in> set d" by auto
  have un: "set (List.union d dn) = set d" using get_mono [OF g] by auto
  from fin have "finished ts [] (List.union d dn)" by (simp only: finished_cong [OF un])
  from Cons.IH [OF _ this s] Cons.prems(1) obtain d' where
    "finished ts [] d'" "set (List.union d dn) \<subseteq> set d'" "\<forall>i \<in> set is. dt_name (ts ! i) \<in> set d'" by auto
  with i show ?case by (intro exI [of _ d']) auto
next
  case Nil
  then show ?case by (intro exI [of _ dn]) simp
qed

subsection \<open>What the search reports is there\<close>

definition dep_path :: "deploy_item_template list \<Rightarrow> string list \<Rightarrow> bool" where
  "dep_path ts p \<longleftrightarrow> successively (\<lambda>x y. (x, y) \<in> dep_rel ts) p"

text \<open>A cycle: each item depends on the next one, and the last one on the first.\<close>

definition dep_cycle :: "deploy_item_template list \<Rightarrow> string list \<Rightarrow> bool" where
  "dep_cycle ts c \<longleftrightarrow> c \<noteq> [] \<and> dep_path ts c \<and> (last c, hd c) \<in> dep_rel ts"

definition dep_undefined :: "deploy_item_template list \<Rightarrow> undefined_reference \<Rightarrow> bool" where
  "dep_undefined ts u \<longleftrightarrow>
     (ur_source u, ur_target u) \<in> dep_rel ts \<and> ur_target u \<notin> template_names ts"

lemma dep_path_trancl:
  "successively (\<lambda>x y. (x, y) \<in> R) (x # p) \<Longrightarrow> (x, last (x # p)) \<in> R\<^sup>*"
proof (induction p arbitrary: x)
  case (Cons y p)
  then have "(x, y) \<in> R" and "(y, last (y # p)) \<in> R\<^sup>*" by auto
  then show ?case by (simp add: converse_rtrancl_into_rtrancl)
qed simp

lemma dep_cycle_not_acyclic: "dep_cycle ts c \<Longrightarrow> \<not> acyclic (dep_rel ts)"
proof -
  assume c: "dep_cycle ts c"
  then obtain x p where [simp]: "c = x # p" by (cases c) (auto simp: dep_cycle_def)
  from c have "(x, last c) \<in> (dep_rel ts)\<^sup>*" and "(last c, x) \<in> dep_rel ts"
    using dep_path_trancl [of "dep_rel ts" x p] by (auto simp: dep_cycle_def dep_path_def)
  then have "(x, x) \<in> (dep_rel ts)\<^sup>+" by (rule rtrancl_into_trancl1)
  then show ?thesis by (auto simp: acyclic_def)
qed

lemma dep_path_suffix: "dep_path ts (us @ c) \<Longrightarrow> dep_path ts c"
  by (auto simp: dep_path_def successively_append_iff)

lemma dep_path_snoc:
  "dep_path ts V \<Longrightarrow> (V \<noteq> [] \<Longrightarrow> (last V, n) \<in> dep_rel ts) \<Longrightarrow> dep_path ts (V @ [n])"
  by (auto simp: dep_path_def successively_append_iff)

lemma getCycle_dep_cycle:
  assumes "getCycle V dep = Some c" and "dep_path ts V" and "(last V, dep) \<in> dep_rel ts"
  shows "dep_cycle ts c"
proof -
  from getCycle_Some [OF assms(1)] obtain us where c: "V = us @ c" "c \<noteq> []" "hd c = dep" by auto
  with assms dep_path_suffix [of ts us c] show ?thesis by (simp add: dep_cycle_def)
qed

lemma search_sound:
  assumes get: "\<And>i V dn c u d. i < length ts \<Longrightarrow> dep_path ts (V @ [dt_name (ts ! i)]) \<Longrightarrow>
      getCyclesAndUndefinedDependencies fuel ts i V dn = Some (c, u, d) \<Longrightarrow>
      (\<forall>x \<in> set c. dep_cycle ts x) \<and> (\<forall>x \<in> set u. dep_undefined ts x)"
  shows "V \<noteq> [] \<Longrightarrow> dep_path ts V \<Longrightarrow> \<forall>x \<in> set deps. (last V, x) \<in> dep_rel ts \<Longrightarrow>
    search_dependencies fuel ts (last V) V deps dn = Some (c, u, d) \<Longrightarrow>
    (\<forall>x \<in> set c. dep_cycle ts x) \<and> (\<forall>x \<in> set u. dep_undefined ts x)"
proof (induction deps arbitrary: dn c u d)
  case (Cons dep deps)
  have dep: "(last V, dep) \<in> dep_rel ts" and deps: "\<forall>x \<in> set deps. (last V, x) \<in> dep_rel ts"
    using Cons.prems(3) by auto
  note IH = Cons.IH [OF Cons.prems(1,2) deps]
  from Cons.prems(4) show ?case
  proof (cases rule: search_ConsE)
    case (cyc cyc c')
    with IH [OF cyc(2)] getCycle_dep_cycle [OF cyc(1) Cons.prems(2) dep] show ?thesis by simp
  next
    case (undef u')
    with IH [OF undef(3)] dep show ?thesis by (simp add: dep_undefined_def)
  next
    case (rec idx c1 u1 nd c' u')
    have "dep_path ts (V @ [dt_name (ts ! idx)])" using dep_path_snoc Cons.prems(2) dep rec(3) by simp
    from get [OF rec(2) this rec(4)] IH [OF rec(5)] rec(6,7) show ?thesis by auto
  qed
qed simp

lemma get_sound:
  "i < length ts \<Longrightarrow> dep_path ts (V @ [dt_name (ts ! i)]) \<Longrightarrow>
   getCyclesAndUndefinedDependencies fuel ts i V dn = Some (c, u, d) \<Longrightarrow>
   (\<forall>x \<in> set c. dep_cycle ts x) \<and> (\<forall>x \<in> set u. dep_undefined ts x)"
proof (induction fuel arbitrary: i V dn c u d)
  case (Suc fuel)
  from Suc.prems(3) show ?case
  proof (cases rule: get_SucE)
    case (inner dn1)
    have "\<forall>x \<in> set (dt_dependsOn (ts ! i)). (last (V @ [dt_name (ts ! i)]), x) \<in> dep_rel ts"
      using Suc.prems(1) by (simp add: dep_relI)
    from search_sound [OF Suc.IH _ Suc.prems(2) this] inner(3) show ?thesis by simp
  qed auto
qed simp

lemma search_all_sound:
  "\<forall>i \<in> set is. i < length ts \<Longrightarrow> search_all ts is dn = Some (cs, us) \<Longrightarrow>
   (\<forall>x \<in> set cs. dep_cycle ts x) \<and> (\<forall>x \<in> set us. dep_undefined ts x)"
proof (induction "is" arbitrary: dn cs us)
  case (Cons i "is")
  from Cons.prems(2) obtain c u d cs' us' where
    g: "getCyclesAndUndefinedDependencies (Suc (length ts)) ts i [] dn = Some (c, u, d)" and
    s: "search_all ts is (List.union d dn) = Some (cs', us')" "cs = c @ cs'" "us = u @ us'"
    by (auto split: option.splits simp del: getCyclesAndUndefinedDependencies.simps)
  have "i < length ts" using Cons.prems(1) by simp
  from get_sound [OF this _ g] Cons.IH [OF _ s(1)] Cons.prems(1) s(2,3)
  show ?case by (auto simp: dep_path_def)
qed simp

subsection \<open>The single templates\<close>

lemma validate_templates_duplicates:
  "snd (validate_templates vl p i ts names) \<longleftrightarrow>
     \<not> distinct (filter (\<lambda>n. n \<noteq> []) (map dt_name ts))
     \<or> (\<exists>n \<in> set (map dt_name ts). n \<noteq> [] \<and> n \<in> set names)"
proof (induction ts arbitrary: i names)
  case (Cons t ts)
  then show ?case by (auto simp: Let_def case_prod_beta) (metis image_eqI)
qed simp

definition template_ok :: "label_validator \<Rightarrow> field_path \<Rightarrow> deploy_item_template \<Rightarrow> bool" where
  "template_ok vl p t \<longleftrightarrow> dt_name t \<noteq> [] \<and> dt_type t \<noteq> []
     \<and> (\<forall>r. dt_target t = Some r \<longrightarrow> or_name r \<noteq> [] \<and> or_namespace r \<noteq> [])
     \<and> (dt_labels t \<noteq> [] \<longrightarrow> vl (dt_labels t) (path_Child p ''labels'') = [])"

lemma ValidateDeployItemTemplate_Nil: "ValidateDeployItemTemplate vl p t = [] \<longleftrightarrow> template_ok vl p t"
  by (auto simp: ValidateDeployItemTemplate_def template_ok_def ValidateObjectReference_def
    split: option.splits)

lemma validate_templates_Nil:
  "fst (validate_templates vl p i ts names) = [] \<longleftrightarrow>
     (\<forall>j < length ts. template_ok vl (path_Key (path_Index p (i + j)) (dt_name (ts ! j))) (ts ! j))
     \<and> distinct (map dt_name ts) \<and> set (map dt_name ts) \<inter> set names = {}"
proof (induction ts arbitrary: i names)
  case (Cons t ts)
  show ?case
  proof (cases "dt_name t = []")
    case True
    then have no: "\<not> template_ok vl q t" for q by (simp add: template_ok_def)
    then have "\<not> (\<forall>j < length (t # ts). template_ok vl (path_Key (path_Index p (i + j))
        (dt_name ((t # ts) ! j))) ((t # ts) ! j))"
      by (intro notI) (drule spec [of _ 0], simp)
    with no True show ?thesis
      by (simp only: validate_templates.simps Let_def case_prod_beta fst_conv append_is_Nil_conv
        ValidateDeployItemTemplate_Nil simp_thms)
  next
    case False
    with Cons show ?thesis
      by (auto simp: All_less_Suc2 Let_def ValidateDeployItemTemplate_Nil case_prod_beta)
  qed
qed simp


section \<open>The validation is exact\<close>

definition templates_ok :: "label_validator \<Rightarrow> field_path \<Rightarrow> deploy_item_template list \<Rightarrow> bool" where
  "templates_ok vl p ts \<longleftrightarrow>
     (\<forall>j < length ts. template_ok vl (path_Key (path_Index p j) (dt_name (ts ! j))) (ts ! j))"

lemma finished_Nil: "finished ts [] []"
  by (auto simp: finished_def intro: exI [of _ "[]"])

lemma dep_rel_range: "(x, y) \<in> dep_rel ts \<Longrightarrow> x \<in> template_names ts"
  by (auto simp: dep_rel_def template_names_def)

lemma search_all_exact:
  assumes dist: "distinct (map dt_name ts)"
  shows "search_all ts [0..<length ts] [] = Some ([], []) \<longleftrightarrow> acyclic (dep_rel ts) \<and> deps_closed ts"
    (is "?l = ?r")
proof
  assume ?l
  then obtain d where fin: "finished ts [] d" and all: "\<forall>i < length ts. dt_name (ts ! i) \<in> set d"
    using search_all_order [OF dist _ finished_Nil, of "[0..<length ts]"] by auto
  from fin obtain L where L: "dep_ordered ts L" "set L = set d" "set d \<subseteq> template_names ts"
    by (auto simp: finished_def)
  have sub: "template_names ts \<subseteq> set L"
    using all L(2) by (auto simp: template_names_def in_set_conv_nth)
  with L(2,3) have "set L = template_names ts" by auto
  with dep_ordered_acyclic [OF L(1) sub] dep_ordered_closed [OF L(1)] show ?r by simp
next
  assume r: ?r
  obtain cs us where s: "search_all ts [0..<length ts] [] = Some (cs, us)"
    using search_all_total [of "[0..<length ts]" ts "[]"] by auto
  with search_all_sound [OF _ s] have
    snd: "\<forall>x \<in> set cs. dep_cycle ts x" "\<forall>x \<in> set us. dep_undefined ts x" by auto
  have "cs = []" using snd(1) r dep_cycle_not_acyclic by (cases cs) auto
  moreover have "us = []"
    using snd(2) r by (cases us) (auto simp: dep_undefined_def deps_closed_def dep_rel_def)
  ultimately show ?l using s by simp
qed

lemma validate_templates_ok:
  "fst (validate_templates vl p 0 ts []) = [] \<longleftrightarrow> templates_ok vl p ts \<and> distinct (map dt_name ts)"
  by (simp add: validate_templates_Nil templates_ok_def)

lemma templates_ok_names: "templates_ok vl p ts \<Longrightarrow> [] \<notin> set (map dt_name ts)"
  by (auto simp: templates_ok_def template_ok_def in_set_conv_nth) metis

lemma ValidateDeployItemTemplateList_ok:
  "ValidateDeployItemTemplateList vl p ts = Some [] \<longleftrightarrow>
     templates_ok vl p ts \<and> distinct (map dt_name ts) \<and> acyclic (dep_rel ts) \<and> deps_closed ts"
proof (cases "fst (validate_templates vl p 0 ts []) = []")
  case True
  then have v: "templates_ok vl p ts" "distinct (map dt_name ts)" by (simp_all add: validate_templates_ok)
  then have "\<not> snd (validate_templates vl p 0 ts [])" by (simp add: validate_templates_duplicates)
  with True have "validate_templates vl p 0 ts [] = ([], False)" by (metis prod.collapse)
  then show ?thesis using v search_all_exact [OF v(2)]
    by (auto simp: ValidateDeployItemTemplateList_def split: option.splits)
next
  case False
  then have "ValidateDeployItemTemplateList vl p ts \<noteq> Some []"
    by (auto simp: ValidateDeployItemTemplateList_def case_prod_beta split: option.splits)
  with False show ?thesis by (auto simp: validate_templates_ok)
qed

lemma ValidateDeployItemTemplateList_total: "ValidateDeployItemTemplateList vl p ts \<noteq> None"
  using search_all_total [of "[0..<length ts]" ts "[]"]
  by (auto simp: ValidateDeployItemTemplateList_def case_prod_beta)

text \<open>In a list that passes, whatever has been done, some item that is left has all it needs.\<close>

lemma finite_dep_rel: "finite (dep_rel ts)"
proof -
  have "dep_rel ts = (\<Union>t \<in> set ts. (\<lambda>d. (dt_name t, d)) ` set (dt_dependsOn t))"
    by (auto simp: dep_rel_def)
  then show ?thesis by simp
qed

lemma next_item_exists:
  assumes "acyclic (dep_rel ts)" and closed: "deps_closed ts" and left: "\<not> template_names ts \<subseteq> S"
  obtains t where "t \<in> set ts" "dt_name t \<notin> S" "set (dt_dependsOn t) \<subseteq> S"
proof -
  have "wf ((dep_rel ts)\<inverse>)" using assms(1) finite_dep_rel by (rule finite_acyclic_wf_converse [rotated])
  moreover obtain n where "n \<in> template_names ts - S" using left by auto
  ultimately obtain z where z: "z \<in> template_names ts - S"
    and min: "\<And>y. (y, z) \<in> (dep_rel ts)\<inverse> \<Longrightarrow> y \<notin> template_names ts - S"
    by (metis wfE_min)
  then obtain t where t: "t \<in> set ts" "dt_name t = z" by (auto simp: template_names_def)
  have "d \<in> S" if d: "d \<in> set (dt_dependsOn t)" for d
  proof -
    from min [of d] dep_relI [OF t(1) d] t(2) have "d \<notin> template_names ts - S" by simp
    moreover have "d \<in> template_names ts" using closed t(1) d by (auto simp: deps_closed_def)
    ultimately show ?thesis by simp
  qed
  with t z that [of t] show ?thesis by auto
qed

section \<open>Properties\<close>

text \<open>
  C1: the validation of the deploy item templates of an execution is exact. It returns (the search
  never runs out of its depth), and it reports nothing if and only if every template is well
  formed on its own, the names are unique, every dependency names a template of the list, and
  the dependency relation has no cycle.
\<close>

theorem ValidateDeployItemTemplateList_exact:
  "\<exists>errs. ValidateDeployItemTemplateList vl p ts = Some errs \<and>
     (errs = [] \<longleftrightarrow> templates_ok vl p ts \<and> distinct (map dt_name ts)
        \<and> deps_closed ts \<and> acyclic (dep_rel ts))"
  using ValidateDeployItemTemplateList_total [of vl p ts] ValidateDeployItemTemplateList_ok [of vl p ts]
  by auto

text \<open>
  The search behind the validation reports only what is there. Every cycle it returns is a
  chain of items of the list, each depending on the next one and the last one on the first, and
  every undefined reference is a dependency of a template on a name that no template has.
\<close>

theorem search_reports_are_real:
  "\<exists>cycles undef. search_all ts [0..<length ts] [] = Some (cycles, undef)
     \<and> list_all (dep_cycle ts) cycles \<and> list_all (dep_undefined ts) undef"
proof -
  obtain cs us where s: "search_all ts [0..<length ts] [] = Some (cs, us)"
    using search_all_total [of "[0..<length ts]" ts "[]"] by auto
  with search_all_sound [OF _ s] show ?thesis by (simp add: list_all_iff)
qed

text \<open>
  C30: an accepted list of templates can always be worked off. Whatever part of the items has been
  finished, as long as one is left there is an unfinished item whose dependencies are all finished.
\<close>

theorem accepted_templates_can_proceed:
  assumes "ValidateDeployItemTemplateList vl p ts = Some []"
    and "t \<in> set ts" and "dt_name t \<notin> S"
  shows "\<exists>u \<in> set ts. dt_name u \<notin> S \<and> set (dt_dependsOn u) \<subseteq> S"
proof -
  from assms(1) have "acyclic (dep_rel ts)" "deps_closed ts" by (simp_all add: ValidateDeployItemTemplateList_ok)
  moreover have "\<not> template_names ts \<subseteq> S" using assms(2,3) by (auto simp: template_names_def)
  ultimately show ?thesis by (rule next_item_exists) auto
qed

definition example_template :: "string \<Rightarrow> string list \<Rightarrow> deploy_item_template" where
  "example_template n deps = \<lparr>dt_name = n, dt_type = ''helm'', dt_target = None, dt_labels = [],
     dt_configuration = None, dt_dependsOn = deps\<rparr>"

definition example_templates :: "deploy_item_template list" where
  "example_templates =
     [example_template ''app'' [''db'', ''net''], example_template ''db'' [''net''], example_template ''net'' []]"

lemma example_templates_accepted:
  "ValidateDeployItemTemplateList (\<lambda>_ _. []) (path_New ''spec'') example_templates = Some []"
  by code_simp

lemma accepted_templates_can_proceed_witness:
  "\<exists>u \<in> set example_templates. dt_name u \<notin> {''net''} \<and> set (dt_dependsOn u) \<subseteq> {''net''}"
  by (rule accepted_templates_can_proceed [OF example_templates_accepted, of "example_template ''app'' [''db'', ''net'']"])
    (simp_all add: example_templates_def example_template_def)

lemma cyclic_templates_rejected:
  "ValidateDeployItemTemplateList (\<lambda>_ _. []) (path_New ''spec'')
     [example_template ''a'' [''b''], example_template ''b'' [''c'', ''x''], example_template ''c'' [''b'']]
   = Some [FInvalid (path_New ''spec'') (TextsValue [''b'', ''c'']) ''cycle found in dependencies'',
       FInvalid (path_Key (path_Index (path_New ''spec'') 1) ''b'') (TextValue ''x'')
         ''depends on undefined deploy item'']"
  by code_simp

end
