(* ===== verification/InstallationValidation.thy ===== *)
theory InstallationValidation
  imports ExecutionValidation
begin

text \<open>
  \<open>apis/core/validation/installation.go\<close> and \<open>component_overwrite.go\<close>. The loops over imports
  and exports collect names and report duplicates; the locale \<open>unique_name_check\<close> states that
  contract once, and each loop is an interpretation of it. The metadata validation of the
  Kubernetes libraries (\<open>apivalidation.ValidateObjectMeta\<close> with \<open>NameIsDNSLabel\<close>) is the
  argument \<open>vm\<close>.
\<close>

section \<open>The contract of the loops\<close>

text \<open>
  A loop over named elements with the names seen so far: an element passes when it is fine on
  its own and its name is new, and then its name is remembered.
\<close>

locale unique_name_check =
  fixes name :: "'a \<Rightarrow> string"
    and fine :: "'a \<Rightarrow> bool"
    and validate :: "field_path \<Rightarrow> nat \<Rightarrow> 'a list \<Rightarrow> string list \<Rightarrow> field_error list"
  assumes validate_Nil: "validate p i [] names = []"
    and validate_Cons: "validate p i (x # xs) names = [] \<longleftrightarrow>
      fine x \<and> name x \<notin> set names \<and> validate p (Suc i) xs (List.insert (name x) names) = []"
begin

lemma accepts_iff:
  "validate p i xs names = [] \<longleftrightarrow>
     list_all fine xs \<and> distinct (map name xs) \<and> set (map name xs) \<inter> set names = {}"
  by (induction xs arbitrary: i names) (auto simp: validate_Nil validate_Cons)

lemma accepts_iff_fresh: "validate p i xs [] = [] \<longleftrightarrow> list_all fine xs \<and> distinct (map name xs)"
  by (simp add: accepts_iff)

end

text \<open>Loops that hand the names on to the next loop.\<close>

locale name_collecting_check = unique_name_check +
  fixes names_after :: "'a list \<Rightarrow> string list \<Rightarrow> string list"
  assumes names_Nil: "names_after [] names = names"
    and names_Cons: "fine x \<Longrightarrow> names_after (x # xs) names = names_after xs (List.insert (name x) names)"
begin

lemma names_after_set:
  "list_all fine xs \<Longrightarrow> set (names_after xs names) = set names \<union> set (map name xs)"
  by (induction xs arbitrary: names) (auto simp: names_Nil names_Cons)

lemma accepts_names:
  "validate p i xs names = [] \<Longrightarrow> set (names_after xs names) = set names \<union> set (map name xs)"
  by (simp add: accepts_iff names_after_set)

end

section \<open>Imports\<close>

definition max_len_error :: "nat \<Rightarrow> string" where
  "max_len_error n = ''must be no more than '' @ show_int (int n) @ '' characters''"

text \<open>\<open>validation.DNS1123LabelMaxLength\<close> is 63, \<open>helper.InstallationPrefix\<close> is \<open>Inst.\<close>.\<close>

definition InstallationNameMaxLength :: nat where
  "InstallationNameMaxLength = 63 - length ''Inst.''"

definition InstallationGenerateNameMaxLength :: nat where
  "InstallationGenerateNameMaxLength = InstallationNameMaxLength - 5"

type_synonym meta_validator = "object_meta \<Rightarrow> field_path \<Rightarrow> field_error list"

definition validateInstallationObjectMeta :: "meta_validator \<Rightarrow> object_meta \<Rightarrow> field_path \<Rightarrow> field_error list" where
  "validateInstallationObjectMeta vm objMeta fldPath =
     vm objMeta fldPath
     @ (if InstallationNameMaxLength < length (om_name objMeta)
        then [FInvalid (path_Child fldPath ''name'') (TextValue (om_name objMeta))
                (max_len_error InstallationNameMaxLength)]
        else if InstallationGenerateNameMaxLength < length (om_generateName objMeta)
        then [FInvalid (path_Child fldPath ''generateName'') (TextValue (om_generateName objMeta))
                (max_len_error InstallationGenerateNameMaxLength)]
        else [])"

definition data_import_fields :: "data_import \<Rightarrow> struct_fields" where
  "data_import_fields imp =
     [(''Name'', im_name imp \<noteq> []), (''DataRef'', im_dataRef imp \<noteq> []), (''Version'', im_version imp \<noteq> []),
      (''SecretRef'', im_secretRef imp \<noteq> None), (''ConfigMapRef'', im_configMapRef imp \<noteq> None)]"

definition target_import_fields :: "target_import \<Rightarrow> struct_fields" where
  "target_import_fields imp =
     [(''Name'', ti_name imp \<noteq> []), (''Target'', ti_target imp \<noteq> []), (''Targets'', ti_targets imp \<noteq> None),
      (''TargetListReference'', ti_targetListReference imp \<noteq> [])]"

definition cd_import_fields :: "component_descriptor_import \<Rightarrow> struct_fields" where
  "cd_import_fields imp =
     [(''Name'', ci_name imp \<noteq> []), (''Ref'', ci_ref imp \<noteq> None), (''SecretRef'', ci_secretRef imp \<noteq> None),
      (''ConfigMapRef'', ci_configMapRef imp \<noteq> None), (''List'', ci_list imp \<noteq> None),
      (''DataRef'', ci_dataRef imp \<noteq> [])]"

definition cd_import_data_fields :: "component_descriptor_import_data \<Rightarrow> struct_fields" where
  "cd_import_data_fields cd =
     [(''Ref'', cl_ref cd \<noteq> None), (''SecretRef'', cl_secretRef cd \<noteq> None),
      (''ConfigMapRef'', cl_configMapRef cd \<noteq> None), (''DataRef'', cl_dataRef cd \<noteq> [])]"

definition validate_secret_ref :: "secret_reference option \<Rightarrow> field_path \<Rightarrow> field_error list" where
  "validate_secret_ref r p = (case r of None \<Rightarrow> [] | Some s \<Rightarrow> ValidateSecretReference s (path_Child p ''secretRef''))"

definition validate_config_map_ref :: "config_map_reference option \<Rightarrow> field_path \<Rightarrow> field_error list" where
  "validate_config_map_ref r p =
     (case r of None \<Rightarrow> [] | Some c \<Rightarrow> ValidateConfigMapReference c (path_Child p ''configMapRef''))"

fun validate_data_imports ::
    "field_path \<Rightarrow> nat \<Rightarrow> data_import list \<Rightarrow> string list \<Rightarrow> field_error list \<times> string list" where
  "validate_data_imports fldPath idx [] importNames = ([], importNames)"
| "validate_data_imports fldPath idx (imp # imps) importNames =
     (let impPath = path_Index fldPath idx;
          errs = ValidateExactlyOneOf impPath (Some (data_import_fields imp)) [''DataRef'', ''SecretRef'', ''ConfigMapRef'']
                 @ validate_secret_ref (im_secretRef imp) impPath
                 @ validate_config_map_ref (im_configMapRef imp) impPath
      in if im_name imp = []
         then (let (es, ns) = validate_data_imports fldPath (Suc idx) imps importNames
               in (errs @ FRequired (path_Child impPath ''name'') ''name must not be empty'' # es, ns))
         else (let dup = (if im_name imp \<in> set importNames then [FDuplicate impPath (im_name imp)] else []);
                   (es, ns) = validate_data_imports fldPath (Suc idx) imps (List.insert (im_name imp) importNames)
               in (errs @ dup @ es, ns)))"

definition ValidateInstallationDataImports ::
    "data_import list \<Rightarrow> field_path \<Rightarrow> string list \<Rightarrow> field_error list \<times> string list" where
  "ValidateInstallationDataImports imports fldPath importNames = validate_data_imports fldPath 0 imports importNames"

fun validate_target_names :: "field_path \<Rightarrow> nat \<Rightarrow> string list \<Rightarrow> field_error list" where
  "validate_target_names p idx2 [] = []"
| "validate_target_names p idx2 (tg # tgs) =
     (if tg = [] then [FRequired (path_Index (path_Child p ''targets'') idx2) ''target must not be empty''] else [])
     @ validate_target_names p (Suc idx2) tgs"

definition opt_list :: "'a list option \<Rightarrow> 'a list" where
  "opt_list l = (case l of None \<Rightarrow> [] | Some xs \<Rightarrow> xs)"

fun validate_target_imports ::
    "field_path \<Rightarrow> nat \<Rightarrow> target_import list \<Rightarrow> string list \<Rightarrow> field_error list \<times> string list" where
  "validate_target_imports fldPath idx [] importNames = ([], importNames)"
| "validate_target_imports fldPath idx (imp # imps) importNames =
     (let fldPathIdx = path_Index fldPath idx;
          errs = (if ti_name imp = [] then [FRequired (path_Child fldPathIdx ''name'') ''name must not be empty''] else [])
                 @ ValidateExactlyOneOf fldPathIdx (Some (target_import_fields imp))
                     [''Target'', ''Targets'', ''TargetListReference'']
                 @ validate_target_names fldPathIdx 0 (opt_list (ti_targets imp))
                 @ (if ti_name imp \<in> set importNames then [FDuplicate fldPathIdx (ti_name imp)] else []);
          (es, ns) = validate_target_imports fldPath (Suc idx) imps (List.insert (ti_name imp) importNames)
      in (errs @ es, ns))"

definition ValidateInstallationTargetImports ::
    "target_import list \<Rightarrow> field_path \<Rightarrow> string list \<Rightarrow> field_error list \<times> string list" where
  "ValidateInstallationTargetImports imports fldPath importNames = validate_target_imports fldPath 0 imports importNames"

fun validate_cd_list :: "field_path \<Rightarrow> nat \<Rightarrow> component_descriptor_import_data list \<Rightarrow> field_error list" where
  "validate_cd_list p idx2 [] = []"
| "validate_cd_list p idx2 (cd # cds) =
     (let fldPathIdx2 = path_Index (path_Child p ''list'') idx2
      in ValidateExactlyOneOf fldPathIdx2 (Some (cd_import_data_fields cd)) [''Ref'', ''ConfigMapRef'', ''SecretRef'']
         @ validate_config_map_ref (cl_configMapRef cd) fldPathIdx2
         @ validate_secret_ref (cl_secretRef cd) fldPathIdx2
         @ (if cl_dataRef cd \<noteq> [] then [FInvalid (path_Child fldPathIdx2 ''dataRef'') (TextValue (cl_dataRef cd))
              ''must be set in subinstallation templates only''] else [])
         @ validate_cd_list p (Suc idx2) cds)"

fun validate_cd_imports ::
    "field_path \<Rightarrow> nat \<Rightarrow> component_descriptor_import list \<Rightarrow> string list \<Rightarrow> field_error list \<times> string list" where
  "validate_cd_imports fldPath idx [] importNames = ([], importNames)"
| "validate_cd_imports fldPath idx (imp # imps) importNames =
     (let fldPathIdx = path_Index fldPath idx;
          errs = (if ci_name imp = [] then [FRequired (path_Child fldPathIdx ''name'') ''name must not be empty''] else [])
                 @ ValidateExactlyOneOf fldPathIdx (Some (cd_import_fields imp))
                     [''Ref'', ''ConfigMapRef'', ''SecretRef'', ''List'']
                 @ validate_config_map_ref (ci_configMapRef imp) fldPathIdx
                 @ validate_secret_ref (ci_secretRef imp) fldPathIdx
                 @ (if ci_dataRef imp \<noteq> [] then [FInvalid (path_Child fldPathIdx ''dataRef'') (TextValue (ci_dataRef imp))
                      ''must be set in subinstallation templates only''] else [])
                 @ validate_cd_list fldPathIdx 0 (opt_list (ci_list imp))
                 @ (if ci_name imp \<in> set importNames then [FDuplicate fldPathIdx (ci_name imp)] else []);
          (es, ns) = validate_cd_imports fldPath (Suc idx) imps (List.insert (ci_name imp) importNames)
      in (errs @ es, ns))"

definition ValidateInstallationComponentDescriptorImports ::
    "component_descriptor_import list \<Rightarrow> field_path \<Rightarrow> string list \<Rightarrow> field_error list \<times> string list" where
  "ValidateInstallationComponentDescriptorImports imports fldPath importNames =
     validate_cd_imports fldPath 0 imports importNames"

definition ValidateInstallationImports :: "installation_imports \<Rightarrow> field_path \<Rightarrow> field_error list" where
  "ValidateInstallationImports imports fldPath =
     (let (e1, n1) = ValidateInstallationDataImports (ii_data imports) (path_Child fldPath ''data'') [];
          (e2, n2) = ValidateInstallationTargetImports (ii_targets imports) (path_Child fldPath ''targets'') n1;
          (e3, n3) = ValidateInstallationComponentDescriptorImports (ii_componentDescriptors imports)
                       (path_Child fldPath ''componentDescriptors'') n2
      in e1 @ e2 @ e3)"

section \<open>Exports and the rest of the specification\<close>

fun validate_data_exports :: "field_path \<Rightarrow> nat \<Rightarrow> data_export list \<Rightarrow> string list \<Rightarrow> field_error list" where
  "validate_data_exports fldPath idx [] importNames = []"
| "validate_data_exports fldPath idx (imp # imps) importNames =
     (let errs = (if dx_dataRef imp = [] then [FRequired (path_Child (path_Index fldPath idx) ''dataRef'')
                    ''dataRef must not be empty''] else [])
      in if dx_name imp = []
         then errs @ FRequired (path_Child (path_Index fldPath idx) ''name'') ''name must not be empty''
                # validate_data_exports fldPath (Suc idx) imps importNames
         else errs @ (if dx_name imp \<in> set importNames then [FDuplicate (path_Index fldPath idx) (dx_name imp)] else [])
                @ validate_data_exports fldPath (Suc idx) imps (List.insert (dx_name imp) importNames))"

definition ValidateInstallationDataExports :: "data_export list \<Rightarrow> field_path \<Rightarrow> field_error list" where
  "ValidateInstallationDataExports exports fldPath = validate_data_exports fldPath 0 exports []"

fun validate_target_exports :: "field_path \<Rightarrow> nat \<Rightarrow> target_export list \<Rightarrow> string list \<Rightarrow> field_error list" where
  "validate_target_exports fldPath idx [] importNames = []"
| "validate_target_exports fldPath idx (imp # imps) importNames =
     (let errs = (if tx_target imp = [] then [FRequired (path_Child (path_Index fldPath idx) ''target'')
                    ''target must not be empty''] else [])
      in if tx_name imp = []
         then errs @ FRequired (path_Child (path_Index fldPath idx) ''name'') ''name must not be empty''
                # validate_target_exports fldPath (Suc idx) imps importNames
         else errs @ (if tx_name imp \<in> set importNames then [FDuplicate (path_Index fldPath idx) (tx_name imp)] else [])
                @ validate_target_exports fldPath (Suc idx) imps (List.insert (tx_name imp) importNames))"

definition ValidateInstallationTargetExports :: "target_export list \<Rightarrow> field_path \<Rightarrow> field_error list" where
  "ValidateInstallationTargetExports exports fldPath = validate_target_exports fldPath 0 exports []"

definition ValidateInstallationExports :: "installation_exports \<Rightarrow> field_path \<Rightarrow> field_error list" where
  "ValidateInstallationExports exports fldPath =
     ValidateInstallationDataExports (ix_data exports) (path_Child fldPath ''data'')
     @ ValidateInstallationTargetExports (ix_targets exports) (path_Child fldPath ''targets'')"

definition ValidateInstallationBlueprint :: "blueprint_definition \<Rightarrow> field_path \<Rightarrow> field_error list" where
  "ValidateInstallationBlueprint bp fldPath =
     ValidateExactlyOneOf (path_Child fldPath ''definition'')
       (Some [(''Reference'', bd_reference bp \<noteq> None), (''Inline'', bd_inline bp \<noteq> None)]) [''Inline'', ''Reference'']"

definition ValidateInstallationComponentDescriptor ::
    "component_descriptor_definition option \<Rightarrow> field_path \<Rightarrow> field_error list" where
  "ValidateInstallationComponentDescriptor cd fldPath =
     (case cd of
        None \<Rightarrow> []
      | Some c \<Rightarrow> ValidateExactlyOneOf (path_Child fldPath ''definition'')
          (Some [(''Reference'', cd_reference c \<noteq> None), (''Inline'', cd_inline c \<noteq> None)]) [''Inline'', ''Reference''])"

definition ValidateInstallationSpec :: "installation_spec \<Rightarrow> field_path \<Rightarrow> field_error list" where
  "ValidateInstallationSpec spec fldPath =
     ValidateInstallationImports (in_imports spec) (path_Child fldPath ''imports'')
     @ ValidateInstallationExports (in_exports spec) (path_Child fldPath ''exports'')
     @ ValidateInstallationBlueprint (in_blueprint spec) (path_Child fldPath ''blueprint'')
     @ ValidateInstallationComponentDescriptor (in_componentDescriptor spec) (path_Child fldPath ''componentDescriptor'')
     @ ValidateObjectReferenceList (in_registryPullSecrets spec) (path_Child fldPath ''registryPullSecrets'')"

definition ValidateInstallation :: "meta_validator \<Rightarrow> installation \<Rightarrow> field_error list" where
  "ValidateInstallation vm inst =
     validateInstallationObjectMeta vm (in_meta inst) (path_New ''metadata'')
     @ ValidateInstallationSpec (in_spec inst) (path_New ''spec'')"

section \<open>Component overwrites\<close>

definition ValidateSourceComponent :: "field_path \<Rightarrow> component_overwrite_reference \<Rightarrow> field_error list" where
  "ValidateSourceComponent fldPath component =
     (if ov_componentName component = []
      then [FRequired (path_Child fldPath ''componentName'') ''componentName must be defined''] else [])"

definition ValidateTargetComponent :: "field_path \<Rightarrow> component_overwrite_reference \<Rightarrow> field_error list" where
  "ValidateTargetComponent fldPath component =
     (if ov_componentName component = [] \<and> ov_version component = []
      then [FRequired (path_Child fldPath ''componentName/version'')
              ''a componentName or a version target has to be defined''] else [])"

fun validate_overwrites :: "field_path \<Rightarrow> nat \<Rightarrow> component_overwrite list \<Rightarrow> field_error list" where
  "validate_overwrites fldPath i [] = []"
| "validate_overwrites fldPath i (co # cos) =
     (let coPath = path_Index fldPath i
      in ValidateSourceComponent (path_Child coPath ''component'') (ov_component co)
         @ ValidateTargetComponent (path_Child coPath ''target'') (ov_target co)
         @ validate_overwrites fldPath (Suc i) cos)"

definition ValidateComponentOverwriteList :: "field_path \<Rightarrow> component_overwrite list \<Rightarrow> field_error list" where
  "ValidateComponentOverwriteList fldPath coList = validate_overwrites fldPath 0 coList"

definition ValidateComponentOverwrites :: "component_overwrites \<Rightarrow> field_error list" where
  "ValidateComponentOverwrites co = ValidateComponentOverwriteList (path_New ''overwrites'') (ov_overwrites co)"

section \<open>What the validation accepts\<close>

definition exactly_one :: "bool list \<Rightarrow> bool" where
  "exactly_one bs \<longleftrightarrow> length (filter id bs) = 1"

lemma ValidateExactlyOneOf_accepts:
  "ValidateExactlyOneOf p (Some fs) configs = [] \<longleftrightarrow>
     exactly_one (map snd (filter (\<lambda>(n, s). n \<in> set configs) fs))"
proof -
  have "length (filter id (map snd (filter (\<lambda>(n, s). n \<in> set configs) fs))) =
    length (filter (\<lambda>(n, s). s \<and> n \<in> set configs) fs)" by (induction fs) auto
  then show ?thesis by (simp add: ValidateExactlyOneOf_Nil_iff exactly_one_def)
qed

definition reference_ok :: "object_reference \<Rightarrow> bool" where
  "reference_ok r \<longleftrightarrow> or_name r \<noteq> [] \<and> or_namespace r \<noteq> []"

lemma ValidateObjectReference_accepts: "ValidateObjectReference r p = [] \<longleftrightarrow> reference_ok r"
  by (simp add: ValidateObjectReference_def reference_ok_def)

lemma validate_reference_list_accepts: "validate_reference_list i rs p = [] \<longleftrightarrow> list_all reference_ok rs"
  by (induction rs arbitrary: i) (simp_all add: ValidateObjectReference_accepts)

lemma ValidateObjectReferenceList_accepts: "ValidateObjectReferenceList rs p = [] \<longleftrightarrow> list_all reference_ok rs"
  by (simp add: ValidateObjectReferenceList_def validate_reference_list_accepts)

definition sources_ok :: "secret_reference option \<Rightarrow> config_map_reference option \<Rightarrow> bool" where
  "sources_ok s c \<longleftrightarrow> pred_option (reference_ok \<circ> sr_ref) s \<and> pred_option (reference_ok \<circ> cm_ref) c"

lemma source_refs_accept:
  "validate_secret_ref s p = [] \<longleftrightarrow> pred_option (reference_ok \<circ> sr_ref) s"
  "validate_config_map_ref c p = [] \<longleftrightarrow> pred_option (reference_ok \<circ> cm_ref) c"
  by (simp_all add: validate_secret_ref_def validate_config_map_ref_def ValidateSecretReference_def
      ValidateConfigMapReference_def ValidateObjectReference_accepts split: option.splits)

definition data_import_ok :: "data_import \<Rightarrow> bool" where
  "data_import_ok imp \<longleftrightarrow> im_name imp \<noteq> []
     \<and> exactly_one [im_dataRef imp \<noteq> [], im_secretRef imp \<noteq> None, im_configMapRef imp \<noteq> None]
     \<and> sources_ok (im_secretRef imp) (im_configMapRef imp)"

definition target_import_ok :: "target_import \<Rightarrow> bool" where
  "target_import_ok imp \<longleftrightarrow> ti_name imp \<noteq> []
     \<and> exactly_one [ti_target imp \<noteq> [], ti_targets imp \<noteq> None, ti_targetListReference imp \<noteq> []]
     \<and> [] \<notin> set (opt_list (ti_targets imp))"

definition cd_data_ok :: "component_descriptor_import_data \<Rightarrow> bool" where
  "cd_data_ok cd \<longleftrightarrow>
     exactly_one [cl_ref cd \<noteq> None, cl_secretRef cd \<noteq> None, cl_configMapRef cd \<noteq> None]
     \<and> sources_ok (cl_secretRef cd) (cl_configMapRef cd) \<and> cl_dataRef cd = []"

definition cd_import_ok :: "component_descriptor_import \<Rightarrow> bool" where
  "cd_import_ok imp \<longleftrightarrow> ci_name imp \<noteq> []
     \<and> exactly_one [ci_ref imp \<noteq> None, ci_secretRef imp \<noteq> None, ci_configMapRef imp \<noteq> None, ci_list imp \<noteq> None]
     \<and> sources_ok (ci_secretRef imp) (ci_configMapRef imp) \<and> ci_dataRef imp = []
     \<and> list_all cd_data_ok (opt_list (ci_list imp))"

definition data_export_ok :: "data_export \<Rightarrow> bool" where
  "data_export_ok e \<longleftrightarrow> dx_name e \<noteq> [] \<and> dx_dataRef e \<noteq> []"

definition target_export_ok :: "target_export \<Rightarrow> bool" where
  "target_export_ok e \<longleftrightarrow> tx_name e \<noteq> [] \<and> tx_target e \<noteq> []"

lemma validate_target_names_accepts: "validate_target_names p i tgs = [] \<longleftrightarrow> [] \<notin> set tgs"
  by (induction tgs arbitrary: i) auto

lemma validate_cd_list_accepts: "validate_cd_list p i cds = [] \<longleftrightarrow> list_all cd_data_ok cds"
  by (induction cds arbitrary: i)
    (auto simp: Let_def ValidateExactlyOneOf_accepts cd_import_data_fields_def source_refs_accept
      cd_data_ok_def sources_ok_def)

text \<open>The names that are collected do not depend on the path.\<close>

lemma collected_names_path:
  "snd (validate_data_imports p i ds ns) = snd (validate_data_imports q j ds ns)"
  "snd (validate_target_imports p i ts ns) = snd (validate_target_imports q j ts ns)"
proof -
  show "snd (validate_data_imports p i ds ns) = snd (validate_data_imports q j ds ns)"
    by (induction ds arbitrary: i j ns) (auto simp: Let_def case_prod_beta)
  show "snd (validate_target_imports p i ts ns) = snd (validate_target_imports q j ts ns)"
    by (induction ts arbitrary: i j ns) (auto simp: Let_def case_prod_beta)
qed

interpretation data_imports: name_collecting_check im_name data_import_ok
  "\<lambda>p i xs ns. fst (validate_data_imports p i xs ns)" "\<lambda>xs ns. snd (validate_data_imports [] 0 xs ns)"
proof
  show "data_import_ok x \<Longrightarrow> snd (validate_data_imports [] 0 (x # xs) names) =
    snd (validate_data_imports [] 0 xs (List.insert (im_name x) names))" for x xs names
    using collected_names_path(1) by (simp add: Let_def case_prod_beta data_import_ok_def)
qed (auto simp: Let_def case_prod_beta ValidateExactlyOneOf_accepts data_import_fields_def
  source_refs_accept data_import_ok_def sources_ok_def)

interpretation target_imports: name_collecting_check ti_name target_import_ok
  "\<lambda>p i xs ns. fst (validate_target_imports p i xs ns)" "\<lambda>xs ns. snd (validate_target_imports [] 0 xs ns)"
proof
  show "target_import_ok x \<Longrightarrow> snd (validate_target_imports [] 0 (x # xs) names) =
    snd (validate_target_imports [] 0 xs (List.insert (ti_name x) names))" for x xs names
    using collected_names_path(2) by (simp add: Let_def case_prod_beta)
qed (auto simp: Let_def case_prod_beta ValidateExactlyOneOf_accepts target_import_fields_def
  validate_target_names_accepts target_import_ok_def)

interpretation cd_imports: unique_name_check ci_name cd_import_ok
  "\<lambda>p i xs ns. fst (validate_cd_imports p i xs ns)"
  by unfold_locales
    (auto simp: Let_def case_prod_beta ValidateExactlyOneOf_accepts cd_import_fields_def
      source_refs_accept validate_cd_list_accepts cd_import_ok_def sources_ok_def)

interpretation data_exports: unique_name_check dx_name data_export_ok validate_data_exports
  by unfold_locales (auto simp: Let_def data_export_ok_def)

interpretation target_exports: unique_name_check tx_name target_export_ok validate_target_exports
  by unfold_locales (auto simp: Let_def target_export_ok_def)

text \<open>The names of all imports, of whatever kind, share one name space.\<close>

definition import_names :: "installation_imports \<Rightarrow> string list" where
  "import_names imps = map im_name (ii_data imps) @ map ti_name (ii_targets imps)
     @ map ci_name (ii_componentDescriptors imps)"

definition imports_ok :: "installation_imports \<Rightarrow> bool" where
  "imports_ok imps \<longleftrightarrow> list_all data_import_ok (ii_data imps) \<and> list_all target_import_ok (ii_targets imps)
     \<and> list_all cd_import_ok (ii_componentDescriptors imps) \<and> distinct (import_names imps)"

lemma collected_names:
  "fst (validate_data_imports p i ds ns) = [] \<Longrightarrow>
   set (snd (validate_data_imports p i ds ns)) = set ns \<union> set (map im_name ds)"
  "fst (validate_target_imports p i ts ns) = [] \<Longrightarrow>
   set (snd (validate_target_imports p i ts ns)) = set ns \<union> set (map ti_name ts)"
  by (subst collected_names_path(1) [of p i ds ns "[]" 0], rule data_imports.accepts_names, assumption)
    (subst collected_names_path(2) [of p i ts ns "[]" 0], rule target_imports.accepts_names, assumption)

text \<open>Three checkers in a row, each with the names that the checkers before it have collected.\<close>

lemma three_checks:
  assumes "fst d = [] \<longleftrightarrow> A \<and> distinct xs" and d: "fst d = [] \<Longrightarrow> set (snd d) = set xs"
    and "fst t = [] \<longleftrightarrow> B \<and> distinct ys \<and> set ys \<inter> set (snd d) = {}"
    and t: "fst t = [] \<Longrightarrow> set (snd t) = set (snd d) \<union> set ys"
    and "fst c = [] \<longleftrightarrow> C \<and> distinct zs \<and> set zs \<inter> set (snd t) = {}"
  shows "fst d @ fst t @ fst c = [] \<longleftrightarrow> A \<and> B \<and> C \<and> distinct (xs @ ys @ zs)"
proof (cases "fst d = [] \<and> fst t = []")
  case True
  then show ?thesis using assms by auto
next
  case False
  then show ?thesis using assms(1,3) d by auto
qed

lemma ValidateInstallationImports_accepts: "ValidateInstallationImports imps p = [] \<longleftrightarrow> imports_ok imps"
proof -
  define d where "d = validate_data_imports (path_Child p ''data'') 0 (ii_data imps) []"
  define t where "t = validate_target_imports (path_Child p ''targets'') 0 (ii_targets imps) (snd d)"
  define c where "c = validate_cd_imports (path_Child p ''componentDescriptors'') 0
    (ii_componentDescriptors imps) (snd t)"
  have checked: "ValidateInstallationImports imps p = fst d @ fst t @ fst c"
    by (simp add: ValidateInstallationImports_def ValidateInstallationDataImports_def
      ValidateInstallationTargetImports_def ValidateInstallationComponentDescriptorImports_def
      d_def t_def c_def case_prod_beta)
  have d1: "fst d = [] \<longleftrightarrow> list_all data_import_ok (ii_data imps) \<and> distinct (map im_name (ii_data imps))"
    unfolding d_def by (rule data_imports.accepts_iff_fresh)
  have d2: "fst d = [] \<Longrightarrow> set (snd d) = set (map im_name (ii_data imps))"
    using collected_names(1) [of _ 0 "ii_data imps" "[]"] unfolding d_def by simp
  have t1: "fst t = [] \<longleftrightarrow> list_all target_import_ok (ii_targets imps)
      \<and> distinct (map ti_name (ii_targets imps)) \<and> set (map ti_name (ii_targets imps)) \<inter> set (snd d) = {}"
    unfolding t_def by (rule target_imports.accepts_iff)
  have t2: "fst t = [] \<Longrightarrow> set (snd t) = set (snd d) \<union> set (map ti_name (ii_targets imps))"
    using collected_names(2) unfolding t_def by simp
  have c1: "fst c = [] \<longleftrightarrow> list_all cd_import_ok (ii_componentDescriptors imps)
      \<and> distinct (map ci_name (ii_componentDescriptors imps))
      \<and> set (map ci_name (ii_componentDescriptors imps)) \<inter> set (snd t) = {}"
    unfolding c_def by (rule cd_imports.accepts_iff)
  show ?thesis unfolding checked imports_ok_def import_names_def by (rule three_checks [OF d1 d2 t1 t2 c1])
qed

definition exports_ok :: "installation_exports \<Rightarrow> bool" where
  "exports_ok exps \<longleftrightarrow> list_all data_export_ok (ix_data exps) \<and> distinct (map dx_name (ix_data exps))
     \<and> list_all target_export_ok (ix_targets exps) \<and> distinct (map tx_name (ix_targets exps))"

lemma ValidateInstallationExports_accepts: "ValidateInstallationExports exps p = [] \<longleftrightarrow> exports_ok exps"
  by (auto simp: ValidateInstallationExports_def ValidateInstallationDataExports_def
      ValidateInstallationTargetExports_def data_exports.accepts_iff_fresh target_exports.accepts_iff_fresh
      exports_ok_def)

definition installation_spec_ok :: "installation_spec \<Rightarrow> bool" where
  "installation_spec_ok spec \<longleftrightarrow>
     imports_ok (in_imports spec) \<and> exports_ok (in_exports spec)
     \<and> exactly_one [bd_reference (in_blueprint spec) \<noteq> None, bd_inline (in_blueprint spec) \<noteq> None]
     \<and> pred_option (\<lambda>c. exactly_one [cd_reference c \<noteq> None, cd_inline c \<noteq> None]) (in_componentDescriptor spec)
     \<and> list_all reference_ok (in_registryPullSecrets spec)"

section \<open>Properties\<close>

text \<open>
  C33: an installation passes the validation if and only if its metadata pass the Kubernetes validation, the
  name leaves room for the prefix and the random suffix, every import has a name and exactly one
  source with complete references, the names of all imports of all kinds are pairwise
  different, exports are named, complete and different within the data and within the targets (a data and a target
  export may have the same name), and the blueprint and the optional component descriptor are given in exactly one way.
\<close>

theorem ValidateInstallation_accepts:
  "ValidateInstallation vm inst = [] \<longleftrightarrow>
     vm (in_meta inst) (path_New ''metadata'') = []
     \<and> length (om_name (in_meta inst)) \<le> 58 \<and> length (om_generateName (in_meta inst)) \<le> 53
     \<and> installation_spec_ok (in_spec inst)"
  by (auto simp: ValidateInstallation_def validateInstallationObjectMeta_def InstallationNameMaxLength_def
      InstallationGenerateNameMaxLength_def ValidateInstallationSpec_def ValidateInstallationImports_accepts
      ValidateInstallationExports_accepts ValidateInstallationBlueprint_def
      ValidateInstallationComponentDescriptor_def ValidateExactlyOneOf_accepts
      ValidateObjectReferenceList_accepts installation_spec_ok_def split: option.splits)

end
