(* ===== verification/BlueprintValidation.thy ===== *)
theory BlueprintValidation
  imports InstallationValidation
begin

text \<open>
  \<open>apis/core/validation/blueprint.go\<close>: blueprints, their import and export definitions (imports
  nest), template executors and the installation templates of subinstallations with the data
  flow between siblings. \<open>apivalidation.NameIsDNSLabel\<close> is the argument \<open>dns\<close>, from a
  name to its messages. A set of names (\<open>sets.String\<close>) is the list of its elements; the sets
  are shared by reference, so they are threaded through the calls.
\<close>

section \<open>Import and export definitions\<close>

definition field_value_fields :: "field_value_definition \<Rightarrow> struct_fields" where
  "field_value_fields fv =
     [(''Name'', fv_name fv \<noteq> []), (''Schema'', fv_schema fv \<noteq> None), (''TargetType'', fv_targetType fv \<noteq> [])]"

text \<open>\<open>reflect.Value.FieldByName\<close>: \<open>None\<close> is the invalid value.\<close>

fun FieldByName :: "struct_fields \<Rightarrow> string \<Rightarrow> bool option" where
  "FieldByName [] key = None"
| "FieldByName ((n, s) # fs) key = (if n = key then Some s else FieldByName fs key)"

definition quote_text :: "string \<Rightarrow> string" where
  "quote_text s = CHR 0x27 # s @ [CHR 0x27]"

fun mutually_exclusive ::
    "string list \<Rightarrow> field_path \<Rightarrow> struct_fields \<Rightarrow> struct_fields \<Rightarrow> string list \<Rightarrow> string \<Rightarrow> field_error list" where
  "mutually_exclusive [] fldPath own fvd expectedConfigs defType = []"
| "mutually_exclusive (key # ks) fldPath own fvd expectedConfigs defType =
     (case FieldByName (if key \<in> set isFieldValueDefinition then fvd else own) key of
        None \<Rightarrow> []
      | Some isSet \<Rightarrow>
          if stringContains expectedConfigs key
          then (if \<not> isSet then [FRequired fldPath (key @ '' must not be empty for type '' @ defType)] else [])
          else (if isSet then [FInvalid fldPath ObjectValue (''unexpected config '' @ quote_text key @ '', only [''
                                 @ join_comma expectedConfigs @ ''] should be set'')] else []))
     @ mutually_exclusive ks fldPath own fvd expectedConfigs defType"

text \<open>
  \<open>own\<close> are the fields of the definition itself, \<open>fvd\<close> the fields of the embedded
  \<open>FieldValueDefinition\<close>.
\<close>

definition validateMutuallyExclusiveConfig ::
    "field_path \<Rightarrow> struct_fields \<Rightarrow> struct_fields \<Rightarrow> string list \<Rightarrow> string \<Rightarrow> field_error list" where
  "validateMutuallyExclusiveConfig fldPath own fvd expectedConfigs defType =
     mutually_exclusive computeRelevantConfigFields fldPath own fvd expectedConfigs defType"

definition ValidateJsonSchema :: "field_path \<Rightarrow> string \<Rightarrow> field_error list" where
  "ValidateJsonSchema fldPath schema = []"

definition ValidateFieldValueDefinition :: "field_path \<Rightarrow> field_value_definition \<Rightarrow> field_error list" where
  "ValidateFieldValueDefinition fldPath def =
     (if fv_name def = [] then [FRequired (path_Child fldPath ''name'') ''name must not be empty''] else [])
     @ (case fv_schema def of None \<Rightarrow> [] | Some schema \<Rightarrow> ValidateJsonSchema fldPath schema)"

text \<open>The checks of one import definition, without its name and its conditional imports.\<close>

definition import_type_errors :: "field_path \<Rightarrow> field_value_definition \<Rightarrow> string \<Rightarrow> struct_fields \<Rightarrow> field_error list" where
  "import_type_errors defPath fv ty own =
     (if ty \<noteq> []
      then (case map_of importTypesWithExpectedConfig ty of
              Some expectedConfigs \<Rightarrow>
                validateMutuallyExclusiveConfig defPath own (field_value_fields fv) expectedConfigs ty
            | None \<Rightarrow> [FNotSupported (path_Child defPath ''type'') ty (keys importTypesWithExpectedConfig)])
      else (if fv_schema fv = None \<and> fv_targetType fv = []
            then [FRequired defPath ''either schema or targetType must not be empty''] else [])
           @ (if fv_schema fv \<noteq> None \<and> fv_targetType fv \<noteq> []
              then [FInvalid defPath ObjectValue ''either schema or targetType must be specified, not both''] else []))"

definition import_own_fields :: "string \<Rightarrow> bool option \<Rightarrow> string option \<Rightarrow> import_definition list \<Rightarrow> struct_fields" where
  "import_own_fields ty required dflt conditional =
     [(''FieldValueDefinition'', True), (''Type'', ty \<noteq> []), (''Required'', required \<noteq> None),
      (''Default'', dflt \<noteq> None), (''ConditionalImports'', conditional \<noteq> [])]"

fun validateBlueprintImportDefinitions ::
    "field_path \<Rightarrow> nat \<Rightarrow> import_definition list \<Rightarrow> string list \<Rightarrow> string list \<times> field_error list" where
  "validateBlueprintImportDefinitions fldPath i [] importNames = (importNames, [])"
| "validateBlueprintImportDefinitions fldPath i (ImportDefinition fv ty required dflt conditional # defs) importNames =
     (let defPath = (if fv_name fv \<noteq> [] then path_Key (path_Index fldPath i) (fv_name fv) else path_Index fldPath i);
          dupErrs = (if fv_name fv \<noteq> [] \<and> fv_name fv \<in> set importNames
                     then [FDuplicate defPath ''duplicate import name''] else []);
          names1 = (if fv_name fv \<noteq> [] then List.insert (fv_name fv) importNames else importNames);
          typeErrs = import_type_errors defPath fv ty (import_own_fields ty required dflt conditional);
          isRequired = (case required of None \<Rightarrow> True | Some r \<Rightarrow> r);
          condErrs = (if conditional \<noteq> [] \<and> isRequired
                      then [FInvalid defPath (TextValue (fv_name fv)) ''conditional imports on required import''] else []);
          (names2, tmpErrs) = validateBlueprintImportDefinitions (path_Child defPath ''conditionalImports'') 0
                                conditional names1;
          (names3, restErrs) = validateBlueprintImportDefinitions fldPath (Suc i) defs (List.union names2 names1)
      in (names3, dupErrs @ typeErrs @ condErrs @ ValidateFieldValueDefinition defPath fv @ tmpErrs @ restErrs))"

definition ValidateBlueprintImportDefinitions :: "field_path \<Rightarrow> import_definition list \<Rightarrow> field_error list" where
  "ValidateBlueprintImportDefinitions fldPath imports = snd (validateBlueprintImportDefinitions fldPath 0 imports [])"

text \<open>
  \<open>ValidateExactlyOneOf\<close> looks at the direct fields of the export definition, and these are the
  embedded struct as a whole and the type.
\<close>

definition export_own_fields :: "export_definition \<Rightarrow> struct_fields" where
  "export_own_fields def =
     [(''FieldValueDefinition'', fv_name (xd_fieldValue def) \<noteq> [] \<or> fv_schema (xd_fieldValue def) \<noteq> None
         \<or> fv_targetType (xd_fieldValue def) \<noteq> []),
      (''Type'', xd_type def \<noteq> [])]"

definition export_type_errors :: "field_path \<Rightarrow> export_definition \<Rightarrow> field_error list" where
  "export_type_errors defPath exportDef =
     (if xd_type exportDef \<noteq> []
      then (case map_of exportTypesWithExpectedConfig (xd_type exportDef) of
              Some expectedConfigs \<Rightarrow> validateMutuallyExclusiveConfig defPath (export_own_fields exportDef)
                (field_value_fields (xd_fieldValue exportDef)) expectedConfigs (xd_type exportDef)
            | None \<Rightarrow> [FNotSupported (path_Child defPath ''type'') (xd_type exportDef) (keys importTypesWithExpectedConfig)])
      else ValidateExactlyOneOf defPath (Some (export_own_fields exportDef)) [''Schema'', ''TargetType''])"

fun validate_export_definitions ::
    "field_path \<Rightarrow> nat \<Rightarrow> export_definition list \<Rightarrow> string list \<Rightarrow> field_error list" where
  "validate_export_definitions fldPath i [] exportNames = []"
| "validate_export_definitions fldPath i (exportDef # defs) exportNames =
     (let name = fv_name (xd_fieldValue exportDef);
          defPath = (if name \<noteq> [] then path_Key (path_Index fldPath i) name else path_Index fldPath i)
      in ValidateFieldValueDefinition defPath (xd_fieldValue exportDef)
         @ (if name \<noteq> [] \<and> name \<in> set exportNames then [FDuplicate defPath ''duplicated export name''] else [])
         @ export_type_errors defPath exportDef
         @ validate_export_definitions fldPath (Suc i) defs (List.insert name exportNames))"

definition ValidateBlueprintExportDefinitions :: "field_path \<Rightarrow> export_definition list \<Rightarrow> field_error list" where
  "ValidateBlueprintExportDefinitions fldPath exports = validate_export_definitions fldPath 0 exports []"

section \<open>Template executors\<close>

fun validate_executors :: "field_path \<Rightarrow> nat \<Rightarrow> template_executor list \<Rightarrow> string list \<Rightarrow> field_error list" where
  "validate_executors fldPath i [] names = []"
| "validate_executors fldPath i (exec # execs) names =
     (let execPath = (if te_name exec = [] then path_Index fldPath i else path_Key (path_Index fldPath i) (te_name exec))
      in (if te_name exec = [] then [FRequired (path_Child (path_Index fldPath i) ''name'') ''name must be defined''] else [])
         @ (if te_type exec = [] then [FRequired (path_Child execPath ''type'') ''type must be defined''] else [])
         @ (if te_name exec \<noteq> [] \<and> te_name exec \<in> set names then [FDuplicate execPath ''duplicated executor name''] else [])
         @ validate_executors fldPath (Suc i) execs (List.insert (te_name exec) names))"

definition ValidateTemplateExecutorList :: "field_path \<Rightarrow> template_executor list \<Rightarrow> field_error list" where
  "ValidateTemplateExecutorList fldPath execs = validate_executors fldPath 0 execs []"

section \<open>Installation templates\<close>

fun validate_template_data_imports ::
    "field_path \<Rightarrow> nat \<Rightarrow> data_import list \<Rightarrow> string list \<Rightarrow> field_error list \<times> string list" where
  "validate_template_data_imports fldPath idx [] importNames = ([], importNames)"
| "validate_template_data_imports fldPath idx (imp # imps) importNames =
     (let impPath = path_Index fldPath idx;
          errs = (if im_dataRef imp = [] then [FRequired (path_Child impPath ''dataRef'') ''dataRef must not be empty''] else [])
                 @ (if im_secretRef imp \<noteq> None then [FForbidden (path_Child impPath ''secretRef'')
                      ''secret references are not allowed in a installation template''] else [])
                 @ (if im_configMapRef imp \<noteq> None then [FForbidden (path_Child impPath ''configMapRef'')
                      ''configMap references are not allowed in a installation template''] else [])
      in if im_name imp = []
         then (let (es, ns) = validate_template_data_imports fldPath (Suc idx) imps importNames
               in (errs @ FRequired (path_Child impPath ''name'') ''name must not be empty'' # es, ns))
         else (let dup = (if im_name imp \<in> set importNames then [FDuplicate impPath (im_name imp)] else []);
                   (es, ns) = validate_template_data_imports fldPath (Suc idx) imps (List.insert (im_name imp) importNames)
               in (errs @ dup @ es, ns)))"

definition ValidateInstallationTemplateDataImports ::
    "data_import list \<Rightarrow> field_path \<Rightarrow> string list \<Rightarrow> field_error list \<times> string list" where
  "ValidateInstallationTemplateDataImports imports fldPath importNames =
     validate_template_data_imports fldPath 0 imports importNames"

fun validate_template_cd_list :: "field_path \<Rightarrow> nat \<Rightarrow> component_descriptor_import_data list \<Rightarrow> field_error list" where
  "validate_template_cd_list p idx2 [] = []"
| "validate_template_cd_list p idx2 (cd # cds) =
     (let fldPathIdx2 = path_Index (path_Child p ''list'') idx2
      in (if cl_configMapRef cd \<noteq> None then [FForbidden (path_Child fldPathIdx2 ''configMapRef'')
            (''only '' @ quote_text ''dataRef'' @ '' may be used for referencing component descriptors in subinstallation templates'')] else [])
         @ (if cl_secretRef cd \<noteq> None then [FForbidden (path_Child fldPathIdx2 ''secretRef'')
            (''only '' @ quote_text ''dataRef'' @ '' may be used for referencing component descriptors in subinstallation templates'')] else [])
         @ (if cl_dataRef cd = [] then [FRequired (path_Child fldPathIdx2 ''dataRef'')
            (''component descriptors must be referenced using the '' @ quote_text ''dataRef'' @ '' field in subinstallation templates'')] else [])
         @ validate_template_cd_list p (Suc idx2) cds)"

fun validate_template_cd_imports ::
    "field_path \<Rightarrow> nat \<Rightarrow> component_descriptor_import list \<Rightarrow> string list \<Rightarrow> field_error list \<times> string list" where
  "validate_template_cd_imports fldPath idx [] importNames = ([], importNames)"
| "validate_template_cd_imports fldPath idx (imp # imps) importNames =
     (let fldPathIdx = path_Index fldPath idx;
          onlyMsg = ''only '' @ quote_text ''dataRef'' @ '' and '' @ quote_text ''list'' @ '' fields may be used in subinstallation templates'';
          errs = (if ci_name imp = [] then [FRequired (path_Child fldPathIdx ''name'') ''name must not be empty''] else [])
                 @ ValidateExactlyOneOf fldPathIdx (Some (cd_import_fields imp)) [''DataRef'', ''List'']
                 @ (if ci_configMapRef imp \<noteq> None then [FForbidden (path_Child fldPathIdx ''configMapRef'') onlyMsg] else [])
                 @ (if ci_secretRef imp \<noteq> None then [FForbidden (path_Child fldPathIdx ''secretRef'') onlyMsg] else [])
                 @ validate_template_cd_list fldPathIdx 0 (opt_list (ci_list imp))
                 @ (if ci_name imp \<in> set importNames then [FDuplicate fldPathIdx (ci_name imp)] else []);
          (es, ns) = validate_template_cd_imports fldPath (Suc idx) imps (List.insert (ci_name imp) importNames)
      in (errs @ es, ns))"

definition ValidateInstallationTemplateComponentDescriptorImports ::
    "component_descriptor_import list \<Rightarrow> field_path \<Rightarrow> string list \<Rightarrow> field_error list \<times> string list" where
  "ValidateInstallationTemplateComponentDescriptorImports imports fldPath importNames =
     validate_template_cd_imports fldPath 0 imports importNames"

definition ValidateInstallationTemplateImports :: "installation_imports \<Rightarrow> field_path \<Rightarrow> field_error list" where
  "ValidateInstallationTemplateImports imports fldPath =
     (let (e1, n1) = ValidateInstallationTemplateDataImports (ii_data imports) (path_Child fldPath ''data'') [];
          (e2, n2) = ValidateInstallationTargetImports (ii_targets imports) (path_Child fldPath ''targets'') n1;
          (e3, n3) = ValidateInstallationTemplateComponentDescriptorImports (ii_componentDescriptors imports)
                       (path_Child fldPath ''componentDescriptors'') n2
      in e1 @ e2 @ e3)"

definition ValidateInstallationTemplate ::
    "(string \<Rightarrow> string list) \<Rightarrow> field_path \<Rightarrow> installation_template \<Rightarrow> field_error list" where
  "ValidateInstallationTemplate dns fldPath tmpl =
     (if it_name tmpl = [] then [FRequired (path_Child fldPath ''name'') ''name must be defined'']
      else map (\<lambda>msg. FInvalid (path_Child fldPath ''name'') (TextValue (it_name tmpl)) msg) (dns (it_name tmpl))
           @ (if InstallationGenerateNameMaxLength - 1 < length (it_name tmpl)
              then [FInvalid (path_Child fldPath ''name'') (TextValue (it_name tmpl))
                      (max_len_error (InstallationGenerateNameMaxLength - 1))] else []))
     @ (if tb_ref (it_blueprint tmpl) = [] \<and> tb_filesystem (it_blueprint tmpl) = []
        then [FRequired (path_Child fldPath ''blueprint'') ''a blueprint must be defined''] else [])
     @ ValidateInstallationTemplateImports (it_imports tmpl) (path_Child fldPath ''imports'')
     @ ValidateInstallationExports (it_exports tmpl) (path_Child fldPath ''exports'')"

fun validate_subinstallations ::
    "(string \<Rightarrow> string list) \<Rightarrow> field_path \<Rightarrow> nat \<Rightarrow> subinstallation_template list \<Rightarrow> field_error list" where
  "validate_subinstallations dns fldPath i [] = []"
| "validate_subinstallations dns fldPath i (subinst # subinsts) =
     (let instPath = path_Index fldPath i;
          errs = ValidateExactlyOneOf instPath
                   (Some [(''File'', st_file subinst \<noteq> []), (''InstallationTemplate'', st_installationTemplate subinst \<noteq> None)])
                   [''File'', ''InstallationTemplate'']
      in errs
         @ (if errs \<noteq> [] then []
            else (case st_installationTemplate subinst of None \<Rightarrow> [] | Some t \<Rightarrow> ValidateInstallationTemplate dns instPath t))
         @ validate_subinstallations dns fldPath (Suc i) subinsts)"

definition ValidateSubinstallations ::
    "(string \<Rightarrow> string list) \<Rightarrow> field_path \<Rightarrow> subinstallation_template list \<Rightarrow> field_error list" where
  "ValidateSubinstallations dns fldPath subinstallations = validate_subinstallations dns fldPath 0 subinstallations"

section \<open>The data flow between subinstallations\<close>

record import_entry =
  pi_name :: string
  pi_path :: field_path

definition ValidateSatisfiedImports :: "string list \<Rightarrow> string list \<Rightarrow> import_entry list \<Rightarrow> field_error list" where
  "ValidateSatisfiedImports blueprintImports exports imports =
     map (\<lambda>i. FNotFound (pi_path i) ''import not satisfied'')
       (filter (\<lambda>i. pi_name i \<notin> set exports \<and> pi_name i \<notin> set blueprintImports) imports)"

text \<open>The names that the blueprint imports, by the kind of the import.\<close>

datatype import_kind = DataKind | TargetKind | ComponentDescriptorKind | NoKind

definition import_kind :: "import_definition \<Rightarrow> import_kind" where
  "import_kind d =
     (if id_type d \<noteq> []
      then (if id_type d = ''data'' then DataKind
            else if id_type d = ''target'' \<or> id_type d = ''targetList'' then TargetKind
            else if id_type d = ''componentDescriptor'' \<or> id_type d = ''componentDescriptorList'' then ComponentDescriptorKind
            else NoKind)
      else if fv_schema (id_fieldValue d) \<noteq> None then DataKind
      else if fv_targetType (id_fieldValue d) \<noteq> [] then TargetKind
      else NoKind)"

definition blueprint_imports_of :: "import_kind \<Rightarrow> import_definition list \<Rightarrow> string list" where
  "blueprint_imports_of k defs = map (\<lambda>d. fv_name (id_fieldValue d)) (filter (\<lambda>d. import_kind d = k) defs)"

fun check_exports ::
    "field_path \<Rightarrow> nat \<Rightarrow> (string \<times> string) list \<Rightarrow> string list \<Rightarrow> string list \<Rightarrow> field_error list \<times> string list" where
  "check_exports p i [] bpImports exported = ([], exported)"
| "check_exports p i ((name, ref) # es) bpImports exported =
     (let dataPath = path_Key (path_Index p i) name;
          errs = (if ref \<in> set exported then [FForbidden dataPath ''export is already exported by another installation''] else [])
                 @ (if ref \<in> set bpImports then [FForbidden dataPath ''export is imported by its parent''] else []);
          (rest, exported1) = check_exports p (Suc i) es bpImports (List.insert ref exported)
      in (errs @ rest, exported1))"

fun imported_data :: "field_path \<Rightarrow> nat \<Rightarrow> data_import list \<Rightarrow> import_entry list" where
  "imported_data p i [] = []"
| "imported_data p i (imp # imps) =
     \<lparr>pi_name = im_dataRef imp, pi_path = path_Key (path_Index p i) (im_name imp)\<rparr> # imported_data p (Suc i) imps"

fun imported_target_list :: "field_path \<Rightarrow> nat \<Rightarrow> string list \<Rightarrow> import_entry list" where
  "imported_target_list impPath i2 [] = []"
| "imported_target_list impPath i2 (t2 # ts) =
     \<lparr>pi_name = t2, pi_path = path_Index (path_Child impPath ''targets'') i2\<rparr> # imported_target_list impPath (Suc i2) ts"

fun imported_targets :: "field_path \<Rightarrow> nat \<Rightarrow> target_import list \<Rightarrow> import_entry list" where
  "imported_targets p i [] = []"
| "imported_targets p i (target # targets) =
     (let impPath = path_Key (path_Index p i) (ti_name target)
      in (if ti_target target \<noteq> [] then [\<lparr>pi_name = ti_target target, pi_path = impPath\<rparr>]
          else case ti_targets target of
                 Some ts \<Rightarrow> imported_target_list impPath 0 ts
               | None \<Rightarrow> (if ti_targetListReference target \<noteq> []
                          then [\<lparr>pi_name = ti_targetListReference target, pi_path = impPath\<rparr>] else []))
         @ imported_targets p (Suc i) targets)"

fun imported_cd_list :: "field_path \<Rightarrow> nat \<Rightarrow> component_descriptor_import_data list \<Rightarrow> import_entry list" where
  "imported_cd_list impPath i2 [] = []"
| "imported_cd_list impPath i2 (cd2 # cds) =
     (if cl_dataRef cd2 \<noteq> [] then [\<lparr>pi_name = cl_dataRef cd2, pi_path = path_Index (path_Child impPath ''list'') i2\<rparr>] else [])
     @ imported_cd_list impPath (Suc i2) cds"

fun imported_cds :: "field_path \<Rightarrow> nat \<Rightarrow> component_descriptor_import list \<Rightarrow> import_entry list" where
  "imported_cds p i [] = []"
| "imported_cds p i (cd # cds) =
     (let impPath = path_Key (path_Index p i) (ci_name cd)
      in (if ci_dataRef cd \<noteq> [] then [\<lparr>pi_name = ci_dataRef cd, pi_path = impPath\<rparr>]
          else case ci_list cd of Some l \<Rightarrow> imported_cd_list impPath 0 l | None \<Rightarrow> [])
         @ imported_cds p (Suc i) cds)"

text \<open>The state of the loop over the templates.\<close>

record template_loop =
  tl_names :: "string list"
  tl_importedDataObjects :: "import_entry list"
  tl_exportedDataObjects :: "string list"
  tl_importedTargets :: "import_entry list"
  tl_exportedTargets :: "string list"
  tl_importedComponentDescriptors :: "import_entry list"

fun validate_template_list ::
    "(string \<Rightarrow> string list) \<Rightarrow> field_path \<Rightarrow> import_definition list \<Rightarrow> nat \<Rightarrow> installation_template list
      \<Rightarrow> template_loop \<Rightarrow> field_error list \<times> template_loop" where
  "validate_template_list dns fldPath bpDefs i [] st = ([], st)"
| "validate_template_list dns fldPath bpDefs i (instTmpl # tmpls) st =
     (let instPath = (if it_name instTmpl \<noteq> [] then path_Child fldPath (it_name instTmpl) else path_Index fldPath i);
          expPath = path_Child instPath ''exports'';
          impPath = path_Child instPath ''imports'';
          (dataErrs, exportedData) = check_exports (path_Child expPath ''data'') 0
             (map (\<lambda>d. (dx_name d, dx_dataRef d)) (ix_data (it_exports instTmpl)))
             (blueprint_imports_of DataKind bpDefs) (tl_exportedDataObjects st);
          (targetErrs, exportedTargets) = check_exports (path_Child expPath ''targets'') 0
             (map (\<lambda>t. (tx_name t, tx_target t)) (ix_targets (it_exports instTmpl)))
             (blueprint_imports_of TargetKind bpDefs) (tl_exportedTargets st);
          dupErrs = (if it_name instTmpl \<noteq> [] \<and> it_name instTmpl \<in> set (tl_names st)
                     then [FDuplicate instPath ''duplicated subinstallation''] else []);
          st1 = \<lparr>tl_names = List.insert (it_name instTmpl) (tl_names st),
                 tl_importedDataObjects = tl_importedDataObjects st
                   @ imported_data (path_Child impPath ''data'') 0 (ii_data (it_imports instTmpl)),
                 tl_exportedDataObjects = exportedData,
                 tl_importedTargets = tl_importedTargets st
                   @ imported_targets (path_Child impPath ''targets'') 0 (ii_targets (it_imports instTmpl)),
                 tl_exportedTargets = exportedTargets,
                 tl_importedComponentDescriptors = tl_importedComponentDescriptors st
                   @ imported_cds (path_Child impPath ''componentDescriptors'') 0
                       (ii_componentDescriptors (it_imports instTmpl))\<rparr>;
          (restErrs, st2) = validate_template_list dns fldPath bpDefs (Suc i) tmpls st1
      in (dataErrs @ targetErrs @ ValidateInstallationTemplate dns instPath instTmpl @ dupErrs @ restErrs, st2))"

definition ValidateInstallationTemplates ::
    "(string \<Rightarrow> string list) \<Rightarrow> field_path \<Rightarrow> import_definition list \<Rightarrow> installation_template list \<Rightarrow> field_error list" where
  "ValidateInstallationTemplates dns fldPath bpDefs subinstallations =
     (let (errs, st) = validate_template_list dns fldPath bpDefs 0 subinstallations
            \<lparr>tl_names = [], tl_importedDataObjects = [], tl_exportedDataObjects = [], tl_importedTargets = [],
             tl_exportedTargets = [], tl_importedComponentDescriptors = []\<rparr>
      in errs
         @ ValidateSatisfiedImports (blueprint_imports_of DataKind bpDefs) (tl_exportedDataObjects st) (tl_importedDataObjects st)
         @ ValidateSatisfiedImports (blueprint_imports_of TargetKind bpDefs) (tl_exportedTargets st) (tl_importedTargets st)
         @ ValidateSatisfiedImports (blueprint_imports_of ComponentDescriptorKind bpDefs) []
             (tl_importedComponentDescriptors st))"

section \<open>Blueprints\<close>

definition ValidateBlueprint :: "(string \<Rightarrow> string list) \<Rightarrow> blueprint \<Rightarrow> field_error list" where
  "ValidateBlueprint dns bp =
     ValidateBlueprintImportDefinitions (path_New ''imports'') (bp_imports bp)
     @ ValidateBlueprintExportDefinitions (path_New ''exports'') (bp_exports bp)
     @ ValidateTemplateExecutorList (path_New ''deployExecutions'') (bp_deployExecutions bp)
     @ ValidateTemplateExecutorList (path_New ''exportExecutions'') (bp_exportExecutions bp)
     @ ValidateSubinstallations dns (path_New ''subinstallations'') (bp_subinstallations bp)
     @ ValidateTemplateExecutorList (path_New ''subinstallationExecutions'') (bp_subinstallationExecutions bp)"

definition ValidateBlueprintWithInstallationTemplates ::
    "(string \<Rightarrow> string list) \<Rightarrow> blueprint \<Rightarrow> installation_template list \<Rightarrow> field_error list" where
  "ValidateBlueprintWithInstallationTemplates dns bp tmpls =
     ValidateBlueprint dns bp @ ValidateInstallationTemplates dns (path_New []) (bp_imports bp) tmpls"

section \<open>What the validation of definitions accepts\<close>

lemma relevant_fields: "computeRelevantConfigFields = [''Schema'', ''TargetType'']"
  by (simp add: computeRelevantConfigFields_def importTypesWithExpectedConfig_def exportTypesWithExpectedConfig_def)

lemma validateMutuallyExclusiveConfig_accepts:
  "validateMutuallyExclusiveConfig p own (field_value_fields fv) cfg ty = [] \<longleftrightarrow>
     (fv_schema fv \<noteq> None \<longleftrightarrow> ''Schema'' \<in> set cfg) \<and> (fv_targetType fv \<noteq> [] \<longleftrightarrow> ''TargetType'' \<in> set cfg)"
  by (auto simp: validateMutuallyExclusiveConfig_def relevant_fields isFieldValueDefinition_def field_value_fields_def)

text \<open>The configuration that belongs to a type; without a type one of the two has to be given.\<close>

definition import_config_ok :: "string \<Rightarrow> field_value_definition \<Rightarrow> bool" where
  "import_config_ok ty fv \<longleftrightarrow>
     (if ty = ''data'' then fv_schema fv \<noteq> None \<and> fv_targetType fv = []
      else if ty = ''target'' \<or> ty = ''targetList'' then fv_schema fv = None \<and> fv_targetType fv \<noteq> []
      else if ty = ''componentDescriptor'' \<or> ty = ''componentDescriptorList''
      then fv_schema fv = None \<and> fv_targetType fv = []
      else ty = [] \<and> exactly_one [fv_schema fv \<noteq> None, fv_targetType fv \<noteq> []])"

lemma import_type_errors_accepts: "import_type_errors p fv ty own = [] \<longleftrightarrow> import_config_ok ty fv"
proof -
  consider "ty = []" | "ty \<in> set (map fst importTypesWithExpectedConfig)"
    | "ty \<noteq> []" "ty \<notin> set (map fst importTypesWithExpectedConfig)" by blast
  then show ?thesis
  proof cases
    case 1
    then show ?thesis by (auto simp: import_type_errors_def import_config_ok_def exactly_one_def)
  next
    case 2
    then show ?thesis
      by (auto simp: importTypesWithExpectedConfig_def import_type_errors_def import_config_ok_def
        validateMutuallyExclusiveConfig_accepts)
  next
    case 3
    then have "map_of importTypesWithExpectedConfig ty = None" by (simp add: map_of_eq_None_iff)
    with 3 show ?thesis
      by (auto simp: import_type_errors_def import_config_ok_def importTypesWithExpectedConfig_def)
  qed
qed

definition field_value_ok :: "field_value_definition \<Rightarrow> bool" where
  "field_value_ok fv \<longleftrightarrow> fv_name fv \<noteq> []"

lemma ValidateFieldValueDefinition_accepts: "ValidateFieldValueDefinition p fv = [] \<longleftrightarrow> fv_name fv \<noteq> []"
  by (simp add: ValidateFieldValueDefinition_def ValidateJsonSchema_def split: option.splits)

text \<open>All import definitions of a list, with the conditional ones, in the order of the traversal.\<close>

fun import_tree :: "import_definition list \<Rightarrow> import_definition list" where
  "import_tree [] = []"
| "import_tree (ImportDefinition fv ty required dflt conditional # defs) =
     ImportDefinition fv ty required dflt conditional # import_tree conditional @ import_tree defs"

definition import_name :: "import_definition \<Rightarrow> string" where
  "import_name d = fv_name (id_fieldValue d)"

definition import_definition_ok :: "import_definition \<Rightarrow> bool" where
  "import_definition_ok d \<longleftrightarrow> import_name d \<noteq> [] \<and> import_config_ok (id_type d) (id_fieldValue d)
     \<and> (id_conditionalImports d \<noteq> [] \<longrightarrow> id_required d = Some False)"

lemma import_definition_names:
  "set (fst (validateBlueprintImportDefinitions p i defs ns)) =
     set ns \<union> (set (map import_name (import_tree defs)) - {[]})"
proof (induction defs arbitrary: p i ns rule: import_tree.induct)
  case (2 fv ty required dflt conditional defs)
  then show ?case by (auto simp: Let_def case_prod_beta import_name_def)
qed simp

lemma import_definitions_accept:
  "snd (validateBlueprintImportDefinitions p i defs ns) = [] \<longleftrightarrow>
     list_all import_definition_ok (import_tree defs) \<and> distinct (map import_name (import_tree defs))
     \<and> set (map import_name (import_tree defs)) \<inter> set ns = {}"
proof (induction defs arbitrary: p i ns rule: import_tree.induct)
  case (2 fv ty required dflt conditional defs)
  let ?d = "ImportDefinition fv ty required dflt conditional"
  show ?case
  proof (cases "import_definition_ok ?d \<and> fv_name fv \<notin> set ns")
    case False
    then show ?thesis
      by (auto simp: Let_def case_prod_beta import_definition_ok_def import_name_def import_type_errors_accepts
        ValidateFieldValueDefinition_accepts split: option.splits if_splits)
  next
    case True
    then have name: "fv_name fv \<noteq> []" by (simp add: import_definition_ok_def import_name_def)
    define q where "q = path_Child (path_Key (path_Index p i) (fv_name fv)) ''conditionalImports''"
    define c where "c = validateBlueprintImportDefinitions q 0 conditional (List.insert (fv_name fv) ns)"
    define r where "r = validateBlueprintImportDefinitions p (Suc i) defs (List.union (fst c) (List.insert (fv_name fv) ns))"
    have "snd (validateBlueprintImportDefinitions p i (?d # defs) ns) = [] \<longleftrightarrow> snd c = [] \<and> snd r = []"
      using True name
      by (auto simp: Let_def case_prod_beta import_definition_ok_def import_name_def import_type_errors_accepts
        ValidateFieldValueDefinition_accepts c_def r_def q_def split: option.splits)
    moreover have "snd c = [] \<longleftrightarrow> list_all import_definition_ok (import_tree conditional)
        \<and> distinct (map import_name (import_tree conditional))
        \<and> set (map import_name (import_tree conditional)) \<inter> set (List.insert (fv_name fv) ns) = {}"
      unfolding c_def by (rule 2(1))
    moreover have "snd r = [] \<longleftrightarrow> list_all import_definition_ok (import_tree defs)
        \<and> distinct (map import_name (import_tree defs))
        \<and> set (map import_name (import_tree defs)) \<inter> set (List.union (fst c) (List.insert (fv_name fv) ns)) = {}"
      unfolding r_def by (rule 2(2))
    moreover have "set (fst c) = insert (fv_name fv) (set ns) \<union> (set (map import_name (import_tree conditional)) - {[]})"
      unfolding c_def by (simp add: import_definition_names)
    moreover have "list_all import_definition_ok (import_tree conditional) \<Longrightarrow>
        [] \<notin> set (map import_name (import_tree conditional))"
      by (auto simp: list_all_iff import_definition_ok_def)
    moreover have "import_name ?d = fv_name fv" by (simp add: import_name_def)
    ultimately show ?thesis using True
      by (cases "list_all import_definition_ok (import_tree conditional)")
        (simp_all del: set_map, blast)
  qed
qed simp


text \<open>
  Exports: a type is needed, because the fallback for definitions without a type asks for direct
  fields that the struct does not have.
\<close>

definition export_definition_ok :: "export_definition \<Rightarrow> bool" where
  "export_definition_ok e \<longleftrightarrow> fv_name (xd_fieldValue e) \<noteq> [] \<and>
     (xd_type e = ''data'' \<and> fv_schema (xd_fieldValue e) \<noteq> None \<and> fv_targetType (xd_fieldValue e) = []
      \<or> xd_type e = ''target'' \<and> fv_schema (xd_fieldValue e) = None \<and> fv_targetType (xd_fieldValue e) \<noteq> [])"

lemma export_type_errors_accepts:
  "export_type_errors p e = [] \<longleftrightarrow>
     (xd_type e = ''data'' \<and> fv_schema (xd_fieldValue e) \<noteq> None \<and> fv_targetType (xd_fieldValue e) = []
      \<or> xd_type e = ''target'' \<and> fv_schema (xd_fieldValue e) = None \<and> fv_targetType (xd_fieldValue e) \<noteq> [])"
proof -
  consider "xd_type e = []" | "xd_type e = ''data''" | "xd_type e = ''target''"
    | "xd_type e \<noteq> []" "xd_type e \<notin> {''data'', ''target''}" by blast
  then show ?thesis
    by cases (auto simp: export_type_errors_def exportTypesWithExpectedConfig_def
      validateMutuallyExclusiveConfig_accepts ValidateExactlyOneOf_accepts export_own_fields_def exactly_one_def)
qed

interpretation export_definitions: unique_name_check "\<lambda>e. fv_name (xd_fieldValue e)" export_definition_ok
  validate_export_definitions
  by unfold_locales
    (auto simp: Let_def ValidateFieldValueDefinition_accepts export_type_errors_accepts export_definition_ok_def)

definition executor_ok :: "template_executor \<Rightarrow> bool" where
  "executor_ok e \<longleftrightarrow> te_name e \<noteq> [] \<and> te_type e \<noteq> []"

interpretation executors: unique_name_check te_name executor_ok validate_executors
  by unfold_locales (auto simp: Let_def executor_ok_def)

definition executors_ok :: "template_executor list \<Rightarrow> bool" where
  "executors_ok execs \<longleftrightarrow> list_all executor_ok execs \<and> distinct (map te_name execs)"

lemma ValidateTemplateExecutorList_accepts: "ValidateTemplateExecutorList p execs = [] \<longleftrightarrow> executors_ok execs"
  by (simp add: ValidateTemplateExecutorList_def executors.accepts_iff_fresh executors_ok_def)

section \<open>What the validation of installation templates accepts\<close>

definition template_data_import_ok :: "data_import \<Rightarrow> bool" where
  "template_data_import_ok imp \<longleftrightarrow> im_name imp \<noteq> [] \<and> im_dataRef imp \<noteq> []
     \<and> im_secretRef imp = None \<and> im_configMapRef imp = None"

definition template_cd_data_ok :: "component_descriptor_import_data \<Rightarrow> bool" where
  "template_cd_data_ok cd \<longleftrightarrow> cl_dataRef cd \<noteq> [] \<and> cl_secretRef cd = None \<and> cl_configMapRef cd = None"

definition template_cd_import_ok :: "component_descriptor_import \<Rightarrow> bool" where
  "template_cd_import_ok imp \<longleftrightarrow> ci_name imp \<noteq> [] \<and> exactly_one [ci_list imp \<noteq> None, ci_dataRef imp \<noteq> []]
     \<and> ci_secretRef imp = None \<and> ci_configMapRef imp = None
     \<and> list_all template_cd_data_ok (opt_list (ci_list imp))"

lemma validate_template_cd_list_accepts:
  "validate_template_cd_list p i cds = [] \<longleftrightarrow> list_all template_cd_data_ok cds"
  by (induction cds arbitrary: i) (auto simp: Let_def template_cd_data_ok_def)

lemma template_names_path:
  "snd (validate_template_data_imports p i ds ns) = snd (validate_template_data_imports q j ds ns)"
  by (induction ds arbitrary: i j ns) (auto simp: Let_def case_prod_beta)

interpretation template_data_imports: name_collecting_check im_name template_data_import_ok
  "\<lambda>p i xs ns. fst (validate_template_data_imports p i xs ns)"
  "\<lambda>xs ns. snd (validate_template_data_imports [] 0 xs ns)"
proof
  show "template_data_import_ok x \<Longrightarrow> snd (validate_template_data_imports [] 0 (x # xs) names) =
    snd (validate_template_data_imports [] 0 xs (List.insert (im_name x) names))" for x xs names
    using template_names_path by (simp add: Let_def case_prod_beta template_data_import_ok_def)
qed (auto simp: Let_def case_prod_beta template_data_import_ok_def)

interpretation template_cd_imports: unique_name_check ci_name template_cd_import_ok
  "\<lambda>p i xs ns. fst (validate_template_cd_imports p i xs ns)"
  by unfold_locales
    (auto simp: Let_def case_prod_beta ValidateExactlyOneOf_accepts cd_import_fields_def
      validate_template_cd_list_accepts template_cd_import_ok_def)

definition template_imports_ok :: "installation_imports \<Rightarrow> bool" where
  "template_imports_ok imps \<longleftrightarrow> list_all template_data_import_ok (ii_data imps)
     \<and> list_all target_import_ok (ii_targets imps)
     \<and> list_all template_cd_import_ok (ii_componentDescriptors imps) \<and> distinct (import_names imps)"

lemma template_collected_names:
  "fst (validate_template_data_imports p i ds ns) = [] \<Longrightarrow>
   set (snd (validate_template_data_imports p i ds ns)) = set ns \<union> set (map im_name ds)"
  by (subst template_names_path [of p i ds ns "[]" 0], rule template_data_imports.accepts_names, assumption)

lemma ValidateInstallationTemplateImports_accepts:
  "ValidateInstallationTemplateImports imps p = [] \<longleftrightarrow> template_imports_ok imps"
proof -
  define d where "d = validate_template_data_imports (path_Child p ''data'') 0 (ii_data imps) []"
  define t where "t = validate_target_imports (path_Child p ''targets'') 0 (ii_targets imps) (snd d)"
  define c where "c = validate_template_cd_imports (path_Child p ''componentDescriptors'') 0
    (ii_componentDescriptors imps) (snd t)"
  have checked: "ValidateInstallationTemplateImports imps p = fst d @ fst t @ fst c"
    by (simp add: ValidateInstallationTemplateImports_def ValidateInstallationTemplateDataImports_def
      ValidateInstallationTargetImports_def ValidateInstallationTemplateComponentDescriptorImports_def
      d_def t_def c_def case_prod_beta)
  have d1: "fst d = [] \<longleftrightarrow> list_all template_data_import_ok (ii_data imps) \<and> distinct (map im_name (ii_data imps))"
    unfolding d_def by (rule template_data_imports.accepts_iff_fresh)
  have d2: "fst d = [] \<Longrightarrow> set (snd d) = set (map im_name (ii_data imps))"
    using template_collected_names [of _ 0 "ii_data imps" "[]"] unfolding d_def by simp
  have t1: "fst t = [] \<longleftrightarrow> list_all target_import_ok (ii_targets imps)
      \<and> distinct (map ti_name (ii_targets imps)) \<and> set (map ti_name (ii_targets imps)) \<inter> set (snd d) = {}"
    unfolding t_def by (rule target_imports.accepts_iff)
  have t2: "fst t = [] \<Longrightarrow> set (snd t) = set (snd d) \<union> set (map ti_name (ii_targets imps))"
    using collected_names(2) unfolding t_def by simp
  have c1: "fst c = [] \<longleftrightarrow> list_all template_cd_import_ok (ii_componentDescriptors imps)
      \<and> distinct (map ci_name (ii_componentDescriptors imps))
      \<and> set (map ci_name (ii_componentDescriptors imps)) \<inter> set (snd t) = {}"
    unfolding c_def by (rule template_cd_imports.accepts_iff)
  show ?thesis unfolding checked template_imports_ok_def import_names_def by (rule three_checks [OF d1 d2 t1 t2 c1])
qed

definition installation_template_ok :: "(string \<Rightarrow> string list) \<Rightarrow> installation_template \<Rightarrow> bool" where
  "installation_template_ok dns t \<longleftrightarrow> it_name t \<noteq> [] \<and> dns (it_name t) = [] \<and> length (it_name t) \<le> 52
     \<and> (tb_ref (it_blueprint t) \<noteq> [] \<or> tb_filesystem (it_blueprint t) \<noteq> [])
     \<and> template_imports_ok (it_imports t) \<and> exports_ok (it_exports t)"

lemma ValidateInstallationTemplate_accepts:
  "ValidateInstallationTemplate dns p t = [] \<longleftrightarrow> installation_template_ok dns t"
  by (auto simp: ValidateInstallationTemplate_def installation_template_ok_def
      ValidateInstallationTemplateImports_accepts ValidateInstallationExports_accepts
      InstallationGenerateNameMaxLength_def InstallationNameMaxLength_def)

section \<open>The data flow that the validation accepts\<close>

definition data_exports_of :: "installation_template list \<Rightarrow> string list" where
  "data_exports_of ts = concat (map (\<lambda>t. map dx_dataRef (ix_data (it_exports t))) ts)"

definition target_exports_of :: "installation_template list \<Rightarrow> string list" where
  "target_exports_of ts = concat (map (\<lambda>t. map tx_target (ix_targets (it_exports t))) ts)"

definition data_imports_of :: "installation_template list \<Rightarrow> string list" where
  "data_imports_of ts = concat (map (\<lambda>t. map im_dataRef (ii_data (it_imports t))) ts)"

definition target_refs :: "target_import \<Rightarrow> string list" where
  "target_refs i = (if ti_target i \<noteq> [] then [ti_target i]
     else case ti_targets i of Some ts \<Rightarrow> ts
       | None \<Rightarrow> (if ti_targetListReference i \<noteq> [] then [ti_targetListReference i] else []))"

definition target_imports_of :: "installation_template list \<Rightarrow> string list" where
  "target_imports_of ts = concat (map (\<lambda>t. concat (map target_refs (ii_targets (it_imports t)))) ts)"

definition cd_refs :: "component_descriptor_import \<Rightarrow> string list" where
  "cd_refs i = (if ci_dataRef i \<noteq> [] then [ci_dataRef i]
     else filter (\<lambda>r. r \<noteq> []) (map cl_dataRef (opt_list (ci_list i))))"

definition cd_imports_of :: "installation_template list \<Rightarrow> string list" where
  "cd_imports_of ts = concat (map (\<lambda>t. concat (map cd_refs (ii_componentDescriptors (it_imports t)))) ts)"

lemmas flow_defs = data_exports_of_def target_exports_of_def data_imports_of_def target_imports_of_def
  cd_imports_of_def

lemma imported_data_names: "map pi_name (imported_data p i ds) = map im_dataRef ds"
  by (induction ds arbitrary: i) simp_all

lemma imported_target_list_names: "map pi_name (imported_target_list p i rs) = rs"
  by (induction rs arbitrary: i) simp_all

lemma imported_cd_list_names:
  "map pi_name (imported_cd_list p i cs) = filter (\<lambda>r. r \<noteq> []) (map cl_dataRef cs)"
  by (induction cs arbitrary: i) simp_all

lemmas imported_names = imported_data_names imported_target_list_names imported_cd_list_names

lemma imported_target_names: "map pi_name (imported_targets p i ts) = concat (map target_refs ts)"
  by (induction ts arbitrary: i)
    (simp_all add: Let_def target_refs_def imported_names split: option.splits)

lemma imported_cd_names: "map pi_name (imported_cds p i cs) = concat (map cd_refs cs)"
  by (induction cs arbitrary: i)
    (simp_all add: Let_def cd_refs_def opt_list_def imported_names split: option.splits)

lemma check_exports_accepts:
  "fst (check_exports p i es bp exported) = [] \<longleftrightarrow>
     distinct (map snd es) \<and> set (map snd es) \<inter> (set exported \<union> set bp) = {}"
  "set (snd (check_exports p i es bp exported)) = set exported \<union> set (map snd es)"
  by (induction p i es bp exported rule: check_exports.induct) (auto simp: Let_def case_prod_beta)

definition sibling_flow_ok :: "import_definition list \<Rightarrow> installation_template list \<Rightarrow> bool" where
  "sibling_flow_ok defs ts \<longleftrightarrow>
     (let bpData = set (blueprint_imports_of DataKind defs);
          bpTargets = set (blueprint_imports_of TargetKind defs)
      in distinct (data_exports_of ts) \<and> set (data_exports_of ts) \<inter> bpData = {}
         \<and> distinct (target_exports_of ts) \<and> set (target_exports_of ts) \<inter> bpTargets = {}
         \<and> set (data_imports_of ts) \<subseteq> set (data_exports_of ts) \<union> bpData
         \<and> set (target_imports_of ts) \<subseteq> set (target_exports_of ts) \<union> bpTargets
         \<and> set (cd_imports_of ts) \<subseteq> set (blueprint_imports_of ComponentDescriptorKind defs))"

lemma template_list_state:
  "set (tl_exportedDataObjects (snd (validate_template_list dns p defs i ts st))) =
     set (tl_exportedDataObjects st) \<union> set (data_exports_of ts)"
  "set (tl_exportedTargets (snd (validate_template_list dns p defs i ts st))) =
     set (tl_exportedTargets st) \<union> set (target_exports_of ts)"
  "map pi_name (tl_importedDataObjects (snd (validate_template_list dns p defs i ts st))) =
     map pi_name (tl_importedDataObjects st) @ data_imports_of ts"
  "map pi_name (tl_importedTargets (snd (validate_template_list dns p defs i ts st))) =
     map pi_name (tl_importedTargets st) @ target_imports_of ts"
  "map pi_name (tl_importedComponentDescriptors (snd (validate_template_list dns p defs i ts st))) =
     map pi_name (tl_importedComponentDescriptors st) @ cd_imports_of ts"
  by (induction ts arbitrary: i st)
    (auto simp: flow_defs Let_def case_prod_beta check_exports_accepts imported_names imported_target_names
      imported_cd_names image_comp)

lemma template_list_accepts:
  "fst (validate_template_list dns p defs i ts st) = [] \<longleftrightarrow>
     list_all (installation_template_ok dns) ts
     \<and> distinct (map it_name ts) \<and> set (map it_name ts) \<inter> set (tl_names st) = {}
     \<and> distinct (data_exports_of ts)
     \<and> set (data_exports_of ts) \<inter> (set (tl_exportedDataObjects st) \<union> set (blueprint_imports_of DataKind defs)) = {}
     \<and> distinct (target_exports_of ts)
     \<and> set (target_exports_of ts) \<inter> (set (tl_exportedTargets st) \<union> set (blueprint_imports_of TargetKind defs)) = {}"
proof (induction ts arbitrary: i st)
  case Nil
  then show ?case by (simp add: flow_defs)
next
  case (Cons t ts)
  have name: "installation_template_ok dns t \<Longrightarrow> it_name t \<noteq> []" by (simp add: installation_template_ok_def)
  have snd_map: "map (snd \<circ> (\<lambda>d. (f d, g d))) xs = map g xs" for f g xs by simp
  have exp: "data_exports_of (t # ts) = map dx_dataRef (ix_data (it_exports t)) @ data_exports_of ts"
    "target_exports_of (t # ts) = map tx_target (ix_targets (it_exports t)) @ target_exports_of ts"
    by (simp_all add: flow_defs)
  show ?case
    unfolding exp validate_template_list.simps Let_def case_prod_beta fst_conv append_is_Nil_conv Cons.IH
    using name
    by (simp add: check_exports_accepts ValidateInstallationTemplate_accepts comp_def del: set_map) blast
qed

lemma ValidateSatisfiedImports_accepts:
  "ValidateSatisfiedImports bp exports imports = [] \<longleftrightarrow> set (map pi_name imports) \<subseteq> set exports \<union> set bp"
  by (auto simp: ValidateSatisfiedImports_def filter_empty_conv)

section \<open>Properties\<close>

text \<open>
  C34: the installation templates of a blueprint pass the validation if and only if each one is well formed,
  their names are unique, and the data flow closes: no name is exported twice or exported although
  the parent imports it, and every imported data object, target and component descriptor comes
  from a sibling or from the parent (component descriptors from the parent only).
\<close>

theorem ValidateInstallationTemplates_accepts:
  "ValidateInstallationTemplates dns p defs ts = [] \<longleftrightarrow>
     list_all (installation_template_ok dns) ts \<and> distinct (map it_name ts) \<and> sibling_flow_ok defs ts"
  by (simp add: ValidateInstallationTemplates_def case_prod_beta template_list_accepts
      ValidateSatisfiedImports_accepts template_list_state sibling_flow_ok_def Let_def del: set_map)

text \<open>
  The nested import definitions of a blueprint pass the validation if and only if, over the
  whole tree of conditional imports, every definition has a name, the configuration that belongs
  to its type and conditional imports only when it is optional, and no name occurs twice.
\<close>

theorem ValidateBlueprintImportDefinitions_accepts:
  "ValidateBlueprintImportDefinitions p defs = [] \<longleftrightarrow>
     list_all import_definition_ok (import_tree defs) \<and> distinct (map import_name (import_tree defs))"
  by (simp add: ValidateBlueprintImportDefinitions_def import_definitions_accept)

text \<open>
  An export definition needs a type. The export definitions of a blueprint pass the validation if and only
  if every definition has a name and the type data with a schema only, or the type target with a
  target type only, and the names are unique. A definition without a type is always reported,
  whatever its fields: the fallback asks for fields of the embedded struct among the direct fields.
\<close>

theorem ValidateBlueprintExportDefinitions_accepts:
  "(ValidateBlueprintExportDefinitions p defs = [] \<longleftrightarrow>
     list_all export_definition_ok defs \<and> distinct (map (\<lambda>e. fv_name (xd_fieldValue e)) defs))
   \<and> (\<exists>msg. export_type_errors p (d\<lparr>xd_type := []\<rparr>) = [FRequired p msg])"
  by (simp add: ValidateBlueprintExportDefinitions_def export_definitions.accepts_iff_fresh
      export_type_errors_def ValidateExactlyOneOf_def export_own_fields_def)

end
