(* ===== verification/Defaults.thy ===== *)
theory Defaults
  imports BlueprintValidation
begin

text \<open>
  \<open>apis/core/v1alpha1/defaults.go\<close>: the defaulting of API objects, which runs when an object is
  decoded and so before its validation. The functions modify the object through pointers; here
  they return the new object.
\<close>

definition DefaultContextName :: string where
  "DefaultContextName = ''default''"

definition LandscaperDomain :: string where
  "LandscaperDomain = ''landscaper.gardener.cloud''"

section \<open>Blueprints\<close>

text \<open>\<open>fmt.Sprintf ("%s/%s", LandscaperDomain, targetType)\<close> for a non-empty target type without a slash.\<close>

definition default_target_type :: "string \<Rightarrow> string" where
  "default_target_type tt =
     (if tt \<noteq> [] \<and> CHR ''/'' \<notin> set tt then LandscaperDomain @ ''/'' @ tt else tt)"

definition default_type :: "field_value_definition \<Rightarrow> string \<Rightarrow> string" where
  "default_type fv ty =
     (if ty = [] then (if fv_schema fv \<noteq> None then ''data'' else if fv_targetType fv \<noteq> [] then ''target'' else ty)
      else ty)"

fun SetDefaults_DefinitionImport :: "import_definition list \<Rightarrow> import_definition list" where
  "SetDefaults_DefinitionImport [] = []"
| "SetDefaults_DefinitionImport (ImportDefinition fv ty required dflt conditional # imports) =
     (let required1 = (case required of None \<Rightarrow> Some True | Some r \<Rightarrow> Some r);
          conditional1 = SetDefaults_DefinitionImport conditional;
          imp = (if fv_schema fv \<noteq> None \<and> fv_targetType fv \<noteq> []
                 then ImportDefinition fv ty required1 dflt conditional1
                 else let ty1 = default_type fv ty
                      in if ty1 = ''target'' \<or> ty1 = ''targetList''
                         then ImportDefinition (fv\<lparr>fv_targetType := default_target_type (fv_targetType fv)\<rparr>)
                                ty1 required1 dflt conditional1
                         else ImportDefinition fv ty1 required1 dflt conditional1)
      in imp # SetDefaults_DefinitionImport imports)"

definition default_export :: "export_definition \<Rightarrow> export_definition" where
  "default_export e =
     (let fv = xd_fieldValue e
      in if fv_schema fv \<noteq> None \<and> fv_targetType fv \<noteq> [] then e
         else let ty1 = default_type fv (xd_type e)
              in if ty1 = ''target''
                 then e\<lparr>xd_type := ty1, xd_fieldValue := fv\<lparr>fv_targetType := default_target_type (fv_targetType fv)\<rparr>\<rparr>
                 else e\<lparr>xd_type := ty1\<rparr>)"

fun SetDefaults_DefinitionExport :: "export_definition list \<Rightarrow> export_definition list" where
  "SetDefaults_DefinitionExport [] = []"
| "SetDefaults_DefinitionExport (e # exports) = default_export e # SetDefaults_DefinitionExport exports"

definition SetDefaults_Blueprint :: "blueprint \<Rightarrow> blueprint" where
  "SetDefaults_Blueprint obj =
     (let obj1 = (if bp_jsonSchemaVersion obj = []
                  then obj\<lparr>bp_jsonSchemaVersion := ''https://json-schema.org/draft/2019-09/schema''\<rparr> else obj)
      in obj1\<lparr>bp_imports := SetDefaults_DefinitionImport (bp_imports obj1),
              bp_exports := SetDefaults_DefinitionExport (bp_exports obj1)\<rparr>)"

section \<open>Installations, executions and deploy items\<close>

definition default_namespace :: "string \<Rightarrow> object_reference \<Rightarrow> object_reference" where
  "default_namespace ns r = (if or_namespace r = [] then r\<lparr>or_namespace := ns\<rparr> else r)"

definition default_secret_ref :: "string \<Rightarrow> secret_reference option \<Rightarrow> secret_reference option" where
  "default_secret_ref ns = map_option (\<lambda>s. s\<lparr>sr_ref := default_namespace ns (sr_ref s)\<rparr>)"

definition default_config_map_ref :: "string \<Rightarrow> config_map_reference option \<Rightarrow> config_map_reference option" where
  "default_config_map_ref ns = map_option (\<lambda>c. c\<lparr>cm_ref := default_namespace ns (cm_ref c)\<rparr>)"

definition default_data_import :: "string \<Rightarrow> data_import \<Rightarrow> data_import" where
  "default_data_import ns imp =
     imp\<lparr>im_configMapRef := default_config_map_ref ns (im_configMapRef imp),
         im_secretRef := default_secret_ref ns (im_secretRef imp)\<rparr>"

text \<open>
  A component descriptor reference without a repository context takes the one of the
  installation's own reference, if there is one (it may be \<open>nil\<close> as well).
\<close>

definition default_cd_ref ::
    "component_descriptor_definition option \<Rightarrow> component_descriptor_reference option
      \<Rightarrow> component_descriptor_reference option" where
  "default_cd_ref cd ref =
     map_option (\<lambda>r. if cr_repositoryContext r = None
       then (case cd of
               None \<Rightarrow> r
             | Some c \<Rightarrow> (case cd_reference c of
                          None \<Rightarrow> r
                        | Some own \<Rightarrow> r\<lparr>cr_repositoryContext := cr_repositoryContext own\<rparr>))
       else r) ref"

definition default_cd_data ::
    "string \<Rightarrow> component_descriptor_definition option \<Rightarrow> component_descriptor_import_data
      \<Rightarrow> component_descriptor_import_data" where
  "default_cd_data ns cd d =
     d\<lparr>cl_configMapRef := default_config_map_ref ns (cl_configMapRef d),
       cl_secretRef := default_secret_ref ns (cl_secretRef d),
       cl_ref := default_cd_ref cd (cl_ref d)\<rparr>"

definition default_cd_import ::
    "string \<Rightarrow> component_descriptor_definition option \<Rightarrow> component_descriptor_import
      \<Rightarrow> component_descriptor_import" where
  "default_cd_import ns cd imp =
     imp\<lparr>ci_configMapRef := default_config_map_ref ns (ci_configMapRef imp),
         ci_secretRef := default_secret_ref ns (ci_secretRef imp),
         ci_ref := default_cd_ref cd (ci_ref imp),
         ci_list := map_option (map (default_cd_data ns cd)) (ci_list imp)\<rparr>"

definition SetDefaults_Installation :: "installation \<Rightarrow> installation" where
  "SetDefaults_Installation obj =
     (let spec = in_spec obj;
          ns = om_namespace (in_meta obj);
          spec1 = (if in_context spec = [] then spec\<lparr>in_context := DefaultContextName\<rparr> else spec);
          imps = in_imports spec1
      in obj\<lparr>in_spec := spec1\<lparr>in_imports := imps
             \<lparr>ii_data := map (default_data_import ns) (ii_data imps),
              ii_componentDescriptors := map (default_cd_import ns (in_componentDescriptor spec1))
                (ii_componentDescriptors imps)\<rparr>\<rparr>\<rparr>)"

definition SetDefaults_Execution :: "execution \<Rightarrow> execution" where
  "SetDefaults_Execution obj =
     (if ex_context (ex_spec obj) = []
      then obj\<lparr>ex_spec := (ex_spec obj)\<lparr>ex_context := DefaultContextName\<rparr>\<rparr> else obj)"

definition SetDefaults_DeployItem :: "deploy_item \<Rightarrow> deploy_item" where
  "SetDefaults_DeployItem obj =
     (if di_context (di_spec obj) = []
      then obj\<lparr>di_spec := (di_spec obj)\<lparr>di_context := DefaultContextName\<rparr>\<rparr> else obj)"

section \<open>Facts\<close>

lemma default_target_type_twice [simp]: "default_target_type (default_target_type tt) = default_target_type tt"
  by (simp add: default_target_type_def)

lemma default_target_type_empty [simp]: "default_target_type tt = [] \<longleftrightarrow> tt = []"
  by (simp add: default_target_type_def LandscaperDomain_def)

lemma SetDefaults_DefinitionImport_twice:
  "SetDefaults_DefinitionImport (SetDefaults_DefinitionImport defs) = SetDefaults_DefinitionImport defs"
  by (induction defs rule: SetDefaults_DefinitionImport.induct)
    (auto simp: Let_def default_type_def split: option.splits)

lemma default_export_twice: "default_export (default_export e) = default_export e"
  by (simp add: default_export_def Let_def default_type_def)

lemma SetDefaults_DefinitionExport_map: "SetDefaults_DefinitionExport es = map default_export es"
  by (induction es) simp_all

lemma SetDefaults_Blueprint_twice: "SetDefaults_Blueprint (SetDefaults_Blueprint b) = SetDefaults_Blueprint b"
  by (simp add: SetDefaults_Blueprint_def Let_def SetDefaults_DefinitionImport_twice
      SetDefaults_DefinitionExport_map default_export_twice comp_def)

lemma default_refs_twice:
  "default_secret_ref ns (default_secret_ref ns s) = default_secret_ref ns s"
  "default_config_map_ref ns (default_config_map_ref ns c) = default_config_map_ref ns c"
  "default_cd_ref cd (default_cd_ref cd r) = default_cd_ref cd r"
  by (auto simp: default_secret_ref_def default_config_map_ref_def default_cd_ref_def default_namespace_def
      option.map_comp comp_def split: option.splits intro!: option.map_cong)

lemma default_cd_data_twice: "default_cd_data ns cd (default_cd_data ns cd d) = default_cd_data ns cd d"
  by (simp add: default_cd_data_def default_refs_twice)

lemma SetDefaults_Installation_twice:
  "SetDefaults_Installation (SetDefaults_Installation i) = SetDefaults_Installation i"
  by (simp add: SetDefaults_Installation_def Let_def default_data_import_def default_cd_import_def
      default_refs_twice default_cd_data_twice option.map_comp comp_def DefaultContextName_def)

lemma default_export_ok:
  "export_definition_ok (default_export e) \<longleftrightarrow>
     fv_name (xd_fieldValue e) \<noteq> [] \<and>
     (xd_type e \<in> {[], ''data''} \<and> fv_schema (xd_fieldValue e) \<noteq> None \<and> fv_targetType (xd_fieldValue e) = []
      \<or> xd_type e \<in> {[], ''target''} \<and> fv_schema (xd_fieldValue e) = None \<and> fv_targetType (xd_fieldValue e) \<noteq> [])"
  by (auto simp: export_definition_ok_def default_export_def Let_def default_type_def)

lemma default_export_name: "fv_name (xd_fieldValue (default_export e)) = fv_name (xd_fieldValue e)"
  by (simp add: default_export_def Let_def)

section \<open>Properties\<close>

text \<open>
  Defaulting is idempotent for every kind of object, so an object that is decoded, stored and
  decoded again does not change.
\<close>

theorem defaults_idempotent:
  "SetDefaults_Blueprint (SetDefaults_Blueprint b) = SetDefaults_Blueprint b
   \<and> SetDefaults_Installation (SetDefaults_Installation i) = SetDefaults_Installation i
   \<and> SetDefaults_Execution (SetDefaults_Execution e) = SetDefaults_Execution e
   \<and> SetDefaults_DeployItem (SetDefaults_DeployItem d) = SetDefaults_DeployItem d"
  by (simp add: SetDefaults_Blueprint_twice SetDefaults_Installation_twice SetDefaults_Execution_def
      SetDefaults_DeployItem_def DefaultContextName_def)

text \<open>
  Defaulting closes the gap in the validation of exports. After defaulting, the export definitions
  pass if and only if every definition has a name, exactly one of schema and target type, and a
  type that is either missing or the one that belongs to it, and the names are unique.
\<close>

theorem defaulted_exports_accepted:
  "ValidateBlueprintExportDefinitions p (SetDefaults_DefinitionExport defs) = [] \<longleftrightarrow>
     list_all (\<lambda>e. fv_name (xd_fieldValue e) \<noteq> [] \<and>
       (xd_type e \<in> {[], ''data''} \<and> fv_schema (xd_fieldValue e) \<noteq> None \<and> fv_targetType (xd_fieldValue e) = []
        \<or> xd_type e \<in> {[], ''target''} \<and> fv_schema (xd_fieldValue e) = None
          \<and> fv_targetType (xd_fieldValue e) \<noteq> [])) defs
     \<and> distinct (map (\<lambda>e. fv_name (xd_fieldValue e)) defs)"
proof -
  have names: "map (\<lambda>e. fv_name (xd_fieldValue e)) (map default_export defs) = map (\<lambda>e. fv_name (xd_fieldValue e)) defs"
    by (simp add: default_export_name comp_def)
  show ?thesis
    unfolding ValidateBlueprintExportDefinitions_def export_definitions.accepts_iff_fresh
      SetDefaults_DefinitionExport_map names
    by (simp add: list_all_iff default_export_ok)
qed

end
