(* ===== verification/DataObjects.thy ===== *)
theory DataObjects
  imports Defaults
begin

text \<open>
  \<open>apis/core/v1alpha1/helper/dataobjects.go\<close> and \<open>pkg/landscaper/dataobjects/dataobject.go\<close>: the
  names, labels and hashes under which exported values are stored. The digests and encoders of
  the Go libraries are arguments: \<open>digest\<close> is SHA-1 followed by the base32 encoding of the names,
  \<open>sha\<close> is SHA-1 in hexadecimal, \<open>marshal\<close> is \<open>json.MarshalIndent\<close> (which may fail) on the
  values, whose type is \<open>'j\<close>.
\<close>

section \<open>Names and sources (helper/dataobjects.go)\<close>

definition InstallationPrefix :: string where
  "InstallationPrefix = ''Inst.''"

definition ExecutionPrefix :: string where
  "ExecutionPrefix = ''Exec.''"

definition is_alnum_lower :: "char \<Rightarrow> bool" where
  "is_alnum_lower c \<longleftrightarrow> (let n = (of_char c :: nat) in (97 \<le> n \<and> n \<le> 122) \<or> (48 \<le> n \<and> n \<le> 57))"

text \<open>The regular expression for names that need no hash: \<open>^([a-z0-9]|([a-z0-9][a-z0-9.-]*[a-z0-9]))$\<close>.\<close>

definition is_subdomain :: "string \<Rightarrow> bool" where
  "is_subdomain s \<longleftrightarrow> s \<noteq> [] \<and> is_alnum_lower (hd s) \<and> is_alnum_lower (last s)
     \<and> list_all (\<lambda>c. is_alnum_lower c \<or> c = CHR ''.'' \<or> c = CHR ''-'') s"

definition GenerateDataObjectName :: "(string \<Rightarrow> string) \<Rightarrow> string \<Rightarrow> string \<Rightarrow> string" where
  "GenerateDataObjectName digest context name =
     (if name \<noteq> [] \<and> hd name = CHR ''#'' then tl name
      else if context = [] \<and> is_subdomain name then name
      else digest (context @ ''/'' @ name))"

definition GenerateDataObjectNameWithIndex :: "(string \<Rightarrow> string) \<Rightarrow> string \<Rightarrow> string \<Rightarrow> int \<Rightarrow> string" where
  "GenerateDataObjectNameWithIndex digest context name index =
     GenerateDataObjectName digest context (name @ ''['' @ show_int index @ '']'')"

definition DataObjectSourceFromObject :: "string \<Rightarrow> object_meta \<Rightarrow> string" where
  "DataObjectSourceFromObject kind m = kind @ ''/'' @ om_namespace m @ ''/'' @ om_name m"

definition ObjectFromDataObjectSource :: "string \<Rightarrow> gerr + (string \<times> object_reference)" where
  "ObjectFromDataObjectSource src =
     (case str_split src (CHR ''/'') of
        [kind, namespace, name] \<Rightarrow> Inr (kind, \<lparr>or_name = name, or_namespace = namespace\<rparr>)
      | splitValues \<Rightarrow> Inl (PlainError (''expected source definition with 3 paramters but got ''
          @ show_int (int (length splitValues)))))"

definition DataObjectSourceFromInstallationName :: "string \<Rightarrow> string" where
  "DataObjectSourceFromInstallationName name = InstallationPrefix @ name"

definition DataObjectSourceFromInstallation :: "installation \<Rightarrow> string" where
  "DataObjectSourceFromInstallation src = InstallationPrefix @ om_name (in_meta src)"

definition DataObjectSourceFromExecution :: "execution \<Rightarrow> string" where
  "DataObjectSourceFromExecution src = ExecutionPrefix @ om_name (ex_meta src)"

section \<open>Data objects (dataobject.go)\<close>

record raw_data_object =
  do_meta :: object_meta
  do_data :: string

record do_metadata =
  md_namespace :: string
  md_context :: string
  md_sourceType :: string
  md_source :: string
  md_key :: string
  md_hash :: string

record 'j data_object =
  do_value :: 'j
  do_metadata :: do_metadata

definition DataObjectContextLabel :: string where
  "DataObjectContextLabel = ''data.landscaper.gardener.cloud/context''"

definition DataObjectSourceTypeLabel :: string where
  "DataObjectSourceTypeLabel = ''data.landscaper.gardener.cloud/sourceType''"

definition DataObjectKeyLabel :: string where
  "DataObjectKeyLabel = ''data.landscaper.gardener.cloud/key''"

definition DataObjectSourceLabel :: string where
  "DataObjectSourceLabel = ''data.landscaper.gardener.cloud/source''"

definition DataObjectHashAnnotation :: string where
  "DataObjectHashAnnotation = ''data.landscaper.gardener.cloud/hash''"

definition empty_meta :: object_meta where
  "empty_meta = \<lparr>om_name = [], om_generateName = [], om_namespace = [], om_generation = 0,
     om_deletionTimestamp = None, om_labels = [], om_annotations = [], om_finalizers = [],
     om_ownerReferences = []\<rparr>"

definition GetMetadataFromObject :: "(string \<Rightarrow> string) \<Rightarrow> object_meta \<Rightarrow> string option \<Rightarrow> do_metadata" where
  "GetMetadataFromObject sha m data =
     \<lparr>md_namespace = [],
      md_context = smap_get (om_labels m) DataObjectContextLabel,
      md_sourceType = smap_get (om_labels m) DataObjectSourceTypeLabel,
      md_source = smap_get (om_labels m) DataObjectSourceLabel,
      md_key = smap_get (om_labels m) DataObjectKeyLabel,
      md_hash = (case map_of (om_annotations m) DataObjectHashAnnotation of
                   Some hash \<Rightarrow> hash
                 | None \<Rightarrow> (case data of Some d \<Rightarrow> sha d | None \<Rightarrow> []))\<rparr>"

definition set_nonempty :: "string \<Rightarrow> string \<Rightarrow> smap \<Rightarrow> smap" where
  "set_nonempty k v m = (if v \<noteq> [] then smap_set m k v else m)"

definition SetMetadataFromObject :: "object_meta \<Rightarrow> do_metadata \<Rightarrow> object_meta" where
  "SetMetadataFromObject m md =
     m\<lparr>om_labels :=
         set_nonempty DataObjectKeyLabel (md_key md)
           (set_nonempty DataObjectSourceLabel (md_source md)
             (set_nonempty DataObjectSourceTypeLabel (md_sourceType md)
               (set_nonempty DataObjectContextLabel (md_context md) (om_labels m)))),
       om_annotations := smap_set (om_annotations m) DataObjectHashAnnotation (md_hash md)\<rparr>"

definition new_data_object :: "'j \<Rightarrow> 'j data_object" where
  "new_data_object v = \<lparr>do_value = v, do_metadata = \<lparr>md_namespace = [], md_context = [], md_sourceType = [],
     md_source = [], md_key = [], md_hash = []\<rparr>\<rparr>"

text \<open>
  \<open>Build\<close> starts from an empty object, \<open>Apply\<close> from the given one; both write the name, the
  namespace, the data and the metadata. \<open>Metadata.Hash\<close> is set on a copy.
\<close>

definition do_Apply ::
    "(string \<Rightarrow> string) \<Rightarrow> (string \<Rightarrow> string) \<Rightarrow> ('j \<Rightarrow> gerr + string) \<Rightarrow> 'j data_object \<Rightarrow> raw_data_object
      \<Rightarrow> gerr + raw_data_object" where
  "do_Apply digest sha marshal d raw =
     (case marshal (do_value d) of
        Inl e \<Rightarrow> Inl e
      | Inr bytes \<Rightarrow>
          let md = do_metadata d;
              m1 = (do_meta raw)\<lparr>om_name := GenerateDataObjectName digest (md_context md) (md_key md),
                                 om_namespace := md_namespace md\<rparr>
          in Inr (raw\<lparr>do_meta := SetMetadataFromObject m1 (md\<lparr>md_hash := sha bytes\<rparr>), do_data := bytes\<rparr>))"

definition do_Build ::
    "(string \<Rightarrow> string) \<Rightarrow> (string \<Rightarrow> string) \<Rightarrow> ('j \<Rightarrow> gerr + string) \<Rightarrow> 'j data_object
      \<Rightarrow> gerr + raw_data_object" where
  "do_Build digest sha marshal d = do_Apply digest sha marshal d \<lparr>do_meta = empty_meta, do_data = []\<rparr>"

section \<open>Facts\<close>

lemma data_labels_distinct [simp]:
  "DataObjectContextLabel \<noteq> DataObjectSourceTypeLabel" "DataObjectContextLabel \<noteq> DataObjectSourceLabel"
  "DataObjectContextLabel \<noteq> DataObjectKeyLabel" "DataObjectSourceTypeLabel \<noteq> DataObjectSourceLabel"
  "DataObjectSourceTypeLabel \<noteq> DataObjectKeyLabel" "DataObjectSourceLabel \<noteq> DataObjectKeyLabel"
  "DataObjectSourceTypeLabel \<noteq> DataObjectContextLabel" "DataObjectSourceLabel \<noteq> DataObjectContextLabel"
  "DataObjectKeyLabel \<noteq> DataObjectContextLabel" "DataObjectSourceLabel \<noteq> DataObjectSourceTypeLabel"
  "DataObjectKeyLabel \<noteq> DataObjectSourceTypeLabel" "DataObjectKeyLabel \<noteq> DataObjectSourceLabel"
  by (simp_all add: DataObjectContextLabel_def DataObjectSourceTypeLabel_def DataObjectSourceLabel_def
      DataObjectKeyLabel_def)

lemma smap_get_set_nonempty:
  "smap_get (set_nonempty k v m) k' = (if k' = k \<and> v \<noteq> [] then v else smap_get m k')"
  by (simp add: set_nonempty_def smap_get_set)

lemma set_nonempty_twice: "set_nonempty k v (set_nonempty k v m) = set_nonempty k v m"
  by (simp add: set_nonempty_def smap_set_id)

lemma set_nonempty_id: "v = [] \<or> map_of m k = Some v \<Longrightarrow> set_nonempty k v m = m"
  by (auto simp: set_nonempty_def smap_set_id)

lemma map_of_set_nonempty: "map_of (set_nonempty k v m) = (if v = [] then map_of m else (map_of m)(k \<mapsto> v))"
  by (simp add: set_nonempty_def)

lemma SetMetadataFromObject_twice:
  "SetMetadataFromObject (SetMetadataFromObject m md) md = SetMetadataFromObject m md"
proof -
  have "smap_set (smap_set a k v) k v = smap_set a k v" for a k v
    by (simp add: smap_set_id)
  then show ?thesis
    by (simp add: SetMetadataFromObject_def set_nonempty_id map_of_set_nonempty)
qed

lemma SetMetadataFromObject_other [simp]:
  "om_name (SetMetadataFromObject m md) = om_name m"
  "om_namespace (SetMetadataFromObject m md) = om_namespace m"
  by (simp_all add: SetMetadataFromObject_def)

lemma do_Apply_twice:
  assumes "do_Apply digest sha marshal d raw = Inr raw1"
  shows "do_Apply digest sha marshal d raw1 = Inr raw1"
proof -
  from assms obtain bytes where b: "marshal (do_value d) = Inr bytes"
    by (auto simp: do_Apply_def split: sum.splits)
  let ?md = "(do_metadata d)\<lparr>md_hash := sha bytes\<rparr>"
  let ?name = "GenerateDataObjectName digest (md_context (do_metadata d)) (md_key (do_metadata d))"
  let ?m = "SetMetadataFromObject ((do_meta raw)\<lparr>om_name := ?name, om_namespace := md_namespace (do_metadata d)\<rparr>) ?md"
  have raw1: "raw1 = raw\<lparr>do_meta := ?m, do_data := bytes\<rparr>"
    using assms b by (simp add: do_Apply_def Let_def)
  have "?m\<lparr>om_name := ?name, om_namespace := md_namespace (do_metadata d)\<rparr> = ?m"
    by (simp add: SetMetadataFromObject_def)
  then have m: "SetMetadataFromObject (?m\<lparr>om_name := ?name, om_namespace := md_namespace (do_metadata d)\<rparr>) ?md = ?m"
    by (simp only: SetMetadataFromObject_twice)
  have "do_Apply digest sha marshal d raw1 = Inr (raw1\<lparr>do_meta :=
      SetMetadataFromObject ((do_meta raw1)\<lparr>om_name := ?name, om_namespace := md_namespace (do_metadata d)\<rparr>) ?md,
      do_data := bytes\<rparr>)"
    using b by (simp add: do_Apply_def Let_def)
  also have "\<dots> = Inr raw1" using m by (simp add: raw1)
  finally show ?thesis .
qed

section \<open>Properties\<close>

text \<open>
  The source that is stored with a data object identifies the object it came from. It is parsed
  back into the kind, the namespace and the name if and only if none of them has a slash.
\<close>

theorem data_object_source_roundtrip:
  "ObjectFromDataObjectSource (DataObjectSourceFromObject kind m) =
     Inr (kind, ObjectReferenceFromObject m) \<longleftrightarrow>
   CHR ''/'' \<notin> set kind \<union> set (om_namespace m) \<union> set (om_name m)"
proof
  let ?s = "DataObjectSourceFromObject kind m"
  have s: "?s = str_join [kind, om_namespace m, om_name m] (CHR ''/'')"
    by (simp add: DataObjectSourceFromObject_def)
  assume "CHR ''/'' \<notin> set kind \<union> set (om_namespace m) \<union> set (om_name m)"
  then have "str_split ?s (CHR ''/'') = [kind, om_namespace m, om_name m]"
    unfolding s by (intro str_split_join) auto
  then show "ObjectFromDataObjectSource ?s = Inr (kind, ObjectReferenceFromObject m)"
    by (simp add: ObjectFromDataObjectSource_def ObjectReferenceFromObject_def)
next
  let ?s = "DataObjectSourceFromObject kind m"
  assume r: "ObjectFromDataObjectSource ?s = Inr (kind, ObjectReferenceFromObject m)"
  then have "str_split ?s (CHR ''/'') = [kind, om_namespace m, om_name m]"
    by (auto simp: ObjectFromDataObjectSource_def ObjectReferenceFromObject_def split: list.splits)
  then have "x \<in> {kind, om_namespace m, om_name m} \<Longrightarrow> CHR ''/'' \<notin> set x" for x
    using str_split_parts [of x ?s "CHR ''/''"] by simp
  then show "CHR ''/'' \<notin> set kind \<union> set (om_namespace m) \<union> set (om_name m)" by blast
qed

text \<open>
  Storing an export is idempotent. Applying a data object to the stored object it was applied to
  before changes nothing, so the update is skipped; what is stored carries the generated name, the
  encoded data and their hash, and reading its metadata gives the metadata of the data object.
\<close>

theorem data_object_apply_stable:
  assumes "do_Apply digest sha marshal d raw = Inr raw1"
  shows "do_Apply digest sha marshal d raw1 = Inr raw1
    \<and> marshal (do_value d) = Inr (do_data raw1)
    \<and> om_name (do_meta raw1) = GenerateDataObjectName digest (md_context (do_metadata d)) (md_key (do_metadata d))
    \<and> md_hash (GetMetadataFromObject sha (do_meta raw1) (Some (do_data raw1))) = sha (do_data raw1)
    \<and> (om_labels (do_meta raw) = [] \<longrightarrow>
        GetMetadataFromObject sha (do_meta raw1) (Some (do_data raw1)) =
          (do_metadata d)\<lparr>md_namespace := [], md_hash := sha (do_data raw1)\<rparr>)"
proof -
  from assms obtain bytes where b: "marshal (do_value d) = Inr bytes"
    by (auto simp: do_Apply_def split: sum.splits)
  have raw1: "raw1 = raw\<lparr>do_meta := SetMetadataFromObject ((do_meta raw)\<lparr>om_name :=
      GenerateDataObjectName digest (md_context (do_metadata d)) (md_key (do_metadata d)),
      om_namespace := md_namespace (do_metadata d)\<rparr>) ((do_metadata d)\<lparr>md_hash := sha bytes\<rparr>), do_data := bytes\<rparr>"
    using assms b by (simp add: do_Apply_def Let_def)
  have empty: "smap_get [] k = []" for k by (simp add: smap_get_def)
  show ?thesis
    using do_Apply_twice [OF assms] b
    by (simp add: raw1 GetMetadataFromObject_def SetMetadataFromObject_def smap_get_set_nonempty empty)
qed

definition example_data_object :: "string data_object" where
  "example_data_object = \<lparr>do_value = ''42'', do_metadata = \<lparr>md_namespace = ''ns'', md_context = ''Exec.a'',
     md_sourceType = [], md_source = ''Exec.a'', md_key = [], md_hash = []\<rparr>\<rparr>"

lemma data_object_apply_stable_witness:
  "\<exists>raw1. do_Build (\<lambda>s. ''h'' @ s) (\<lambda>s. s) Inr example_data_object = Inr raw1 \<and>
     do_Apply (\<lambda>s. ''h'' @ s) (\<lambda>s. s) Inr example_data_object raw1 = Inr raw1"
proof -
  obtain raw1 where r: "do_Build (\<lambda>s. ''h'' @ s) (\<lambda>s. s) Inr example_data_object = Inr raw1"
    by (simp add: do_Build_def do_Apply_def Let_def)
  then have "do_Apply (\<lambda>s. ''h'' @ s) (\<lambda>s. s) Inr example_data_object \<lparr>do_meta = empty_meta, do_data = []\<rparr> = Inr raw1"
    by (simp add: do_Build_def)
  from data_object_apply_stable [OF this] r show ?thesis by blast
qed

end
