(* ===== verification/KubeClient.thy ===== *)
theory KubeClient
  imports DataObjects
begin

text \<open>
  The API server as the program sees it, and \<open>CreateOrUpdate\<close> of
  \<open>controller-utils/pkg/kubernetes/kubernetes.go\<close>. The server is not part of the program: it is
  a record of functions over an unknown world \<open>'w\<close>, which holds the cluster and the clock. A
  call returns an error or the object that the server answers with, and the new world; the
  client library overwrites the caller's object with the answer, and leaves it alone when the
  call fails. A read replaces the whole object, as the cached client of the manager does.
  The text of a time and its parser are arguments of the operations that need them.
\<close>

section \<open>Results of operations\<close>

text \<open>
  An operation that can dereference a \<open>nil\<close> pointer ends with a value, with an error, or with
  a panic.
\<close>

datatype 'a outcome = Done 'a | Fail gerr | Panic

fun outcome_of :: "gerr + 'a \<Rightarrow> 'a outcome" where
  "outcome_of (Inl e) = Fail e"
| "outcome_of (Inr x) = Done x"

definition is_done :: "'a outcome \<Rightarrow> bool" where
  "is_done r \<longleftrightarrow> (case r of Done x \<Rightarrow> True | _ \<Rightarrow> False)"

section \<open>The client\<close>

datatype label_requirement = LabelEquals string string | LabelDoesNotExist string

record ('w, 'o) resource_client =
  rc_get :: "object_reference \<Rightarrow> 'w \<Rightarrow> (gerr + 'o) \<times> 'w"
  rc_list :: "string \<times> string \<Rightarrow> string \<Rightarrow> 'w \<Rightarrow> (gerr + 'o list) \<times> 'w"
  rc_select :: "label_requirement list \<Rightarrow> string \<Rightarrow> 'w \<Rightarrow> (gerr + 'o list) \<times> 'w"
  rc_create :: "'o \<Rightarrow> 'w \<Rightarrow> (gerr + 'o) \<times> 'w"
  rc_update :: "'o \<Rightarrow> 'w \<Rightarrow> (gerr + 'o) \<times> 'w"
  rc_statusUpdate :: "'o \<Rightarrow> 'w \<Rightarrow> (gerr + 'o) \<times> 'w"
  rc_patch :: "'o \<Rightarrow> 'o \<Rightarrow> 'w \<Rightarrow> (gerr + 'o) \<times> 'w"
  rc_statusPatch :: "'o \<Rightarrow> 'o \<Rightarrow> 'w \<Rightarrow> (gerr + 'o) \<times> 'w"
  rc_delete :: "'o \<Rightarrow> 'w \<Rightarrow> gerr option \<times> 'w"

text \<open>
  \<open>rc_list (label, value) namespace\<close> is \<open>List\<close> with \<open>MatchingLabels\<close> and \<open>InNamespace\<close>,
  \<open>rc_select\<close> is \<open>List\<close> with a label selector;
  \<open>rc_patch old new\<close> is \<open>Patch (new, MergeFrom (old))\<close>, and \<open>rc_statusPatch\<close> the same on
  the status. The binary data of a secret or a config map are strings, \<open>None\<close> is the \<open>nil\<close> map.
\<close>

record secret =
  sc_meta :: object_meta
  sc_data :: smap

record config_map =
  cf_meta :: object_meta
  cf_data :: "smap option"
  cf_binaryData :: "smap option"

record 'w kube_client =
  kc_now :: "'w \<Rightarrow> time"
  kc_deployItems :: "('w, deploy_item) resource_client"
  kc_executions :: "('w, execution) resource_client"
  kc_dataObjects :: "('w, raw_data_object) resource_client"
  kc_secrets :: "('w, secret) resource_client"
  kc_configMaps :: "('w, config_map) resource_client"
  kc_targets :: "('w, target) resource_client"
  kc_contexts :: "('w, ls_context) resource_client"
  kc_installations :: "('w, installation) resource_client"

definition ObjectKey :: "string \<Rightarrow> string \<Rightarrow> object_reference" where
  "ObjectKey name namespace = \<lparr>or_name = name, or_namespace = namespace\<rparr>"

definition ObjectKeyFromObject :: "object_meta \<Rightarrow> object_reference" where
  "ObjectKeyFromObject m = \<lparr>or_name = om_name m, or_namespace = om_namespace m\<rparr>"

text \<open>\<open>types.NamespacedName.String\<close>.\<close>

definition key_string :: "object_reference \<Rightarrow> string" where
  "key_string k = or_namespace k @ ''/'' @ or_name k"

section \<open>CreateOrUpdate\<close>

datatype operation_result = OperationResultNone | OperationResultCreated | OperationResultUpdated

text \<open>
  The mutate function may read the clock, so it gets the world; it must not change the key.
\<close>

definition Mutate ::
    "('o \<Rightarrow> object_meta) \<Rightarrow> ('w \<Rightarrow> 'o \<Rightarrow> gerr + 'o) \<Rightarrow> object_reference \<Rightarrow> 'w \<Rightarrow> 'o \<Rightarrow> gerr + 'o" where
  "Mutate meta f key w obj =
     (case f w obj of
        Inl e \<Rightarrow> Inl e
      | Inr obj1 \<Rightarrow>
          if ObjectKeyFromObject (meta obj1) \<noteq> key
          then Inl (PlainError ''MutateFn cannot Mutate object name and/or object namespace'')
          else Inr obj1)"

definition create_object ::
    "('w, 'o) resource_client \<Rightarrow> ('o \<Rightarrow> object_meta) \<Rightarrow> ('w \<Rightarrow> 'o \<Rightarrow> gerr + 'o) \<Rightarrow> object_reference
      \<Rightarrow> 'o \<Rightarrow> 'w \<Rightarrow> (gerr + operation_result \<times> 'o) \<times> 'w" where
  "create_object c meta f key obj w =
     (case Mutate meta f key w obj of
        Inl e \<Rightarrow> (Inl e, w)
      | Inr obj1 \<Rightarrow>
          (case rc_create c obj1 w of
             (Inl e, w1) \<Rightarrow> (Inl e, w1)
           | (Inr obj2, w1) \<Rightarrow> (Inr (OperationResultCreated, obj2), w1)))"

text \<open>\<open>controllerutil.CreateOrUpdate\<close> of the client library.\<close>

definition controllerutil_CreateOrUpdate ::
    "('w, 'o) resource_client \<Rightarrow> ('o \<Rightarrow> object_meta) \<Rightarrow> ('w \<Rightarrow> 'o \<Rightarrow> gerr + 'o)
      \<Rightarrow> 'o \<Rightarrow> 'w \<Rightarrow> (gerr + operation_result \<times> 'o) \<times> 'w" where
  "controllerutil_CreateOrUpdate c meta f obj w =
     (let key = ObjectKeyFromObject (meta obj)
      in case rc_get c key w of
           (Inl e, w1) \<Rightarrow>
             if \<not> IsNotFound e then (Inl e, w1) else create_object c meta f key obj w1
         | (Inr existing, w1) \<Rightarrow>
             (case Mutate meta f key w1 existing of
                Inl e \<Rightarrow> (Inl e, w1)
              | Inr obj1 \<Rightarrow>
                  if obj1 = existing then (Inr (OperationResultNone, obj1), w1)
                  else (case rc_update c obj1 w1 of
                          (Inl e, w2) \<Rightarrow> (Inl e, w2)
                        | (Inr obj2, w2) \<Rightarrow> (Inr (OperationResultUpdated, obj2), w2))))"

definition CreateOrUpdate ::
    "('w, 'o) resource_client \<Rightarrow> ('o \<Rightarrow> object_meta) \<Rightarrow> ('w \<Rightarrow> 'o \<Rightarrow> gerr + 'o)
      \<Rightarrow> 'o \<Rightarrow> 'w \<Rightarrow> (gerr + operation_result \<times> 'o) \<times> 'w" where
  "CreateOrUpdate c meta f obj w =
     (if om_name (meta obj) = [] \<and> om_generateName (meta obj) \<noteq> []
      then create_object c meta f (ObjectKeyFromObject (meta obj)) obj w
      else controllerutil_CreateOrUpdate c meta f obj w)"

section \<open>A client that records its writes\<close>

text \<open>
  For statements about what an operation writes: the client over the world with a log, in which
  every write is recorded before it is sent. The operations are the same functions, run with
  this client. The calls of a deployer library to its deployer are recorded in the same log.
\<close>

datatype deployer_operation = OpReconcile | OpDelete | OpForceReconcile | OpAbort

datatype api_write =
    CreateItem deploy_item | UpdateItem deploy_item | StatusUpdateItem deploy_item
  | PatchItem deploy_item | DeleteItem deploy_item
  | CreateExec execution | UpdateExec execution | StatusUpdateExec execution
  | PatchExec execution execution | StatusPatchExec execution execution | DeleteExec execution
  | WriteData raw_data_object | WriteSecret secret | WriteConfigMap config_map
  | WriteTarget target | WriteContext ls_context
  | CreateInst installation | UpdateInst installation | StatusUpdateInst installation
  | PatchInst installation | DeleteInst installation
  | DeployerCall deployer_operation deploy_item

definition logged_call :: "'a \<Rightarrow> ('w \<Rightarrow> 'r \<times> 'w) \<Rightarrow> 'w \<times> 'a list \<Rightarrow> 'r \<times> ('w \<times> 'a list)" where
  "logged_call a call s = (let (r, w) = call (fst s) in (r, w, snd s @ [a]))"

definition unlogged_call :: "('w \<Rightarrow> 'r \<times> 'w) \<Rightarrow> 'w \<times> 'a list \<Rightarrow> 'r \<times> ('w \<times> 'a list)" where
  "unlogged_call call s = (let (r, w) = call (fst s) in (r, w, snd s))"

definition logged_resource ::
    "('o \<Rightarrow> api_write) \<Rightarrow> ('o \<Rightarrow> api_write) \<Rightarrow> ('o \<Rightarrow> api_write) \<Rightarrow> ('o \<Rightarrow> 'o \<Rightarrow> api_write) \<Rightarrow> ('o \<Rightarrow> 'o \<Rightarrow> api_write)
      \<Rightarrow> ('o \<Rightarrow> api_write) \<Rightarrow> ('w, 'o) resource_client \<Rightarrow> ('w \<times> api_write list, 'o) resource_client" where
  "logged_resource cr up st pa sp del c =
     \<lparr>rc_get = \<lambda>key. unlogged_call (rc_get c key),
      rc_list = \<lambda>lab ns. unlogged_call (rc_list c lab ns),
      rc_select = \<lambda>reqs ns. unlogged_call (rc_select c reqs ns),
      rc_create = \<lambda>obj. logged_call (cr obj) (rc_create c obj),
      rc_update = \<lambda>obj. logged_call (up obj) (rc_update c obj),
      rc_statusUpdate = \<lambda>obj. logged_call (st obj) (rc_statusUpdate c obj),
      rc_patch = \<lambda>old new. logged_call (pa old new) (rc_patch c old new),
      rc_statusPatch = \<lambda>old new. logged_call (sp old new) (rc_statusPatch c old new),
      rc_delete = \<lambda>obj. logged_call (del obj) (rc_delete c obj)\<rparr>"

definition logged :: "'w kube_client \<Rightarrow> ('w \<times> api_write list) kube_client" where
  "logged c =
     \<lparr>kc_now = \<lambda>s. kc_now c (fst s),
      kc_deployItems = logged_resource CreateItem UpdateItem StatusUpdateItem (\<lambda>_. PatchItem) (\<lambda>_. PatchItem)
        DeleteItem (kc_deployItems c),
      kc_executions = logged_resource CreateExec UpdateExec StatusUpdateExec PatchExec StatusPatchExec
        DeleteExec (kc_executions c),
      kc_dataObjects = logged_resource WriteData WriteData WriteData (\<lambda>_. WriteData) (\<lambda>_. WriteData)
        WriteData (kc_dataObjects c),
      kc_secrets = logged_resource WriteSecret WriteSecret WriteSecret (\<lambda>_. WriteSecret) (\<lambda>_. WriteSecret)
        WriteSecret (kc_secrets c),
      kc_configMaps = logged_resource WriteConfigMap WriteConfigMap WriteConfigMap (\<lambda>_. WriteConfigMap) (\<lambda>_. WriteConfigMap)
        WriteConfigMap (kc_configMaps c),
      kc_targets = logged_resource WriteTarget WriteTarget WriteTarget (\<lambda>_. WriteTarget) (\<lambda>_. WriteTarget)
        WriteTarget (kc_targets c),
      kc_contexts = logged_resource WriteContext WriteContext WriteContext (\<lambda>_. WriteContext) (\<lambda>_. WriteContext)
        WriteContext (kc_contexts c),
      kc_installations = logged_resource CreateInst UpdateInst StatusUpdateInst (\<lambda>_. PatchInst) (\<lambda>_. PatchInst)
        DeleteInst (kc_installations c)\<rparr>"

lemma logged_call_snd [simp]: "snd (snd (logged_call a call s)) = snd s @ [a]"
  by (simp add: logged_call_def case_prod_beta)

lemma unlogged_call_snd [simp]: "snd (snd (unlogged_call call s)) = snd s"
  by (simp add: unlogged_call_def case_prod_beta)

lemma logged_resource_sel [simp]:
  "rc_get (logged_resource cr up st pa sp del c) key = unlogged_call (rc_get c key)"
  "rc_list (logged_resource cr up st pa sp del c) lab ns = unlogged_call (rc_list c lab ns)"
  "rc_select (logged_resource cr up st pa sp del c) reqs ns = unlogged_call (rc_select c reqs ns)"
  "rc_create (logged_resource cr up st pa sp del c) obj = logged_call (cr obj) (rc_create c obj)"
  "rc_update (logged_resource cr up st pa sp del c) obj = logged_call (up obj) (rc_update c obj)"
  "rc_statusUpdate (logged_resource cr up st pa sp del c) obj = logged_call (st obj) (rc_statusUpdate c obj)"
  "rc_patch (logged_resource cr up st pa sp del c) old new = logged_call (pa old new) (rc_patch c old new)"
  "rc_statusPatch (logged_resource cr up st pa sp del c) old new = logged_call (sp old new) (rc_statusPatch c old new)"
  "rc_delete (logged_resource cr up st pa sp del c) obj = logged_call (del obj) (rc_delete c obj)"
  by (simp_all add: logged_resource_def)

lemma logged_sel [simp]:
  "kc_now (logged c) s = kc_now c (fst s)"
  "kc_deployItems (logged c) = logged_resource CreateItem UpdateItem StatusUpdateItem (\<lambda>_. PatchItem) (\<lambda>_. PatchItem)
     DeleteItem (kc_deployItems c)"
  "kc_executions (logged c) = logged_resource CreateExec UpdateExec StatusUpdateExec PatchExec StatusPatchExec
     DeleteExec (kc_executions c)"
  "kc_dataObjects (logged c) = logged_resource WriteData WriteData WriteData (\<lambda>_. WriteData) (\<lambda>_. WriteData)
     WriteData (kc_dataObjects c)"
  "kc_secrets (logged c) = logged_resource WriteSecret WriteSecret WriteSecret (\<lambda>_. WriteSecret) (\<lambda>_. WriteSecret)
     WriteSecret (kc_secrets c)"
  "kc_configMaps (logged c) = logged_resource WriteConfigMap WriteConfigMap WriteConfigMap (\<lambda>_. WriteConfigMap) (\<lambda>_. WriteConfigMap)
     WriteConfigMap (kc_configMaps c)"
  "kc_targets (logged c) = logged_resource WriteTarget WriteTarget WriteTarget (\<lambda>_. WriteTarget) (\<lambda>_. WriteTarget)
     WriteTarget (kc_targets c)"
  "kc_contexts (logged c) = logged_resource WriteContext WriteContext WriteContext (\<lambda>_. WriteContext) (\<lambda>_. WriteContext)
     WriteContext (kc_contexts c)"
  "kc_installations (logged c) = logged_resource CreateInst UpdateInst StatusUpdateInst (\<lambda>_. PatchInst) (\<lambda>_. PatchInst)
     DeleteInst (kc_installations c)"
  by (simp_all add: logged_def)

end
