(* ===== verification/ExecutionOps.thy ===== *)
theory ExecutionOps
  imports KubeClient
begin

text \<open>
  \<open>pkg/landscaper/execution\<close>: the operations on an execution. \<open>Reconcile\<close> creates or triggers
  the deploy items whose dependencies are done, collects the exports and sets the phase; \<open>Delete\<close>
  removes the items in reverse order; \<open>HandleDeployItemPhaseAndGenerationChanges\<close> keeps the
  phase of a finished execution in step with its items. The execution in memory (\<open>o.exec\<close>) is
  threaded through and replaced by the server's answer after each write, as the client does.
  Log lines and events are left out.
\<close>

section \<open>The environment of the operations\<close>

text \<open>
  Library functions: the text of a time, the owner references of the scheme (they may fail), and
  the encoders of data objects. \<open>'j\<close> is the type of decoded JSON objects, \<open>oe_nil\<close> the \<open>nil\<close>
  map.
\<close>

record 'j op_env =
  oe_formatTime :: "time \<Rightarrow> string"
  oe_setController :: "execution \<Rightarrow> object_meta \<Rightarrow> gerr + object_meta"
  oe_setOwner :: "execution \<Rightarrow> object_meta \<Rightarrow> gerr + object_meta"
  oe_digest :: "string \<Rightarrow> string"
  oe_sha :: "string \<Rightarrow> string"
  oe_marshal :: "(string \<rightharpoonup> 'j) \<Rightarrow> gerr + string"
  oe_unmarshal :: "string \<Rightarrow> gerr + 'j"
  oe_nil :: 'j

section \<open>Items and generations\<close>

record exec_item =
  xi_info :: deploy_item_template
  xi_deployItem :: "deploy_item option"

fun getExecutionGeneration :: "execution_generation list \<Rightarrow> string \<Rightarrow> execution_generation option" where
  "getExecutionGeneration [] name = None"
| "getExecutionGeneration (r # rs) name =
     (if eg_name r = name then Some r else getExecutionGeneration rs name)"

fun setExecutionGeneration :: "execution_generation list \<Rightarrow> string \<Rightarrow> int \<Rightarrow> execution_generation list" where
  "setExecutionGeneration [] name gen = [\<lparr>eg_name = name, eg_observedGeneration = gen\<rparr>]"
| "setExecutionGeneration (r # rs) name gen =
     (if eg_name r = name then r\<lparr>eg_observedGeneration := gen\<rparr> # rs
      else r # setExecutionGeneration rs name gen)"

record generations =
  ge_executionInExecution :: int
  ge_executionInDeployItem :: int
  ge_deployItemInExecution :: int
  ge_deployItemInDeployItem :: int

definition HasExecutionBeenModified :: "generations \<Rightarrow> bool" where
  "HasExecutionBeenModified g \<longleftrightarrow> ge_executionInExecution g \<noteq> ge_executionInDeployItem g"

definition HasDeployItemBeenModified :: "generations \<Rightarrow> bool" where
  "HasDeployItemBeenModified g \<longleftrightarrow> ge_deployItemInDeployItem g \<noteq> ge_deployItemInExecution g"

definition IsUpToDate :: "generations \<Rightarrow> bool" where
  "IsUpToDate g \<longleftrightarrow> \<not> (HasExecutionBeenModified g \<or> HasDeployItemBeenModified g)"

text \<open>The deploy item is an argument, because the callers have made sure that it is not \<open>nil\<close>.\<close>

definition getGenerations :: "execution \<Rightarrow> string \<Rightarrow> deploy_item \<Rightarrow> generations" where
  "getGenerations exec name di =
     \<lparr>ge_executionInExecution = om_generation (ex_meta exec),
      ge_executionInDeployItem =
        (case getExecutionGeneration (es_executionGenerations (ex_status exec)) name of
           Some g \<Rightarrow> eg_observedGeneration g | None \<Rightarrow> 0),
      ge_deployItemInExecution =
        (case GetVersionedNamedObjectReference (es_deployItemReferences (ex_status exec)) name of
           Some r \<Rightarrow> vo_observedGeneration (vn_reference r) | None \<Rightarrow> 0),
      ge_deployItemInDeployItem = om_generation (di_meta di)\<rparr>"

section \<open>Helpers (helper.go)\<close>

definition ApplyDeployItemTemplate :: "(time \<Rightarrow> string) \<Rightarrow> time \<Rightarrow> deploy_item \<Rightarrow> deploy_item_template \<Rightarrow> deploy_item" where
  "ApplyDeployItemTemplate fmt now di tmpl =
     (let m1 = SetTimestampAnnotationNow fmt now (SetOperation (di_meta di) ReconcileOperation) ReconcileTimestamp;
          m2 = foldl (\<lambda>m (k, v). SetMetaDataLabel m k v) m1 (dt_labels tmpl);
          m3 = SetMetaDataLabel m2 ExecutionManagedNameLabel (dt_name tmpl);
          m4 = SetMetaDataAnnotation m3 ExecutionDependsOnAnnotation (str_join (dt_dependsOn tmpl) (CHR '',''))
      in di\<lparr>di_meta := m4,
            di_spec := (di_spec di)\<lparr>di_type := dt_type tmpl, di_target := dt_target tmpl,
              di_configuration := dt_configuration tmpl\<rparr>\<rparr>)"

fun managed_index :: "nat \<Rightarrow> deploy_item list \<Rightarrow> string \<Rightarrow> nat option" where
  "managed_index i [] name = None"
| "managed_index i (item # items) name =
     (if smap_get (om_labels (di_meta item)) ExecutionManagedNameLabel = name then Some i
      else managed_index (Suc i) items name)"

definition getDeployItemIndexByManagedName :: "deploy_item list \<Rightarrow> string \<Rightarrow> nat option" where
  "getDeployItemIndexByManagedName items name = managed_index 0 items name"

definition listManagedDeployItems :: "'w kube_client \<Rightarrow> execution \<Rightarrow> 'w \<Rightarrow> (gerr + deploy_item list) \<times> 'w" where
  "listManagedDeployItems c exec w =
     rc_list (kc_deployItems c) (ExecutionManagedByLabel, om_name (ex_meta exec)) (om_namespace (ex_meta exec)) w"

definition execution_item_of :: "deploy_item list \<Rightarrow> deploy_item_template \<Rightarrow> exec_item" where
  "execution_item_of items tmpl =
     \<lparr>xi_info = tmpl,
      xi_deployItem = map_option (\<lambda>j. items ! j) (getDeployItemIndexByManagedName items (dt_name tmpl))\<rparr>"

definition getExecutionItems :: "execution \<Rightarrow> deploy_item list \<Rightarrow> exec_item list \<times> deploy_item list" where
  "getExecutionItems exec items =
     (let tmpls = ex_deployItems (ex_spec exec);
          managed = List.map_filter (\<lambda>t. getDeployItemIndexByManagedName items (dt_name t)) tmpls
      in (map (execution_item_of items) tmpls,
          map (\<lambda>i. items ! i) (filter (\<lambda>i. i \<notin> set managed) [0..<length items])))"

section \<open>Cleaning up (gc.go)\<close>

fun checkGCDeletable :: "deploy_item \<Rightarrow> deploy_item list \<Rightarrow> bool" where
  "checkGCDeletable item [] = True"
| "checkGCDeletable item (d # ds) =
     (if om_name (di_meta d) = om_name (di_meta item) then checkGCDeletable item ds
      else let dependsOn = str_split (smap_get (om_annotations (di_meta d)) ExecutionDependsOnAnnotation) (CHR '','')
           in if smap_get (om_labels (di_meta item)) ExecutionManagedNameLabel \<in> set dependsOn then False
              else checkGCDeletable item ds)"

fun delete_orphaned :: "'w kube_client \<Rightarrow> deploy_item list \<Rightarrow> deploy_item list \<Rightarrow> 'w \<Rightarrow> gerr option \<times> 'w" where
  "delete_orphaned c orphaned [] w = (None, w)"
| "delete_orphaned c orphaned (item # items) w =
     (if time_is_zero (om_deletionTimestamp (di_meta item)) \<and> checkGCDeletable item orphaned
      then (case rc_delete (kc_deployItems c) item w of
              (Some e, w1) \<Rightarrow>
                if \<not> IsNotFound e
                then (Some (PlainError (''unable to delete deploy item '' @ om_name (di_meta item))), w1)
                else delete_orphaned c orphaned items w1
            | (None, w1) \<Rightarrow> delete_orphaned c orphaned items w1)
      else delete_orphaned c orphaned items w)"

definition cleanupOrphanedDeployItems :: "'w kube_client \<Rightarrow> deploy_item list \<Rightarrow> 'w \<Rightarrow> gerr option \<times> 'w" where
  "cleanupOrphanedDeployItems c orphaned w =
     (if orphaned = [] then (None, w)
      else case delete_orphaned c orphaned orphaned w of
             (Some e, w1) \<Rightarrow> (Some e, w1)
           | (None, w1) \<Rightarrow> (Some (PlainError (''waiting for '' @ show_int (int (length orphaned))
                             @ '' orphaned deploy items to be deleted'')), w1))"

section \<open>Status and exports (execution.go, reconcile.go)\<close>

text \<open>Operations on the execution return their error, the execution in memory and the world.\<close>

definition exec_phase :: "phase \<Rightarrow> execution \<Rightarrow> execution" where
  "exec_phase p e = e\<lparr>ex_status := (ex_status e)\<lparr>es_phase := p\<rparr>\<rparr>"

definition exec_conditions :: "condition list \<Rightarrow> execution \<Rightarrow> execution" where
  "exec_conditions cs e =
     e\<lparr>ex_status := (ex_status e)\<lparr>es_conditions := MergeConditions (es_conditions (ex_status e)) cs\<rparr>\<rparr>"

definition UpdateStatus ::
    "'w kube_client \<Rightarrow> phase \<Rightarrow> condition list \<Rightarrow> execution \<Rightarrow> 'w \<Rightarrow> gerr option \<times> execution \<times> 'w" where
  "UpdateStatus c p updatedConditions exec w =
     (let exec1 = exec_conditions updatedConditions (exec_phase p exec)
      in case rc_statusUpdate (kc_executions c) exec1 w of
           (Inl e, w1) \<Rightarrow> (Some e, exec1, w1)
         | (Inr exec2, w1) \<Rightarrow> (None, exec2, w1))"

definition export_data_object :: "execution \<Rightarrow> (string \<rightharpoonup> 'j) \<Rightarrow> (string \<rightharpoonup> 'j) data_object" where
  "export_data_object exec values =
     \<lparr>do_value = values,
      do_metadata = \<lparr>md_namespace = om_namespace (ex_meta exec),
                     md_context = DataObjectSourceFromExecution exec, md_sourceType = [],
                     md_source = DataObjectSourceFromExecution exec, md_key = [], md_hash = []\<rparr>\<rparr>"

definition mutate_export ::
    "'j op_env \<Rightarrow> execution \<Rightarrow> (string \<rightharpoonup> 'j) data_object \<Rightarrow> raw_data_object \<Rightarrow> gerr + raw_data_object" where
  "mutate_export env exec d raw =
     (case oe_setOwner env exec (do_meta raw) of
        Inl e \<Rightarrow> Inl e
      | Inr m \<Rightarrow> do_Apply (oe_digest env) (oe_sha env) (oe_marshal env) d (raw\<lparr>do_meta := m\<rparr>))"

definition CreateOrUpdateExportReference ::
    "'j op_env \<Rightarrow> 'w kube_client \<Rightarrow> (string \<rightharpoonup> 'j) \<Rightarrow> execution \<Rightarrow> 'w \<Rightarrow> gerr option \<times> execution \<times> 'w" where
  "CreateOrUpdateExportReference env c values exec w =
     (let d = export_data_object exec values
      in case do_Build (oe_digest env) (oe_sha env) (oe_marshal env) d of
           Inl e \<Rightarrow> (Some e, exec, w)
         | Inr raw \<Rightarrow>
             (case CreateOrUpdate (kc_dataObjects c) do_meta (\<lambda>_. mutate_export env exec d) raw w of
                (Inl e, w1) \<Rightarrow> (Some e, exec, w1)
              | (Inr (res, raw1), w1) \<Rightarrow>
                  let exec1 = exec\<lparr>ex_status := (ex_status exec)
                        \<lparr>es_exportReference := Some (ObjectReferenceFromObject (do_meta raw1))\<rparr>\<rparr>
                  in UpdateStatus c (es_phase (ex_status exec1)) [] exec1 w1))"

definition DataObjectSecretDataKey :: string where
  "DataObjectSecretDataKey = ''config''"

text \<open>\<open>addExports\<close> dereferences the deploy item.\<close>

definition addExports ::
    "'j op_env \<Rightarrow> 'w kube_client \<Rightarrow> deploy_item option \<Rightarrow> 'w \<Rightarrow> 'j outcome \<times> 'w" where
  "addExports env c item w =
     (case item of
        None \<Rightarrow> (Panic, w)
      | Some di \<Rightarrow>
          (case ds_exportReference (di_status di) of
             None \<Rightarrow> (Done (oe_nil env), w)
           | Some ref \<Rightarrow>
               (case rc_get (kc_secrets c) ref w of
                  (Inl e, w1) \<Rightarrow> (Fail e, w1)
                | (Inr sec, w1) \<Rightarrow>
                    (outcome_of (oe_unmarshal env (smap_get (sc_data sec) DataObjectSecretDataKey)), w1))))"

fun collect_exports ::
    "'j op_env \<Rightarrow> 'w kube_client \<Rightarrow> exec_item list \<Rightarrow> (string \<rightharpoonup> 'j) \<Rightarrow> 'w \<Rightarrow> (string \<rightharpoonup> 'j) outcome \<times> 'w" where
  "collect_exports env c [] values w = (Done values, w)"
| "collect_exports env c (item # items) values w =
     (case addExports env c (xi_deployItem item) w of
        (Fail e, w1) \<Rightarrow> (Fail e, w1)
      | (Panic, w1) \<Rightarrow> (Panic, w1)
      | (Done data, w1) \<Rightarrow> collect_exports env c items (values(dt_name (xi_info item) \<mapsto> data)) w1)"

definition collectAndUpdateExports ::
    "'j op_env \<Rightarrow> 'w kube_client \<Rightarrow> exec_item list \<Rightarrow> execution \<Rightarrow> 'w \<Rightarrow> unit outcome \<times> execution \<times> 'w" where
  "collectAndUpdateExports env c items exec w =
     (case collect_exports env c items Map.empty w of
        (Fail e, w1) \<Rightarrow> (Fail e, exec, w1)
      | (Panic, w1) \<Rightarrow> (Panic, exec, w1)
      | (Done values, w1) \<Rightarrow>
          (case CreateOrUpdateExportReference env c values exec w1 of
             (Some e, exec1, w2) \<Rightarrow> (Fail e, exec1, w2)
           | (None, exec1, w2) \<Rightarrow> (Done (), exec1, w2)))"

section \<open>Reconcile (reconcile.go)\<close>

definition dep_done :: "execution \<Rightarrow> string \<Rightarrow> deploy_item option \<Rightarrow> bool" where
  "dep_done exec name item =
     (case item of
        None \<Rightarrow> False
      | Some di \<Rightarrow>
          if \<not> IsUpToDate (getGenerations exec name di) then False
          else if ds_observedGeneration (di_status di) \<noteq> om_generation (di_meta di) then False
          else if ds_phase (di_status di) \<noteq> PhSucceeded then False
          else True)"

fun find_item :: "exec_item list \<Rightarrow> string \<Rightarrow> exec_item option" where
  "find_item [] dep = None"
| "find_item (x # xs) dep = (if dt_name (xi_info x) \<noteq> dep then find_item xs dep else Some x)"

fun check_dependencies :: "execution \<Rightarrow> exec_item list \<Rightarrow> string list \<Rightarrow> gerr + bool" where
  "check_dependencies exec items [] = Inr True"
| "check_dependencies exec items (dep # deps) =
     (case find_item items dep of
        Some x \<Rightarrow> if \<not> dep_done exec (dt_name (xi_info x)) (xi_deployItem x) then Inr False
                  else check_dependencies exec items deps
      | None \<Rightarrow> Inl (PlainError (''dependent deployitem '' @ quote_text dep @ '' not found'')))"

definition checkRunnable :: "execution \<Rightarrow> exec_item \<Rightarrow> exec_item list \<Rightarrow> gerr + bool" where
  "checkRunnable exec item items =
     (if dt_dependsOn (xi_info item) = [] then Inr True
      else check_dependencies exec items (dt_dependsOn (xi_info item)))"

text \<open>A new deploy item: empty but for its name and namespace.\<close>

definition new_deploy_item :: "string \<Rightarrow> string \<Rightarrow> deploy_item" where
  "new_deploy_item genName ns =
     \<lparr>di_meta = empty_meta\<lparr>om_generateName := genName, om_namespace := ns\<rparr>,
      di_spec = \<lparr>di_type = [], di_target = None, di_context = [], di_configuration = None,
                 di_registryPullSecrets = [], di_timeout = None\<rparr>,
      di_status = \<lparr>ds_phase = PhEmpty, ds_observedGeneration = 0, ds_conditions = [], ds_lastError = None,
                   ds_lastReconcileTime = None, ds_deployer = \<lparr>dp_identity = [], dp_name = [], dp_version = []\<rparr>,
                   ds_providerStatus = None, ds_exportReference = None\<rparr>\<rparr>"

definition mutate_item ::
    "'j op_env \<Rightarrow> 'w kube_client \<Rightarrow> execution \<Rightarrow> deploy_item_template \<Rightarrow> 'w \<Rightarrow> deploy_item \<Rightarrow> gerr + deploy_item" where
  "mutate_item env c exec tmpl w di =
     (let d1 = ApplyDeployItemTemplate (oe_formatTime env) (kc_now c w) di tmpl;
          d2 = d1\<lparr>di_meta := SetMetaDataLabel (di_meta d1) ExecutionManagedByLabel (om_name (ex_meta exec)),
                  di_spec := (di_spec d1)\<lparr>di_context := ex_context (ex_spec exec)\<rparr>\<rparr>;
          d3 = SetDefaults_DeployItem d2
      in case oe_setController env exec (di_meta d3) of
           Inl e \<Rightarrow> Inl e
         | Inr m \<Rightarrow> Inr (d3\<lparr>di_meta := m\<rparr>))"

definition remember_item :: "string \<Rightarrow> deploy_item \<Rightarrow> execution \<Rightarrow> execution" where
  "remember_item name di exec =
     (let ref = \<lparr>vn_name = name, vn_reference =
            \<lparr>vo_ref = ObjectReferenceFromObject (di_meta di), vo_observedGeneration = om_generation (di_meta di)\<rparr>\<rparr>
      in exec\<lparr>ex_status := (ex_status exec)
           \<lparr>es_deployItemReferences := SetVersionedNamedObjectReference (es_deployItemReferences (ex_status exec)) ref,
            es_executionGenerations := setExecutionGeneration (es_executionGenerations (ex_status exec)) name
              (om_generation (ex_meta exec)),
            es_phase := PhProgressing\<rparr>\<rparr>)"

text \<open>
  Returns the error or the refreshed deploy item, the execution and the world. The pull secrets
  are set before \<open>CreateOrUpdate\<close>, which reads an existing item again.
\<close>

definition deployOrTrigger ::
    "'j op_env \<Rightarrow> 'w kube_client \<Rightarrow> exec_item \<Rightarrow> execution \<Rightarrow> 'w \<Rightarrow> (gerr + deploy_item) \<times> execution \<times> 'w" where
  "deployOrTrigger env c item exec w =
     (let di0 = (case xi_deployItem item of
                   Some d \<Rightarrow> d
                 | None \<Rightarrow> new_deploy_item (om_name (ex_meta exec) @ ''-'' @ dt_name (xi_info item) @ ''-'')
                             (om_namespace (ex_meta exec)));
          di1 = di0\<lparr>di_spec := (di_spec di0)\<lparr>di_registryPullSecrets := ex_registryPullSecrets (ex_spec exec)\<rparr>\<rparr>
      in case CreateOrUpdate (kc_deployItems c) di_meta (mutate_item env c exec (xi_info item)) di1 w of
           (Inl e, w1) \<Rightarrow> (Inl e, exec, w1)
         | (Inr (res, di2), w1) \<Rightarrow>
             let exec1 = remember_item (dt_name (xi_info item)) di2 exec
             in (case rc_statusPatch (kc_executions c) exec exec1 w1 of
                   (Inl e, w2) \<Rightarrow>
                     (Inl (WrapError (''unable to patch deployitem status: '' @ error_string e) e), exec1, w2)
                 | (Inr exec2, w2) \<Rightarrow> (Inr di2, exec2, w2)))"

text \<open>The two ways in which a failed deploy item fails the execution.\<close>

definition fail_execution :: "time \<Rightarrow> condition \<Rightarrow> string \<Rightarrow> string \<Rightarrow> execution \<Rightarrow> execution" where
  "fail_execution now cond condMsg errMsg exec =
     (let st = ex_status exec
      in exec\<lparr>ex_status := st
           \<lparr>es_observedGeneration := om_generation (ex_meta exec),
            es_phase := PhFailed,
            es_conditions := MergeConditions (es_conditions st)
              [UpdatedCondition now cond ConditionFalse ''DeployItemFailed'' condMsg []],
            es_lastError := Some (UpdatedError now (es_lastError st) ''DeployItemReconcile'' ''DeployItemFailed'' errMsg [])\<rparr>\<rparr>)"

definition not_picked_up_message :: "string \<Rightarrow> string \<Rightarrow> string" where
  "not_picked_up_message name diName = ''DeployItem '' @ name @ '' ('' @ diName @ '') has not been picked up by a Deployer''"

definition is_pickup_timeout :: "deploy_item \<Rightarrow> bool" where
  "is_pickup_timeout di \<longleftrightarrow> ds_phase (di_status di) = PhFailed \<and>
     (case ds_lastError (di_status di) of Some l \<Rightarrow> er_reason l = PickupTimeoutReason | None \<Rightarrow> False)"

text \<open>What the loop does with an existing item that is up to date, without force: it stops the
  reconciliation, or goes on with a new phase.\<close>

datatype item_decision = StopReconcile execution | ContinueWith phase execution

definition decide_up_to_date :: "time \<Rightarrow> condition \<Rightarrow> string \<Rightarrow> deploy_item \<Rightarrow> phase \<Rightarrow> execution \<Rightarrow> item_decision" where
  "decide_up_to_date now cond name di p exec =
     (let p1 = CombinedExecutionPhase [p, ds_phase (di_status di)];
          deployItemStatusUpToDate = (ds_observedGeneration (di_status di) = om_generation (di_meta di));
          diName = om_name (di_meta di)
      in if is_pickup_timeout di
         then StopReconcile (fail_execution now cond (not_picked_up_message name diName) (not_picked_up_message name diName) exec)
         else if \<not> IsCompletedExecutionPhase (ds_phase (di_status di)) \<or> \<not> deployItemStatusUpToDate
         then ContinueWith PhProgressing (exec_phase PhProgressing exec)
         else if ds_phase (di_status di) = PhFailed
         then StopReconcile (fail_execution now cond (''DeployItem '' @ name @ '' ('' @ diName @ '') is in failed state'')
                (''reconciliation of deployitem '' @ go_quote diName @ '' failed'') exec)
         else ContinueWith p1 exec)"

datatype loop_end = LoopDone | LoopReturned | LoopFailed gerr | LoopPanicked

text \<open>
  The second half of the loop body, for an item that is missing, outdated or forced. An existing
  item is shared with the list and refreshed in place; a created item stays local to the loop.
\<close>

definition trigger_item ::
    "'j op_env \<Rightarrow> 'w kube_client \<Rightarrow> nat \<Rightarrow> execution \<Rightarrow> exec_item list \<Rightarrow> phase \<Rightarrow> 'w
      \<Rightarrow> loop_end \<times> execution \<times> exec_item list \<times> phase \<times> 'w" where
  "trigger_item env c i exec items p w =
     (let item = items ! i
      in case checkRunnable exec item items of
           Inl e \<Rightarrow>
             (case xi_deployItem item of
                None \<Rightarrow> (LoopPanicked, exec, items, p, w)
              | Some di \<Rightarrow> (LoopFailed (NewWrappedError (kc_now c w) e ''CheckReconcilable''
                  (''check if deployitem '' @ go_quote (om_name (di_meta di)) @ '' is able to be reconciled'')
                  (error_string e) []), exec, items, p, w))
         | Inr False \<Rightarrow> (LoopDone, exec, items, p, w)
         | Inr True \<Rightarrow>
             (case deployOrTrigger env c item exec w of
                (Inl e, exec1, w1) \<Rightarrow>
                  (LoopFailed (NewWrappedError (kc_now c w1) e ''TriggerDeployItem''
                    (case xi_deployItem item of
                       Some di \<Rightarrow> ''error while triggering deployitem '' @ om_name (di_meta di)
                     | None \<Rightarrow> ''error while creating deployitem '' @ go_quote (dt_name (xi_info item)))
                    (error_string e) []), exec1, items, p, w1)
              | (Inr di, exec1, w1) \<Rightarrow>
                  (LoopDone, exec1,
                   (case xi_deployItem item of
                      Some _ \<Rightarrow> items[i := item\<lparr>xi_deployItem := Some di\<rparr>]
                    | None \<Rightarrow> items),
                   CombinedExecutionPhase [p, PhInit], w1)))"

definition reconcile_item ::
    "'j op_env \<Rightarrow> 'w kube_client \<Rightarrow> bool \<Rightarrow> condition \<Rightarrow> nat \<Rightarrow> execution \<Rightarrow> exec_item list \<Rightarrow> phase \<Rightarrow> 'w
      \<Rightarrow> loop_end \<times> execution \<times> exec_item list \<times> phase \<times> 'w" where
  "reconcile_item env c force cond i exec items p w =
     (let item = items ! i
      in case xi_deployItem item of
           None \<Rightarrow> trigger_item env c i exec items p w
         | Some di \<Rightarrow>
             if IsUpToDate (getGenerations exec (dt_name (xi_info item)) di) \<and> \<not> force
             then (case decide_up_to_date (kc_now c w) cond (dt_name (xi_info item)) di p exec of
                     StopReconcile exec1 \<Rightarrow> (LoopReturned, exec1, items, p, w)
                   | ContinueWith p1 exec1 \<Rightarrow> (LoopDone, exec1, items, p1, w))
             else trigger_item env c i exec items p w)"

fun reconcile_items ::
    "'j op_env \<Rightarrow> 'w kube_client \<Rightarrow> bool \<Rightarrow> condition \<Rightarrow> nat list \<Rightarrow> execution \<Rightarrow> exec_item list \<Rightarrow> phase \<Rightarrow> 'w
      \<Rightarrow> loop_end \<times> execution \<times> exec_item list \<times> phase \<times> 'w" where
  "reconcile_items env c force cond [] exec items p w = (LoopDone, exec, items, p, w)"
| "reconcile_items env c force cond (i # is) exec items p w =
     (case reconcile_item env c force cond i exec items p w of
        (LoopDone, exec1, items1, p1, w1) \<Rightarrow> reconcile_items env c force cond is exec1 items1 p1 w1
      | r \<Rightarrow> r)"

text \<open>The end of \<open>Reconcile\<close>, after the loop.\<close>

definition finish_reconcile ::
    "'j op_env \<Rightarrow> 'w kube_client \<Rightarrow> condition \<Rightarrow> execution \<Rightarrow> exec_item list \<Rightarrow> phase \<Rightarrow> 'w
      \<Rightarrow> unit outcome \<times> execution \<times> 'w" where
  "finish_reconcile env c cond exec items p w =
     (if \<not> IsCompletedExecutionPhase p then (Done (), exec, w)
      else case collectAndUpdateExports env c items exec w of
             (Fail e, exec1, w1) \<Rightarrow>
               (Fail (NewWrappedError (kc_now c w1) e ''Reconcile'' ''CollectAndUpdateExports'' (error_string e) []), exec1, w1)
           | (Panic, exec1, w1) \<Rightarrow> (Panic, exec1, w1)
           | (Done _, exec1, w1) \<Rightarrow>
               (Done (), exec_conditions [UpdatedCondition (kc_now c w1) cond ConditionTrue ''DeployItemsReconciled''
                  ''All DeployItems are successfully reconciled'' []] (exec_phase PhSucceeded exec1), w1))"

definition remove_operation_annotation :: "execution \<Rightarrow> execution" where
  "remove_operation_annotation exec =
     exec\<lparr>ex_meta := (ex_meta exec)\<lparr>om_annotations := smap_del (om_annotations (ex_meta exec)) OperationAnnotation\<rparr>\<rparr>"

definition Reconcile ::
    "'j op_env \<Rightarrow> 'w kube_client \<Rightarrow> bool \<Rightarrow> execution \<Rightarrow> 'w \<Rightarrow> unit outcome \<times> execution \<times> 'w" where
  "Reconcile env c forceReconcile exec0 w0 =
     (let cond = GetOrInitCondition (kc_now c w0) (es_conditions (ex_status exec0)) ReconcileDeployItemsCondition;
          exec = exec_phase PhProgressing exec0
      in case listManagedDeployItems c exec w0 of
           (Inl e, w1) \<Rightarrow>
             (Fail (NewWrappedError (kc_now c w1) e ''Reconcile'' ''ListManagedDeployItems'' (error_string e) []), exec, w1)
         | (Inr managedItems, w1) \<Rightarrow>
             (let (executionItems, orphaned) = getExecutionItems exec managedItems
              in case cleanupOrphanedDeployItems c orphaned w1 of
                   (Some e, w2) \<Rightarrow>
                     (Fail (NewWrappedError (kc_now c w2) e ''Reconcile'' ''CleanupOrphanedDeployItems'' (error_string e) []),
                      exec, w2)
                 | (None, w2) \<Rightarrow>
                     (case reconcile_items env c forceReconcile cond [0..<length executionItems] exec executionItems PhEmpty w2 of
                        (LoopReturned, exec1, items1, p, w3) \<Rightarrow> (Done (), exec1, w3)
                      | (LoopFailed e, exec1, items1, p, w3) \<Rightarrow> (Fail e, exec1, w3)
                      | (LoopPanicked, exec1, items1, p, w3) \<Rightarrow> (Panic, exec1, w3)
                      | (LoopDone, exec1, items1, p, w3) \<Rightarrow>
                          if forceReconcile
                          then (let exec2 = remove_operation_annotation exec1
                                in case rc_patch (kc_executions c) exec1 exec2 w3 of
                                     (Inl e, w4) \<Rightarrow>
                                       (Fail (NewWrappedError (kc_now c w4) e ''Reconcile'' ''RemoveForceReconcileAnnotation''
                                         (error_string e) []), exec2, w4)
                                   | (Inr exec3, w4) \<Rightarrow> finish_reconcile env c cond exec3 items1 p w4)
                          else finish_reconcile env c cond exec1 items1 p w3)))"

section \<open>Delete (delete.go)\<close>

fun checkDeletable :: "exec_item \<Rightarrow> exec_item list \<Rightarrow> bool" where
  "checkDeletable item [] = True"
| "checkDeletable item (x # xs) =
     (if dt_name (xi_info x) = dt_name (xi_info item) then checkDeletable item xs
      else if dt_name (xi_info item) \<notin> set (dt_dependsOn (xi_info x)) then checkDeletable item xs
      else if xi_deployItem x \<noteq> None then False
      else checkDeletable item xs)"

fun delete_items ::
    "'w kube_client \<Rightarrow> exec_item list \<Rightarrow> exec_item list \<Rightarrow> bool \<Rightarrow> execution \<Rightarrow> 'w
      \<Rightarrow> (gerr + bool) \<times> execution \<times> 'w" where
  "delete_items c all [] allDeleted exec w = (Inr allDeleted, exec, w)"
| "delete_items c all (item # items) allDeleted exec w =
     (case xi_deployItem item of
        None \<Rightarrow> delete_items c all items allDeleted exec w
      | Some di \<Rightarrow>
          if time_is_zero (om_deletionTimestamp (di_meta di)) \<and> checkDeletable item all
          then (case rc_delete (kc_deployItems c) di w of
                  (Some e, w1) \<Rightarrow>
                    if \<not> IsNotFound e
                    then (Inl (NewWrappedError (kc_now c w1) e ''DeleteDeployItem''
                           (''unable to delete deploy item '' @ om_name (di_meta di) @ '' of step '' @ dt_name (xi_info item))
                           (error_string e) []), exec, w1)
                    else delete_items c all items True exec w1
                | (None, w1) \<Rightarrow> delete_items c all items False exec w1)
          else delete_items c all items False
                 (if ds_phase (di_status di) = PhFailed then exec_phase PhFailed exec else exec) w)"

definition Delete :: "'w kube_client \<Rightarrow> execution \<Rightarrow> 'w \<Rightarrow> gerr option \<times> execution \<times> 'w" where
  "Delete c exec0 w0 =
     (let exec = exec_phase PhDeleting exec0
      in case listManagedDeployItems c exec w0 of
           (Inl e, w1) \<Rightarrow>
             (Some (NewWrappedError (kc_now c w1) e ''Deletion'' ''ListDeployItems'' (error_string e) []), exec, w1)
         | (Inr managedItems, w1) \<Rightarrow>
             (let items = fst (getExecutionItems exec managedItems)
              in case delete_items c items items True exec w1 of
                   (Inl e, exec1, w2) \<Rightarrow> (Some e, exec1, w2)
                 | (Inr False, exec1, w2) \<Rightarrow> (None, exec1, w2)
                 | (Inr True, exec1, w2) \<Rightarrow>
                     let exec2 = exec1\<lparr>ex_meta := RemoveFinalizer (ex_meta exec1) LandscaperFinalizer\<rparr>
                     in (case rc_update (kc_executions c) exec2 w2 of
                           (Inl e, w3) \<Rightarrow> (NewErrorOrNil (kc_now c w3) (Some e) ''Deletion'' ''RemoveFinalizer'' [], exec2, w3)
                         | (Inr exec3, w3) \<Rightarrow> (None, exec3, w3))))"

section \<open>Changes of the items of a finished execution (helper.go)\<close>

text \<open>
  The loop over the remembered references: it stops with \<open>None\<close> as soon as an item is gone or has
  another generation than the remembered one.
\<close>

fun fetch_items ::
    "'w kube_client \<Rightarrow> versioned_named_object_reference list \<Rightarrow> 'w \<Rightarrow> (gerr + deploy_item list option) \<times> 'w" where
  "fetch_items c [] w = (Inr (Some []), w)"
| "fetch_items c (managedDi # refs) w =
     (let key = vo_ref (vn_reference managedDi)
      in case rc_get (kc_deployItems c) key w of
           (Inl e, w1) \<Rightarrow>
             if \<not> IsNotFound e
             then (Inl (WrapError (''unable to get deploy item '' @ go_quote (key_string key) @ '': '' @ error_string e) e), w1)
             else (Inr None, w1)
         | (Inr di, w1) \<Rightarrow>
             if vo_observedGeneration (vn_reference managedDi) \<noteq> om_generation (di_meta di) then (Inr None, w1)
             else (case fetch_items c refs w1 of
                     (Inl e, w2) \<Rightarrow> (Inl e, w2)
                   | (Inr None, w2) \<Rightarrow> (Inr None, w2)
                   | (Inr (Some ds), w2) \<Rightarrow> (Inr (Some (di # ds)), w2)))"

definition status_error :: "execution \<Rightarrow> gerr \<Rightarrow> gerr" where
  "status_error exec e =
     WrapError (''error updating execution status for '' @ om_namespace (ex_meta exec) @ ''/'' @ om_name (ex_meta exec)
       @ '': '' @ error_string e) e"

definition HandleDeployItemPhaseAndGenerationChanges ::
    "'j op_env \<Rightarrow> 'w kube_client \<Rightarrow> execution \<Rightarrow> 'w \<Rightarrow> unit outcome \<times> execution \<times> 'w" where
  "HandleDeployItemPhaseAndGenerationChanges env c exec w =
     (case fetch_items c (es_deployItemReferences (ex_status exec)) w of
        (Inl e, w1) \<Rightarrow> (Fail e, exec, w1)
      | (Inr None, w1) \<Rightarrow>
          (let exec1 = exec_phase PhProgressing exec
           in case rc_statusUpdate (kc_executions c) exec1 w1 of
                (Inl e, w2) \<Rightarrow> (Fail (status_error exec1 e), exec1, w2)
              | (Inr exec2, w2) \<Rightarrow> (Done (), exec2, w2))
      | (Inr (Some deployitems), w1) \<Rightarrow>
          (let cp = CombinedExecutionPhase (map (\<lambda>d. ds_phase (di_status d)) deployitems)
           in if es_phase (ex_status exec) = cp then (Done (), exec, w1)
              else (let exec1 = exec_phase cp exec
                    in case rc_statusUpdate (kc_executions c) exec1 w1 of
                         (Inl e, w2) \<Rightarrow> (Fail (status_error exec1 e), exec1, w2)
                       | (Inr exec2, w2) \<Rightarrow>
                           if cp = PhSucceeded
                           then (case collectAndUpdateExports env c (fst (getExecutionItems exec2 deployitems)) exec2 w2 of
                                   (Fail e, exec3, w3) \<Rightarrow>
                                     (Fail (WrapError (''error while updating exports of execution ''
                                        @ om_namespace (ex_meta exec3) @ ''/'' @ om_name (ex_meta exec3) @ '': ''
                                        @ error_string e) e), exec3, w3)
                                 | (Panic, exec3, w3) \<Rightarrow> (Panic, exec3, w3)
                                 | (Done _, exec3, w3) \<Rightarrow> (Done (), exec3, w3))
                           else (Done (), exec2, w2))))"

end
