(* ===== verification/ExecutionFacts.thy ===== *)
theory ExecutionFacts
  imports ExecutionOps
begin

text \<open>
  Facts about the loop of \<open>Reconcile\<close>: what one step does, how the phase of the loop and the
  items develop, and what the final phase says about the items of an accepted execution. The
  tables of the status are interpretations of the contract of keyed tables.
\<close>

section \<open>The tables of the status\<close>

interpretation exec_generations: keyed_store eg_name getExecutionGeneration
  "\<lambda>rs g. setExecutionGeneration rs (eg_name g) (eg_observedGeneration g)" "\<lambda>_. True"
proof
  show "getExecutionGeneration xs k = Some x \<Longrightarrow> x \<in> set xs \<and> eg_name x = k" for xs k x
    by (induction xs) (auto split: if_splits)
  show "x \<in> set xs \<Longrightarrow> getExecutionGeneration xs (eg_name x) \<noteq> None" for xs and x :: execution_generation
    by (induction xs) auto
  show "True \<Longrightarrow> getExecutionGeneration (setExecutionGeneration xs (eg_name x) (eg_observedGeneration x)) (eg_name x) = Some x"
    for xs and x :: execution_generation
    by (induction xs) auto
  show "True \<Longrightarrow> k \<noteq> eg_name x \<Longrightarrow>
      getExecutionGeneration (setExecutionGeneration xs (eg_name x) (eg_observedGeneration x)) k = getExecutionGeneration xs k"
    for xs k and x :: execution_generation
    by (induction xs) auto
qed simp

lemma getExecutionGeneration_set:
  "getExecutionGeneration (setExecutionGeneration rs name gen) k =
     (if k = name then Some \<lparr>eg_name = name, eg_observedGeneration = gen\<rparr> else getExecutionGeneration rs k)"
  using exec_generations.lookup_store [of rs "\<lparr>eg_name = name, eg_observedGeneration = gen\<rparr>" k] by simp

lemma GetVersionedNamedObjectReference_set:
  "GetVersionedNamedObjectReference (SetVersionedNamedObjectReference rs r) k =
     (if k = vn_name r then Some r else GetVersionedNamedObjectReference rs k)"
  using item_refs.lookup_store [of rs r k] by simp

text \<open>What the execution remembers of an item makes exactly this item up to date.\<close>

lemma getGenerations_remember_same:
  "IsUpToDate (getGenerations (remember_item name di exec) name di)"
  by (simp add: remember_item_def Let_def IsUpToDate_def HasExecutionBeenModified_def HasDeployItemBeenModified_def
      getGenerations_def getExecutionGeneration_set GetVersionedNamedObjectReference_set)

lemma getGenerations_remember_other:
  "name' \<noteq> name \<Longrightarrow> getGenerations (remember_item name di exec) name' di' = getGenerations exec name' di'"
  by (simp add: remember_item_def Let_def getGenerations_def getExecutionGeneration_set
      GetVersionedNamedObjectReference_set)

section \<open>Dependencies\<close>

definition item_done :: "execution \<Rightarrow> exec_item \<Rightarrow> bool" where
  "item_done exec x \<longleftrightarrow>
     (case xi_deployItem x of
        None \<Rightarrow> False
      | Some di \<Rightarrow> IsUpToDate (getGenerations exec (dt_name (xi_info x)) di)
          \<and> ds_observedGeneration (di_status di) = om_generation (di_meta di) \<and> ds_phase (di_status di) = PhSucceeded)"

lemma dep_done_item_done: "dep_done exec (dt_name (xi_info x)) (xi_deployItem x) \<longleftrightarrow> item_done exec x"
  by (cases "xi_deployItem x") (auto simp: dep_done_def item_done_def)

lemma find_item_Some: "find_item items dep = Some x \<Longrightarrow> x \<in> set items \<and> dt_name (xi_info x) = dep"
  by (induction items) (auto split: if_splits)

lemma find_item_None: "find_item items dep = None \<longleftrightarrow> dep \<notin> (\<lambda>x. dt_name (xi_info x)) ` set items"
  by (induction items) auto

lemma find_item_unique:
  "distinct (map (\<lambda>x. dt_name (xi_info x)) items) \<Longrightarrow> x \<in> set items \<Longrightarrow> find_item items (dt_name (xi_info x)) = Some x"
  by (induction items) auto

lemma check_dependencies_True:
  "check_dependencies exec items deps = Inr True \<longleftrightarrow>
     (\<forall>dep \<in> set deps. \<exists>x. find_item items dep = Some x \<and> item_done exec x)"
  by (induction deps) (auto simp: dep_done_item_done split: option.splits)

lemma check_dependencies_Inl:
  "check_dependencies exec items deps = Inl e \<Longrightarrow> \<exists>dep \<in> set deps. find_item items dep = None"
  by (induction deps) (auto split: option.splits if_splits)

lemma checkRunnable_True:
  "checkRunnable exec item items = Inr True \<longleftrightarrow>
     (\<forall>dep \<in> set (dt_dependsOn (xi_info item)). \<exists>x. find_item items dep = Some x \<and> item_done exec x)"
  by (simp add: checkRunnable_def check_dependencies_True)

text \<open>The items of an execution carry its templates, in the same order.\<close>

lemma execution_items_info [simp]: "map xi_info (fst (getExecutionItems exec ds)) = ex_deployItems (ex_spec exec)"
  by (simp add: getExecutionItems_def Let_def execution_item_of_def comp_def)

definition item_names :: "exec_item list \<Rightarrow> string list" where
  "item_names items = map dt_name (map xi_info items)"

lemma item_names_map: "item_names items = map (\<lambda>x. dt_name (xi_info x)) items"
  by (simp add: item_names_def)

lemma checkRunnable_found:
  assumes "deps_closed (map xi_info items)" and "item \<in> set items"
  shows "checkRunnable exec item items \<noteq> Inl e"
proof
  assume r: "checkRunnable exec item items = Inl e"
  then have "check_dependencies exec items (dt_dependsOn (xi_info item)) = Inl e"
    by (auto simp: checkRunnable_def split: if_splits)
  then obtain dep where d: "dep \<in> set (dt_dependsOn (xi_info item))" "find_item items dep = None"
    using check_dependencies_Inl by blast
  have "dep \<in> template_names (map xi_info items)"
    using assms d(1) by (auto simp: deps_closed_def)
  with d(2) show False by (auto simp: find_item_None template_names_def)
qed

section \<open>One step of the loop\<close>

text \<open>The item of a step was not touched and needs nothing, or cannot be run yet.\<close>

definition settled :: "execution \<Rightarrow> exec_item list \<Rightarrow> nat \<Rightarrow> bool" where
  "settled exec items i \<longleftrightarrow> item_done exec (items ! i) \<or> checkRunnable exec (items ! i) items = Inr False"

text \<open>The deploy item of \<open>x\<close> is up to date with the execution and has a property.\<close>

definition up_to_date_item :: "execution \<Rightarrow> exec_item \<Rightarrow> (deploy_item \<Rightarrow> bool) \<Rightarrow> bool" where
  "up_to_date_item e x P \<longleftrightarrow>
     (case xi_deployItem x of None \<Rightarrow> False
      | Some di \<Rightarrow> IsUpToDate (getGenerations e (dt_name (xi_info x)) di) \<and> P di)"

definition still_running :: "deploy_item \<Rightarrow> bool" where
  "still_running di \<longleftrightarrow> \<not> IsCompletedExecutionPhase (ds_phase (di_status di))
     \<or> ds_observedGeneration (di_status di) \<noteq> om_generation (di_meta di)"

definition ended_with :: "phase \<Rightarrow> deploy_item \<Rightarrow> bool" where
  "ended_with p di \<longleftrightarrow> ds_phase (di_status di) = p \<and> ds_observedGeneration (di_status di) = om_generation (di_meta di)"

definition aborted_item :: "exec_item \<Rightarrow> bool" where
  "aborted_item x \<longleftrightarrow> (case xi_deployItem x of None \<Rightarrow> False | Some di \<Rightarrow> ended_with PhAborted di)"

lemma item_done_current: "item_done e x \<longleftrightarrow> up_to_date_item e x (ended_with PhSucceeded)"
  by (auto simp: item_done_def up_to_date_item_def ended_with_def split: option.splits)

lemma current_aborted: "up_to_date_item e x (ended_with PhAborted) \<Longrightarrow> aborted_item x"
  by (auto simp: up_to_date_item_def aborted_item_def split: option.splits)

lemma rank_eq_Succeeded: "phase_rank p \<le> 1 \<Longrightarrow> IsCompletedExecutionPhase p \<Longrightarrow> p = PhSucceeded"
  by (cases p) (simp_all add: IsCompletedExecutionPhase_def IsCompletedInstallationPhase_def)

lemma trigger_item_cases:
  assumes "trigger_item env c i exec items p w = (LoopDone, exec1, items1, p1, w1)"
  obtains (skip) "checkRunnable exec (items ! i) items = Inr False" "exec1 = exec" "items1 = items" "p1 = p" "w1 = w"
  | (run) di where "checkRunnable exec (items ! i) items = Inr True"
      "deployOrTrigger env c (items ! i) exec w = (Inr di, exec1, w1)" "p1 = CombinedExecutionPhase [p, PhInit]"
      "items1 = (case xi_deployItem (items ! i) of Some _ \<Rightarrow> items[i := (items ! i)\<lparr>xi_deployItem := Some di\<rparr>]
                 | None \<Rightarrow> items)"
proof (cases "checkRunnable exec (items ! i) items")
  case (Inl e)
  with assms show ?thesis by (auto simp: trigger_item_def Let_def split: option.splits)
next
  case (Inr b)
  show ?thesis
  proof (cases b)
    case False
    with Inr assms show ?thesis by (intro skip) (auto simp: trigger_item_def Let_def)
  next
    case True
    obtain r ex w2 where d: "deployOrTrigger env c (items ! i) exec w = (r, ex, w2)" by (metis prod_cases3)
    with True Inr assms show ?thesis
      by (cases r) (auto simp: trigger_item_def Let_def intro!: run)
  qed
qed

lemma decide_ContinueWith:
  assumes "decide_up_to_date now cond name di p exec = ContinueWith p1 exec1"
  obtains (running) "\<not> IsCompletedExecutionPhase (ds_phase (di_status di)) \<or>
        ds_observedGeneration (di_status di) \<noteq> om_generation (di_meta di)"
      "p1 = PhProgressing" "exec1 = exec_phase PhProgressing exec"
  | (finished) "ds_phase (di_status di) = PhSucceeded \<or> ds_phase (di_status di) = PhAborted"
      "ds_observedGeneration (di_status di) = om_generation (di_meta di)"
      "p1 = CombinedExecutionPhase [p, ds_phase (di_status di)]" "exec1 = exec"
  using assms running finished
  by (auto simp: decide_up_to_date_def Let_def IsCompletedExecutionPhase_def IsCompletedInstallationPhase_def
      split: if_splits)

lemma reconcile_item_cases:
  assumes "reconcile_item env c force cond i exec items p w = (LoopDone, exec1, items1, p1, w1)"
  obtains (finished) "\<not> force" "item_done exec (items ! i)" "p1 = CombinedExecutionPhase [p, PhSucceeded]"
      "exec1 = exec" "items1 = items" "w1 = w"
  | (aborted) "\<not> force" "up_to_date_item exec (items ! i) (ended_with PhAborted)" "p1 = CombinedExecutionPhase [p, PhAborted]"
      "exec1 = exec" "items1 = items" "w1 = w"
  | (running) "\<not> force" "up_to_date_item exec (items ! i) still_running" "p1 = PhProgressing"
      "exec1 = exec_phase PhProgressing exec" "items1 = items" "w1 = w"
  | (skip) "checkRunnable exec (items ! i) items = Inr False" "exec1 = exec" "items1 = items" "p1 = p" "w1 = w"
  | (run) di where "checkRunnable exec (items ! i) items = Inr True"
      "deployOrTrigger env c (items ! i) exec w = (Inr di, exec1, w1)" "p1 = CombinedExecutionPhase [p, PhInit]"
      "items1 = (case xi_deployItem (items ! i) of Some _ \<Rightarrow> items[i := (items ! i)\<lparr>xi_deployItem := Some di\<rparr>]
                 | None \<Rightarrow> items)"
proof (cases "\<exists>di. xi_deployItem (items ! i) = Some di \<and> \<not> force \<and>
    IsUpToDate (getGenerations exec (dt_name (xi_info (items ! i))) di)")
  case False
  with assms have "trigger_item env c i exec items p w = (LoopDone, exec1, items1, p1, w1)"
    by (auto simp: reconcile_item_def Let_def split: option.splits if_splits)
  then show ?thesis by (cases rule: trigger_item_cases) (use skip run in blast)+
next
  case True
  then obtain di where di: "xi_deployItem (items ! i) = Some di" "\<not> force"
    "IsUpToDate (getGenerations exec (dt_name (xi_info (items ! i))) di)" by blast
  obtain d where d: "decide_up_to_date (kc_now c w) cond (dt_name (xi_info (items ! i))) di p exec = d" by blast
  with assms di have "d = ContinueWith p1 exec1" and same: "items1 = items" "w1 = w"
    by (auto simp: reconcile_item_def Let_def split: item_decision.splits)
  with d have "decide_up_to_date (kc_now c w) cond (dt_name (xi_info (items ! i))) di p exec = ContinueWith p1 exec1"
    by simp
  then show ?thesis
  proof (cases rule: decide_ContinueWith)
    case running
    with di same that(3) show ?thesis by (auto simp: up_to_date_item_def still_running_def)
  next
    case finished
    with di same that(1,2) show ?thesis by (auto simp: item_done_def up_to_date_item_def ended_with_def)
  qed
qed

lemma items_step:
  assumes "items1 = (case xi_deployItem (items ! i) of Some _ \<Rightarrow> items[i := (items ! i)\<lparr>xi_deployItem := Some di\<rparr>]
                 | None \<Rightarrow> items)"
  shows "j \<noteq> i \<Longrightarrow> items1 ! j = items ! j" and "map xi_info items1 = map xi_info items"
    and "length items1 = length items"
proof -
  show "j \<noteq> i \<Longrightarrow> items1 ! j = items ! j" and "length items1 = length items"
    using assms by (auto split: option.splits)
  have "map xi_info (items[i := (items ! i)\<lparr>xi_deployItem := Some di\<rparr>]) = map xi_info items"
    by (cases "i < length items") (simp_all add: map_update list_update_same_conv list_update_beyond)
  then show "map xi_info items1 = map xi_info items" using assms by (auto split: option.splits)
qed

section \<open>The loop\<close>

lemma reconcile_items_ConsE:
  assumes "reconcile_items env c force cond (i # is) exec items p w = (LoopDone, exec', items', p', w')"
  obtains exec1 items1 p1 w1 where "reconcile_item env c force cond i exec items p w = (LoopDone, exec1, items1, p1, w1)"
    "reconcile_items env c force cond is exec1 items1 p1 w1 = (LoopDone, exec', items', p', w')"
proof -
  obtain l exec1 items1 p1 w1 where s: "reconcile_item env c force cond i exec items p w = (l, exec1, items1, p1, w1)"
    by (rule prod_cases5)
  with assms that show ?thesis by (cases l) simp_all
qed

text \<open>The phase only gets more urgent, and a phase below init shows that nothing was done.\<close>

lemma rank_combine [simp]: "phase_rank (CombinedExecutionPhase [p, q]) = max (phase_rank p) (phase_rank q)"
  by simp

lemma reconcile_items_rank:
  "reconcile_items env c force cond is exec items p w = (LoopDone, exec', items', p', w') \<Longrightarrow>
   phase_rank p \<le> phase_rank p'"
proof (induction "is" arbitrary: exec items p w)
  case (Cons i "is")
  from Cons.prems obtain exec1 items1 p1 w1 where
    s: "reconcile_item env c force cond i exec items p w = (LoopDone, exec1, items1, p1, w1)" and
    r: "reconcile_items env c force cond is exec1 items1 p1 w1 = (LoopDone, exec', items', p', w')"
    by (rule reconcile_items_ConsE)
  have "phase_rank p \<le> phase_rank p1"
    using s by (cases rule: reconcile_item_cases) (simp_all add: phase_rank_le_5)
  with Cons.IH [OF r] show ?case by simp
qed simp

lemma reconcile_items_infos:
  "reconcile_items env c force cond is exec items p w = (LoopDone, exec', items', p', w') \<Longrightarrow>
   map xi_info items' = map xi_info items"
proof (induction "is" arbitrary: exec items p w)
  case (Cons i "is")
  from Cons.prems obtain exec1 items1 p1 w1 where
    s: "reconcile_item env c force cond i exec items p w = (LoopDone, exec1, items1, p1, w1)" and
    r: "reconcile_items env c force cond is exec1 items1 p1 w1 = (LoopDone, exec', items', p', w')"
    by (rule reconcile_items_ConsE)
  have "map xi_info items1 = map xi_info items"
    using s by (cases rule: reconcile_item_cases) (simp_all add: items_step(2))
  with Cons.IH [OF r] show ?case by simp
qed simp

lemma reconcile_items_quiet:
  "reconcile_items env c force cond is exec items p w = (LoopDone, exec', items', p', w') \<Longrightarrow>
   phase_rank p' \<le> 1 \<Longrightarrow>
   exec' = exec \<and> items' = items \<and> w' = w \<and> (\<forall>i \<in> set is. settled exec items i)
   \<and> (phase_rank p' = 0 \<or> force \<longrightarrow> (\<forall>i \<in> set is. checkRunnable exec (items ! i) items = Inr False))
   \<and> (force \<longrightarrow> p' = p)"
proof (induction "is" arbitrary: exec items p w)
  case (Cons i "is")
  from Cons.prems(1) obtain exec1 items1 p1 w1 where
    s: "reconcile_item env c force cond i exec items p w = (LoopDone, exec1, items1, p1, w1)" and
    r: "reconcile_items env c force cond is exec1 items1 p1 w1 = (LoopDone, exec', items', p', w')"
    by (rule reconcile_items_ConsE)
  note IH = Cons.IH [OF r Cons.prems(2)]
  have le: "phase_rank p1 \<le> phase_rank p'" by (rule reconcile_items_rank [OF r])
  from s show ?case
    by (cases rule: reconcile_item_cases) (use IH le Cons.prems(2) in \<open>auto simp: settled_def\<close>)
qed simp

lemma reconcile_items_rank_3:
  "reconcile_items env c force cond is exec items p w = (LoopDone, exec', items', p', w') \<Longrightarrow> phase_rank p' = 3 \<Longrightarrow>
   phase_rank p = 3"
proof (induction "is" arbitrary: exec items p w)
  case (Cons i "is")
  from Cons.prems(1) obtain exec1 items1 p1 w1 where
    s: "reconcile_item env c force cond i exec items p w = (LoopDone, exec1, items1, p1, w1)" and
    r: "reconcile_items env c force cond is exec1 items1 p1 w1 = (LoopDone, exec', items', p', w')"
    by (rule reconcile_items_ConsE)
  have "phase_rank p1 = 3" by (rule Cons.IH [OF r Cons.prems(2)])
  with s show ?case by (cases rule: reconcile_item_cases) (auto simp: max_def split: if_splits)
qed simp

section \<open>The state in which an item is handled\<close>

lemma reconcile_items_append:
  "reconcile_items env c force cond (is @ js) exec items p w =
     (case reconcile_items env c force cond is exec items p w of
        (LoopDone, exec1, items1, p1, w1) \<Rightarrow> reconcile_items env c force cond js exec1 items1 p1 w1
      | r \<Rightarrow> r)"
proof (induction "is" arbitrary: exec items p w)
  case (Cons i "is")
  obtain l exec1 items1 p1 w1 where s: "reconcile_item env c force cond i exec items p w = (l, exec1, items1, p1, w1)"
    by (rule prod_cases5)
  with Cons.IH show ?case by (cases l) simp_all
qed simp

lemma reconcile_items_other:
  "reconcile_items env c force cond is exec items p w = (LoopDone, exec', items', p', w') \<Longrightarrow> j \<notin> set is \<Longrightarrow>
   items' ! j = items ! j"
proof (induction "is" arbitrary: exec items p w)
  case (Cons i "is")
  from Cons.prems(1) obtain exec1 items1 p1 w1 where
    s: "reconcile_item env c force cond i exec items p w = (LoopDone, exec1, items1, p1, w1)" and
    r: "reconcile_items env c force cond is exec1 items1 p1 w1 = (LoopDone, exec', items', p', w')"
    by (rule reconcile_items_ConsE)
  have "items1 ! j = items ! j"
    using s Cons.prems(2) by (cases rule: reconcile_item_cases) (auto simp: items_step(1))
  with Cons.IH [OF r] Cons.prems(2) show ?case by simp
qed simp

text \<open>
  The step that handles the item \<open>i\<close> in the run of the loop: the state that the earlier items
  leave behind, and what the step makes of it.
\<close>

definition loop_step ::
    "'j op_env \<Rightarrow> 'w kube_client \<Rightarrow> bool \<Rightarrow> condition \<Rightarrow> execution \<Rightarrow> exec_item list \<Rightarrow> 'w \<Rightarrow> nat
      \<Rightarrow> execution \<Rightarrow> exec_item list \<Rightarrow> 'w \<Rightarrow> loop_end \<Rightarrow> execution \<Rightarrow> 'w \<Rightarrow> bool" where
  "loop_step env c force cond exec items w i e its v l e1 v1 \<longleftrightarrow>
     (\<exists>p its1 p1. reconcile_items env c force cond [0..<i] exec items PhEmpty w = (LoopDone, e, its, p, v)
        \<and> its ! i = items ! i \<and> reconcile_item env c force cond i e its p v = (l, e1, its1, p1, v1))"

text \<open>Why the loop ends with its phase: a step of the run is responsible for it.\<close>

definition urgent_step ::
    "'j op_env \<Rightarrow> 'w kube_client \<Rightarrow> bool \<Rightarrow> condition \<Rightarrow> execution \<Rightarrow> exec_item list \<Rightarrow> 'w \<Rightarrow> nat \<Rightarrow> nat \<Rightarrow> bool" where
  "urgent_step env c force cond exec items w r i \<longleftrightarrow>
     (\<exists>e its v e1 v1. loop_step env c force cond exec items w i e its v LoopDone e1 v1 \<and>
        (r = 2 \<and> checkRunnable e (items ! i) its = Inr True
            \<and> (\<exists>di. deployOrTrigger env c (items ! i) e v = (Inr di, e1, v1))
         \<or> r = 4 \<and> \<not> force \<and> up_to_date_item e (items ! i) (ended_with PhAborted)
         \<or> r = 5 \<and> \<not> force \<and> up_to_date_item e (items ! i) still_running))"

lemma urgent_stepI:
  assumes "loop_step env c force cond exec items w i e its v LoopDone e1 v1"
    and "r = 2 \<and> checkRunnable e (items ! i) its = Inr True \<and> deployOrTrigger env c (items ! i) e v = (Inr di, e1, v1)
      \<or> r = 4 \<and> \<not> force \<and> up_to_date_item e (items ! i) (ended_with PhAborted)
      \<or> r = 5 \<and> \<not> force \<and> up_to_date_item e (items ! i) still_running"
  shows "urgent_step env c force cond exec items w r i"
  using assms unfolding urgent_step_def by blast

lemma reconcile_items_urgent:
  "reconcile_items env c force cond [0..<n] exec items PhEmpty w = (LoopDone, exec', items', p', w') \<Longrightarrow>
   phase_rank p' \<in> {2, 4, 5} \<Longrightarrow> \<exists>i < n. urgent_step env c force cond exec items w (phase_rank p') i"
proof (induction n arbitrary: exec' items' p' w')
  case 0
  then show ?case by (auto simp: )
next
  case (Suc n)
  obtain l e its p v where s: "reconcile_items env c force cond [0..<n] exec items PhEmpty w = (l, e, its, p, v)"
    by (rule prod_cases5)
  with Suc.prems(1) have l: "l = LoopDone" by (cases l) (simp_all add: reconcile_items_append)
  obtain l1 e1 its1 p1 v1 where t: "reconcile_item env c force cond n e its p v = (l1, e1, its1, p1, v1)"
    by (rule prod_cases5)
  with Suc.prems(1) s l have l1: "l1 = LoopDone" and p1: "p1 = p'"
    by (cases l1; simp add: reconcile_items_append)+
  have same: "its ! n = items ! n" using reconcile_items_other [OF s [unfolded l]] by simp
  have st: "loop_step env c force cond exec items w n e its v LoopDone e1 v1"
    using s l t l1 same by (auto simp: loop_step_def)
  have old: "phase_rank p' = phase_rank p \<Longrightarrow> ?case" using Suc.IH [OF s [unfolded l]] Suc.prems(2) less_SucI by metis
  have new: "urgent_step env c force cond exec items w (phase_rank p') n \<Longrightarrow> ?case" by blast
  from t [unfolded l1 p1] show ?case
  proof (cases rule: reconcile_item_cases)
    case finished
    with Suc.prems(2) show ?thesis by (intro old) (auto simp: max_def split: if_splits)
  next
    case aborted
    show ?thesis
    proof (cases "phase_rank p' = 4")
      case True
      with aborted st same show ?thesis by (intro new urgent_stepI) auto
    next
      case False
      with aborted show ?thesis by (intro old) (auto simp: max_def split: if_splits)
    qed
  next
    case running
    with st same show ?thesis by (intro new urgent_stepI) auto
  next
    case skip
    then show ?thesis by (intro old) simp
  next
    case (run di)
    show ?thesis
    proof (cases "phase_rank p' = 2")
      case True
      with run st same show ?thesis by (intro new urgent_stepI) auto
    next
      case False
      with run show ?thesis by (intro old) (auto simp: max_def split: if_splits)
    qed
  qed
qed

lemma reconcile_items_stopped:
  "reconcile_items env c force cond [0..<n] exec items PhEmpty w = (l, exec', items', p', w') \<Longrightarrow> l \<noteq> LoopDone \<Longrightarrow>
   \<exists>i < n. \<exists>e its v. loop_step env c force cond exec items w i e its v l exec' w'"
proof (induction n)
  case (Suc n)
  obtain l0 e its p v where s: "reconcile_items env c force cond [0..<n] exec items PhEmpty w = (l0, e, its, p, v)"
    by (rule prod_cases5)
  show ?case
  proof (cases "l0 = LoopDone")
    case True
    obtain l1 e1 its1 p1 v1 where t: "reconcile_item env c force cond n e its p v = (l1, e1, its1, p1, v1)"
      by (rule prod_cases5)
    with Suc.prems s True have r: "(l1, e1, its1, p1, v1) = (l, exec', items', p', w')"
      by (cases l1) (simp_all add: reconcile_items_append)
    have "its ! n = items ! n" using reconcile_items_other [OF s [unfolded True]] by simp
    with s t r True have "loop_step env c force cond exec items w n e its v l exec' w'" by (auto simp: loop_step_def)
    then show ?thesis by blast
  next
    case False
    with s Suc.prems(1) have "(l0, e, its, p, v) = (l, exec', items', p', w')"
      by (cases l0) (simp_all add: reconcile_items_append)
    with s Suc.IH Suc.prems(2) show ?thesis by (metis less_SucI)
  qed
qed simp

lemma returned_item_failed:
  assumes "reconcile_item env c force cond i e its p v = (LoopReturned, e1, its1, p1, v1)"
  shows "\<not> force \<and> up_to_date_item e (its ! i) (\<lambda>di. ds_phase (di_status di) = PhFailed)
    \<and> es_phase (ex_status e1) = PhFailed \<and> v1 = v"
  using assms
  by (auto simp: reconcile_item_def trigger_item_def decide_up_to_date_def Let_def is_pickup_timeout_def
      up_to_date_item_def fail_execution_def
      split: option.splits if_splits item_decision.splits sum.splits bool.splits prod.splits)

section \<open>The loop over the items of an accepted execution\<close>

lemma settled_all_done:
  assumes acyc: "acyclic (dep_rel (map xi_info items))" and closed: "deps_closed (map xi_info items)"
    and dist: "distinct (item_names items)"
    and settled: "\<forall>i < length items. settled exec items i"
  shows "\<forall>x \<in> set items. item_done exec x"
proof (rule ccontr)
  let ?ts = "map xi_info items"
  let ?S = "{dt_name (xi_info x) | x. x \<in> set items \<and> item_done exec x}"
  have uniq: "x \<in> set items \<Longrightarrow> y \<in> set items \<Longrightarrow> dt_name (xi_info x) = dt_name (xi_info y) \<Longrightarrow> x = y" for x y
    using dist by (auto simp: item_names_map intro: distinct_map_key_unique)
  assume "\<not> (\<forall>x \<in> set items. item_done exec x)"
  then obtain x where x: "x \<in> set items" "\<not> item_done exec x" by blast
  with uniq have "dt_name (xi_info x) \<notin> ?S" by blast
  with x(1) have "\<not> template_names ?ts \<subseteq> ?S" by (auto simp: template_names_def)
  from next_item_exists [OF acyc closed this] obtain t where
    t: "t \<in> set ?ts" "dt_name t \<notin> ?S" "set (dt_dependsOn t) \<subseteq> ?S" .
  from t(1) obtain i where i: "i < length items" "xi_info (items ! i) = t" by (auto simp: in_set_conv_nth)
  with t(2) have "\<not> item_done exec (items ! i)" by (auto intro: nth_mem)
  with settled i have "checkRunnable exec (items ! i) items = Inr False" by (auto simp: settled_def)
  moreover have "checkRunnable exec (items ! i) items = Inr True"
    unfolding checkRunnable_True i(2)
  proof
    fix dep assume "dep \<in> set (dt_dependsOn t)"
    with t(3) obtain y where "y \<in> set items" "item_done exec y" "dep = dt_name (xi_info y)" by blast
    then show "\<exists>y. find_item items dep = Some y \<and> item_done exec y"
      using find_item_unique [of items y] dist by (auto simp: item_names_map)
  qed
  ultimately show False by simp
qed

lemma root_item_runnable:
  assumes acyc: "acyclic (dep_rel (map xi_info items))" and closed: "deps_closed (map xi_info items)"
    and ne: "items \<noteq> []"
  shows "\<exists>i < length items. checkRunnable exec (items ! i) items = Inr True"
proof -
  have "\<not> template_names (map xi_info items) \<subseteq> {}" using ne by (cases items) (simp_all add: template_names_def)
  from next_item_exists [OF acyc closed this] obtain t where
    "t \<in> set (map xi_info items)" "set (dt_dependsOn t) \<subseteq> {}" by blast
  then obtain i where "i < length items" "dt_dependsOn (xi_info (items ! i)) = []"
    by (auto simp: in_set_conv_nth)
  then show ?thesis by (auto simp: checkRunnable_def)
qed

lemma templates_ok_items:
  assumes "ValidateDeployItemTemplateList vl q (map xi_info items) = Some []"
  shows "acyclic (dep_rel (map xi_info items))" "deps_closed (map xi_info items)" "distinct (item_names items)"
  using assms by (simp_all add: ValidateDeployItemTemplateList_ok item_names_def)

text \<open>
  The phase that the loop ends with, for an accepted list of items, starting from the empty phase.
\<close>

lemma loop_phase:
  assumes ok: "ValidateDeployItemTemplateList vl q (map xi_info items) = Some []"
    and r: "reconcile_items env c force cond [0..<length items] exec items PhEmpty w = (LoopDone, exec', items', p', w')"
  shows "phase_rank p' = 0 \<Longrightarrow> items = []"
    and "phase_rank p' = 1 \<Longrightarrow> \<not> force \<and> (\<forall>x \<in> set items. item_done exec x) \<and> exec' = exec \<and> items' = items \<and> w' = w"
    and "phase_rank p' \<noteq> 3"
    and "phase_rank p' \<in> {2, 4, 5} \<Longrightarrow> \<exists>i < length items. urgent_step env c force cond exec items w (phase_rank p') i"
proof -
  note ts = templates_ok_items [OF ok]
  note quiet = reconcile_items_quiet [OF r]
  show "items = []" if "phase_rank p' = 0"
    using quiet that root_item_runnable [OF ts(1,2), of exec] by force
  have "phase_rank p' = 1 \<Longrightarrow> \<not> force" using quiet by auto
  moreover have "phase_rank p' = 1 \<Longrightarrow> \<forall>i < length items. settled exec items i" using quiet by simp
  ultimately show "\<not> force \<and> (\<forall>x \<in> set items. item_done exec x) \<and> exec' = exec \<and> items' = items \<and> w' = w"
    if "phase_rank p' = 1"
    using quiet that settled_all_done [OF ts] by simp
  show "phase_rank p' \<noteq> 3" using reconcile_items_rank_3 [OF r] by auto
qed (rule reconcile_items_urgent [OF r])

text \<open>A loop that ends with a completed phase was not forced; all items are done, or one is aborted.\<close>

lemma loop_completed:
  assumes "ValidateDeployItemTemplateList vl q (map xi_info items) = Some []"
    and "reconcile_items env c force cond [0..<length items] exec items PhEmpty w = (LoopDone, exec', items', p', w')"
    and "IsCompletedExecutionPhase p'"
  shows "\<not> force \<and> (list_all (item_done exec) items \<and> exec' = exec \<and> items' = items \<and> w' = w \<or> list_ex aborted_item items)"
proof -
  note ph = loop_phase [OF assms(1,2)]
  from assms(3) ph(3) consider "phase_rank p' = 1" | "phase_rank p' = 4" by (auto simp: IsCompletedExecutionPhase_rank)
  then show ?thesis
  proof cases
    case 1
    with ph(2) show ?thesis by (simp add: list_all_iff)
  next
    case 2
    with ph(4) obtain i where "i < length items" "urgent_step env c force cond exec items w 4 i" by auto
    then show ?thesis by (auto simp: urgent_step_def list_ex_iff dest!: current_aborted nth_mem)
  qed
qed

end
