(* ===== verification/ExampleCluster.thy ===== *)
theory ExampleCluster
  imports KubeClient
begin

text \<open>
  A small cluster in memory, as an instance of the client: the witnesses run the operations on
  it. It is not part of the model of the program. Objects are kept in lists; a create gives a
  name and the generation 1, an update moves the generation when the specification changed, a
  delete removes an object without finalizers and marks the others.
\<close>

record cluster =
  cw_time :: time
  cw_items :: "deploy_item list"
  cw_executions :: "execution list"
  cw_data :: "raw_data_object list"
  cw_targets :: "target list"
  cw_contexts :: "ls_context list"
  cw_installations :: "installation list"

definition has_key :: "object_meta \<Rightarrow> object_reference \<Rightarrow> bool" where
  "has_key m k \<longleftrightarrow> om_name m = or_name k \<and> om_namespace m = or_namespace k"

definition not_found :: gerr where
  "not_found = ApiError ReasonNotFound ''not found''"

definition store_get :: "('o \<Rightarrow> object_meta) \<Rightarrow> ('w \<Rightarrow> 'o list) \<Rightarrow> object_reference \<Rightarrow> 'w \<Rightarrow> (gerr + 'o) \<times> 'w" where
  "store_get meta objs key w =
     (case List.find (\<lambda>x. has_key (meta x) key) (objs w) of Some x \<Rightarrow> (Inr x, w) | None \<Rightarrow> (Inl not_found, w))"

definition store_list ::
    "('o \<Rightarrow> object_meta) \<Rightarrow> ('w \<Rightarrow> 'o list) \<Rightarrow> string \<times> string \<Rightarrow> string \<Rightarrow> 'w \<Rightarrow> (gerr + 'o list) \<times> 'w" where
  "store_list meta objs lab ns w =
     (Inr (filter (\<lambda>x. HasLabelWithValue (meta x) (fst lab) (snd lab) \<and> om_namespace (meta x) = ns) (objs w)), w)"

fun requirement_met :: "object_meta \<Rightarrow> label_requirement \<Rightarrow> bool" where
  "requirement_met m (LabelEquals k v) = HasLabelWithValue m k v"
| "requirement_met m (LabelDoesNotExist k) = (\<not> HasLabel m k)"

definition store_select ::
    "('o \<Rightarrow> object_meta) \<Rightarrow> ('w \<Rightarrow> 'o list) \<Rightarrow> label_requirement list \<Rightarrow> string \<Rightarrow> 'w \<Rightarrow> (gerr + 'o list) \<times> 'w" where
  "store_select meta objs reqs ns w =
     (Inr (filter (\<lambda>x. list_all (requirement_met (meta x)) reqs \<and> om_namespace (meta x) = ns) (objs w)), w)"

definition store_create ::
    "('o \<Rightarrow> object_meta) \<Rightarrow> (object_meta \<Rightarrow> 'o \<Rightarrow> 'o) \<Rightarrow> ('w \<Rightarrow> 'o list) \<Rightarrow> ('o list \<Rightarrow> 'w \<Rightarrow> 'w) \<Rightarrow> 'o \<Rightarrow> 'w
      \<Rightarrow> (gerr + 'o) \<times> 'w" where
  "store_create meta set_meta objs put obj w =
     (let m = meta obj;
          m1 = m\<lparr>om_name := (if om_name m = [] then om_generateName m @ show_int (int (length (objs w))) else om_name m),
                 om_generation := 1\<rparr>;
          obj1 = set_meta m1 obj
      in (Inr obj1, put (objs w @ [obj1]) w))"

definition store_replace ::
    "('o \<Rightarrow> object_meta) \<Rightarrow> ('o \<Rightarrow> 'o \<Rightarrow> 'o) \<Rightarrow> ('w \<Rightarrow> 'o list) \<Rightarrow> ('o list \<Rightarrow> 'w \<Rightarrow> 'w) \<Rightarrow> 'o \<Rightarrow> 'w
      \<Rightarrow> (gerr + 'o) \<times> 'w" where
  "store_replace meta merge objs put obj w =
     (case List.find (\<lambda>x. has_key (meta x) (ObjectKeyFromObject (meta obj))) (objs w) of
        None \<Rightarrow> (Inl not_found, w)
      | Some old \<Rightarrow>
          (let obj1 = merge old obj
           in (Inr obj1, put (map (\<lambda>x. if has_key (meta x) (ObjectKeyFromObject (meta obj)) then obj1 else x) (objs w)) w)))"

definition store_delete ::
    "('o \<Rightarrow> object_meta) \<Rightarrow> (object_meta \<Rightarrow> 'o \<Rightarrow> 'o) \<Rightarrow> ('w \<Rightarrow> 'o list) \<Rightarrow> ('o list \<Rightarrow> 'w \<Rightarrow> 'w) \<Rightarrow> time
      \<Rightarrow> 'o \<Rightarrow> 'w \<Rightarrow> gerr option \<times> 'w" where
  "store_delete meta set_meta objs put now obj w =
     (let key = ObjectKeyFromObject (meta obj)
      in case List.find (\<lambda>x. has_key (meta x) key) (objs w) of
           None \<Rightarrow> (Some not_found, w)
         | Some old \<Rightarrow>
             if om_finalizers (meta old) = []
             then (None, put (filter (\<lambda>x. \<not> has_key (meta x) key) (objs w)) w)
             else (None, put (map (\<lambda>x. if has_key (meta x) key
                     then set_meta ((meta x)\<lparr>om_deletionTimestamp := Some now\<rparr>) x else x) (objs w)) w))"

definition store_client ::
    "('o \<Rightarrow> object_meta) \<Rightarrow> (object_meta \<Rightarrow> 'o \<Rightarrow> 'o) \<Rightarrow> ('o \<Rightarrow> 'o \<Rightarrow> bool) \<Rightarrow> ('w \<Rightarrow> 'o list) \<Rightarrow> ('o list \<Rightarrow> 'w \<Rightarrow> 'w)
      \<Rightarrow> ('w, 'o) resource_client" where
  "store_client meta set_meta same_spec objs put =
     (let bump = (\<lambda>old new. set_meta ((meta new)\<lparr>om_generation :=
            (if same_spec old new then om_generation (meta old) else om_generation (meta old) + 1)\<rparr>) new)
      in \<lparr>rc_get = store_get meta objs, rc_list = store_list meta objs, rc_select = store_select meta objs,
          rc_create = store_create meta set_meta objs put,
          rc_update = store_replace meta bump objs put,
          rc_statusUpdate = store_replace meta (\<lambda>old new. new) objs put,
          rc_patch = (\<lambda>_. store_replace meta bump objs put),
          rc_statusPatch = (\<lambda>_. store_replace meta (\<lambda>old new. new) objs put),
          rc_delete = store_delete meta set_meta objs put 1\<rparr>)"

definition no_objects :: "('w, 'o) resource_client" where
  "no_objects = \<lparr>rc_get = \<lambda>_ w. (Inl not_found, w), rc_list = \<lambda>_ _ w. (Inr [], w),
     rc_select = \<lambda>_ _ w. (Inr [], w), rc_create = \<lambda>s w. (Inr s, w), rc_update = \<lambda>s w. (Inr s, w),
     rc_statusUpdate = \<lambda>s w. (Inr s, w), rc_patch = \<lambda>_ s w. (Inr s, w), rc_statusPatch = \<lambda>_ s w. (Inr s, w),
     rc_delete = \<lambda>s w. (None, w)\<rparr>"

definition example_client :: "cluster kube_client" where
  "example_client =
     \<lparr>kc_now = cw_time,
      kc_deployItems = store_client di_meta (\<lambda>m d. d\<lparr>di_meta := m\<rparr>) (\<lambda>a b. di_spec a = di_spec b)
        cw_items (\<lambda>xs w. w\<lparr>cw_items := xs\<rparr>),
      kc_executions = store_client ex_meta (\<lambda>m e. e\<lparr>ex_meta := m\<rparr>) (\<lambda>a b. ex_spec a = ex_spec b)
        cw_executions (\<lambda>xs w. w\<lparr>cw_executions := xs\<rparr>),
      kc_dataObjects = store_client do_meta (\<lambda>m d. d\<lparr>do_meta := m\<rparr>) (\<lambda>a b. do_data a = do_data b)
        cw_data (\<lambda>xs w. w\<lparr>cw_data := xs\<rparr>),
      kc_secrets = no_objects, kc_configMaps = no_objects,
      kc_targets = store_client tg_meta (\<lambda>m t. t\<lparr>tg_meta := m\<rparr>) (\<lambda>a b. tg_spec a = tg_spec b)
        cw_targets (\<lambda>xs w. w\<lparr>cw_targets := xs\<rparr>),
      kc_contexts = store_client lc_meta (\<lambda>m t. t\<lparr>lc_meta := m\<rparr>) (\<lambda>a b. True)
        cw_contexts (\<lambda>xs w. w\<lparr>cw_contexts := xs\<rparr>),
      kc_installations = store_client in_meta (\<lambda>m i. i\<lparr>in_meta := m\<rparr>) (\<lambda>a b. in_spec a = in_spec b)
        cw_installations (\<lambda>xs w. w\<lparr>cw_installations := xs\<rparr>)\<rparr>"

end
