(* ===== verification/ExecutionProps.thy ===== *)
theory ExecutionProps
  imports ExecutionFacts ExampleCluster
begin

text \<open>
  Properties of \<open>Reconcile\<close> of an execution: what it writes and when, that it makes progress, and
  that it does not panic. The statements about writes run the operation with the client that
  records them.
\<close>

section \<open>Which writes an operation sends\<close>

text \<open>From one state of the logged client to another, only writes with a property were sent.\<close>

definition writes_only :: "('a \<Rightarrow> bool) \<Rightarrow> 'w \<times> 'a list \<Rightarrow> 'w \<times> 'a list \<Rightarrow> bool" where
  "writes_only P s s' \<longleftrightarrow> (\<exists>l. snd s' = snd s @ l \<and> list_all P l)"

lemma writes_only_refl [simp]: "writes_only P s s"
  by (simp add: writes_only_def)

lemma writes_only_trans: "writes_only P s s1 \<Longrightarrow> writes_only P s1 s2 \<Longrightarrow> writes_only P s s2"
  by (auto simp: writes_only_def)

lemma writes_only_weaken: "writes_only P s s' \<Longrightarrow> (\<And>a. P a \<Longrightarrow> Q a) \<Longrightarrow> writes_only Q s s'"
  by (auto simp: writes_only_def list_all_iff)

lemma writes_only_log: "writes_only P s s' \<Longrightarrow> a \<in> set (snd s') \<Longrightarrow> a \<in> set (snd s) \<or> P a"
  by (auto simp: writes_only_def list_all_iff)

lemma unlogged_writes: "unlogged_call call s = (r, s') \<Longrightarrow> writes_only P s s'"
  by (auto simp: unlogged_call_def writes_only_def split: prod.splits)

lemma logged_writes: "logged_call a call s = (r, s') \<Longrightarrow> P a \<Longrightarrow> writes_only P s s'"
  by (auto simp: logged_call_def writes_only_def split: prod.splits)

lemma logged_in_log: "logged_call a call s = (r, s') \<Longrightarrow> a \<in> set (snd s')"
  by (auto simp: logged_call_def split: prod.splits)

lemma create_object_writes:
  assumes "create_object (logged_resource cr up st pa sp del c) meta f key obj s = (r, s')"
    and "\<And>x. P (cr x)"
  shows "writes_only P s s'"
  using assms(1)
  by (auto simp: create_object_def assms(2) intro: logged_writes split: sum.splits prod.splits)

lemma CreateOrUpdate_writes:
  assumes r: "CreateOrUpdate (logged_resource cr up st pa sp del c) meta f obj s = (r, s')"
    and P: "\<And>x. P (cr x)" "\<And>x. P (up x)"
  shows "writes_only P s s'"
proof (cases "om_name (meta obj) = [] \<and> om_generateName (meta obj) \<noteq> []")
  case True
  with r show ?thesis by (auto simp: CreateOrUpdate_def intro: create_object_writes P(1))
next
  case False
  let ?key = "ObjectKeyFromObject (meta obj)"
  obtain g s1 where g: "unlogged_call (rc_get c ?key) s = (g, s1)" by (cases "unlogged_call (rc_get c ?key) s")
  have s1: "writes_only P s s1" by (rule unlogged_writes [OF g])
  have "writes_only P s1 s'"
  proof (cases g)
    case (Inl e)
    with r False g show ?thesis
      by (auto simp: CreateOrUpdate_def controllerutil_CreateOrUpdate_def Let_def
        intro: create_object_writes P(1) split: if_splits)
  next
    case (Inr ex)
    with r False g show ?thesis
      by (auto simp: CreateOrUpdate_def controllerutil_CreateOrUpdate_def Let_def
        intro: logged_writes P(2) split: sum.splits if_splits prod.splits)
  qed
  with s1 show ?thesis by (rule writes_only_trans)
qed

text \<open>The kinds of writes.\<close>

fun item_write :: "api_write \<Rightarrow> bool" where
  "item_write (CreateItem d) = True"
| "item_write (UpdateItem d) = True"
| "item_write _ = False"

fun export_write :: "api_write \<Rightarrow> bool" where
  "export_write (WriteData d) = True"
| "export_write (StatusUpdateExec e) = True"
| "export_write _ = False"

lemma deployOrTrigger_writes:
  assumes r: "deployOrTrigger env (logged c) item exec s = (r, exec1, s')"
  shows "writes_only (\<lambda>a. item_write a \<or> (\<exists>old new. a = StatusPatchExec old new)) s s'"
proof -
  let ?P = "\<lambda>a. item_write a \<or> (\<exists>old new. a = StatusPatchExec old new)"
  have *: "CreateOrUpdate (kc_deployItems (logged c)) di_meta f d s = (x, s1) \<Longrightarrow> writes_only ?P s s1" for f d x s1
    unfolding logged_sel by (rule CreateOrUpdate_writes) auto
  have patch: "logged_call (StatusPatchExec old new) call s1 = (x, s2) \<Longrightarrow> writes_only ?P s1 s2" for old new call x s1 s2
    by (rule logged_writes) auto
  show ?thesis using r unfolding deployOrTrigger_def Let_def
    by (auto split: prod.splits sum.splits simp del: logged_sel(2) dest!: * intro: writes_only_trans patch)
qed

lemma trigger_item_writes:
  assumes "trigger_item env (logged c) i exec items p s = (l, exec1, items1, p1, s1)"
  shows "writes_only (\<lambda>a. item_write a \<or> (\<exists>old new. a = StatusPatchExec old new)) s s1"
    and "checkRunnable exec (items ! i) items \<noteq> Inr True \<Longrightarrow> s1 = s"
  using assms
  by (auto simp: trigger_item_def Let_def dest: deployOrTrigger_writes
      split: sum.splits prod.splits option.splits bool.splits)

lemma reconcile_item_writes:
  assumes "reconcile_item env (logged c) force cond i exec items p s = (l, exec1, items1, p1, s1)"
  shows "writes_only (\<lambda>a. item_write a \<or> (\<exists>old new. a = StatusPatchExec old new)) s s1"
  using assms
  by (auto simp: reconcile_item_def Let_def dest: trigger_item_writes(1)
      split: option.splits if_splits item_decision.splits)

lemma reconcile_items_writes:
  "reconcile_items env (logged c) force cond is exec items p s = (l, exec1, items1, p1, s1) \<Longrightarrow>
   writes_only (\<lambda>a. item_write a \<or> (\<exists>old new. a = StatusPatchExec old new)) s s1"
proof (induction "is" arbitrary: exec items p s)
  case (Cons i "is")
  obtain l0 exec0 items0 p0 s0 where
    s: "reconcile_item env (logged c) force cond i exec items p s = (l0, exec0, items0, p0, s0)"
    by (rule prod_cases5)
  with Cons.prems reconcile_item_writes [OF s] show ?case
    by (cases l0) (auto intro: writes_only_trans Cons.IH)
qed simp

lemma delete_orphaned_writes:
  "delete_orphaned (logged c) orphaned items s = (r, s1) \<Longrightarrow> writes_only (\<lambda>a. \<exists>d. a = DeleteItem d) s s1"
proof (induction items arbitrary: s)
  case (Cons item items)
  obtain r0 s0 where d: "logged_call (DeleteItem item) (rc_delete (kc_deployItems c) item) s = (r0, s0)"
    by (cases "logged_call (DeleteItem item) (rc_delete (kc_deployItems c) item) s")
  have "writes_only (\<lambda>a. \<exists>d. a = DeleteItem d) s s0" by (rule logged_writes [OF d]) simp
  with Cons.prems d show ?case
    by (cases r0) (auto split: if_splits intro: Cons.IH writes_only_trans)
qed simp


section \<open>Reconcile as its loop\<close>

text \<open>What the loop starts from: the listed items, once no orphaned item is left.\<close>

definition reconcile_input ::
    "'w kube_client \<Rightarrow> execution \<Rightarrow> 'w \<Rightarrow> (execution \<times> exec_item list \<times> 'w) option" where
  "reconcile_input c exec0 w0 =
     (let exec = exec_phase PhProgressing exec0
      in case listManagedDeployItems c exec w0 of
           (Inl e, w1) \<Rightarrow> None
         | (Inr ds, w1) \<Rightarrow>
             (case cleanupOrphanedDeployItems c (snd (getExecutionItems exec ds)) w1 of
                (Some e, w2) \<Rightarrow> None
              | (None, w2) \<Rightarrow> Some (exec, fst (getExecutionItems exec ds), w2)))"

definition reconcile_condition :: "'w kube_client \<Rightarrow> execution \<Rightarrow> 'w \<Rightarrow> condition" where
  "reconcile_condition c exec0 w0 =
     GetOrInitCondition (kc_now c w0) (es_conditions (ex_status exec0)) ReconcileDeployItemsCondition"

text \<open>The continuation of \<open>Reconcile\<close> after the loop.\<close>

definition after_loop ::
    "'j op_env \<Rightarrow> 'w kube_client \<Rightarrow> bool \<Rightarrow> condition \<Rightarrow> loop_end \<times> execution \<times> exec_item list \<times> phase \<times> 'w
      \<Rightarrow> unit outcome \<times> execution \<times> 'w" where
  "after_loop env c force cond res =
     (case res of
        (LoopReturned, exec1, items1, p, w3) \<Rightarrow> (Done (), exec1, w3)
      | (LoopFailed e, exec1, items1, p, w3) \<Rightarrow> (Fail e, exec1, w3)
      | (LoopPanicked, exec1, items1, p, w3) \<Rightarrow> (Panic, exec1, w3)
      | (LoopDone, exec1, items1, p, w3) \<Rightarrow>
          if force
          then (case rc_patch (kc_executions c) exec1 (remove_operation_annotation exec1) w3 of
                  (Inl e, w4) \<Rightarrow>
                    (Fail (NewWrappedError (kc_now c w4) e ''Reconcile'' ''RemoveForceReconcileAnnotation''
                      (error_string e) []), remove_operation_annotation exec1, w4)
                | (Inr exec3, w4) \<Rightarrow> finish_reconcile env c cond exec3 items1 p w4)
          else finish_reconcile env c cond exec1 items1 p w3)"

lemma Reconcile_loop:
  assumes "reconcile_input c exec0 w0 = Some (exec, items, w)"
  shows "Reconcile env c force exec0 w0 =
    after_loop env c force (reconcile_condition c exec0 w0)
      (reconcile_items env c force (reconcile_condition c exec0 w0) [0..<length items] exec items PhEmpty w)"
proof -
  from assms obtain ds w1 where
    l: "listManagedDeployItems c (exec_phase PhProgressing exec0) w0 = (Inr ds, w1)" and
    cl: "cleanupOrphanedDeployItems c (snd (getExecutionItems exec ds)) w1 = (None, w)" and
    e: "exec = exec_phase PhProgressing exec0" "items = fst (getExecutionItems exec ds)"
    by (auto simp: reconcile_input_def Let_def split: prod.splits sum.splits option.splits)
  obtain le exec1 items1 p1 w3 where
    loop: "reconcile_items env c force (reconcile_condition c exec0 w0) [0..<length items] exec items PhEmpty w
      = (le, exec1, items1, p1, w3)" by (rule prod_cases5)
  show ?thesis
    using l cl loop unfolding Reconcile_def Let_def reconcile_condition_def [symmetric] e(1) [symmetric]
    by (cases le) (simp_all add: e(2) [symmetric] after_loop_def case_prod_beta)
qed

lemma Reconcile_no_input:
  assumes "reconcile_input c exec0 w0 = None"
  shows "\<exists>e exec1 w1. Reconcile env c force exec0 w0 = (Fail e, exec1, w1)"
  using assms
  by (auto simp: reconcile_input_def Reconcile_def Let_def
      split: prod.splits sum.splits option.splits)

lemma reconcile_input_items:
  "reconcile_input c exec0 w0 = Some (exec, items, w) \<Longrightarrow>
   exec = exec_phase PhProgressing exec0 \<and> map xi_info items = ex_deployItems (ex_spec exec0)"
  by (auto simp: reconcile_input_def Let_def exec_phase_def split: prod.splits sum.splits option.splits)

lemma reconcile_input_writes:
  assumes "Reconcile env (logged c) force exec0 s0 = (r, exec1, s1)"
  shows "reconcile_input (logged c) exec0 s0 = None \<Longrightarrow> writes_only (\<lambda>a. \<exists>d. a = DeleteItem d) s0 s1"
    and "reconcile_input (logged c) exec0 s0 = Some (exec, items, s) \<Longrightarrow> writes_only (\<lambda>a. \<exists>d. a = DeleteItem d) s0 s"
proof -
  obtain l sl where l: "unlogged_call (rc_list (kc_deployItems c) (ExecutionManagedByLabel, om_name (ex_meta exec0))
      (om_namespace (ex_meta exec0))) s0 = (l, sl)" by (metis surj_pair)
  have sl: "writes_only (\<lambda>a. \<exists>d. a = DeleteItem d) s0 sl" by (rule unlogged_writes [OF l])
  have clean: "cleanupOrphanedDeployItems (logged c) os sl = (x, s') \<Longrightarrow>
      writes_only (\<lambda>a. \<exists>d. a = DeleteItem d) s0 s'" for os x s'
    using sl by (auto simp: cleanupOrphanedDeployItems_def intro: writes_only_trans dest!: delete_orphaned_writes
        split: if_splits option.splits prod.splits)
  show "reconcile_input (logged c) exec0 s0 = None \<Longrightarrow> writes_only (\<lambda>a. \<exists>d. a = DeleteItem d) s0 s1"
    using assms l sl
    by (auto simp: reconcile_input_def Reconcile_def Let_def listManagedDeployItems_def exec_phase_def
        dest: clean split: prod.splits sum.splits option.splits)
  show "reconcile_input (logged c) exec0 s0 = Some (exec, items, s) \<Longrightarrow> writes_only (\<lambda>a. \<exists>d. a = DeleteItem d) s0 s"
    using l sl
    by (auto simp: reconcile_input_def Let_def listManagedDeployItems_def exec_phase_def
        dest: clean split: prod.splits sum.splits option.splits)
qed

text \<open>The loop panics only for an item with an unknown dependency.\<close>

lemma reconcile_item_no_panic:
  assumes "deps_closed (map xi_info items)" and "i < length items"
  shows "fst (reconcile_item env c force cond i exec items p w) \<noteq> LoopPanicked"
  using assms checkRunnable_found [OF assms(1), of "items ! i" exec]
  by (auto simp: reconcile_item_def trigger_item_def Let_def
      split: option.splits if_splits item_decision.splits sum.splits bool.splits prod.splits)

lemma reconcile_items_no_panic:
  "deps_closed (map xi_info items) \<Longrightarrow> \<forall>i \<in> set is. i < length items \<Longrightarrow>
   fst (reconcile_items env c force cond is exec items p w) \<noteq> LoopPanicked"
proof (induction "is" arbitrary: exec items p w)
  case (Cons i "is")
  obtain l exec1 items1 p1 w1 where s: "reconcile_item env c force cond i exec items p w = (l, exec1, items1, p1, w1)"
    by (rule prod_cases5)
  show ?case
  proof (cases l)
    case LoopDone
    have "map xi_info items1 = map xi_info items" "length items1 = length items"
      using s LoopDone by (auto elim!: reconcile_item_cases simp: items_step(2,3))
    with Cons s LoopDone show ?thesis by simp
  next
    case LoopPanicked
    with reconcile_item_no_panic [of items i env c force cond exec p w] Cons.prems s show ?thesis by simp
  qed (use s in simp_all)
qed simp

lemma collect_exports_no_panic:
  "\<forall>x \<in> set items. xi_deployItem x \<noteq> None \<Longrightarrow> fst (collect_exports env c items vs w) \<noteq> Panic"
proof (induction items arbitrary: vs w)
  case (Cons x items)
  have "fst (addExports env c (xi_deployItem x) w) \<noteq> Panic"
    using Cons.prems by (auto simp: addExports_def split: option.splits prod.splits sum.splits)
      (metis outcome.distinct(3,5) outcome_of.elims)
  with Cons show ?case by (auto split: prod.splits outcome.splits)
qed simp

lemma item_done_exists: "item_done exec x \<Longrightarrow> xi_deployItem x \<noteq> None"
  by (auto simp: item_done_def split: option.splits)

lemma finish_reconcile_panic:
  "fst (finish_reconcile env c cond exec items p w) = Panic \<Longrightarrow>
   IsCompletedExecutionPhase p \<and> (\<exists>x \<in> set items. xi_deployItem x = None)"
proof -
  assume f: "fst (finish_reconcile env c cond exec items p w) = Panic"
  then have "fst (collect_exports env c items Map.empty w) = Panic"
    by (auto simp: finish_reconcile_def collectAndUpdateExports_def split: if_splits prod.splits outcome.splits option.splits)
  have "\<exists>x \<in> set items. xi_deployItem x = None"
  proof (rule ccontr)
    assume "\<not> (\<exists>x \<in> set items. xi_deployItem x = None)"
    then have "\<forall>x \<in> set items. xi_deployItem x \<noteq> None" by simp
    from collect_exports_no_panic [OF this, of env c Map.empty w] \<open>fst (collect_exports env c items Map.empty w) = Panic\<close>
    show False by simp
  qed
  with f show ?thesis by (auto simp: finish_reconcile_def split: if_splits)
qed


section \<open>Properties of Reconcile\<close>

lemma after_loop_panic:
  assumes "fst (after_loop env c force cond (l, exec1, items1, p, w)) = Panic"
  shows "l = LoopPanicked \<or> l = LoopDone \<and> IsCompletedExecutionPhase p \<and> (\<exists>x \<in> set items1. xi_deployItem x = None)"
proof (cases l)
  case LoopDone
  with assms obtain e' w' where "fst (finish_reconcile env c cond e' items1 p w') = Panic"
    by (auto simp: after_loop_def split: if_splits sum.splits prod.splits)
  with LoopDone show ?thesis by (auto dest: finish_reconcile_panic)
qed (use assms in \<open>simp_all add: after_loop_def\<close>)

lemma Reconcile_panic:
  assumes ok: "ValidateDeployItemTemplateList vl q (ex_deployItems (ex_spec exec0)) = Some []"
    and panic: "fst (Reconcile env c force exec0 w0) = Panic"
  shows "\<not> force \<and> (\<exists>exec items w. reconcile_input c exec0 w0 = Some (exec, items, w) \<and> (\<exists>x \<in> set items. aborted_item x))"
proof (cases "reconcile_input c exec0 w0")
  case None
  from Reconcile_no_input [OF None, of env force] panic show ?thesis by auto
next
  case (Some input)
  obtain exec items w where input: "input = (exec, items, w)" by (cases input)
  with Some have i: "reconcile_input c exec0 w0 = Some (exec, items, w)" by simp
  let ?cond = "reconcile_condition c exec0 w0"
  obtain l exec1 items1 p w1 where
    loop: "reconcile_items env c force ?cond [0..<length items] exec items PhEmpty w = (l, exec1, items1, p, w1)"
    by (rule prod_cases5)
  from reconcile_input_items [OF i] ok
  have ok': "ValidateDeployItemTemplateList vl q (map xi_info items) = Some []" by simp
  note ts = templates_ok_items [OF ok']
  have "l \<noteq> LoopPanicked"
    using reconcile_items_no_panic [OF ts(2), of "[0..<length items]" env c force ?cond exec PhEmpty w] loop by simp
  moreover have "fst (after_loop env c force ?cond (l, exec1, items1, p, w1)) = Panic"
    using panic Reconcile_loop [OF i, of env force] loop by simp
  ultimately have l: "l = LoopDone" and p: "IsCompletedExecutionPhase p" and nil: "\<exists>x \<in> set items1. xi_deployItem x = None"
    using after_loop_panic [of env c force ?cond l exec1 items1 p w1] by simp_all
  from loop_completed [OF ok' loop [unfolded l] p] nil item_done_exists i show ?thesis
    by (fastforce simp: list_all_iff list_ex_iff)
qed

lemma loop_no_exports:
  assumes "reconcile_items env (logged c) force cond is exec items p s = (l, exec1, items1, p1, s1)"
    and "a \<in> set (snd s1)" and "export_write a"
  shows "a \<in> set (snd s)"
  using writes_only_log [OF reconcile_items_writes [OF assms(1)] assms(2)] assms(3)
  by (cases a) auto

lemma after_loop_exports:
  assumes "after_loop env (logged c) force cond (l, exec1, items1, p, s) = (r, exec2, s2)"
    and "a \<in> set (snd s2)" and "export_write a" and "a \<notin> set (snd s)"
  shows "l = LoopDone \<and> IsCompletedExecutionPhase p"
proof -
  have patch: "a \<notin> set (snd (snd (logged_call (PatchExec o1 o2) call s)))" for o1 o2 and call :: "'a \<Rightarrow> (gerr + execution) \<times> 'a"
    using assms(3,4) by auto
  show ?thesis
  proof (cases l)
    case LoopDone
    obtain x s3 where c: "logged_call (PatchExec exec1 (remove_operation_annotation exec1))
        (rc_patch (kc_executions c) exec1 (remove_operation_annotation exec1)) s = (x, s3)" by (metis surj_pair)
    with patch have "a \<notin> set (snd s3)" by (metis snd_conv)
    with assms c LoopDone show ?thesis
      by (auto simp: after_loop_def finish_reconcile_def split: if_splits sum.splits)
  qed (use assms in \<open>simp_all add: after_loop_def\<close>)
qed


section \<open>The loop and success\<close>

text \<open>A server whose answers to a status patch have the phase that was sent.\<close>

definition keeps_sent_phase :: "'w kube_client \<Rightarrow> bool" where
  "keeps_sent_phase c \<longleftrightarrow> (\<forall>old new w e w'. rc_statusPatch (kc_executions c) old new w = (Inr e, w')
     \<longrightarrow> es_phase (ex_status e) = es_phase (ex_status new))"

lemma exec_phase_phase [simp]: "es_phase (ex_status (exec_phase p e)) = p"
  by (simp add: exec_phase_def)

lemma keeps_sent_phase_logged: "keeps_sent_phase c \<Longrightarrow> keeps_sent_phase (logged c)"
  by (fastforce simp: keeps_sent_phase_def logged_call_def split: prod.splits)

lemma deployOrTrigger_progressing:
  assumes "keeps_sent_phase c" "deployOrTrigger env c item exec w = (Inr di, exec1, w1)"
  shows "es_phase (ex_status exec1) = PhProgressing"
proof -
  have "es_phase (ex_status (remember_item name d e)) = PhProgressing" for name d e
    by (simp add: remember_item_def Let_def)
  with assms show ?thesis
    by (fastforce simp: deployOrTrigger_def keeps_sent_phase_def Let_def split: sum.splits prod.splits)
qed

lemma reconcile_items_progressing:
  "keeps_sent_phase c \<Longrightarrow> reconcile_items env c force cond is exec items p w = (LoopDone, exec', items', p', w') \<Longrightarrow>
   es_phase (ex_status exec) = PhProgressing \<Longrightarrow> es_phase (ex_status exec') = PhProgressing"
proof (induction "is" arbitrary: exec items p w)
  case (Cons i "is")
  from Cons.prems(2) obtain exec1 items1 p1 w1 where
    s: "reconcile_item env c force cond i exec items p w = (LoopDone, exec1, items1, p1, w1)" and
    r: "reconcile_items env c force cond is exec1 items1 p1 w1 = (LoopDone, exec', items', p', w')"
    by (rule reconcile_items_ConsE)
  have "es_phase (ex_status exec1) = PhProgressing"
    using s by (cases rule: reconcile_item_cases) (simp_all add: Cons.prems(3) deployOrTrigger_progressing [OF Cons.prems(1)])
  then show ?case by (rule Cons.IH [OF Cons.prems(1) r])
qed simp

text \<open>Items that are finished, or missing and waiting, leave everything as it is.\<close>

definition ended_item :: "execution \<Rightarrow> exec_item \<Rightarrow> bool" where
  "ended_item exec x \<longleftrightarrow> item_done exec x \<or> up_to_date_item exec x (ended_with PhAborted)"

definition missing_waiting :: "execution \<Rightarrow> exec_item list \<Rightarrow> exec_item \<Rightarrow> bool" where
  "missing_waiting exec items x \<longleftrightarrow> xi_deployItem x = None \<and> checkRunnable exec x items = Inr False"

lemma reconcile_item_finished:
  assumes "ended_item exec (items ! i)"
  shows "\<exists>p'. reconcile_item env c False cond i exec items p w = (LoopDone, exec, items, p', w)
    \<and> (p' = CombinedExecutionPhase [p, PhSucceeded] \<or> p' = CombinedExecutionPhase [p, PhAborted])"
  using assms
  by (auto simp: ended_item_def item_done_current up_to_date_item_def ended_with_def reconcile_item_def decide_up_to_date_def
      is_pickup_timeout_def Let_def IsCompletedExecutionPhase_def IsCompletedInstallationPhase_def split: option.splits)

lemma reconcile_item_missing_waiting:
  assumes "missing_waiting exec items (items ! i)"
  shows "reconcile_item env c force cond i exec items p w = (LoopDone, exec, items, p, w)"
  using assms by (simp add: missing_waiting_def reconcile_item_def trigger_item_def Let_def)

lemma reconcile_items_quiet_run:
  "\<forall>i \<in> set is. ended_item exec (items ! i) \<or> missing_waiting exec items (items ! i) \<Longrightarrow> phase_rank p \<in> {0, 1, 4} \<Longrightarrow>
   \<exists>p'. reconcile_items env c False cond is exec items p w = (LoopDone, exec, items, p', w) \<and> phase_rank p' \<in> {0, 1, 4}
     \<and> (phase_rank p \<noteq> 0 \<or> (\<exists>i \<in> set is. ended_item exec (items ! i)) \<longrightarrow> phase_rank p' \<noteq> 0)"
proof (induction "is" arbitrary: p)
  case (Cons i "is")
  show ?case
  proof (cases "ended_item exec (items ! i)")
    case True
    obtain p1 where p1: "reconcile_item env c False cond i exec items p w = (LoopDone, exec, items, p1, w)"
      "p1 = CombinedExecutionPhase [p, PhSucceeded] \<or> p1 = CombinedExecutionPhase [p, PhAborted]"
      using reconcile_item_finished [OF True, of env c cond p w] by (elim exE conjE)
    have "phase_rank p1 = max (phase_rank p) 1 \<or> phase_rank p1 = max (phase_rank p) 4"
      using p1(2) by (elim disjE) (simp_all only: rank_combine phase_rank.simps simp_thms)
    then have r1: "phase_rank p1 = 1 \<or> phase_rank p1 = 4" using Cons.prems(2) by (auto simp: max_def)
    have "\<forall>i \<in> set is. ended_item exec (items ! i) \<or> missing_waiting exec items (items ! i)" "phase_rank p1 \<in> {0, 1, 4}"
      using Cons.prems(1) r1 by simp_all
    from Cons.IH [OF this] r1 obtain p' where "reconcile_items env c False cond is exec items p1 w = (LoopDone, exec, items, p', w)"
      "phase_rank p' \<in> {0, 1, 4}" "phase_rank p' \<noteq> 0" by fastforce
    with p1(1) show ?thesis by (intro exI [of _ p']) simp
  next
    case False
    then have "missing_waiting exec items (items ! i)" using Cons.prems(1) by simp
    from reconcile_item_missing_waiting [OF this] have s: "reconcile_item env c False cond i exec items p w = (LoopDone, exec, items, p, w)" .
    have "\<forall>i \<in> set is. ended_item exec (items ! i) \<or> missing_waiting exec items (items ! i)" using Cons.prems(1) by simp
    from Cons.IH [OF this Cons.prems(2)] s False show ?thesis by simp
  qed
qed simp

lemma Reconcile_quiet_run:
  assumes i: "reconcile_input c exec0 w0 = Some (exec, items, w)"
    and items: "\<forall>x \<in> set items. ended_item exec x \<or> missing_waiting exec items x" and some: "\<exists>x \<in> set items. ended_item exec x"
  shows "Reconcile env c False exec0 w0 = finish_reconcile env c (reconcile_condition c exec0 w0) exec items PhSucceeded w"
proof -
  let ?cond = "reconcile_condition c exec0 w0"
  have "\<forall>i \<in> set [0..<length items]. ended_item exec (items ! i) \<or> missing_waiting exec items (items ! i)"
    "\<exists>i \<in> set [0..<length items]. ended_item exec (items ! i)"
    using items some by (simp, metis in_set_conv_nth atLeastLessThan_iff set_upt zero_le)
  with reconcile_items_quiet_run [of "[0..<length items]" exec items PhEmpty env c ?cond w] obtain p where
    loop: "reconcile_items env c False ?cond [0..<length items] exec items PhEmpty w = (LoopDone, exec, items, p, w)"
    and "phase_rank p \<in> {1, 4}" by auto
  then have "IsCompletedExecutionPhase p" "IsCompletedExecutionPhase PhSucceeded" by (auto simp: IsCompletedExecutionPhase_rank)
  with Reconcile_loop [OF i, of env False] loop show ?thesis by (simp add: after_loop_def finish_reconcile_def)
qed

lemma collect_exports_missing:
  "\<exists>x \<in> set items. xi_deployItem x = None \<Longrightarrow> fst (collect_exports env c items vs w) \<noteq> Done d"
proof (induction items arbitrary: vs w)
  case (Cons x items)
  then show ?case by (cases "xi_deployItem x") (auto simp: addExports_def split: prod.splits outcome.splits)
qed simp

lemma collect_exports_missing_panic:
  "\<exists>x \<in> set items. xi_deployItem x = None \<Longrightarrow>
   \<forall>x \<in> set items. \<forall>di. xi_deployItem x = Some di \<longrightarrow> ds_exportReference (di_status di) = None \<Longrightarrow>
   fst (collect_exports env c items vs w) = Panic"
proof (induction items arbitrary: vs)
  case (Cons x items)
  then show ?case by (cases "xi_deployItem x") (auto simp: addExports_def)
qed simp

section \<open>Properties\<close>

text \<open>
  C2: no dependency is overtaken. A step of the loop of \<open>Reconcile\<close> writes to the API server only
  when every item that the step's item depends on is in the list and done: it exists, the execution has
  seen its current generation, its status is current, and it has succeeded.
\<close>

theorem step_writes_only_when_dependencies_done:
  assumes "reconcile_item env (logged c) force cond i exec items p s = (l, exec1, items1, p1, s1)"
    and "snd s1 \<noteq> snd s"
  shows "\<forall>dep \<in> set (dt_dependsOn (xi_info (items ! i))).
    \<exists>x. find_item items dep = Some x \<and> item_done exec x"
proof -
  have "checkRunnable exec (items ! i) items = Inr True"
  proof (rule ccontr)
    assume n: "checkRunnable exec (items ! i) items \<noteq> Inr True"
    have "trigger_item env (logged c) i exec items p s = (l, exec1, items1, p1, s1) \<Longrightarrow> s1 = s"
      using trigger_item_writes(2) n by blast
    with assms show False
      by (auto simp: reconcile_item_def Let_def split: option.splits if_splits item_decision.splits)
  qed
  then show ?thesis by (simp add: checkRunnable_True)
qed

lemma export_write_input:
  assumes run: "Reconcile env (logged c) force exec0 (w0, []) = (r, exec2, (w2, log))" and export: "list_ex export_write log"
  obtains exec items s exec1 items1 p s1 where "reconcile_input (logged c) exec0 (w0, []) = Some (exec, items, s)"
    "reconcile_items env (logged c) force (reconcile_condition (logged c) exec0 (w0, [])) [0..<length items] exec items PhEmpty s
      = (LoopDone, exec1, items1, p, s1)" "IsCompletedExecutionPhase p"
proof -
  obtain a where a: "a \<in> set log" "export_write a" using export by (auto simp: list_ex_iff)
  have del: "\<not> (\<exists>d. a = DeleteItem d)" using a(2) by auto
  obtain exec items s where i: "reconcile_input (logged c) exec0 (w0, []) = Some (exec, items, s)"
    using reconcile_input_writes(1) [OF run] writes_only_log [of _ "(w0, [])" "(w2, log)" a] a(1) del
    by (cases "reconcile_input (logged c) exec0 (w0, [])") auto
  have s: "a \<notin> set (snd s)"
    using reconcile_input_writes(2) [OF run i] writes_only_log [of _ "(w0, [])" s a] del by auto
  let ?cond = "reconcile_condition (logged c) exec0 (w0, [])"
  obtain l exec1 items1 p s1 where
    loop: "reconcile_items env (logged c) force ?cond [0..<length items] exec items PhEmpty s = (l, exec1, items1, p, s1)"
    by (rule prod_cases5)
  have s1: "a \<notin> set (snd s1)" using loop_no_exports [OF loop _ a(2)] s by blast
  have after: "after_loop env (logged c) force ?cond (l, exec1, items1, p, s1) = (r, exec2, (w2, log))"
    using run Reconcile_loop [OF i, of env force] loop by simp
  from after_loop_exports [OF after _ a(2) s1] a(1) have "l = LoopDone" "IsCompletedExecutionPhase p" by auto
  with i loop that show thesis by blast
qed

lemma finish_reconcile_Done:
  assumes "finish_reconcile env c cond exec items p w = (Done (), exec2, w2)"
  shows "\<not> IsCompletedExecutionPhase p \<and> exec2 = exec \<and> w2 = w
    \<or> IsCompletedExecutionPhase p \<and> (\<exists>exec1. collectAndUpdateExports env c items exec w = (Done (), exec1, w2))"
  using assms by (auto simp: finish_reconcile_def split: if_splits prod.splits outcome.splits)

lemma Reconcile_Succeeded:
  assumes keeps: "keeps_sent_phase c"
    and run: "Reconcile env c force exec0 w0 = (Done (), exec2, w2)" "es_phase (ex_status exec2) = PhSucceeded"
  shows "\<exists>exec items w exec1 items1 p w1. reconcile_input c exec0 w0 = Some (exec, items, w)
    \<and> reconcile_items env c force (reconcile_condition c exec0 w0) [0..<length items] exec items PhEmpty w = (LoopDone, exec1, items1, p, w1)
    \<and> (force \<and> (\<exists>e v. rc_patch (kc_executions c) e (remove_operation_annotation e) v = (Inr exec2, w2))
       \<or> IsCompletedExecutionPhase p \<and> (\<not> force \<longrightarrow> (\<exists>exec3. collectAndUpdateExports env c items1 exec1 w1 = (Done (), exec3, w2))))"
proof -
  obtain exec items w where i: "reconcile_input c exec0 w0 = Some (exec, items, w)"
    using Reconcile_no_input [of c exec0 w0 env force] run(1) by (cases "reconcile_input c exec0 w0") auto
  let ?cond = "reconcile_condition c exec0 w0"
  obtain l exec1 items1 p w1 where
    loop: "reconcile_items env c force ?cond [0..<length items] exec items PhEmpty w = (l, exec1, items1, p, w1)"
    by (rule prod_cases5)
  have after: "after_loop env c force ?cond (l, exec1, items1, p, w1) = (Done (), exec2, w2)"
    using run(1) Reconcile_loop [OF i, of env force] loop by simp
  have "l = LoopDone"
  proof (cases l)
    case LoopReturned
    then have "es_phase (ex_status exec2) = PhFailed"
      using reconcile_items_stopped [OF loop] returned_item_failed after by (fastforce simp: loop_step_def after_loop_def)
    with run(2) show ?thesis by simp
  qed (use after in \<open>simp_all add: after_loop_def\<close>)
  note loop = loop [unfolded this] and after = after [unfolded this]
  have progressing: "es_phase (ex_status exec1) = PhProgressing"
    using reconcile_items_progressing [OF keeps loop] reconcile_input_items [OF i] by simp
  show ?thesis
  proof (cases force)
    case True
    then obtain exec3 w4 where "rc_patch (kc_executions c) exec1 (remove_operation_annotation exec1) w1 = (Inr exec3, w4)"
      "finish_reconcile env c ?cond exec3 items1 p w4 = (Done (), exec2, w2)"
      using after by (auto simp: after_loop_def split: sum.splits prod.splits)
    with finish_reconcile_Done [OF this(2)] True i loop show ?thesis by blast
  next
    case False
    then have f: "finish_reconcile env c ?cond exec1 items1 p w1 = (Done (), exec2, w2)"
      using after by (simp add: after_loop_def)
    with finish_reconcile_Done [OF f] progressing run(2) i loop False show ?thesis by auto
  qed
qed


text \<open>
  \<open>Reconcile\<close> of an execution with accepted templates does not dereference a missing deploy item,
  forced or not, as long as none of its listed items is aborted.
\<close>

theorem reconcile_does_not_panic:
  assumes "ValidateDeployItemTemplateList vl q (ex_deployItems (ex_spec exec0)) = Some []"
    and "case reconcile_input c exec0 w0 of Some (exec, items, w) \<Rightarrow> \<not> list_ex aborted_item items | None \<Rightarrow> True"
  shows "fst (Reconcile env c force exec0 w0) \<noteq> Panic"
  using Reconcile_panic [OF assms(1), of env c force w0] assms(2) by (auto simp: list_ex_iff)

lemma finish_reconcile_Succeeded:
  "finish_reconcile env c cond exec items p w = (Done (), exec2, w2) \<Longrightarrow> IsCompletedExecutionPhase p \<Longrightarrow>
   es_phase (ex_status exec2) = PhSucceeded"
  by (auto simp: finish_reconcile_def exec_conditions_def split: prod.splits outcome.splits)

text \<open>
  C4: an accepted execution is never stuck. When \<open>Reconcile\<close> of an execution with accepted, non-empty
  templates returns without an error, then all items are done and the execution is Succeeded; or the loop of this run stopped at an
  item that is up to date and failed, and the execution is Failed; or in a step of this run an item was
  found up to date and aborted, or up to date and still running, or it was created or triggered by this step
  with its dependencies done. The state of the step is the one that the run has when it comes to the item.
\<close>

theorem reconcile_is_never_stuck:
  assumes ok: "ValidateDeployItemTemplateList vl q (ex_deployItems (ex_spec exec0)) = Some []"
    and ne: "ex_deployItems (ex_spec exec0) \<noteq> []"
    and run: "Reconcile env c force exec0 w0 = (Done (), exec2, w2)"
  shows "\<exists>exec items w. reconcile_input c exec0 w0 = Some (exec, items, w)
    \<and> (list_all (item_done exec) items \<and> es_phase (ex_status exec2) = PhSucceeded
       \<or> (\<exists>i < length items. \<exists>e its v l e1 v1.
            loop_step env c force (reconcile_condition c exec0 w0) exec items w i e its v l e1 v1
            \<and> (l = LoopReturned \<and> up_to_date_item e (items ! i) (\<lambda>di. ds_phase (di_status di) = PhFailed)
                  \<and> es_phase (ex_status exec2) = PhFailed \<and> (e1, v1) = (exec2, w2)
               \<or> l = LoopDone \<and> (up_to_date_item e (items ! i) (ended_with PhAborted) \<or> up_to_date_item e (items ! i) still_running
                  \<or> checkRunnable e (items ! i) its = Inr True \<and> (\<exists>di. deployOrTrigger env c (items ! i) e v = (Inr di, e1, v1))))))"
proof -
  obtain exec items w where i: "reconcile_input c exec0 w0 = Some (exec, items, w)"
    using Reconcile_no_input [of c exec0 w0 env force] run by (cases "reconcile_input c exec0 w0") auto
  note info = reconcile_input_items [OF i]
  let ?cond = "reconcile_condition c exec0 w0"
  obtain l exec1 items1 p w1 where
    loop: "reconcile_items env c force ?cond [0..<length items] exec items PhEmpty w = (l, exec1, items1, p, w1)"
    by (rule prod_cases5)
  have after: "after_loop env c force ?cond (l, exec1, items1, p, w1) = (Done (), exec2, w2)"
    using run Reconcile_loop [OF i, of env force] loop by simp
  have ok': "ValidateDeployItemTemplateList vl q (map xi_info items) = Some []" using ok info by simp
  from after consider "l = LoopReturned" | "l = LoopDone" by (cases l) (auto simp: after_loop_def)
  then show ?thesis
  proof cases
    case 1
    from reconcile_items_stopped [OF loop [unfolded 1]] obtain j e its v where j: "j < length items"
      and s: "loop_step env c force ?cond exec items w j e its v LoopReturned exec1 w1" by auto
    have "up_to_date_item e (items ! j) (\<lambda>di. ds_phase (di_status di) = PhFailed)" "es_phase (ex_status exec1) = PhFailed"
      using s returned_item_failed by (fastforce simp: loop_step_def)+
    with after 1 have f: "LoopReturned = LoopReturned \<and> up_to_date_item e (items ! j) (\<lambda>di. ds_phase (di_status di) = PhFailed)
        \<and> es_phase (ex_status exec2) = PhFailed \<and> (exec1, w1) = (exec2, w2)"
      by (simp add: after_loop_def)
    with i j s show ?thesis by blast
  next
    case 2
    note ph = loop_phase [OF ok' loop [unfolded 2]]
    have "items \<noteq> []" using ne info by auto
    with ph(1,3) phase_rank_le_5 [of p] consider "phase_rank p = 1" | "phase_rank p \<in> {2, 4, 5}" by fastforce
    then show ?thesis
    proof cases
      case 1
      with ph(2) after 2 finish_reconcile_Succeeded [of env c ?cond exec1 items1 p w1 exec2 w2]
      have "list_all (item_done exec) items" "es_phase (ex_status exec2) = PhSucceeded"
        by (auto simp: after_loop_def IsCompletedExecutionPhase_rank list_all_iff)
      with i show ?thesis by blast
    next
      case 2
      from ph(4) [OF this] obtain j where "j < length items" "urgent_step env c force ?cond exec items w (phase_rank p) j" by blast
      with i show ?thesis unfolding urgent_step_def by blast
    qed
  qed
qed

text \<open>
  C35: an aborted item counts as done. Let every item of an unforced run be up to date and Succeeded or Aborted, or be missing
  and wait for its dependencies, and let one be aborted. Then the run triggers nothing and ends as if all items had
  succeeded: the exports are collected and the execution is Succeeded. If an item is missing, it waits for one that will never
  succeed, and the run does not return without an error; it panics if no item has exports to read.
\<close>

theorem aborted_items_count_as_done:
  assumes i: "reconcile_input c exec0 w0 = Some (exec, items, w)"
    and items: "\<forall>x \<in> set items. up_to_date_item exec x (ended_with PhSucceeded) \<or> up_to_date_item exec x (ended_with PhAborted)
      \<or> xi_deployItem x = None \<and> checkRunnable exec x items = Inr False"
    and aborted: "\<exists>x \<in> set items. up_to_date_item exec x (ended_with PhAborted)"
    and run: "Reconcile env c False exec0 w0 = (r, exec2, w2)"
  shows "(r = Done () \<longleftrightarrow> (\<exists>exec3. collectAndUpdateExports env c items exec w = (Done (), exec3, w2)))
    \<and> (r = Done () \<longrightarrow> es_phase (ex_status exec2) = PhSucceeded)
    \<and> ((\<exists>x \<in> set items. xi_deployItem x = None) \<longrightarrow> r \<noteq> Done ()
        \<and> ((\<forall>x \<in> set items. \<forall>di. xi_deployItem x = Some di \<longrightarrow> ds_exportReference (di_status di) = None) \<longrightarrow> r = Panic))"
proof -
  have "\<forall>x \<in> set items. ended_item exec x \<or> missing_waiting exec items x" "\<exists>x \<in> set items. ended_item exec x"
    using items aborted by (auto simp: ended_item_def item_done_current missing_waiting_def)
  from Reconcile_quiet_run [OF i this, of env] run
  have f: "finish_reconcile env c (reconcile_condition c exec0 w0) exec items PhSucceeded w = (r, exec2, w2)" by simp
  have s: "IsCompletedExecutionPhase PhSucceeded" by (simp add: IsCompletedExecutionPhase_rank)
  have ended: "r = Done () \<longleftrightarrow> (\<exists>exec3. collectAndUpdateExports env c items exec w = (Done (), exec3, w2))"
    "r = Done () \<Longrightarrow> es_phase (ex_status exec2) = PhSucceeded"
    using f s by (auto simp: finish_reconcile_def exec_conditions_def split: prod.splits outcome.splits)
  have missing: "r \<noteq> Done ()" if m: "\<exists>x \<in> set items. xi_deployItem x = None"
  proof -
    obtain x w1 where x: "collect_exports env c items Map.empty w = (x, w1)" by (cases "collect_exports env c items Map.empty w")
    with collect_exports_missing [OF m, of env c Map.empty w] have "x \<noteq> Done d" for d by simp
    with x show ?thesis unfolding ended(1) by (cases x) (blast, simp_all add: collectAndUpdateExports_def)
  qed
  have "r = Panic" if m: "\<exists>x \<in> set items. xi_deployItem x = None"
    "\<forall>x \<in> set items. \<forall>di. xi_deployItem x = Some di \<longrightarrow> ds_exportReference (di_status di) = None"
  proof -
    obtain w1 where "collect_exports env c items Map.empty w = (Panic, w1)"
      using collect_exports_missing_panic [OF m, of env c Map.empty w] by (metis prod.collapse)
    with f s show ?thesis by (simp add: finish_reconcile_def collectAndUpdateExports_def)
  qed
  with ended missing show ?thesis by blast
qed

section \<open>Witnesses\<close>

definition example_env :: "unit op_env" where
  "example_env = \<lparr>oe_formatTime = (\<lambda>t. ''now''), oe_setController = (\<lambda>e m. Inr m), oe_setOwner = (\<lambda>e m. Inr m),
     oe_digest = (\<lambda>s. s), oe_sha = (\<lambda>s. s), oe_marshal = (\<lambda>v. Inr ''{}''), oe_unmarshal = (\<lambda>s. Inr ()), oe_nil = ()\<rparr>"

definition example_execution :: "deploy_item_template list \<Rightarrow> string list \<Rightarrow> execution" where
  "example_execution ts seen =
     \<lparr>ex_meta = empty_meta\<lparr>om_name := ''ex'', om_namespace := ''ns'', om_generation := 1\<rparr>,
      ex_spec = \<lparr>ex_context = ''default'', ex_deployItems = ts, ex_registryPullSecrets = []\<rparr>,
      ex_status = \<lparr>es_phase = PhInit, es_observedGeneration = 1, es_conditions = [], es_lastError = None,
        es_exportReference = None,
        es_deployItemReferences = map (\<lambda>n. \<lparr>vn_name = n, vn_reference =
          \<lparr>vo_ref = ObjectKey n ''ns'', vo_observedGeneration = 1\<rparr>\<rparr>) seen,
        es_executionGenerations = map (\<lambda>n. \<lparr>eg_name = n, eg_observedGeneration = 1\<rparr>) seen\<rparr>\<rparr>"

definition example_item :: "string \<Rightarrow> phase \<Rightarrow> deploy_item" where
  "example_item n p =
     (new_deploy_item [] ''ns'')
     \<lparr>di_meta := empty_meta\<lparr>om_name := n, om_namespace := ''ns'', om_generation := 1,
        om_labels := [(ExecutionManagedByLabel, ''ex''), (ExecutionManagedNameLabel, n)]\<rparr>,
      di_status := (di_status (new_deploy_item [] ''ns''))\<lparr>ds_phase := p, ds_observedGeneration := 1\<rparr>\<rparr>"

definition example_cluster :: "execution \<Rightarrow> deploy_item list \<Rightarrow> cluster" where
  "example_cluster e ds = \<lparr>cw_time = 100, cw_items = ds, cw_executions = [e], cw_data = [],
     cw_targets = [], cw_contexts = [], cw_installations = []\<rparr>"

definition two_templates :: "deploy_item_template list" where
  "two_templates = [example_template ''app'' [''db''], example_template ''db'' []]"

lemma two_templates_accepted: "ValidateDeployItemTemplateList (\<lambda>_ _. []) [] two_templates = Some []"
  by code_simp

definition halfway :: execution where
  "halfway = example_execution two_templates [''db'']"

definition halfway_items :: "exec_item list" where
  "halfway_items = fst (getExecutionItems halfway [example_item ''db'' PhSucceeded])"

definition halfway_step ::
    "loop_end \<times> execution \<times> exec_item list \<times> phase \<times> (cluster \<times> api_write list)" where
  "halfway_step = reconcile_item example_env (logged example_client) False (InitCondition 0 []) 0 halfway halfway_items
     PhEmpty (example_cluster halfway [example_item ''db'' PhSucceeded], [])"


definition finished_run :: "unit outcome \<times> execution \<times> (cluster \<times> api_write list)" where
  "finished_run = (let e = example_execution two_templates [''app'', ''db'']
     in Reconcile example_env (logged example_client) False e
          (example_cluster e [example_item ''db'' PhSucceeded, example_item ''app'' PhSucceeded], []))"

text \<open>An execution whose first item waits for an aborted one: the missing item is dereferenced.\<close>

definition aborted_dependency_run :: "unit outcome \<times> execution \<times> cluster" where
  "aborted_dependency_run = (let e = example_execution two_templates [''db'']
     in Reconcile example_env example_client False e (example_cluster e [example_item ''db'' PhAborted]))"

text \<open>The runs of the examples are evaluated together.\<close>

lemma example_runs:
  "length (snd (snd (snd (snd (snd halfway_step))))) = 2
   \<and> fst (Reconcile example_env example_client False halfway (example_cluster halfway [example_item ''db'' PhSucceeded])) = Done ()
   \<and> (list_ex export_write (snd (snd (snd finished_run))) \<and> es_phase (ex_status (fst (snd finished_run))) = PhSucceeded
      \<and> fst finished_run = Done ())"
  by code_simp

lemmas halfway_step_log = conjunct1 [OF example_runs]
  and halfway_run_done = conjunct1 [OF conjunct2 [OF example_runs]]
  and finished_run_result = conjunct2 [OF conjunct2 [OF example_runs]]

lemma step_writes_only_when_dependencies_done_witness:
  "\<exists>x. find_item halfway_items ''db'' = Some x \<and> item_done halfway x"
proof -
  obtain l exec1 items1 p1 s1 where s: "halfway_step = (l, exec1, items1, p1, s1)" by (rule prod_cases5)
  have "length (snd s1) = 2" using halfway_step_log [unfolded s] by simp
  then have "snd s1 \<noteq> snd (example_cluster halfway [example_item ''db'' PhSucceeded], [])" by auto
  from step_writes_only_when_dependencies_done [OF s [unfolded halfway_step_def] this]
  have "\<forall>dep \<in> set (dt_dependsOn (xi_info (halfway_items ! 0))). \<exists>x. find_item halfway_items dep = Some x \<and> item_done halfway x" .
  moreover have "dt_dependsOn (xi_info (halfway_items ! 0)) = [''db'']" by code_simp
  ultimately show ?thesis by simp
qed

lemma example_client_keeps_phase: "keeps_sent_phase example_client"
  by (auto simp: keeps_sent_phase_def example_client_def store_client_def store_replace_def Let_def split: option.splits prod.splits)


lemma aborted_items_count_as_done_witness:
  "fst aborted_dependency_run = Panic"
proof -
  let ?e = "example_execution two_templates [''db'']" let ?w = "example_cluster ?e [example_item ''db'' PhAborted]"
  obtain r e2 w2 where run: "aborted_dependency_run = (r, e2, w2)" by (rule prod_cases3)
  let ?exec = "exec_phase PhProgressing ?e" let ?items = "fst (getExecutionItems ?exec [example_item ''db'' PhAborted])"
  have input: "reconcile_input example_client ?e ?w = Some (?exec, ?items, ?w)"
    and items: "list_all (\<lambda>x. up_to_date_item ?exec x (ended_with PhSucceeded) \<or> up_to_date_item ?exec x (ended_with PhAborted)
        \<or> xi_deployItem x = None \<and> checkRunnable ?exec x ?items = Inr False) ?items"
      "list_ex (\<lambda>x. up_to_date_item ?exec x (ended_with PhAborted)) ?items" "list_ex (\<lambda>x. xi_deployItem x = None) ?items"
      "list_all (\<lambda>x. case xi_deployItem x of Some di \<Rightarrow> ds_exportReference (di_status di) = None | None \<Rightarrow> True) ?items"
    by code_simp+
  have "\<forall>x \<in> set ?items. \<forall>di. xi_deployItem x = Some di \<longrightarrow> ds_exportReference (di_status di) = None"
    using items(4) by (auto simp: list_all_iff split: option.splits)
  then have "r = Panic"
    using aborted_items_count_as_done [OF input _ _ run [unfolded aborted_dependency_run_def Let_def]] items(1-3)
    by (simp add: list_all_iff list_ex_iff)
  then show ?thesis by (simp add: run)
qed

lemma reconcile_does_not_panic_witness:
  "fst (Reconcile example_env example_client False halfway (example_cluster halfway [example_item ''db'' PhSucceeded])) \<noteq> Panic"
proof (rule reconcile_does_not_panic)
  show "ValidateDeployItemTemplateList (\<lambda>_ _. []) [] (ex_deployItems (ex_spec halfway)) = Some []" by code_simp
  show "case reconcile_input example_client halfway (example_cluster halfway [example_item ''db'' PhSucceeded]) of
      Some (exec, items, w) \<Rightarrow> \<not> list_ex aborted_item items | None \<Rightarrow> True"
    by code_simp
qed

lemma reconcile_is_never_stuck_witness:
  "\<exists>exec items w. reconcile_input example_client halfway (example_cluster halfway [example_item ''db'' PhSucceeded])
      = Some (exec, items, w) \<and> (list_all (item_done exec) items \<or> items \<noteq> [])"
proof -
  obtain exec2 w2 where "Reconcile example_env example_client False halfway
      (example_cluster halfway [example_item ''db'' PhSucceeded]) = (Done (), exec2, w2)"
    using halfway_run_done by (metis prod.collapse)
  moreover have "ex_deployItems (ex_spec halfway) \<noteq> []"
    "ValidateDeployItemTemplateList (\<lambda>_ _. []) [] (ex_deployItems (ex_spec halfway)) = Some []" by code_simp+
  ultimately show ?thesis
    using reconcile_is_never_stuck [of "\<lambda>_ _. []" "[]" halfway example_env example_client False] by fastforce
qed

end
