(* ===== verification/ExecutionDelete.thy ===== *)
theory ExecutionDelete
  imports ExecutionProps
begin

text \<open>
  Properties of \<open>Delete\<close> of an execution: the order in which it deletes the items, when it gives up the
  finalizer, and that it is never stuck.
\<close>

section \<open>The items to delete\<close>

definition deletable_item :: "exec_item list \<Rightarrow> exec_item \<Rightarrow> deploy_item \<Rightarrow> bool" where
  "deletable_item all item d \<longleftrightarrow> xi_deployItem item = Some d \<and> time_is_zero (om_deletionTimestamp (di_meta d))
     \<and> (\<forall>x \<in> set all. dt_name (xi_info x) \<noteq> dt_name (xi_info item)
          \<longrightarrow> dt_name (xi_info item) \<in> set (dt_dependsOn (xi_info x)) \<longrightarrow> xi_deployItem x = None)"

lemma checkDeletable_iff:
  "checkDeletable item all \<longleftrightarrow>
     (\<forall>x \<in> set all. dt_name (xi_info x) \<noteq> dt_name (xi_info item)
        \<longrightarrow> dt_name (xi_info item) \<in> set (dt_dependsOn (xi_info x)) \<longrightarrow> xi_deployItem x = None)"
  by (induction all) auto

lemma deletable_item_iff:
  "deletable_item all item d \<longleftrightarrow>
     xi_deployItem item = Some d \<and> time_is_zero (om_deletionTimestamp (di_meta d)) \<and> checkDeletable item all"
  by (simp add: deletable_item_def checkDeletable_iff)

text \<open>One item of the loop.\<close>

lemma delete_items_ConsE:
  assumes "delete_items c all (item # items) b exec w = (r, exec1, w1)"
  obtains (absent) "xi_deployItem item = None" "delete_items c all items b exec w = (r, exec1, w1)"
  | (waiting) di exec0 where "xi_deployItem item = Some di" "\<not> deletable_item all item di"
      "delete_items c all items False exec0 w = (r, exec1, w1)"
  | (failed) di e where "deletable_item all item di" "rc_delete (kc_deployItems c) di w = (Some e, w1)"
      "\<not> IsNotFound e" "\<exists>e'. r = Inl e'"
  | (gone) di e w0 where "deletable_item all item di" "rc_delete (kc_deployItems c) di w = (Some e, w0)"
      "IsNotFound e" "delete_items c all items True exec w0 = (r, exec1, w1)"
  | (deleted) di w0 where "deletable_item all item di" "rc_delete (kc_deployItems c) di w = (None, w0)"
      "delete_items c all items False exec w0 = (r, exec1, w1)"
proof (cases "xi_deployItem item")
  case None
  with assms absent show ?thesis by simp
next
  case (Some di)
  show ?thesis
  proof (cases "deletable_item all item di")
    case False
    with Some assms show ?thesis by (auto simp: deletable_item_iff intro: waiting)
  next
    case True
    obtain x w0 where x: "rc_delete (kc_deployItems c) di w = (x, w0)" by (cases "rc_delete (kc_deployItems c) di w")
    with True Some assms failed gone deleted show ?thesis
      by (cases x) (auto simp: deletable_item_iff split: if_splits)
  qed
qed

lemma delete_items_log:
  assumes "delete_items (logged c) all items b exec s = (r, exec1, s1)"
  shows "writes_only (\<lambda>a. \<exists>d. a = DeleteItem d \<and> (\<exists>item \<in> set items. deletable_item all item d)) s s1"
  using assms
proof (induction items arbitrary: b exec s)
  case (Cons item items)
  let ?P = "\<lambda>is a. \<exists>d. a = DeleteItem d \<and> (\<exists>item \<in> set is. deletable_item all item d)"
  have more: "writes_only (?P items) s0 s1 \<Longrightarrow> writes_only (?P (item # items)) s0 s1" for s0
    by (erule writes_only_weaken) auto
  from Cons.prems show ?case
  proof (cases rule: delete_items_ConsE)
    case absent
    then show ?thesis by (intro more Cons.IH)
  next
    case (waiting di exec0)
    then show ?thesis by (intro more) (rule Cons.IH)
  next
    case (failed di e)
    from failed(2) have "logged_call (DeleteItem di) (rc_delete (kc_deployItems c) di) s = (Some e, s1)" by simp
    then show ?thesis by (rule logged_writes) (use failed(1) in auto)
  next
    case (gone di e w0)
    from gone(2) have "logged_call (DeleteItem di) (rc_delete (kc_deployItems c) di) s = (Some e, w0)" by simp
    then have "writes_only (?P (item # items)) s w0" by (rule logged_writes) (use gone(1) in auto)
    then show ?thesis by (rule writes_only_trans) (rule more, rule Cons.IH [OF gone(4)])
  next
    case (deleted di w0)
    from deleted(2) have "logged_call (DeleteItem di) (rc_delete (kc_deployItems c) di) s = (None, w0)" by simp
    then have "writes_only (?P (item # items)) s w0" by (rule logged_writes) (use deleted(1) in auto)
    then show ?thesis by (rule writes_only_trans) (rule more, rule Cons.IH [OF deleted(3)])
  qed
qed simp

text \<open>Without an error, every deletable item is deleted.\<close>

lemma delete_items_deletes:
  assumes "delete_items (logged c) all items b exec s = (Inr ok, exec1, s1)"
    and "item \<in> set items" and "deletable_item all item d"
  shows "DeleteItem d \<in> set (snd s1)"
  using assms(1,2)
proof (induction items arbitrary: b exec s)
  case (Cons it items)
  have keep: "delete_items (logged c) all items b' exec' s' = (Inr ok, exec1, s1) \<Longrightarrow> a \<in> set (snd s') \<Longrightarrow> a \<in> set (snd s1)"
    for b' exec' s' a
    by (drule delete_items_log) (auto simp: writes_only_def)
  have here: "rc_delete (kc_deployItems (logged c)) di s = (x, w0) \<Longrightarrow> DeleteItem di \<in> set (snd w0)" for di x w0
    by (simp add: logged_in_log)
  from Cons.prems(1) show ?case
  proof (cases rule: delete_items_ConsE)
    case absent
    with Cons.prems(2) assms(3) show ?thesis by (auto simp: deletable_item_def intro: Cons.IH)
  next
    case (waiting di exec0)
    with Cons.prems(2) assms(3) show ?thesis by (auto simp: deletable_item_def intro: Cons.IH)
  next
    case (failed di e)
    then show ?thesis by simp
  next
    case (gone di e w0)
    show ?thesis
    proof (cases "item = it")
      case True
      with gone(1) assms(3) have "di = d" by (simp add: deletable_item_def)
      with keep [OF gone(4)] here [OF gone(2)] show ?thesis by simp
    next
      case False
      with Cons.prems(2) Cons.IH [OF gone(4)] show ?thesis by simp
    qed
  next
    case (deleted di w0)
    show ?thesis
    proof (cases "item = it")
      case True
      with deleted(1) assms(3) have "di = d" by (simp add: deletable_item_def)
      with keep [OF deleted(3)] here [OF deleted(2)] show ?thesis by simp
    next
      case False
      with Cons.prems(2) Cons.IH [OF deleted(3)] show ?thesis by simp
    qed
  qed
qed simp

lemma delete_items_none: "\<forall>x \<in> set items. xi_deployItem x = None \<Longrightarrow> delete_items c all items b exec w = (Inr b, exec, w)"
  by (induction items) auto

text \<open>
  The last template with an item decides: its item was deletable, and when the deletions came to it, the deletion was
  answered with \<open>NotFound\<close>.
\<close>

definition last_item_gone :: "'w kube_client \<Rightarrow> execution \<Rightarrow> exec_item list \<Rightarrow> 'w \<Rightarrow> bool" where
  "last_item_gone c exec items w \<longleftrightarrow>
     (\<exists>pre item post di b exec1 w1 e w2. items = pre @ item # post \<and> (\<forall>x \<in> set post. xi_deployItem x = None)
        \<and> deletable_item items item di \<and> delete_items c items pre True exec w = (Inr b, exec1, w1)
        \<and> rc_delete (kc_deployItems c) di w1 = (Some e, w2) \<and> IsNotFound e)"

lemma delete_items_keeps:
  "delete_items c all items b exec w = (r, exec1, w1) \<Longrightarrow> ex_meta exec1 = ex_meta exec \<and> ex_spec exec1 = ex_spec exec"
proof (induction items arbitrary: b exec w)
  case (Cons item items)
  then show ?case
    by (fastforce simp: exec_phase_def split: option.splits if_splits prod.splits)
qed simp

lemma delete_items_append:
  "delete_items c all (xs @ ys) b exec w =
     (case delete_items c all xs b exec w of
        (Inr b1, exec1, w1) \<Rightarrow> delete_items c all ys b1 exec1 w1
      | r \<Rightarrow> r)"
proof (induction xs arbitrary: b exec w)
  case (Cons x xs)
  then show ?case by (simp split: option.splits prod.splits)
qed simp

lemma delete_items_last:
  assumes "delete_items c all items b exec w = (Inr ok, exec1, w1)" "\<not> (\<forall>x \<in> set items. xi_deployItem x = None)"
  obtains pre item post di b0 exec0 w0 where "items = pre @ item # post" "\<forall>x \<in> set post. xi_deployItem x = None"
    "xi_deployItem item = Some di" "delete_items c all pre b exec w = (Inr b0, exec0, w0)"
    "delete_items c all [item] b0 exec0 w0 = (Inr ok, exec1, w1)"
proof -
  from assms(2) obtain pre item post di where s: "items = pre @ item # post" "\<forall>x \<in> set post. xi_deployItem x = None" "xi_deployItem item = Some di"
    using split_list_last_prop [of items "\<lambda>x. xi_deployItem x \<noteq> None"] by fastforce
  obtain r0 exec0 w0 where p: "delete_items c all pre b exec w = (r0, exec0, w0)" by (rule prod_cases3)
  with assms(1) s(1) obtain b0 where b0: "r0 = Inr b0" by (cases r0) (auto simp: delete_items_append)
  obtain r2 exec2 w2 where i: "delete_items c all [item] b0 exec0 w0 = (r2, exec2, w2)" by (rule prod_cases3)
  have e: "(case (r2, exec2, w2) of (Inr b1, exec1, w1) \<Rightarrow> delete_items c all post b1 exec1 w1 | r \<Rightarrow> r) = (Inr ok, exec1, w1)"
    using assms(1) s(1) p b0 i delete_items_append [of c all pre "item # post" b exec w] delete_items_append [of c all "[item]" post b0 exec0 w0]
    by (simp del: delete_items.simps)
  then obtain b2 where "r2 = Inr b2" by (cases r2) auto
  with e delete_items_none [OF s(2), of c all b2 exec2 w2] have "(r2, exec2, w2) = (Inr ok, exec1, w1)" by simp
  with that s p b0 i show thesis by simp
qed

lemma delete_items_flag:
  assumes "delete_items c items items True exec w = (Inr True, exec1, w1)"
  shows "(\<forall>x \<in> set items. xi_deployItem x = None) \<or> last_item_gone c exec items w"
proof (rule disjCI)
  assume "\<not> last_item_gone c exec items w"
  show "\<forall>x \<in> set items. xi_deployItem x = None"
  proof (rule ccontr)
    assume "\<not> (\<forall>x \<in> set items. xi_deployItem x = None)"
    from delete_items_last [OF assms this] obtain pre item post di b0 exec0 w0 where
      s: "items = pre @ item # post" "\<forall>x \<in> set post. xi_deployItem x = None" "xi_deployItem item = Some di"
        "delete_items c items pre True exec w = (Inr b0, exec0, w0)"
      and i: "delete_items c items [item] b0 exec0 w0 = (Inr True, exec1, w1)" .
    from i s(3) obtain e w2 where "deletable_item items item di" "rc_delete (kc_deployItems c) di w0 = (Some e, w2)" "IsNotFound e"
      by (auto simp: deletable_item_iff split: if_splits prod.splits option.splits)
    with s have "last_item_gone c exec items w" unfolding last_item_gone_def by blast
    with \<open>\<not> last_item_gone c exec items w\<close> show False ..
  qed
qed

lemma last_item_gone_flag:
  assumes "last_item_gone c exec items w"
  shows "\<exists>exec1 w1. delete_items c items items True exec w = (Inr True, exec1, w1)"
proof -
  from assms obtain pre item post di b exec1 w1 e w2 where s: "items = pre @ item # post" "\<forall>x \<in> set post. xi_deployItem x = None"
    and d: "deletable_item items item di" and p: "delete_items c items pre True exec w = (Inr b, exec1, w1)"
    and g: "rc_delete (kc_deployItems c) di w1 = (Some e, w2)" "IsNotFound e"
    unfolding last_item_gone_def by blast
  have "delete_items c items (item # post) b exec1 w1 = (Inr True, exec1, w2)"
    using d g delete_items_none [OF s(2), of c items True exec1 w2] by (simp add: deletable_item_iff)
  then show ?thesis
    using delete_items_append [of c items pre "item # post" True exec w] p s(1) by (simp del: delete_items.simps)
qed

text \<open>Some item can always be deleted: the dependencies have no cycle.\<close>

lemma last_item_exists:
  assumes acyc: "acyclic (dep_rel (map xi_info items))" and dist: "distinct (item_names items)"
    and left: "x \<in> set items" "xi_deployItem x \<noteq> None"
  shows "\<exists>y \<in> set items. xi_deployItem y \<noteq> None \<and>
    (\<forall>z \<in> set items. dt_name (xi_info y) \<in> set (dt_dependsOn (xi_info z)) \<longrightarrow> xi_deployItem z = None)"
proof -
  let ?Q = "{dt_name (xi_info y) | y. y \<in> set items \<and> xi_deployItem y \<noteq> None}"
  have "wf (dep_rel (map xi_info items))"
    using finite_dep_rel acyc by (rule finite_acyclic_wf)
  moreover have "dt_name (xi_info x) \<in> ?Q" using left by blast
  ultimately obtain n where n: "n \<in> ?Q" and min: "\<And>m. (m, n) \<in> dep_rel (map xi_info items) \<Longrightarrow> m \<notin> ?Q"
    by (rule wfE_min) blast
  from n obtain y where y: "y \<in> set items" "xi_deployItem y \<noteq> None" "n = dt_name (xi_info y)" by blast
  have "xi_deployItem z = None" if z: "z \<in> set items" "n \<in> set (dt_dependsOn (xi_info z))" for z
  proof (rule ccontr)
    assume "xi_deployItem z \<noteq> None"
    with z(1) have "dt_name (xi_info z) \<in> ?Q" by blast
    moreover have "(dt_name (xi_info z), n) \<in> dep_rel (map xi_info items)"
      using z by (intro dep_relI) auto
    ultimately show False using min by blast
  qed
  with y show ?thesis by blast
qed

section \<open>Delete\<close>

text \<open>The items that \<open>Delete\<close> lists, and the world after the call.\<close>

definition delete_input :: "'w kube_client \<Rightarrow> execution \<Rightarrow> 'w \<Rightarrow> (exec_item list \<times> 'w) option" where
  "delete_input c exec0 w0 =
     (case listManagedDeployItems c (exec_phase PhDeleting exec0) w0 of
        (Inl e, w1) \<Rightarrow> None
      | (Inr ds, w1) \<Rightarrow> Some (fst (getExecutionItems (exec_phase PhDeleting exec0) ds), w1))"

lemma Delete_cases:
  assumes "Delete c exec0 w0 = (r, exec2, w2)"
  obtains (unlisted) e where "delete_input c exec0 w0 = None" "r = Some e"
      "\<exists>x. listManagedDeployItems c (exec_phase PhDeleting exec0) w0 = (x, w2)"
  | (failed) e items w exec1 where "delete_input c exec0 w0 = Some (items, w)" "r = Some e"
      "delete_items c items items True (exec_phase PhDeleting exec0) w = (Inl e, exec1, w2)"
  | (waiting) items w where "delete_input c exec0 w0 = Some (items, w)" "r = None"
      "delete_items c items items True (exec_phase PhDeleting exec0) w = (Inr False, exec2, w2)"
  | (finalized) items w exec1 w1 x where "delete_input c exec0 w0 = Some (items, w)"
      "delete_items c items items True (exec_phase PhDeleting exec0) w = (Inr True, exec1, w1)"
      "rc_update (kc_executions c)
         (exec1\<lparr>ex_meta := RemoveFinalizer (ex_meta exec1) LandscaperFinalizer\<rparr>) w1 = (x, w2)"
proof -
  obtain l w where l: "listManagedDeployItems c (exec_phase PhDeleting exec0) w0 = (l, w)"
    by (cases "listManagedDeployItems c (exec_phase PhDeleting exec0) w0")
  show ?thesis
  proof (cases l)
    case (Inl e)
    with l assms unlisted show ?thesis by (auto simp: Delete_def delete_input_def Let_def)
  next
    case (Inr ds)
    let ?items = "fst (getExecutionItems (exec_phase PhDeleting exec0) ds)"
    have i: "delete_input c exec0 w0 = Some (?items, w)" using l Inr by (simp add: delete_input_def)
    obtain ok exec1 w1 where d: "delete_items c ?items ?items True (exec_phase PhDeleting exec0) w = (ok, exec1, w1)"
      by (rule prod_cases3)
    obtain x w3 where u: "rc_update (kc_executions c)
         (exec1\<lparr>ex_meta := RemoveFinalizer (ex_meta exec1) LandscaperFinalizer\<rparr>) w1 = (x, w3)"
      by (cases "rc_update (kc_executions c)
         (exec1\<lparr>ex_meta := RemoveFinalizer (ex_meta exec1) LandscaperFinalizer\<rparr>) w1")
    have run: "Delete c exec0 w0 =
      (case ok of Inl e \<Rightarrow> (Some e, exec1, w1)
       | Inr False \<Rightarrow> (None, exec1, w1)
       | Inr True \<Rightarrow>
           let exec2 = exec1\<lparr>ex_meta := RemoveFinalizer (ex_meta exec1) LandscaperFinalizer\<rparr>
           in (case rc_update (kc_executions c) exec2 w1 of
                 (Inl e, w3) \<Rightarrow> (NewErrorOrNil (kc_now c w3) (Some e) ''Deletion'' ''RemoveFinalizer'' [], exec2, w3)
               | (Inr exec3, w3) \<Rightarrow> (None, exec3, w3)))"
      using l Inr d by (cases ok) (simp_all add: Delete_def Let_def split: bool.split)
    show ?thesis
    proof (cases ok)
      case (Inl e)
      with run assms i d failed show ?thesis by simp
    next
      case (Inr b)
      show ?thesis
      proof (cases b)
        case False
        with Inr run assms i d waiting show ?thesis by simp
      next
        case True
        with Inr run assms u have "w2 = w3" by (auto simp: Let_def split: sum.splits)
        with True Inr i d u finalized show ?thesis by simp
      qed
    qed
  qed
qed

lemma delete_input_items:
  "delete_input c exec0 w0 = Some (items, w) \<Longrightarrow> map xi_info items = ex_deployItems (ex_spec exec0)"
  by (auto simp: delete_input_def exec_phase_def split: prod.splits sum.splits)

lemma delete_input_log:
  "delete_input (logged c) exec0 s0 = Some (items, s) \<Longrightarrow> snd s = snd s0"
  by (auto simp: delete_input_def listManagedDeployItems_def unlogged_call_def split: prod.splits sum.splits)


lemma delete_log_item:
  assumes run: "Delete (logged c) exec0 (w0, []) = (r, exec2, (w2, log))" and a: "a \<in> set log"
    and input: "delete_input (logged c) exec0 (w0, []) = Some (items, s)"
  shows "(\<exists>d. a = DeleteItem d \<and> (\<exists>item \<in> set items. deletable_item items item d))
    \<or> (\<exists>exec1 s1. delete_items (logged c) items items True (exec_phase PhDeleting exec0) s = (Inr True, exec1, s1)
        \<and> a = UpdateExec (exec1\<lparr>ex_meta := RemoveFinalizer (ex_meta exec1) LandscaperFinalizer\<rparr>))"
proof -
  let ?e = "exec_phase PhDeleting exec0"
  let ?P = "\<lambda>a. \<exists>d. a = DeleteItem d \<and> (\<exists>item \<in> set items. deletable_item items item d)"
  have nil: "snd s = []" using delete_input_log [OF input] by simp
  have dels: "delete_items (logged c) items items True ?e s = (b, exec1, s1) \<Longrightarrow> x \<in> set (snd s1) \<Longrightarrow> ?P x"
    for b exec1 s1 x
    using writes_only_log [OF delete_items_log] nil by fastforce
  from run show ?thesis
  proof (cases rule: Delete_cases)
    case (unlisted e)
    with input show ?thesis by simp
  next
    case (failed e items' s' exec1)
    with input dels a show ?thesis by fastforce
  next
    case (waiting items' s')
    with input dels a show ?thesis by fastforce
  next
    case (finalized items' s' exec1 s1 x)
    with input have d: "delete_items (logged c) items items True ?e s = (Inr True, exec1, s1)" by simp
    let ?u = "UpdateExec (exec1\<lparr>ex_meta := RemoveFinalizer (ex_meta exec1) LandscaperFinalizer\<rparr>)"
    from finalized(3) have "log = snd s1 @ [?u]"
      by (auto simp: logged_call_def split: prod.splits)
    with a have "a \<in> set (snd s1) \<or> a = ?u" by auto
    with dels [OF d] d show ?thesis by blast
  qed
qed

lemma Delete_log_input:
  assumes run: "Delete (logged c) exec0 (w0, []) = (r, exec2, (w2, log))" and "a \<in> set log"
  obtains items s where "delete_input (logged c) exec0 (w0, []) = Some (items, s)"
proof (cases "delete_input (logged c) exec0 (w0, [])")
  case None
  from run have "log = []"
    by (cases rule: Delete_cases) (use None in \<open>auto simp: listManagedDeployItems_def unlogged_call_def split: prod.splits\<close>)
  with assms(2) show ?thesis by simp
next
  case (Some p)
  then show ?thesis using that by (cases p) simp
qed

lemma Delete_without_error:
  assumes "Delete (logged c) exec0 s0 = (None, exec2, (w2, log))"
  obtains items s ok exec1 s1 where "delete_input (logged c) exec0 s0 = Some (items, s)"
    "delete_items (logged c) items items True (exec_phase PhDeleting exec0) s = (Inr ok, exec1, s1)"
    "set (snd s1) \<subseteq> set log" "ok \<Longrightarrow> list_ex (\<lambda>a. \<exists>e. a = UpdateExec e) log"
  using assms
proof (cases rule: Delete_cases)
  case (unlisted e)
  then show ?thesis by simp
next
  case (failed e items w exec1)
  then show ?thesis by simp
next
  case (waiting items s)
  then show ?thesis by (intro that [of items s False exec2 "(w2, log)"]) simp_all
next
  case (finalized items s exec1 s1 x)
  then show ?thesis
    by (intro that [of items s True exec1 s1]) (auto simp: logged_call_def split: prod.splits)
qed

text \<open>
  C19: \<open>Delete\<close> goes in the reverse order of the dependencies. Every deploy item that it deletes
  is the item of a template, is not being deleted already, and no other template that depends on its
  template still has an item.
\<close>

theorem delete_in_reverse_order:
  assumes "Delete (logged c) exec0 (w0, []) = (r, exec2, (w2, log))"
    and "DeleteItem d \<in> set log"
  shows "\<exists>items s. delete_input (logged c) exec0 (w0, []) = Some (items, s)
    \<and> (\<exists>item \<in> set items. xi_deployItem item = Some d \<and> time_is_zero (om_deletionTimestamp (di_meta d))
         \<and> (\<forall>x \<in> set items. dt_name (xi_info x) \<noteq> dt_name (xi_info item)
              \<longrightarrow> dt_name (xi_info item) \<in> set (dt_dependsOn (xi_info x)) \<longrightarrow> xi_deployItem x = None))"
proof -
  obtain items s where i: "delete_input (logged c) exec0 (w0, []) = Some (items, s)"
    by (rule Delete_log_input [OF assms])
  with delete_log_item [OF assms i] show ?thesis by (auto simp: deletable_item_def)
qed

lemma Delete_finalized:
  assumes run: "Delete (logged c) exec0 (w0, []) = (r, exec2, (w2, log))"
    and input: "delete_input (logged c) exec0 (w0, []) = Some (items, s)"
    and flag: "delete_items (logged c) items items True (exec_phase PhDeleting exec0) s = (Inr True, exec1, s1)"
  shows "UpdateExec (exec1\<lparr>ex_meta := RemoveFinalizer (ex_meta exec1) LandscaperFinalizer\<rparr>) \<in> set log"
  using run
proof (cases rule: Delete_cases)
  case (finalized items' s' exec1' s1' x)
  with input flag show ?thesis by (auto dest: logged_in_log)
qed (use input flag in auto)

text \<open>
  C31: when the finalizer goes. \<open>Delete\<close> writes the execution exactly if no template has an item, or if the deletion of the item
  of the last template that has one was answered with \<open>NotFound\<close>: whether the items before it are still there does not
  matter. The execution is written as it was but for the phase and without its finalizer.
\<close>

theorem finalizer_removed_iff:
  assumes "Delete (logged c) exec0 (w0, []) = (r, exec2, (w2, log))"
  shows "((\<exists>e. UpdateExec e \<in> set log) \<longleftrightarrow>
      (\<exists>items s. delete_input (logged c) exec0 (w0, []) = Some (items, s)
        \<and> ((\<forall>x \<in> set items. xi_deployItem x = None) \<or> last_item_gone (logged c) (exec_phase PhDeleting exec0) items s)))
    \<and> (\<forall>e. UpdateExec e \<in> set log \<longrightarrow> ex_spec e = ex_spec exec0 \<and> ex_meta e = RemoveFinalizer (ex_meta exec0) LandscaperFinalizer)"
proof (intro conjI iffI allI impI; (elim exE conjE)?)
  fix e assume e: "UpdateExec e \<in> set log"
  obtain items s where i: "delete_input (logged c) exec0 (w0, []) = Some (items, s)"
    by (rule Delete_log_input [OF assms e])
  from delete_log_item [OF assms e i] obtain exec1 s1 where
    d: "delete_items (logged c) items items True (exec_phase PhDeleting exec0) s = (Inr True, exec1, s1)"
    and x: "e = exec1\<lparr>ex_meta := RemoveFinalizer (ex_meta exec1) LandscaperFinalizer\<rparr>" by auto
  from delete_items_flag [OF d] i
  show "\<exists>items s. delete_input (logged c) exec0 (w0, []) = Some (items, s)
        \<and> ((\<forall>x \<in> set items. xi_deployItem x = None) \<or> last_item_gone (logged c) (exec_phase PhDeleting exec0) items s)" by blast
  from delete_items_keeps [OF d] x
  show "ex_spec e = ex_spec exec0" and "ex_meta e = RemoveFinalizer (ex_meta exec0) LandscaperFinalizer" by (simp_all add: exec_phase_def)
next
  fix items s
  assume i: "delete_input (logged c) exec0 (w0, []) = Some (items, s)"
    and "(\<forall>x \<in> set items. xi_deployItem x = None) \<or> last_item_gone (logged c) (exec_phase PhDeleting exec0) items s"
  then obtain exec1 s1 where "delete_items (logged c) items items True (exec_phase PhDeleting exec0) s = (Inr True, exec1, s1)"
    using delete_items_none last_item_gone_flag by metis
  from Delete_finalized [OF assms i this] show "\<exists>e. UpdateExec e \<in> set log" ..
qed

text \<open>
  The deletion of an accepted execution is never stuck. When \<open>Delete\<close> returns without an error,
  then no template had an item and the execution was written without its finalizer, or an existing item
  is already being deleted, or one was deleted by this call.
\<close>

theorem delete_is_never_stuck:
  assumes "ValidateDeployItemTemplateList vl q (ex_deployItems (ex_spec exec0)) = Some []"
    and "Delete (logged c) exec0 (w0, []) = (None, exec2, (w2, log))"
  shows "\<exists>items s. delete_input (logged c) exec0 (w0, []) = Some (items, s)
    \<and> ((\<forall>x \<in> set items. xi_deployItem x = None) \<and> list_ex (\<lambda>a. \<exists>e. a = UpdateExec e) log
       \<or> (\<exists>x \<in> set items. \<exists>d. xi_deployItem x = Some d
            \<and> (\<not> time_is_zero (om_deletionTimestamp (di_meta d)) \<or> DeleteItem d \<in> set log)))"
proof -
  let ?e = "exec_phase PhDeleting exec0"
  obtain items s ok exec1 s1 where i: "delete_input (logged c) exec0 (w0, []) = Some (items, s)"
    and d: "delete_items (logged c) items items True ?e s = (Inr ok, exec1, s1)"
    and log: "set (snd s1) \<subseteq> set log" and upd: "ok \<Longrightarrow> list_ex (\<lambda>a. \<exists>e. a = UpdateExec e) log"
    using assms(2) by (rule Delete_without_error) blast
  have info: "map xi_info items = ex_deployItems (ex_spec exec0)" by (rule delete_input_items [OF i])
  show ?thesis
  proof (cases "\<forall>x \<in> set items. xi_deployItem x = None")
    case True
    with delete_items_none [OF True, of "logged c" items True ?e s] d upd i show ?thesis by auto
  next
    case False
    then obtain x where x: "x \<in> set items" "xi_deployItem x \<noteq> None" by blast
    have ok: "ValidateDeployItemTemplateList vl q (map xi_info items) = Some []" using assms(1) info by simp
    from last_item_exists [OF templates_ok_items(1,3) [OF ok] x] obtain y where
      y: "y \<in> set items" "xi_deployItem y \<noteq> None"
      "\<forall>z \<in> set items. dt_name (xi_info y) \<in> set (dt_dependsOn (xi_info z)) \<longrightarrow> xi_deployItem z = None"
      by blast
    then obtain di where di: "xi_deployItem y = Some di" by auto
    have "DeleteItem di \<in> set log" if "time_is_zero (om_deletionTimestamp (di_meta di))"
      using delete_items_deletes [OF d y(1), of di] that di y(3) log by (auto simp: deletable_item_def)
    with i y(1) di show ?thesis by blast
  qed
qed


section \<open>Witnesses\<close>

definition delete_run :: "gerr option \<times> execution \<times> (cluster \<times> api_write list)" where
  "delete_run = Delete (logged example_client) (example_execution two_templates [''db'', ''app''])
     (example_cluster (example_execution two_templates [''db'', ''app''])
       [example_item ''db'' PhSucceeded, example_item ''app'' PhSucceeded], [])"

text \<open>A client whose deletions always succeed, and an execution without items.\<close>

definition deleting_client :: "cluster kube_client" where
  "deleting_client = example_client\<lparr>kc_deployItems := (kc_deployItems example_client)\<lparr>rc_delete := \<lambda>d w. (None, w)\<rparr>\<rparr>"

definition finalized_execution :: execution where
  "finalized_execution = (let e = example_execution two_templates []
     in e\<lparr>ex_meta := (ex_meta e)\<lparr>om_finalizers := [LandscaperFinalizer]\<rparr>\<rparr>)"

definition finalizer_run :: "gerr option \<times> execution \<times> (cluster \<times> api_write list)" where
  "finalizer_run = Delete (logged deleting_client) finalized_execution (example_cluster finalized_execution [], [])"

definition finalized_result :: execution where
  "finalized_result = (exec_phase PhDeleting finalized_execution)
     \<lparr>ex_meta := RemoveFinalizer (ex_meta finalized_execution) LandscaperFinalizer\<rparr>"

lemma delete_runs:
  "(hd (snd (snd (snd delete_run))) = DeleteItem (example_item ''app'' PhSucceeded) \<and> snd (snd (snd delete_run)) \<noteq> [])
   \<and> snd (snd (snd finalizer_run)) = [UpdateExec finalized_result] \<and> fst finalizer_run = None"
  by code_simp

lemmas delete_run_hd = conjunct1 [OF delete_runs]
  and finalizer_run_log = conjunct1 [OF conjunct2 [OF delete_runs]] conjunct2 [OF conjunct2 [OF delete_runs]]

lemma delete_in_reverse_order_witness:
  "\<exists>items s. delete_input (logged example_client) (example_execution two_templates [''db'', ''app''])
      (example_cluster (example_execution two_templates [''db'', ''app''])
        [example_item ''db'' PhSucceeded, example_item ''app'' PhSucceeded], []) = Some (items, s)
    \<and> (\<exists>item \<in> set items. xi_deployItem item \<noteq> None)"
proof -
  obtain r exec2 w2 log where r: "delete_run = (r, exec2, (w2, log))" by (rule prod_cases4)
  have "hd log = DeleteItem (example_item ''app'' PhSucceeded) \<and> log \<noteq> []"
    using delete_run_hd [unfolded r] by simp
  then have "DeleteItem (example_item ''app'' PhSucceeded) \<in> set log" by (metis list.set_sel(1))
  from delete_in_reverse_order [OF r [unfolded delete_run_def] this] show ?thesis by blast
qed


lemma delete_is_never_stuck_witness:
  "\<exists>items s. delete_input (logged deleting_client) finalized_execution (example_cluster finalized_execution [], []) = Some (items, s)
    \<and> ((\<forall>x \<in> set items. xi_deployItem x = None) \<or> (\<exists>x \<in> set items. xi_deployItem x \<noteq> None))"
proof -
  obtain exec2 w2 log where n: "finalizer_run = (None, exec2, (w2, log))"
    using finalizer_run_log(2) by (metis prod.collapse)
  have "ValidateDeployItemTemplateList (\<lambda>_ _. []) [] (ex_deployItems (ex_spec finalized_execution)) = Some []"
    by code_simp
  from delete_is_never_stuck [OF this n [unfolded finalizer_run_def]] show ?thesis by blast
qed

text \<open>
  The cache still lists the second of two independent items, which is gone; the first one is being
  deleted and waits for its own finalizer.
\<close>

definition stale_execution :: execution where
  "stale_execution = (let e = example_execution [example_template ''a'' [], example_template ''b'' []] [''a'', ''b'']
     in e\<lparr>ex_meta := (ex_meta e)\<lparr>om_finalizers := [LandscaperFinalizer]\<rparr>\<rparr>)"

definition leaving_item :: deploy_item where
  "leaving_item = (let d = example_item ''a'' PhDeleting
     in d\<lparr>di_meta := (di_meta d)\<lparr>om_deletionTimestamp := Some 50, om_finalizers := [LandscaperFinalizer]\<rparr>\<rparr>)"

definition stale_client :: "cluster kube_client" where
  "stale_client = example_client\<lparr>kc_deployItems := (kc_deployItems example_client)
     \<lparr>rc_list := \<lambda>_ _ w. (Inr [leaving_item, example_item ''b'' PhSucceeded], w)\<rparr>\<rparr>"

definition stale_result :: execution where
  "stale_result = (exec_phase PhDeleting stale_execution)\<lparr>ex_meta := RemoveFinalizer (ex_meta stale_execution) LandscaperFinalizer\<rparr>"

definition stale_items :: "exec_item list" where
  "stale_items = [\<lparr>xi_info = example_template ''a'' [], xi_deployItem = Some leaving_item\<rparr>,
     \<lparr>xi_info = example_template ''b'' [], xi_deployItem = Some (example_item ''b'' PhSucceeded)\<rparr>]"

lemma stale_run:
  "Delete (logged stale_client) stale_execution (example_cluster stale_execution [leaving_item], [])
     = (None, stale_result, (example_cluster stale_result [leaving_item], [DeleteItem (example_item ''b'' PhSucceeded), UpdateExec stale_result]))
   \<and> delete_input (logged stale_client) stale_execution (example_cluster stale_execution [leaving_item], [])
     = Some (stale_items, example_cluster stale_execution [leaving_item], [])
   \<and> ValidateDeployItemTemplateList (\<lambda>_ _. []) [] (ex_deployItems (ex_spec stale_execution)) = Some []
   \<and> LandscaperFinalizer \<in> set (om_finalizers (ex_meta stale_execution)) \<and> LandscaperFinalizer \<notin> set (om_finalizers (ex_meta stale_result))"
  by code_simp

lemma finalizer_removed_iff_witness:
  "last_item_gone (logged stale_client) (exec_phase PhDeleting stale_execution) stale_items (example_cluster stale_execution [leaving_item], [])
   \<and> (\<exists>x \<in> set stale_items. xi_deployItem x = Some leaving_item)"
proof -
  note run = conjunct1 [OF stale_run] and input = conjunct1 [OF conjunct2 [OF stale_run]]
  have item: "\<exists>x \<in> set stale_items. xi_deployItem x = Some leaving_item" by (simp add: stale_items_def)
  with finalizer_removed_iff [OF run] input show ?thesis by auto
qed

text \<open>
  So the finalizer does not always stay. There is an accepted execution for
  which \<open>Delete\<close> succeeds and writes the execution without its finalizer while a deploy item of one of
  its templates still exists in the cluster and was listed.
\<close>

theorem finalizer_removed_while_item_exists:
  "\<exists>(c :: cluster kube_client) exec0 w0 exec2 w2 e d items s. ValidateDeployItemTemplateList (\<lambda>_ _. []) [] (ex_deployItems (ex_spec exec0)) = Some []
     \<and> LandscaperFinalizer \<in> set (om_finalizers (ex_meta exec0))
     \<and> Delete (logged c) exec0 (w0, []) = (None, exec2, (w2, [DeleteItem d, UpdateExec e]))
     \<and> LandscaperFinalizer \<notin> set (om_finalizers (ex_meta e))
     \<and> delete_input (logged c) exec0 (w0, []) = Some (items, s)
     \<and> (\<exists>x \<in> set items. \<exists>di. xi_deployItem x = Some di \<and> di \<in> set (cw_items w2))"
proof -
  have "\<exists>x \<in> set stale_items. \<exists>di. xi_deployItem x = Some di \<and> di \<in> set (cw_items (example_cluster stale_result [leaving_item]))"
    by (simp add: stale_items_def example_cluster_def)
  with stale_run show ?thesis by blast
qed

end
