(* ===== verification/ExecutionController.thy ===== *)
theory ExecutionController
  imports ExecutionDelete
begin

text \<open>
  The execution controller, \<open>pkg/landscaper/controllers/execution/controller.go\<close>: the annotations and the
  generation, the error handler, \<open>Ensure\<close> and \<open>Reconcile\<close>; and the properties of the check of a
  finished execution (\<open>HandleDeployItemPhaseAndGenerationChanges\<close>). Log lines and events are left
  out, the request is the key of the execution.
\<close>

section \<open>The steps of the controller\<close>

text \<open>
  \<open>HandleAnnotationsAndGeneration\<close>: the error, the execution in memory and the world.
\<close>

definition reset_observed ::
    "'w kube_client \<Rightarrow> bool \<Rightarrow> execution \<Rightarrow> 'w \<Rightarrow> gerr option \<times> execution \<times> 'w" where
  "reset_observed c hasReconcileAnnotation exec w =
     (if hasReconcileAnnotation \<or> es_observedGeneration (ex_status exec) \<noteq> om_generation (ex_meta exec)
      then (let exec1 = exec\<lparr>ex_status := (ex_status exec)
                 \<lparr>es_observedGeneration := om_generation (ex_meta exec), es_phase := PhInit\<rparr>\<rparr>
            in case rc_statusUpdate (kc_executions c) exec1 w of
                 (Inl e, w1) \<Rightarrow> (Some e, exec1, w1)
               | (Inr exec2, w1) \<Rightarrow> (None, exec2, w1))
      else (None, exec, w))"

definition drop_reconcile_annotation ::
    "'w kube_client \<Rightarrow> bool \<Rightarrow> execution \<Rightarrow> 'w \<Rightarrow> gerr option \<times> execution \<times> 'w" where
  "drop_reconcile_annotation c hasReconcileAnnotation exec w =
     (if hasReconcileAnnotation
      then (let exec1 = exec\<lparr>ex_meta := (ex_meta exec)
                 \<lparr>om_annotations := smap_del (om_annotations (ex_meta exec)) OperationAnnotation\<rparr>\<rparr>
            in case rc_update (kc_executions c) exec1 w of
                 (Inl e, w1) \<Rightarrow> (Some e, exec1, w1)
               | (Inr exec2, w1) \<Rightarrow> (None, exec2, w1))
      else (None, exec, w))"

definition reset_forced ::
    "'w kube_client \<Rightarrow> execution \<Rightarrow> 'w \<Rightarrow> gerr option \<times> execution \<times> 'w" where
  "reset_forced c exec w =
     (if HasOperation (ex_meta exec) ForceReconcileOperation
      then (if IsCompletedExecutionPhase (es_phase (ex_status exec))
            then (let exec1 = exec_phase PhInit exec
                  in case rc_statusUpdate (kc_executions c) exec1 w of
                       (Inl e, w1) \<Rightarrow> (Some e, exec1, w1)
                     | (Inr exec2, w1) \<Rightarrow> (None, exec2, w1))
            else (None, exec, w))
      else (None, exec, w))"

definition HandleAnnotationsAndGeneration ::
    "'w kube_client \<Rightarrow> execution \<Rightarrow> 'w \<Rightarrow> gerr option \<times> execution \<times> 'w" where
  "HandleAnnotationsAndGeneration c exec w =
     (let hasReconcileAnnotation = HasOperation (ex_meta exec) ReconcileOperation
      in case reset_observed c hasReconcileAnnotation exec w of
           (Some e, exec1, w1) \<Rightarrow> (Some e, exec1, w1)
         | (None, exec1, w1) \<Rightarrow>
             (case drop_reconcile_annotation c hasReconcileAnnotation exec1 w1 of
                (Some e, exec2, w2) \<Rightarrow> (Some e, exec2, w2)
              | (None, exec2, w2) \<Rightarrow> reset_forced c exec2 w2))"

text \<open>
  The closure of \<open>HandleErrorFunc\<close>: \<open>old\<close> is the copy of the execution at its creation. It
  returns the error of the reconciliation, the execution in memory and the world.
\<close>

definition handled_status :: "time \<Rightarrow> execution \<Rightarrow> gerr option \<Rightarrow> execution \<Rightarrow> execution_status" where
  "handled_status now old err exec =
     (let st1 = (if err = None \<and> es_lastError (ex_status old) = es_lastError (ex_status exec)
                 then (ex_status exec)\<lparr>es_lastError := TryUpdateError now (es_lastError (ex_status old)) err\<rparr>
                 else ex_status exec)
      in st1\<lparr>es_phase := GetPhaseForLastError (es_phase st1) (es_lastError st1) (5 * minute)\<rparr>)"

definition HandleErrorFunc ::
    "'w kube_client \<Rightarrow> execution \<Rightarrow> gerr option \<Rightarrow> execution \<Rightarrow> 'w \<Rightarrow> gerr option \<times> execution \<times> 'w" where
  "HandleErrorFunc c old err exec w =
     (let exec1 = exec\<lparr>ex_status := handled_status (kc_now c w) old err exec\<rparr>
      in if ex_status old \<noteq> ex_status exec1
         then (case rc_statusUpdate (kc_executions c) exec1 w of
                 (Inl err2, w1) \<Rightarrow> (if err \<noteq> None then Some err2 else err, exec1, w1)
               | (Inr exec2, w1) \<Rightarrow> (err, exec2, w1))
         else (err, exec1, w))"

definition Ensure ::
    "'j op_env \<Rightarrow> 'w kube_client \<Rightarrow> execution \<Rightarrow> 'w \<Rightarrow> unit outcome \<times> execution \<times> 'w" where
  "Ensure env c exec w =
     (let forceReconcile = HasOperation (ex_meta exec) ForceReconcileOperation;
          (err, exec1, w1) =
            (if time_is_zero (om_deletionTimestamp (ex_meta exec))
                \<and> \<not> HasFinalizer (om_finalizers (ex_meta exec)) LandscaperFinalizer
             then (let exec1 = exec\<lparr>ex_meta := AddFinalizer (ex_meta exec) LandscaperFinalizer\<rparr>
                   in case rc_update (kc_executions c) exec1 w of
                        (Inl e, w1) \<Rightarrow> (Some (NewError (kc_now c w1) ''Reconcile'' ''AddFinalizer'' (error_string e) []), exec1, w1)
                      | (Inr exec2, w1) \<Rightarrow> (None, exec2, w1))
             else (None, exec, w))
      in case err of
           Some e \<Rightarrow> (Fail e, exec1, w1)
         | None \<Rightarrow>
             if \<not> time_is_zero (om_deletionTimestamp (ex_meta exec1))
             then (case Delete c exec1 w1 of
                     (Some e, exec2, w2) \<Rightarrow> (Fail e, exec2, w2)
                   | (None, exec2, w2) \<Rightarrow> (Done (), exec2, w2))
             else Reconcile env c forceReconcile exec1 w1)"

definition ensure_and_handle ::
    "'j op_env \<Rightarrow> 'w kube_client \<Rightarrow> execution \<Rightarrow> execution \<Rightarrow> 'w \<Rightarrow> unit outcome \<times> 'w" where
  "ensure_and_handle env c old exec w =
     (case Ensure env c exec w of
        (Panic, exec1, w1) \<Rightarrow> (Panic, w1)
      | (Done _, exec1, w1) \<Rightarrow>
          (case HandleErrorFunc c old None exec1 w1 of
             (Some e, exec2, w2) \<Rightarrow> (Fail e, w2)
           | (None, exec2, w2) \<Rightarrow> (Done (), w2))
      | (Fail e, exec1, w1) \<Rightarrow>
          (case HandleErrorFunc c old (Some e) exec1 w1 of
             (Some e', exec2, w2) \<Rightarrow> (Fail e', w2)
           | (None, exec2, w2) \<Rightarrow> (Done (), w2)))"

text \<open>\<open>(controller).Reconcile\<close> of a request, the name of an execution. The result never asks for a requeue.\<close>

definition controller_Reconcile ::
    "'j op_env \<Rightarrow> 'w kube_client \<Rightarrow> object_reference \<Rightarrow> 'w \<Rightarrow> unit outcome \<times> 'w" where
  "controller_Reconcile env c req w0 =
     (case rc_get (kc_executions c) req w0 of
        (Inl e, w1) \<Rightarrow> (if IsNotFound e then Done () else Fail e, w1)
      | (Inr old, w1) \<Rightarrow>
          (case HandleAnnotationsAndGeneration c old w1 of
             (Some e, exec, w2) \<Rightarrow>
               (case HandleErrorFunc c old (Some e) exec w2 of
                  (Some e', exec1, w3) \<Rightarrow> (Fail e', w3)
                | (None, exec1, w3) \<Rightarrow> (Done (), w3))
           | (None, exec, w2) \<Rightarrow>
               if IsCompletedExecutionPhase (es_phase (ex_status exec))
               then (case HandleDeployItemPhaseAndGenerationChanges env c exec w2 of
                       (Fail e, exec1, w3) \<Rightarrow>
                         (Fail (NewWrappedError (kc_now c w3) e ''Reconcile'' ''HandleDeployItemPhaseAndGenerationChanges''
                           (error_string e) []), w3)
                     | (Panic, exec1, w3) \<Rightarrow> (Panic, w3)
                     | (Done _, exec1, w3) \<Rightarrow>
                         if IsCompletedExecutionPhase (es_phase (ex_status exec1)) then (Done (), w3)
                         else ensure_and_handle env c old exec1 w3)
               else ensure_and_handle env c old exec w2))"

section \<open>The phase of a finished execution\<close>

text \<open>What the references of the status say about the items in the cluster.\<close>

definition current_item :: "'w kube_client \<Rightarrow> 'w \<Rightarrow> versioned_named_object_reference \<Rightarrow> deploy_item \<Rightarrow> bool" where
  "current_item c w r d \<longleftrightarrow> fst (rc_get (kc_deployItems c) (vo_ref (vn_reference r)) w) = Inr d
     \<and> om_generation (di_meta d) = vo_observedGeneration (vn_reference r)"

definition reads_only :: "'w kube_client \<Rightarrow> bool" where
  "reads_only c \<longleftrightarrow> (\<forall>key w. snd (rc_get (kc_deployItems c) key w) = w)"

lemma reads_only_get: "reads_only c \<Longrightarrow> rc_get (kc_deployItems c) key w = (g, w1) \<Longrightarrow> w1 = w"
  unfolding reads_only_def by (metis snd_conv)

lemma fetch_items_some:
  assumes "reads_only c" and "list_all2 (current_item c w) refs ds"
  shows "fetch_items c refs w = (Inr (Some ds), w)"
  using assms(2)
proof (induction rule: list_all2_induct)
  case (Cons r refs d ds)
  then have "rc_get (kc_deployItems c) (vo_ref (vn_reference r)) w = (Inr d, w)"
    using assms(1) by (cases "rc_get (kc_deployItems c) (vo_ref (vn_reference r)) w")
      (auto simp: current_item_def dest: reads_only_get)
  with Cons show ?case by (simp add: current_item_def)
qed simp

lemma fetch_items_same_world:
  assumes "reads_only c" shows "snd (fetch_items c refs w) = w"
proof (induction refs)
  case (Cons r refs)
  obtain g w1 where g: "rc_get (kc_deployItems c) (vo_ref (vn_reference r)) w = (g, w1)"
    by (cases "rc_get (kc_deployItems c) (vo_ref (vn_reference r)) w")
  with reads_only_get [OF assms g] Cons show ?case
    by (cases g) (auto split: prod.split sum.split option.split)
qed simp

lemma fetch_items_current:
  assumes "reads_only c" and "fetch_items c refs w = (Inr (Some ds), w')"
  shows "list_all2 (current_item c w) refs ds"
  using assms(2)
proof (induction refs arbitrary: ds w')
  case (Cons r refs)
  obtain g w1 where g: "rc_get (kc_deployItems c) (vo_ref (vn_reference r)) w = (g, w1)"
    by (cases "rc_get (kc_deployItems c) (vo_ref (vn_reference r)) w")
  with reads_only_get [OF assms(1) g] Cons show ?case
    by (cases g) (auto simp: current_item_def split: if_splits prod.splits sum.splits option.splits)
qed simp

lemma fetch_items_writes:
  "fetch_items (logged c) refs s = (r, s1) \<Longrightarrow> snd s1 = snd s"
proof (induction refs arbitrary: s r s1)
  case (Cons ref refs)
  obtain g s0 where g: "unlogged_call (rc_get (kc_deployItems c) (vo_ref (vn_reference ref))) s = (g, s0)"
    by (cases "unlogged_call (rc_get (kc_deployItems c) (vo_ref (vn_reference ref))) s")
  then have "snd s0 = snd s" by (auto simp: unlogged_call_def split: prod.splits)
  with Cons g show ?case
    by (cases g) (auto split: if_splits prod.splits sum.splits option.splits)
qed simp


lemma reads_only_logged: "reads_only c \<Longrightarrow> reads_only (logged c)"
  by (auto simp: reads_only_def unlogged_call_def case_prod_beta)

lemma current_item_logged [simp]: "current_item (logged c) s = current_item c (fst s)"
  by (auto simp: current_item_def fun_eq_iff unlogged_call_def case_prod_beta)

lemma collect_exports_same_log:
  "collect_exports env (logged c) items vs s = (r, s1) \<Longrightarrow> snd s1 = snd s"
proof (induction items arbitrary: vs s r s1)
  case (Cons item items)
  obtain x s0 where x: "addExports env (logged c) (xi_deployItem item) s = (x, s0)"
    by (cases "addExports env (logged c) (xi_deployItem item) s")
  then have "snd s0 = snd s"
    by (auto simp: addExports_def unlogged_call_def split: option.splits prod.splits sum.splits)
  with Cons x show ?case by (cases x) auto
qed simp

lemma UpdateStatus_log: "UpdateStatus (logged c) p cs exec s = (r, exec1, s1) \<Longrightarrow> \<exists>l. snd s1 = snd s @ l"
  by (auto simp: UpdateStatus_def Let_def logged_call_def split: prod.splits sum.splits)

lemma CreateOrUpdateExportReference_log:
  assumes "CreateOrUpdateExportReference env (logged c) values exec s = (r, exec1, s1)"
  shows "\<exists>l. snd s1 = snd s @ l"
proof (cases "do_Build (oe_digest env) (oe_sha env) (oe_marshal env) (export_data_object exec values)")
  case (Inl e)
  with assms show ?thesis by (simp add: CreateOrUpdateExportReference_def Let_def)
next
  case (Inr raw)
  let ?f = "\<lambda>_. mutate_export env exec (export_data_object exec values)"
  obtain x s0 where x: "CreateOrUpdate (kc_dataObjects (logged c)) do_meta ?f raw s = (x, s0)"
    by (cases "CreateOrUpdate (kc_dataObjects (logged c)) do_meta ?f raw s")
  have "writes_only (\<lambda>_. True) s s0"
    using x unfolding logged_sel by (rule CreateOrUpdate_writes) auto
  then obtain l where "snd s0 = snd s @ l" by (auto simp: writes_only_def)
  with assms x Inr show ?thesis
    by (cases x) (auto simp: CreateOrUpdateExportReference_def Let_def simp del: logged_sel dest!: UpdateStatus_log)
qed

lemma collectAndUpdateExports_log:
  assumes "collectAndUpdateExports env (logged c) items exec s = (r, exec1, s1)"
  shows "\<exists>l. snd s1 = snd s @ l"
proof -
  obtain v s0 where v: "collect_exports env (logged c) items Map.empty s = (v, s0)"
    by (cases "collect_exports env (logged c) items Map.empty s")
  have "snd s0 = snd s" by (rule collect_exports_same_log [OF v])
  with assms v show ?thesis
    by (cases v) (auto simp: collectAndUpdateExports_def split: prod.splits option.splits
        dest!: CreateOrUpdateExportReference_log)
qed

lemma handled_phase_log:
  assumes "HandleDeployItemPhaseAndGenerationChanges env (logged c) exec (w, []) = (r, exec2, (w2, log))"
    and "fetch_items (logged c) (es_deployItemReferences (ex_status exec)) (w, []) = (Inr (Some ds), (w, []))"
    and "es_phase (ex_status exec) \<noteq> CombinedExecutionPhase (map (\<lambda>d. ds_phase (di_status d)) ds)"
  shows "\<exists>rest. log = StatusUpdateExec (exec_phase (CombinedExecutionPhase (map (\<lambda>d. ds_phase (di_status d)) ds)) exec) # rest"
proof -
  show ?thesis using assms
    by (auto simp: HandleDeployItemPhaseAndGenerationChanges_def Let_def logged_call_def
        dest!: collectAndUpdateExports_log split: prod.splits sum.splits outcome.splits if_splits)
qed

text \<open>
  C32: the phase of a finished execution mirrors its items. When reads do not change the cluster, the check
  of a finished execution is silent and successful exactly if every remembered item exists with its
  remembered generation and their phases combine to the phase of the execution; otherwise its first
  write, if it writes, sets the combined phase, or \<open>Progressing\<close> if an item is gone or changed.
\<close>

theorem finished_execution_mirrors_items:
  assumes reads: "\<forall>key w. snd (rc_get (kc_deployItems c) key w) = w"
    and run: "HandleDeployItemPhaseAndGenerationChanges env (logged c) exec (w, []) = (r, exec2, (w2, log))"
  shows "(r = Done () \<and> log = [] \<longleftrightarrow>
      (\<exists>ds. list_all2 (current_item c w) (es_deployItemReferences (ex_status exec)) ds
         \<and> es_phase (ex_status exec) = CombinedExecutionPhase (map (\<lambda>d. ds_phase (di_status d)) ds)))
    \<and> (log \<noteq> [] \<longrightarrow> (\<exists>p. hd log = StatusUpdateExec (exec_phase p exec)
         \<and> (p = PhProgressing \<and> (\<nexists>ds. list_all2 (current_item c w) (es_deployItemReferences (ex_status exec)) ds)
            \<or> (\<exists>ds. list_all2 (current_item c w) (es_deployItemReferences (ex_status exec)) ds
                \<and> p = CombinedExecutionPhase (map (\<lambda>d. ds_phase (di_status d)) ds)))))"
    (is "(_ \<longleftrightarrow> (\<exists>ds. ?cur ds \<and> _ = ?cp ds)) \<and> _")
proof -
  have ro: "reads_only (logged c)" using assms(1) by (intro reads_only_logged) (simp add: reads_only_def)
  let ?refs = "es_deployItemReferences (ex_status exec)"
  obtain f s1 where f: "fetch_items (logged c) ?refs (w, []) = (f, s1)" by (cases "fetch_items (logged c) ?refs (w, [])")
  with fetch_items_same_world [OF ro, of ?refs "(w, [])"] have s1: "s1 = (w, [])" by simp
  have iff: "?cur ds \<longleftrightarrow> f = Inr (Some ds)" for ds
    using fetch_items_some [OF ro, of "(w, [])" ?refs ds] fetch_items_current [OF ro, of ?refs "(w, [])" ds s1] f s1
    by auto
  show ?thesis
  proof (cases f)
    case (Inl e)
    with run f s1 iff show ?thesis by (auto simp: HandleDeployItemPhaseAndGenerationChanges_def)
  next
    case (Inr x)
    show ?thesis
    proof (cases x)
      case None
      with run f s1 Inr iff show ?thesis
        by (auto simp: HandleDeployItemPhaseAndGenerationChanges_def Let_def logged_call_def
            split: prod.splits sum.splits)
    next
      case (Some ds)
      show ?thesis
      proof (cases "es_phase (ex_status exec) = ?cp ds")
        case True
        with Some run f s1 Inr iff show ?thesis by (auto simp: HandleDeployItemPhaseAndGenerationChanges_def Let_def)
      next
        case False
        have cur: "?cur ds' \<longleftrightarrow> ds' = ds" for ds' using iff Some Inr by auto
        have "\<exists>rest. log = StatusUpdateExec (exec_phase (?cp ds) exec) # rest"
          by (rule handled_phase_log [OF run _ False]) (use Some f s1 Inr in simp)
        then obtain rest where log: "log = StatusUpdateExec (exec_phase (?cp ds) exec) # rest" by blast
        show ?thesis using False by (simp add: cur log)
      qed
    qed
  qed
qed


text \<open>
  What the annotations and the generation of an execution ask for. When the server accepts the updates and
  answers with the object it got, then \<open>HandleAnnotationsAndGeneration\<close> succeeds; a reconcile annotation
  or a new generation resets the phase to \<open>Init\<close> and records the generation, the reconcile annotation
  is removed, a forced execution leaves its final phase, and otherwise the execution is untouched.
\<close>

theorem annotations_and_generation_exact:
  assumes "\<forall>e w. \<exists>w'. rc_statusUpdate (kc_executions c) e w = (Inr e, w')"
    and "\<forall>e w. \<exists>w'. rc_update (kc_executions c) e w = (Inr e, w')"
  shows "\<exists>exec2 w2. HandleAnnotationsAndGeneration c exec w = (None, exec2, w2) \<and>
    exec2 =
      (if HasOperation (ex_meta exec) ReconcileOperation
       then exec\<lparr>ex_status := (ex_status exec)\<lparr>es_observedGeneration := om_generation (ex_meta exec), es_phase := PhInit\<rparr>,
                 ex_meta := (ex_meta exec)\<lparr>om_annotations := smap_del (om_annotations (ex_meta exec)) OperationAnnotation\<rparr>\<rparr>
       else if es_observedGeneration (ex_status exec) \<noteq> om_generation (ex_meta exec)
       then exec\<lparr>ex_status := (ex_status exec)\<lparr>es_observedGeneration := om_generation (ex_meta exec), es_phase := PhInit\<rparr>\<rparr>
       else if HasOperation (ex_meta exec) ForceReconcileOperation \<and> IsCompletedExecutionPhase (es_phase (ex_status exec))
       then exec_phase PhInit exec else exec)"
proof -
  have st: "\<exists>w'. rc_statusUpdate (kc_executions c) e w = (Inr e, w')" for e w using assms(1) by blast
  have up: "\<exists>w'. rc_update (kc_executions c) e w = (Inr e, w')" for e w using assms(2) by blast
  let ?e1 = "exec\<lparr>ex_status := (ex_status exec)\<lparr>es_observedGeneration := om_generation (ex_meta exec), es_phase := PhInit\<rparr>\<rparr>"
  let ?e2 = "?e1\<lparr>ex_meta := (ex_meta exec)\<lparr>om_annotations := smap_del (om_annotations (ex_meta exec)) OperationAnnotation\<rparr>\<rparr>"
  have gone: "\<not> HasOperation (ex_meta ?e2) ForceReconcileOperation" by (simp add: HasOperation_def)
  have init: "\<not> IsCompletedExecutionPhase (es_phase (ex_status ?e1))" "\<not> IsCompletedExecutionPhase (es_phase (ex_status ?e2))"
    by (simp_all add: IsCompletedExecutionPhase_def IsCompletedInstallationPhase_def)
  show ?thesis
  proof (cases "HasOperation (ex_meta exec) ReconcileOperation")
    case True
    obtain w1 where w1: "rc_statusUpdate (kc_executions c) ?e1 w = (Inr ?e1, w1)" using st by blast
    obtain w2 where w2: "rc_update (kc_executions c) ?e2 w1 = (Inr ?e2, w2)" using up by blast
    from True w1 w2 gone init show ?thesis
      by (simp add: HandleAnnotationsAndGeneration_def reset_observed_def drop_reconcile_annotation_def reset_forced_def Let_def)
  next
    case False
    obtain w1 where w1: "rc_statusUpdate (kc_executions c) ?e1 w = (Inr ?e1, w1)" using st by blast
    obtain w2 where w2: "rc_statusUpdate (kc_executions c) (exec_phase PhInit exec) w = (Inr (exec_phase PhInit exec), w2)"
      using st by blast
    from False w1 w2 init show ?thesis
      by (simp add: HandleAnnotationsAndGeneration_def reset_observed_def drop_reconcile_annotation_def reset_forced_def Let_def)
  qed
qed

text \<open>
  The controller does not record the errors it returns. Whatever error the reconciliation ended with, the
  status that is written carries the last error that the execution in memory had before, and the
  phase depends on that error alone, not on the returned one.
\<close>

theorem returned_error_is_not_recorded:
  assumes "HandleErrorFunc (logged c) old (Some e) exec (w, []) = (r, exec2, (w2, log))"
  shows "r \<noteq> None \<and> log = (if ex_status old = handled_status (kc_now c w) old (Some e) exec then []
      else [StatusUpdateExec (exec\<lparr>ex_status := handled_status (kc_now c w) old (Some e) exec\<rparr>)])
    \<and> handled_status (kc_now c w) old (Some e) exec = (ex_status exec)
        \<lparr>es_phase := GetPhaseForLastError (es_phase (ex_status exec)) (es_lastError (ex_status exec)) (5 * minute)\<rparr>"
  using assms
  by (auto simp: HandleErrorFunc_def Let_def handled_status_def logged_call_def split: if_splits prod.splits sum.splits)

text \<open>Writes of the deletion.\<close>

fun deletion_write :: "api_write \<Rightarrow> bool" where
  "deletion_write (DeleteItem d) = True"
| "deletion_write (UpdateExec e) = True"
| "deletion_write _ = False"

lemma Delete_writes:
  assumes "Delete (logged c) exec0 s0 = (r, exec2, s2)"
  shows "writes_only deletion_write s0 s2"
  using assms
proof (cases rule: Delete_cases)
  case (unlisted e)
  then show ?thesis by (auto simp: listManagedDeployItems_def intro: unlogged_writes)
next
  case (failed e items s exec1)
  have "writes_only deletion_write s0 s" using delete_input_log [OF failed(1)] by (simp add: writes_only_def)
  moreover have "writes_only deletion_write s s2"
    using delete_items_log [OF failed(3)] by (rule writes_only_weaken) auto
  ultimately show ?thesis by (rule writes_only_trans)
next
  case (waiting items s)
  have "writes_only deletion_write s0 s" using delete_input_log [OF waiting(1)] by (simp add: writes_only_def)
  moreover have "writes_only deletion_write s s2"
    using delete_items_log [OF waiting(3)] by (rule writes_only_weaken) auto
  ultimately show ?thesis by (rule writes_only_trans)
next
  case (finalized items s exec1 s1 x)
  have "writes_only deletion_write s0 s" using delete_input_log [OF finalized(1)] by (simp add: writes_only_def)
  moreover have "writes_only deletion_write s s1"
    using delete_items_log [OF finalized(2)] by (rule writes_only_weaken) auto
  moreover have "writes_only deletion_write s1 s2"
    using finalized(3) by (auto intro: logged_writes)
  ultimately show ?thesis by (blast intro: writes_only_trans)
qed

lemma deletion_write_item: "deletion_write a \<Longrightarrow> \<not> item_write a"
  by (cases a) auto

lemma Ensure_deleted:
  assumes "\<not> time_is_zero (om_deletionTimestamp (ex_meta exec))"
    and "Ensure env (logged c) exec s = (r, exec2, s2)"
  shows "writes_only deletion_write s s2"
proof -
  obtain x exec1 s1 where d: "Delete (logged c) exec s = (x, exec1, s1)" by (rule prod_cases3)
  with assms have "s1 = s2" by (auto simp: Ensure_def Let_def split: option.splits)
  with Delete_writes [OF d] show ?thesis by simp
qed

lemma finish_reconcile_log:
  "finish_reconcile env (logged c) cond exec items p s = (r, exec1, s1) \<Longrightarrow> \<exists>l. snd s1 = snd s @ l"
  by (auto simp: finish_reconcile_def dest!: collectAndUpdateExports_log
      split: if_splits prod.splits outcome.splits)

lemma after_loop_log:
  assumes "after_loop env (logged c) force cond (l, exec, items, p, s) = (r, exec2, s2)"
  shows "\<exists>l. snd s2 = snd s @ l"
proof (cases l)
  case LoopDone
  let ?a = "PatchExec exec (remove_operation_annotation exec)"
  obtain x s1 where x: "logged_call ?a (rc_patch (kc_executions c) exec (remove_operation_annotation exec)) s = (x, s1)"
    by (cases "logged_call ?a (rc_patch (kc_executions c) exec (remove_operation_annotation exec)) s")
  then have "snd s1 = snd s @ [?a]" by (auto simp: logged_call_def split: prod.splits)
  with LoopDone assms x show ?thesis
    by (cases x; cases force) (auto simp: after_loop_def dest!: finish_reconcile_log)
qed (use assms in \<open>auto simp: after_loop_def\<close>)

lemma Reconcile_writes:
  assumes "Reconcile env (logged c) force exec0 s0 = (r, exec2, s2)"
  shows "\<exists>l. snd s2 = snd s0 @ l"
proof (cases "reconcile_input (logged c) exec0 s0")
  case None
  from reconcile_input_writes(1) [OF assms this] show ?thesis by (auto simp: writes_only_def)
next
  case (Some i)
  obtain exec items s where i: "reconcile_input (logged c) exec0 s0 = Some (exec, items, s)"
    using Some by (cases i) auto
  let ?cond = "reconcile_condition (logged c) exec0 s0"
  obtain l exec1 items1 p s1 where
    loop: "reconcile_items env (logged c) force ?cond [0..<length items] exec items PhEmpty s = (l, exec1, items1, p, s1)"
    by (rule prod_cases5)
  have "\<exists>k. snd s1 = snd s0 @ k"
    using reconcile_input_writes(2) [OF assms i] reconcile_items_writes [OF loop] by (auto simp: writes_only_def)
  moreover have "after_loop env (logged c) force ?cond (l, exec1, items1, p, s1) = (r, exec2, s2)"
    using assms Reconcile_loop [OF i, of env force] loop by simp
  ultimately show ?thesis by (auto dest!: after_loop_log)
qed

lemma ensure_adds_finalizer:
  assumes run: "Ensure env (logged c) exec (w, []) = (r, exec2, (w2, log))"
    and new: "time_is_zero (om_deletionTimestamp (ex_meta exec))" "LandscaperFinalizer \<notin> set (om_finalizers (ex_meta exec))"
    and items: "list_ex item_write log"
  defines "e \<equiv> exec\<lparr>ex_meta := AddFinalizer (ex_meta exec) LandscaperFinalizer\<rparr>"
  shows "\<exists>stored w1. rc_update (kc_executions c) e w = (Inr stored, w1) \<and> time_is_zero (om_deletionTimestamp (ex_meta stored))
    \<and> Reconcile env (logged c) (HasOperation (ex_meta exec) ForceReconcileOperation) stored (w1, [UpdateExec e]) = (r, exec2, (w2, log))"
proof -
  obtain x w1 where u: "rc_update (kc_executions c) e w = (x, w1)" by (cases "rc_update (kc_executions c) e w")
  then have l: "logged_call (UpdateExec e) (rc_update (kc_executions c) e) (w, []) = (x, w1, [UpdateExec e])"
    by (simp add: logged_call_def)
  note E = run [unfolded Ensure_def Let_def]
  show ?thesis
  proof (cases x)
    case (Inl err)
    with E new l have "log = [UpdateExec e]" by (auto simp: e_def)
    with items show ?thesis by simp
  next
    case (Inr stored)
    show ?thesis
    proof (cases "time_is_zero (om_deletionTimestamp (ex_meta stored))")
      case True
      with E new l u Inr show ?thesis by (simp add: e_def)
    next
      case False
      obtain y exec3 s3 where d: "Delete (logged c) stored (w1, [UpdateExec e]) = (y, exec3, s3)" by (rule prod_cases3)
      with E False new l Inr have "s3 = (w2, log)" by (auto simp: e_def split: option.splits)
      with Delete_writes [OF d] have "list_all (\<lambda>a. \<not> item_write a) log"
        by (auto simp: writes_only_def list_all_iff dest: deletion_write_item)
      with items show ?thesis by (auto simp: list_all_iff list_ex_iff)
    qed
  qed
qed

text \<open>
  An execution that is being deleted creates nothing: \<open>Ensure\<close> only deletes deploy items and
  updates the execution.
\<close>

theorem deleted_execution_creates_nothing:
  assumes "\<not> time_is_zero (om_deletionTimestamp (ex_meta exec))"
    and "Ensure env (logged c) exec (w, []) = (r, exec2, (w2, log))"
  shows "list_all deletion_write log"
  using Ensure_deleted [OF assms] by (simp add: writes_only_def)

text \<open>
  C20: the finalizer comes before the first deploy item. If \<open>Ensure\<close> creates or updates a deploy item, then
  the execution is not being deleted, and either it has its finalizer already, or the update that adds the finalizer was answered
  with success, and everything else is written by the \<open>Reconcile\<close> of the execution that the server answered, after that update.
\<close>

theorem finalizer_before_items:
  assumes "Ensure env (logged c) exec (w, []) = (r, exec2, (w2, log))"
    and "list_ex item_write log"
  defines "e \<equiv> exec\<lparr>ex_meta := AddFinalizer (ex_meta exec) LandscaperFinalizer\<rparr>"
    and "force \<equiv> HasOperation (ex_meta exec) ForceReconcileOperation"
  shows "time_is_zero (om_deletionTimestamp (ex_meta exec))
    \<and> (LandscaperFinalizer \<in> set (om_finalizers (ex_meta exec))
         \<and> Reconcile env (logged c) force exec (w, []) = (r, exec2, (w2, log))
       \<or> LandscaperFinalizer \<in> set (om_finalizers (ex_meta e))
         \<and> (\<exists>stored w1. rc_update (kc_executions c) e w = (Inr stored, w1) \<and> time_is_zero (om_deletionTimestamp (ex_meta stored))
              \<and> Reconcile env (logged c) force stored (w1, [UpdateExec e]) = (r, exec2, (w2, log))))"
proof (cases "time_is_zero (om_deletionTimestamp (ex_meta exec))")
  case True
  show ?thesis
  proof (cases "LandscaperFinalizer \<in> set (om_finalizers (ex_meta exec))")
    case f: True
    with assms(1) True show ?thesis by (simp add: Ensure_def Let_def force_def)
  next
    case False
    from ensure_adds_finalizer [OF assms(1) True False assms(2)] True
    show ?thesis by (simp add: e_def force_def AddFinalizer_def)
  qed
next
  case del: False
  have "list_all deletion_write log" using Ensure_deleted [OF del assms(1)] by (simp add: writes_only_def)
  with assms(2) deletion_write_item show ?thesis by (auto simp: list_all_iff list_ex_iff)
qed

text \<open>
  A settled execution is left alone. If the execution is finished, has seen its generation, carries no
  operation annotation, and its items are the remembered ones with the phases that combine to its
  phase, then the reconciliation of the controller succeeds and writes nothing.
\<close>

theorem settled_execution_left_alone:
  assumes reads: "\<forall>key w. snd (rc_get (kc_deployItems c) key w) = w"
    and exec: "rc_get (kc_executions c) req w = (Inr exec, w)"
    and "\<not> HasOperation (ex_meta exec) ReconcileOperation" "\<not> HasOperation (ex_meta exec) ForceReconcileOperation"
    and "es_observedGeneration (ex_status exec) = om_generation (ex_meta exec)"
    and "IsCompletedExecutionPhase (es_phase (ex_status exec))"
    and items: "list_all2 (current_item c w) (es_deployItemReferences (ex_status exec)) ds"
    and phase: "es_phase (ex_status exec) = CombinedExecutionPhase (map (\<lambda>d. ds_phase (di_status d)) ds)"
  shows "controller_Reconcile env (logged c) req (w, []) = (Done (), (w, []))"
proof -
  have ro: "reads_only (logged c)" using reads by (intro reads_only_logged) (simp add: reads_only_def)
  have "fetch_items (logged c) (es_deployItemReferences (ex_status exec)) (w, []) = (Inr (Some ds), (w, []))"
    using items by (intro fetch_items_some [OF ro]) simp
  with phase have h: "HandleDeployItemPhaseAndGenerationChanges env (logged c) exec (w, []) = (Done (), exec, (w, []))"
    by (simp add: HandleDeployItemPhaseAndGenerationChanges_def Let_def)
  have "HandleAnnotationsAndGeneration (logged c) exec (w, []) = (None, exec, (w, []))"
    using assms(3-5) by (simp add: HandleAnnotationsAndGeneration_def reset_observed_def
        drop_reconcile_annotation_def reset_forced_def Let_def)
  with h exec assms(6) show ?thesis
    by (simp add: controller_Reconcile_def unlogged_call_def)
qed

section \<open>Witnesses\<close>

lemma example_client_reads: "\<forall>key w. snd (rc_get (kc_deployItems example_client) key w) = w"
  by (simp add: example_client_def store_client_def store_get_def Let_def split: option.split)

definition settled_execution :: execution where
  "settled_execution = exec_phase PhSucceeded (example_execution two_templates [''app'', ''db''])"

definition settled_cluster :: cluster where
  "settled_cluster = example_cluster settled_execution [example_item ''db'' PhSucceeded, example_item ''app'' PhSucceeded]"

definition moved_run :: "unit outcome \<times> execution \<times> (cluster \<times> api_write list)" where
  "moved_run = HandleDeployItemPhaseAndGenerationChanges example_env (logged example_client) settled_execution
     (example_cluster settled_execution [example_item ''app'' PhSucceeded], [])"

definition unauthorized_error :: gerr where
  "unauthorized_error = NewError 90 ''Reconcile'' ''Broken'' ''broken'' [ErrorConfigurationProblem]"

definition error_run :: "gerr option \<times> execution \<times> (cluster \<times> api_write list)" where
  "error_run = HandleErrorFunc (logged example_client) halfway (Some unauthorized_error) (exec_phase PhProgressing halfway)
     (example_cluster halfway [], [])"

definition leaving_execution :: execution where
  "leaving_execution = (let e = example_execution two_templates [''db'', ''app'']
     in e\<lparr>ex_meta := (ex_meta e)\<lparr>om_deletionTimestamp := Some 50\<rparr>\<rparr>)"

definition leaving_run :: "unit outcome \<times> execution \<times> (cluster \<times> api_write list)" where
  "leaving_run = Ensure example_env (logged example_client) leaving_execution
     (example_cluster leaving_execution [example_item ''db'' PhSucceeded, example_item ''app'' PhSucceeded], [])"

definition first_run :: "unit outcome \<times> execution \<times> (cluster \<times> api_write list)" where
  "first_run = Ensure example_env (logged example_client) (example_execution two_templates [])
     (example_cluster (example_execution two_templates []) [], [])"

lemma controller_runs:
  "list_all2 (current_item example_client settled_cluster) (es_deployItemReferences (ex_status settled_execution))
     [example_item ''app'' PhSucceeded, example_item ''db'' PhSucceeded]
   \<and> snd (snd (snd moved_run)) \<noteq> []
   \<and> map (\<lambda>a. case a of StatusUpdateExec e \<Rightarrow> (es_lastError (ex_status e), es_phase (ex_status e)) | _ \<Rightarrow> (None, PhEmpty))
       (snd (snd (snd error_run))) = [(None, PhProgressing)]
   \<and> snd (snd (snd leaving_run)) \<noteq> [] \<and> list_ex item_write (snd (snd (snd first_run)))"
  by code_simp

lemmas settled_items = conjunct1 [OF controller_runs]
  and moved_run_log = conjunct1 [OF conjunct2 [OF controller_runs]]
  and error_run_log = conjunct1 [OF conjunct2 [OF conjunct2 [OF controller_runs]]]
  and leaving_run_log = conjunct1 [OF conjunct2 [OF conjunct2 [OF conjunct2 [OF controller_runs]]]]
  and first_run_log = conjunct2 [OF conjunct2 [OF conjunct2 [OF conjunct2 [OF controller_runs]]]]

lemma settled_execution_left_alone_witness:
  "controller_Reconcile example_env (logged example_client) (ObjectKey ''ex'' ''ns'') (settled_cluster, [])
     = (Done (), (settled_cluster, []))"
  by (rule settled_execution_left_alone [OF example_client_reads _ _ _ _ _ settled_items]) code_simp+

lemma finished_execution_mirrors_items_witness:
  "\<exists>p. hd (snd (snd (snd moved_run))) = StatusUpdateExec (exec_phase p settled_execution)"
proof -
  obtain r exec2 w2 log where m: "moved_run = (r, exec2, (w2, log))" by (rule prod_cases4)
  have ne: "log \<noteq> []" using moved_run_log [unfolded m] by simp
  from finished_execution_mirrors_items [OF example_client_reads m [unfolded moved_run_def]] ne
  have "\<exists>p. hd log = StatusUpdateExec (exec_phase p settled_execution)" by blast
  then show ?thesis by (simp add: m)
qed

text \<open>A client that answers with the object it gets.\<close>

definition echo_client :: "cluster kube_client" where
  "echo_client = example_client\<lparr>kc_executions := (kc_executions example_client)
     \<lparr>rc_statusUpdate := \<lambda>e w. (Inr e, w), rc_update := \<lambda>e w. (Inr e, w)\<rparr>\<rparr>"

definition annotated_execution :: execution where
  "annotated_execution = settled_execution\<lparr>ex_meta := SetOperation (ex_meta settled_execution) ReconcileOperation\<rparr>"

lemma annotations_and_generation_exact_witness:
  "\<exists>exec2 w2. HandleAnnotationsAndGeneration echo_client annotated_execution settled_cluster = (None, exec2, w2)
     \<and> es_phase (ex_status exec2) = PhInit"
proof -
  have "\<forall>e w. \<exists>w'. rc_statusUpdate (kc_executions echo_client) e w = (Inr e, w')"
    "\<forall>e w. \<exists>w'. rc_update (kc_executions echo_client) e w = (Inr e, w')"
    by (simp_all add: echo_client_def)
  from annotations_and_generation_exact [OF this, of annotated_execution settled_cluster]
  obtain exec2 w2 where h: "HandleAnnotationsAndGeneration echo_client annotated_execution settled_cluster = (None, exec2, w2)"
    and e: "exec2 = annotated_execution\<lparr>ex_status := (ex_status annotated_execution)
        \<lparr>es_observedGeneration := om_generation (ex_meta annotated_execution), es_phase := PhInit\<rparr>,
        ex_meta := (ex_meta annotated_execution)\<lparr>om_annotations := smap_del (om_annotations (ex_meta annotated_execution)) OperationAnnotation\<rparr>\<rparr>"
    by (auto simp: annotated_execution_def HasOperation_SetOperation)
  from h e show ?thesis by simp
qed

lemma returned_error_is_not_recorded_witness:
  "handled_status (kc_now example_client (example_cluster halfway [])) halfway (Some unauthorized_error) (exec_phase PhProgressing halfway)
     = (ex_status (exec_phase PhProgressing halfway))\<lparr>es_phase := PhProgressing\<rparr>"
proof -
  obtain r exec2 w2 log where m: "error_run = (r, exec2, (w2, log))" by (rule prod_cases4)
  from returned_error_is_not_recorded [OF m [unfolded error_run_def]]
  have "handled_status (kc_now example_client (example_cluster halfway [])) halfway (Some unauthorized_error) (exec_phase PhProgressing halfway)
     = (ex_status (exec_phase PhProgressing halfway))\<lparr>es_phase := GetPhaseForLastError PhProgressing None (5 * minute)\<rparr>"
    by (simp add: exec_phase_def halfway_def example_execution_def)
  then show ?thesis by simp
qed

lemma deleted_execution_creates_nothing_witness:
  "list_all deletion_write (snd (snd (snd leaving_run))) \<and> snd (snd (snd leaving_run)) \<noteq> []"
proof -
  obtain r exec2 w2 log where m: "leaving_run = (r, exec2, (w2, log))" by (rule prod_cases4)
  have "\<not> time_is_zero (om_deletionTimestamp (ex_meta leaving_execution))" by code_simp
  from deleted_execution_creates_nothing [OF this m [unfolded leaving_run_def]] have "list_all deletion_write log" .
  then show ?thesis using leaving_run_log by (simp add: m)
qed

lemma finalizer_before_items_witness:
  "\<exists>e rest. snd (snd (snd first_run)) = UpdateExec e # rest \<and> LandscaperFinalizer \<in> set (om_finalizers (ex_meta e))"
proof -
  obtain r exec2 w2 log where m: "first_run = (r, exec2, (w2, log))" by (rule prod_cases4)
  have "list_ex item_write log" using first_run_log [unfolded m] by simp
  from finalizer_before_items [OF m [unfolded first_run_def] this] 
  show ?thesis
    by (auto simp: m example_execution_def empty_meta_def dest!: Reconcile_writes)
qed

end
