(* ===== verification/DeployItemController.thy ===== *)
theory DeployItemController
  imports ExecutionProps
begin

text \<open>
  The timeouts of deploy items of \<open>pkg/landscaper/controllers/deployitem/controller.go\<close>: the
  pickup, aborting and progressing checks and \<open>Reconcile\<close>, with the properties that a check acts
  only and always when a timeout has elapsed, and that the next check is due right after the
  earliest deadline. The layout of times in annotations is an argument of the operations, and
  durations wrap in 64 bits as in the code.
\<close>

section \<open>The controller\<close>

text \<open>The conversion of times: the layout of the annotations and its parser with its errors.\<close>

record time_text =
  tt_format :: "time \<Rightarrow> string"
  tt_parse :: "string \<Rightarrow> time option"
  tt_parseError :: "string \<Rightarrow> gerr"

record di_controller =
  dc_pickupTimeout :: duration
  dc_abortingTimeout :: duration
  dc_defaultTimeout :: duration

definition opt_duration :: "duration option \<Rightarrow> duration" where
  "opt_duration d = (case d of Some x \<Rightarrow> x | None \<Rightarrow> 0)"

definition di_NewController :: "duration option \<Rightarrow> duration option \<Rightarrow> duration option \<Rightarrow> di_controller" where
  "di_NewController pickupTimeout abortingTimeout defaultTimeout =
     \<lparr>dc_pickupTimeout = opt_duration pickupTimeout, dc_abortingTimeout = opt_duration abortingTimeout,
      dc_defaultTimeout = opt_duration defaultTimeout\<rparr>"

text \<open>\<open>timeout - waited + (5 * time.Second)\<close> in 64 bits.\<close>

definition requeue_delay :: "duration \<Rightarrow> duration \<Rightarrow> duration" where
  "requeue_delay timeout waited = wrap64 (wrap64 (timeout - waited) + 5 * second)"

definition failed_with :: "string \<Rightarrow> deploy_item \<Rightarrow> bool" where
  "failed_with reason di \<longleftrightarrow> ds_phase (di_status di) = PhFailed \<and>
     (case ds_lastError (di_status di) of Some l \<Rightarrow> er_reason l = reason | None \<Rightarrow> False)"

definition fail_with_timeout :: "time \<Rightarrow> string \<Rightarrow> string \<Rightarrow> string \<Rightarrow> deploy_item \<Rightarrow> deploy_item" where
  "fail_with_timeout now operation reason message di =
     di\<lparr>di_status := (di_status di)
       \<lparr>ds_phase := PhFailed,
        ds_lastError := Some (UpdatedError now (ds_lastError (di_status di)) operation reason message [ErrorTimeout])\<rparr>\<rparr>"

text \<open>
  The checks return an error, or the delay of the next check, if there is one, and the deploy item.
\<close>

definition detectPickupTimeouts ::
    "di_controller \<Rightarrow> time_text \<Rightarrow> time \<Rightarrow> deploy_item \<Rightarrow> gerr + duration option \<times> deploy_item" where
  "detectPickupTimeouts con tt now di =
     (if failed_with PickupTimeoutReason di then Inr (None, di)
      else if \<not> HasAnnotation (di_meta di) (timestamp_annotation_name ReconcileTimestamp) then Inr (None, di)
      else case GetTimestampAnnotation (tt_parse tt) (di_meta di) ReconcileTimestamp of
             None \<Rightarrow>
               (let err = tt_parseError tt (smap_get (om_annotations (di_meta di)) (timestamp_annotation_name ReconcileTimestamp))
                in Inl (WrapError (''unable to parse reconcile timestamp annotation: '' @ error_string err) err))
           | Some ts \<Rightarrow>
               (let waitingForPickupDuration = time_sub now ts
                in if dc_pickupTimeout con \<le> waitingForPickupDuration
                   then Inr (None, fail_with_timeout now PickupTimeoutOperation PickupTimeoutReason
                     (''no deployer has reconciled this deployitem within '' @ show_int (quot64 (dc_pickupTimeout con) second)
                       @ '' seconds'') di)
                   else Inr (Some (requeue_delay (dc_pickupTimeout con) waitingForPickupDuration), di)))"

definition detectAbortingTimeouts ::
    "di_controller \<Rightarrow> time_text \<Rightarrow> time \<Rightarrow> deploy_item \<Rightarrow> gerr + duration option \<times> deploy_item" where
  "detectAbortingTimeouts con tt now di =
     (if failed_with AbortingTimeoutReason di
      then Inr (None, di\<lparr>di_meta := RemoveAbortOperationAndTimestamp (di_meta di)\<rparr>)
      else if \<not> HasAnnotation (di_meta di) (timestamp_annotation_name AbortTimestamp)
        \<or> ds_phase (di_status di) = PhSucceeded \<or> ds_phase (di_status di) = PhFailed
      then Inr (None, di)
      else case GetTimestampAnnotation (tt_parse tt) (di_meta di) AbortTimestamp of
             None \<Rightarrow>
               (let err = tt_parseError tt (smap_get (om_annotations (di_meta di)) (timestamp_annotation_name AbortTimestamp))
                in Inl (WrapError (''unable to parse abort timestamp annotation: '' @ error_string err) err))
           | Some ts \<Rightarrow>
               (let waitingForAbortDuration = time_sub now ts
                in if dc_abortingTimeout con \<le> waitingForAbortDuration
                   then Inr (None, fail_with_timeout now AbortingTimeoutOperation AbortingTimeoutReason
                     (''deployer has not aborted progressing this deploy item within ''
                       @ show_int (quot64 (dc_abortingTimeout con) second) @ '' seconds'')
                     (di\<lparr>di_meta := RemoveAbortOperationAndTimestamp (di_meta di)\<rparr>))
                   else Inr (Some (requeue_delay (dc_abortingTimeout con) waitingForAbortDuration), di)))"

definition progressing_timeout :: "di_controller \<Rightarrow> deploy_item \<Rightarrow> duration" where
  "progressing_timeout con di = (case di_timeout (di_spec di) of None \<Rightarrow> dc_defaultTimeout con | Some t \<Rightarrow> t)"

definition detectProgressingTimeouts ::
    "di_controller \<Rightarrow> time_text \<Rightarrow> time \<Rightarrow> deploy_item \<Rightarrow> duration option \<times> deploy_item" where
  "detectProgressingTimeouts con tt now di =
     (if ds_phase (di_status di) = PhSucceeded \<or> ds_phase (di_status di) = PhFailed then (None, di)
      else case ds_lastReconcileTime (di_status di) of
             None \<Rightarrow> (None, di)
           | Some lastTime \<Rightarrow>
               if time_is_zero (Some lastTime) then (None, di)
               else let progressingDuration = time_sub now lastTime
                    in if progressing_timeout con di \<le> progressingDuration
                       then (None, di\<lparr>di_meta := SetAbortOperationAndTimestamp (tt_format tt) now (di_meta di)\<rparr>)
                       else (Some (requeue_delay (progressing_timeout con di) progressingDuration), di))"

definition earlier_requeue :: "duration option \<Rightarrow> duration option \<Rightarrow> duration option" where
  "earlier_requeue requeue tmp =
     (case requeue of
        None \<Rightarrow> tmp
      | Some r \<Rightarrow> (case tmp of Some t \<Rightarrow> if t < r then Some t else Some r | None \<Rightarrow> Some r))"

text \<open>The three phases of \<open>Reconcile\<close>. The first two can end it.\<close>

datatype check_end = CheckFailed gerr | CheckStopped | CheckGoesOn "duration option" deploy_item

definition store_status :: "'w kube_client \<Rightarrow> deploy_item \<Rightarrow> 'w \<Rightarrow> check_end \<times> 'w" where
  "store_status c di w =
     (case rc_statusUpdate (kc_deployItems c) di w of
        (Inl e, w1) \<Rightarrow> (CheckFailed e, w1)
      | (Inr _, w1) \<Rightarrow> (CheckStopped, w1))"

definition check_pickup ::
    "di_controller \<Rightarrow> time_text \<Rightarrow> 'w kube_client \<Rightarrow> deploy_item \<Rightarrow> 'w \<Rightarrow> check_end \<times> 'w" where
  "check_pickup con tt c di w =
     (if dc_pickupTimeout con \<noteq> 0
      then (case detectPickupTimeouts con tt (kc_now c w) di of
              Inl e \<Rightarrow> (CheckFailed e, w)
            | Inr (requeue, di1) \<Rightarrow>
                if di_status di \<noteq> di_status di1 then store_status c di1 w else (CheckGoesOn requeue di1, w))
      else (CheckGoesOn None di, w))"

definition store_annotations ::
    "'w kube_client \<Rightarrow> deploy_item \<Rightarrow> duration option \<Rightarrow> deploy_item \<Rightarrow> 'w \<Rightarrow> check_end \<times> 'w" where
  "store_annotations c old requeue di w =
     (if om_annotations (di_meta old) \<noteq> om_annotations (di_meta di)
      then (case rc_update (kc_deployItems c) di w of
              (Inl e, w1) \<Rightarrow> (CheckFailed e, w1)
            | (Inr di1, w1) \<Rightarrow> (CheckGoesOn requeue di1, w1))
      else (CheckGoesOn requeue di, w))"

definition check_aborting ::
    "di_controller \<Rightarrow> time_text \<Rightarrow> 'w kube_client \<Rightarrow> deploy_item \<Rightarrow> duration option \<Rightarrow> deploy_item \<Rightarrow> 'w
      \<Rightarrow> check_end \<times> 'w" where
  "check_aborting con tt c old requeue di w =
     (if dc_abortingTimeout con \<noteq> 0
      then (case detectAbortingTimeouts con tt (kc_now c w) di of
              Inl e \<Rightarrow> (CheckFailed e, w)
            | Inr (tmp, di1) \<Rightarrow>
                if di_status old \<noteq> di_status di1 then store_status c di1 w
                else store_annotations c old (earlier_requeue requeue tmp) di1 w)
      else (CheckGoesOn requeue di, w))"

definition progressing_check_off :: "di_controller \<Rightarrow> deploy_item \<Rightarrow> bool" where
  "progressing_check_off con di \<longleftrightarrow>
     di_timeout (di_spec di) = Some 0 \<or> (di_timeout (di_spec di) = None \<and> dc_defaultTimeout con = 0)"

definition check_progressing ::
    "di_controller \<Rightarrow> time_text \<Rightarrow> 'w kube_client \<Rightarrow> deploy_item \<Rightarrow> duration option \<Rightarrow> deploy_item \<Rightarrow> 'w
      \<Rightarrow> check_end \<times> 'w" where
  "check_progressing con tt c old requeue di w =
     (if \<not> progressing_check_off con di
      then (let (tmp, di1) = detectProgressingTimeouts con tt (kc_now c w) di
            in store_annotations c old (earlier_requeue requeue tmp) di1 w)
      else (CheckGoesOn requeue di, w))"

text \<open>
  \<open>Reconcile\<close> returns an error or \<open>RequeueAfter\<close>, where zero means no requeue.
\<close>

definition di_Reconcile ::
    "di_controller \<Rightarrow> time_text \<Rightarrow> 'w kube_client \<Rightarrow> object_reference \<Rightarrow> 'w \<Rightarrow> (gerr + duration) \<times> 'w" where
  "di_Reconcile con tt c req w0 =
     (case rc_get (kc_deployItems c) req w0 of
        (Inl e, w1) \<Rightarrow> (if IsNotFound e then Inr 0 else Inl e, w1)
      | (Inr old, w1) \<Rightarrow>
          (case check_pickup con tt c old w1 of
             (CheckFailed e, w2) \<Rightarrow> (Inl e, w2)
           | (CheckStopped, w2) \<Rightarrow> (Inr 0, w2)
           | (CheckGoesOn requeue di, w2) \<Rightarrow>
               (case check_aborting con tt c old requeue di w2 of
                  (CheckFailed e, w3) \<Rightarrow> (Inl e, w3)
                | (CheckStopped, w3) \<Rightarrow> (Inr 0, w3)
                | (CheckGoesOn requeue1 di1, w3) \<Rightarrow>
                    (case check_progressing con tt c old requeue1 di1 w3 of
                       (CheckFailed e, w4) \<Rightarrow> (Inl e, w4)
                     | (CheckStopped, w4) \<Rightarrow> (Inr 0, w4)
                     | (CheckGoesOn requeue2 di2, w4) \<Rightarrow> (Inr (opt_duration requeue2), w4)))))"


section \<open>The deadlines of a deploy item\<close>

text \<open>
  The specification of the delay: every check that is switched on and applies to the item, with
  its timeout and the time already waited. A check is pending while the timeout is not reached.
\<close>

definition pickup_deadline :: "di_controller \<Rightarrow> time_text \<Rightarrow> time \<Rightarrow> deploy_item \<Rightarrow> (duration \<times> duration) list" where
  "pickup_deadline con tt now di =
     (case GetTimestampAnnotation (tt_parse tt) (di_meta di) ReconcileTimestamp of
        Some ts \<Rightarrow> if dc_pickupTimeout con \<noteq> 0 \<and> \<not> failed_with PickupTimeoutReason di
            \<and> HasAnnotation (di_meta di) (timestamp_annotation_name ReconcileTimestamp)
          then [(dc_pickupTimeout con, time_sub now ts)] else []
      | None \<Rightarrow> [])"

definition aborting_deadline :: "di_controller \<Rightarrow> time_text \<Rightarrow> time \<Rightarrow> deploy_item \<Rightarrow> (duration \<times> duration) list" where
  "aborting_deadline con tt now di =
     (case GetTimestampAnnotation (tt_parse tt) (di_meta di) AbortTimestamp of
        Some ts \<Rightarrow> if dc_abortingTimeout con \<noteq> 0 \<and> ds_phase (di_status di) \<noteq> PhSucceeded \<and> ds_phase (di_status di) \<noteq> PhFailed
            \<and> HasAnnotation (di_meta di) (timestamp_annotation_name AbortTimestamp)
          then [(dc_abortingTimeout con, time_sub now ts)] else []
      | None \<Rightarrow> [])"

definition progressing_deadline :: "di_controller \<Rightarrow> time \<Rightarrow> deploy_item \<Rightarrow> (duration \<times> duration) list" where
  "progressing_deadline con now di =
     (if progressing_timeout con di \<noteq> 0 \<and> ds_phase (di_status di) \<noteq> PhSucceeded \<and> ds_phase (di_status di) \<noteq> PhFailed
        \<and> \<not> time_is_zero (ds_lastReconcileTime (di_status di))
      then [(progressing_timeout con di, time_sub now (the (ds_lastReconcileTime (di_status di))))] else [])"

definition deadlines :: "di_controller \<Rightarrow> time_text \<Rightarrow> time \<Rightarrow> deploy_item \<Rightarrow> (duration \<times> duration) list" where
  "deadlines con tt now di =
     pickup_deadline con tt now di @ aborting_deadline con tt now di @ progressing_deadline con now di"

definition elapsed :: "(duration \<times> duration) list \<Rightarrow> bool" where
  "elapsed ds \<longleftrightarrow> list_ex (\<lambda>(timeout, waited). timeout \<le> waited) ds"

definition earliest :: "(duration \<times> duration) list \<Rightarrow> duration" where
  "earliest ds = (if ds = [] then 0 else Min (set (map (\<lambda>(timeout, waited). timeout - waited) ds)) + 5 * second)"

lemma failed_with_phase: "failed_with reason di \<Longrightarrow> ds_phase (di_status di) = PhFailed"
  by (simp add: failed_with_def)

lemma fail_with_timeout_sel [simp]:
  "di_meta (fail_with_timeout now op reason msg di) = di_meta di"
  "di_spec (fail_with_timeout now op reason msg di) = di_spec di"
  "failed_with reason (fail_with_timeout now op reason msg di)"
  by (simp_all add: fail_with_timeout_def failed_with_def UpdatedError_def Let_def split: option.splits)

lemma detectPickup_cases:
  assumes "detectPickupTimeouts con tt now di = Inr (q, di1)" "dc_pickupTimeout con \<noteq> 0"
  shows "(\<not> elapsed (pickup_deadline con tt now di) \<and> di1 = di
            \<and> q = (case pickup_deadline con tt now di of [] \<Rightarrow> None | d # _ \<Rightarrow> Some (requeue_delay (fst d) (snd d))))
       \<or> (elapsed (pickup_deadline con tt now di) \<and> q = None \<and> failed_with PickupTimeoutReason di1 \<and> \<not> failed_with PickupTimeoutReason di
            \<and> di_meta di1 = di_meta di \<and> di_spec di1 = di_spec di)"
  using assms
  by (auto simp: detectPickupTimeouts_def pickup_deadline_def elapsed_def Let_def
      split: if_splits option.splits list.splits)

lemma detectAborting_cases:
  assumes "detectAbortingTimeouts con tt now di = Inr (q, di1)" "dc_abortingTimeout con \<noteq> 0"
  shows "(\<not> elapsed (aborting_deadline con tt now di) \<and> di_status di1 = di_status di \<and> di_spec di1 = di_spec di
            \<and> q = (case aborting_deadline con tt now di of [] \<Rightarrow> None | d # _ \<Rightarrow> Some (requeue_delay (fst d) (snd d)))
            \<and> di_meta di1 = (if failed_with AbortingTimeoutReason di then RemoveAbortOperationAndTimestamp (di_meta di) else di_meta di))
       \<or> (elapsed (aborting_deadline con tt now di) \<and> q = None \<and> failed_with AbortingTimeoutReason di1
            \<and> \<not> failed_with AbortingTimeoutReason di
            \<and> di_meta di1 = RemoveAbortOperationAndTimestamp (di_meta di) \<and> di_spec di1 = di_spec di)"
  using assms
  by (auto simp: detectAbortingTimeouts_def aborting_deadline_def elapsed_def Let_def failed_with_phase
      split: if_splits option.splits list.splits)

lemma detectProgressing_cases:
  assumes "detectProgressingTimeouts con tt now di = (q, di1)" "\<not> progressing_check_off con di"
  shows "(\<not> elapsed (progressing_deadline con now di) \<and> di1 = di
            \<and> q = (case progressing_deadline con now di of [] \<Rightarrow> None | d # _ \<Rightarrow> Some (requeue_delay (fst d) (snd d))))
       \<or> (elapsed (progressing_deadline con now di) \<and> q = None
            \<and> di1 = di\<lparr>di_meta := SetAbortOperationAndTimestamp (tt_format tt) now (di_meta di)\<rparr>)"
  using assms
  by (auto simp: detectProgressingTimeouts_def progressing_deadline_def elapsed_def Let_def progressing_check_off_def
        progressing_timeout_def time_is_zero_def
      split: if_splits option.splits list.splits)

lemma progressing_off_deadline: "progressing_check_off con di \<Longrightarrow> progressing_deadline con now di = []"
  by (auto simp: progressing_check_off_def progressing_deadline_def progressing_timeout_def)

lemma pickup_off_deadline: "dc_pickupTimeout con = 0 \<Longrightarrow> pickup_deadline con tt now di = []"
  by (simp add: pickup_deadline_def split: option.splits)

lemma aborting_off_deadline: "dc_abortingTimeout con = 0 \<Longrightarrow> aborting_deadline con tt now di = []"
  by (simp add: aborting_deadline_def split: option.splits)

lemma requeue_delay_exact:
  assumes "0 \<le> waited" "waited < timeout" "timeout \<le> max_duration - 5 * second"
  shows "requeue_delay timeout waited = timeout - waited + 5 * second"
  using assms by (simp add: requeue_delay_def wrap64_id go_defs)


definition pending_delay :: "(duration \<times> duration) list \<Rightarrow> duration option" where
  "pending_delay ds = (case ds of [] \<Rightarrow> None | d # _ \<Rightarrow> Some (requeue_delay (fst d) (snd d)))"

lemma failed_with_status: "di_status a = di_status b \<Longrightarrow> failed_with r a = failed_with r b"
  by (simp add: failed_with_def)

lemma store_status_log:
  "store_status (logged c) di s = (e, s1) \<Longrightarrow>
     snd s1 = snd s @ [StatusUpdateItem di] \<and> (e = CheckStopped \<or> (\<exists>x. e = CheckFailed x))"
  by (auto simp: store_status_def logged_call_def case_prod_beta split: prod.splits sum.splits)

lemma store_annotations_runs:
  "store_annotations (logged c) old q di s = (e, s1) \<Longrightarrow>
     (om_annotations (di_meta old) = om_annotations (di_meta di) \<and> s1 = s \<and> e = CheckGoesOn q di)
   \<or> (om_annotations (di_meta old) \<noteq> om_annotations (di_meta di) \<and> snd s1 = snd s @ [UpdateItem di]
        \<and> (\<exists>d. e = CheckGoesOn q d \<or> (\<exists>x. e = CheckFailed x)))"
  by (auto simp: store_annotations_def logged_call_def case_prod_beta split: prod.splits sum.splits if_splits)

lemma check_pickup_runs:
  assumes "check_pickup con tt (logged c) di s = (e, s1)"
  shows "(s1 = s \<and> (\<exists>x. e = CheckFailed x))
    \<or> (s1 = s \<and> \<not> elapsed (pickup_deadline con tt (kc_now c (fst s)) di)
         \<and> e = CheckGoesOn (pending_delay (pickup_deadline con tt (kc_now c (fst s)) di)) di)
    \<or> (elapsed (pickup_deadline con tt (kc_now c (fst s)) di)
         \<and> (\<exists>d. snd s1 = snd s @ [StatusUpdateItem d] \<and> failed_with PickupTimeoutReason d
              \<and> di_meta d = di_meta di \<and> di_spec d = di_spec di)
         \<and> (e = CheckStopped \<or> (\<exists>x. e = CheckFailed x)))"
proof (cases "dc_pickupTimeout con = 0")
  case True
  then show ?thesis using assms
    by (simp add: check_pickup_def pickup_off_deadline elapsed_def pending_delay_def)
next
  case False
  show ?thesis
  proof (cases "detectPickupTimeouts con tt (kc_now c (fst s)) di")
    case (Inl x)
    then show ?thesis using assms False by (auto simp: check_pickup_def)
  next
    case (Inr p)
    obtain q di1 where p: "p = (q, di1)" by (cases p)
    have e: "(e, s1) = (if di_status di \<noteq> di_status di1 then store_status (logged c) di1 s else (CheckGoesOn q di1, s))"
      using assms False Inr p by (simp add: check_pickup_def)
    show ?thesis
      using detectPickup_cases [OF Inr [unfolded p] False]
    proof
      assume a: "\<not> elapsed (pickup_deadline con tt (kc_now c (fst s)) di) \<and> di1 = di
            \<and> q = (case pickup_deadline con tt (kc_now c (fst s)) di of [] \<Rightarrow> None | d # _ \<Rightarrow> Some (requeue_delay (fst d) (snd d)))"
      then show ?thesis using e by (simp add: pending_delay_def)
    next
      assume a: "elapsed (pickup_deadline con tt (kc_now c (fst s)) di) \<and> q = None \<and> failed_with PickupTimeoutReason di1
            \<and> \<not> failed_with PickupTimeoutReason di \<and> di_meta di1 = di_meta di \<and> di_spec di1 = di_spec di"
      then have "di_status di \<noteq> di_status di1" using failed_with_status by metis
      then have "store_status (logged c) di1 s = (e, s1)" using e by simp
      then show ?thesis using a store_status_log by metis
    qed
  qed
qed

lemma RemoveAbort_same:
  "om_annotations m = om_annotations (RemoveAbortOperationAndTimestamp m) \<Longrightarrow> RemoveAbortOperationAndTimestamp m = m"
  by (cases m) (auto simp: RemoveAbortOperationAndTimestamp_def Let_def split: if_splits)

text \<open>The annotations of an abort that an item keeps which the aborting timeout has failed.\<close>

definition without_abort :: "deploy_item \<Rightarrow> deploy_item" where
  "without_abort di = di\<lparr>di_meta := RemoveAbortOperationAndTimestamp (di_meta di)\<rparr>"

definition stale_abort :: "di_controller \<Rightarrow> deploy_item \<Rightarrow> bool" where
  "stale_abort con di \<longleftrightarrow> dc_abortingTimeout con \<noteq> 0 \<and> om_annotations (di_meta (without_abort di)) \<noteq> om_annotations (di_meta di)"

lemma check_aborting_runs:
  assumes "check_aborting con tt (logged c) old q0 old s = (e, s1)"
  shows "(s1 = s \<and> (\<exists>x. e = CheckFailed x))
    \<or> (s1 = s \<and> \<not> elapsed (aborting_deadline con tt (kc_now c (fst s)) old) \<and> (failed_with AbortingTimeoutReason old \<longrightarrow> \<not> stale_abort con old)
         \<and> e = CheckGoesOn (earlier_requeue q0 (pending_delay (aborting_deadline con tt (kc_now c (fst s)) old))) old)
    \<or> (failed_with AbortingTimeoutReason old \<and> stale_abort con old \<and> snd s1 = snd s @ [UpdateItem (without_abort old)]
         \<and> ((\<exists>q d. e = CheckGoesOn q d) \<or> (\<exists>x. e = CheckFailed x)))
    \<or> (elapsed (aborting_deadline con tt (kc_now c (fst s)) old)
         \<and> (\<exists>d. snd s1 = snd s @ [StatusUpdateItem d] \<and> failed_with AbortingTimeoutReason d
              \<and> di_meta d = RemoveAbortOperationAndTimestamp (di_meta old) \<and> di_spec d = di_spec old)
         \<and> (e = CheckStopped \<or> (\<exists>x. e = CheckFailed x)))"
proof (cases "dc_abortingTimeout con = 0")
  case True
  then show ?thesis using assms
    by (auto simp: check_aborting_def aborting_off_deadline elapsed_def pending_delay_def earlier_requeue_def stale_abort_def
        split: option.splits)
next
  case False
  show ?thesis
  proof (cases "detectAbortingTimeouts con tt (kc_now c (fst s)) old")
    case (Inl x)
    then show ?thesis using assms False by (auto simp: check_aborting_def)
  next
    case (Inr p)
    obtain q di1 where p: "p = (q, di1)" by (cases p)
    have e: "(e, s1) = (if di_status old \<noteq> di_status di1 then store_status (logged c) di1 s
        else store_annotations (logged c) old (earlier_requeue q0 q) di1 s)"
      using assms False Inr p by (simp add: check_aborting_def)
    show ?thesis
      using detectAborting_cases [OF Inr [unfolded p] False]
    proof
      assume a: "\<not> elapsed (aborting_deadline con tt (kc_now c (fst s)) old) \<and> di_status di1 = di_status old \<and> di_spec di1 = di_spec old
            \<and> q = (case aborting_deadline con tt (kc_now c (fst s)) old of [] \<Rightarrow> None | d # _ \<Rightarrow> Some (requeue_delay (fst d) (snd d)))
            \<and> di_meta di1 = (if failed_with AbortingTimeoutReason old then RemoveAbortOperationAndTimestamp (di_meta old) else di_meta old)"
      have sa: "store_annotations (logged c) old (earlier_requeue q0 q) di1 s = (e, s1)" using e a by simp
      show ?thesis
      proof (cases "om_annotations (di_meta old) = om_annotations (di_meta di1)")
        case True
        moreover have m: "di_meta di1 = (if failed_with AbortingTimeoutReason old
            then RemoveAbortOperationAndTimestamp (di_meta old) else di_meta old)" using a by blast
        moreover have "failed_with AbortingTimeoutReason old \<longrightarrow> \<not> stale_abort con old"
          using calculation by (simp add: stale_abort_def without_abort_def)
        ultimately have ns: "failed_with AbortingTimeoutReason old \<longrightarrow> \<not> stale_abort con old" and "di_meta di1 = di_meta old"
          using RemoveAbort_same by (simp_all split: if_splits)
        then have old: "di1 = old" using a by simp
        have "s1 = s \<and> e = CheckGoesOn (earlier_requeue q0 q) di1" using store_annotations_runs [OF sa] True by blast
        moreover have "q = pending_delay (aborting_deadline con tt (kc_now c (fst s)) old)"
          using a unfolding pending_delay_def by blast
        ultimately show ?thesis using a ns unfolding old by blast
      next
        case False
        moreover have "di_meta di1 = (if failed_with AbortingTimeoutReason old
            then RemoveAbortOperationAndTimestamp (di_meta old) else di_meta old)" using a by blast
        ultimately have f: "failed_with AbortingTimeoutReason old" by (simp split: if_splits)
        then have "di1 = without_abort old" using a by (simp add: without_abort_def)
        moreover have "snd s1 = snd s @ [UpdateItem di1] \<and> (\<exists>d. e = CheckGoesOn (earlier_requeue q0 q) d \<or> (\<exists>x. e = CheckFailed x))"
          using store_annotations_runs [OF sa] \<open>om_annotations (di_meta old) \<noteq> om_annotations (di_meta di1)\<close> by metis
        moreover have "stale_abort con old"
          using calculation(1) \<open>om_annotations (di_meta old) \<noteq> om_annotations (di_meta di1)\<close> \<open>dc_abortingTimeout con \<noteq> 0\<close>
          by (auto simp: stale_abort_def)
        ultimately show ?thesis using f by metis
      qed
    next
      assume a: "elapsed (aborting_deadline con tt (kc_now c (fst s)) old) \<and> q = None \<and> failed_with AbortingTimeoutReason di1
            \<and> \<not> failed_with AbortingTimeoutReason old
            \<and> di_meta di1 = RemoveAbortOperationAndTimestamp (di_meta old) \<and> di_spec di1 = di_spec old"
      then have "di_status old \<noteq> di_status di1" using failed_with_status by metis
      then have "store_status (logged c) di1 s = (e, s1)" using e by simp
      then show ?thesis using a store_status_log by metis
    qed
  qed
qed

lemma check_progressing_runs:
  assumes "check_progressing con tt (logged c) old q0 old s = (e, s1)"
  shows "(s1 = s \<and> \<not> elapsed (progressing_deadline con (kc_now c (fst s)) old)
         \<and> e = CheckGoesOn (earlier_requeue q0 (pending_delay (progressing_deadline con (kc_now c (fst s)) old))) old)
    \<or> (elapsed (progressing_deadline con (kc_now c (fst s)) old) \<and> s1 = s
         \<and> om_annotations (SetAbortOperationAndTimestamp (tt_format tt) (kc_now c (fst s)) (di_meta old)) = om_annotations (di_meta old)
         \<and> (\<exists>d. e = CheckGoesOn q0 d))
    \<or> (elapsed (progressing_deadline con (kc_now c (fst s)) old)
         \<and> om_annotations (SetAbortOperationAndTimestamp (tt_format tt) (kc_now c (fst s)) (di_meta old)) \<noteq> om_annotations (di_meta old)
         \<and> snd s1 = snd s @ [UpdateItem (old\<lparr>di_meta := SetAbortOperationAndTimestamp (tt_format tt) (kc_now c (fst s)) (di_meta old)\<rparr>)]
         \<and> (\<exists>d. e = CheckGoesOn q0 d \<or> (\<exists>x. e = CheckFailed x)))"
proof (cases "progressing_check_off con old")
  case True
  then show ?thesis using assms
    by (auto simp: check_progressing_def progressing_off_deadline elapsed_def pending_delay_def earlier_requeue_def split: option.splits)
next
  case False
  obtain q di1 where d: "detectProgressingTimeouts con tt (kc_now c (fst s)) old = (q, di1)"
    by (cases "detectProgressingTimeouts con tt (kc_now c (fst s)) old")
  have sa: "store_annotations (logged c) old (earlier_requeue q0 q) di1 s = (e, s1)"
    using assms False d by (simp add: check_progressing_def)
  have q0: "earlier_requeue q0 None = q0" by (simp add: earlier_requeue_def split: option.splits)
  show ?thesis
    using detectProgressing_cases [OF d False] store_annotations_runs [OF sa] q0
    by (auto simp: pending_delay_def)
qed


lemma di_Reconcile_runs:
  assumes run: "di_Reconcile con tt (logged c) req (w, []) = (r, w1, log)"
    and g: "rc_get (kc_deployItems c) req w = (Inr old, w0)"
    and nf: "failed_with AbortingTimeoutReason old \<longrightarrow> \<not> stale_abort con old"
  shows "(log = [] \<and> (\<exists>x. r = Inl x))
    \<or> (log = [] \<and> \<not> elapsed (pickup_deadline con tt (kc_now c w0) old) \<and> \<not> elapsed (aborting_deadline con tt (kc_now c w0) old)
        \<and> (\<not> elapsed (progressing_deadline con (kc_now c w0) old)
           \<and> r = Inr (opt_duration (earlier_requeue (earlier_requeue
               (pending_delay (pickup_deadline con tt (kc_now c w0) old))
               (pending_delay (aborting_deadline con tt (kc_now c w0) old)))
               (pending_delay (progressing_deadline con (kc_now c w0) old))))
         \<or> elapsed (progressing_deadline con (kc_now c w0) old)
           \<and> om_annotations (SetAbortOperationAndTimestamp (tt_format tt) (kc_now c w0) (di_meta old)) = om_annotations (di_meta old)))
    \<or> (elapsed (pickup_deadline con tt (kc_now c w0) old)
        \<and> (\<exists>d. log = [StatusUpdateItem d] \<and> failed_with PickupTimeoutReason d \<and> di_meta d = di_meta old \<and> di_spec d = di_spec old))
    \<or> (\<not> elapsed (pickup_deadline con tt (kc_now c w0) old) \<and> elapsed (aborting_deadline con tt (kc_now c w0) old)
        \<and> (\<exists>d. log = [StatusUpdateItem d] \<and> failed_with AbortingTimeoutReason d
             \<and> di_meta d = RemoveAbortOperationAndTimestamp (di_meta old) \<and> di_spec d = di_spec old))
    \<or> (\<not> elapsed (pickup_deadline con tt (kc_now c w0) old) \<and> \<not> elapsed (aborting_deadline con tt (kc_now c w0) old)
        \<and> elapsed (progressing_deadline con (kc_now c w0) old)
        \<and> om_annotations (SetAbortOperationAndTimestamp (tt_format tt) (kc_now c w0) (di_meta old)) \<noteq> om_annotations (di_meta old)
        \<and> log = [UpdateItem (old\<lparr>di_meta := SetAbortOperationAndTimestamp (tt_format tt) (kc_now c w0) (di_meta old)\<rparr>)])"
proof -
  obtain e2 s2 where p: "check_pickup con tt (logged c) old (w0, []) = (e2, s2)" by (cases "check_pickup con tt (logged c) old (w0, [])")
  note R = run g p
  show ?thesis
  proof (cases e2)
    case (CheckFailed x)
    then have "r = Inl x \<and> (w1, log) = s2" using R by (simp add: di_Reconcile_def unlogged_call_def)
    then show ?thesis using check_pickup_runs [OF p] CheckFailed by auto
  next
    case CheckStopped
    then have "(w1, log) = s2" using R by (simp add: di_Reconcile_def unlogged_call_def)
    then show ?thesis using check_pickup_runs [OF p] CheckStopped by auto
  next
    case (CheckGoesOn q2 di2)
    then have P: "s2 = (w0, [])" "\<not> elapsed (pickup_deadline con tt (kc_now c w0) old)" "di2 = old"
        "q2 = pending_delay (pickup_deadline con tt (kc_now c w0) old)"
      using check_pickup_runs [OF p] by auto
    obtain e3 s3 where a: "check_aborting con tt (logged c) old q2 old (w0, []) = (e3, s3)"
      by (cases "check_aborting con tt (logged c) old q2 old (w0, [])")
    show ?thesis
    proof (cases e3)
      case (CheckFailed x)
      then have "r = Inl x \<and> (w1, log) = s3" using R a CheckGoesOn P by (simp add: di_Reconcile_def unlogged_call_def)
      then show ?thesis using check_aborting_runs [OF a] CheckFailed nf P(2) by auto
    next
      case CheckStopped
      then have "(w1, log) = s3" using R a CheckGoesOn P by (simp add: di_Reconcile_def unlogged_call_def)
      then show ?thesis using check_aborting_runs [OF a] CheckStopped nf P(2) by auto
    next
      case (CheckGoesOn q3 di3)
      then have A: "s3 = (w0, [])" "\<not> elapsed (aborting_deadline con tt (kc_now c w0) old)" "di3 = old"
          "q3 = earlier_requeue q2 (pending_delay (aborting_deadline con tt (kc_now c w0) old))"
        using check_aborting_runs [OF a] nf by auto
      obtain e4 s4 where b: "check_progressing con tt (logged c) old q3 old (w0, []) = (e4, s4)"
        by (cases "check_progressing con tt (logged c) old q3 old (w0, [])")
      have E: "(r, w1, log) = (case e4 of CheckFailed e \<Rightarrow> (Inl e, s4) | CheckStopped \<Rightarrow> (Inr 0, s4)
          | CheckGoesOn q d \<Rightarrow> (Inr (opt_duration q), s4))"
        using R a b CheckGoesOn \<open>e2 = CheckGoesOn q2 di2\<close> P A by (simp add: di_Reconcile_def unlogged_call_def)
      show ?thesis using check_progressing_runs [OF b] E P(2,4) A(2,4) by auto
    qed
  qed
qed

lemma single_deadline:
  "length (pickup_deadline con tt now di) \<le> 1" "length (aborting_deadline con tt now di) \<le> 1"
  "length (progressing_deadline con now di) \<le> 1"
  by (simp_all add: pickup_deadline_def aborting_deadline_def progressing_deadline_def split: option.splits)

definition in_range :: "(duration \<times> duration) list \<Rightarrow> bool" where
  "in_range ds \<longleftrightarrow> list_all (\<lambda>(timeout, waited). 0 \<le> waited \<and> timeout \<le> max_duration - 5 * second) ds"

lemma list_le_one: "length xs \<le> 1 \<Longrightarrow> xs = [] \<or> (\<exists>x. xs = [x])"
  by (cases xs) auto

lemma pending_delay_exact:
  "in_range [d] \<Longrightarrow> \<not> elapsed [d] \<Longrightarrow> pending_delay [d] = Some (fst d - snd d + 5 * second)"
  by (simp add: pending_delay_def in_range_def elapsed_def case_prod_beta requeue_delay_exact)

lemma earliest_of_three:
  assumes l: "length p \<le> 1" "length a \<le> 1" "length g \<le> 1"
    and r: "in_range (p @ a @ g)" and ne: "\<not> elapsed p" "\<not> elapsed a" "\<not> elapsed g"
  shows "opt_duration (earlier_requeue (earlier_requeue (pending_delay p) (pending_delay a)) (pending_delay g))
    = earliest (p @ a @ g)"
proof -
  have P: "p = [] \<or> (\<exists>x. p = [x] \<and> pending_delay p = Some (fst x - snd x + 5 * second))"
    using list_le_one [OF l(1)] r ne(1) pending_delay_exact by (auto simp: in_range_def)
  have A: "a = [] \<or> (\<exists>x. a = [x] \<and> pending_delay a = Some (fst x - snd x + 5 * second))"
    using list_le_one [OF l(2)] r ne(2) pending_delay_exact by (auto simp: in_range_def)
  have G: "g = [] \<or> (\<exists>x. g = [x] \<and> pending_delay g = Some (fst x - snd x + 5 * second))"
    using list_le_one [OF l(3)] r ne(3) pending_delay_exact by (auto simp: in_range_def)
  have N: "pending_delay [] = None" by (simp add: pending_delay_def)
  from P A G N show ?thesis
    by (elim disjE exE conjE)
      (auto simp: earlier_requeue_def opt_duration_def earliest_def min_def case_prod_beta)
qed

section \<open>What a check does\<close>

lemma failed_with_no_deadline:
  "failed_with reason old \<Longrightarrow> aborting_deadline con tt now old = [] \<and> progressing_deadline con now old = []"
  by (auto simp: failed_with_def aborting_deadline_def progressing_deadline_def split: option.split)

text \<open>An item that the aborting timeout has failed, with annotations of the abort left.\<close>

lemma di_Reconcile_stale_abort:
  assumes run: "di_Reconcile con tt (logged c) req (w, []) = (r, w1, log)"
    and g: "rc_get (kc_deployItems c) req w = (Inr old, w0)"
    and f: "failed_with AbortingTimeoutReason old" "stale_abort con old"
  shows "(log = [] \<and> (\<exists>x. r = Inl x))
    \<or> (elapsed (pickup_deadline con tt (kc_now c w0) old)
        \<and> (\<exists>d. log = [StatusUpdateItem d] \<and> failed_with PickupTimeoutReason d \<and> di_meta d = di_meta old \<and> di_spec d = di_spec old))
    \<or> (\<not> elapsed (pickup_deadline con tt (kc_now c w0) old) \<and> (\<exists>ds. log = UpdateItem (without_abort old) # map UpdateItem ds \<and> length ds \<le> 1))"
proof -
  obtain e2 s2 where p: "check_pickup con tt (logged c) old (w0, []) = (e2, s2)" by (cases "check_pickup con tt (logged c) old (w0, [])")
  note R = run g p
  show ?thesis
  proof (cases e2)
    case (CheckGoesOn q2 di2)
    then have P: "s2 = (w0, [])" "\<not> elapsed (pickup_deadline con tt (kc_now c w0) old)" "di2 = old"
      using check_pickup_runs [OF p] by auto
    obtain e3 s3 where a: "check_aborting con tt (logged c) old q2 old (w0, []) = (e3, s3)"
      by (cases "check_aborting con tt (logged c) old q2 old (w0, [])")
    have A: "s3 = (w0, []) \<and> (\<exists>x. e3 = CheckFailed x)
        \<or> snd s3 = [UpdateItem (without_abort old)] \<and> ((\<exists>q d. e3 = CheckGoesOn q d) \<or> (\<exists>x. e3 = CheckFailed x))"
      using check_aborting_runs [OF a] f failed_with_no_deadline [OF f(1)] by (auto simp: elapsed_def)
    show ?thesis
    proof (cases e3)
      case (CheckGoesOn q3 di3)
      obtain e4 s4 where b: "check_progressing con tt (logged c) old q3 di3 s3 = (e4, s4)"
        by (cases "check_progressing con tt (logged c) old q3 di3 s3")
      have "\<exists>ds. snd s4 = snd s3 @ map UpdateItem ds \<and> length ds \<le> 1"
      proof (cases "progressing_check_off con di3")
        case False
        obtain q d where "detectProgressingTimeouts con tt (kc_now c (fst s3)) di3 = (q, d)" by (metis surj_pair)
        with b False have "store_annotations (logged c) old (earlier_requeue q3 q) d s3 = (e4, s4)" by (simp add: check_progressing_def)
        from store_annotations_runs [OF this] have "snd s4 = snd s3 @ map UpdateItem [] \<or> snd s4 = snd s3 @ map UpdateItem [d]" by auto
        then show ?thesis by (metis One_nat_def length_Cons le_SucI le_refl list.size(3))
      qed (use b in \<open>simp add: check_progressing_def\<close>)
      moreover have "(w1, log) = s4"
        using R a b CheckGoesOn \<open>e2 = CheckGoesOn q2 di2\<close> P by (cases e4) (simp_all add: di_Reconcile_def unlogged_call_def)
      ultimately show ?thesis using A CheckGoesOn P(2) by auto
    qed (use R a \<open>e2 = CheckGoesOn q2 di2\<close> P A in \<open>auto simp: di_Reconcile_def unlogged_call_def\<close>)
  qed (use R check_pickup_runs [OF p] in \<open>auto simp: di_Reconcile_def unlogged_call_def\<close>)
qed

text \<open>
  C5: what a check writes. The pickup timeout comes first: when it has elapsed, it fails the item. An item that the aborting
  timeout has failed before only loses the annotations of the abort, where it has some (the check compares with the
  item that it read, so the answer of the server may be written once more). Otherwise an elapsed aborting timeout fails the item
  and drops the abort annotations, and then an elapsed progressing timeout requests the abort and changes nothing else.
  In all other cases nothing is written. The statement is about checks that do not end with an
  error before they write anything.
\<close>

theorem timeouts_act_when_elapsed:
  assumes "di_Reconcile con tt (logged c) req (w, []) = (r, w1, log)"
    and "rc_get (kc_deployItems c) req w = (Inr old, w0)"
    and "\<forall>e. \<not> (r = Inl e \<and> log = [])"
  shows "(if elapsed (pickup_deadline con tt (kc_now c w0) old)
          then \<exists>d. log = [StatusUpdateItem d] \<and> failed_with PickupTimeoutReason d
                 \<and> di_meta d = di_meta old \<and> di_spec d = di_spec old
          else if failed_with AbortingTimeoutReason old
          then (if stale_abort con old then \<exists>ds. log = UpdateItem (without_abort old) # map UpdateItem ds \<and> length ds \<le> 1 else log = [])
          else if elapsed (aborting_deadline con tt (kc_now c w0) old)
          then \<exists>d. log = [StatusUpdateItem d] \<and> failed_with AbortingTimeoutReason d
                 \<and> di_meta d = RemoveAbortOperationAndTimestamp (di_meta old) \<and> di_spec d = di_spec old
          else if elapsed (progressing_deadline con (kc_now c w0) old)
            \<and> om_annotations (SetAbortOperationAndTimestamp (tt_format tt) (kc_now c w0) (di_meta old)) \<noteq> om_annotations (di_meta old)
          then log = [UpdateItem (old\<lparr>di_meta := SetAbortOperationAndTimestamp (tt_format tt) (kc_now c w0) (di_meta old)\<rparr>)]
          else log = [])"
proof (cases "failed_with AbortingTimeoutReason old \<and> stale_abort con old")
  case True
  with di_Reconcile_stale_abort [OF assms(1,2)] assms(3) show ?thesis by fastforce
next
  case False
  then have "failed_with AbortingTimeoutReason old \<longrightarrow> \<not> stale_abort con old" by simp
  note R = di_Reconcile_runs [OF assms(1,2) this]
  show ?thesis
  proof (cases "failed_with AbortingTimeoutReason old")
    case True
    then have "\<not> elapsed (aborting_deadline con tt (kc_now c w0) old)" "\<not> elapsed (progressing_deadline con (kc_now c w0) old)"
      by (simp_all add: failed_with_no_deadline elapsed_def)
    with R assms(3) False True show ?thesis by auto
  next
    case f: False
    show ?thesis using R assms(3) f by fastforce
  qed
qed

text \<open>
  C29: a check that finds no elapsed timeout asks to be called again 5 seconds after the earliest
  deadline of the item, and not at all when the item has none. The timeouts are at most
  \<open>max_duration\<close> less 5 seconds and no recorded time is in the future, otherwise the 64 bit
  arithmetic wraps.
\<close>

theorem requeue_at_earliest_deadline:
  assumes run: "di_Reconcile con tt (logged c) req (w, []) = (Inr delay, w1, [])"
    and g: "rc_get (kc_deployItems c) req w = (Inr old, w0)"
    and nf: "\<not> failed_with AbortingTimeoutReason old"
    and r: "in_range (deadlines con tt (kc_now c w0) old)"
    and ne: "\<not> elapsed (deadlines con tt (kc_now c w0) old)"
  shows "delay = earliest (deadlines con tt (kc_now c w0) old)
    \<and> (deadlines con tt (kc_now c w0) old = [] \<or> 5 * second < delay)"
proof -
  let ?p = "pickup_deadline con tt (kc_now c w0) old"
  let ?a = "aborting_deadline con tt (kc_now c w0) old"
  let ?g = "progressing_deadline con (kc_now c w0) old"
  have n: "\<not> elapsed ?p" "\<not> elapsed ?a" "\<not> elapsed ?g" using ne by (simp_all add: deadlines_def elapsed_def)
  then have "delay = opt_duration (earlier_requeue (earlier_requeue (pending_delay ?p) (pending_delay ?a)) (pending_delay ?g))"
    using di_Reconcile_runs [OF run g] nf by fastforce
  then have e: "delay = earliest (deadlines con tt (kc_now c w0) old)"
    using earliest_of_three [OF single_deadline r [unfolded deadlines_def] n] by (simp add: deadlines_def)
  have "5 * second < delay" if "deadlines con tt (kc_now c w0) old \<noteq> []"
    using that ne unfolding e earliest_def elapsed_def by (auto simp: list_ex_iff Min_gr_iff case_prod_beta)
  then show ?thesis using e by blast
qed

section \<open>A deploy item that waits\<close>

definition waiting_item :: deploy_item where
  "waiting_item = (example_item ''x'' PhProgressing)
     \<lparr>di_meta := (di_meta (example_item ''x'' PhProgressing))\<lparr>om_annotations := [(ReconcileTimestampAnnotation, ''t40'')]\<rparr>\<rparr>"

definition example_times :: time_text where
  "example_times = \<lparr>tt_format = \<lambda>t. ''now'', tt_parse = \<lambda>s. if s = ''t40'' then Some 40 else None,
     tt_parseError = \<lambda>s. PlainError ''parse''\<rparr>"

definition waiting_cluster :: cluster where
  "waiting_cluster = example_cluster (example_execution [] []) [waiting_item]"

definition waiting_run :: "duration \<Rightarrow> (gerr + duration) \<times> cluster \<times> api_write list" where
  "waiting_run pickup = di_Reconcile (di_NewController (Some pickup) (Some 30) (Some 600)) example_times (logged example_client)
     (ObjectKey ''x'' ''ns'') (waiting_cluster, [])"

lemma waiting_get: "rc_get (kc_deployItems example_client) (ObjectKey ''x'' ''ns'') waiting_cluster = (Inr waiting_item, waiting_cluster)"
  by code_simp

lemma waiting_not_failed: "\<not> failed_with AbortingTimeoutReason waiting_item"
  by code_simp

lemma waiting_run_ends: "fst (waiting_run 50) = Inr 0" "fst (waiting_run 300) = Inr 5000000240" "snd (snd (waiting_run 300)) = []"
  by code_simp+

lemma waiting_deadlines:
  "elapsed (pickup_deadline (di_NewController (Some 50) (Some 30) (Some 600)) example_times 100 waiting_item)"
  "\<not> elapsed (deadlines (di_NewController (Some 300) (Some 30) (Some 600)) example_times 100 waiting_item)"
  "in_range (deadlines (di_NewController (Some 300) (Some 30) (Some 600)) example_times 100 waiting_item)"
  by code_simp+

lemma waiting_time: "kc_now example_client waiting_cluster = 100"
  by code_simp

lemma timeouts_act_when_elapsed_witness:
  "\<exists>d. snd (snd (waiting_run 50)) = [StatusUpdateItem d] \<and> failed_with PickupTimeoutReason d"
proof -
  obtain r w log where m: "waiting_run 50 = (r, w, log)" by (rule prod_cases3)
  then have "\<forall>e. \<not> (r = Inl e \<and> log = [])" using waiting_run_ends(1) by simp
  from timeouts_act_when_elapsed [OF m [unfolded waiting_run_def] waiting_get this]
  show ?thesis using waiting_deadlines(1) by (auto simp: m waiting_time)
qed

lemma requeue_at_earliest_deadline_witness:
  "5000000240 = earliest (deadlines (di_NewController (Some 300) (Some 30) (Some 600)) example_times 100 waiting_item)"
proof -
  obtain r w log where m: "waiting_run 300 = (r, w, log)" by (rule prod_cases3)
  then have m2: "waiting_run 300 = (Inr 5000000240, w, [])" using waiting_run_ends by simp
  show ?thesis
    using requeue_at_earliest_deadline [OF m2 [unfolded waiting_run_def] waiting_get waiting_not_failed]
    by (simp add: waiting_time waiting_deadlines)
qed

end
