(* ===== verification/DeployerHooks.thy ===== *)
theory DeployerHooks
  imports ExampleCluster
begin

text \<open>
  The extension points of the deployer library: the results of hooks and their aggregation, the
  execution and registration of hooks (\<open>pkg/deployer/lib/extension\<close>), the hook for continuous
  reconciliation (\<open>pkg/deployer/lib/continuousreconcile\<close>) and the target selectors
  (\<open>pkg/deployer/lib/targetselector\<close>), with the laws of the aggregation and of the selectors.
\<close>

section \<open>Results of hooks (result.go)\<close>

record hook_result =
  hr_requeue :: bool
  hr_requeueAfter :: duration
  hr_abort :: bool

definition aggregate_two :: "(bool \<Rightarrow> bool \<Rightarrow> bool) \<Rightarrow> hook_result \<Rightarrow> hook_result \<Rightarrow> hook_result" where
  "aggregate_two aggregate res hr =
     (let res1 = res\<lparr>hr_requeue := hr_requeue res \<or> hr_requeue hr, hr_abort := aggregate (hr_abort res) (hr_abort hr)\<rparr>
      in if hr_requeue res1 then res1\<lparr>hr_requeueAfter := 0\<rparr>
         else if hr_requeueAfter hr > 0 \<and> (hr_requeueAfter res1 = 0 \<or> hr_requeueAfter hr < hr_requeueAfter res1)
         then res1\<lparr>hr_requeueAfter := hr_requeueAfter hr\<rparr> else res1)"

fun aggregate_results ::
    "(bool \<Rightarrow> bool \<Rightarrow> bool) \<Rightarrow> hook_result option \<Rightarrow> hook_result option list \<Rightarrow> hook_result option" where
  "aggregate_results aggregate res [] = res"
| "aggregate_results aggregate res (None # hrs) = aggregate_results aggregate res hrs"
| "aggregate_results aggregate None (Some hr # hrs) = aggregate_results aggregate (Some hr) hrs"
| "aggregate_results aggregate (Some res) (Some hr # hrs) =
     aggregate_results aggregate (Some (aggregate_two aggregate res hr)) hrs"

definition aggregateHookResults ::
    "(bool \<Rightarrow> bool \<Rightarrow> bool) \<Rightarrow> hook_result option list \<Rightarrow> hook_result option" where
  "aggregateHookResults aggregate hrs = aggregate_results aggregate None hrs"

definition AggregateHookResults :: "hook_result option list \<Rightarrow> hook_result option" where
  "AggregateHookResults hrs = aggregateHookResults (\<or>) hrs"

definition AggregateHookResultsWithInvertedAbortPriority :: "hook_result option list \<Rightarrow> hook_result option" where
  "AggregateHookResultsWithInvertedAbortPriority hrs = aggregateHookResults (\<and>) hrs"

section \<open>Hooks (hook.go)\<close>

datatype hook_type =
    StartHook | DuringResponsibilityCheckHook | AfterResponsibilityCheckHook | ShouldReconcileHook
  | BeforeAbortHook | BeforeForceReconcileHook | BeforeDeleteHook | BeforeReconcileHook
  | BeforeAnyReconcileHook | EndHook | OtherHook string

fun hook_name :: "hook_type \<Rightarrow> string" where
  "hook_name StartHook = ''Start''"
| "hook_name DuringResponsibilityCheckHook = ''DuringResponsibilityCheck''"
| "hook_name AfterResponsibilityCheckHook = ''AfterResponsibilityCheck''"
| "hook_name ShouldReconcileHook = ''ShouldReconcile''"
| "hook_name BeforeAbortHook = ''BeforeAbort''"
| "hook_name BeforeForceReconcileHook = ''BeforeForceReconcile''"
| "hook_name BeforeDeleteHook = ''BeforeDelete''"
| "hook_name BeforeReconcileHook = ''BeforeReconcile''"
| "hook_name BeforeAnyReconcileHook = ''BeforeAnyReconcile''"
| "hook_name EndHook = ''End''"
| "hook_name (OtherHook n) = n"

text \<open>
  A hook gets pointers to the deploy item and the target, both may be \<open>nil\<close>, and may change
  what they point to.
\<close>

type_synonym subject = "deploy_item option \<times> target option"

type_synonym 'w extension_hook = "subject \<Rightarrow> hook_type \<Rightarrow> 'w \<Rightarrow> hook_result option outcome \<times> subject \<times> 'w"

type_synonym 'w extension_hooks = "hook_type \<rightharpoonup> 'w extension_hook list"

definition pointee :: "'a option \<Rightarrow> 'a option \<Rightarrow> 'a option" where
  "pointee old new = (case old of None \<Rightarrow> None | Some x \<Rightarrow> (case new of None \<Rightarrow> Some x | Some y \<Rightarrow> Some y))"

fun run_hooks ::
    "hook_type \<Rightarrow> nat \<Rightarrow> 'w extension_hook list \<Rightarrow> subject \<Rightarrow> 'w \<Rightarrow> hook_result option list outcome \<times> subject \<times> 'w" where
  "run_hooks ht i [] sub w = (Done [], sub, w)"
| "run_hooks ht i (hook # hooks) sub w =
     (case hook sub ht w of
        (res, sub1, w1) \<Rightarrow>
          let sub2 = (pointee (fst sub) (fst sub1), pointee (snd sub) (snd sub1))
          in (case res of
                Panic \<Rightarrow> (Panic, sub2, w1)
              | Fail e \<Rightarrow>
                  (Fail (WrapError (''error executing reconciliation extension hook '' @ show_int (int i) @ '' of type ''
                     @ go_quote (hook_name ht) @ '': '' @ error_string e) e), sub2, w1)
              | Done hr \<Rightarrow>
                  (case run_hooks ht (Suc i) hooks sub2 w1 of
                     (Done hrs, sub3, w3) \<Rightarrow> (Done (hr # hrs), sub3, w3)
                   | (Fail e, sub3, w3) \<Rightarrow> (Fail e, sub3, w3)
                   | (Panic, sub3, w3) \<Rightarrow> (Panic, sub3, w3))))"

fun known_hook :: "hook_type \<Rightarrow> bool" where
  "known_hook (OtherHook n) = False"
| "known_hook _ = True"

definition ExecuteHooks ::
    "'w extension_hooks \<Rightarrow> subject \<Rightarrow> hook_type \<Rightarrow> 'w \<Rightarrow> hook_result option outcome \<times> subject \<times> 'w" where
  "ExecuteHooks hooks sub ht w =
     (case hooks ht of
        None \<Rightarrow> if known_hook ht then (Done None, sub, w)
                else (Fail (PlainError (''unknown hook type '' @ go_quote (hook_name ht))), sub, w)
      | Some typedHooks \<Rightarrow>
          (case run_hooks ht 0 typedHooks sub w of
             (Done hookRes, sub1, w1) \<Rightarrow>
               if ht = DuringResponsibilityCheckHook \<or> ht = ShouldReconcileHook
               then (Done (AggregateHookResultsWithInvertedAbortPriority hookRes), sub1, w1)
               else (Done (AggregateHookResults hookRes), sub1, w1)
           | (Fail e, sub1, w1) \<Rightarrow> (Fail e, sub1, w1)
           | (Panic, sub1, w1) \<Rightarrow> (Panic, sub1, w1)))"

definition register_one :: "'w extension_hook \<Rightarrow> hook_type \<Rightarrow> 'w extension_hooks \<Rightarrow> 'w extension_hooks" where
  "register_one hook ht hooks =
     (let hookList = (case hooks ht of None \<Rightarrow> [] | Some l \<Rightarrow> l) in hooks(ht \<mapsto> hookList @ [hook]))"

definition RegisterHook :: "'w extension_hooks \<Rightarrow> 'w extension_hook \<Rightarrow> hook_type list \<Rightarrow> 'w extension_hooks" where
  "RegisterHook hooks hook hts = fold (register_one hook) hts hooks"

section \<open>Continuous reconciliation (continuousreconcile/extension.go)\<close>

definition ContinuousReconcileActiveAnnotation :: string where
  "ContinuousReconcileActiveAnnotation = ''continuousreconcile.extensions.landscaper.gardener.cloud/active''"

definition Truncate :: "time \<Rightarrow> duration \<Rightarrow> time" where
  "Truncate t d = (if d \<le> 0 then t else t - t mod d)"

text \<open>
  \<open>nextReconcile\<close> computes the next time after a time; the extension dereferences the time of the
  last reconciliation.
\<close>

definition ContinuousReconcileExtension ::
    "('w \<Rightarrow> time) \<Rightarrow> (time \<Rightarrow> deploy_item \<Rightarrow> gerr + time option) \<Rightarrow> 'w extension_hook" where
  "ContinuousReconcileExtension clock nextReconcile sub ht w =
     (case fst sub of
        None \<Rightarrow> (Panic, sub, w)
      | Some di \<Rightarrow>
          if map_of (om_annotations (di_meta di)) ContinuousReconcileActiveAnnotation = Some ''false''
          then (Done None, sub, w)
          else case ds_lastReconcileTime (di_status di) of
            None \<Rightarrow> (Panic, sub, w)
          | Some lastTime \<Rightarrow>
              (case nextReconcile lastTime di of
                 Inl e \<Rightarrow> (Fail (WrapError (''unable to check whether reconciliation is due: '' @ error_string e) e), sub, w)
               | Inr None \<Rightarrow> (Done None, sub, w)
               | Inr (Some nextRaw) \<Rightarrow>
                   let next1 = Truncate nextRaw second;
                       now = Truncate (clock w) second;
                       res = \<lparr>hr_requeue = False, hr_requeueAfter = 0, hr_abort = False\<rparr>
                   in if now < next1
                      then (Done (Some (res\<lparr>hr_abort := True, hr_requeueAfter := time_sub next1 now\<rparr>)), sub, w)
                      else (case nextReconcile now di of
                              Inl e \<Rightarrow> (Fail (WrapError (''unable to compute next reconcile time: '' @ error_string e) e), sub, w)
                            | Inr None \<Rightarrow> (Done (Some res), sub, w)
                            | Inr (Some nextRaw2) \<Rightarrow>
                                (Done (Some (res\<lparr>hr_requeueAfter := time_sub (Truncate nextRaw2 second) now\<rparr>)), sub, w))))"

section \<open>Target selectors (selector.go)\<close>

text \<open>
  \<open>labels.NewRequirement\<close> of the Kubernetes library is an argument: an error, or the predicate of
  the requirement on labels.
\<close>

type_synonym requirement_matcher = "requirement \<Rightarrow> gerr + (smap \<Rightarrow> bool)"

fun MatchStringMap :: "requirement_matcher \<Rightarrow> smap \<Rightarrow> requirement list \<Rightarrow> gerr + bool" where
  "MatchStringMap rm m [] = Inr True"
| "MatchStringMap rm m (req # reqs) =
     (case rm req of
        Inl e \<Rightarrow> Inl e
      | Inr matches \<Rightarrow> if \<not> matches m then Inr False else MatchStringMap rm m reqs)"

fun MatchObjects :: "target \<Rightarrow> object_reference list \<Rightarrow> bool" where
  "MatchObjects t [] = False"
| "MatchObjects t (obj # objs) =
     (if or_name obj \<noteq> om_name (tg_meta t) then MatchObjects t objs
      else if or_namespace obj \<noteq> [] \<and> or_namespace obj \<noteq> om_namespace (tg_meta t) then MatchObjects t objs
      else True)"

definition match_map :: "requirement_matcher \<Rightarrow> smap \<Rightarrow> requirement list \<Rightarrow> gerr + bool" where
  "match_map rm m reqs = (if reqs \<noteq> [] then MatchStringMap rm m reqs else Inr True)"

definition MatchSelector :: "requirement_matcher \<Rightarrow> target \<Rightarrow> target_selector \<Rightarrow> gerr + bool" where
  "MatchSelector rm t sel =
     (if ts_targets sel \<noteq> [] \<and> \<not> MatchObjects t (ts_targets sel) then Inr False
      else case match_map rm (om_annotations (tg_meta t)) (ts_annotations sel) of
        Inl e \<Rightarrow> Inl e
      | Inr False \<Rightarrow> Inr False
      | Inr True \<Rightarrow> match_map rm (om_labels (tg_meta t)) (ts_labels sel))"

definition selector_error :: "nat \<Rightarrow> gerr \<Rightarrow> gerr" where
  "selector_error i e = WrapError (''unable to match selector '' @ show_int (int i) @ '': '' @ error_string e) e"

fun match_all_from :: "requirement_matcher \<Rightarrow> nat \<Rightarrow> target \<Rightarrow> target_selector list \<Rightarrow> gerr + bool" where
  "match_all_from rm i t [] = Inr True"
| "match_all_from rm i t (sel # sels) =
     (case MatchSelector rm t sel of
        Inl e \<Rightarrow> Inl (selector_error i e)
      | Inr ok \<Rightarrow> if \<not> ok then Inr False else match_all_from rm (Suc i) t sels)"

definition MatchAll :: "requirement_matcher \<Rightarrow> target \<Rightarrow> target_selector list \<Rightarrow> gerr + bool" where
  "MatchAll rm t sels = match_all_from rm 0 t sels"

fun match_one_from :: "requirement_matcher \<Rightarrow> nat \<Rightarrow> target \<Rightarrow> target_selector list \<Rightarrow> gerr + bool" where
  "match_one_from rm i t [] = Inr False"
| "match_one_from rm i t (sel # sels) =
     (case MatchSelector rm t sel of
        Inl e \<Rightarrow> Inl (selector_error i e)
      | Inr ok \<Rightarrow> if ok then Inr True else match_one_from rm (Suc i) t sels)"

definition MatchOne :: "requirement_matcher \<Rightarrow> target \<Rightarrow> target_selector list \<Rightarrow> gerr + bool" where
  "MatchOne rm t sels = match_one_from rm 0 t sels"


section \<open>The laws of the aggregation\<close>

text \<open>
  A result says when the item is reconciled again: now, after some time, or not on its own. The
  combined result of several hooks, as a specification: now if one says now, otherwise at the
  earliest time.
\<close>

fun present :: "hook_result option list \<Rightarrow> hook_result list" where
  "present [] = []"
| "present (None # hrs) = present hrs"
| "present (Some r # hrs) = r # present hrs"

definition clear_result :: "hook_result \<Rightarrow> bool" where
  "clear_result r \<longleftrightarrow> 0 \<le> hr_requeueAfter r \<and> (hr_requeue r \<longrightarrow> hr_requeueAfter r = 0)"

definition earliest_time :: "duration list \<Rightarrow> duration" where
  "earliest_time ds = (if filter (\<lambda>d. 0 < d) ds = [] then 0 else Min (set (filter (\<lambda>d. 0 < d) ds)))"

definition combined_result :: "(bool list \<Rightarrow> bool) \<Rightarrow> hook_result list \<Rightarrow> hook_result" where
  "combined_result abort rs =
     \<lparr>hr_requeue = list_ex hr_requeue rs,
      hr_requeueAfter = (if list_ex hr_requeue rs then 0 else earliest_time (map hr_requeueAfter rs)),
      hr_abort = abort (map hr_abort rs)\<rparr>"

lemma earliest_time_in: "filter (\<lambda>d. 0 < d) ds \<noteq> [] \<Longrightarrow> earliest_time ds \<in> set (filter (\<lambda>d. 0 < d) ds)"
  unfolding earliest_time_def by (metis List.finite_set Min_in set_empty)

lemma earliest_time_pos: "0 < earliest_time ds \<longleftrightarrow> filter (\<lambda>d. 0 < d) ds \<noteq> []" "0 \<le> earliest_time ds"
proof -
  show iff: "0 < earliest_time ds \<longleftrightarrow> filter (\<lambda>d. 0 < d) ds \<noteq> []"
  proof (cases "filter (\<lambda>d. 0 < d) ds = []")
    case True
    then show ?thesis by (simp add: earliest_time_def)
  next
    case False
    with earliest_time_in [OF False] show ?thesis by simp
  qed
  show "0 \<le> earliest_time ds"
    by (cases "filter (\<lambda>d. 0 < d) ds = []") (use iff in \<open>auto simp: earliest_time_def intro: less_imp_le\<close>)
qed

lemma earliest_time_Cons:
  assumes "0 \<le> a"
  shows "earliest_time (a # ds) =
    (if a = 0 then earliest_time ds else if earliest_time ds = 0 then a else min a (earliest_time ds))"
proof (cases "filter (\<lambda>d. 0 < d) ds = []")
  case True
  then have "earliest_time ds = 0" by (simp add: earliest_time_def)
  moreover have "earliest_time (a # ds) = a" using True assms unfolding earliest_time_def by simp
  ultimately show ?thesis by simp
next
  case False
  then have n: "earliest_time ds = Min (set (filter (\<lambda>d. 0 < d) ds))" "earliest_time ds \<noteq> 0"
    using earliest_time_pos(1) [of ds] by (simp_all add: earliest_time_def)
  have "set (filter (\<lambda>d. 0 < d) ds) \<noteq> {}" using False by (simp only: set_empty) simp
  then have "a \<noteq> 0 \<Longrightarrow> earliest_time (a # ds) = min a (Min (set (filter (\<lambda>d. 0 < d) ds)))"
    using assms unfolding earliest_time_def by simp
  moreover have "a = 0 \<Longrightarrow> earliest_time (a # ds) = earliest_time ds" unfolding earliest_time_def by simp
  ultimately show ?thesis using n by simp
qed

lemma earliest_time_merge:
  "0 \<le> a \<Longrightarrow> 0 \<le> b \<Longrightarrow>
     earliest_time (a # b # ds) = earliest_time ((if b > 0 \<and> (a = 0 \<or> b < a) then b else a) # ds)"
  using earliest_time_pos(2) [of ds] by (auto simp: earliest_time_Cons min_def)

lemma earliest_time_single [simp]: "0 \<le> a \<Longrightarrow> earliest_time [a] = a"
  by (simp add: earliest_time_def)

lemma clear_aggregate_two: "clear_result r \<Longrightarrow> clear_result s \<Longrightarrow> clear_result (aggregate_two agg r s)"
  by (auto simp: clear_result_def aggregate_two_def Let_def)

lemma combined_step:
  assumes "clear_result r" "clear_result s" "\<And>a b bs. abort (a # b # bs) = abort (agg a b # bs)"
  shows "combined_result abort (aggregate_two agg r s # rs) = combined_result abort (r # s # rs)"
proof -
  have "0 \<le> hr_requeueAfter r" "0 \<le> hr_requeueAfter s" using assms(1,2) by (simp_all add: clear_result_def)
  from earliest_time_merge [OF this] assms(3) show ?thesis
    by (auto simp: combined_result_def aggregate_two_def Let_def clear_result_def)
qed

lemma combined_single:
  "clear_result r \<Longrightarrow> (\<And>a. abort [a] = a) \<Longrightarrow> combined_result abort [r] = r"
  by (cases r) (auto simp: combined_result_def clear_result_def)

lemma aggregate_results_combined:
  assumes "\<And>a b bs. abort (a # b # bs) = abort (agg a b # bs)" "\<And>a. abort [a] = a"
  shows "clear_result r \<Longrightarrow> list_all clear_result (present hrs) \<Longrightarrow>
     aggregate_results agg (Some r) hrs = Some (combined_result abort (r # present hrs))"
proof (induction hrs arbitrary: r)
  case Nil
  then show ?case by (simp add: combined_single assms(2))
next
  case (Cons h hrs)
  show ?case
  proof (cases h)
    case None
    with Cons show ?thesis by simp
  next
    case (Some s)
    with Cons.prems have s: "clear_result s" and rest: "list_all clear_result (present hrs)"
      by simp_all
    from Cons.IH [OF clear_aggregate_two [OF Cons.prems(1) s] rest] Some
    show ?thesis by (simp add: combined_step [OF Cons.prems(1) s assms(1)])
  qed
qed

lemma aggregate_none:
  "aggregate_results agg None hrs = (case present hrs of [] \<Rightarrow> None
     | r # rs \<Rightarrow> aggregate_results agg (Some r) (map Some rs))"
proof (induction agg "None :: hook_result option" hrs rule: aggregate_results.induct)
  case (3 agg hr hrs)
  have "aggregate_results agg (Some hr) hrs = aggregate_results agg (Some hr) (map Some (present hrs))"
  proof (induction hrs arbitrary: hr)
    case (Cons h hrs)
    then show ?case by (cases h) simp_all
  qed simp
  then show ?case by simp
qed simp_all

lemma map_filter_id_Some [simp]: "present (map Some rs) = rs"
  by (induction rs) simp_all

lemma aggregate_combined:
  assumes "\<And>a b bs. abort (a # b # bs) = abort (agg a b # bs)" "\<And>a. abort [a] = a"
    and "list_all clear_result (present hrs)"
  shows "aggregateHookResults agg hrs =
     (if present hrs = [] then None else Some (combined_result abort (present hrs)))"
  using assms(3)
  by (auto simp: aggregateHookResults_def aggregate_none [of agg hrs] aggregate_results_combined [OF assms(1,2)]
      split: list.splits)

lemma combined_result_set:
  assumes "set rs = set ss" "abort (map hr_abort rs) = abort (map hr_abort ss)"
  shows "combined_result abort rs = combined_result abort ss"
proof -
  have "list_ex hr_requeue rs = list_ex hr_requeue ss" using assms(1) by (simp add: list_ex_iff)
  moreover have "earliest_time (map hr_requeueAfter rs) = earliest_time (map hr_requeueAfter ss)"
    using assms(1) by (auto simp: earliest_time_def filter_empty_conv image_iff
        intro!: arg_cong [where f = Min])
  ultimately show ?thesis using assms(2) by (simp add: combined_result_def)
qed

lemma present_iff: "r \<in> set (present hrs) \<longleftrightarrow> Some r \<in> set hrs"
  by (induction hrs rule: present.induct) auto

lemma combined_result_same_set:
  assumes "set hrs' = set hrs"
  shows "(present hrs' = [] \<longleftrightarrow> present hrs = []) \<and> list_all clear_result (present hrs') = list_all clear_result (present hrs)
    \<and> combined_result (list_ex id) (present hrs') = combined_result (list_ex id) (present hrs)
    \<and> combined_result (list_all id) (present hrs') = combined_result (list_all id) (present hrs)"
proof -
  have e: "set (present hrs') = set (present hrs)" using assms by (auto simp: present_iff)
  then have "combined_result (list_ex id) (present hrs') = combined_result (list_ex id) (present hrs)"
    by (intro combined_result_set) (auto simp: list_ex_iff)
  moreover from e have "combined_result (list_all id) (present hrs') = combined_result (list_all id) (present hrs)"
    by (intro combined_result_set) (auto simp: list_all_iff)
  moreover from e have "present hrs' = [] \<longleftrightarrow> present hrs = []" by (metis set_empty)
  ultimately show ?thesis using e by (simp add: list_all_iff)
qed

text \<open>
  The results of several hooks combine as specified. For results that say clearly when to reconcile
  again (no delay beside an immediate requeue, no negative delay), the aggregation requeues at once
  if one result does, otherwise after the smallest positive delay; it aborts if one result aborts,
  or, with the inverted priority, if all do; and it does not depend on the order of the results or
  on repetitions.
\<close>

theorem hook_results_aggregate:
  assumes "list_all clear_result (present hrs)"
  shows "AggregateHookResults hrs =
      (if present hrs = [] then None else Some (combined_result (list_ex id) (present hrs)))
    \<and> AggregateHookResultsWithInvertedAbortPriority hrs =
      (if present hrs = [] then None else Some (combined_result (list_all id) (present hrs)))
    \<and> (\<forall>hrs'. set hrs' = set hrs \<longrightarrow> AggregateHookResults hrs' = AggregateHookResults hrs
         \<and> AggregateHookResultsWithInvertedAbortPriority hrs' = AggregateHookResultsWithInvertedAbortPriority hrs)"
proof -
  have agg: "AggregateHookResults l = (if present l = [] then None else Some (combined_result (list_ex id) (present l)))"
      "AggregateHookResultsWithInvertedAbortPriority l =
        (if present l = [] then None else Some (combined_result (list_all id) (present l)))"
    if "list_all clear_result (present l)" for l
    using that by (simp_all add: AggregateHookResults_def AggregateHookResultsWithInvertedAbortPriority_def aggregate_combined)
  have "AggregateHookResults hrs' = AggregateHookResults hrs
      \<and> AggregateHookResultsWithInvertedAbortPriority hrs' = AggregateHookResultsWithInvertedAbortPriority hrs"
    if s: "set hrs' = set hrs" for hrs'
  proof -
    note c = combined_result_same_set [OF s]
    then have "list_all clear_result (present hrs')" using assms by simp
    from agg [OF this] agg [OF assms] c show ?thesis by simp
  qed
  with agg [OF assms] show ?thesis by blast
qed

lemma hook_results_aggregate_witness:
  "AggregateHookResults [None, Some \<lparr>hr_requeue = False, hr_requeueAfter = 7, hr_abort = False\<rparr>,
      Some \<lparr>hr_requeue = False, hr_requeueAfter = 5, hr_abort = True\<rparr>]
    = Some \<lparr>hr_requeue = False, hr_requeueAfter = 5, hr_abort = True\<rparr>"
  using hook_results_aggregate [of "[None, Some \<lparr>hr_requeue = False, hr_requeueAfter = 7, hr_abort = False\<rparr>,
      Some \<lparr>hr_requeue = False, hr_requeueAfter = 5, hr_abort = True\<rparr>]"]
  by (simp add: clear_result_def combined_result_def earliest_time_def)

section \<open>The laws of the selectors\<close>

lemma MatchStringMap_exact:
  "\<forall>q \<in> set reqs. rm q = Inr (f q) \<Longrightarrow> MatchStringMap rm m reqs = Inr (\<forall>q \<in> set reqs. f q m)"
  by (induction reqs) auto

lemma MatchObjects_exact:
  "MatchObjects t objs \<longleftrightarrow>
     (\<exists>obj \<in> set objs. or_name obj = om_name (tg_meta t)
        \<and> (or_namespace obj = [] \<or> or_namespace obj = om_namespace (tg_meta t)))"
  by (induction objs) auto

definition selects :: "(requirement \<Rightarrow> smap \<Rightarrow> bool) \<Rightarrow> target \<Rightarrow> target_selector \<Rightarrow> bool" where
  "selects f t sel \<longleftrightarrow> (ts_targets sel = [] \<or> MatchObjects t (ts_targets sel))
     \<and> (\<forall>q \<in> set (ts_annotations sel). f q (om_annotations (tg_meta t)))
     \<and> (\<forall>q \<in> set (ts_labels sel). f q (om_labels (tg_meta t)))"

lemma MatchSelector_exact:
  "\<forall>q. rm q = Inr (f q) \<Longrightarrow> MatchSelector rm t sel = Inr (selects f t sel)"
  by (auto simp: MatchSelector_def match_map_def selects_def MatchStringMap_exact [of _ rm f] split: bool.splits)

lemma match_one_from_exact:
  "\<forall>q. rm q = Inr (f q) \<Longrightarrow> match_one_from rm i t sels = Inr (\<exists>sel \<in> set sels. selects f t sel)"
  by (induction sels arbitrary: i) (auto simp: MatchSelector_exact [of rm f])

lemma match_all_from_exact:
  "\<forall>q. rm q = Inr (f q) \<Longrightarrow> match_all_from rm i t sels = Inr (\<forall>sel \<in> set sels. selects f t sel)"
  by (induction sels arbitrary: i) (auto simp: MatchSelector_exact [of rm f])

end
