(* ===== verification/DeployerLib.thy ===== *)
theory DeployerLib
  imports ExecutionOps DeployerHooks
begin

text \<open>
  The library that all deployers run in, \<open>pkg/deployer/lib\<close>: annotations, generation and errors of
  deploy items, kubeconfigs, exports and pull secrets (\<open>utils.go\<close>, \<open>error.go\<close>), and the controller with
  its stages (\<open>controller.go\<close>). The deployer is an interface of the program: a record of its four
  operations and its hooks, which the controller takes as an argument. Log lines and events are left out.
\<close>

section \<open>Annotations, generation and errors of deploy items (utils.go, error.go)\<close>

text \<open>\<open>PrepareReconcile\<close>: the error, the deploy item in memory, the world.\<close>

definition prepared_item :: "time \<Rightarrow> deployer_information \<Rightarrow> deploy_item \<Rightarrow> deploy_item" where
  "prepared_item now deployerInfo di =
     (let st = (di_status di)
            \<lparr>ds_observedGeneration := om_generation (di_meta di), ds_phase := PhInit, ds_lastReconcileTime := Some now\<rparr>
      in di\<lparr>di_status := (if dp_identity (ds_deployer st) \<noteq> dp_identity deployerInfo
                           then st\<lparr>ds_deployer := deployerInfo\<rparr> else st)\<rparr>)"

definition PrepareReconcile ::
    "'w kube_client \<Rightarrow> deploy_item \<Rightarrow> deployer_information \<Rightarrow> 'w \<Rightarrow> gerr option \<times> deploy_item \<times> 'w" where
  "PrepareReconcile c di deployerInfo w =
     (let di1 = prepared_item (kc_now c w) deployerInfo di
      in case rc_statusUpdate (kc_deployItems c) di1 w of
           (Inl e, w1) \<Rightarrow> (Some e, di1, w1)
         | (Inr di2, w1) \<Rightarrow> (None, di2, w1))"

definition drop_annotation :: "string \<Rightarrow> deploy_item \<Rightarrow> deploy_item" where
  "drop_annotation k di = di\<lparr>di_meta := (di_meta di)\<lparr>om_annotations := smap_del (om_annotations (di_meta di)) k\<rparr>\<rparr>"

definition clean_annotations :: "bool \<Rightarrow> deploy_item \<Rightarrow> bool \<times> deploy_item" where
  "clean_annotations hasReconcileAnnotation di =
     (let di1 = (if hasReconcileAnnotation then drop_annotation OperationAnnotation di else di);
          hasTimestamp = HasAnnotation (di_meta di1) (timestamp_annotation_name ReconcileTimestamp)
      in (hasReconcileAnnotation \<or> hasTimestamp,
          if hasTimestamp then drop_annotation ReconcileTimestampAnnotation di1 else di1))"

definition di_HandleAnnotationsAndGeneration ::
    "'w kube_client \<Rightarrow> deploy_item \<Rightarrow> deployer_information \<Rightarrow> 'w \<Rightarrow> gerr option \<times> deploy_item \<times> 'w" where
  "di_HandleAnnotationsAndGeneration c di deployerInfo w =
     (let hasReconcileAnnotation = HasOperation (di_meta di) ReconcileOperation
      in case (if hasReconcileAnnotation \<or> ds_observedGeneration (di_status di) \<noteq> om_generation (di_meta di)
               then PrepareReconcile c di deployerInfo w else (None, di, w)) of
           (Some e, di1, w1) \<Rightarrow> (Some e, di1, w1)
         | (None, di1, w1) \<Rightarrow>
             (case clean_annotations hasReconcileAnnotation di1 of
                (changedMeta, di2) \<Rightarrow>
                  if changedMeta
                  then (case rc_update (kc_deployItems c) di2 w1 of
                          (Inl e, w2) \<Rightarrow> (Some e, di2, w2)
                        | (Inr di3, w2) \<Rightarrow> (None, di3, w2))
                  else (None, di2, w1)))"

definition ShouldReconcile :: "deploy_item \<Rightarrow> bool" where
  "ShouldReconcile di \<longleftrightarrow>
     ds_phase (di_status di) = PhInit \<or> ds_phase (di_status di) = PhProgressing \<or> ds_phase (di_status di) = PhDeleting"

text \<open>
  The handler of \<open>HandleErrorFunc\<close>, with the status that the closure copied. A failed status
  update replaces the error, if there is one.
\<close>

definition di_handled_status :: "time \<Rightarrow> gerr option \<Rightarrow> deploy_item_status \<Rightarrow> deploy_item_status" where
  "di_handled_status now err st =
     (let lastError = TryUpdateError now (ds_lastError st) err
      in st\<lparr>ds_lastError := lastError, ds_phase := GetPhaseForLastError (ds_phase st) lastError (5 * minute)\<rparr>)"

definition di_HandleErrorFunc ::
    "'w kube_client \<Rightarrow> deploy_item_status \<Rightarrow> gerr option \<Rightarrow> deploy_item \<Rightarrow> 'w \<Rightarrow> gerr option \<times> deploy_item \<times> 'w" where
  "di_HandleErrorFunc c oldStatus err di w =
     (let di1 = di\<lparr>di_status := di_handled_status (kc_now c w) err (di_status di)\<rparr>
      in if oldStatus \<noteq> di_status di1
         then (case rc_statusUpdate (kc_deployItems c) di1 w of
                 (Inl err2, w1) \<Rightarrow> (if err \<noteq> None then Some err2 else err, di1, w1)
               | (Inr di2, w1) \<Rightarrow> (err, di2, w1))
         else (err, di1, w))"

section \<open>Kubeconfigs, exports and pull secrets (utils.go)\<close>

definition DefaultKubeconfigKey :: string where
  "DefaultKubeconfigKey = ''kubeconfig''"

record value_ref =
  vr_strVal :: "string option"
  vr_secretRef :: "secret_reference option"

text \<open>
  The loop over the clients: the kubeconfig or the errors. The key of the reference is filled in for
  the first secret that is found.
\<close>

fun find_kubeconfig ::
    "'w kube_client list \<Rightarrow> secret_reference \<Rightarrow> gerr list \<Rightarrow> 'w \<Rightarrow> (gerr list + string) \<times> 'w" where
  "find_kubeconfig [] ref errList w =
     (Inl (if errList \<noteq> [] then errList else [ApiError ReasonNotFound (or_name (sr_ref ref))]), w)"
| "find_kubeconfig (c # cs) ref errList w =
     (case rc_get (kc_secrets c) (sr_ref ref) w of
        (Inl e, w1) \<Rightarrow> find_kubeconfig cs ref (if \<not> IsNotFound e then errList @ [e] else errList) w1
      | (Inr sec, w1) \<Rightarrow>
          (let ref1 = (if sr_key ref = [] then ref\<lparr>sr_key := DefaultKubeconfigKey\<rparr> else ref)
           in case map_of (sc_data sec) (sr_key ref1) of
                None \<Rightarrow> find_kubeconfig cs ref1
                  (errList @ [PlainError (''secret found but key '' @ go_quote (sr_key ref1) @ '' not found'')]) w1
              | Some kubeconfig \<Rightarrow> (Inr kubeconfig, w1)))"

definition GetKubeconfigFromTargetConfig ::
    "value_ref \<Rightarrow> 'w kube_client list \<Rightarrow> 'w \<Rightarrow> (gerr list + string) \<times> 'w" where
  "GetKubeconfigFromTargetConfig kubeconfig kubeClients w =
     (case vr_strVal kubeconfig of
        Some s \<Rightarrow> (Inr s, w)
      | None \<Rightarrow>
          (case vr_secretRef kubeconfig of
             None \<Rightarrow> (Inl [PlainError ''kubeconfig not defined''], w)
           | Some ref \<Rightarrow> find_kubeconfig kubeClients ref [] w))"

definition GetRegistryPullSecretsFromContext :: "ls_context \<Rightarrow> object_reference list" where
  "GetRegistryPullSecretsFromContext lsCtx =
     map (\<lambda>r. \<lparr>or_name = r, or_namespace = om_namespace (lc_meta lsCtx)\<rparr>) (lc_registryPullSecrets lsCtx)"

definition export_secret :: "deploy_item \<Rightarrow> secret" where
  "export_secret di =
     (let key = (case ds_exportReference (di_status di) of
                   None \<Rightarrow> ObjectKey (om_name (di_meta di) @ ''-export'') (om_namespace (di_meta di))
                 | Some ref \<Rightarrow> ref)
      in \<lparr>sc_meta = empty_meta\<lparr>om_name := or_name key, om_namespace := or_namespace key\<rparr>, sc_data = []\<rparr>)"

text \<open>
  \<open>SetOwnerReference\<close> and the JSON library are arguments; \<open>None\<close> is the \<open>nil\<close> value.
\<close>

definition mutate_export_secret ::
    "(deploy_item \<Rightarrow> object_meta \<Rightarrow> gerr + object_meta) \<Rightarrow> deploy_item \<Rightarrow> string \<Rightarrow> secret \<Rightarrow> gerr + secret" where
  "mutate_export_secret setOwner di data sec =
     (case setOwner di (sc_meta sec) of
        Inl e \<Rightarrow> Inl e
      | Inr m \<Rightarrow> Inr (sec\<lparr>sc_data := [(DataObjectSecretDataKey, data)], sc_meta := m\<rparr>))"

definition CreateOrUpdateExport ::
    "(deploy_item \<Rightarrow> object_meta \<Rightarrow> gerr + object_meta) \<Rightarrow> ('j \<Rightarrow> gerr + string) \<Rightarrow> 'w kube_client
      \<Rightarrow> deploy_item \<Rightarrow> 'j option \<Rightarrow> 'w \<Rightarrow> gerr option \<times> deploy_item \<times> 'w" where
  "CreateOrUpdateExport setOwner marshal c di vals w =
     (case vals of
        None \<Rightarrow> (None, di, w)
      | Some v \<Rightarrow>
          (case marshal v of
             Inl e \<Rightarrow> (Some (NewWrappedError (kc_now c w) e ''CreateExports'' ''MarshalExportData'' (error_string e) []), di, w)
           | Inr data \<Rightarrow>
               (case controllerutil_CreateOrUpdate (kc_secrets c) sc_meta (\<lambda>_. mutate_export_secret setOwner di data)
                       (export_secret di) w of
                  (Inl e, w1) \<Rightarrow>
                    (Some (NewWrappedError (kc_now c w1) e ''CreateExports'' ''CreateOrUpdateSecret'' (error_string e) []), di, w1)
                | (Inr (res, sec), w1) \<Rightarrow>
                    (let di1 = di\<lparr>di_status := (di_status di)\<lparr>ds_exportReference := Some (ObjectKeyFromObject (sc_meta sec))\<rparr>\<rparr>
                     in case rc_statusUpdate (kc_deployItems c) di1 w1 of
                          (Inl e, w2) \<Rightarrow>
                            (Some (NewWrappedError (kc_now c w2) e ''CreateExports'' ''Update DeployItem'' (error_string e) []), di1, w2)
                        | (Inr di2, w2) \<Rightarrow> (None, di2, w2)))))"

section \<open>The deployer and its controller (controller.go)\<close>

text \<open>
  The implementation of a deployer. Its operations get the context, the deploy item and the target and
  return the error and what they left of the deploy item and the target in memory.
\<close>

type_synonym 'w deployer_call =
  "ls_context \<Rightarrow> deploy_item \<Rightarrow> target option \<Rightarrow> 'w \<Rightarrow> gerr option \<times> (deploy_item \<times> target option) \<times> 'w"

record 'w deployer =
  dy_Reconcile :: "'w deployer_call"
  dy_Delete :: "'w deployer_call"
  dy_ForceReconcile :: "'w deployer_call"
  dy_Abort :: "'w deployer_call"
  dy_ExtensionHooks :: "'w extension_hooks"

record deployer_args =
  da_name :: string
  da_version :: string
  da_identity :: string
  da_type :: string
  da_targetSelectors :: "target_selector list"

text \<open>The version of the program and the current Unix time are arguments.\<close>

definition args_Default :: "string \<Rightarrow> int \<Rightarrow> deployer_args \<Rightarrow> deployer_args" where
  "args_Default version unixTime args =
     (let a1 = (if da_name args = [] then args\<lparr>da_name := ''generic-deployer-library''\<rparr> else args);
          a2 = (if da_version a1 = [] then a1\<lparr>da_version := version\<rparr> else a1)
      in if da_identity a2 = [] then a2\<lparr>da_identity := da_name a2 @ ''-'' @ show_int unixTime\<rparr> else a2)"

record 'w deployer_controller =
  dk_deployer :: "'w deployer"
  dk_info :: deployer_information
  dk_deployerType :: string
  dk_targetSelectors :: "target_selector list"
  dk_lsClient :: "'w kube_client"
  dk_newRequirement :: requirement_matcher

definition dk_NewController ::
    "'w kube_client \<Rightarrow> requirement_matcher \<Rightarrow> 'w deployer \<Rightarrow> deployer_args \<Rightarrow> 'w deployer_controller" where
  "dk_NewController lsClient newRequirement d args =
     \<lparr>dk_deployer = d,
      dk_info = \<lparr>dp_identity = da_identity args, dp_name = da_name args, dp_version = da_version args\<rparr>,
      dk_deployerType = da_type args, dk_targetSelectors = da_targetSelectors args, dk_lsClient = lsClient,
      dk_newRequirement = newRequirement\<rparr>"

text \<open>The predicate of the watch.\<close>

definition handleObj :: "string \<Rightarrow> deploy_item \<Rightarrow> bool" where
  "handleObj dtype di = (di_type (di_spec di) = dtype)"

text \<open>
  \<open>checkTargetResponsibility\<close> also sets the namespace of the target reference in memory.
\<close>

definition set_target_namespace :: "deploy_item \<Rightarrow> deploy_item" where
  "set_target_namespace di =
     di\<lparr>di_spec := (di_spec di)\<lparr>di_target := map_option (\<lambda>t. t\<lparr>or_namespace := om_namespace (di_meta di)\<rparr>) (di_target (di_spec di))\<rparr>\<rparr>"

definition checkTargetResponsibility ::
    "'w deployer_controller \<Rightarrow> deploy_item \<Rightarrow> 'w \<Rightarrow> (gerr + target option \<times> bool) \<times> deploy_item \<times> 'w" where
  "checkTargetResponsibility k di w =
     (case di_target (di_spec di) of
        None \<Rightarrow> (Inr (None, True), di, w)
      | Some ref \<Rightarrow>
          (let di1 = set_target_namespace di
           in case rc_get (kc_targets (dk_lsClient k)) (ref\<lparr>or_namespace := om_namespace (di_meta di)\<rparr>) w of
                (Inl e, w1) \<Rightarrow> (Inl (WrapError (''unable to get target for deploy item: '' @ error_string e) e), di1, w1)
              | (Inr target, w1) \<Rightarrow>
                  if dk_targetSelectors k = [] then (Inr (Some target, True), di1, w1)
                  else (case MatchOne (dk_newRequirement k) target (dk_targetSelectors k) of
                          Inl e \<Rightarrow> (Inl (WrapError (''unable to match target selector: '' @ error_string e) e), di1, w1)
                        | Inr matched \<Rightarrow>
                            if \<not> matched then (Inr (None, False), di1, w1) else (Inr (Some target, True), di1, w1))))"

definition dk_reconcile :: "'w deployer_controller \<Rightarrow> 'w deployer_call" where
  "dk_reconcile k lsCtx di target w =
     (if LandscaperFinalizer \<notin> set (om_finalizers (di_meta di))
      then (let di1 = di\<lparr>di_meta := AddFinalizer (di_meta di) LandscaperFinalizer\<rparr>
            in case rc_update (kc_deployItems (dk_lsClient k)) di1 w of
                 (Inl e, w1) \<Rightarrow>
                   (Some (NewWrappedError (kc_now (dk_lsClient k) w1) e ''Reconcile'' ''AddFinalizer'' (error_string e) []),
                    (di1, target), w1)
               | (Inr di2, w1) \<Rightarrow> dy_Reconcile (dk_deployer k) lsCtx di2 target w1)
      else dy_Reconcile (dk_deployer k) lsCtx di target w)"

definition dk_delete :: "'w deployer_controller \<Rightarrow> 'w deployer_call" where
  "dk_delete k lsCtx di target w =
     (case dy_Delete (dk_deployer k) lsCtx di target w of
        (Some e, sub1, w1) \<Rightarrow> (Some e, sub1, w1)
      | (None, (di1, target1), w1) \<Rightarrow>
          if LandscaperFinalizer \<in> set (om_finalizers (di_meta di1))
          then (let di2 = di1\<lparr>di_meta := RemoveFinalizer (di_meta di1) LandscaperFinalizer\<rparr>
                in case rc_update (kc_deployItems (dk_lsClient k)) di2 w1 of
                     (Inl e, w2) \<Rightarrow>
                       (Some (NewWrappedError (kc_now (dk_lsClient k) w2) e ''Reconcile'' ''RemoveFinalizer'' (error_string e) []),
                        (di2, target1), w2)
                   | (Inr di3, w2) \<Rightarrow> (None, (di3, target1), w2))
          else (None, (di1, target1), w1))"


section \<open>Reconcile (controller.go)\<close>

text \<open>
  The result of a reconciliation is whether and when the item is queued again. The combined result of
  the hooks is never \<open>nil\<close>, because the first summand is not.
\<close>

type_synonym reconcile_result = "bool \<times> duration"

definition result_of :: "hook_result \<Rightarrow> reconcile_result" where
  "result_of hr = (hr_requeue hr, hr_requeueAfter hr)"

definition empty_result :: hook_result where
  "empty_result = \<lparr>hr_requeue = False, hr_requeueAfter = 0, hr_abort = False\<rparr>"

definition aggregated :: "hook_result \<Rightarrow> hook_result option \<Rightarrow> hook_result" where
  "aggregated hookRes tmp = (case AggregateHookResults [Some hookRes, tmp] of Some r \<Rightarrow> r | None \<Rightarrow> hookRes)"

definition item_of :: "deploy_item \<Rightarrow> subject \<Rightarrow> deploy_item" where
  "item_of di sub = (case fst sub of Some d \<Rightarrow> d | None \<Rightarrow> di)"

definition dk_hooks ::
    "'w deployer_controller \<Rightarrow> deploy_item \<Rightarrow> target option \<Rightarrow> hook_type \<Rightarrow> 'w
      \<Rightarrow> hook_result option outcome \<times> (deploy_item \<times> target option) \<times> 'w" where
  "dk_hooks k di target ht w =
     (case ExecuteHooks (dy_ExtensionHooks (dk_deployer k)) (Some di, target) ht w of
        (r, sub, w1) \<Rightarrow> (r, (item_of di sub, snd sub), w1))"

text \<open>
  Handing an error to the handler of the deploy item ends the reconciliation, with the error that
  the handler returns.
\<close>

definition dk_fail ::
    "'w deployer_controller \<Rightarrow> deploy_item_status \<Rightarrow> gerr \<Rightarrow> deploy_item \<Rightarrow> 'w \<Rightarrow> reconcile_result outcome \<times> 'w" where
  "dk_fail k old e di w =
     (case di_HandleErrorFunc (dk_lsClient k) old (Some e) di w of
        (Some e1, di1, w1) \<Rightarrow> (Fail e1, w1)
      | (None, di1, w1) \<Rightarrow> (Done (False, 0), w1))"

text \<open>
  A stage: the hooks of a type are executed, an error is handed to the handler, the results are
  aggregated, and the reconciliation ends if they say so and goes on otherwise.
\<close>

definition dk_stage ::
    "'w deployer_controller \<Rightarrow> deploy_item_status \<Rightarrow> hook_type \<Rightarrow> hook_result \<Rightarrow> deploy_item \<Rightarrow> target option \<Rightarrow> 'w
      \<Rightarrow> (hook_result \<Rightarrow> deploy_item \<Rightarrow> target option \<Rightarrow> 'w \<Rightarrow> reconcile_result outcome \<times> 'w)
      \<Rightarrow> reconcile_result outcome \<times> 'w" where
  "dk_stage k old ht hookRes di target w proceed =
     (case dk_hooks k di target ht w of
        (Panic, sub, w1) \<Rightarrow> (Panic, w1)
      | (Fail e, (di1, target1), w1) \<Rightarrow> dk_fail k old e di1 w1
      | (Done tmp, (di1, target1), w1) \<Rightarrow>
          (let hookRes1 = aggregated hookRes tmp
           in if hr_abort hookRes1 then (Done (result_of hookRes1), w1) else proceed hookRes1 di1 target1 w1))"

definition dk_end ::
    "'w deployer_controller \<Rightarrow> deploy_item_status \<Rightarrow> hook_result \<Rightarrow> deploy_item \<Rightarrow> target option \<Rightarrow> 'w
      \<Rightarrow> reconcile_result outcome \<times> 'w" where
  "dk_end k old hookRes di target w =
     (case dk_hooks k di target EndHook w of
        (Panic, sub, w1) \<Rightarrow> (Panic, w1)
      | (Fail e, (di1, target1), w1) \<Rightarrow> dk_fail k old e di1 w1
      | (Done tmp, (di1, target1), w1) \<Rightarrow> (Done (result_of (aggregated hookRes tmp)), w1))"

definition dk_perform ::
    "'w deployer_controller \<Rightarrow> deploy_item_status \<Rightarrow> 'w deployer_call \<Rightarrow> ls_context \<Rightarrow> hook_result \<Rightarrow> deploy_item
      \<Rightarrow> target option \<Rightarrow> 'w \<Rightarrow> reconcile_result outcome \<times> 'w" where
  "dk_perform k old call lsCtx hookRes di target w =
     (case call lsCtx di target w of
        (err, (di1, target1), w1) \<Rightarrow>
          (case di_HandleErrorFunc (dk_lsClient k) old err di1 w1 of
             (Some e, di2, w2) \<Rightarrow> (Fail e, w2)
           | (None, di2, w2) \<Rightarrow> dk_end k old hookRes di2 target1 w2))"

text \<open>The operation that the deploy item asks for, with the hook that comes before it.\<close>

definition dk_operation ::
    "'w deployer_controller \<Rightarrow> deploy_item \<Rightarrow> hook_type \<times> 'w deployer_call" where
  "dk_operation k di =
     (if GetOperation (di_meta di) = AbortOperation then (BeforeAbortHook, dy_Abort (dk_deployer k))
      else if GetOperation (di_meta di) = ForceReconcileOperation
      then (BeforeForceReconcileHook, dy_ForceReconcile (dk_deployer k))
      else if \<not> time_is_zero (om_deletionTimestamp (di_meta di)) then (BeforeDeleteHook, dk_delete k)
      else (BeforeReconcileHook, dk_reconcile k))"

definition dk_do_reconcile ::
    "'w deployer_controller \<Rightarrow> deploy_item_status \<Rightarrow> ls_context \<Rightarrow> hook_result \<Rightarrow> deploy_item \<Rightarrow> target option \<Rightarrow> 'w
      \<Rightarrow> reconcile_result outcome \<times> 'w" where
  "dk_do_reconcile k old lsCtx hookRes di target w =
     dk_stage k old BeforeAnyReconcileHook hookRes di target w (\<lambda>hookRes1 di1 target1 w1.
       (let (ht, call) = dk_operation k di1
        in dk_stage k old ht hookRes1 di1 target1 w1 (\<lambda>hookRes2 di2 target2 w2.
             dk_perform k old call lsCtx hookRes2 di2 target2 w2)))"

definition dk_should_reconcile ::
    "'w deployer_controller \<Rightarrow> deploy_item_status \<Rightarrow> ls_context \<Rightarrow> hook_result \<Rightarrow> deploy_item \<Rightarrow> target option \<Rightarrow> 'w
      \<Rightarrow> reconcile_result outcome \<times> 'w" where
  "dk_should_reconcile k old lsCtx hookRes di target w =
     (case dk_hooks k di target ShouldReconcileHook w of
        (Panic, sub, w1) \<Rightarrow> (Panic, w1)
      | (Fail e, (di1, target1), w1) \<Rightarrow> dk_fail k old e di1 w1
      | (Done tmp, (di1, target1), w1) \<Rightarrow>
          (let hookRes1 = aggregated hookRes tmp; hookRes2 = hookRes1\<lparr>hr_abort := False\<rparr>
           in if ShouldReconcile di then dk_do_reconcile k old lsCtx hookRes2 di1 target1 w1
              else if (case tmp of Some r \<Rightarrow> \<not> hr_abort r | None \<Rightarrow> False)
              then (case PrepareReconcile (dk_lsClient k) di1 (dk_info k) w1 of
                      (Some e, di2, w2) \<Rightarrow> (Fail e, w2)
                    | (None, di2, w2) \<Rightarrow> dk_do_reconcile k old lsCtx hookRes2 di2 target1 w2)
              else (Done (result_of hookRes1), w1)))"

definition dk_responsible ::
    "'w deployer_controller \<Rightarrow> deploy_item_status \<Rightarrow> hook_result \<Rightarrow> deploy_item \<Rightarrow> target option \<Rightarrow> 'w
      \<Rightarrow> reconcile_result outcome \<times> 'w" where
  "dk_responsible k old hookRes di target w =
     dk_stage k old AfterResponsibilityCheckHook hookRes di target w (\<lambda>hookRes1 di1 target1 w1.
       (case rc_get (kc_contexts (dk_lsClient k)) (ObjectKey (di_context (di_spec di1)) (om_namespace (di_meta di1))) w1 of
          (Inl e, w2) \<Rightarrow> (Fail (WrapError (''unable to get landscaper context: '' @ error_string e) e), w2)
        | (Inr lsCtx, w2) \<Rightarrow>
            (case di_HandleAnnotationsAndGeneration (dk_lsClient k) di1 (dk_info k) w2 of
               (Some e, di2, w3) \<Rightarrow> (Fail e, w3)
             | (None, di2, w3) \<Rightarrow> dk_should_reconcile k old lsCtx hookRes1 di2 target1 w3)))"

definition dk_item ::
    "'w deployer_controller \<Rightarrow> hook_result \<Rightarrow> deploy_item \<Rightarrow> 'w \<Rightarrow> reconcile_result outcome \<times> 'w" where
  "dk_item k hookRes di w =
     (case checkTargetResponsibility k di w of
        (Inl e, di1, w1) \<Rightarrow> (Fail e, w1)
      | (Inr (target, shouldReconcile), di1, w1) \<Rightarrow>
          (case dk_hooks k di1 target DuringResponsibilityCheckHook w1 of
             (Panic, sub, w2) \<Rightarrow> (Panic, w2)
           | (Fail e, sub, w2) \<Rightarrow> (Fail e, w2)
           | (Done tmp, (di2, target2), w2) \<Rightarrow>
               (let hookRes1 = (if tmp \<noteq> None then aggregated hookRes tmp else hookRes);
                    shouldReconcile1 = (if tmp \<noteq> None then \<not> hr_abort hookRes1 else shouldReconcile)
                in if \<not> shouldReconcile1 then (Done (result_of hookRes1), w2)
                   else dk_responsible k (di_status di) hookRes1 di2 target2 w2)))"

definition dk_Reconcile ::
    "'w deployer_controller \<Rightarrow> object_reference \<Rightarrow> 'w \<Rightarrow> reconcile_result outcome \<times> 'w" where
  "dk_Reconcile k req w =
     (case ExecuteHooks (dy_ExtensionHooks (dk_deployer k)) (None, None) StartHook w of
        (Panic, sub, w1) \<Rightarrow> (Panic, w1)
      | (Fail e, sub, w1) \<Rightarrow> (Fail e, w1)
      | (Done tmp, sub, w1) \<Rightarrow>
          (let hookRes = aggregated empty_result tmp
           in if hr_abort hookRes then (Done (result_of hookRes), w1)
              else (case rc_get (kc_deployItems (dk_lsClient k)) req w1 of
                      (Inl e, w2) \<Rightarrow> (if IsNotFound e then Done (False, 0) else Fail e, w2)
                    | (Inr di, w2) \<Rightarrow> dk_item k hookRes (SetDefaults_DeployItem di) w2)))"

end
