(* ===== verification/DeployerLibFacts.thy ===== *)
theory DeployerLibFacts
  imports DeployerLib
begin

text \<open>
  Properties of the deployer library: when and how the deployer is called, that items of other deployers
  are left alone, and what becomes of errors. The controller is the same function, run with a
  client and a deployer that record writes and calls in one log.
\<close>

section \<open>A deployer whose calls are recorded\<close>

definition logged_hook :: "'w extension_hook \<Rightarrow> ('w \<times> api_write list) extension_hook" where
  "logged_hook h sub ht s = (case h sub ht (fst s) of (r, sub1, w1) \<Rightarrow> (r, sub1, (w1, snd s)))"

definition logged_deployer_call ::
    "deployer_operation \<Rightarrow> 'w deployer_call \<Rightarrow> ('w \<times> api_write list) deployer_call" where
  "logged_deployer_call op call lsCtx di target s =
     (case call lsCtx di target (fst s) of (err, sub, w1) \<Rightarrow> (err, sub, (w1, snd s @ [DeployerCall op di])))"

definition logged_deployer :: "'w deployer \<Rightarrow> ('w \<times> api_write list) deployer" where
  "logged_deployer d =
     \<lparr>dy_Reconcile = logged_deployer_call OpReconcile (dy_Reconcile d),
      dy_Delete = logged_deployer_call OpDelete (dy_Delete d),
      dy_ForceReconcile = logged_deployer_call OpForceReconcile (dy_ForceReconcile d),
      dy_Abort = logged_deployer_call OpAbort (dy_Abort d),
      dy_ExtensionHooks = (\<lambda>ht. map_option (map logged_hook) (dy_ExtensionHooks d ht))\<rparr>"

definition logged_controller :: "'w deployer_controller \<Rightarrow> ('w \<times> api_write list) deployer_controller" where
  "logged_controller k =
     \<lparr>dk_deployer = logged_deployer (dk_deployer k), dk_info = dk_info k, dk_deployerType = dk_deployerType k,
      dk_targetSelectors = dk_targetSelectors k, dk_lsClient = logged (dk_lsClient k),
      dk_newRequirement = dk_newRequirement k\<rparr>"

lemma logged_controller_sel [simp]:
  "dk_deployer (logged_controller k) = logged_deployer (dk_deployer k)"
  "dk_info (logged_controller k) = dk_info k"
  "dk_targetSelectors (logged_controller k) = dk_targetSelectors k"
  "dk_lsClient (logged_controller k) = logged (dk_lsClient k)"
  "dk_newRequirement (logged_controller k) = dk_newRequirement k"
  by (simp_all add: logged_controller_def)

lemma logged_deployer_sel [simp]:
  "dy_Reconcile (logged_deployer d) = logged_deployer_call OpReconcile (dy_Reconcile d)"
  "dy_Delete (logged_deployer d) = logged_deployer_call OpDelete (dy_Delete d)"
  "dy_ForceReconcile (logged_deployer d) = logged_deployer_call OpForceReconcile (dy_ForceReconcile d)"
  "dy_Abort (logged_deployer d) = logged_deployer_call OpAbort (dy_Abort d)"
  "dy_ExtensionHooks (logged_deployer d) ht = map_option (map logged_hook) (dy_ExtensionHooks d ht)"
  by (simp_all add: logged_deployer_def)

lemma logged_hook_snd: "snd (snd (snd (logged_hook h sub ht s))) = snd s"
  by (simp add: logged_hook_def case_prod_beta)

lemma run_hooks_log:
  "run_hooks ht i (map logged_hook hs) sub s = (r, sub1, s1) \<Longrightarrow> snd s1 = snd s"
proof (induction hs arbitrary: i sub s r sub1 s1)
  case (Cons h hs)
  obtain r0 sub0 s0 where h: "logged_hook h sub ht s = (r0, sub0, s0)" by (rule prod_cases3)
  then have s0: "snd s0 = snd s" using logged_hook_snd [of h sub ht s] by simp
  obtain r2 sub2 s2 where
    m: "run_hooks ht (Suc i) (map logged_hook hs) (pointee (fst sub) (fst sub0), pointee (snd sub) (snd sub0)) s0 = (r2, sub2, s2)"
    by (rule prod_cases3)
  from Cons.IH [OF m] have "snd s2 = snd s0" .
  with Cons.prems h s0 m show ?case by (auto simp: Let_def split: outcome.splits)
qed simp

lemma ExecuteHooks_log:
  "ExecuteHooks (dy_ExtensionHooks (logged_deployer d)) sub ht s = (r, sub1, s1) \<Longrightarrow> snd s1 = snd s"
  by (auto simp: ExecuteHooks_def dest!: run_hooks_log split: option.splits if_splits prod.splits outcome.splits)

text \<open>Hooks that leave the deploy item and the target alone.\<close>

definition tame_hook :: "'w extension_hook \<Rightarrow> bool" where
  "tame_hook h \<longleftrightarrow> (\<forall>sub ht w. fst (snd (h sub ht w)) = sub)"

definition tame_hooks :: "'w extension_hooks \<Rightarrow> bool" where
  "tame_hooks hooks \<longleftrightarrow> (\<forall>ht hs. hooks ht = Some hs \<longrightarrow> list_all tame_hook hs)"

lemma pointee_self [simp]: "pointee x x = x"
  by (simp add: pointee_def split: option.splits)

lemma run_hooks_tame:
  "list_all tame_hook hs \<Longrightarrow> run_hooks ht i hs sub s = (r, sub1, s1) \<Longrightarrow> sub1 = sub"
proof (induction hs arbitrary: i s r sub1 s1)
  case (Cons h hs)
  obtain r0 sub0 s0 where h: "h sub ht s = (r0, sub0, s0)" by (rule prod_cases3)
  have "tame_hook h" using Cons.prems(1) by simp
  then have "fst (snd (h sub ht s)) = sub" unfolding tame_hook_def by blast
  with h have s0: "sub0 = sub" by simp
  obtain r2 sub2 s2 where m: "run_hooks ht (Suc i) hs sub s0 = (r2, sub2, s2)" by (rule prod_cases3)
  from Cons.IH [OF _ m] Cons.prems(1) have "sub2 = sub" by simp
  with Cons.prems(2) h s0 m show ?case by (auto simp: Let_def split: outcome.splits)
qed simp

lemma tame_logged: "tame_hook h \<Longrightarrow> tame_hook (logged_hook h)"
  by (simp add: tame_hook_def logged_hook_def case_prod_beta)

lemma dk_hooks_tame:
  assumes "tame_hooks (dy_ExtensionHooks (dk_deployer k))"
    and "dk_hooks (logged_controller k) di target ht s = (r, sub1, s1)"
  shows "sub1 = (di, target) \<and> snd s1 = snd s"
proof -
  obtain sub where e: "ExecuteHooks (dy_ExtensionHooks (logged_deployer (dk_deployer k))) (Some di, target) ht s = (r, sub, s1)"
    and sub1: "sub1 = (item_of di sub, snd sub)"
    using assms(2) by (auto simp: dk_hooks_def split: prod.splits)
  have "sub = (Some di, target)"
  proof (cases "dy_ExtensionHooks (dk_deployer k) ht")
    case None
    then show ?thesis using e by (auto simp: ExecuteHooks_def split: if_splits)
  next
    case (Some hs)
    then have t: "list_all tame_hook (map logged_hook hs)"
      using assms(1) by (auto simp: tame_hooks_def list_all_iff intro: tame_logged)
    from Some e obtain r0 where "run_hooks ht 0 (map logged_hook hs) (Some di, target) s = (r0, sub, s1)"
      by (auto simp: ExecuteHooks_def split: prod.splits outcome.splits if_splits)
    from run_hooks_tame [OF t this] show ?thesis .
  qed
  with sub1 ExecuteHooks_log [OF e] show ?thesis by (simp add: item_of_def)
qed

section \<open>What a reconciliation does to a deploy item\<close>

definition keeps :: "deploy_item \<Rightarrow> deploy_item \<Rightarrow> bool" where
  "keeps di x \<longleftrightarrow> set (om_finalizers (di_meta di)) \<subseteq> set (om_finalizers (di_meta x))"

fun quiet_write :: "deploy_item \<Rightarrow> api_write \<Rightarrow> bool" where
  "quiet_write di (UpdateItem x) = keeps di x"
| "quiet_write di (StatusUpdateItem x) = keeps di x"
| "quiet_write di _ = False"

fun final_write :: "deployer_operation \<Rightarrow> api_write \<Rightarrow> bool" where
  "final_write op (UpdateItem x) = (op = OpDelete)"
| "final_write op (StatusUpdateItem x) = True"
| "final_write op _ = False"

definition requested :: "deploy_item \<Rightarrow> deployer_operation" where
  "requested d =
     (if GetOperation (di_meta d) = AbortOperation then OpAbort
      else if GetOperation (di_meta d) = ForceReconcileOperation then OpForceReconcile
      else if \<not> time_is_zero (om_deletionTimestamp (di_meta d)) then OpDelete else OpReconcile)"

definition proper_log :: "deploy_item \<Rightarrow> api_write list \<Rightarrow> bool" where
  "proper_log di log \<longleftrightarrow> list_all (quiet_write di) log \<or>
     (\<exists>pre op d post. log = pre @ DeployerCall op d # post \<and> list_all (quiet_write di) pre
        \<and> op = requested d \<and> (op = OpReconcile \<longrightarrow> LandscaperFinalizer \<in> set (om_finalizers (di_meta d)))
        \<and> list_all (final_write op) post)"

text \<open>A server that keeps what concerns the deployer when it stores an object.\<close>

definition same_control :: "deploy_item \<Rightarrow> deploy_item \<Rightarrow> bool" where
  "same_control d x \<longleftrightarrow> om_finalizers (di_meta x) = om_finalizers (di_meta d)
     \<and> om_annotations (di_meta x) = om_annotations (di_meta d)
     \<and> om_deletionTimestamp (di_meta x) = om_deletionTimestamp (di_meta d)"

definition faithful_server :: "'w kube_client \<Rightarrow> bool" where
  "faithful_server c \<longleftrightarrow>
     (\<forall>d w x w'. rc_update (kc_deployItems c) d w = (Inr x, w') \<longrightarrow> same_control d x)
   \<and> (\<forall>d w x w'. rc_statusUpdate (kc_deployItems c) d w = (Inr x, w') \<longrightarrow> same_control d x)"

definition goes :: "deploy_item \<Rightarrow> 'w \<times> api_write list \<Rightarrow> 'w \<times> api_write list \<Rightarrow> bool" where
  "goes di s s2 \<longleftrightarrow> (\<exists>l. snd s2 = snd s @ l \<and> proper_log di l)"

lemma keeps_trans: "keeps a b \<Longrightarrow> keeps b c \<Longrightarrow> keeps a c"
  by (auto simp: keeps_def)

lemma keeps_refl [simp]: "keeps a a"
  by (simp add: keeps_def)

lemma quiet_write_trans: "keeps di di1 \<Longrightarrow> quiet_write di1 a \<Longrightarrow> quiet_write di a"
  by (cases a) (auto intro: keeps_trans)

lemma proper_log_prefix:
  assumes "list_all (quiet_write di) q" "keeps di di1" "proper_log di1 l"
  shows "proper_log di (q @ l)"
  using assms(3) unfolding proper_log_def
proof
  assume "list_all (quiet_write di1) l"
  then have "list_all (quiet_write di) (q @ l)"
    using assms(1,2) quiet_write_trans by (simp add: list_all_iff) blast
  then show "list_all (quiet_write di) (q @ l) \<or> (\<exists>pre op d post. q @ l = pre @ DeployerCall op d # post \<and> list_all (quiet_write di) pre
        \<and> op = requested d \<and> (op = OpReconcile \<longrightarrow> LandscaperFinalizer \<in> set (om_finalizers (di_meta d)))
        \<and> list_all (final_write op) post)" ..
next
  assume "\<exists>pre op d post. l = pre @ DeployerCall op d # post \<and> list_all (quiet_write di1) pre
        \<and> op = requested d \<and> (op = OpReconcile \<longrightarrow> LandscaperFinalizer \<in> set (om_finalizers (di_meta d)))
        \<and> list_all (final_write op) post"
  then obtain pre op d post where l: "l = pre @ DeployerCall op d # post" "list_all (quiet_write di1) pre"
      "op = requested d" "op = OpReconcile \<longrightarrow> LandscaperFinalizer \<in> set (om_finalizers (di_meta d))"
      "list_all (final_write op) post" by blast
  have "list_all (quiet_write di) (q @ pre)"
    using assms(1,2) l(2) quiet_write_trans by (simp add: list_all_iff) blast
  with l show "list_all (quiet_write di) (q @ l) \<or> (\<exists>pre op d post. q @ l = pre @ DeployerCall op d # post \<and> list_all (quiet_write di) pre
        \<and> op = requested d \<and> (op = OpReconcile \<longrightarrow> LandscaperFinalizer \<in> set (om_finalizers (di_meta d)))
        \<and> list_all (final_write op) post)" by (metis append.assoc)
qed

lemma goes_prefix:
  assumes "snd s1 = snd s @ q" "list_all (quiet_write di) q" "keeps di di1" "goes di1 s1 s2"
  shows "goes di s s2"
  using assms(4) proper_log_prefix [OF assms(2,3)] by (auto simp: goes_def assms(1))

lemma goes_quiet: "snd s2 = snd s @ q \<Longrightarrow> list_all (quiet_write di) q \<Longrightarrow> goes di s s2"
  by (auto simp: goes_def proper_log_def)

lemma goes_refl: "snd s2 = snd s \<Longrightarrow> goes di s s2"
  by (rule goes_quiet [where q = "[]"]) simp_all

lemma error_handler_log:
  "di_HandleErrorFunc (logged c) old err di s = (e, di1, s1) \<Longrightarrow>
     snd s1 = snd s \<or> (\<exists>x. snd s1 = snd s @ [StatusUpdateItem x] \<and> di_meta x = di_meta di)"
  by (auto simp: di_HandleErrorFunc_def Let_def logged_call_def split: if_splits prod.splits sum.splits)

lemma dk_fail_log:
  "dk_fail (logged_controller k) old e di s = (r, s1) \<Longrightarrow>
     snd s1 = snd s \<or> (\<exists>x. snd s1 = snd s @ [StatusUpdateItem x] \<and> di_meta x = di_meta di)"
  by (auto simp: dk_fail_def dest!: error_handler_log split: prod.splits option.splits)

lemma dk_fail_goes: "dk_fail (logged_controller k) old e di s = (r, s1) \<Longrightarrow> goes di s s1"
  using dk_fail_log [of k old e di s r s1] by (auto intro: goes_refl goes_quiet simp: keeps_def)


lemma dk_stage_goes:
  assumes tame: "tame_hooks (dy_ExtensionHooks (dk_deployer k))"
    and run: "dk_stage (logged_controller k) old ht hr di target s proceed = (r, s2)"
    and go: "\<And>hr1 s1 r2. snd s1 = snd s \<Longrightarrow> proceed hr1 di target s1 = (r2, s2) \<Longrightarrow> goes di s1 s2"
  shows "goes di s s2"
proof -
  obtain h sub s1 where h: "dk_hooks (logged_controller k) di target ht s = (h, sub, s1)" by (rule prod_cases3)
  from dk_hooks_tame [OF tame h] have sub: "sub = (di, target)" and s1: "snd s1 = snd s" by simp_all
  show ?thesis
  proof (cases h)
    case (Fail e)
    with run h sub have "dk_fail (logged_controller k) old e di s1 = (r, s2)" by (simp add: dk_stage_def)
    from goes_prefix [OF _ _ _ dk_fail_goes [OF this], where q = "[]"] show ?thesis using s1 by simp
  next
    case Panic
    with run h s1 show ?thesis by (auto simp: dk_stage_def intro: goes_refl)
  next
    case (Done tmp)
    show ?thesis
    proof (cases "hr_abort (aggregated hr tmp)")
      case True
      with run h Done s1 sub show ?thesis by (auto simp: dk_stage_def intro: goes_refl)
    next
      case False
      with run h Done sub have "proceed (aggregated hr tmp) di target s1 = (r, s2)" by (simp add: dk_stage_def Let_def)
      from goes_prefix [OF _ _ _ go [OF s1 this], where q = "[]"] show ?thesis using s1 by simp
    qed
  qed
qed

lemma dk_end_log:
  assumes tame: "tame_hooks (dy_ExtensionHooks (dk_deployer k))"
    and run: "dk_end (logged_controller k) old hr di target s = (r, s2)"
  shows "\<exists>post. snd s2 = snd s @ post \<and> list_all (final_write op) post"
proof -
  obtain h sub s1 where h: "dk_hooks (logged_controller k) di target EndHook s = (h, sub, s1)" by (rule prod_cases3)
  from dk_hooks_tame [OF tame h] have sub: "sub = (di, target)" and s1: "snd s1 = snd s" by simp_all
  show ?thesis
  proof (cases h)
    case (Fail e)
    with run h sub have f: "dk_fail (logged_controller k) old e di s1 = (r, s2)" by (simp add: dk_end_def)
    from dk_fail_log [OF f] show ?thesis using s1 by auto
  qed (use run h s1 sub in \<open>auto simp: dk_end_def\<close>)
qed

text \<open>One call of the deployer, followed by the updates of the controller.\<close>

definition called :: "deploy_item \<Rightarrow> 'w \<times> api_write list \<Rightarrow> 'w \<times> api_write list \<Rightarrow> bool" where
  "called di s s2 \<longleftrightarrow> (\<exists>pre op d post. snd s2 = snd s @ pre @ DeployerCall op d # post \<and> list_all (quiet_write di) pre
     \<and> op = requested d \<and> (op = OpReconcile \<longrightarrow> LandscaperFinalizer \<in> set (om_finalizers (di_meta d)))
     \<and> list_all (final_write op) post)"

lemma called_goes: "called di s s2 \<Longrightarrow> goes di s s2"
  by (auto simp: called_def goes_def proper_log_def)

lemma called_more:
  assumes "called di s s1" "snd s2 = snd s1 @ l" "\<And>op. list_all (final_write op) l"
  shows "called di s s2"
proof -
  from assms(1) obtain pre op d post where
    c: "snd s1 = snd s @ pre @ DeployerCall op d # post" "list_all (quiet_write di) pre"
      "op = requested d" "op = OpReconcile \<longrightarrow> LandscaperFinalizer \<in> set (om_finalizers (di_meta d))"
      "list_all (final_write op) post" by (auto simp: called_def)
  then have "snd s2 = snd s @ pre @ DeployerCall op d # (post @ l)" "list_all (final_write op) (post @ l)"
    using assms(2,3) by simp_all
  with c show ?thesis unfolding called_def by blast
qed

lemma called_directly:
  "snd s2 = snd s @ DeployerCall (requested d) d # post \<Longrightarrow> list_all (final_write (requested d)) post \<Longrightarrow>
     (requested d = OpReconcile \<Longrightarrow> LandscaperFinalizer \<in> set (om_finalizers (di_meta d))) \<Longrightarrow> called di s s2"
  unfolding called_def by (intro exI [of _ "[]"]) auto

lemma final_status [simp]: "list_all (final_write op) [StatusUpdateItem x]"
  by simp

lemma dk_perform_goes:
  assumes tame: "tame_hooks (dy_ExtensionHooks (dk_deployer k))"
    and run: "dk_perform (logged_controller k) old call ctx hr di target s = (r, s2)"
    and call: "\<And>err sub s1. call ctx di target s = (err, sub, s1) \<Longrightarrow> called di s s1
      \<or> (\<exists>e. err = Some e) \<and> keeps di (fst sub) \<and> (\<exists>q. snd s1 = snd s @ q \<and> list_all (quiet_write di) q)"
  shows "goes di s s2"
proof -
  obtain err di1 target1 s1 where c: "call ctx di target s = (err, (di1, target1), s1)"
    by (metis prod.collapse)
  obtain e2 di2 sa where h: "di_HandleErrorFunc (logged (dk_lsClient k)) old err di1 s1 = (e2, di2, sa)" by (rule prod_cases3)
  from error_handler_log [OF h] obtain l where sa: "snd sa = snd s1 @ l" "\<And>op. list_all (final_write op) l"
      "keeps di di1 \<Longrightarrow> list_all (quiet_write di) l"
    by (auto simp: keeps_def)
  have e: "(r, s2) = (case e2 of Some e \<Rightarrow> (Fail e, sa) | None \<Rightarrow> dk_end (logged_controller k) old hr di2 target1 sa)"
    using run c h by (simp add: dk_perform_def split: option.splits)
  from call [OF c] show ?thesis
  proof
    assume "called di s s1"
    from called_more [OF this sa(1,2)] have ca: "called di s sa" .
    show ?thesis
    proof (cases e2)
      case None
      with e have "dk_end (logged_controller k) old hr di2 target1 sa = (r, s2)" by simp
      note dk_end_log [OF tame this]
      then obtain post where "snd s2 = snd sa @ post" "\<And>op. list_all (final_write op) post"
        using dk_end_log [OF tame \<open>dk_end (logged_controller k) old hr di2 target1 sa = (r, s2)\<close>]
        by (metis same_append_eq)
      from called_goes [OF called_more [OF ca this]] show ?thesis .
    qed (use e ca in \<open>auto intro: called_goes\<close>)
  next
    assume f: "(\<exists>e. err = Some e) \<and> keeps di (fst (di1, target1)) \<and> (\<exists>q. snd s1 = snd s @ q \<and> list_all (quiet_write di) q)"
    then obtain q where q: "snd s1 = snd s @ q" "list_all (quiet_write di) q" by blast
    have "e2 \<noteq> None" using h f by (auto simp: di_HandleErrorFunc_def Let_def split: if_splits prod.splits sum.splits)
    then have "s2 = sa" using e by (auto split: option.splits)
    then have "snd s2 = snd s @ (q @ l)" using sa(1) q(1) by simp
    moreover have "list_all (quiet_write di) (q @ l)" using q(2) sa(3) f by simp
    ultimately show ?thesis by (rule goes_quiet)
  qed
qed

lemma logged_deployer_call_snd:
  "logged_deployer_call op call ctx d t s = (err, sub, s1) \<Longrightarrow> snd s1 = snd s @ [DeployerCall op d]"
  by (auto simp: logged_deployer_call_def split: prod.splits)

lemma same_control_requested: "same_control d x \<Longrightarrow> requested x = requested d"
  by (simp add: same_control_def requested_def GetOperation_def)

lemma requested_add_finalizer [simp]: "requested (d\<lparr>di_meta := AddFinalizer (di_meta d) f\<rparr>) = requested d"
  by (simp add: requested_def GetOperation_def AddFinalizer_def)

lemma same_control_keeps: "same_control d x \<Longrightarrow> keeps d x"
  by (simp add: same_control_def keeps_def)

lemma dk_reconcile_called:
  assumes f: "faithful_server (dk_lsClient k)" and q: "requested di = OpReconcile"
    and run: "dk_reconcile (logged_controller k) ctx di target s = (err, sub, s1)"
  shows "called di s s1
      \<or> (\<exists>e. err = Some e) \<and> keeps di (fst sub) \<and> (\<exists>q. snd s1 = snd s @ q \<and> list_all (quiet_write di) q)"
proof (cases "LandscaperFinalizer \<in> set (om_finalizers (di_meta di))")
  case True
  then have "logged_deployer_call OpReconcile (dy_Reconcile (dk_deployer k)) ctx di target s = (err, sub, s1)"
    using run by (simp add: dk_reconcile_def)
  from logged_deployer_call_snd [OF this] have "snd s1 = snd s @ DeployerCall (requested di) di # []" by (simp add: q)
  then have "called di s s1" by (rule called_directly) (simp_all add: True)
  then show ?thesis ..
next
  case False
  let ?d = "di\<lparr>di_meta := AddFinalizer (di_meta di) LandscaperFinalizer\<rparr>"
  have kd: "keeps di ?d" by (auto simp: keeps_def AddFinalizer_def)
  obtain u w1 where u: "rc_update (kc_deployItems (dk_lsClient k)) ?d (fst s) = (u, w1)"
    by (cases "rc_update (kc_deployItems (dk_lsClient k)) ?d (fst s)")
  show ?thesis
  proof (cases u)
    case (Inl e)
    with run False u have "(\<exists>e. err = Some e) \<and> fst sub = ?d \<and> snd s1 = snd s @ [UpdateItem ?d]"
      by (auto simp: dk_reconcile_def logged_call_def Let_def)
    then show ?thesis using kd by auto
  next
    case (Inr x)
    with u f have x: "same_control ?d x" unfolding faithful_server_def by blast
    from Inr run False u have
      c: "logged_deployer_call OpReconcile (dy_Reconcile (dk_deployer k)) ctx x target (w1, snd s @ [UpdateItem ?d]) = (err, sub, s1)"
      by (simp add: dk_reconcile_def logged_call_def Let_def)
    have fin: "LandscaperFinalizer \<in> set (om_finalizers (di_meta x))"
      using x False by (simp add: same_control_def AddFinalizer_def)
    have rq: "requested x = OpReconcile" using same_control_requested [OF x] q by simp
    from logged_deployer_call_snd [OF c] have "snd s1 = snd s @ [UpdateItem ?d] @ DeployerCall OpReconcile x # []" by simp
    moreover have "list_all (quiet_write di) [UpdateItem ?d]" using kd by simp
    ultimately have "snd s1 = snd s @ [UpdateItem ?d] @ DeployerCall OpReconcile x # [] \<and> list_all (quiet_write di) [UpdateItem ?d]
        \<and> OpReconcile = requested x \<and> (OpReconcile = OpReconcile \<longrightarrow> LandscaperFinalizer \<in> set (om_finalizers (di_meta x)))
        \<and> list_all (final_write OpReconcile) []" using fin rq by simp
    then have "called di s s1" unfolding called_def by blast
    then show ?thesis ..
  qed
qed

lemma dk_delete_called:
  assumes q: "requested di = OpDelete"
    and run: "dk_delete (logged_controller k) ctx di target s = (err, sub, s1)"
  shows "called di s s1"
proof -
  obtain e di1 t1 sa where
    c: "logged_deployer_call OpDelete (dy_Delete (dk_deployer k)) ctx di target s = (e, (di1, t1), sa)"
    by (metis prod.collapse)
  from logged_deployer_call_snd [OF c] have sa: "snd sa = snd s @ [DeployerCall OpDelete di]" .
  have "\<exists>l. snd s1 = snd sa @ l \<and> list_all (final_write OpDelete) l"
    using run c by (auto simp: dk_delete_def Let_def logged_call_def split: option.splits if_splits prod.splits sum.splits)
  then obtain l where "snd s1 = snd s @ DeployerCall (requested di) di # l" "list_all (final_write (requested di)) l"
    using sa q by auto
  then show ?thesis by (rule called_directly) (simp add: q)
qed

lemma dk_do_reconcile_goes:
  assumes tame: "tame_hooks (dy_ExtensionHooks (dk_deployer k))" and f: "faithful_server (dk_lsClient k)"
    and run: "dk_do_reconcile (logged_controller k) old ctx hr di target s = (r, s2)"
  shows "goes di s s2"
proof (rule dk_stage_goes [OF tame run [unfolded dk_do_reconcile_def]])
  fix hr1 s1 r2
  obtain ht call where o: "dk_operation (logged_controller k) di = (ht, call)" by (cases "dk_operation (logged_controller k) di")
  assume r: "(let (ht, call) = dk_operation (logged_controller k) di
       in dk_stage (logged_controller k) old ht hr1 di target s1 (\<lambda>hr2 di2 target2 w2.
            dk_perform (logged_controller k) old call ctx hr2 di2 target2 w2)) = (r2, s2)"
  show "goes di s1 s2"
  proof (rule dk_stage_goes [OF tame])
    from r o show "dk_stage (logged_controller k) old ht hr1 di target s1 (\<lambda>hr2 di2 target2 w2.
            dk_perform (logged_controller k) old call ctx hr2 di2 target2 w2) = (r2, s2)" by simp
  next
    fix hr2 s3 r3
    assume p: "dk_perform (logged_controller k) old call ctx hr2 di target s3 = (r3, s2)"
    show "goes di s3 s2"
    proof (rule dk_perform_goes [OF tame p])
      fix err sub s4 assume c: "call ctx di target s3 = (err, sub, s4)"
      have direct: "called di s3 s4" if "call = logged_deployer_call op dc" "requested di = op" "op \<noteq> OpReconcile" for op dc
        using logged_deployer_call_snd [OF c [unfolded that(1)]] that(2,3) by (intro called_directly [where post = "[]"]) auto
      consider (abort) "call = logged_deployer_call OpAbort (dy_Abort (dk_deployer k))" "requested di = OpAbort"
          | (force) "call = logged_deployer_call OpForceReconcile (dy_ForceReconcile (dk_deployer k))" "requested di = OpForceReconcile"
          | (delete) "call = dk_delete (logged_controller k)" "requested di = OpDelete"
          | (reconcile) "call = dk_reconcile (logged_controller k)" "requested di = OpReconcile"
        using o by (auto simp: dk_operation_def requested_def split: if_splits)
      then show "called di s3 s4
          \<or> (\<exists>e. err = Some e) \<and> keeps di (fst sub) \<and> (\<exists>q. snd s4 = snd s3 @ q \<and> list_all (quiet_write di) q)"
      proof cases
        case abort
        from direct [OF abort] show ?thesis by simp
      next
        case force
        from direct [OF force] show ?thesis by simp
      next
        case delete
        from dk_delete_called [OF delete(2) c [unfolded delete(1)]] show ?thesis ..
      next
        case reconcile
        from dk_reconcile_called [OF f reconcile(2) c [unfolded reconcile(1)]] show ?thesis .
      qed
    qed
  qed
qed


lemma PrepareReconcile_log:
  assumes "PrepareReconcile (logged c) di info s = (e, di1, s1)"
  shows "\<exists>x. snd s1 = snd s @ [StatusUpdateItem x] \<and> quiet_write di (StatusUpdateItem x)"
    and "faithful_server c \<Longrightarrow> keeps di di1"
proof -
  define d where "d = prepared_item (kc_now c (fst s)) info di"
  have dm: "di_meta d = di_meta di" by (simp add: d_def prepared_item_def Let_def)
  obtain u w1 where u: "rc_statusUpdate (kc_deployItems c) d (fst s) = (u, w1)" by (cases "rc_statusUpdate (kc_deployItems c) d (fst s)")
  have e: "(e, di1, s1) = (case u of Inl e \<Rightarrow> (Some e, d, (w1, snd s @ [StatusUpdateItem d])) | Inr x \<Rightarrow> (None, x, (w1, snd s @ [StatusUpdateItem d])))"
    using assms [symmetric] u unfolding d_def by (cases u) (simp_all add: PrepareReconcile_def Let_def logged_call_def)
  note d = dm u e
  show "\<exists>x. snd s1 = snd s @ [StatusUpdateItem x] \<and> quiet_write di (StatusUpdateItem x)"
    using d(1,3) by (intro exI [of _ d]) (auto simp: keeps_def split: sum.splits)
  show "keeps di di1" if "faithful_server c"
  proof (cases u)
    case (Inl e0)
    with d(1,3) show ?thesis by (simp add: keeps_def)
  next
    case (Inr x)
    with d(2) that have "same_control d x" unfolding faithful_server_def by blast
    with Inr d(1,3) show ?thesis by (simp add: keeps_def same_control_def)
  qed
qed

lemma clean_annotations_meta:
  "clean_annotations b di = (ch, di1) \<Longrightarrow> om_finalizers (di_meta di1) = om_finalizers (di_meta di)"
  by (auto simp: clean_annotations_def drop_annotation_def Let_def split: if_splits)

lemma HandleAnnotations_log:
  assumes f: "faithful_server c" and run: "di_HandleAnnotationsAndGeneration (logged c) di info s = (e, di1, s1)"
  shows "\<exists>q. snd s1 = snd s @ q \<and> list_all (quiet_write di) q \<and> keeps di di1"
proof -
  let ?b = "HasOperation (di_meta di) ReconcileOperation"
  obtain e0 d0 s0 where p: "(if ?b \<or> ds_observedGeneration (di_status di) \<noteq> om_generation (di_meta di)
      then PrepareReconcile (logged c) di info s else (None, di, s)) = (e0, d0, s0)" by (rule prod_cases3)
  have q0: "\<exists>q. snd s0 = snd s @ q \<and> list_all (quiet_write di) q" and k0: "keeps di d0"
  proof -
    have "e0 = None \<and> d0 = di \<and> s0 = s \<or> PrepareReconcile (logged c) di info s = (e0, d0, s0)"
      using p by (auto split: if_splits)
    then have "(\<exists>q. snd s0 = snd s @ q \<and> list_all (quiet_write di) q) \<and> keeps di d0"
    proof (elim disjE conjE)
      assume "PrepareReconcile (logged c) di info s = (e0, d0, s0)"
      note l = PrepareReconcile_log [OF this]
      from l(1) l(2) [OF f] show ?thesis by fastforce
    qed simp
    then show "\<exists>q. snd s0 = snd s @ q \<and> list_all (quiet_write di) q" "keeps di d0" by blast+
  qed
  from q0 obtain q where q: "snd s0 = snd s @ q" "list_all (quiet_write di) q" by blast
  obtain ch d2 where cl: "clean_annotations ?b d0 = (ch, d2)" by (cases "clean_annotations ?b d0")
  have k2: "keeps di d2" using k0 clean_annotations_meta [OF cl] by (simp add: keeps_def)
  obtain u w1 where u: "rc_update (kc_deployItems c) d2 (fst s0) = (u, w1)" by (cases "rc_update (kc_deployItems c) d2 (fst s0)")
  have "(e, di1, s1) = (case e0 of Some x \<Rightarrow> (Some x, d0, s0) | None \<Rightarrow>
      if ch then (case u of Inl x \<Rightarrow> (Some x, d2, (w1, snd s0 @ [UpdateItem d2])) | Inr x \<Rightarrow> (None, x, (w1, snd s0 @ [UpdateItem d2])))
      else (None, d2, s0))"
    using run p cl u by (auto simp: di_HandleAnnotationsAndGeneration_def Let_def logged_call_def split: option.splits sum.splits)
  then consider "s1 = s0" "di1 = d0 \<or> di1 = d2"
    | "snd s1 = snd s0 @ [UpdateItem d2]" "di1 = d2"
    | x where "snd s1 = snd s0 @ [UpdateItem d2]" "u = Inr x" "di1 = x"
    by (auto split: option.splits if_splits sum.splits)
  then show ?thesis
  proof cases
    case 1
    with q k0 k2 show ?thesis by blast
  next
    case 2
    with q k2 show ?thesis by (intro exI [of _ "q @ [UpdateItem d2]"]) simp
  next
    case 3
    from u 3(2) f have "same_control d2 x" unfolding faithful_server_def by blast
    then have "keeps di x" using k2 same_control_keeps keeps_trans by blast
    with 3 q k2 show ?thesis by (intro exI [of _ "q @ [UpdateItem d2]"]) simp
  qed
qed

lemma dk_should_reconcile_goes:
  assumes tame: "tame_hooks (dy_ExtensionHooks (dk_deployer k))" and f: "faithful_server (dk_lsClient k)"
    and run: "dk_should_reconcile (logged_controller k) old ctx hr di target s = (r, s2)"
  shows "goes di s s2"
proof -
  obtain h sub s1 where h: "dk_hooks (logged_controller k) di target ShouldReconcileHook s = (h, sub, s1)" by (rule prod_cases3)
  from dk_hooks_tame [OF tame h] have sub: "sub = (di, target)" and s1: "snd s1 = snd s" by simp_all
  have from_s1: "goes di s1 s2 \<Longrightarrow> goes di s s2" using s1 by (auto simp: goes_def)
  show ?thesis
  proof (cases h)
    case (Fail e)
    with run h sub have "dk_fail (logged_controller k) old e di s1 = (r, s2)" by (simp add: dk_should_reconcile_def)
    from from_s1 [OF dk_fail_goes [OF this]] show ?thesis .
  next
    case Panic
    with run h s1 show ?thesis by (auto simp: dk_should_reconcile_def intro: goes_refl)
  next
    case (Done tmp)
    let ?hr = "(aggregated hr tmp)\<lparr>hr_abort := False\<rparr>"
    consider (no) "s2 = s1"
      | (yes) "dk_do_reconcile (logged_controller k) old ctx ?hr di target s1 = (r, s2)"
      | (hook) e di2 s3 where "PrepareReconcile (logged (dk_lsClient k)) di (dk_info k) s1 = (e, di2, s3)"
          "s2 = s3 \<or> dk_do_reconcile (logged_controller k) old ctx ?hr di2 target s3 = (r, s2)"
      using run h sub Done by (auto simp: dk_should_reconcile_def Let_def split: if_splits option.splits prod.splits)
    then show ?thesis
    proof cases
      case no
      with s1 show ?thesis by (auto intro: goes_refl)
    next
      case yes
      from from_s1 [OF dk_do_reconcile_goes [OF tame f yes]] show ?thesis .
    next
      case hook
      from PrepareReconcile_log(1) [OF hook(1)] obtain x where x: "snd s3 = snd s1 @ [StatusUpdateItem x]" "list_all (quiet_write di) [StatusUpdateItem x]"
        by auto
      have "goes di2 s3 s2" using hook(2)
      proof
        assume "s2 = s3"
        then show ?thesis by (simp add: goes_refl)
      next
        assume "dk_do_reconcile (logged_controller k) old ctx ?hr di2 target s3 = (r, s2)"
        from dk_do_reconcile_goes [OF tame f this] show ?thesis .
      qed
      from from_s1 [OF goes_prefix [OF x PrepareReconcile_log(2) [OF hook(1) f] this]] show ?thesis .
    qed
  qed
qed

lemma dk_responsible_goes:
  assumes tame: "tame_hooks (dy_ExtensionHooks (dk_deployer k))" and f: "faithful_server (dk_lsClient k)"
    and run: "dk_responsible (logged_controller k) old hr di target s = (r, s2)"
  shows "goes di s s2"
proof (rule dk_stage_goes [OF tame run [unfolded dk_responsible_def]])
  fix hr1 s1 r2
  let ?get = "rc_get (kc_contexts (dk_lsClient (logged_controller k))) (ObjectKey (di_context (di_spec di)) (om_namespace (di_meta di))) s1"
  assume p: "(case ?get of
          (Inl e, w2) \<Rightarrow> (Fail (WrapError (''unable to get landscaper context: '' @ error_string e) e), w2)
        | (Inr lsCtx, w2) \<Rightarrow>
            (case di_HandleAnnotationsAndGeneration (dk_lsClient (logged_controller k)) di (dk_info (logged_controller k)) w2 of
               (Some e, di2, w3) \<Rightarrow> (Fail e, w3)
             | (None, di2, w3) \<Rightarrow> dk_should_reconcile (logged_controller k) old lsCtx hr1 di2 target w3)) = (r2, s2)"
  obtain g sg where g: "?get = (g, sg)" by (cases ?get)
  have sg: "snd sg = snd s1" using g by (auto simp: unlogged_call_def split: prod.splits)
  show "goes di s1 s2"
  proof (cases g)
    case (Inl e)
    with p g sg show ?thesis by (auto intro: goes_refl)
  next
    case (Inr ctx)
    obtain e di2 s3 where h: "di_HandleAnnotationsAndGeneration (logged (dk_lsClient k)) di (dk_info k) sg = (e, di2, s3)"
      by (rule prod_cases3)
    from HandleAnnotations_log [OF f h] obtain q where q: "snd s3 = snd s1 @ q" "list_all (quiet_write di) q" "keeps di di2"
      using sg by auto
    have "goes di2 s3 s2"
    proof (cases e)
      case None
      with p g Inr h have "dk_should_reconcile (logged_controller k) old ctx hr1 di2 target s3 = (r2, s2)" by simp
      from dk_should_reconcile_goes [OF tame f this] show ?thesis .
    qed (use p g Inr h in \<open>auto intro: goes_refl\<close>)
    from goes_prefix [OF q this] show ?thesis .
  qed
qed

lemma checkTarget_log:
  "checkTargetResponsibility (logged_controller k) di s = (r, di1, s1) \<Longrightarrow>
     snd s1 = snd s \<and> di_meta di1 = di_meta di"
  by (auto simp: checkTargetResponsibility_def Let_def set_target_namespace_def unlogged_call_def
      split: option.splits prod.splits sum.splits if_splits)

lemma dk_item_goes:
  assumes tame: "tame_hooks (dy_ExtensionHooks (dk_deployer k))" and f: "faithful_server (dk_lsClient k)"
    and run: "dk_item (logged_controller k) hr di s = (r, s2)"
  shows "goes di s s2"
proof -
  obtain ct di1 s1 where c: "checkTargetResponsibility (logged_controller k) di s = (ct, di1, s1)" by (rule prod_cases3)
  from checkTarget_log [OF c] have s1: "snd s1 = snd s" and m: "di_meta di1 = di_meta di" by simp_all
  show ?thesis
  proof (cases ct)
    case (Inl e)
    with run c s1 show ?thesis by (auto simp: dk_item_def intro: goes_refl)
  next
    case (Inr p)
    obtain target sr where p: "p = (target, sr)" by (cases p)
    obtain h sub sh where h: "dk_hooks (logged_controller k) di1 target DuringResponsibilityCheckHook s1 = (h, sub, sh)"
      by (rule prod_cases3)
    from dk_hooks_tame [OF tame h] have sub: "sub = (di1, target)" and sh: "snd sh = snd s1" by simp_all
    have "s2 = sh \<or> (\<exists>hr1. dk_responsible (logged_controller k) (di_status di) hr1 di1 target sh = (r, s2))"
      using run c Inr p h sub by (auto simp: dk_item_def Let_def split: outcome.splits if_splits)
    then show ?thesis
    proof
      assume "s2 = sh"
      with sh s1 show ?thesis by (auto intro: goes_refl)
    next
      assume "\<exists>hr1. dk_responsible (logged_controller k) (di_status di) hr1 di1 target sh = (r, s2)"
      then obtain hr1 where "dk_responsible (logged_controller k) (di_status di) hr1 di1 target sh = (r, s2)" by blast
      from goes_prefix [OF _ _ _ dk_responsible_goes [OF tame f this], of s "[]" di] show ?thesis
        using sh s1 m by (simp add: keeps_def)
    qed
  qed
qed

lemma dk_Reconcile_start:
  assumes "dy_ExtensionHooks (dk_deployer k) StartHook = None"
    and "rc_get (kc_deployItems (dk_lsClient k)) req w = (Inr di, w1)"
  shows "dk_Reconcile (logged_controller k) req (w, l) = dk_item (logged_controller k) empty_result (SetDefaults_DeployItem di) (w1, l)"
  using assms
  by (simp add: dk_Reconcile_def ExecuteHooks_def unlogged_call_def aggregated_def AggregateHookResults_def
      aggregateHookResults_def empty_result_def)

text \<open>
  C18: a reconciliation calls the deployer at most once, with the operation that the deploy item asks
  for, and under the protection of the finalizer. Before the call, no update takes a finalizer away
  from the item; \<open>Reconcile\<close> of the deployer only ever sees an item that carries the finalizer;
  after the call there are only status updates, and an update of the item only after \<open>Delete\<close>.
\<close>

theorem deployer_called_once_and_protected:
  assumes tame: "tame_hooks (dy_ExtensionHooks (dk_deployer k))" and f: "faithful_server (dk_lsClient k)"
    and start: "dy_ExtensionHooks (dk_deployer k) StartHook = None"
    and get: "rc_get (kc_deployItems (dk_lsClient k)) req w = (Inr di, w1)"
    and run: "dk_Reconcile (logged_controller k) req (w, []) = (r, w2, log)"
  shows "proper_log di log"
proof -
  have "dk_item (logged_controller k) empty_result (SetDefaults_DeployItem di) (w1, []) = (r, w2, log)"
    using run by (simp add: dk_Reconcile_start [OF start get])
  from goes_prefix [OF _ _ _ dk_item_goes [OF tame f this], of "(w1, [])" "[]" di]
  have "goes di (w1, []) (w2, log)" by (simp add: keeps_def SetDefaults_DeployItem_def)
  then show ?thesis by (auto simp: goes_def)
qed

text \<open>
  A deploy item that belongs to another deployer is left alone. If no target selector of the deployer
  selects the target of the item and no hook decides about the responsibility, then the
  reconciliation writes nothing and does not call the deployer.
\<close>

theorem foreign_item_untouched:
  assumes hooks: "dy_ExtensionHooks (dk_deployer k) StartHook = None"
      "dy_ExtensionHooks (dk_deployer k) DuringResponsibilityCheckHook = None"
    and matcher: "\<forall>q. dk_newRequirement k q = Inr (f q)" and sels: "dk_targetSelectors k \<noteq> []"
    and get: "rc_get (kc_deployItems (dk_lsClient k)) req w = (Inr di, w1)" "di_target (di_spec di) = Some ref"
      "rc_get (kc_targets (dk_lsClient k)) (ref\<lparr>or_namespace := om_namespace (di_meta di)\<rparr>) w1 = (Inr t, w2)"
    and foreign: "\<not> (\<exists>sel \<in> set (dk_targetSelectors k). selects f t sel)"
  shows "dk_Reconcile (logged_controller k) req (w, []) = (Done (False, 0), w2, [])"
proof -
  let ?di = "SetDefaults_DeployItem di"
  have same: "di_target (di_spec ?di) = Some ref" "om_namespace (di_meta ?di) = om_namespace (di_meta di)"
    using get(2) by (simp_all add: SetDefaults_DeployItem_def)
  have "checkTargetResponsibility (logged_controller k) ?di (w1, []) = (Inr (None, False), set_target_namespace ?di, (w2, []))"
    using same get(3) foreign sels match_one_from_exact [OF matcher]
    by (simp add: checkTargetResponsibility_def MatchOne_def Let_def unlogged_call_def)
  then show ?thesis
    using hooks(2) by (simp add: dk_Reconcile_start [OF hooks(1) get(1)] dk_item_def dk_hooks_def ExecuteHooks_def
        item_of_def result_of_def empty_result_def)
qed

text \<open>
  The error of a deployer is recorded before it is returned, and a failed status update is not
  retried after a success. The handler writes the status exactly if it changed, with the last error
  updated from the error and the phase that follows from it. An error is always answered with an
  error; without an error the handler returns none, even if the status update fails.
\<close>

theorem deployer_errors_are_recorded:
  assumes "di_HandleErrorFunc (logged c) old err di (w, []) = (e, di1, w1, log)"
  shows "log = (if old = di_handled_status (kc_now c w) err (di_status di) then []
        else [StatusUpdateItem (di\<lparr>di_status := di_handled_status (kc_now c w) err (di_status di)\<rparr>)])
    \<and> ds_lastError (di_handled_status (kc_now c w) err (di_status di)) = TryUpdateError (kc_now c w) (ds_lastError (di_status di)) err
    \<and> (e = None \<longleftrightarrow> err = None)"
  using assms
  by (auto simp: di_HandleErrorFunc_def Let_def logged_call_def di_handled_status_def split: if_splits prod.splits sum.splits)

section \<open>Example runs\<close>

definition example_deployer :: "gerr option \<Rightarrow> cluster deployer" where
  "example_deployer e =
     \<lparr>dy_Reconcile = \<lambda>ctx di t w. (e, (di, t), w), dy_Delete = \<lambda>ctx di t w. (e, (di, t), w),
      dy_ForceReconcile = \<lambda>ctx di t w. (e, (di, t), w), dy_Abort = \<lambda>ctx di t w. (e, (di, t), w),
      dy_ExtensionHooks = RegisterHook Map.empty (ContinuousReconcileExtension cw_time (\<lambda>t di. Inr None)) [ShouldReconcileHook]\<rparr>"

definition example_controller :: "target_selector list \<Rightarrow> cluster deployer_controller" where
  "example_controller sels = dk_NewController example_client (\<lambda>q. Inr (\<lambda>m. False)) (example_deployer None)
     (args_Default ''v1'' 7 \<lparr>da_name = [], da_version = [], da_identity = [], da_type = ''mock'', da_targetSelectors = sels\<rparr>)"

definition plain_item :: "object_reference option \<Rightarrow> deploy_item" where
  "plain_item t =
     \<lparr>di_meta = empty_meta\<lparr>om_name := ''x'', om_namespace := ''ns'', om_generation := 1\<rparr>,
      di_spec = \<lparr>di_type = ''mock'', di_target = t, di_context = [], di_configuration = None,
        di_registryPullSecrets = [], di_timeout = None\<rparr>,
      di_status = di_status (new_deploy_item [] [])\<rparr>"

definition deployer_cluster :: "deploy_item \<Rightarrow> cluster" where
  "deployer_cluster di = \<lparr>cw_time = 100, cw_items = [di], cw_executions = [], cw_data = [],
     cw_targets = [\<lparr>tg_meta = empty_meta\<lparr>om_name := ''t'', om_namespace := ''ns''\<rparr>,
        tg_spec = \<lparr>tg_type = ''cluster'', tg_configuration = None\<rparr>\<rparr>],
     cw_contexts = [\<lparr>lc_meta = empty_meta\<lparr>om_name := ''default'', om_namespace := ''ns''\<rparr>, lc_repositoryContext = None,
        lc_registryPullSecrets = [], lc_configurations = []\<rparr>],
     cw_installations = []\<rparr>"

lemma example_controller_sel [simp]:
  "dk_deployer (example_controller sels) = example_deployer None"
  "dk_lsClient (example_controller sels) = example_client"
  "dk_newRequirement (example_controller sels) q = Inr (\<lambda>m. False)"
  "dk_targetSelectors (example_controller sels) = sels"
  by (simp_all add: example_controller_def dk_NewController_def args_Default_def Let_def)

lemma example_client_faithful: "faithful_server example_client"
  by (auto simp: faithful_server_def same_control_def example_client_def store_client_def store_replace_def Let_def
      split: option.splits)

lemma example_hooks_tame: "tame_hooks (dy_ExtensionHooks (example_deployer None))"
proof -
  have "tame_hook (ContinuousReconcileExtension cw_time (\<lambda>t di. Inr None))"
    by (auto simp: tame_hook_def ContinuousReconcileExtension_def Let_def split: option.splits)
  then show ?thesis by (auto simp: tame_hooks_def example_deployer_def RegisterHook_def register_one_def split: if_splits)
qed

definition managed_run :: "reconcile_result outcome \<times> cluster \<times> api_write list" where
  "managed_run = dk_Reconcile (logged_controller (example_controller [])) (ObjectKey ''x'' ''ns'')
     (deployer_cluster (plain_item None), [])"

lemma managed_run_log:
  "map (\<lambda>a. case a of DeployerCall op d \<Rightarrow> op = OpReconcile | _ \<Rightarrow> False) (snd (snd managed_run)) = [False, False, True, False]"
  by code_simp

lemma deployer_called_once_and_protected_witness:
  "proper_log (plain_item None) (snd (snd managed_run))"
proof -
  obtain r w log where m: "managed_run = (r, w, log)" by (rule prod_cases3)
  have "proper_log (plain_item None) log"
  proof (rule deployer_called_once_and_protected [where k = "example_controller []"])
    show "rc_get (kc_deployItems (dk_lsClient (example_controller []))) (ObjectKey ''x'' ''ns'') (deployer_cluster (plain_item None))
        = (Inr (plain_item None), deployer_cluster (plain_item None))" by code_simp
    show "dk_Reconcile (logged_controller (example_controller [])) (ObjectKey ''x'' ''ns'') (deployer_cluster (plain_item None), []) = (r, w, log)"
      using m by (simp add: managed_run_def)
  qed (simp_all add: example_hooks_tame example_client_faithful, simp add: example_deployer_def RegisterHook_def register_one_def)
  then show ?thesis unfolding m by simp
qed

definition other_selector :: target_selector where
  "other_selector = \<lparr>ts_targets = [\<lparr>or_name = ''other'', or_namespace = []\<rparr>], ts_annotations = [], ts_labels = []\<rparr>"

lemma foreign_item_untouched_witness:
  "dk_Reconcile (logged_controller (example_controller [other_selector])) (ObjectKey ''x'' ''ns'')
     (deployer_cluster (plain_item (Some \<lparr>or_name = ''t'', or_namespace = []\<rparr>)), [])
   = (Done (False, 0), deployer_cluster (plain_item (Some \<lparr>or_name = ''t'', or_namespace = []\<rparr>)), [])"
proof (rule foreign_item_untouched [where f = "\<lambda>q m. False" and k = "example_controller [other_selector]"])
  let ?w = "deployer_cluster (plain_item (Some \<lparr>or_name = ''t'', or_namespace = []\<rparr>))"
  show "rc_get (kc_deployItems (dk_lsClient (example_controller [other_selector]))) (ObjectKey ''x'' ''ns'') ?w
      = (Inr (plain_item (Some \<lparr>or_name = ''t'', or_namespace = []\<rparr>)), ?w)" by code_simp
  show "rc_get (kc_targets (dk_lsClient (example_controller [other_selector])))
      (\<lparr>or_name = ''t'', or_namespace = []\<rparr>\<lparr>or_namespace := om_namespace (di_meta (plain_item (Some \<lparr>or_name = ''t'', or_namespace = []\<rparr>)))\<rparr>) ?w
      = (Inr (hd (cw_targets ?w)), ?w)" by code_simp
  show "\<not> (\<exists>sel \<in> set (dk_targetSelectors (example_controller [other_selector])).
      selects (\<lambda>q m. False) (hd (cw_targets ?w)) sel)"
    by (simp add: selects_def other_selector_def deployer_cluster_def)
qed (simp_all add: example_deployer_def RegisterHook_def register_one_def plain_item_def)

lemma deployer_errors_are_recorded_witness:
  "\<exists>d. snd (snd (snd (di_HandleErrorFunc (logged example_client) (di_status (plain_item None)) (Some (NewError 100 ''op'' ''reason'' ''msg'' []))
     (plain_item None) (deployer_cluster (plain_item None), [])))) = [StatusUpdateItem d]"
proof -
  obtain e d w log where m: "di_HandleErrorFunc (logged example_client) (di_status (plain_item None)) (Some (NewError 100 ''op'' ''reason'' ''msg'' []))
     (plain_item None) (deployer_cluster (plain_item None), []) = (e, d, w, log)" by (metis prod.collapse)
  from deployer_errors_are_recorded [OF m] m show ?thesis
    by (auto simp: di_handled_status_def Let_def plain_item_def TryUpdateError_def NewError_def new_deploy_item_def split: if_splits)
qed

end
