(* ===== verification/Installations.thy ===== *)
theory Installations
  imports "HOL-Library.Char_ord" "HOL-Library.List_Lexorder" ExecutionOps ExampleCluster
begin

text \<open>
  Installations (\<open>pkg/landscaper/installations\<close>): the overwriting of component references
  (\<open>registry/componentoverwrites\<close>), the states of imports, exporting and importing by name,
  the generation hash, the errors, parents and siblings, the context of an installation, the trigger of
  dependants, and the phases of the execution and the sub-installations.
\<close>

section \<open>Component overwrites (componentoverwrites)\<close>

text \<open>
  The table of overwrites is a map by component name. Whether two repository contexts are equal
  is decided by a library, which is an argument.
\<close>

type_synonym overwrite_table = "(string \<times> component_overwrite) list"

definition version_applies :: "component_overwrite \<Rightarrow> component_descriptor_reference \<Rightarrow> bool" where
  "version_applies entry ref \<longleftrightarrow> ov_version (ov_component entry) = [] \<or> ov_version (ov_component entry) = cr_version ref"

definition context_applies ::
    "(string \<Rightarrow> string option \<Rightarrow> bool) \<Rightarrow> component_overwrite \<Rightarrow> component_descriptor_reference \<Rightarrow> bool" where
  "context_applies ctxEqual entry ref \<longleftrightarrow>
     (case ov_repositoryContext (ov_component entry) of
        None \<Rightarrow> True | Some r \<Rightarrow> ctxEqual r (cr_repositoryContext ref))"

definition overwrite_reference :: "component_overwrite_reference \<Rightarrow> component_descriptor_reference \<Rightarrow> component_descriptor_reference" where
  "overwrite_reference t ref =
     \<lparr>cr_repositoryContext = (case ov_repositoryContext t of Some r \<Rightarrow> Some r | None \<Rightarrow> cr_repositoryContext ref),
      cr_componentName = (if ov_componentName t \<noteq> [] then ov_componentName t else cr_componentName ref),
      cr_version = (if ov_version t \<noteq> [] then ov_version t else cr_version ref)\<rparr>"

definition Replace ::
    "(string \<Rightarrow> string option \<Rightarrow> bool) \<Rightarrow> overwrite_table \<Rightarrow> component_descriptor_reference
      \<Rightarrow> bool \<times> component_descriptor_reference" where
  "Replace ctxEqual table ref =
     (case map_of table (cr_componentName ref) of
        None \<Rightarrow> (False, ref)
      | Some entry \<Rightarrow>
          if \<not> version_applies entry ref then (False, ref)
          else if \<not> context_applies ctxEqual entry ref then (False, ref)
          else (True, overwrite_reference (ov_target entry) ref))"

definition Add :: "overwrite_table \<Rightarrow> component_overwrite \<Rightarrow> overwrite_table" where
  "Add table overwrite =
     (let k = ov_componentName (ov_component overwrite) in (k, overwrite) # filter (\<lambda>e. fst e \<noteq> k) table)"

text \<open>The description of a replacement. The text for two repository contexts comes from a library.\<close>

definition arrow :: "string \<Rightarrow> string \<Rightarrow> string" where
  "arrow a b = a @ '' -> '' @ b"

definition ReferenceDiff ::
    "(string option \<Rightarrow> string option \<Rightarrow> bool) \<Rightarrow> (string option \<Rightarrow> string option \<Rightarrow> string)
      \<Rightarrow> component_descriptor_reference \<Rightarrow> component_descriptor_reference \<Rightarrow> string" where
  "ReferenceDiff ctxEqual ctxDiff oldRef newRef =
     (let repoCtx = (if \<not> ctxEqual (cr_repositoryContext oldRef) (cr_repositoryContext newRef)
            then ctxDiff (cr_repositoryContext oldRef) (cr_repositoryContext newRef) else ''RepositoryContext not updated'');
          componentName1 = (if cr_componentName oldRef \<noteq> cr_componentName newRef
            then arrow (cr_componentName oldRef) (cr_componentName newRef) else ''ComponentName not updated'');
          componentName2 = (if cr_version oldRef \<noteq> cr_version newRef
            then arrow (cr_version oldRef) (cr_version newRef) else componentName1);
          version = ''Version not updated''
      in [CHR 0x0A] @ ''Componenten reference has been overwritten:'' @ [CHR 0x0A] @ repoCtx @ [CHR 0x0A]
         @ componentName2 @ [CHR 0x0A] @ version @ [CHR 0x0A])"

section \<open>Import states (importstatus.go)\<close>

type_synonym state_map = "(string \<times> import_status) list"

record import_table =
  it_Data :: state_map
  it_Target :: state_map
  it_ComponentDescriptor :: state_map

definition put_state :: "state_map \<Rightarrow> import_status \<Rightarrow> state_map" where
  "put_state m st = AList.update (is_name st) st m"

definition set_state :: "import_table \<Rightarrow> import_status \<Rightarrow> import_table" where
  "set_state s st =
     (let s1 = (if is_type st = DataImportStatusType then s\<lparr>it_Data := put_state (it_Data s) st\<rparr> else s);
          s2 = (if is_type st = TargetImportStatusType \<or> is_type st = TargetListImportStatusType
                then s1\<lparr>it_Target := put_state (it_Target s1) st\<rparr> else s1)
      in if is_type st = CDImportStatusType \<or> is_type st = CDListImportStatusType
         then s2\<lparr>it_Target := put_state (it_Target s2) st\<rparr> else s2)"

text \<open>The order of the states is the order of the iteration over the maps, which Go leaves open.\<close>

definition GetStatus :: "import_table \<Rightarrow> import_status list" where
  "GetStatus s = map snd (it_Data s) @ map snd (it_Target s) @ map snd (it_ComponentDescriptor s)"

definition state_not_found :: "string \<Rightarrow> gerr" where
  "state_not_found name = PlainError (''import state '' @ name @ '' not found'')"

definition get_state :: "state_map \<Rightarrow> string \<Rightarrow> gerr + import_status" where
  "get_state m name = (case map_of m name of None \<Rightarrow> Inl (state_not_found name) | Some st \<Rightarrow> Inr st)"

definition GetData :: "import_table \<Rightarrow> string \<Rightarrow> gerr + import_status" where
  "GetData s name = get_state (it_Data s) name"

definition GetTarget :: "import_table \<Rightarrow> string \<Rightarrow> gerr + import_status" where
  "GetTarget s name = get_state (it_Target s) name"

definition GetComponentDescriptor :: "import_table \<Rightarrow> string \<Rightarrow> gerr + import_status" where
  "GetComponentDescriptor s name = get_state (it_Target s) name"

section \<open>Installations (installation.go)\<close>

record installation_base =
  ib_info :: installation
  ib_importsStatus :: import_table

definition newInstallationBase :: "installation \<Rightarrow> installation_base" where
  "newInstallationBase inst =
     \<lparr>ib_info = inst,
      ib_importsStatus = foldl set_state \<lparr>it_Data = [], it_Target = [], it_ComponentDescriptor = []\<rparr>
        (ins_imports (in_status inst))\<rparr>"

definition IsExportingData :: "installation \<Rightarrow> string \<Rightarrow> bool" where
  "IsExportingData i name = list_ex (\<lambda>d. dx_dataRef d = name) (ix_data (in_exports (in_spec i)))"

definition IsExportingTarget :: "installation \<Rightarrow> string \<Rightarrow> bool" where
  "IsExportingTarget i name = list_ex (\<lambda>d. tx_target d = name) (ix_targets (in_exports (in_spec i)))"

definition IsImportingData :: "installation \<Rightarrow> string \<Rightarrow> bool" where
  "IsImportingData i name = list_ex (\<lambda>d. im_dataRef d = name) (ii_data (in_imports (in_spec i)))"

definition IsImportingTarget :: "installation \<Rightarrow> string \<Rightarrow> bool" where
  "IsImportingTarget i name = list_ex (\<lambda>d. ti_target d = name) (ii_targets (in_imports (in_spec i)))"

fun getFlattenedImports :: "import_definition list \<Rightarrow> import_definition list" where
  "getFlattenedImports [] = []"
| "getFlattenedImports (ImportDefinition fv ty required dflt conditional # defs) =
     ImportDefinition fv ty required dflt conditional # getFlattenedImports conditional @ getFlattenedImports defs"

definition GetImportDefinition :: "import_definition list \<Rightarrow> string \<Rightarrow> gerr + import_definition" where
  "GetImportDefinition defs key =
     (case List.find (\<lambda>d. fv_name (id_fieldValue d) = key) (getFlattenedImports defs) of
        Some d \<Rightarrow> Inr d
      | None \<Rightarrow> Inl (PlainError (''import with key '' @ key @ '' not found'')))"

section \<open>The generation of an installation (generation.go)\<close>

text \<open>The encoding and the hash are arguments; \<open>sort.Sort\<close> sorts by the key.\<close>

definition import_states :: "installation \<Rightarrow> (string \<times> string) list" where
  "import_states inst = map (\<lambda>s. (is_name s, is_configGeneration s)) (ins_imports (in_status inst))"

definition CreateGenerationHash ::
    "(int \<times> (string \<times> string) list \<Rightarrow> gerr + string) \<Rightarrow> (string \<Rightarrow> string) \<Rightarrow> installation \<Rightarrow> gerr + string" where
  "CreateGenerationHash encode sha inst =
     (case encode (om_generation (in_meta inst), sort_key fst (import_states inst)) of
        Inl e \<Rightarrow> Inl e
      | Inr bytes \<Rightarrow> Inr (sha bytes))"

section \<open>Errors of installations (error.go)\<close>

definition NewInstError :: "string \<Rightarrow> string \<Rightarrow> gerr option \<Rightarrow> gerr" where
  "NewInstError reason message err =
     (case err of
        Some e \<Rightarrow> WrapError (error_string e @ '': '') e
      | None \<Rightarrow> PlainError (if message \<noteq> [] then reason @ '' - '' @ message else reason))"

definition NewImportNotFoundError :: "string \<Rightarrow> gerr option \<Rightarrow> gerr" where
  "NewImportNotFoundError message err = NewInstError ''ImportNotFound'' message err"

definition NewImportNotSatisfiedError :: "string \<Rightarrow> gerr option \<Rightarrow> gerr" where
  "NewImportNotSatisfiedError message err = NewInstError ''ImportNotSatisfied'' message err"

definition NewNotCompletedDependentsError :: "string \<Rightarrow> gerr option \<Rightarrow> gerr" where
  "NewNotCompletedDependentsError message err = NewInstError ''NotCompletedDependents'' message err"

section \<open>Parents and siblings (helper.go, context.go, operation.go)\<close>

definition EncompassedByLabel :: string where
  "EncompassedByLabel = ''landscaper.gardener.cloud/encompassed-by''"

definition parent_owner :: "installation \<Rightarrow> string option" where
  "parent_owner inst = OwnerOfGVK (om_ownerReferences (in_meta inst)) ''landscaper.gardener.cloud'' ''Installation''"

definition IsRootInstallation :: "installation \<Rightarrow> bool" where
  "IsRootInstallation inst \<longleftrightarrow> parent_owner inst = None"

definition GetParentInstallationName :: "installation \<Rightarrow> string" where
  "GetParentInstallationName inst = (case parent_owner inst of Some n \<Rightarrow> n | None \<Rightarrow> [])"

definition ListSubinstallations ::
    "'w kube_client \<Rightarrow> installation \<Rightarrow> (installation \<Rightarrow> bool) list \<Rightarrow> 'w \<Rightarrow> (gerr + installation list) \<times> 'w" where
  "ListSubinstallations c inst fs w =
     (case rc_list (kc_installations c) (EncompassedByLabel, om_name (in_meta inst)) (om_namespace (in_meta inst)) w of
        (Inl e, w1) \<Rightarrow> (Inl e, w1)
      | (Inr items, w1) \<Rightarrow> (Inr (filter (\<lambda>i. \<not> list_ex (\<lambda>f. f i) fs) items), w1))"

definition GetRootInstallations ::
    "'w kube_client \<Rightarrow> (installation \<Rightarrow> bool) \<Rightarrow> string \<Rightarrow> 'w \<Rightarrow> (gerr + installation list) \<times> 'w" where
  "GetRootInstallations c f namespace w =
     (case rc_select (kc_installations c) [LabelDoesNotExist EncompassedByLabel] namespace w of
        (Inl e, w1) \<Rightarrow> (Inl e, w1)
      | (Inr items, w1) \<Rightarrow> (Inr (filter (\<lambda>i. \<not> f i) items), w1))"

definition GetParent :: "'w kube_client \<Rightarrow> installation \<Rightarrow> 'w \<Rightarrow> (gerr + installation option) \<times> 'w" where
  "GetParent c inst w =
     (if IsRootInstallation inst then (Inr None, w)
      else case rc_get (kc_installations c) (ObjectKey (GetParentInstallationName inst) (om_namespace (in_meta inst))) w of
             (Inl e, w1) \<Rightarrow> (Inl e, w1)
           | (Inr parent, w1) \<Rightarrow> (Inr (Some parent), w1))"

definition same_name :: "installation \<Rightarrow> installation \<Rightarrow> bool" where
  "same_name inst found \<longleftrightarrow> om_name (in_meta inst) = om_name (in_meta found)"

definition GetParentAndSiblings ::
    "'w kube_client \<Rightarrow> installation \<Rightarrow> 'w \<Rightarrow> (gerr + installation option \<times> installation list) \<times> 'w" where
  "GetParentAndSiblings c inst w =
     (if IsRootInstallation inst
      then (case GetRootInstallations c (same_name inst) (om_namespace (in_meta inst)) w of
              (Inl e, w1) \<Rightarrow> (Inl e, w1)
            | (Inr roots, w1) \<Rightarrow> (Inr (None, roots), w1))
      else (case rc_get (kc_installations c) (ObjectKey (GetParentInstallationName inst) (om_namespace (in_meta inst))) w of
              (Inl e, w1) \<Rightarrow> (Inl e, w1)
            | (Inr parent, w1) \<Rightarrow>
                (case ListSubinstallations c parent [same_name inst] w1 of
                   (Inl e, w2) \<Rightarrow> (Inl e, w2)
                 | (Inr siblings, w2) \<Rightarrow> (Inr (Some parent, siblings), w2))))"

definition GetInstallationContextName :: "installation \<Rightarrow> string" where
  "GetInstallationContextName inst =
     (if IsRootInstallation inst then [] else DataObjectSourceFromInstallationName (GetParentInstallationName inst))"

text \<open>
  The reference of a component descriptor; that of an inline descriptor is read by a library.
\<close>

definition GetReferenceFromComponentDescriptorDefinition ::
    "(string \<Rightarrow> component_descriptor_reference) \<Rightarrow> component_descriptor_definition option
      \<Rightarrow> component_descriptor_reference option" where
  "GetReferenceFromComponentDescriptorDefinition inlineRef cdDef =
     (case cdDef of
        None \<Rightarrow> None
      | Some d \<Rightarrow> (case cd_inline d of Some i \<Rightarrow> Some (inlineRef i) | None \<Rightarrow> cd_reference d))"

record external_context =
  xc_context :: ls_context
  xc_componentName :: string
  xc_componentVersion :: string

definition ComponentDescriptorRef :: "external_context \<Rightarrow> component_descriptor_reference option" where
  "ComponentDescriptorRef x =
     (if xc_componentName x = [] \<or> xc_componentVersion x = [] then None
      else Some \<lparr>cr_repositoryContext = lc_repositoryContext (xc_context x), cr_componentName = xc_componentName x,
                 cr_version = xc_componentVersion x\<rparr>)"

definition InjectComponentDescriptorRef :: "external_context \<Rightarrow> installation \<Rightarrow> installation" where
  "InjectComponentDescriptorRef x inst =
     (if (case in_componentDescriptor (in_spec inst) of Some d \<Rightarrow> cd_inline d \<noteq> None | None \<Rightarrow> False) then inst
      else inst\<lparr>in_spec := (in_spec inst)\<lparr>in_componentDescriptor :=
             Some \<lparr>cd_reference = ComponentDescriptorRef x, cd_inline = None\<rparr>\<rparr>\<rparr>)"

definition xc_RegistryPullSecrets :: "external_context \<Rightarrow> object_reference list" where
  "xc_RegistryPullSecrets x =
     map (\<lambda>r. \<lparr>or_name = r, or_namespace = om_namespace (lc_meta (xc_context x))\<rparr>) (lc_registryPullSecrets (xc_context x))"


section \<open>The context of an installation (context.go)\<close>

definition ComponentReferenceOverwriteCondition :: string where
  "ComponentReferenceOverwriteCondition = ''ComponentReferenceOverwrite''"

text \<open>
  An overwriter replaces a reference in place and says whether it did; it may be missing. The
  operations return the reference, because it is the one in the installation in memory.
\<close>

record overwrite_env =
  oo_overwriter :: "(component_descriptor_reference \<Rightarrow> gerr + bool \<times> component_descriptor_reference) option"
  oo_diff :: "component_descriptor_reference \<Rightarrow> component_descriptor_reference \<Rightarrow> string"
  oo_inlineReference :: "string \<Rightarrow> component_descriptor_reference"

definition ApplyComponentOverwrite ::
    "overwrite_env \<Rightarrow> time \<Rightarrow> ls_context \<Rightarrow> component_descriptor_reference
      \<Rightarrow> (gerr + condition option) \<times> component_descriptor_reference" where
  "ApplyComponentOverwrite oo now lsCtx cdRef0 =
     (let cdRef = (if cr_repositoryContext cdRef0 = None
                   then cdRef0\<lparr>cr_repositoryContext := lc_repositoryContext lsCtx\<rparr> else cdRef0);
          cond = InitCondition now ComponentReferenceOverwriteCondition
      in case oo_overwriter oo of
           None \<Rightarrow> (Inr None, cdRef)
         | Some replace \<Rightarrow>
             (case replace cdRef of
                Inl e \<Rightarrow> (Inl (NewWrappedError now e ''HandleComponentReference'' ''OverwriteComponentReference'' (error_string e) []), cdRef)
              | Inr (overwritten, cdRef1) \<Rightarrow>
                  if overwritten
                  then (Inr (Some (UpdatedCondition now cond ConditionTrue ''FoundOverwrite'' (oo_diff oo cdRef cdRef1) [])), cdRef1)
                  else (Inr (Some (UpdatedCondition now cond ConditionFalse ''No overwrite defined''
                         ''component reference has not been overwritten'' [])), cdRef1)))"

definition empty_context :: ls_context where
  "empty_context = \<lparr>lc_meta = empty_meta, lc_repositoryContext = None, lc_registryPullSecrets = [], lc_configurations = []\<rparr>"

definition put_reference :: "component_descriptor_reference \<Rightarrow> installation \<Rightarrow> installation" where
  "put_reference ref inst =
     (case in_componentDescriptor (in_spec inst) of
        Some d \<Rightarrow> (if cd_inline d = None
                   then inst\<lparr>in_spec := (in_spec inst)\<lparr>in_componentDescriptor := Some (d\<lparr>cd_reference := Some ref\<rparr>)\<rparr>\<rparr>
                   else inst)
      | None \<Rightarrow> inst)"

definition inst_merge_conditions :: "condition list \<Rightarrow> installation \<Rightarrow> installation" where
  "inst_merge_conditions cs inst =
     inst\<lparr>in_status := (in_status inst)\<lparr>ins_conditions := MergeConditions (ins_conditions (in_status inst)) cs\<rparr>\<rparr>"

definition external_of_reference ::
    "overwrite_env \<Rightarrow> time \<Rightarrow> installation \<Rightarrow> ls_context \<Rightarrow> (gerr + external_context) \<times> installation" where
  "external_of_reference oo now inst lsCtx =
     (case GetReferenceFromComponentDescriptorDefinition (oo_inlineReference oo) (in_componentDescriptor (in_spec inst)) of
        None \<Rightarrow> (Inr \<lparr>xc_context = lsCtx, xc_componentName = [], xc_componentVersion = []\<rparr>, inst)
      | Some cdRef \<Rightarrow>
          (case ApplyComponentOverwrite oo now lsCtx cdRef of
             (Inl e, cdRef1) \<Rightarrow>
               (Inl (NewWrappedError now e ''Context'' ''OverwriteComponentReference'' (error_string e) []), put_reference cdRef1 inst)
           | (Inr cond, cdRef1) \<Rightarrow>
               (let inst1 = put_reference cdRef1 inst;
                    inst2 = (case cond of Some x \<Rightarrow> inst_merge_conditions [x] inst1 | None \<Rightarrow> inst1)
                in if cr_repositoryContext cdRef1 = None
                   then (Inl (PlainError ''RepositoryContextMissing''), inst2)
                   else (Inr \<lparr>xc_context = lsCtx\<lparr>lc_repositoryContext := cr_repositoryContext cdRef1\<rparr>,
                              xc_componentName = cr_componentName cdRef1, xc_componentVersion = cr_version cdRef1\<rparr>, inst2))))"

definition GetExternalContext ::
    "overwrite_env \<Rightarrow> 'w kube_client \<Rightarrow> installation \<Rightarrow> 'w \<Rightarrow> (gerr + external_context) \<times> installation \<times> 'w" where
  "GetExternalContext oo c inst w =
     (if in_context (in_spec inst) \<noteq> []
      then (case rc_get (kc_contexts c) (ObjectKey (in_context (in_spec inst)) (om_namespace (in_meta inst))) w of
              (Inl e, w1) \<Rightarrow> (Inl (NewWrappedError (kc_now c w1) e ''Context'' ''GetContext'' (error_string e) []), inst, w1)
            | (Inr lsCtx, w1) \<Rightarrow> (case external_of_reference oo (kc_now c w1) inst lsCtx of (r, inst1) \<Rightarrow> (r, inst1, w1)))
      else (case external_of_reference oo (kc_now c w) inst empty_context of (r, inst1) \<Rightarrow> (r, inst1, w)))"

record inst_context =
  cx_name :: string
  cx_parent :: "installation option"
  cx_siblings :: "installation list"
  cx_external :: external_context

definition default_sibling :: "string option \<Rightarrow> installation \<Rightarrow> installation" where
  "default_sibling repositoryContext i =
     (case in_componentDescriptor (in_spec i) of
        Some d \<Rightarrow>
          (case cd_reference d of
             Some r \<Rightarrow>
               if cr_repositoryContext r = None
               then i\<lparr>in_spec := (in_spec i)\<lparr>in_componentDescriptor :=
                      Some (d\<lparr>cd_reference := Some (r\<lparr>cr_repositoryContext := repositoryContext\<rparr>)\<rparr>)\<rparr>\<rparr>
               else i
           | None \<Rightarrow> i)
      | None \<Rightarrow> i)"

definition GetInstallationContext ::
    "overwrite_env \<Rightarrow> 'w kube_client \<Rightarrow> installation \<Rightarrow> 'w \<Rightarrow> (gerr + inst_context) \<times> installation \<times> 'w" where
  "GetInstallationContext oo c inst w =
     (case GetParentAndSiblings c inst w of
        (Inl e, w1) \<Rightarrow> (Inl e, inst, w1)
      | (Inr (parent, siblings), w1) \<Rightarrow>
          (case GetExternalContext oo c inst w1 of
             (Inl e, inst1, w2) \<Rightarrow> (Inl e, inst1, w2)
           | (Inr externalCtx, inst1, w2) \<Rightarrow>
               (Inr \<lparr>cx_name = (case parent of Some p \<Rightarrow> DataObjectSourceFromInstallation p | None \<Rightarrow> []),
                     cx_parent = parent,
                     cx_siblings = map (default_sibling (lc_repositoryContext (xc_context externalCtx))) siblings,
                     cx_external = externalCtx\<rparr>, inst1, w2)))"

section \<open>Dependants (operation.go)\<close>

definition importsAnyExport :: "installation \<Rightarrow> installation \<Rightarrow> bool" where
  "importsAnyExport exporter importer \<longleftrightarrow>
     list_ex (\<lambda>export. list_ex (\<lambda>def. im_dataRef def = dx_dataRef export) (ii_data (in_imports (in_spec importer))))
       (ix_data (in_exports (in_spec exporter)))
   \<or> list_ex (\<lambda>export. list_ex (\<lambda>def. ti_target def = tx_target export) (ii_targets (in_imports (in_spec importer))))
       (ix_targets (in_exports (in_spec exporter)))"

definition triggered :: "installation \<Rightarrow> installation" where
  "triggered i = i\<lparr>in_meta := SetMetaDataAnnotation (in_meta i) OperationAnnotation ReconcileOperation\<rparr>"

fun trigger_dependants ::
    "'w kube_client \<Rightarrow> installation \<Rightarrow> installation list \<Rightarrow> 'w \<Rightarrow> gerr option \<times> 'w" where
  "trigger_dependants c inst [] w = (None, w)"
| "trigger_dependants c inst (sibling # siblings) w =
     (if \<not> importsAnyExport inst sibling then trigger_dependants c inst siblings w
      else case rc_update (kc_installations c) (triggered sibling) w of
             (Inl e, w1) \<Rightarrow>
               (Some (WrapError (''unable to trigger installation '' @ om_name (in_meta sibling) @ '': '' @ error_string e) e), w1)
           | (Inr i, w1) \<Rightarrow> trigger_dependants c inst siblings w1)"

definition TriggerDependants :: "'w kube_client \<Rightarrow> inst_context \<Rightarrow> installation \<Rightarrow> 'w \<Rightarrow> gerr option \<times> 'w" where
  "TriggerDependants c cx inst w = trigger_dependants c inst (cx_siblings cx) w"

definition inst_phase :: "phase \<Rightarrow> installation \<Rightarrow> installation" where
  "inst_phase p inst = inst\<lparr>in_status := (in_status inst)\<lparr>ins_phase := p\<rparr>\<rparr>"

text \<open>\<open>UpdateInstallationStatus\<close>: the error, the installation in memory and the world.\<close>

definition UpdateInstallationStatus ::
    "'w kube_client \<Rightarrow> installation \<Rightarrow> phase \<Rightarrow> condition list \<Rightarrow> 'w \<Rightarrow> gerr option \<times> installation \<times> 'w" where
  "UpdateInstallationStatus c inst p updatedConditions w =
     (let inst1 = inst_merge_conditions updatedConditions (inst_phase p inst)
      in case rc_statusUpdate (kc_installations c) inst1 w of
           (Inl e, w1) \<Rightarrow> (Some e, inst1, w1)
         | (Inr inst2, w1) \<Rightarrow> (None, inst2, w1))"

section \<open>The phases of the children (complete.go, subinstallations/helper.go, helper.go)\<close>

definition GetExecutionForInstallation ::
    "'w kube_client \<Rightarrow> installation \<Rightarrow> 'w \<Rightarrow> (gerr + execution option) \<times> 'w" where
  "GetExecutionForInstallation c inst w =
     (case rc_get (kc_executions c) (ObjectKeyFromObject (in_meta inst)) w of
        (Inl e, w1) \<Rightarrow> (if IsNotFound e then Inr None else Inl e, w1)
      | (Inr exec, w1) \<Rightarrow> (Inr (Some exec), w1))"

definition execution_phase :: "execution option \<Rightarrow> phase" where
  "execution_phase exec =
     (case exec of
        None \<Rightarrow> PhEmpty
      | Some e \<Rightarrow> if om_generation (ex_meta e) \<noteq> es_observedGeneration (ex_status e) then PhProgressing
                  else es_phase (ex_status e))"

definition exec_CombinedPhase :: "'w kube_client \<Rightarrow> installation \<Rightarrow> 'w \<Rightarrow> (gerr + phase) \<times> 'w" where
  "exec_CombinedPhase c inst w =
     (case GetExecutionForInstallation c inst w of
        (Inl e, w1) \<Rightarrow> (Inl e, w1)
      | (Inr exec, w1) \<Rightarrow> (Inr (execution_phase exec), w1))"

definition subinstallation_phase :: "installation \<Rightarrow> phase" where
  "subinstallation_phase v =
     (if om_generation (in_meta v) \<noteq> ins_observedGeneration (in_status v) then PhProgressing else ins_phase (in_status v))"

definition sub_CombinedPhase :: "'w kube_client \<Rightarrow> installation \<Rightarrow> 'w \<Rightarrow> (gerr + phase) \<times> 'w" where
  "sub_CombinedPhase c inst w =
     (case ListSubinstallations c inst [] w of
        (Inl e, w1) \<Rightarrow> (Inl e, w1)
      | (Inr subinsts, w1) \<Rightarrow>
          (Inr (if subinsts = [] then PhEmpty else CombinedInstallationPhase (map subinstallation_phase subinsts)), w1))"

section \<open>What the operations do\<close>

lemma sort_key_fst_set:
  assumes "distinct (map fst xs)" "distinct (map fst ys)"
  shows "sort_key fst xs = sort_key fst ys \<longleftrightarrow> set xs = set (ys :: (string \<times> 'a) list)"
proof
  assume "set xs = set ys"
  moreover have "distinct (map fst (sort_key fst xs))" "distinct (map fst (sort_key fst ys))"
    using assms by (simp_all add: distinct_map)
  moreover have "inj_on fst (set xs \<union> set ys)" if "set xs = set ys"
    using assms that by (simp add: distinct_map)
  ultimately show "sort_key fst xs = sort_key fst ys"
    by (intro map_sorted_distinct_set_unique [of fst]) simp_all
qed (metis set_sort)

text \<open>
  The hash of an installation tells its generations apart. If encoding and hash have no collisions
  and the imports in the status have different names, two installations get the same hash exactly if
  their generation is the same and so is every import's name and generation, in whatever order the
  status lists the imports.
\<close>

theorem generation_hash_exact:
  assumes "\<forall>x y a b. encode x = Inr a \<longrightarrow> encode y = Inr b \<longrightarrow> sha a = sha b \<longrightarrow> x = y"
    and "CreateGenerationHash encode sha inst = Inr h" "CreateGenerationHash encode sha inst' = Inr h'"
    and "distinct (map is_name (ins_imports (in_status inst)))" "distinct (map is_name (ins_imports (in_status inst')))"
  shows "h = h' \<longleftrightarrow>
    om_generation (in_meta inst) = om_generation (in_meta inst') \<and> set (import_states inst) = set (import_states inst')"
proof -
  have "distinct (map fst (import_states inst))" "distinct (map fst (import_states inst'))"
    using assms(4,5) by (simp_all add: import_states_def comp_def)
  note sorts = sort_key_fst_set [OF this]
  obtain a b where ab: "encode (om_generation (in_meta inst), sort_key fst (import_states inst)) = Inr a"
    "encode (om_generation (in_meta inst'), sort_key fst (import_states inst')) = Inr b" "h = sha a" "h' = sha b"
    using assms(2,3) by (auto simp: CreateGenerationHash_def split: sum.splits)
  show ?thesis
  proof
    assume "h = h'"
    with assms(1) ab have "(om_generation (in_meta inst), sort_key fst (import_states inst))
        = (om_generation (in_meta inst'), sort_key fst (import_states inst'))" by metis
    with sorts show "om_generation (in_meta inst) = om_generation (in_meta inst') \<and> set (import_states inst) = set (import_states inst')"
      by simp
  next
    assume "om_generation (in_meta inst) = om_generation (in_meta inst') \<and> set (import_states inst) = set (import_states inst')"
    with sorts ab show "h = h'" by simp
  qed
qed

text \<open>The state of a component descriptor is kept with the targets, so it replaces a target's of the same name.\<close>

lemma component_state_in_targets:
  assumes "is_type st = CDImportStatusType \<or> is_type st = CDListImportStatusType"
  shows "GetTarget (set_state s st) (is_name st) = Inr st" "GetComponentDescriptor (set_state s st) (is_name st) = Inr st"
    "it_ComponentDescriptor (set_state s st) = it_ComponentDescriptor s"
  using assms by (auto simp: set_state_def GetTarget_def GetComponentDescriptor_def get_state_def put_state_def Let_def update_conv)

lemma target_state_set:
  assumes "is_type st = TargetImportStatusType \<or> is_type st = TargetListImportStatusType"
  shows "GetTarget (set_state s st) n = (if n = is_name st then Inr st else GetTarget s n)" "GetData (set_state s st) n = GetData s n"
  using assms by (auto simp: set_state_def GetTarget_def GetData_def get_state_def put_state_def Let_def update_conv)

lemma data_state_set:
  assumes "is_type st = DataImportStatusType"
  shows "GetData (set_state s st) n = (if n = is_name st then Inr st else GetData s n)" "GetTarget (set_state s st) n = GetTarget s n"
  using assms by (auto simp: set_state_def GetTarget_def GetData_def get_state_def put_state_def Let_def update_conv)

text \<open>The text about an overwritten reference never mentions a new version as such.\<close>

lemma version_not_updated:
  "\<exists>pre. ReferenceDiff ctxEqual ctxDiff a b = pre @ ''Version not updated'' @ [CHR 0x0A]"
  unfolding ReferenceDiff_def Let_def by (metis append.assoc)

text \<open>A definition is found exactly if it is there, at any depth.\<close>

inductive nested_import :: "import_definition list \<Rightarrow> import_definition \<Rightarrow> bool" where
  nested_here: "d \<in> set defs \<Longrightarrow> nested_import defs d"
| nested_below: "ImportDefinition fv ty required dflt conditional \<in> set defs \<Longrightarrow> nested_import conditional d \<Longrightarrow> nested_import defs d"

lemma nested_import_Nil [simp]: "\<not> nested_import [] d"
  by (auto elim: nested_import.cases)

lemma nested_import_Cons:
  "nested_import (ImportDefinition fv ty required dflt conditional # defs) d \<longleftrightarrow>
     d = ImportDefinition fv ty required dflt conditional \<or> nested_import conditional d \<or> nested_import defs d"
proof
  assume "nested_import (ImportDefinition fv ty required dflt conditional # defs) d"
  then show "d = ImportDefinition fv ty required dflt conditional \<or> nested_import conditional d \<or> nested_import defs d"
    by cases (auto intro: nested_import.intros)
next
  assume r: "d = ImportDefinition fv ty required dflt conditional \<or> nested_import conditional d \<or> nested_import defs d"
  have "nested_import (ImportDefinition fv ty required dflt conditional # defs) d" if "nested_import defs d"
    using that by cases (auto intro: nested_import.intros)
  with r show "nested_import (ImportDefinition fv ty required dflt conditional # defs) d"
    by (auto intro: nested_here nested_below [of fv ty required dflt conditional])
qed

lemma getFlattenedImports_nested: "d \<in> set (getFlattenedImports defs) \<longleftrightarrow> nested_import defs d"
  by (induction defs rule: getFlattenedImports.induct) (auto simp: nested_import_Cons)

lemma GetImportDefinition_found:
  "(\<exists>d. GetImportDefinition defs key = Inr d) \<longleftrightarrow> (\<exists>d. nested_import defs d \<and> fv_name (id_fieldValue d) = key)"
  by (auto simp: GetImportDefinition_def find_None_iff find_Some_iff getFlattenedImports_nested [symmetric] in_set_conv_nth
      split: option.split)

subsection \<open>Siblings and dependants\<close>

lemma siblings_other_name:
  assumes "GetParentAndSiblings c inst w = (Inr (parent, siblings), w1)"
  shows "\<forall>s \<in> set siblings. om_name (in_meta s) \<noteq> om_name (in_meta inst)"
  using assms
  by (auto simp: GetParentAndSiblings_def GetRootInstallations_def ListSubinstallations_def same_name_def
      split: if_splits prod.splits sum.splits)

text \<open>The writes of \<open>TriggerDependants\<close>.\<close>

definition dependants :: "installation \<Rightarrow> installation list \<Rightarrow> installation list" where
  "dependants inst siblings = filter (importsAnyExport inst) siblings"

lemma trigger_dependants_writes:
  "trigger_dependants (logged c) inst siblings (w, l) = (r, (w1, l1)) \<Longrightarrow>
     \<exists>n. l1 = l @ map (UpdateInst \<circ> triggered) (take n (dependants inst siblings))
       \<and> (r = None \<longrightarrow> length (dependants inst siblings) \<le> n)"
proof (induction siblings arbitrary: w l)
  case Nil
  then show ?case by (auto simp: dependants_def)
next
  case (Cons s siblings)
  show ?case
  proof (cases "importsAnyExport inst s")
    case False
    with Cons show ?thesis by (simp add: dependants_def)
  next
    case True
    obtain res w2 where u: "rc_update (kc_installations c) (triggered s) w = (res, w2)" by (cases "rc_update (kc_installations c) (triggered s) w")
    then have lu: "rc_update (kc_installations (logged c)) (triggered s) (w, l) = (res, (w2, l @ [UpdateInst (triggered s)]))"
      by (simp add: logged_def logged_resource_def logged_call_def)
    show ?thesis
    proof (cases res)
      case (Inl e)
      with Cons.prems lu True have "l1 = l @ [UpdateInst (triggered s)]" "r \<noteq> None" by auto
      then show ?thesis using True by (intro exI [of _ 1]) (auto simp: dependants_def)
    next
      case (Inr i)
      with Cons.prems lu True
      have "trigger_dependants (logged c) inst siblings (w2, l @ [UpdateInst (triggered s)]) = (r, (w1, l1))" by simp
      from Cons.IH [OF this] obtain n where
        "l1 = (l @ [UpdateInst (triggered s)]) @ map (UpdateInst \<circ> triggered) (take n (dependants inst siblings))"
        "r = None \<longrightarrow> length (dependants inst siblings) \<le> n" by blast
      then show ?thesis using True by (intro exI [of _ "Suc n"]) (simp add: dependants_def)
    qed
  qed
qed

text \<open>
  An installation that completes triggers the siblings that import one of its exports, in their order, and
  writes nothing else; each is written as it was read, with the annotation for a reconcile. Without an
  error all of them are triggered.
\<close>

theorem TriggerDependants_writes:
  assumes "TriggerDependants (logged c) cx inst (w, []) = (r, (w1, l))"
  shows "l = map (UpdateInst \<circ> triggered) (take (length l) (dependants inst (cx_siblings cx)))
    \<and> (r = None \<longrightarrow> length l = length (dependants inst (cx_siblings cx)))"
proof -
  from trigger_dependants_writes [of c inst "cx_siblings cx" w "[]"] assms
  obtain n where "l = map (UpdateInst \<circ> triggered) (take n (dependants inst (cx_siblings cx)))"
    "r = None \<longrightarrow> length (dependants inst (cx_siblings cx)) \<le> n" by (auto simp: TriggerDependants_def)
  then show ?thesis by (auto simp: min_def)
qed

section \<open>Examples\<close>

definition example_installation :: "string \<Rightarrow> string list \<Rightarrow> string list \<Rightarrow> phase \<Rightarrow> installation" where
  "example_installation name imports exports p =
     \<lparr>in_meta = empty_meta\<lparr>om_name := name, om_namespace := ''ns'', om_generation := 1\<rparr>,
      in_spec = \<lparr>in_context = [], in_componentDescriptor = None, in_blueprint = \<lparr>bd_reference = None, bd_inline = None\<rparr>,
                 in_registryPullSecrets = [],
                 in_imports = \<lparr>ii_data = map (\<lambda>i. \<lparr>im_name = i, im_dataRef = i, im_version = [], im_secretRef = None,
                    im_configMapRef = None\<rparr>) imports, ii_targets = [], ii_componentDescriptors = []\<rparr>,
                 in_importDataMappings = [],
                 in_exports = \<lparr>ix_data = map (\<lambda>i. \<lparr>dx_name = i, dx_dataRef = i\<rparr>) exports, ix_targets = []\<rparr>,
                 in_exportDataMappings = []\<rparr>,
      in_status = \<lparr>ins_phase = p, ins_observedGeneration = 1, ins_conditions = [], ins_lastError = None,
                   ins_configGeneration = [], ins_imports = [], ins_installationReferences = [],
                   ins_executionReference = None\<rparr>\<rparr>"

definition installation_cluster :: "installation list \<Rightarrow> raw_data_object list \<Rightarrow> cluster" where
  "installation_cluster insts data =
     \<lparr>cw_time = 1, cw_items = [], cw_executions = [], cw_data = data, cw_targets = [], cw_contexts = [],
      cw_installations = insts\<rparr>"

definition with_imports :: "string list \<Rightarrow> installation" where
  "with_imports names =
     (let i = example_installation ''a'' [] [] PhSucceeded
      in i\<lparr>in_status := (in_status i)\<lparr>ins_imports := map (\<lambda>n. \<lparr>is_name = n, is_type = DataImportStatusType, is_target = [],
           is_targets = [], is_componentDescriptorRef = None, is_componentDescriptors = [], is_dataRef = n, is_secretRef = [],
           is_configMapRef = [], is_sourceRef = None, is_configGeneration = ''1''\<rparr>) names\<rparr>\<rparr>)"

definition example_encode :: "int \<times> (string \<times> string) list \<Rightarrow> gerr + string" where
  "example_encode x = (if x = (1, [(''x'', ''1''), (''y'', ''1'')]) then Inr ''h'' else Inl (PlainError []))"

lemma generation_hash_exact_witness:
  "\<exists>h h'. CreateGenerationHash example_encode (\<lambda>s. s) (with_imports [''x'', ''y'']) = Inr h
    \<and> CreateGenerationHash example_encode (\<lambda>s. s) (with_imports [''y'', ''x'']) = Inr h' \<and> h = h'"
proof -
  have inj: "\<forall>x y a b. example_encode x = Inr a \<longrightarrow> example_encode y = Inr b \<longrightarrow> a = b \<longrightarrow> x = y"
    by (simp add: example_encode_def)
  have h: "CreateGenerationHash example_encode (\<lambda>s. s) (with_imports [''x'', ''y'']) = Inr ''h''"
    "CreateGenerationHash example_encode (\<lambda>s. s) (with_imports [''y'', ''x'']) = Inr ''h''"
    by code_simp+
  have d: "distinct (map is_name (ins_imports (in_status (with_imports [''x'', ''y'']))))"
    "distinct (map is_name (ins_imports (in_status (with_imports [''y'', ''x'']))))"
    by code_simp+
  have s: "om_generation (in_meta (with_imports [''x'', ''y''])) = om_generation (in_meta (with_imports [''y'', ''x'']))"
    "set (import_states (with_imports [''x'', ''y''])) = set (import_states (with_imports [''y'', ''x'']))"
    by (auto simp: with_imports_def import_states_def example_installation_def Let_def)
  from generation_hash_exact [OF inj h d] s h show ?thesis by simp
qed

definition exporter_inst :: installation where
  "exporter_inst = example_installation ''exporter'' [] [''x''] PhSucceeded"

definition importer_inst :: installation where
  "importer_inst = example_installation ''importer'' [''x''] [] PhSucceeded"

definition stranger_inst :: installation where
  "stranger_inst = example_installation ''stranger'' [''y''] [] PhSucceeded"

definition exporter_context :: inst_context where
  "exporter_context = \<lparr>cx_name = [], cx_parent = None, cx_siblings = [stranger_inst, importer_inst],
     cx_external = \<lparr>xc_context = empty_context, xc_componentName = [], xc_componentVersion = []\<rparr>\<rparr>"

definition trigger_run :: "gerr option \<times> (cluster \<times> api_write list)" where
  "trigger_run = TriggerDependants (logged example_client) exporter_context exporter_inst
     (installation_cluster [exporter_inst, stranger_inst, importer_inst] [], [])"

lemma TriggerDependants_writes_witness: "snd (snd trigger_run) = [UpdateInst (triggered importer_inst)]"
proof -
  obtain r w1 l where t: "trigger_run = (r, (w1, l))" by (metis prod.collapse)
  have "fst trigger_run = None" by code_simp
  then have r: "r = None" unfolding t by (rule fst_conv [THEN subst])
  have "dependants exporter_inst (cx_siblings exporter_context) = [importer_inst]"
    by (simp add: dependants_def exporter_context_def importsAnyExport_def exporter_inst_def importer_inst_def
        stranger_inst_def example_installation_def)
  with TriggerDependants_writes [OF t [unfolded trigger_run_def]] r
  have "l = map (UpdateInst \<circ> triggered) (take (length l) [importer_inst])" "length l = 1" by auto
  then have "l = map (UpdateInst \<circ> triggered) (take 1 [importer_inst])" by metis
  then have "l = [UpdateInst (triggered importer_inst)]" by simp
  then show ?thesis unfolding t by simp
qed

end
