(* ===== verification/InstallationData.thy ===== *)
theory InstallationData
  imports Installations
begin

text \<open>
  The data and targets that an installation imports (\<open>pkg/landscaper/installations/helper.go\<close>):
  reading them from data objects, secrets, config maps and targets. Codecs, digests and hashes come from
  libraries and are in the record \<open>inst_env\<close>.
\<close>

section \<open>Secrets and config maps as sources of data (helper.go)\<close>

text \<open>
  What the code takes from libraries: digests and hashes, the JSON and YAML codecs, the conversion
  of a map of YAML texts to JSON, and the owner reference to an installation.
\<close>

record 'j inst_env =
  ie_digest :: "string \<Rightarrow> string"
  ie_sha :: "string \<Rightarrow> string"
  ie_marshal :: "'j \<Rightarrow> gerr + string"
  ie_unmarshal :: "string \<Rightarrow> gerr + 'j"
  ie_rawMap :: "smap \<Rightarrow> gerr + smap"
  ie_marshalMap :: "smap \<Rightarrow> gerr + string"
  ie_setOwner :: "installation \<Rightarrow> object_meta \<Rightarrow> gerr + object_meta"

definition wrap :: "string \<Rightarrow> gerr \<Rightarrow> gerr" where
  "wrap msg e = WrapError (msg @ '': '' @ error_string e) e"

definition whole_map :: "'j inst_env \<Rightarrow> string \<Rightarrow> smap \<Rightarrow> gerr + string" where
  "whole_map env what m =
     (case ie_rawMap env m of
        Inl e \<Rightarrow> Inl (wrap (''unable to convert '' @ what @ '' data to raw message map'') e)
      | Inr raw \<Rightarrow>
          (case ie_marshalMap env raw of
             Inl e \<Rightarrow> Inl (wrap (''unable to marshal '' @ what @ '' data as map'') e)
           | Inr data \<Rightarrow> Inr data))"

text \<open>The data under the key, or the whole object, and the generation.\<close>

definition ResolveSecretReference ::
    "'j inst_env \<Rightarrow> 'w kube_client \<Rightarrow> secret_reference \<Rightarrow> 'w \<Rightarrow> (gerr + string \<times> int) \<times> 'w" where
  "ResolveSecretReference env c ref w =
     (case rc_get (kc_secrets c) (sr_ref ref) w of
        (Inl e, w1) \<Rightarrow> (Inl e, w1)
      | (Inr sec, w1) \<Rightarrow>
          (if sr_key ref \<noteq> []
           then (case map_of (sc_data sec) (sr_key ref) of
                   None \<Rightarrow> Inl (PlainError (''key '' @ sr_key ref @ '' in secret '' @ key_string (sr_ref ref) @ '' does not exist''))
                 | Some data \<Rightarrow> Inr (data, om_generation (sc_meta sec)))
           else (case whole_map env ''secret'' (sc_data sec) of
                   Inl e \<Rightarrow> Inl e
                 | Inr data \<Rightarrow> Inr (data, om_generation (sc_meta sec))), w1))"

text \<open>
  One of the two maps of a config map: what was found so far goes in, and a map that is not \<open>nil\<close>
  overwrites it.
\<close>

definition config_map_part ::
    "'j inst_env \<Rightarrow> string \<Rightarrow> smap option \<Rightarrow> string \<times> bool \<Rightarrow> gerr + string \<times> bool" where
  "config_map_part env key m found =
     (case m of
        None \<Rightarrow> Inr found
      | Some d \<Rightarrow>
          if key \<noteq> [] then Inr (smap_get d key, smap_has d key)
          else (case whole_map env ''configmap'' d of Inl e \<Rightarrow> Inl e | Inr data \<Rightarrow> Inr (data, snd found)))"

text \<open>
  The complete data is collected in the map of the binary data itself, so if there is one, it holds
  the entries of both maps afterwards.
\<close>

definition complete_binaryData :: "config_map \<Rightarrow> smap option" where
  "complete_binaryData cm =
     map_option (\<lambda>b. foldl (\<lambda>m (k, v). smap_set m k v) b (case cf_data cm of Some d \<Rightarrow> d | None \<Rightarrow> [])) (cf_binaryData cm)"

definition ResolveConfigMapReference ::
    "'j inst_env \<Rightarrow> 'w kube_client \<Rightarrow> config_map_reference \<Rightarrow> 'w \<Rightarrow> (gerr + string \<times> int) \<times> 'w" where
  "ResolveConfigMapReference env c ref w =
     (case rc_get (kc_configMaps c) (cm_ref ref) w of
        (Inl e, w1) \<Rightarrow> (Inl e, w1)
      | (Inr cm, w1) \<Rightarrow>
          (case config_map_part env (cm_key ref) (cf_data cm) ([], cm_key ref = []) of
             Inl e \<Rightarrow> Inl e
           | Inr found \<Rightarrow>
               (case config_map_part env (cm_key ref) (complete_binaryData cm) found of
                  Inl e \<Rightarrow> Inl e
                | Inr (data, keyFound) \<Rightarrow>
                    if \<not> keyFound
                    then Inl (PlainError (''key '' @ quote_text (cm_key ref) @ '' in configmap '' @ quote_text (key_string (cm_ref ref))
                           @ '' does not exist''))
                    else Inr (data, om_generation (cf_meta cm))), w1))"

section \<open>Imports of data and targets (helper.go)\<close>

text \<open>
  An imported data object: the raw object, its value and its metadata. The raw object is \<open>nil\<close>
  when the import has no source at all, and then dereferenced.
\<close>

record 'j imported_data =
  mp_raw :: raw_data_object
  mp_value :: 'j
  mp_metadata :: do_metadata

definition NewFromDataObject :: "'j inst_env \<Rightarrow> raw_data_object \<Rightarrow> gerr + 'j imported_data" where
  "NewFromDataObject env raw =
     (case ie_unmarshal env (do_data raw) of
        Inl e \<Rightarrow> Inl e
      | Inr v \<Rightarrow> Inr \<lparr>mp_raw = raw, mp_value = v,
                    mp_metadata = GetMetadataFromObject (ie_sha env) (do_meta raw) (Some (do_data raw))\<rparr>)"

definition data_of_source :: "string \<times> int \<Rightarrow> raw_data_object" where
  "data_of_source p = \<lparr>do_meta = empty_meta\<lparr>om_generation := snd p\<rparr>, do_data = fst p\<rparr>"

definition data_from_ref ::
    "'j inst_env \<Rightarrow> 'w kube_client \<Rightarrow> string \<Rightarrow> string \<Rightarrow> data_import \<Rightarrow> 'w \<Rightarrow> (gerr + raw_data_object option) \<times> 'w" where
  "data_from_ref env c contextName ns imp w =
     (if im_dataRef imp \<noteq> []
      then (let doName = GenerateDataObjectName (ie_digest env) contextName (im_dataRef imp)
            in case rc_get (kc_dataObjects c) (ObjectKey doName ns) w of
                 (Inl e, w1) \<Rightarrow>
                   (Inl (wrap (''unable to fetch data object '' @ doName @ '' ('' @ contextName @ ''/'' @ im_dataRef imp @ '')'') e), w1)
               | (Inr raw, w1) \<Rightarrow> (Inr (Some raw), w1))
      else (Inr None, w))"

definition data_from_secret ::
    "'j inst_env \<Rightarrow> 'w kube_client \<Rightarrow> data_import \<Rightarrow> raw_data_object option \<Rightarrow> 'w \<Rightarrow> (gerr + raw_data_object option) \<times> 'w" where
  "data_from_secret env c imp raw w =
     (case im_secretRef imp of
        None \<Rightarrow> (Inr raw, w)
      | Some ref \<Rightarrow>
          (case ResolveSecretReference env c ref w of
             (Inl e, w1) \<Rightarrow> (Inl e, w1)
           | (Inr p, w1) \<Rightarrow> (Inr (Some (data_of_source p)), w1)))"

definition data_from_configMap ::
    "'j inst_env \<Rightarrow> 'w kube_client \<Rightarrow> data_import \<Rightarrow> raw_data_object option \<Rightarrow> 'w \<Rightarrow> (gerr + raw_data_object option) \<times> 'w" where
  "data_from_configMap env c imp raw w =
     (case im_configMapRef imp of
        None \<Rightarrow> (Inr raw, w)
      | Some ref \<Rightarrow>
          (case ResolveConfigMapReference env c ref w of
             (Inl e, w1) \<Rightarrow> (Inl e, w1)
           | (Inr p, w1) \<Rightarrow> (Inr (Some (data_of_source p)), w1)))"

definition GetDataImport ::
    "'j inst_env \<Rightarrow> 'w kube_client \<Rightarrow> string \<Rightarrow> string \<Rightarrow> data_import \<Rightarrow> 'w
      \<Rightarrow> ('j imported_data \<times> owner_reference option) outcome \<times> 'w" where
  "GetDataImport env c contextName ns imp w =
     (case data_from_ref env c contextName ns imp w of
        (Inl e, w1) \<Rightarrow> (Fail e, w1)
      | (Inr raw1, w1) \<Rightarrow>
          (case data_from_secret env c imp raw1 w1 of
             (Inl e, w2) \<Rightarrow> (Fail e, w2)
           | (Inr raw2, w2) \<Rightarrow>
               (case data_from_configMap env c imp raw2 w2 of
                  (Inl e, w3) \<Rightarrow> (Fail e, w3)
                | (Inr None, w3) \<Rightarrow> (Panic, w3)
                | (Inr (Some raw), w3) \<Rightarrow>
                    (case NewFromDataObject env raw of
                       Inl e \<Rightarrow> (Fail e, w3)
                     | Inr d \<Rightarrow> (Done (d, GetOwner (do_meta raw)), w3)))))"

record imported_target =
  mt_raw :: target
  mt_metadata :: do_metadata
  mt_owner :: "owner_reference option"

definition NewFromTarget :: "'j inst_env \<Rightarrow> target \<Rightarrow> imported_target" where
  "NewFromTarget env t =
     \<lparr>mt_raw = t, mt_metadata = GetMetadataFromObject (ie_sha env) (tg_meta t) (tg_configuration (tg_spec t)),
      mt_owner = GetOwner (tg_meta t)\<rparr>"

definition NewFromTargetList :: "'j inst_env \<Rightarrow> target list \<Rightarrow> imported_target list" where
  "NewFromTargetList env ts = map (NewFromTarget env) ts"

definition GetTargetImport ::
    "'j inst_env \<Rightarrow> 'w kube_client \<Rightarrow> string \<Rightarrow> string \<Rightarrow> string \<Rightarrow> 'w \<Rightarrow> (gerr + imported_target) \<times> 'w" where
  "GetTargetImport env c contextName ns targetName w =
     (case rc_get (kc_targets c) (ObjectKey (GenerateDataObjectName (ie_digest env) contextName targetName) ns) w of
        (Inl e, w1) \<Rightarrow> (Inl e, w1)
      | (Inr t, w1) \<Rightarrow> (Inr (NewFromTarget env t), w1))"

fun fetch_targets ::
    "'j inst_env \<Rightarrow> 'w kube_client \<Rightarrow> string \<Rightarrow> string \<Rightarrow> string list \<Rightarrow> 'w \<Rightarrow> (gerr + target list) \<times> 'w" where
  "fetch_targets env c contextName ns [] w = (Inr [], w)"
| "fetch_targets env c contextName ns (n # names) w =
     (case rc_get (kc_targets c) (ObjectKey (GenerateDataObjectName (ie_digest env) contextName n) ns) w of
        (Inl e, w1) \<Rightarrow> (Inl e, w1)
      | (Inr t, w1) \<Rightarrow>
          (case fetch_targets env c contextName ns names w1 of
             (Inl e, w2) \<Rightarrow> (Inl e, w2)
           | (Inr ts, w2) \<Rightarrow> (Inr (t # ts), w2)))"

definition GetTargetListImportByNames ::
    "'j inst_env \<Rightarrow> 'w kube_client \<Rightarrow> string \<Rightarrow> string \<Rightarrow> string list \<Rightarrow> 'w \<Rightarrow> (gerr + imported_target list) \<times> 'w" where
  "GetTargetListImportByNames env c contextName ns names w =
     (case fetch_targets env c contextName ns names w of
        (Inl e, w1) \<Rightarrow> (Inl e, w1)
      | (Inr ts, w1) \<Rightarrow> (Inr (NewFromTargetList env ts), w1))"

text \<open>
  The selector of a target list. The labels are those that the code gives to \<open>NewRequirement\<close>,
  which accepts them.
\<close>

definition target_list_selector :: "string \<Rightarrow> smap \<Rightarrow> bool \<Rightarrow> label_requirement list" where
  "target_list_selector contextName selector restrictToImport =
     (if contextName \<noteq> [] then LabelEquals DataObjectContextLabel contextName else LabelDoesNotExist DataObjectContextLabel)
     # map (\<lambda>(k, v). LabelEquals k v) selector
     @ (if restrictToImport then [LabelEquals DataObjectSourceTypeLabel ''import''] else [])"

definition GetTargetListImportBySelector ::
    "'j inst_env \<Rightarrow> 'w kube_client \<Rightarrow> string \<Rightarrow> string \<Rightarrow> smap \<Rightarrow> bool \<Rightarrow> 'w \<Rightarrow> (gerr + imported_target list) \<times> 'w" where
  "GetTargetListImportBySelector env c contextName ns selector restrictToImport w =
     (case rc_select (kc_targets c) (target_list_selector contextName selector restrictToImport) ns w of
        (Inl e, w1) \<Rightarrow> (Inl e, w1)
      | (Inr ts, w1) \<Rightarrow> (Inr (NewFromTargetList env ts), w1))"

definition target_error :: "target_import \<Rightarrow> string \<Rightarrow> gerr \<Rightarrow> gerr" where
  "target_error imp what e =
     wrap (ti_name imp @ '': unable to get '' @ what @ '' for '' @ quote_text (ti_name imp)) e"

text \<open>The targets, and the references that the import names.\<close>

definition GetTargets ::
    "'j inst_env \<Rightarrow> 'w kube_client \<Rightarrow> string \<Rightarrow> string \<Rightarrow> target_import \<Rightarrow> 'w
      \<Rightarrow> (gerr + imported_target list \<times> string list) \<times> 'w" where
  "GetTargets env c contextName ns imp w =
     (if ti_target imp \<noteq> []
      then (case GetTargetImport env c contextName ns (ti_target imp) w of
              (Inl e, w1) \<Rightarrow> (Inl (target_error imp ''target'' e), w1)
            | (Inr t, w1) \<Rightarrow> (Inr ([t], [ti_target imp]), w1))
      else case ti_targets imp of
        Some names \<Rightarrow>
          (case GetTargetListImportByNames env c contextName ns names w of
             (Inl e, w1) \<Rightarrow> (Inl (target_error imp ''targetlist'' e), w1)
           | (Inr targetList, w1) \<Rightarrow>
               if length targetList \<noteq> length names
               then (Inl (PlainError (ti_name imp @ '': targetlist size mismatch: '' @ show_int (int (length names))
                       @ '' targets were expected but '' @ show_int (int (length targetList)) @ '' were fetched from the cluster'')), w1)
               else (Inr (targetList, names), w1))
      | None \<Rightarrow>
          if ti_targetListReference imp \<noteq> []
          then (case GetTargetListImportBySelector env c contextName ns [(DataObjectKeyLabel, ti_targetListReference imp)] True w of
                  (Inl e, w1) \<Rightarrow> (Inl (target_error imp ''targetlist'' e), w1)
                | (Inr targetList, w1) \<Rightarrow> (Inr (targetList, [ti_targetListReference imp]), w1))
          else (Inl (PlainError (''invalid target import '' @ quote_text (ti_name imp)
                 @ '': one of target, targets, or targetListRef must be specified'')), w))"

end
