(* ===== verification/SiblingChecks.thy ===== *)
theory SiblingChecks
  imports InstallationData
begin

text \<open>
  The check that the sources of an installation's imports are completed
  (\<open>pkg/landscaper/installations/imports/helper.go\<close>): what it decides, when it returns and when it does not.
\<close>

section \<open>Sources of imports (imports/helper.go)\<close>

definition installation_owner :: "string \<Rightarrow> owner_reference option \<Rightarrow> object_reference option" where
  "installation_owner ns owner =
     (case owner of
        None \<Rightarrow> None
      | Some o1 \<Rightarrow> if ow_kind o1 \<noteq> ''Installation'' then None else Some (ObjectKey (ow_name o1) ns))"

definition in_ns :: "installation \<Rightarrow> string" where
  "in_ns inst = om_namespace (in_meta inst)"

definition getImportSource ::
    "'j inst_env \<Rightarrow> 'w kube_client \<Rightarrow> string \<Rightarrow> installation \<Rightarrow> data_import \<Rightarrow> 'w
      \<Rightarrow> object_reference option outcome \<times> 'w" where
  "getImportSource env c contextName inst imp w =
     (case GetDataImport env c contextName (in_ns inst) imp w of
        (Panic, w1) \<Rightarrow> (Panic, w1)
      | (Fail e, w1) \<Rightarrow> (Fail e, w1)
      | (Done (d, owner), w1) \<Rightarrow> (Done (installation_owner (in_ns inst) owner), w1))"

definition getTargetSources ::
    "'j inst_env \<Rightarrow> 'w kube_client \<Rightarrow> string \<Rightarrow> installation \<Rightarrow> target_import \<Rightarrow> 'w
      \<Rightarrow> (gerr + object_reference list) \<times> 'w" where
  "getTargetSources env c contextName inst imp w =
     (case GetTargets env c contextName (in_ns inst) imp w of
        (Inl e, w1) \<Rightarrow> (Inl e, w1)
      | (Inr (targets, names), w1) \<Rightarrow>
          (Inr (List.map_filter (\<lambda>t. installation_owner (in_ns inst) (GetOwner (tg_meta (mt_raw t)))) targets), w1))"

section \<open>Completed siblings (imports/helper.go)\<close>

text \<open>
  The check of an installation calls itself for the sources of its imports, so it may not return:
  it runs on fuel, and \<open>None\<close> is the call that has not returned. The recursive call is an
  argument of the steps.
\<close>

type_synonym 'w inst_check = "installation \<Rightarrow> 'w \<Rightarrow> bool outcome option \<times> 'w"

datatype source_state = SourceIgnored | SourceChecked bool

definition check_other_source ::
    "'w kube_client \<Rightarrow> 'w inst_check \<Rightarrow> object_reference \<Rightarrow> 'w \<Rightarrow> source_state outcome option \<times> 'w" where
  "check_other_source c check ref w =
     (case rc_get (kc_installations c) ref w of
        (Inl e, w1) \<Rightarrow> (Some (Fail e), w1)
      | (Inr src, w1) \<Rightarrow>
          if \<not> IsCompletedInstallationPhase (ins_phase (in_status src)) then (Some (Done (SourceChecked False)), w1)
          else if om_generation (in_meta src) \<noteq> ins_observedGeneration (in_status src)
          then (Some (Done (SourceChecked False)), w1)
          else (case check src w1 of
                  (None, w2) \<Rightarrow> (None, w2)
                | (Some (Done b), w2) \<Rightarrow> (Some (Done (SourceChecked b)), w2)
                | (Some (Fail e), w2) \<Rightarrow> (Some (Fail e), w2)
                | (Some Panic, w2) \<Rightarrow> (Some Panic, w2)))"

definition checkSource ::
    "'w kube_client \<Rightarrow> 'w inst_check \<Rightarrow> installation \<Rightarrow> object_reference option \<Rightarrow> 'w
      \<Rightarrow> source_state outcome option \<times> 'w" where
  "checkSource c check inst sourceRef w =
     (case sourceRef of
        None \<Rightarrow> (Some (Done SourceIgnored), w)
      | Some ref \<Rightarrow>
          if ReferenceIsObject ref (in_meta inst) then (Some (Done SourceIgnored), w)
          else (case GetParent c inst w of
                  (Inl e, w1) \<Rightarrow> (Some (Fail e), w1)
                | (Inr parent, w1) \<Rightarrow>
                    if (case parent of Some p \<Rightarrow> ReferenceIsObject ref (in_meta p) | None \<Rightarrow> False)
                    then (Some (Done (SourceChecked True)), w1)
                    else check_other_source c check ref w1))"

fun check_sources ::
    "'w kube_client \<Rightarrow> 'w inst_check \<Rightarrow> installation \<Rightarrow> object_reference list \<Rightarrow> 'w \<Rightarrow> bool outcome option \<times> 'w" where
  "check_sources c check inst [] w = (Some (Done True), w)"
| "check_sources c check inst (ref # refs) w =
     (case checkSource c check inst (Some ref) w of
        (None, w1) \<Rightarrow> (None, w1)
      | (Some Panic, w1) \<Rightarrow> (Some Panic, w1)
      | (Some (Fail e), w1) \<Rightarrow> (Some (Fail e), w1)
      | (Some (Done SourceIgnored), w1) \<Rightarrow> check_sources c check inst refs w1
      | (Some (Done (SourceChecked b)), w1) \<Rightarrow>
          if \<not> b then (Some (Done False), w1) else check_sources c check inst refs w1)"

fun check_data_imports ::
    "'j inst_env \<Rightarrow> 'w kube_client \<Rightarrow> string \<Rightarrow> 'w inst_check \<Rightarrow> installation \<Rightarrow> data_import list \<Rightarrow> 'w
      \<Rightarrow> bool outcome option \<times> 'w" where
  "check_data_imports env c contextName check inst [] w = (Some (Done True), w)"
| "check_data_imports env c contextName check inst (imp # imps) w =
     (case getImportSource env c contextName inst imp w of
        (Panic, w1) \<Rightarrow> (Some Panic, w1)
      | (Fail e, w1) \<Rightarrow> (Some (Fail e), w1)
      | (Done ref, w1) \<Rightarrow>
          (case checkSource c check inst ref w1 of
             (None, w2) \<Rightarrow> (None, w2)
           | (Some Panic, w2) \<Rightarrow> (Some Panic, w2)
           | (Some (Fail e), w2) \<Rightarrow> (Some (Fail e), w2)
           | (Some (Done SourceIgnored), w2) \<Rightarrow> check_data_imports env c contextName check inst imps w2
           | (Some (Done (SourceChecked b)), w2) \<Rightarrow>
               if \<not> b then (Some (Done False), w2) else check_data_imports env c contextName check inst imps w2))"

fun check_target_imports ::
    "'j inst_env \<Rightarrow> 'w kube_client \<Rightarrow> string \<Rightarrow> 'w inst_check \<Rightarrow> installation \<Rightarrow> target_import list \<Rightarrow> 'w
      \<Rightarrow> bool outcome option \<times> 'w" where
  "check_target_imports env c contextName check inst [] w = (Some (Done True), w)"
| "check_target_imports env c contextName check inst (imp # imps) w =
     (case getTargetSources env c contextName inst imp w of
        (Inl e, w1) \<Rightarrow> (Some (Fail e), w1)
      | (Inr refs, w1) \<Rightarrow>
          (case check_sources c check inst refs w1 of
             (Some (Done True), w2) \<Rightarrow> check_target_imports env c contextName check inst imps w2
           | r \<Rightarrow> r))"

definition check_imports ::
    "'j inst_env \<Rightarrow> 'w kube_client \<Rightarrow> string \<Rightarrow> 'w inst_check \<Rightarrow> 'w inst_check" where
  "check_imports env c contextName check inst w =
     (case check_data_imports env c contextName check inst (ii_data (in_imports (in_spec inst))) w of
        (Some (Done True), w1) \<Rightarrow>
          check_target_imports env c contextName check inst (ii_targets (in_imports (in_spec inst))) w1
      | r \<Rightarrow> r)"

fun CheckCompletedSiblingDependents ::
    "'j inst_env \<Rightarrow> 'w kube_client \<Rightarrow> string \<Rightarrow> nat \<Rightarrow> 'w inst_check" where
  "CheckCompletedSiblingDependents env c contextName 0 inst w = (None, w)"
| "CheckCompletedSiblingDependents env c contextName (Suc fuel) inst w =
     check_imports env c contextName (CheckCompletedSiblingDependents env c contextName fuel) inst w"

fun CheckCompletedSiblingDependentsOfParent ::
    "'j inst_env \<Rightarrow> 'w kube_client \<Rightarrow> nat \<Rightarrow> installation option \<Rightarrow> 'w \<Rightarrow> bool outcome option \<times> 'w" where
  "CheckCompletedSiblingDependentsOfParent env c fuel None w = (Some (Done True), w)"
| "CheckCompletedSiblingDependentsOfParent env c 0 (Some parent) w = (None, w)"
| "CheckCompletedSiblingDependentsOfParent env c (Suc fuel) (Some parent) w =
     (case CheckCompletedSiblingDependents env c (GetInstallationContextName parent) (Suc fuel) parent w of
        (Some (Done True), w1) \<Rightarrow>
          (case GetParent c parent w1 of
             (Inl e, w2) \<Rightarrow> (Some (Fail (wrap ''unable to get parent of parent'' e)), w2)
           | (Inr None, w2) \<Rightarrow> (Some (Done True), w2)
           | (Inr (Some p), w2) \<Rightarrow> CheckCompletedSiblingDependentsOfParent env c fuel (Some p) w2)
      | r \<Rightarrow> r)"

section \<open>What the check decides\<close>

text \<open>
  An installation is ready if all its imports can be read and each source is the installation itself,
  its parent, or an installation that is completed, up to date and ready. This is the least such
  property: a chain of sources has to end.
\<close>

inductive ready :: "'j inst_env \<Rightarrow> 'w kube_client \<Rightarrow> string \<Rightarrow> 'w \<Rightarrow> installation \<Rightarrow> bool"
  and good_source :: "'j inst_env \<Rightarrow> 'w kube_client \<Rightarrow> string \<Rightarrow> 'w \<Rightarrow> installation \<Rightarrow> object_reference \<Rightarrow> bool"
  for env :: "'j inst_env" and c :: "'w kube_client" and contextName :: string and w :: 'w
where
  ready_imports:
    "(\<forall>imp \<in> set (ii_data (in_imports (in_spec a))). \<exists>r. fst (getImportSource env c contextName a imp w) = Done r
        \<and> (\<forall>ref. r = Some ref \<longrightarrow> good_source env c contextName w a ref)) \<Longrightarrow>
     (\<forall>imp \<in> set (ii_targets (in_imports (in_spec a))). \<exists>rs. fst (getTargetSources env c contextName a imp w) = Inr rs
        \<and> (\<forall>ref \<in> set rs. good_source env c contextName w a ref)) \<Longrightarrow>
     ready env c contextName w a"
| source_self: "ReferenceIsObject ref (in_meta a) \<Longrightarrow> good_source env c contextName w a ref"
| source_parent:
    "\<not> ReferenceIsObject ref (in_meta a) \<Longrightarrow> fst (GetParent c a w) = Inr (Some p) \<Longrightarrow> ReferenceIsObject ref (in_meta p) \<Longrightarrow>
     good_source env c contextName w a ref"
| source_sibling:
    "\<not> ReferenceIsObject ref (in_meta a) \<Longrightarrow> fst (GetParent c a w) = Inr p \<Longrightarrow>
     (\<forall>q. p = Some q \<longrightarrow> \<not> ReferenceIsObject ref (in_meta q)) \<Longrightarrow>
     fst (rc_get (kc_installations c) ref w) = Inr b \<Longrightarrow> IsCompletedInstallationPhase (ins_phase (in_status b)) \<Longrightarrow>
     om_generation (in_meta b) = ins_observedGeneration (in_status b) \<Longrightarrow> ready env c contextName w b \<Longrightarrow>
     good_source env c contextName w a ref"

inductive_cases good_sourceE: "good_source env c contextName w a ref"

text \<open>Reads that do not change the world.\<close>

definition still_reads :: "'w kube_client \<Rightarrow> bool" where
  "still_reads c \<longleftrightarrow>
     (\<forall>k w. snd (rc_get (kc_installations c) k w) = w) \<and> (\<forall>k w. snd (rc_get (kc_dataObjects c) k w) = w)
   \<and> (\<forall>k w. snd (rc_get (kc_targets c) k w) = w) \<and> (\<forall>k w. snd (rc_get (kc_secrets c) k w) = w)
   \<and> (\<forall>k w. snd (rc_get (kc_configMaps c) k w) = w) \<and> (\<forall>l ns w. snd (rc_select (kc_targets c) l ns w) = w)"

lemma still_snd:
  assumes "still_reads c"
  shows "snd (rc_get (kc_installations c) k w) = w" "snd (rc_get (kc_dataObjects c) k w) = w"
    "snd (rc_get (kc_targets c) k w) = w" "snd (rc_get (kc_secrets c) k w) = w"
    "snd (rc_get (kc_configMaps c) k w) = w" "snd (rc_select (kc_targets c) l ns w) = w"
  using assms by (simp_all add: still_reads_def)

lemma data_parts_still:
  assumes "still_reads c"
  shows "snd (data_from_ref env c contextName ns imp w) = w" "snd (data_from_secret env c imp raw w) = w"
    "snd (data_from_configMap env c imp raw w) = w"
  using still_snd [OF assms]
  by (simp_all add: data_from_ref_def data_from_secret_def data_from_configMap_def Let_def ResolveSecretReference_def
      ResolveConfigMapReference_def case_prod_beta split: sum.split option.split)

lemma GetDataImport_still: "still_reads c \<Longrightarrow> snd (GetDataImport env c contextName ns imp w) = w"
  by (simp add: GetDataImport_def case_prod_beta data_parts_still split: sum.split option.split)

lemma fetch_targets_still: "still_reads c \<Longrightarrow> snd (fetch_targets env c contextName ns names w) = w"
  by (induction names arbitrary: w) (simp_all add: case_prod_beta still_snd split: sum.split)

lemma GetTargets_still: "still_reads c \<Longrightarrow> snd (GetTargets env c contextName ns imp w) = w"
  by (simp add: GetTargets_def GetTargetImport_def GetTargetListImportByNames_def GetTargetListImportBySelector_def
      case_prod_beta still_snd fetch_targets_still split: sum.split option.split)

lemma GetParent_still: "still_reads c \<Longrightarrow> snd (GetParent c inst w) = w"
  by (simp add: GetParent_def case_prod_beta still_snd split: sum.split)

lemma getImportSource_still: "still_reads c \<Longrightarrow> snd (getImportSource env c contextName inst imp w) = w"
  by (simp add: getImportSource_def case_prod_beta GetDataImport_still split: outcome.split)

lemma getTargetSources_still: "still_reads c \<Longrightarrow> snd (getTargetSources env c contextName inst imp w) = w"
  by (simp add: getTargetSources_def case_prod_beta GetTargets_still split: sum.split)

lemmas stills = still_snd GetParent_still getImportSource_still getTargetSources_still

subsection \<open>The steps of the check\<close>

definition source_passes ::
    "'w kube_client \<Rightarrow> 'w inst_check \<Rightarrow> 'w \<Rightarrow> installation \<Rightarrow> object_reference option \<Rightarrow> bool" where
  "source_passes c check w a r \<longleftrightarrow>
     (case fst (checkSource c check a r w) of Some (Done SourceIgnored) \<Rightarrow> True | Some (Done (SourceChecked b)) \<Rightarrow> b | _ \<Rightarrow> False)"

definition still_check :: "'w inst_check \<Rightarrow> bool" where
  "still_check check \<longleftrightarrow> (\<forall>a w. snd (check a w) = w)"

lemma still_checkD: "still_check check \<Longrightarrow> snd (check a w) = w"
  by (simp add: still_check_def)

lemma checkSource_still: "still_reads c \<Longrightarrow> still_check check \<Longrightarrow> snd (checkSource c check a r w) = w"
  by (simp add: checkSource_def check_other_source_def case_prod_beta stills still_checkD
      split: sum.split option.split outcome.split)

lemma check_sources_still: "still_reads c \<Longrightarrow> still_check check \<Longrightarrow> snd (check_sources c check a refs w) = w"
  by (induction refs)
    (simp_all add: case_prod_beta checkSource_still split: option.split outcome.split source_state.split)

lemma check_data_imports_still:
  "still_reads c \<Longrightarrow> still_check check \<Longrightarrow> snd (check_data_imports env c cn check a imps w) = w"
  by (induction imps)
    (simp_all add: case_prod_beta stills checkSource_still split: option.split outcome.split source_state.split)

lemma check_target_imports_still:
  "still_reads c \<Longrightarrow> still_check check \<Longrightarrow> snd (check_target_imports env c cn check a imps w) = w"
  by (induction imps)
    (simp_all add: case_prod_beta stills check_sources_still split: option.split outcome.split sum.split bool.split)

lemma check_imports_still: "still_reads c \<Longrightarrow> still_check check \<Longrightarrow> still_check (check_imports env c cn check)"
  by (simp add: still_check_def check_imports_def case_prod_beta check_data_imports_still check_target_imports_still
      split: option.split outcome.split bool.split)

lemma CheckCompletedSiblingDependents_still: "still_reads c \<Longrightarrow> still_check (CheckCompletedSiblingDependents env c cn n)"
proof (induction n)
  case (Suc n)
  have "CheckCompletedSiblingDependents env c cn (Suc n) = check_imports env c cn (CheckCompletedSiblingDependents env c cn n)"
    by (intro ext) simp
  with check_imports_still [OF Suc.prems Suc.IH [OF Suc.prems]] show ?case by simp
qed (simp add: still_check_def)

lemma source_passes_iff:
  assumes "still_reads c"
  shows "source_passes c check w a r \<longleftrightarrow>
    (case r of None \<Rightarrow> True
     | Some ref \<Rightarrow> ReferenceIsObject ref (in_meta a)
       \<or> (\<exists>p. fst (GetParent c a w) = Inr p \<and>
            (case p of Some q \<Rightarrow> ReferenceIsObject ref (in_meta q) | None \<Rightarrow> False))
       \<or> (\<exists>p b. fst (GetParent c a w) = Inr p \<and> (case p of Some q \<Rightarrow> \<not> ReferenceIsObject ref (in_meta q) | None \<Rightarrow> True)
            \<and> fst (rc_get (kc_installations c) ref w) = Inr b \<and> IsCompletedInstallationPhase (ins_phase (in_status b))
            \<and> om_generation (in_meta b) = ins_observedGeneration (in_status b) \<and> fst (check b w) = Some (Done True)))"
proof (cases r)
  case (Some ref)
  show ?thesis
  proof (cases "ReferenceIsObject ref (in_meta a)")
    case False
    show ?thesis
    proof (cases "fst (GetParent c a w)")
      case (Inr p)
      show ?thesis
      proof (cases "case p of Some q \<Rightarrow> ReferenceIsObject ref (in_meta q) | None \<Rightarrow> False")
        case True
        with Some False Inr show ?thesis by (simp add: source_passes_def checkSource_def case_prod_beta)
      next
        case no: False
        have other: "case p of Some q \<Rightarrow> \<not> ReferenceIsObject ref (in_meta q) | None \<Rightarrow> True"
          using no by (cases p) simp_all
        have "source_passes c check w a r \<longleftrightarrow> (\<exists>b. fst (rc_get (kc_installations c) ref w) = Inr b
            \<and> IsCompletedInstallationPhase (ins_phase (in_status b))
            \<and> om_generation (in_meta b) = ins_observedGeneration (in_status b) \<and> fst (check b w) = Some (Done True))"
          using Some False Inr no
          by (simp add: source_passes_def checkSource_def check_other_source_def case_prod_beta stills [OF assms]
              split: sum.split option.split outcome.split)
        with Some False Inr no other show ?thesis by simp
      qed
    qed (use Some False in \<open>simp add: source_passes_def checkSource_def case_prod_beta\<close>)
  qed (use Some in \<open>simp add: source_passes_def checkSource_def\<close>)
qed (simp add: source_passes_def checkSource_def)

lemma check_sources_True:
  assumes "still_reads c" "still_check check"
  shows "fst (check_sources c check a refs w) = Some (Done True) \<longleftrightarrow> (\<forall>ref \<in> set refs. source_passes c check w a (Some ref))"
  by (induction refs)
    (auto simp: case_prod_beta checkSource_still [OF assms] source_passes_def
      split: option.split outcome.split source_state.split)

lemma check_data_imports_True:
  assumes "still_reads c" "still_check check"
  shows "fst (check_data_imports env c cn check a imps w) = Some (Done True) \<longleftrightarrow>
    (\<forall>imp \<in> set imps. \<exists>r. fst (getImportSource env c cn a imp w) = Done r \<and> source_passes c check w a r)"
proof (induction imps)
  case (Cons imp imps)
  show ?case
  proof (cases "fst (getImportSource env c cn a imp w)")
    case (Done r)
    have "fst (check_data_imports env c cn check a (imp # imps) w) = Some (Done True) \<longleftrightarrow>
        source_passes c check w a r \<and> fst (check_data_imports env c cn check a imps w) = Some (Done True)"
      using Done by (simp add: case_prod_beta checkSource_still [OF assms] stills [OF assms(1)] source_passes_def
        split: option.split outcome.split source_state.split)
    with Cons Done show ?thesis by simp
  qed (simp_all add: case_prod_beta)
qed simp

lemma check_target_imports_True:
  assumes "still_reads c" "still_check check"
  shows "fst (check_target_imports env c cn check a imps w) = Some (Done True) \<longleftrightarrow>
    (\<forall>imp \<in> set imps. \<exists>rs. fst (getTargetSources env c cn a imp w) = Inr rs
       \<and> (\<forall>ref \<in> set rs. source_passes c check w a (Some ref)))"
proof (induction imps)
  case (Cons imp imps)
  show ?case
  proof (cases "fst (getTargetSources env c cn a imp w)")
    case (Inr rs)
    with Cons show ?thesis
      by (auto simp: case_prod_beta check_sources_still [OF assms] stills [OF assms(1)] check_sources_True [OF assms, symmetric]
        split: option.split outcome.split bool.split)
  qed (simp add: case_prod_beta)
qed simp

lemma check_imports_True:
  assumes "still_reads c" "still_check check"
  shows "fst (check_imports env c cn check a w) = Some (Done True) \<longleftrightarrow>
    (\<forall>imp \<in> set (ii_data (in_imports (in_spec a))). \<exists>r. fst (getImportSource env c cn a imp w) = Done r
       \<and> source_passes c check w a r)
    \<and> (\<forall>imp \<in> set (ii_targets (in_imports (in_spec a))). \<exists>rs. fst (getTargetSources env c cn a imp w) = Inr rs
       \<and> (\<forall>ref \<in> set rs. source_passes c check w a (Some ref)))"
  unfolding check_data_imports_True [OF assms, symmetric] check_target_imports_True [OF assms, symmetric]
  by (auto simp: check_imports_def case_prod_beta check_data_imports_still [OF assms]
      split: option.splits outcome.splits bool.splits)

subsection \<open>The check and readiness\<close>

lemma check_sound:
  assumes "still_reads c"
  shows "fst (CheckCompletedSiblingDependents env c cn n a w) = Some (Done True) \<Longrightarrow> ready env c cn w a"
proof (induction n arbitrary: a)
  case (Suc n)
  let ?check = "CheckCompletedSiblingDependents env c cn n"
  have pass: "good_source env c cn w a ref" if "source_passes c ?check w a (Some ref)" for ref
    using that Suc.IH unfolding source_passes_iff [OF assms]
    by (auto split: option.splits intro: source_self source_parent source_sibling)
  from Suc.prems have "fst (check_imports env c cn ?check a w) = Some (Done True)" by simp
  then show ?case
    unfolding check_imports_True [OF assms CheckCompletedSiblingDependents_still [OF assms]]
    using pass by (intro ready_imports) blast+
qed simp

text \<open>What holds from some fuel on, for each of finitely many elements, holds for all from some fuel on.\<close>

lemma from_some_fuel:
  "(\<forall>x \<in> set xs. \<exists>n. \<forall>m \<ge> n. P m x) \<Longrightarrow> \<exists>n::nat. \<forall>m \<ge> n. \<forall>x \<in> set xs. P m x"
proof (induction xs)
  case (Cons x xs)
  then obtain i j where "\<forall>m \<ge> i. P m x" "\<forall>m \<ge> j. \<forall>x \<in> set xs. P m x" by auto
  then have "\<forall>m \<ge> max i j. \<forall>x \<in> set (x # xs). P m x" by auto
  then show ?case by blast
qed simp

lemma check_complete:
  assumes "still_reads c"
  shows "ready env c cn w a \<Longrightarrow> \<exists>n. \<forall>m \<ge> n. fst (CheckCompletedSiblingDependents env c cn m a w) = Some (Done True)"
    and "good_source env c cn w a ref \<Longrightarrow>
      \<exists>n. \<forall>m \<ge> n. source_passes c (CheckCompletedSiblingDependents env c cn m) w a (Some ref)"
proof (induction rule: ready_good_source.inducts)
  case (ready_imports a)
  let ?passes = "\<lambda>m. source_passes c (CheckCompletedSiblingDependents env c cn m) w a"
  have "\<exists>n. \<forall>m \<ge> n. \<exists>r. fst (getImportSource env c cn a imp w) = Done r \<and> ?passes m r"
    if "imp \<in> set (ii_data (in_imports (in_spec a)))" for imp
  proof -
    from ready_imports(1) that obtain r where r: "fst (getImportSource env c cn a imp w) = Done r"
      and g: "\<forall>ref. r = Some ref \<longrightarrow> (\<exists>n. \<forall>m \<ge> n. ?passes m (Some ref))" by blast
    show ?thesis
    proof (cases r)
      case None
      with r show ?thesis by (auto simp: source_passes_iff [OF assms])
    next
      case (Some ref)
      with r g show ?thesis by auto
    qed
  qed
  then have "\<exists>i. \<forall>m \<ge> i. \<forall>imp \<in> set (ii_data (in_imports (in_spec a))).
      \<exists>r. fst (getImportSource env c cn a imp w) = Done r \<and> ?passes m r"
    by (intro from_some_fuel ballI)
  then obtain i where i: "\<forall>m \<ge> i. \<forall>imp \<in> set (ii_data (in_imports (in_spec a))).
      \<exists>r. fst (getImportSource env c cn a imp w) = Done r \<and> ?passes m r" by blast
  have "\<exists>n. \<forall>m \<ge> n. \<exists>rs. fst (getTargetSources env c cn a imp w) = Inr rs \<and> (\<forall>ref \<in> set rs. ?passes m (Some ref))"
    if "imp \<in> set (ii_targets (in_imports (in_spec a)))" for imp
  proof -
    from ready_imports(2) that obtain rs where r: "fst (getTargetSources env c cn a imp w) = Inr rs"
      and g: "\<forall>ref \<in> set rs. \<exists>n. \<forall>m \<ge> n. ?passes m (Some ref)" by blast
    from from_some_fuel [OF g] r show ?thesis by simp
  qed
  then have "\<exists>j. \<forall>m \<ge> j. \<forall>imp \<in> set (ii_targets (in_imports (in_spec a))).
      \<exists>rs. fst (getTargetSources env c cn a imp w) = Inr rs \<and> (\<forall>ref \<in> set rs. ?passes m (Some ref))"
    by (intro from_some_fuel ballI)
  then obtain j where j: "\<forall>m \<ge> j. \<forall>imp \<in> set (ii_targets (in_imports (in_spec a))).
      \<exists>rs. fst (getTargetSources env c cn a imp w) = Inr rs \<and> (\<forall>ref \<in> set rs. ?passes m (Some ref))" by blast
  have "fst (CheckCompletedSiblingDependents env c cn (Suc m) a w) = Some (Done True)" if "m \<ge> max i j" for m
    using i j that by (simp add: check_imports_True [OF assms CheckCompletedSiblingDependents_still [OF assms]])
  then show ?case by (metis Suc_le_D Suc_le_mono)
next
  case (source_sibling ref a p b)
  then show ?case by (auto simp: source_passes_iff [OF assms] split: option.split)
qed (auto simp: source_passes_iff [OF assms])

text \<open>
  C23: the check of the siblings says that an installation's imports are complete, on some fuel, exactly if the
  installation is ready: while the cluster does not change, every import can be read, and its source is the
  installation itself, its parent, or a completed installation whose status is current and that is
  itself ready.
\<close>

theorem CheckCompletedSiblingDependents_ready:
  assumes "still_reads c"
  shows "(\<exists>n. fst (CheckCompletedSiblingDependents env c cn n a w) = Some (Done True)) \<longleftrightarrow> ready env c cn w a"
  using check_sound [OF assms] check_complete(1) [OF assms] by blast

subsection \<open>When the check returns\<close>

text \<open>The installations for which a check calls itself.\<close>

definition import_source ::
    "'j inst_env \<Rightarrow> 'w kube_client \<Rightarrow> string \<Rightarrow> 'w \<Rightarrow> installation \<Rightarrow> object_reference \<Rightarrow> bool" where
  "import_source env c contextName w a ref \<longleftrightarrow>
     (\<exists>imp \<in> set (ii_data (in_imports (in_spec a))). fst (getImportSource env c contextName a imp w) = Done (Some ref))
   \<or> (\<exists>imp \<in> set (ii_targets (in_imports (in_spec a))). \<exists>rs. fst (getTargetSources env c contextName a imp w) = Inr rs \<and> ref \<in> set rs)"

definition checked_source :: "'w kube_client \<Rightarrow> 'w \<Rightarrow> installation \<Rightarrow> object_reference \<Rightarrow> installation \<Rightarrow> bool" where
  "checked_source c w a ref b \<longleftrightarrow>
     \<not> ReferenceIsObject ref (in_meta a)
   \<and> (\<exists>p. fst (GetParent c a w) = Inr p \<and> (\<forall>q. p = Some q \<longrightarrow> \<not> ReferenceIsObject ref (in_meta q)))
   \<and> fst (rc_get (kc_installations c) ref w) = Inr b \<and> IsCompletedInstallationPhase (ins_phase (in_status b))
   \<and> om_generation (in_meta b) = ins_observedGeneration (in_status b)"

lemma checkSource_None:
  assumes "still_reads c" and n: "fst (checkSource c check a (Some ref) w) = None"
  shows "\<exists>b. checked_source c w a ref b \<and> fst (check b w) = None"
proof (cases "fst (GetParent c a w)")
  case (Inl e)
  with n show ?thesis by (simp add: checkSource_def case_prod_beta split: if_splits)
next
  case (Inr p)
  from n have self: "\<not> ReferenceIsObject ref (in_meta a)" by (auto simp: checkSource_def)
  with n Inr have parent: "\<forall>q. p = Some q \<longrightarrow> \<not> ReferenceIsObject ref (in_meta q)"
    by (auto simp: checkSource_def case_prod_beta)
  with n Inr self have other: "fst (check_other_source c check ref w) = None"
    by (cases p) (simp_all add: checkSource_def case_prod_beta stills [OF assms(1)])
  show ?thesis
  proof (cases "fst (rc_get (kc_installations c) ref w)")
    case (Inr b)
    from other Inr have "IsCompletedInstallationPhase (ins_phase (in_status b))"
      "om_generation (in_meta b) = ins_observedGeneration (in_status b)" "fst (check b w) = None"
      by (auto simp: check_other_source_def case_prod_beta stills [OF assms(1)] split: if_splits option.splits outcome.splits)
    with Inr self parent \<open>fst (GetParent c a w) = Inr p\<close> show ?thesis by (auto simp: checked_source_def)
  qed (use other in \<open>simp add: check_other_source_def case_prod_beta\<close>)
qed

lemma checkSource_returns:
  assumes "still_reads c" and "\<And>ref b. r = Some ref \<Longrightarrow> checked_source c w a ref b \<Longrightarrow> fst (check b w) \<noteq> None"
  shows "fst (checkSource c check a r w) \<noteq> None"
proof (cases r)
  case (Some ref)
  show ?thesis using checkSource_None [OF assms(1), of check a ref w] assms(2) Some by blast
qed (simp add: checkSource_def)

lemma check_sources_returns:
  assumes "still_reads c" "still_check check"
    and "\<And>ref b. ref \<in> set refs \<Longrightarrow> checked_source c w a ref b \<Longrightarrow> fst (check b w) \<noteq> None"
  shows "fst (check_sources c check a refs w) \<noteq> None"
  using assms(3)
proof (induction refs)
  case (Cons ref refs)
  have "fst (checkSource c check a (Some ref) w) \<noteq> None"
    by (intro checkSource_returns [OF assms(1)], rule Cons.prems) auto
  moreover have "fst (check_sources c check a refs w) \<noteq> None"
    by (rule Cons.IH, rule Cons.prems) auto
  ultimately show ?case
    by (simp add: case_prod_beta checkSource_still [OF assms(1,2)] split: option.split outcome.split source_state.split)
qed simp

lemma check_data_imports_returns:
  assumes "still_reads c" "still_check check"
    and "\<And>imp ref b. imp \<in> set imps \<Longrightarrow> fst (getImportSource env c cn a imp w) = Done (Some ref) \<Longrightarrow>
      checked_source c w a ref b \<Longrightarrow> fst (check b w) \<noteq> None"
  shows "fst (check_data_imports env c cn check a imps w) \<noteq> None"
  using assms(3)
proof (induction imps)
  case (Cons imp imps)
  have "fst (check_data_imports env c cn check a imps w) \<noteq> None"
    by (rule Cons.IH, rule Cons.prems) auto
  moreover have "fst (checkSource c check a r w) \<noteq> None" if "fst (getImportSource env c cn a imp w) = Done r" for r
    by (intro checkSource_returns [OF assms(1)], rule Cons.prems) (use that in auto)
  ultimately show ?case
    by (cases "fst (getImportSource env c cn a imp w)")
      (simp_all add: case_prod_beta checkSource_still [OF assms(1,2)] stills [OF assms(1)]
        split: option.split outcome.split source_state.split)
qed simp

lemma check_target_imports_returns:
  assumes "still_reads c" "still_check check"
    and "\<And>imp rs ref b. imp \<in> set imps \<Longrightarrow> fst (getTargetSources env c cn a imp w) = Inr rs \<Longrightarrow> ref \<in> set rs \<Longrightarrow>
      checked_source c w a ref b \<Longrightarrow> fst (check b w) \<noteq> None"
  shows "fst (check_target_imports env c cn check a imps w) \<noteq> None"
  using assms(3)
proof (induction imps)
  case (Cons imp imps)
  have "fst (check_target_imports env c cn check a imps w) \<noteq> None"
    by (rule Cons.IH, rule Cons.prems) auto
  moreover have "fst (check_sources c check a rs w) \<noteq> None" if "fst (getTargetSources env c cn a imp w) = Inr rs" for rs
    by (intro check_sources_returns [OF assms(1,2)], rule Cons.prems) (use that in auto)
  ultimately show ?case
    by (cases "fst (getTargetSources env c cn a imp w)")
      (simp_all add: case_prod_beta check_sources_still [OF assms(1,2)] stills [OF assms(1)]
        split: option.split outcome.split bool.split)
qed simp

lemma check_imports_returns:
  assumes "still_reads c" "still_check check"
    and "\<And>ref b. import_source env c cn w a ref \<Longrightarrow> checked_source c w a ref b \<Longrightarrow> fst (check b w) \<noteq> None"
  shows "fst (check_imports env c cn check a w) \<noteq> None"
proof -
  have "fst (check_data_imports env c cn check a (ii_data (in_imports (in_spec a))) w) \<noteq> None"
    by (rule check_data_imports_returns [OF assms(1,2)], rule assms(3)) (auto simp: import_source_def)
  moreover have "fst (check_target_imports env c cn check a (ii_targets (in_imports (in_spec a))) w) \<noteq> None"
    by (rule check_target_imports_returns [OF assms(1,2)], rule assms(3)) (auto simp: import_source_def)
  ultimately show ?thesis
    by (simp add: check_imports_def case_prod_beta check_data_imports_still [OF assms(1,2)]
        split: option.split outcome.split bool.split)
qed

text \<open>More fuel does not change a result.\<close>

definition extends_check :: "'w \<Rightarrow> 'w inst_check \<Rightarrow> 'w inst_check \<Rightarrow> bool" where
  "extends_check w check check' \<longleftrightarrow> (\<forall>a. fst (check a w) \<noteq> None \<longrightarrow> check' a w = check a w)"

lemma checkSource_extends:
  assumes "still_reads c" "extends_check w check check'" and some: "fst (checkSource c check a r w) \<noteq> None"
  shows "checkSource c check' a r w = checkSource c check a r w"
proof (cases r)
  case (Some ref)
  have "check_other_source c check' ref w = check_other_source c check ref w"
    if "fst (check_other_source c check ref w) \<noteq> None"
  proof (cases "fst (rc_get (kc_installations c) ref w)")
    case (Inr b)
    then show ?thesis
      using that assms(2) [unfolded extends_check_def, rule_format, of b]
      by (cases "fst (check b w)") (auto simp: check_other_source_def case_prod_beta stills [OF assms(1)])
  qed (simp add: check_other_source_def case_prod_beta)
  with some Some show ?thesis
    by (auto simp: checkSource_def case_prod_beta stills [OF assms(1)] split: sum.split)
qed (simp add: checkSource_def)

lemma check_sources_extends:
  assumes "still_reads c" "still_check check" "extends_check w check check'"
    and "fst (check_sources c check a refs w) \<noteq> None"
  shows "check_sources c check' a refs w = check_sources c check a refs w"
  using assms(4)
proof (induction refs)
  case (Cons ref refs)
  then have "fst (checkSource c check a (Some ref) w) \<noteq> None" by (auto simp: case_prod_beta split: option.splits)
  note same = checkSource_extends [OF assms(1,3) this]
  from Cons show ?case
    by (simp add: same case_prod_beta checkSource_still [OF assms(1,2)] split: option.splits outcome.splits source_state.splits if_splits)
qed simp

lemma check_data_imports_extends:
  assumes "still_reads c" "still_check check" "extends_check w check check'"
    and "fst (check_data_imports env c cn check a imps w) \<noteq> None"
  shows "check_data_imports env c cn check' a imps w = check_data_imports env c cn check a imps w"
  using assms(4)
proof (induction imps)
  case (Cons imp imps)
  show ?case
  proof (cases "fst (getImportSource env c cn a imp w)")
    case (Done r)
    with Cons.prems have "fst (checkSource c check a r w) \<noteq> None"
      by (auto simp: case_prod_beta stills [OF assms(1)] split: option.splits)
    note same = checkSource_extends [OF assms(1,3) this]
    from Cons Done show ?thesis
      by (simp add: same case_prod_beta checkSource_still [OF assms(1,2)] stills [OF assms(1)]
          split: option.splits outcome.splits source_state.splits if_splits)
  qed (simp_all add: case_prod_beta)
qed simp

lemma check_target_imports_extends:
  assumes "still_reads c" "still_check check" "extends_check w check check'"
    and "fst (check_target_imports env c cn check a imps w) \<noteq> None"
  shows "check_target_imports env c cn check' a imps w = check_target_imports env c cn check a imps w"
  using assms(4)
proof (induction imps)
  case (Cons imp imps)
  show ?case
  proof (cases "fst (getTargetSources env c cn a imp w)")
    case (Inr rs)
    with Cons.prems have "fst (check_sources c check a rs w) \<noteq> None"
      by (auto simp: case_prod_beta stills [OF assms(1)] split: option.splits)
    note same = check_sources_extends [OF assms(1-3) this]
    from Cons Inr show ?thesis
      by (simp add: same case_prod_beta check_sources_still [OF assms(1,2)] stills [OF assms(1)]
          split: option.splits outcome.splits bool.splits)
  qed (simp add: case_prod_beta)
qed simp

lemma check_imports_extends:
  assumes "still_reads c" "still_check check" "extends_check w check check'"
  shows "extends_check w (check_imports env c cn check) (check_imports env c cn check')"
  unfolding extends_check_def
proof (intro allI impI)
  fix a assume n: "fst (check_imports env c cn check a w) \<noteq> None"
  then have "fst (check_data_imports env c cn check a (ii_data (in_imports (in_spec a))) w) \<noteq> None"
    by (auto simp: check_imports_def case_prod_beta split: option.splits)
  note d = check_data_imports_extends [OF assms this]
  from n check_target_imports_extends [OF assms, of env cn a "ii_targets (in_imports (in_spec a))"]
  show "check_imports env c cn check' a w = check_imports env c cn check a w"
    by (simp add: check_imports_def d case_prod_beta check_data_imports_still [OF assms(1,2)]
        split: option.splits outcome.splits bool.splits)
qed

lemma more_fuel:
  assumes "still_reads c"
  shows "n \<le> m \<Longrightarrow> extends_check w (CheckCompletedSiblingDependents env c cn n) (CheckCompletedSiblingDependents env c cn m)"
proof (induction n arbitrary: m)
  case (Suc n)
  then obtain k where m: "m = Suc k" "n \<le> k" by (cases m) auto
  have step: "CheckCompletedSiblingDependents env c cn (Suc i) = check_imports env c cn (CheckCompletedSiblingDependents env c cn i)" for i
    by (intro ext) simp
  show ?case unfolding m(1) step
    by (rule check_imports_extends [OF assms CheckCompletedSiblingDependents_still [OF assms] Suc.IH [OF m(2)]])
qed (simp add: extends_check_def)

lemma returns_below_rank:
  assumes "still_reads c"
    and "\<forall>a \<in> S. \<forall>ref b. import_source env c cn w a ref \<longrightarrow> checked_source c w a ref b \<longrightarrow> b \<in> S \<and> rank b < rank a"
    and "a \<in> S" "rank a < n"
  shows "fst (CheckCompletedSiblingDependents env c cn n a w) \<noteq> None"
  using assms(3,4)
proof (induction n arbitrary: a)
  case (Suc n)
  have "fst (check_imports env c cn (CheckCompletedSiblingDependents env c cn n) a w) \<noteq> None"
  proof (rule check_imports_returns [OF assms(1) CheckCompletedSiblingDependents_still [OF assms(1)]])
    fix ref b assume "import_source env c cn w a ref" "checked_source c w a ref b"
    with assms(2) Suc.prems(1) have "b \<in> S" "rank b < rank a" by blast+
    with Suc.prems(2) show "fst (CheckCompletedSiblingDependents env c cn n b w) \<noteq> None" by (intro Suc.IH) simp_all
  qed
  then show ?case by simp
qed simp

text \<open>
  C24: the check returns where the sources have no cycle. If the installations from which the check can
  come to others have a rank that decreases from an importer to its source, the check of an
  installation has the same result for all fuel beyond its rank.
\<close>

theorem CheckCompletedSiblingDependents_returns:
  assumes "still_reads c"
    and "\<forall>a \<in> S. \<forall>ref b. import_source env c cn w a ref \<longrightarrow> checked_source c w a ref b \<longrightarrow> b \<in> S \<and> rank b < rank a"
    and "a \<in> S"
  shows "\<exists>v. \<forall>n > rank a. CheckCompletedSiblingDependents env c cn n a w = (Some v, w)"
proof -
  from returns_below_rank [OF assms, of "Suc (rank a)"] obtain v
    where v: "fst (CheckCompletedSiblingDependents env c cn (Suc (rank a)) a w) = Some v" by blast
  have "CheckCompletedSiblingDependents env c cn n a w = (Some v, w)" if "n > rank a" for n
  proof -
    have "CheckCompletedSiblingDependents env c cn n a w = CheckCompletedSiblingDependents env c cn (Suc (rank a)) a w"
      using more_fuel [OF assms(1), of "Suc (rank a)" n w env cn] that v by (simp add: extends_check_def)
    then show ?thesis
      using v still_checkD [OF CheckCompletedSiblingDependents_still [OF assms(1)], of env cn n a w]
      by (simp add: prod_eq_iff)
  qed
  then show ?thesis by blast
qed

subsection \<open>When it does not\<close>

definition first_source_in ::
    "'j inst_env \<Rightarrow> 'w kube_client \<Rightarrow> string \<Rightarrow> 'w \<Rightarrow> installation set \<Rightarrow> installation \<Rightarrow> bool" where
  "first_source_in env c contextName w S a \<longleftrightarrow>
     (\<exists>imp imps ref b. ii_data (in_imports (in_spec a)) = imp # imps
        \<and> fst (getImportSource env c contextName a imp w) = Done (Some ref) \<and> checked_source c w a ref b \<and> b \<in> S)"

text \<open>
  The check does not return where completed installations import from each other in a cycle: nothing stops
  the recursion, whatever the fuel.
\<close>

theorem CheckCompletedSiblingDependents_diverges:
  assumes "still_reads c" and "\<forall>a \<in> S. first_source_in env c cn w S a" and "a \<in> S"
  shows "fst (CheckCompletedSiblingDependents env c cn n a w) = None"
  using assms(3)
proof (induction n arbitrary: a)
  case (Suc n)
  with assms(2) obtain imp imps ref b where a: "ii_data (in_imports (in_spec a)) = imp # imps"
    "fst (getImportSource env c cn a imp w) = Done (Some ref)" "checked_source c w a ref b" and b: "b \<in> S"
    by (auto simp: first_source_in_def)
  from a(3) obtain p where "fst (GetParent c a w) = Inr p" "\<forall>q. p = Some q \<longrightarrow> \<not> ReferenceIsObject ref (in_meta q)"
    by (auto simp: checked_source_def)
  with a Suc.IH [OF b] show ?case
    by (simp add: check_imports_def checkSource_def check_other_source_def checked_source_def case_prod_beta
        stills [OF assms(1)] split: option.split)
qed simp

section \<open>Example\<close>

text \<open>
  Two root installations with imports of data that the other one, or one of them only, provides.
\<close>

definition example_inst_env :: "string inst_env" where
  "example_inst_env =
     \<lparr>ie_digest = (\<lambda>s. s), ie_sha = (\<lambda>s. s), ie_marshal = Inr, ie_unmarshal = Inr, ie_rawMap = Inr,
      ie_marshalMap = (\<lambda>m. Inr []), ie_setOwner = (\<lambda>i m. Inr m)\<rparr>"

definition exported_data :: "string \<Rightarrow> string \<Rightarrow> raw_data_object" where
  "exported_data owner name =
     \<lparr>do_meta = empty_meta\<lparr>om_name := GenerateDataObjectName (\<lambda>s. s) [] name, om_namespace := ''ns'',
        om_ownerReferences := [\<lparr>ow_apiVersion = [], ow_kind = ''Installation'', ow_name = owner, ow_controller = None\<rparr>]\<rparr>,
      do_data = ''1''\<rparr>"

lemma example_still_reads: "still_reads example_client"
  by (simp add: still_reads_def example_client_def store_client_def no_objects_def store_get_def store_select_def
      Let_def split: option.split)

definition base_inst :: installation where
  "base_inst = example_installation ''base'' [] [''a''] PhSucceeded"

definition app_inst :: installation where
  "app_inst = example_installation ''app'' [''a''] [] PhSucceeded"

definition chain_cluster :: cluster where
  "chain_cluster = installation_cluster [base_inst, app_inst] [exported_data ''base'' ''a'']"

definition ping_inst :: installation where
  "ping_inst = example_installation ''ping'' [''b''] [''a''] PhSucceeded"

definition pong_inst :: installation where
  "pong_inst = example_installation ''pong'' [''a''] [''b''] PhSucceeded"

definition cycle_cluster :: cluster where
  "cycle_cluster = installation_cluster [ping_inst, pong_inst] [exported_data ''ping'' ''a'', exported_data ''pong'' ''b'']"

lemma chain_check: "CheckCompletedSiblingDependents example_inst_env example_client [] 2 app_inst chain_cluster
    = (Some (Done True), chain_cluster)"
  by code_simp

lemma CheckCompletedSiblingDependents_ready_witness: "ready example_inst_env example_client [] chain_cluster app_inst"
  using CheckCompletedSiblingDependents_ready [OF example_still_reads, of example_inst_env "[]" app_inst chain_cluster]
    chain_check by (metis fst_conv)

lemma chain_sources:
  "import_source example_inst_env example_client [] chain_cluster app_inst ref \<longleftrightarrow> ref = ObjectKey ''base'' ''ns''"
  "\<not> import_source example_inst_env example_client [] chain_cluster base_inst ref"
proof -
  have i: "ii_data (in_imports (in_spec app_inst)) = [\<lparr>im_name = ''a'', im_dataRef = ''a'', im_version = [],
      im_secretRef = None, im_configMapRef = None\<rparr>]"
    "ii_targets (in_imports (in_spec app_inst)) = []"
    "ii_data (in_imports (in_spec base_inst)) = []" "ii_targets (in_imports (in_spec base_inst)) = []"
    by code_simp+
  have g: "fst (getImportSource example_inst_env example_client [] app_inst \<lparr>im_name = ''a'', im_dataRef = ''a'', im_version = [],
      im_secretRef = None, im_configMapRef = None\<rparr> chain_cluster) = Done (Some (ObjectKey ''base'' ''ns''))"
    by code_simp
  show "import_source example_inst_env example_client [] chain_cluster app_inst ref \<longleftrightarrow> ref = ObjectKey ''base'' ''ns''"
    "\<not> import_source example_inst_env example_client [] chain_cluster base_inst ref"
    by (auto simp: import_source_def i g)
qed

lemma CheckCompletedSiblingDependents_returns_witness:
  "\<exists>v. \<forall>n > 1. CheckCompletedSiblingDependents example_inst_env example_client [] n app_inst chain_cluster = (Some v, chain_cluster)"
proof -
  let ?rank = "\<lambda>i. if i = app_inst then 1 else 0 :: nat"
  have get: "fst (rc_get (kc_installations example_client) (ObjectKey ''base'' ''ns'') chain_cluster) = Inr base_inst"
    by code_simp
  have "om_name (in_meta base_inst) = ''base''" "om_name (in_meta app_inst) = ''app''" by code_simp+
  then have "base_inst \<noteq> app_inst" by auto
  then have "\<forall>a \<in> {app_inst, base_inst}. \<forall>ref b. import_source example_inst_env example_client [] chain_cluster a ref \<longrightarrow>
      checked_source example_client chain_cluster a ref b \<longrightarrow> b \<in> {app_inst, base_inst} \<and> ?rank b < ?rank a"
    by (auto simp: chain_sources checked_source_def get)
  from CheckCompletedSiblingDependents_returns [OF example_still_reads this, of app_inst] show ?thesis by simp
qed

lemma cycle_first_sources:
  "\<forall>a \<in> {ping_inst, pong_inst}. first_source_in example_inst_env example_client [] cycle_cluster {ping_inst, pong_inst} a"
proof -
  let ?imp = "\<lambda>n. \<lparr>im_name = n, im_dataRef = n, im_version = [], im_secretRef = None, im_configMapRef = None\<rparr>"
  have "ii_data (in_imports (in_spec ping_inst)) = [?imp ''b'']" "ii_data (in_imports (in_spec pong_inst)) = [?imp ''a'']"
    by code_simp+
  moreover have "fst (getImportSource example_inst_env example_client [] ping_inst (?imp ''b'') cycle_cluster) = Done (Some (ObjectKey ''pong'' ''ns''))"
    "fst (getImportSource example_inst_env example_client [] pong_inst (?imp ''a'') cycle_cluster) = Done (Some (ObjectKey ''ping'' ''ns''))"
    by code_simp+
  moreover have "fst (GetParent example_client ping_inst cycle_cluster) = Inr None"
    "fst (GetParent example_client pong_inst cycle_cluster) = Inr None"
    by code_simp+
  moreover have "\<not> ReferenceIsObject (ObjectKey ''pong'' ''ns'') (in_meta ping_inst)"
    "\<not> ReferenceIsObject (ObjectKey ''ping'' ''ns'') (in_meta pong_inst)"
    by code_simp+
  moreover have "fst (rc_get (kc_installations example_client) (ObjectKey ''pong'' ''ns'') cycle_cluster) = Inr pong_inst"
    "fst (rc_get (kc_installations example_client) (ObjectKey ''ping'' ''ns'') cycle_cluster) = Inr ping_inst"
    by code_simp+
  moreover have "IsCompletedInstallationPhase (ins_phase (in_status pong_inst))"
    "IsCompletedInstallationPhase (ins_phase (in_status ping_inst))"
    "om_generation (in_meta pong_inst) = ins_observedGeneration (in_status pong_inst)"
    "om_generation (in_meta ping_inst) = ins_observedGeneration (in_status ping_inst)"
    by code_simp+
  ultimately show ?thesis unfolding first_source_in_def checked_source_def by simp
qed

lemma CheckCompletedSiblingDependents_diverges_witness:
  "\<forall>n. fst (CheckCompletedSiblingDependents example_inst_env example_client [] n ping_inst cycle_cluster) = None"
proof
  fix n
  show "fst (CheckCompletedSiblingDependents example_inst_env example_client [] n ping_inst cycle_cluster) = None"
    by (rule CheckCompletedSiblingDependents_diverges [OF example_still_reads cycle_first_sources]) simp
qed

end
