(* ===== verification/ImportValidation.thy ===== *)
theory ImportValidation
  imports SiblingChecks
begin

text \<open>
  The validator of imports (\<open>pkg/landscaper/installations/imports/validation.go\<close>): outdated imports,
  dependent installations, and whether the sources of all imports are in the right state. The theorem
  says what satisfied imports guarantee.
\<close>

section \<open>The validator (imports/types.go, imports/validation.go)\<close>

text \<open>
  The parent of an installation comes with the imports of its blueprint. The aggregate of several
  errors is built by a library.
\<close>

record internal_installation =
  nn_base :: installation_base
  nn_blueprintImports :: "import_definition list"

record ('w, 'j) validator =
  vl_env :: "'j inst_env"
  vl_client :: "'w kube_client"
  vl_contextName :: string
  vl_inst :: installation
  vl_parent :: "internal_installation option"
  vl_siblings :: "installation list"
  vl_aggregate :: "gerr list \<Rightarrow> gerr"

definition ValidateImportsCondition :: string where
  "ValidateImportsCondition = ''ValidateImports''"

definition IsRoot :: "('w, 'j) validator \<Rightarrow> bool" where
  "IsRoot v \<longleftrightarrow> vl_parent v = None"

definition parent_info :: "('w, 'j) validator \<Rightarrow> installation option" where
  "parent_info v = map_option (\<lambda>p. ib_info (nn_base p)) (vl_parent v)"

definition imp_path :: "installation \<Rightarrow> string \<Rightarrow> string" where
  "imp_path inst name = ''(Inst '' @ om_name (in_meta inst) @ '').'' @ name"

text \<open>The condition of a check, updated in the installation in memory.\<close>

definition put_condition ::
    "time \<Rightarrow> condition \<Rightarrow> condition_status \<Rightarrow> string \<Rightarrow> string \<Rightarrow> installation_base \<Rightarrow> installation_base" where
  "put_condition now cond status reason msg i =
     i\<lparr>ib_info := inst_merge_conditions [UpdatedCondition now cond status reason msg []] (ib_info i)\<rparr>"

subsection \<open>Outdated imports\<close>

definition get_source ::
    "'w kube_client \<Rightarrow> string \<Rightarrow> string \<Rightarrow> object_reference \<Rightarrow> 'w \<Rightarrow> installation outcome \<times> 'w" where
  "get_source c path name ref w =
     (case rc_get (kc_installations c) ref w of
        (Inl e, w1) \<Rightarrow>
          (Fail (wrap (path @ '': unable to get source installation '' @ key_string ref @ '' for '' @ quote_text name) e), w1)
      | (Inr src, w1) \<Rightarrow> (Done src, w1))"

definition checkDataImportIsOutdated ::
    "('w, 'j) validator \<Rightarrow> installation_base \<Rightarrow> data_import \<Rightarrow> 'w \<Rightarrow> bool outcome \<times> 'w" where
  "checkDataImportIsOutdated v i imp w =
     (let path = imp_path (vl_inst v) (im_name imp)
      in case GetDataImport (vl_env v) (vl_client v) (vl_contextName v) (in_ns (ib_info i)) imp w of
           (Panic, w1) \<Rightarrow> (Panic, w1)
         | (Fail e, w1) \<Rightarrow> (Fail (wrap (path @ '': unable to get data object for '' @ quote_text (im_name imp)) e), w1)
         | (Done (d, owner), w1) \<Rightarrow>
             (case GetData (ib_importsStatus i) (im_name imp) of
                Inl e \<Rightarrow> (Done True, w1)
              | Inr st \<Rightarrow>
                  (case installation_owner (in_ns (ib_info i)) owner of
                     None \<Rightarrow> (Done (md_hash (mp_metadata d) \<noteq> is_configGeneration st), w1)
                   | Some ref \<Rightarrow>
                       (case get_source (vl_client v) path (im_name imp) ref w1 of
                          (Panic, w2) \<Rightarrow> (Panic, w2)
                        | (Fail e, w2) \<Rightarrow> (Fail e, w2)
                        | (Done src, w2) \<Rightarrow> (Done (ins_configGeneration (in_status src) \<noteq> is_configGeneration st), w2)))))"

text \<open>The remembered generation of a target.\<close>

definition target_generation :: "target_import \<Rightarrow> import_status \<Rightarrow> imported_target \<Rightarrow> gerr + string" where
  "target_generation imp st t =
     (if ti_target imp \<noteq> [] then Inr (is_configGeneration st)
      else case List.find (\<lambda>e. om_name (tg_meta (mt_raw t)) = ts_target e) (is_targets st) of
             Some e \<Rightarrow> Inr (ts_configGeneration e)
           | None \<Rightarrow> Inl (PlainError (''no config generation for target '' @ quote_text (om_name (tg_meta (mt_raw t)))
                       @ '' found in installation status'')))"

fun targets_outdated ::
    "('w, 'j) validator \<Rightarrow> installation_base \<Rightarrow> target_import \<Rightarrow> imported_target list \<Rightarrow> 'w \<Rightarrow> bool outcome \<times> 'w" where
  "targets_outdated v i imp [] w = (Done False, w)"
| "targets_outdated v i imp (t # ts) w =
     (case GetTarget (ib_importsStatus i) (ti_name imp) of
        Inl e \<Rightarrow> (Done True, w)
      | Inr st \<Rightarrow>
          (case target_generation imp st t of
             Inl e \<Rightarrow> (Fail e, w)
           | Inr configGen \<Rightarrow>
               (case installation_owner (in_ns (ib_info i)) (mt_owner t) of
                  None \<Rightarrow>
                    if show_int (om_generation (tg_meta (mt_raw t))) \<noteq> configGen then (Done True, w)
                    else targets_outdated v i imp ts w
                | Some ref \<Rightarrow>
                    (case get_source (vl_client v) (imp_path (vl_inst v) (ti_name imp)) (ti_name imp) ref w of
                       (Panic, w1) \<Rightarrow> (Panic, w1)
                     | (Fail e, w1) \<Rightarrow> (Fail e, w1)
                     | (Done src, w1) \<Rightarrow>
                         if ins_configGeneration (in_status src) \<noteq> configGen then (Done True, w1)
                         else targets_outdated v i imp ts w1))))"

definition checkTargetImportIsOutdated ::
    "('w, 'j) validator \<Rightarrow> installation_base \<Rightarrow> target_import \<Rightarrow> 'w \<Rightarrow> bool outcome \<times> 'w" where
  "checkTargetImportIsOutdated v i imp w =
     (case GetTargets (vl_env v) (vl_client v) (vl_contextName v) (in_ns (ib_info i)) imp w of
        (Inl e, w1) \<Rightarrow> (Fail e, w1)
      | (Inr (targets, names), w1) \<Rightarrow> targets_outdated v i imp targets w1)"

text \<open>The first import for which a check does not say \<open>False\<close>.\<close>

fun first_outdated :: "('i \<Rightarrow> 'w \<Rightarrow> bool outcome \<times> 'w) \<Rightarrow> 'i list \<Rightarrow> 'w \<Rightarrow> bool outcome \<times> 'w" where
  "first_outdated check [] w = (Done False, w)"
| "first_outdated check (imp # imps) w =
     (case check imp w of
        (Done False, w1) \<Rightarrow> first_outdated check imps w1
      | r \<Rightarrow> r)"

definition OutdatedImports ::
    "('w, 'j) validator \<Rightarrow> installation_base \<Rightarrow> 'w \<Rightarrow> bool outcome \<times> installation_base \<times> 'w" where
  "OutdatedImports v i w =
     (let c = vl_client v;
          imports = in_imports (in_spec (ib_info i));
          cond = GetOrInitCondition (kc_now c w) (ins_conditions (in_status (ib_info i))) ValidateImportsCondition;
          put = (\<lambda>status msg w. put_condition (kc_now c w) cond status ''OutdatedImports'' msg i)
      in case first_outdated (checkDataImportIsOutdated v i) (ii_data imports) w of
           (Panic, w1) \<Rightarrow> (Panic, i, w1)
         | (Fail e, w1) \<Rightarrow>
             (Fail e, put ConditionUnknown (''Check for outdated data imports failed: '' @ error_string e) w1, w1)
         | (Done True, w1) \<Rightarrow> (Done True, put ConditionTrue ''A least one data import is outdated'' w1, w1)
         | (Done False, w1) \<Rightarrow>
             (case first_outdated (checkTargetImportIsOutdated v i) (ii_targets imports) w1 of
                (Panic, w2) \<Rightarrow> (Panic, i, w2)
              | (Fail e, w2) \<Rightarrow>
                  (Fail e, put ConditionUnknown (''Check for outdated target imports failed: '' @ error_string e) w2, w2)
              | (Done True, w2) \<Rightarrow> (Done True, put ConditionTrue ''A least one target import is outdated'' w2, w2)
              | (Done False, w2) \<Rightarrow> (Done False, put ConditionFalse ''All imports are up-to-date'' w2, w2)))"

subsection \<open>Dependent installations\<close>

definition report_dependents ::
    "'w kube_client \<Rightarrow> condition \<Rightarrow> string \<Rightarrow> string \<Rightarrow> installation_base \<Rightarrow> bool outcome option \<times> 'w
      \<Rightarrow> bool outcome option \<times> installation_base \<times> 'w" where
  "report_dependents c cond reason what i r =
     (case r of
        (None, w) \<Rightarrow> (None, i, w)
      | (Some Panic, w) \<Rightarrow> (Some Panic, i, w)
      | (Some (Fail e), w) \<Rightarrow>
          (Some (Fail e), put_condition (kc_now c w) cond ConditionFalse reason
             (''Check for progressing dependents'' @ what @ '' failed: '' @ error_string e) i, w)
      | (Some (Done completed), w) \<Rightarrow>
          (Some (Done completed),
           if completed then i
           else put_condition (kc_now c w) cond ConditionFalse reason
             (''Waiting until all progressing dependents'' @ what @ '' are finished'') i, w))"

definition CheckDependentInstallations ::
    "('w, 'j) validator \<Rightarrow> nat \<Rightarrow> installation_base \<Rightarrow> 'w \<Rightarrow> bool outcome option \<times> installation_base \<times> 'w" where
  "CheckDependentInstallations v fuel i w =
     (let c = vl_client v;
          cond = GetOrInitCondition (kc_now c w) (ins_conditions (in_status (ib_info i))) ValidateImportsCondition
      in if IsRoot v
         then report_dependents c cond ''CheckSiblingDependents'' [] i
                (CheckCompletedSiblingDependents (vl_env v) c (GetInstallationContextName (ib_info i)) fuel (ib_info i) w)
         else report_dependents c cond ''CheckSiblingDependentsOfParents'' '' of the parent'' i
                (CheckCompletedSiblingDependentsOfParent (vl_env v) c fuel (parent_info v) w))"

subsection \<open>Satisfied imports\<close>

definition getSiblingForObjectReference :: "('w, 'j) validator \<Rightarrow> object_reference \<Rightarrow> installation option" where
  "getSiblingForObjectReference v ref = List.find (\<lambda>s. ReferenceIsObject ref (in_meta s)) (vl_siblings v)"

definition checkStateForParentImport :: "internal_installation \<Rightarrow> string \<Rightarrow> string \<Rightarrow> gerr option" where
  "checkStateForParentImport parent path importName =
     (case GetImportDefinition (nn_blueprintImports parent) importName of
        Inl e \<Rightarrow> Some (NewImportNotFoundError (path @ '': import in parent not found'') (Some e))
      | Inr d \<Rightarrow>
          if \<not> IsProgressingInstallationPhase (ins_phase (in_status (ib_info (nn_base parent))))
          then Some (NewImportNotSatisfiedError (path @ '': Parent has to be progressing to get imports'') None)
          else None)"

text \<open>The result is \<open>None\<close> when the check of the sibling's sources does not return.\<close>

definition checkStateForSiblingExport ::
    "('w, 'j) validator \<Rightarrow> nat \<Rightarrow> string \<Rightarrow> object_reference \<Rightarrow> string \<Rightarrow> (installation \<Rightarrow> string \<Rightarrow> bool) \<Rightarrow> 'w
      \<Rightarrow> unit outcome option \<times> 'w" where
  "checkStateForSiblingExport v fuel path siblingRef importName isExporting w =
     (case getSiblingForObjectReference v siblingRef of
        None \<Rightarrow> (Some (Fail (PlainError (path @ '': installation '' @ key_string siblingRef @ '' is not a sibling''))), w)
      | Some sibling \<Rightarrow>
          if \<not> isExporting sibling importName
          then (Some (Fail (NewImportNotFoundError (path @ '': export in sibling not found'') None)), w)
          else if ins_phase (in_status sibling) \<noteq> PhSucceeded
          then (Some (Fail (NewNotCompletedDependentsError
                  (path @ '': Sibling Installation has to be completed to get exports'') None)), w)
          else (case CheckCompletedSiblingDependents (vl_env v) (vl_client v) (vl_contextName v) fuel sibling w of
                  (None, w1) \<Rightarrow> (None, w1)
                | (Some Panic, w1) \<Rightarrow> (Some Panic, w1)
                | (Some (Fail e), w1) \<Rightarrow>
                    (Some (Fail (wrap (path @ '': Unable to check if sibling Installation '' @ go_quote (om_name (in_meta sibling))
                       @ '' dependencies are not completed yet'') e)), w1)
                | (Some (Done isCompleted), w1) \<Rightarrow>
                    if \<not> isCompleted
                    then (Some (Fail (NewNotCompletedDependentsError (path @ '': Sibling Installation ''
                            @ go_quote (om_name (in_meta sibling)) @ '' dependency is not completed yet'') None)), w1)
                    else (Some (Done ()), w1)))"

definition checkStateForSiblingDataExport ::
    "('w, 'j) validator \<Rightarrow> nat \<Rightarrow> string \<Rightarrow> object_reference \<Rightarrow> string \<Rightarrow> 'w \<Rightarrow> unit outcome option \<times> 'w" where
  "checkStateForSiblingDataExport v fuel path siblingRef importName w =
     checkStateForSiblingExport v fuel path siblingRef importName IsExportingData w"

definition checkStateForSiblingTargetExport ::
    "('w, 'j) validator \<Rightarrow> nat \<Rightarrow> string \<Rightarrow> object_reference \<Rightarrow> string \<Rightarrow> 'w \<Rightarrow> unit outcome option \<times> 'w" where
  "checkStateForSiblingTargetExport v fuel path siblingRef importName w =
     checkStateForSiblingExport v fuel path siblingRef importName IsExportingTarget w"

definition is_parent :: "('w, 'j) validator \<Rightarrow> object_reference \<Rightarrow> internal_installation option" where
  "is_parent v ref =
     (case vl_parent v of
        Some p \<Rightarrow> if ReferenceIsObject ref (in_meta (ib_info (nn_base p))) then Some p else None
      | None \<Rightarrow> None)"

definition checkDataImportIsSatisfied ::
    "('w, 'j) validator \<Rightarrow> nat \<Rightarrow> installation_base \<Rightarrow> data_import \<Rightarrow> 'w \<Rightarrow> unit outcome option \<times> 'w" where
  "checkDataImportIsSatisfied v fuel i imp w =
     (let path = imp_path (ib_info i) (im_name imp)
      in case GetDataImport (vl_env v) (vl_client v) (vl_contextName v) (in_ns (ib_info i)) imp w of
           (Panic, w1) \<Rightarrow> (Some Panic, w1)
         | (Fail e, w1) \<Rightarrow> (Some (Fail (wrap (path @ '': unable to get data object for '' @ quote_text (im_name imp)) e)), w1)
         | (Done (d, owner), w1) \<Rightarrow>
             (case installation_owner (in_ns (ib_info i)) owner of
                None \<Rightarrow> (Some (Done ()), w1)
              | Some ref \<Rightarrow>
                  if ReferenceIsObject ref (in_meta (vl_inst v)) then (Some (Done ()), w1)
                  else (case is_parent v ref of
                          Some p \<Rightarrow> (Some (case checkStateForParentImport p path (im_dataRef imp) of
                                            None \<Rightarrow> Done () | Some e \<Rightarrow> Fail e), w1)
                        | None \<Rightarrow> checkStateForSiblingDataExport v fuel path ref (im_dataRef imp) w1)))"

text \<open>
  One target of an import. The name under which it is imported is the one at its position if the
  import has several names, and the first one otherwise; the list of names is never empty where
  there is a target.
\<close>

definition reference_at :: "string list \<Rightarrow> nat \<Rightarrow> string" where
  "reference_at names k = (if 1 < length names then names ! k else hd names)"

definition check_target ::
    "('w, 'j) validator \<Rightarrow> nat \<Rightarrow> installation_base \<Rightarrow> string \<Rightarrow> string \<Rightarrow> imported_target \<Rightarrow> 'w \<Rightarrow> unit outcome option \<times> 'w" where
  "check_target v fuel i path name t w =
     (case installation_owner (in_ns (ib_info i)) (mt_owner t) of
        None \<Rightarrow> (Some (Done ()), w)
      | Some ref \<Rightarrow>
          if ReferenceIsObject ref (in_meta (vl_inst v)) then (Some (Done ()), w)
          else (case is_parent v ref of
                  Some p \<Rightarrow> (Some (case checkStateForParentImport p path name of None \<Rightarrow> Done () | Some e \<Rightarrow> Fail e), w)
                | None \<Rightarrow> checkStateForSiblingTargetExport v fuel path ref name w))"

fun check_targets ::
    "('w, 'j) validator \<Rightarrow> nat \<Rightarrow> installation_base \<Rightarrow> string \<Rightarrow> string list \<Rightarrow> nat \<Rightarrow> imported_target list \<Rightarrow> gerr list \<Rightarrow> 'w
      \<Rightarrow> gerr list outcome option \<times> 'w" where
  "check_targets v fuel i path names k [] errs w = (Some (Done errs), w)"
| "check_targets v fuel i path names k (t # ts) errs w =
     (case check_target v fuel i path (reference_at names k) t w of
        (None, w1) \<Rightarrow> (None, w1)
      | (Some Panic, w1) \<Rightarrow> (Some Panic, w1)
      | (Some (Fail e), w1) \<Rightarrow> check_targets v fuel i path names (Suc k) ts (errs @ [e]) w1
      | (Some (Done u), w1) \<Rightarrow> check_targets v fuel i path names (Suc k) ts errs w1)"

definition checkTargetImportIsSatisfied ::
    "('w, 'j) validator \<Rightarrow> nat \<Rightarrow> installation_base \<Rightarrow> target_import \<Rightarrow> 'w \<Rightarrow> unit outcome option \<times> 'w" where
  "checkTargetImportIsSatisfied v fuel i imp w =
     (case GetTargets (vl_env v) (vl_client v) (vl_contextName v) (in_ns (ib_info i)) imp w of
        (Inl e, w1) \<Rightarrow> (Some (Fail e), w1)
      | (Inr (targets, names), w1) \<Rightarrow>
          (case check_targets v fuel i (imp_path (ib_info i) (ti_name imp)) names 0 targets [] w1 of
             (None, w2) \<Rightarrow> (None, w2)
           | (Some Panic, w2) \<Rightarrow> (Some Panic, w2)
           | (Some (Fail e), w2) \<Rightarrow> (Some (Fail e), w2)
           | (Some (Done errs), w2) \<Rightarrow> (Some (if errs = [] then Done () else Fail (vl_aggregate v errs)), w2)))"

text \<open>All imports pass a check; the first that does not decides.\<close>

fun all_satisfied :: "('i \<Rightarrow> 'w \<Rightarrow> unit outcome option \<times> 'w) \<Rightarrow> 'i list \<Rightarrow> 'w \<Rightarrow> unit outcome option \<times> 'w" where
  "all_satisfied check [] w = (Some (Done ()), w)"
| "all_satisfied check (imp # imps) w =
     (case check imp w of
        (Some (Done u), w1) \<Rightarrow> all_satisfied check imps w1
      | r \<Rightarrow> r)"

definition ImportsSatisfied ::
    "('w, 'j) validator \<Rightarrow> nat \<Rightarrow> installation_base \<Rightarrow> 'w \<Rightarrow> unit outcome option \<times> installation_base \<times> 'w" where
  "ImportsSatisfied v fuel i w =
     (let c = vl_client v;
          imports = in_imports (in_spec (ib_info i));
          cond = GetOrInitCondition (kc_now c w) (ins_conditions (in_status (ib_info i))) ValidateImportsCondition;
          put = (\<lambda>status msg w. put_condition (kc_now c w) cond status ''ImportsSatisfied'' msg i)
      in case all_satisfied (checkDataImportIsSatisfied v fuel i) (ii_data imports) w of
           (None, w1) \<Rightarrow> (None, i, w1)
         | (Some Panic, w1) \<Rightarrow> (Some Panic, i, w1)
         | (Some (Fail e), w1) \<Rightarrow>
             (Some (Fail e), put ConditionFalse (''Waiting until all data imports are satisfied: '' @ error_string e) w1, w1)
         | (Some (Done u), w1) \<Rightarrow>
             (case all_satisfied (checkTargetImportIsSatisfied v fuel i) (ii_targets imports) w1 of
                (None, w2) \<Rightarrow> (None, i, w2)
              | (Some Panic, w2) \<Rightarrow> (Some Panic, i, w2)
              | (Some (Fail e), w2) \<Rightarrow>
                  (Some (Fail e), put ConditionFalse (''Waiting until all target imports are satisfied: '' @ error_string e) w2, w2)
              | (Some (Done u'), w2) \<Rightarrow> (Some (Done ()), put ConditionTrue ''All imports are satisfied'' w2, w2)))"

section \<open>What satisfied imports guarantee\<close>

lemma get_source_still: "still_reads c \<Longrightarrow> snd (get_source c path name ref w) = w"
  by (simp add: get_source_def case_prod_beta still_snd split: sum.split)

lemma sibling_export_still:
  "still_reads (vl_client v) \<Longrightarrow> snd (checkStateForSiblingExport v fuel path ref name isExporting w) = w"
  by (simp add: checkStateForSiblingExport_def case_prod_beta still_checkD [OF CheckCompletedSiblingDependents_still]
      split: option.split outcome.split)

lemma data_satisfied_still: "still_reads (vl_client v) \<Longrightarrow> snd (checkDataImportIsSatisfied v fuel i imp w) = w"
  by (simp add: checkDataImportIsSatisfied_def Let_def case_prod_beta GetDataImport_still checkStateForSiblingDataExport_def
      sibling_export_still split: option.split outcome.split)

lemma check_target_still: "still_reads (vl_client v) \<Longrightarrow> snd (check_target v fuel i path name t w) = w"
  by (simp add: check_target_def checkStateForSiblingTargetExport_def sibling_export_still split: option.split)

lemma check_targets_still: "still_reads (vl_client v) \<Longrightarrow> snd (check_targets v fuel i path names k ts errs w) = w"
  by (induction ts arbitrary: k errs) (simp_all add: case_prod_beta check_target_still split: option.split outcome.split)

lemma target_satisfied_still: "still_reads (vl_client v) \<Longrightarrow> snd (checkTargetImportIsSatisfied v fuel i imp w) = w"
  by (simp add: checkTargetImportIsSatisfied_def case_prod_beta GetTargets_still check_targets_still
      split: sum.split option.split outcome.split)

lemma all_satisfied_still: "(\<And>imp w. snd (check imp w) = w) \<Longrightarrow> snd (all_satisfied check imps w) = w"
  by (induction imps) (simp_all add: case_prod_beta split: option.split outcome.split)

lemma all_satisfied_Done:
  assumes "\<And>imp w. snd (check imp w) = w"
  shows "fst (all_satisfied check imps w) = Some (Done ()) \<longleftrightarrow> (\<forall>imp \<in> set imps. fst (check imp w) = Some (Done ()))"
  by (induction imps) (auto simp: case_prod_beta assms split: option.split outcome.split)

lemma check_targets_no_errors:
  "still_reads (vl_client v) \<Longrightarrow> fst (check_targets v fuel i path names k ts errs w) = Some (Done es) \<Longrightarrow>
     (\<exists>more. es = errs @ more) \<and> (es = [] \<longrightarrow> (\<forall>j < length ts.
        fst (check_target v fuel i path (reference_at names (k + j)) (ts ! j) w) = Some (Done ())))"
proof (induction ts arbitrary: k errs)
  case (Cons t ts)
  let ?r = "fst (check_target v fuel i path (reference_at names k) t w)"
  note IH = Cons.IH [OF Cons.prems(1)]
  show ?case
  proof (cases "?r = Some (Done ())")
    case True
    with Cons.prems have "fst (check_targets v fuel i path names (Suc k) ts errs w) = Some (Done es)"
      by (simp add: case_prod_beta check_target_still)
    from IH [OF this] True show ?thesis by (auto simp: nth_Cons' less_Suc_eq_0_disj)
  next
    case False
    with Cons.prems obtain e where "fst (check_targets v fuel i path names (Suc k) ts (errs @ [e]) w) = Some (Done es)"
      by (auto simp: case_prod_beta check_target_still split: option.splits outcome.splits)
    from IH [OF this] show ?thesis by auto
  qed
qed simp

text \<open>What a source of another installation has to fulfil, for a name and the kind of export.\<close>

definition source_fulfils ::
    "('w, 'j) validator \<Rightarrow> (installation \<Rightarrow> string \<Rightarrow> bool) \<Rightarrow> string \<Rightarrow> 'w \<Rightarrow> object_reference \<Rightarrow> bool" where
  "source_fulfils v isExporting name w ref \<longleftrightarrow>
     ReferenceIsObject ref (in_meta (vl_inst v))
   \<or> (\<exists>p d. vl_parent v = Some p \<and> ReferenceIsObject ref (in_meta (ib_info (nn_base p)))
        \<and> IsProgressingInstallationPhase (ins_phase (in_status (ib_info (nn_base p))))
        \<and> nested_import (nn_blueprintImports p) d \<and> fv_name (id_fieldValue d) = name)
   \<or> (\<exists>s \<in> set (vl_siblings v). ReferenceIsObject ref (in_meta s) \<and> isExporting s name
        \<and> ins_phase (in_status s) = PhSucceeded \<and> ready (vl_env v) (vl_client v) (vl_contextName v) w s)"

lemma parent_import_ok:
  "checkStateForParentImport p path name = None \<Longrightarrow>
     IsProgressingInstallationPhase (ins_phase (in_status (ib_info (nn_base p))))
   \<and> (\<exists>d. nested_import (nn_blueprintImports p) d \<and> fv_name (id_fieldValue d) = name)"
  using GetImportDefinition_found [of "nn_blueprintImports p" name]
  by (auto simp: checkStateForParentImport_def split: sum.splits if_splits)

lemma sibling_export_ok:
  assumes "still_reads (vl_client v)" and "fst (checkStateForSiblingExport v fuel path ref name isExporting w) = Some (Done ())"
  shows "\<exists>s \<in> set (vl_siblings v). ReferenceIsObject ref (in_meta s) \<and> isExporting s name
    \<and> ins_phase (in_status s) = PhSucceeded \<and> ready (vl_env v) (vl_client v) (vl_contextName v) w s"
proof -
  from assms(2) obtain s where s: "getSiblingForObjectReference v ref = Some s"
    by (auto simp: checkStateForSiblingExport_def split: option.splits)
  with assms(2) have e: "isExporting s name" "ins_phase (in_status s) = PhSucceeded"
    by (auto simp: checkStateForSiblingExport_def split: if_splits)
  with assms(2) s have "fst (CheckCompletedSiblingDependents (vl_env v) (vl_client v) (vl_contextName v) fuel s w) = Some (Done True)"
    by (auto simp: checkStateForSiblingExport_def case_prod_beta split: if_splits option.splits outcome.splits)
  then have "ready (vl_env v) (vl_client v) (vl_contextName v) w s" by (rule check_sound [OF assms(1)])
  with e s show ?thesis by (auto simp: getSiblingForObjectReference_def find_Some_iff)
qed

lemma source_check_ok:
  assumes "still_reads (vl_client v)"
    and "ReferenceIsObject ref (in_meta (vl_inst v))
       \<or> (\<exists>p. is_parent v ref = Some p \<and> checkStateForParentImport p path name = None)
       \<or> fst (checkStateForSiblingExport v fuel path ref name isExporting w) = Some (Done ())"
  shows "source_fulfils v isExporting name w ref"
  using assms(2)
proof (elim disjE exE conjE)
  fix p assume p: "is_parent v ref = Some p" "checkStateForParentImport p path name = None"
  then show ?thesis using parent_import_ok [OF p(2)]
    by (auto simp: source_fulfils_def is_parent_def split: option.splits if_splits)
qed (use sibling_export_ok [OF assms(1)] in \<open>auto simp: source_fulfils_def\<close>)

lemma data_satisfied_source:
  assumes "still_reads (vl_client v)" and "fst (checkDataImportIsSatisfied v fuel i imp w) = Some (Done ())"
  shows "\<exists>d owner. fst (GetDataImport (vl_env v) (vl_client v) (vl_contextName v) (in_ns (ib_info i)) imp w) = Done (d, owner)
    \<and> (\<forall>ref. installation_owner (in_ns (ib_info i)) owner = Some ref \<longrightarrow> source_fulfils v IsExportingData (im_dataRef imp) w ref)"
proof (cases "fst (GetDataImport (vl_env v) (vl_client v) (vl_contextName v) (in_ns (ib_info i)) imp w)")
  case (Done p)
  obtain d owner where p: "p = (d, owner)" by (cases p)
  have "source_fulfils v IsExportingData (im_dataRef imp) w ref" if ref: "installation_owner (in_ns (ib_info i)) owner = Some ref" for ref
  proof (rule source_check_ok [OF assms(1), of _ "imp_path (ib_info i) (im_name imp)" _ fuel])
    from assms(2) Done p ref show "ReferenceIsObject ref (in_meta (vl_inst v))
       \<or> (\<exists>p. is_parent v ref = Some p \<and> checkStateForParentImport p (imp_path (ib_info i) (im_name imp)) (im_dataRef imp) = None)
       \<or> fst (checkStateForSiblingExport v fuel (imp_path (ib_info i) (im_name imp)) ref (im_dataRef imp) IsExportingData w) = Some (Done ())"
      by (auto simp: checkDataImportIsSatisfied_def Let_def case_prod_beta GetDataImport_still [OF assms(1)]
          checkStateForSiblingDataExport_def split: if_splits option.splits)
  qed
  with Done p show ?thesis by blast
qed (use assms(2) in \<open>simp_all add: checkDataImportIsSatisfied_def Let_def case_prod_beta\<close>)

lemma target_satisfied_source:
  assumes "still_reads (vl_client v)" and "fst (checkTargetImportIsSatisfied v fuel i imp w) = Some (Done ())"
  shows "\<exists>ts names. fst (GetTargets (vl_env v) (vl_client v) (vl_contextName v) (in_ns (ib_info i)) imp w) = Inr (ts, names)
    \<and> (\<forall>j < length ts. \<forall>ref. installation_owner (in_ns (ib_info i)) (mt_owner (ts ! j)) = Some ref \<longrightarrow>
         source_fulfils v IsExportingTarget (reference_at names j) w ref)"
proof (cases "fst (GetTargets (vl_env v) (vl_client v) (vl_contextName v) (in_ns (ib_info i)) imp w)")
  case (Inr p)
  let ?path = "imp_path (ib_info i) (ti_name imp)"
  obtain ts names where p: "p = (ts, names)" by (cases p)
  from assms(2) Inr p have "fst (check_targets v fuel i ?path names 0 ts [] w) = Some (Done [])"
    by (auto simp: checkTargetImportIsSatisfied_def case_prod_beta GetTargets_still [OF assms(1)]
        split: if_splits option.splits outcome.splits)
  from check_targets_no_errors [OF assms(1) this]
  have all: "\<forall>j < length ts. fst (check_target v fuel i ?path (reference_at names j) (ts ! j) w) = Some (Done ())" by simp
  have "source_fulfils v IsExportingTarget (reference_at names j) w ref"
    if j: "j < length ts" "installation_owner (in_ns (ib_info i)) (mt_owner (ts ! j)) = Some ref" for j ref
  proof (rule source_check_ok [OF assms(1), of _ ?path _ fuel])
    from all j(1) have "fst (check_target v fuel i ?path (reference_at names j) (ts ! j) w) = Some (Done ())" by blast
    with j(2) show "ReferenceIsObject ref (in_meta (vl_inst v))
       \<or> (\<exists>p. is_parent v ref = Some p \<and> checkStateForParentImport p ?path (reference_at names j) = None)
       \<or> fst (checkStateForSiblingExport v fuel ?path ref (reference_at names j) IsExportingTarget w) = Some (Done ())"
      by (auto simp: check_target_def checkStateForSiblingTargetExport_def split: if_splits option.splits)
  qed
  with Inr p show ?thesis by blast
qed (use assms(2) in \<open>simp_all add: checkTargetImportIsSatisfied_def case_prod_beta\<close>)

lemma ImportsSatisfied_Done:
  assumes "still_reads (vl_client v)"
  shows "fst (ImportsSatisfied v fuel i w) = Some (Done ()) \<longleftrightarrow>
    (\<forall>imp \<in> set (ii_data (in_imports (in_spec (ib_info i)))). fst (checkDataImportIsSatisfied v fuel i imp w) = Some (Done ()))
    \<and> (\<forall>imp \<in> set (ii_targets (in_imports (in_spec (ib_info i)))). fst (checkTargetImportIsSatisfied v fuel i imp w) = Some (Done ()))"
proof -
  let ?imports = "in_imports (in_spec (ib_info i))"
  let ?d = "all_satisfied (checkDataImportIsSatisfied v fuel i) (ii_data ?imports) w"
  let ?t = "all_satisfied (checkTargetImportIsSatisfied v fuel i) (ii_targets ?imports) w"
  have "snd ?d = w" by (rule all_satisfied_still) (rule data_satisfied_still [OF assms])
  then have "fst (ImportsSatisfied v fuel i w) = Some (Done ()) \<longleftrightarrow> fst ?d = Some (Done ()) \<and> fst ?t = Some (Done ())"
    by (simp add: ImportsSatisfied_def Let_def case_prod_beta split: option.split outcome.split)
  then show ?thesis
    unfolding all_satisfied_Done [of "checkDataImportIsSatisfied v fuel i", OF data_satisfied_still [OF assms]]
      all_satisfied_Done [of "checkTargetImportIsSatisfied v fuel i", OF target_satisfied_still [OF assms]] .
qed

text \<open>
  C22: imports that the validator calls satisfied have good sources. Let reads leave the cluster as it is. If all imports are
  satisfied, then every import can be read, and every imported object that an installation owns is owned by the importing
  installation itself, by the parent, which is progressing and whose blueprint has an import of that name at some level, or by a
  sibling that exports that name, has succeeded and is ready. An object that no installation owns is accepted
  as it is.
\<close>

theorem satisfied_imports_have_good_sources:
  assumes "still_reads (vl_client v)" and "fst (ImportsSatisfied v fuel i w) = Some (Done ())"
  shows "(\<forall>imp \<in> set (ii_data (in_imports (in_spec (ib_info i)))).
      \<exists>d owner. fst (GetDataImport (vl_env v) (vl_client v) (vl_contextName v) (in_ns (ib_info i)) imp w) = Done (d, owner)
        \<and> (\<forall>ref. installation_owner (in_ns (ib_info i)) owner = Some ref \<longrightarrow> source_fulfils v IsExportingData (im_dataRef imp) w ref))
    \<and> (\<forall>imp \<in> set (ii_targets (in_imports (in_spec (ib_info i)))).
      \<exists>ts names. fst (GetTargets (vl_env v) (vl_client v) (vl_contextName v) (in_ns (ib_info i)) imp w) = Inr (ts, names)
        \<and> (\<forall>j < length ts. \<forall>ref. installation_owner (in_ns (ib_info i)) (mt_owner (ts ! j)) = Some ref \<longrightarrow>
             source_fulfils v IsExportingTarget (reference_at names j) w ref))"
  using assms(2) unfolding ImportsSatisfied_Done [OF assms(1)]
  using data_satisfied_source [OF assms(1)] target_satisfied_source [OF assms(1)] by meson

section \<open>Example\<close>

definition chain_validator :: "(cluster, string) validator" where
  "chain_validator = \<lparr>vl_env = example_inst_env, vl_client = example_client, vl_contextName = [], vl_inst = app_inst,
     vl_parent = None, vl_siblings = [base_inst], vl_aggregate = (\<lambda>es. hd es)\<rparr>"

lemma satisfied_imports_have_good_sources_witness:
  "source_fulfils chain_validator IsExportingData ''a'' chain_cluster (ObjectKey ''base'' ''ns'')"
proof -
  let ?i = "newInstallationBase app_inst"
  have s: "still_reads (vl_client chain_validator)" by (simp add: chain_validator_def example_still_reads)
  have d: "fst (ImportsSatisfied chain_validator 1 ?i chain_cluster) = Some (Done ())" by code_simp
  obtain imp where imp: "ii_data (in_imports (in_spec (ib_info ?i))) = [imp]" "im_dataRef imp = ''a''"
    by (simp add: newInstallationBase_def app_inst_def example_installation_def)
  obtain v owner where g: "fst (GetDataImport (vl_env chain_validator) (vl_client chain_validator) (vl_contextName chain_validator)
      (in_ns (ib_info ?i)) imp chain_cluster) = Done (v, owner)"
    and f: "\<forall>ref. installation_owner (in_ns (ib_info ?i)) owner = Some ref \<longrightarrow>
      source_fulfils chain_validator IsExportingData (im_dataRef imp) chain_cluster ref"
    using satisfied_imports_have_good_sources [OF s d] imp(1) by auto
  have "map_outcome (\<lambda>p. installation_owner (in_ns (ib_info ?i)) (snd p)) (fst (GetDataImport (vl_env chain_validator) (vl_client chain_validator)
      (vl_contextName chain_validator) (in_ns (ib_info ?i)) (hd (ii_data (in_imports (in_spec (ib_info ?i))))) chain_cluster))
      = Done (Some (ObjectKey ''base'' ''ns''))"
    by code_simp
  with g imp(1) have "installation_owner (in_ns (ib_info ?i)) owner = Some (ObjectKey ''base'' ''ns'')" by simp
  with f imp(2) show ?thesis by simp
qed

end
