(* ===== verification/ImportReading.thy ===== *)
theory ImportReading
  imports ImportValidation
begin

text \<open>
  Reading the imported data objects, targets and target lists and recording their states
  (\<open>pkg/landscaper/installations/operation.go\<close>), and the agreement of the recorded states with the
  check for outdated imports.
\<close>

section \<open>Reading the imports (operation.go)\<close>

text \<open>
  The generation of an imported object: the configuration generation of the installation that owns it,
  or else a generation of the object itself. The source comes with it.
\<close>

definition config_generation ::
    "'w kube_client \<Rightarrow> string \<Rightarrow> string \<Rightarrow> owner_reference option \<Rightarrow> string \<Rightarrow> 'w
      \<Rightarrow> (gerr + object_reference option \<times> string) \<times> 'w" where
  "config_generation c ns name owner own w =
     (case installation_owner ns owner of
        None \<Rightarrow> (Inr (None, own), w)
      | Some ref \<Rightarrow>
          (case rc_get (kc_installations c) ref w of
             (Inl e, w1) \<Rightarrow>
               (Inl (wrap (''unable to get source installation '' @ quote_text (key_string ref) @ '' for import '' @ quote_text name) e), w1)
           | (Inr src, w1) \<Rightarrow> (Inr (Some ref, ins_configGeneration (in_status src)), w1)))"

definition import_state :: "string \<Rightarrow> import_status_type \<Rightarrow> object_reference option \<Rightarrow> string \<Rightarrow> import_status" where
  "import_state name ty source configGen =
     \<lparr>is_name = name, is_type = ty, is_target = [], is_targets = [], is_componentDescriptorRef = None,
      is_componentDescriptors = [], is_dataRef = [], is_secretRef = [], is_configMapRef = [], is_sourceRef = source,
      is_configGeneration = configGen\<rparr>"

definition data_import_state :: "data_import \<Rightarrow> object_reference option \<Rightarrow> string \<Rightarrow> import_status" where
  "data_import_state def source configGen =
     (let st = (import_state (im_name def) DataImportStatusType source configGen)\<lparr>is_dataRef := im_dataRef def\<rparr>
      in if im_dataRef def \<noteq> [] then st
         else case im_secretRef def of
                Some r \<Rightarrow> st\<lparr>is_secretRef := key_string (sr_ref r) @ ''#'' @ sr_key r\<rparr>
              | None \<Rightarrow> (case im_configMapRef def of
                          Some r \<Rightarrow> st\<lparr>is_configMapRef := key_string (cm_ref r) @ ''#'' @ cm_key r\<rparr>
                        | None \<Rightarrow> st))"

text \<open>The imports of one kind: each is read, kept under its name, and its state is recorded.\<close>

fun read_imports ::
    "('i \<Rightarrow> string) \<Rightarrow> ('i \<Rightarrow> 'w \<Rightarrow> ('a \<times> import_status) outcome \<times> 'w) \<Rightarrow> 'i list \<Rightarrow> (string \<times> 'a) list \<Rightarrow> import_table \<Rightarrow> 'w
      \<Rightarrow> (string \<times> 'a) list outcome \<times> import_table \<times> 'w" where
  "read_imports name_of read [] found table w = (Done found, table, w)"
| "read_imports name_of read (def # defs) found table w =
     (case read def w of
        (Panic, w1) \<Rightarrow> (Panic, table, w1)
      | (Fail e, w1) \<Rightarrow> (Fail e, table, w1)
      | (Done (x, st), w1) \<Rightarrow>
          read_imports name_of read defs (AList.update (name_of def) x found) (set_state table st) w1)"

definition read_data ::
    "'j inst_env \<Rightarrow> 'w kube_client \<Rightarrow> string \<Rightarrow> string \<Rightarrow> data_import \<Rightarrow> 'w
      \<Rightarrow> ('j imported_data \<times> import_status) outcome \<times> 'w" where
  "read_data env c contextName ns def w =
     (case GetDataImport env c contextName ns def w of
        (Panic, w1) \<Rightarrow> (Panic, w1)
      | (Fail e, w1) \<Rightarrow> (Fail e, w1)
      | (Done (d, owner), w1) \<Rightarrow>
          (case config_generation c ns (im_name def) (GetOwner (do_meta (mp_raw d))) (md_hash (mp_metadata d)) w1 of
             (Inl e, w2) \<Rightarrow> (Fail e, w2)
           | (Inr (source, configGen), w2) \<Rightarrow> (Done (d, data_import_state def source configGen), w2)))"

definition GetImportedDataObjects ::
    "'j inst_env \<Rightarrow> 'w kube_client \<Rightarrow> string \<Rightarrow> installation_base \<Rightarrow> 'w
      \<Rightarrow> (string \<times> 'j imported_data) list outcome \<times> installation_base \<times> 'w" where
  "GetImportedDataObjects env c contextName i w =
     (case read_imports im_name (read_data env c contextName (in_ns (ib_info i))) (ii_data (in_imports (in_spec (ib_info i)))) []
             (ib_importsStatus i) w of
        (r, table, w1) \<Rightarrow> (r, i\<lparr>ib_importsStatus := table\<rparr>, w1))"

definition read_target ::
    "'j inst_env \<Rightarrow> 'w kube_client \<Rightarrow> string \<Rightarrow> string \<Rightarrow> target_import \<Rightarrow> 'w
      \<Rightarrow> (imported_target \<times> import_status) outcome \<times> 'w" where
  "read_target env c contextName ns def w =
     (case GetTargetImport env c contextName ns (ti_target def) w of
        (Inl e, w1) \<Rightarrow> (Fail e, w1)
      | (Inr t, w1) \<Rightarrow>
          (case config_generation c ns (ti_name def) (GetOwner (tg_meta (mt_raw t))) (show_int (om_generation (tg_meta (mt_raw t)))) w1 of
             (Inl e, w2) \<Rightarrow> (Fail e, w2)
           | (Inr (source, configGen), w2) \<Rightarrow>
               (Done (t, (import_state (ti_name def) TargetImportStatusType source configGen)\<lparr>is_target := ti_target def\<rparr>), w2)))"

definition GetImportedTargets ::
    "'j inst_env \<Rightarrow> 'w kube_client \<Rightarrow> string \<Rightarrow> installation_base \<Rightarrow> 'w
      \<Rightarrow> (string \<times> imported_target) list outcome \<times> installation_base \<times> 'w" where
  "GetImportedTargets env c contextName i w =
     (case read_imports ti_name (read_target env c contextName (in_ns (ib_info i)))
             (filter (\<lambda>def. ti_target def \<noteq> []) (ii_targets (in_imports (in_spec (ib_info i))))) [] (ib_importsStatus i) w of
        (r, table, w1) \<Rightarrow> (r, i\<lparr>ib_importsStatus := table\<rparr>, w1))"

definition fetch_target_list ::
    "'j inst_env \<Rightarrow> 'w kube_client \<Rightarrow> string \<Rightarrow> string \<Rightarrow> target_import \<Rightarrow> 'w \<Rightarrow> (gerr + imported_target list) \<times> 'w" where
  "fetch_target_list env c contextName ns def w =
     (case ti_targets def of
        Some names \<Rightarrow> GetTargetListImportByNames env c contextName ns names w
      | None \<Rightarrow>
          if ti_targetListReference def \<noteq> []
          then GetTargetListImportBySelector env c contextName ns [(DataObjectKeyLabel, ti_targetListReference def)] True w
          else (Inl (PlainError (''invalid target definition '' @ quote_text (ti_name def)
                 @ '': none of target, targets and targetListRef is defined'')), w))"

fun target_states ::
    "'w kube_client \<Rightarrow> string \<Rightarrow> string \<Rightarrow> imported_target list \<Rightarrow> 'w \<Rightarrow> (gerr + target_import_status list) \<times> 'w" where
  "target_states c ns name [] w = (Inr [], w)"
| "target_states c ns name (t # ts) w =
     (case config_generation c ns name (GetOwner (tg_meta (mt_raw t))) (show_int (om_generation (tg_meta (mt_raw t)))) w of
        (Inl e, w1) \<Rightarrow> (Inl e, w1)
      | (Inr (source, configGen), w1) \<Rightarrow>
          (case target_states c ns name ts w1 of
             (Inl e, w2) \<Rightarrow> (Inl e, w2)
           | (Inr sts, w2) \<Rightarrow>
               (Inr (\<lparr>ts_target = om_name (tg_meta (mt_raw t)), ts_sourceRef = source, ts_configGeneration = configGen\<rparr> # sts), w2)))"

definition read_target_list ::
    "'j inst_env \<Rightarrow> 'w kube_client \<Rightarrow> string \<Rightarrow> string \<Rightarrow> target_import \<Rightarrow> 'w
      \<Rightarrow> (imported_target list \<times> import_status) outcome \<times> 'w" where
  "read_target_list env c contextName ns def w =
     (case fetch_target_list env c contextName ns def w of
        (Inl e, w1) \<Rightarrow> (Fail e, w1)
      | (Inr ts, w1) \<Rightarrow>
          (case target_states c ns (ti_name def) ts w1 of
             (Inl e, w2) \<Rightarrow> (Fail e, w2)
           | (Inr sts, w2) \<Rightarrow>
               (Done (ts, (import_state (ti_name def) TargetListImportStatusType None [])\<lparr>is_targets := sts\<rparr>), w2)))"

definition GetImportedTargetLists ::
    "'j inst_env \<Rightarrow> 'w kube_client \<Rightarrow> string \<Rightarrow> installation_base \<Rightarrow> 'w
      \<Rightarrow> (string \<times> imported_target list) list outcome \<times> installation_base \<times> 'w" where
  "GetImportedTargetLists env c contextName i w =
     (case read_imports ti_name (read_target_list env c contextName (in_ns (ib_info i)))
             (filter (\<lambda>def. ti_target def = []) (ii_targets (in_imports (in_spec (ib_info i))))) [] (ib_importsStatus i) w of
        (r, table, w1) \<Rightarrow> (r, i\<lparr>ib_importsStatus := table\<rparr>, w1))"

text \<open>The order of \<open>Construct\<close>: data, targets, target lists.\<close>

definition read_all_imports ::
    "'j inst_env \<Rightarrow> 'w kube_client \<Rightarrow> string \<Rightarrow> installation_base \<Rightarrow> 'w
      \<Rightarrow> ((string \<times> 'j imported_data) list \<times> (string \<times> imported_target) list \<times> (string \<times> imported_target list) list) outcome
        \<times> installation_base \<times> 'w" where
  "read_all_imports env c contextName i w =
     (case GetImportedDataObjects env c contextName i w of
        (Panic, i1, w1) \<Rightarrow> (Panic, i1, w1)
      | (Fail e, i1, w1) \<Rightarrow> (Fail e, i1, w1)
      | (Done data, i1, w1) \<Rightarrow>
          (case GetImportedTargets env c contextName i1 w1 of
             (Panic, i2, w2) \<Rightarrow> (Panic, i2, w2)
           | (Fail e, i2, w2) \<Rightarrow> (Fail e, i2, w2)
           | (Done targets, i2, w2) \<Rightarrow>
               (case GetImportedTargetLists env c contextName i2 w2 of
                  (Panic, i3, w3) \<Rightarrow> (Panic, i3, w3)
                | (Fail e, i3, w3) \<Rightarrow> (Fail e, i3, w3)
                | (Done targetLists, i3, w3) \<Rightarrow> (Done (data, targets, targetLists), i3, w3))))"

section \<open>Imports that have been read are up to date\<close>

lemma config_generation_still: "still_reads c \<Longrightarrow> snd (config_generation c ns name owner own w) = w"
  by (simp add: config_generation_def case_prod_beta still_snd split: option.split sum.split)

lemma read_data_still: "still_reads c \<Longrightarrow> snd (read_data env c cn ns def w) = w"
  by (simp add: read_data_def case_prod_beta GetDataImport_still config_generation_still split: outcome.split sum.split)

lemma GetTargetImport_still: "still_reads c \<Longrightarrow> snd (GetTargetImport env c cn ns n w) = w"
  by (simp add: GetTargetImport_def case_prod_beta still_snd split: sum.split)

lemma read_target_still: "still_reads c \<Longrightarrow> snd (read_target env c cn ns def w) = w"
  by (simp add: read_target_def case_prod_beta GetTargetImport_still config_generation_still split: sum.split)

lemma target_states_still: "still_reads c \<Longrightarrow> snd (target_states c ns name ts w) = w"
  by (induction ts) (simp_all add: case_prod_beta config_generation_still split: sum.split)

lemma fetch_target_list_still: "still_reads c \<Longrightarrow> snd (fetch_target_list env c cn ns def w) = w"
  by (simp add: fetch_target_list_def GetTargetListImportByNames_def GetTargetListImportBySelector_def case_prod_beta
      fetch_targets_still still_snd split: option.split sum.split)

lemma read_target_list_still: "still_reads c \<Longrightarrow> snd (read_target_list env c cn ns def w) = w"
  by (simp add: read_target_list_def case_prod_beta fetch_target_list_still target_states_still split: sum.split)

text \<open>All states are set, one after the other.\<close>

definition read_state :: "('i \<Rightarrow> 'w \<Rightarrow> ('a \<times> import_status) outcome \<times> 'w) \<Rightarrow> 'w \<Rightarrow> 'i \<Rightarrow> import_status option" where
  "read_state read w def = (case fst (read def w) of Done (x, st) \<Rightarrow> Some st | _ \<Rightarrow> None)"

lemma read_imports_table:
  assumes "\<And>def w. snd (read def w) = w"
  shows "read_imports name_of read defs found table w = (Done r, table', w') \<Longrightarrow>
    w' = w \<and> (\<forall>def \<in> set defs. read_state read w def \<noteq> None)
    \<and> table' = foldl set_state table (map (\<lambda>def. the (read_state read w def)) defs)"
proof (induction defs arbitrary: found table)
  case (Cons def defs)
  obtain x st where d: "read def w = (Done (x, st), w)"
    using Cons.prems assms [of def w] by (cases "read def w") (auto split: outcome.splits prod.splits)
  with Cons.prems have "read_imports name_of read defs (AList.update (name_of def) x found) (set_state table st) w = (Done r, table', w')"
    by simp
  from Cons.IH [OF this] d show ?case by (simp add: read_state_def)
qed simp

lemma set_states_data:
  assumes "\<forall>st \<in> set sts. is_type st \<noteq> DataImportStatusType"
  shows "GetData (foldl set_state table sts) n = GetData table n"
  using assms
  by (induction sts arbitrary: table)
    (auto simp: GetData_def set_state_def Let_def)

lemma set_states_data_found:
  assumes "\<forall>st \<in> set sts. is_type st = DataImportStatusType" "distinct (map is_name sts)" "st \<in> set sts"
  shows "GetData (foldl set_state table sts) (is_name st) = Inr st"
  using assms
proof (induction sts arbitrary: table)
  case (Cons s sts)
  have other: "GetData (foldl set_state t sts) n = GetData t n"
    if "n \<notin> is_name ` set sts" "\<forall>st \<in> set sts. is_type st = DataImportStatusType" for t n
    using that by (induction sts arbitrary: t) (auto simp: data_state_set)
  from Cons show ?case by (cases "st = s") (auto simp: other data_state_set)
qed simp

lemma set_states_target:
  assumes "\<forall>st \<in> set sts. is_type st = TargetImportStatusType \<or> is_type st = TargetListImportStatusType" "n \<notin> is_name ` set sts"
  shows "GetTarget (foldl set_state table sts) n = GetTarget table n"
  using assms by (induction sts arbitrary: table) (auto simp: target_state_set)

lemma set_states_target_found:
  assumes "\<forall>st \<in> set sts. is_type st = TargetImportStatusType \<or> is_type st = TargetListImportStatusType"
    "distinct (map is_name sts)" "st \<in> set sts"
  shows "GetTarget (foldl set_state table sts) (is_name st) = Inr st"
  using assms
proof (induction sts arbitrary: table)
  case (Cons s sts)
  then show ?case by (cases "st = s") (auto simp: set_states_target target_state_set)
qed simp

subsection \<open>What the recorded states say\<close>

lemma config_generation_cases:
  assumes "fst (config_generation c ns name owner own w) = Inr (source, g)"
  shows "(installation_owner ns owner = None \<and> g = own)
    \<or> (\<exists>ref src. installation_owner ns owner = Some ref \<and> fst (rc_get (kc_installations c) ref w) = Inr src
         \<and> g = ins_configGeneration (in_status src))"
  using assms by (auto simp: config_generation_def case_prod_beta split: option.splits sum.splits)

lemma GetDataImport_owner:
  "fst (GetDataImport env c cn ns imp w) = Done (d, owner) \<Longrightarrow> owner = GetOwner (do_meta (mp_raw d))"
  by (auto simp: GetDataImport_def NewFromDataObject_def case_prod_beta split: sum.splits option.splits)

lemma read_data_state:
  assumes "still_reads c" and "read_state (read_data env c cn ns) w imp = Some st"
  shows "is_name st = im_name imp \<and> is_type st = DataImportStatusType
    \<and> (\<exists>d owner source. fst (GetDataImport env c cn ns imp w) = Done (d, owner)
        \<and> fst (config_generation c ns (im_name imp) owner (md_hash (mp_metadata d)) w) = Inr (source, is_configGeneration st))"
proof -
  from assms(2) obtain d owner where g: "fst (GetDataImport env c cn ns imp w) = Done (d, owner)"
    by (auto simp: read_state_def read_data_def case_prod_beta split: outcome.splits)
  with assms obtain source g where "fst (config_generation c ns (im_name imp) (GetOwner (do_meta (mp_raw d))) (md_hash (mp_metadata d)) w) = Inr (source, g)"
    "st = data_import_state imp source g"
    by (auto simp: read_state_def read_data_def case_prod_beta GetDataImport_still split: sum.splits)
  with g GetDataImport_owner [OF g] show ?thesis
    by (auto simp: data_import_state_def import_state_def Let_def split: option.splits)
qed

lemma data_read_not_outdated:
  assumes "still_reads (vl_client v)"
    and "read_state (read_data (vl_env v) (vl_client v) (vl_contextName v) (in_ns (ib_info i))) w imp = Some st"
    and "GetData (ib_importsStatus i) (im_name imp) = Inr st"
  shows "fst (checkDataImportIsOutdated v i imp w) = Done False"
proof -
  from read_data_state [OF assms(1,2)] obtain d owner source
    where d: "fst (GetDataImport (vl_env v) (vl_client v) (vl_contextName v) (in_ns (ib_info i)) imp w) = Done (d, owner)"
      and g: "fst (config_generation (vl_client v) (in_ns (ib_info i)) (im_name imp) owner (md_hash (mp_metadata d)) w)
        = Inr (source, is_configGeneration st)" by blast
  show ?thesis
    using config_generation_cases [OF g] d assms(3)
    by (auto simp: checkDataImportIsOutdated_def Let_def case_prod_beta GetDataImport_still [OF assms(1)] get_source_def
        get_source_still [OF assms(1)])
qed

lemma target_owner: "fst (GetTargetImport env c cn ns n w) = Inr t \<Longrightarrow> mt_owner t = GetOwner (tg_meta (mt_raw t))"
  by (auto simp: GetTargetImport_def NewFromTarget_def case_prod_beta split: sum.splits)

lemma target_not_outdated:
  assumes "still_reads (vl_client v)" and "GetTarget (ib_importsStatus i) (ti_name imp) = Inr st"
    and "target_generation imp st t = Inr g" and "mt_owner t = GetOwner (tg_meta (mt_raw t))"
    and "fst (config_generation (vl_client v) (in_ns (ib_info i)) (ti_name imp) (GetOwner (tg_meta (mt_raw t)))
      (show_int (om_generation (tg_meta (mt_raw t)))) w) = Inr (source, g)"
  shows "targets_outdated v i imp (t # ts) w = targets_outdated v i imp ts w"
  using config_generation_cases [OF assms(5)] assms(2-4)
  by (auto simp: get_source_def case_prod_beta still_snd [OF assms(1)])

lemma read_target_state:
  assumes "still_reads c" and "read_state (read_target env c cn ns) w imp = Some st"
  shows "is_name st = ti_name imp \<and> is_type st = TargetImportStatusType
    \<and> (\<exists>t source. fst (GetTargetImport env c cn ns (ti_target imp) w) = Inr t
        \<and> fst (config_generation c ns (ti_name imp) (GetOwner (tg_meta (mt_raw t))) (show_int (om_generation (tg_meta (mt_raw t)))) w)
          = Inr (source, is_configGeneration st))"
proof -
  from assms(2) obtain t where t: "fst (GetTargetImport env c cn ns (ti_target imp) w) = Inr t"
    by (auto simp: read_state_def read_target_def case_prod_beta split: sum.splits)
  with assms show ?thesis
    by (auto simp: read_state_def read_target_def case_prod_beta GetTargetImport_still import_state_def split: sum.splits)
qed

lemma single_target_not_outdated:
  assumes "still_reads (vl_client v)" and "ti_target imp \<noteq> []"
    and "read_state (read_target (vl_env v) (vl_client v) (vl_contextName v) (in_ns (ib_info i))) w imp = Some st"
    and "GetTarget (ib_importsStatus i) (ti_name imp) = Inr st"
  shows "fst (checkTargetImportIsOutdated v i imp w) = Done False"
proof -
  from read_target_state [OF assms(1,3)] obtain t source
    where t: "fst (GetTargetImport (vl_env v) (vl_client v) (vl_contextName v) (in_ns (ib_info i)) (ti_target imp) w) = Inr t"
      and g: "fst (config_generation (vl_client v) (in_ns (ib_info i)) (ti_name imp) (GetOwner (tg_meta (mt_raw t)))
        (show_int (om_generation (tg_meta (mt_raw t)))) w) = Inr (source, is_configGeneration st)" by blast
  have "target_generation imp st t = Inr (is_configGeneration st)" using assms(2) by (simp add: target_generation_def)
  from target_not_outdated [where ts = "[]", OF assms(1,4) this target_owner [OF t] g] t assms(2)
  show ?thesis
    by (simp add: checkTargetImportIsOutdated_def GetTargets_def case_prod_beta GetTargetImport_still [OF assms(1)])
qed

definition one_per_name :: "imported_target list \<Rightarrow> bool" where
  "one_per_name ts \<longleftrightarrow>
     (\<forall>s \<in> set ts. \<forall>t \<in> set ts. om_name (tg_meta (mt_raw s)) = om_name (tg_meta (mt_raw t)) \<longrightarrow> s = t)"

lemma target_states_found:
  assumes "still_reads c"
  shows "fst (target_states c ns name ts w) = Inr sts \<Longrightarrow> t \<in> set ts \<Longrightarrow> one_per_name ts \<Longrightarrow>
    \<exists>e source. List.find (\<lambda>e. om_name (tg_meta (mt_raw t)) = ts_target e) sts = Some e
      \<and> fst (config_generation c ns name (GetOwner (tg_meta (mt_raw t))) (show_int (om_generation (tg_meta (mt_raw t)))) w)
        = Inr (source, ts_configGeneration e)"
proof (induction ts arbitrary: sts)
  case (Cons s ts)
  from Cons.prems(1) obtain source g where g: "fst (config_generation c ns name (GetOwner (tg_meta (mt_raw s)))
      (show_int (om_generation (tg_meta (mt_raw s)))) w) = Inr (source, g)"
    by (auto simp: case_prod_beta split: sum.splits)
  with Cons.prems(1) obtain sts' where sts': "fst (target_states c ns name ts w) = Inr sts'"
    "sts = \<lparr>ts_target = om_name (tg_meta (mt_raw s)), ts_sourceRef = source, ts_configGeneration = g\<rparr> # sts'"
    by (auto simp: case_prod_beta config_generation_still [OF assms] split: sum.splits)
  show ?case
  proof (cases "om_name (tg_meta (mt_raw t)) = om_name (tg_meta (mt_raw s))")
    case True
    with Cons.prems(2,3) have "t = s" unfolding one_per_name_def by (meson list.set_intros(1))
    with g sts'(2) show ?thesis by simp
  next
    case False
    with Cons.prems have "t \<in> set ts" "one_per_name ts" by (auto simp: one_per_name_def)
    from Cons.IH [OF sts'(1) this] False sts'(2) show ?thesis by simp
  qed
qed simp

lemma fetch_targets_length: "fst (fetch_targets env c cn ns names w) = Inr ts \<Longrightarrow> length ts = length names"
  by (induction names arbitrary: w ts) (auto simp: case_prod_beta split: sum.splits)

lemma fetch_target_list_GetTargets:
  assumes "fst (fetch_target_list env c cn ns imp w) = Inr ts" "ti_target imp = []"
  shows "\<exists>names. fst (GetTargets env c cn ns imp w) = Inr (ts, names)"
    and "t \<in> set ts \<Longrightarrow> mt_owner t = GetOwner (tg_meta (mt_raw t))"
  using assms
  by (auto simp: fetch_target_list_def GetTargets_def GetTargetListImportByNames_def GetTargetListImportBySelector_def
      NewFromTargetList_def NewFromTarget_def case_prod_beta fetch_targets_length
      split: option.splits sum.splits if_splits)

lemma read_target_list_state:
  assumes "still_reads c" and "read_state (read_target_list env c cn ns) w imp = Some st"
  shows "is_name st = ti_name imp \<and> is_type st = TargetListImportStatusType
    \<and> (\<exists>ts. fst (fetch_target_list env c cn ns imp w) = Inr ts \<and> fst (target_states c ns (ti_name imp) ts w) = Inr (is_targets st))"
proof -
  from assms(2) obtain ts where t: "fst (fetch_target_list env c cn ns imp w) = Inr ts"
    by (auto simp: read_state_def read_target_list_def case_prod_beta split: sum.splits)
  with assms show ?thesis
    by (auto simp: read_state_def read_target_list_def case_prod_beta fetch_target_list_still import_state_def split: sum.splits)
qed

lemma target_list_not_outdated:
  assumes "still_reads (vl_client v)" and "ti_target imp = []"
    and "read_state (read_target_list (vl_env v) (vl_client v) (vl_contextName v) (in_ns (ib_info i))) w imp = Some st"
    and "GetTarget (ib_importsStatus i) (ti_name imp) = Inr st"
    and "\<forall>ts. fst (fetch_target_list (vl_env v) (vl_client v) (vl_contextName v) (in_ns (ib_info i)) imp w) = Inr ts \<longrightarrow> one_per_name ts"
  shows "fst (checkTargetImportIsOutdated v i imp w) = Done False"
proof -
  from read_target_list_state [OF assms(1,3)] obtain ts
    where ts: "fst (fetch_target_list (vl_env v) (vl_client v) (vl_contextName v) (in_ns (ib_info i)) imp w) = Inr ts"
      and sts: "fst (target_states (vl_client v) (in_ns (ib_info i)) (ti_name imp) ts w) = Inr (is_targets st)" by blast
  have one: "one_per_name ts" using assms(5) ts by blast
  have "targets_outdated v i imp xs w = (Done False, w)" if "set xs \<subseteq> set ts" for xs
    using that
  proof (induction xs)
    case (Cons t xs)
    then have t: "t \<in> set ts" by simp
    from target_states_found [OF assms(1) sts t one] obtain e source
      where e: "List.find (\<lambda>e. om_name (tg_meta (mt_raw t)) = ts_target e) (is_targets st) = Some e"
        and g: "fst (config_generation (vl_client v) (in_ns (ib_info i)) (ti_name imp) (GetOwner (tg_meta (mt_raw t)))
          (show_int (om_generation (tg_meta (mt_raw t)))) w) = Inr (source, ts_configGeneration e)" by blast
    have "target_generation imp st t = Inr (ts_configGeneration e)" using assms(2) e by (simp add: target_generation_def)
    from target_not_outdated [OF assms(1,4) this fetch_target_list_GetTargets(2) [OF ts assms(2) t] g] Cons
    show ?case by simp
  qed simp
  moreover obtain names where "fst (GetTargets (vl_env v) (vl_client v) (vl_contextName v) (in_ns (ib_info i)) imp w) = Inr (ts, names)"
    using fetch_target_list_GetTargets(1) [OF ts assms(2)] by blast
  ultimately show ?thesis
    by (simp add: checkTargetImportIsOutdated_def case_prod_beta GetTargets_still [OF assms(1)])
qed

subsection \<open>All states together\<close>

lemma first_outdated_none:
  "(\<And>imp w. snd (check imp w) = w) \<Longrightarrow> \<forall>imp \<in> set imps. fst (check imp w) = Done False \<Longrightarrow> first_outdated check imps w = (Done False, w)"
  by (induction imps) (auto simp: case_prod_beta prod_eq_iff split: outcome.split bool.split)

lemma checkDataImportIsOutdated_still: "still_reads (vl_client v) \<Longrightarrow> snd (checkDataImportIsOutdated v i imp w) = w"
  by (simp add: checkDataImportIsOutdated_def Let_def case_prod_beta GetDataImport_still get_source_still
      split: outcome.split sum.split option.split)

lemma targets_outdated_still: "still_reads (vl_client v) \<Longrightarrow> snd (targets_outdated v i imp ts w) = w"
  by (induction ts) (simp_all add: case_prod_beta get_source_still split: outcome.split sum.split option.split)

lemma checkTargetImportIsOutdated_still: "still_reads (vl_client v) \<Longrightarrow> snd (checkTargetImportIsOutdated v i imp w) = w"
  by (simp add: checkTargetImportIsOutdated_def case_prod_beta GetTargets_still targets_outdated_still split: sum.split)

lemma states_of_read:
  assumes "\<forall>def \<in> set defs. read_state read w def \<noteq> None"
    and "\<And>def st. read_state read w def = Some st \<Longrightarrow> is_name st = name_of def \<and> is_type st = ty"
  shows "map is_name (map (\<lambda>def. the (read_state read w def)) defs) = map name_of defs"
    and "\<forall>st \<in> set (map (\<lambda>def. the (read_state read w def)) defs). is_type st = ty"
  using assms by (auto simp: list_all_iff)

text \<open>
  C25: reading the imports leaves none outdated. If an installation's imports of data, targets and target lists are all
  read and their states recorded, and the cluster does not change, then the check for outdated imports, run
  on these states, finds none; names of imports have to be different, and targets of a list with the same
  name have to be the same target.
\<close>

theorem read_imports_are_up_to_date:
  assumes still: "still_reads (vl_client v)"
    and read: "read_all_imports (vl_env v) (vl_client v) (vl_contextName v) i w = (Done r, i', w')"
    and names: "distinct (map im_name (ii_data (in_imports (in_spec (ib_info i)))))"
      "distinct (map ti_name (ii_targets (in_imports (in_spec (ib_info i)))))"
    and one: "\<forall>imp \<in> set (ii_targets (in_imports (in_spec (ib_info i)))). \<forall>ts.
      fst (fetch_target_list (vl_env v) (vl_client v) (vl_contextName v) (in_ns (ib_info i)) imp w) = Inr ts \<longrightarrow> one_per_name ts"
  shows "fst (OutdatedImports v i' w) = Done False"
proof -
  let ?c = "vl_client v" let ?ns = "in_ns (ib_info i)" let ?imports = "in_imports (in_spec (ib_info i))"
  let ?rd = "read_data (vl_env v) ?c (vl_contextName v) ?ns"
  let ?rt = "read_target (vl_env v) ?c (vl_contextName v) ?ns"
  let ?rl = "read_target_list (vl_env v) ?c (vl_contextName v) ?ns"
  let ?singles = "filter (\<lambda>def. ti_target def \<noteq> []) (ii_targets ?imports)"
  let ?lists = "filter (\<lambda>def. ti_target def = []) (ii_targets ?imports)"
  obtain data i1 w1 where d: "GetImportedDataObjects (vl_env v) ?c (vl_contextName v) i w = (Done data, i1, w1)"
    using read by (auto simp: read_all_imports_def split: prod.splits outcome.splits)
  then obtain t1 where t1: "read_imports im_name ?rd (ii_data ?imports) [] (ib_importsStatus i) w = (Done data, t1, w1)"
    "i1 = i\<lparr>ib_importsStatus := t1\<rparr>" by (auto simp: GetImportedDataObjects_def split: prod.splits)
  note table1 = read_imports_table [of ?rd, OF read_data_still [OF still] t1(1)]
  then have w1: "w1 = w" by blast
  obtain targets i2 w2 where t: "GetImportedTargets (vl_env v) ?c (vl_contextName v) i1 w = (Done targets, i2, w2)"
    using read d w1 by (auto simp: read_all_imports_def split: prod.splits outcome.splits)
  then obtain t2 where t2: "read_imports ti_name ?rt ?singles [] t1 w = (Done targets, t2, w2)"
    "i2 = i\<lparr>ib_importsStatus := t2\<rparr>" using t1(2) by (auto simp: GetImportedTargets_def split: prod.splits)
  note table2 = read_imports_table [of ?rt, OF read_target_still [OF still] t2(1)]
  then have w2: "w2 = w" by blast
  obtain targetLists where l: "GetImportedTargetLists (vl_env v) ?c (vl_contextName v) i2 w = (Done targetLists, i', w')"
    using read d w1 t w2 by (auto simp: read_all_imports_def split: prod.splits outcome.splits)
  then obtain t3 where t3: "read_imports ti_name ?rl ?lists [] t2 w = (Done targetLists, t3, w')"
    "i' = i\<lparr>ib_importsStatus := t3\<rparr>" using t2(2) by (auto simp: GetImportedTargetLists_def split: prod.splits)
  note table3 = read_imports_table [of ?rl, OF read_target_list_still [OF still] t3(1)]
  let ?sd = "map (\<lambda>def. the (read_state ?rd w def)) (ii_data ?imports)"
  let ?st = "map (\<lambda>def. the (read_state ?rt w def)) ?singles @ map (\<lambda>def. the (read_state ?rl w def)) ?lists"
  have t3_eq: "t3 = foldl set_state (foldl set_state (ib_importsStatus i) ?sd) ?st"
    using table1 table2 table3 by simp
  have sd: "map is_name ?sd = map im_name (ii_data ?imports)" "\<forall>st \<in> set ?sd. is_type st = DataImportStatusType"
    using states_of_read [of "ii_data ?imports" ?rd w im_name DataImportStatusType] table1 read_data_state [OF still] by blast+
  have ss: "map is_name (map (\<lambda>def. the (read_state ?rt w def)) ?singles) = map ti_name ?singles"
    "\<forall>st \<in> set (map (\<lambda>def. the (read_state ?rt w def)) ?singles). is_type st = TargetImportStatusType"
    using states_of_read [of ?singles ?rt w ti_name TargetImportStatusType] table2 read_target_state [OF still] by blast+
  have sl: "map is_name (map (\<lambda>def. the (read_state ?rl w def)) ?lists) = map ti_name ?lists"
    "\<forall>st \<in> set (map (\<lambda>def. the (read_state ?rl w def)) ?lists). is_type st = TargetListImportStatusType"
    using states_of_read [of ?lists ?rl w ti_name TargetListImportStatusType] table3 read_target_list_state [OF still] by blast+
  have st_types: "\<forall>st \<in> set ?st. is_type st = TargetImportStatusType \<or> is_type st = TargetListImportStatusType"
    using ss(2) sl(2) by auto
  have "inj_on ti_name (set (ii_targets ?imports))" using names(2) by (simp add: distinct_map)
  then have "distinct (map ti_name ?singles @ map ti_name ?lists)"
    using names(2) by (auto simp: distinct_map_filter dest: inj_onD)
  then have st_names: "distinct (map is_name ?st)" unfolding map_append ss(1) sl(1) by (simp only: map_append)
  have data_ok: "fst (checkDataImportIsOutdated v i' imp w) = Done False" if imp: "imp \<in> set (ii_data ?imports)" for imp
  proof -
    from table1 imp obtain st where st: "read_state ?rd w imp = Some st" by blast
    with imp have "st \<in> set ?sd" by force
    from set_states_data_found [OF sd(2) _ this] sd(1) names(1)
    have "GetData (foldl set_state (ib_importsStatus i) ?sd) (is_name st) = Inr st" by metis
    moreover have "GetData t3 n = GetData (foldl set_state (ib_importsStatus i) ?sd) n" for n
      unfolding t3_eq using st_types by (intro set_states_data) (metis import_status_type.distinct(1,3))
    ultimately have "GetData (ib_importsStatus i') (im_name imp) = Inr st"
      using read_data_state [OF still st] t3(2) by simp
    with data_read_not_outdated [OF still, of i' w imp st] st t3(2) show ?thesis by simp
  qed
  have target_state: "GetTarget (ib_importsStatus i') (is_name st) = Inr st" if "st \<in> set ?st" for st
    using set_states_target_found [OF st_types st_names that] t3(2) t3_eq by simp
  have target_ok: "fst (checkTargetImportIsOutdated v i' imp w) = Done False" if imp: "imp \<in> set (ii_targets ?imports)" for imp
  proof (cases "ti_target imp = []")
    case True
    with table3 imp obtain st where st: "read_state ?rl w imp = Some st" by auto
    with imp True have "st \<in> set ?st" by force
    from target_state [OF this] read_target_list_state [OF still st]
    have "GetTarget (ib_importsStatus i') (ti_name imp) = Inr st" by simp
    with target_list_not_outdated [OF still True, of i' w st] st one imp t3(2) show ?thesis by simp
  next
    case False
    with table2 imp obtain st where st: "read_state ?rt w imp = Some st" by auto
    with imp False have "st \<in> set ?st" by force
    from target_state [OF this] read_target_state [OF still st]
    have "GetTarget (ib_importsStatus i') (ti_name imp) = Inr st" by simp
    with single_target_not_outdated [OF still False, of i' w st] st t3(2) show ?thesis by simp
  qed
  have "first_outdated (checkDataImportIsOutdated v i') (ii_data ?imports) w = (Done False, w)"
    using data_ok by (intro first_outdated_none checkDataImportIsOutdated_still [OF still]) simp
  moreover have "first_outdated (checkTargetImportIsOutdated v i') (ii_targets ?imports) w = (Done False, w)"
    using target_ok by (intro first_outdated_none checkTargetImportIsOutdated_still [OF still]) simp
  ultimately show ?thesis using t3(2) by (simp add: OutdatedImports_def Let_def)
qed

lemma read_imports_are_up_to_date_witness:
  "\<exists>r i. read_all_imports example_inst_env example_client [] (newInstallationBase app_inst) chain_cluster = (Done r, i, chain_cluster)
     \<and> fst (OutdatedImports chain_validator i chain_cluster) = Done False"
proof -
  let ?r = "read_all_imports example_inst_env example_client [] (newInstallationBase app_inst) chain_cluster"
  have "(case fst ?r of Done r \<Rightarrow> True | _ \<Rightarrow> False) \<and> snd (snd ?r) = chain_cluster" by code_simp
  then obtain r i where r: "?r = (Done r, i, chain_cluster)"
    by (cases ?r) (auto split: outcome.splits)
  have v: "vl_env chain_validator = example_inst_env" "vl_client chain_validator = example_client" "vl_contextName chain_validator = []"
    by (simp_all add: chain_validator_def)
  have ims: "distinct (map im_name (ii_data (in_imports (in_spec (ib_info (newInstallationBase app_inst))))))"
    "ii_targets (in_imports (in_spec (ib_info (newInstallationBase app_inst)))) = []"
    by (simp_all add: newInstallationBase_def app_inst_def example_installation_def)
  have "fst (OutdatedImports chain_validator i chain_cluster) = Done False"
    by (rule read_imports_are_up_to_date [of chain_validator "newInstallationBase app_inst" chain_cluster r i chain_cluster])
      (simp_all add: v r ims example_still_reads)
  with r show ?thesis by blast
qed

end
