(* ===== verification/InstallationDescriptors.thy ===== *)
theory InstallationDescriptors
  imports ImportReading
begin

text \<open>
  Component descriptors as imports of installations (pkg/landscaper/installations/helper.go, operation.go,
  dataobjects/cd.go): how they are read from a registry, a secret or a config map, and the states
  that are recorded of them. The registry, the codecs and the version of a descriptor are arguments.
\<close>

section \<open>Component descriptors as imports (dataobjects/cd.go, helper.go)\<close>

text \<open>
  A component descriptor is the text of the descriptor. The registry, the YAML and JSON codecs and the
  version of a descriptor come from libraries.
\<close>

datatype cd_reference_type = RegistryReference | SecretReference | ConfigMapReference | DataReference

record imported_cd =
  ic_refType :: cd_reference_type
  ic_registryRef :: "component_descriptor_reference option"
  ic_secretRef :: "secret_reference option"
  ic_configMapRef :: "config_map_reference option"
  ic_descriptor :: string
  ic_owner :: "owner_reference option"

record ('w, 'j) cd_env =
  ce_env :: "'j inst_env"
  ce_resolve :: "component_descriptor_reference \<Rightarrow> 'w \<Rightarrow> (gerr + string) \<times> 'w"
  ce_toJSON :: "string \<Rightarrow> gerr + string"
  ce_decode :: "string \<Rightarrow> gerr + string"
  ce_version :: "string \<Rightarrow> string"
  ce_show :: "component_descriptor_reference \<Rightarrow> string"

definition cd_reference_type_of ::
    "component_descriptor_reference option \<Rightarrow> config_map_reference option \<Rightarrow> secret_reference option \<Rightarrow> string
      \<Rightarrow> cd_reference_type option" where
  "cd_reference_type_of regRef cmRef secretRef dataRef =
     (if cmRef \<noteq> None then Some ConfigMapReference
      else if secretRef \<noteq> None then Some SecretReference
      else if regRef \<noteq> None then Some RegistryReference
      else if dataRef \<noteq> [] then Some DataReference
      else None)"

definition cd_owner :: "installation \<Rightarrow> owner_reference option" where
  "cd_owner inst = (case GetOwner (in_meta inst) of
     Some o1 \<Rightarrow> if ow_kind o1 = ''Installation'' then Some o1 else None
   | None \<Rightarrow> None)"

definition parse_cd :: "('w, 'j) cd_env \<Rightarrow> string \<Rightarrow> gerr + string" where
  "parse_cd ce yaml =
     (case ce_toJSON ce yaml of
        Inl e \<Rightarrow> Inl (wrap ''unable to convert yaml data to json'' e)
      | Inr data \<Rightarrow>
          (case ce_decode ce data of
             Inl e \<Rightarrow> Inl (wrap ''unable to convert data into component descriptor'' e)
           | Inr d \<Rightarrow> Inr d))"

definition new_cd :: "installation \<Rightarrow> cd_reference_type \<Rightarrow> string \<Rightarrow> imported_cd" where
  "new_cd inst ty d = \<lparr>ic_refType = ty, ic_registryRef = None, ic_secretRef = None, ic_configMapRef = None, ic_descriptor = d,
     ic_owner = cd_owner inst\<rparr>"

definition getComponentDescriptorImport ::
    "('w, 'j) cd_env \<Rightarrow> 'w kube_client \<Rightarrow> installation \<Rightarrow> string \<Rightarrow> component_descriptor_reference option
      \<Rightarrow> config_map_reference option \<Rightarrow> secret_reference option \<Rightarrow> string \<Rightarrow> 'w \<Rightarrow> (gerr + imported_cd) \<times> 'w" where
  "getComponentDescriptorImport ce c inst impName regRef cmRef secretRef dataRef w =
     (case cd_reference_type_of regRef cmRef secretRef dataRef of
        None \<Rightarrow> (Inl (PlainError (''invalid component descriptor import '' @ quote_text impName
          @ '': none of dataRef, configMapRef, secretRef, and componentDescriptorRef is specified'')), w)
      | Some DataReference \<Rightarrow> (Inl (PlainError (''unsupported reference type '' @ quote_text ''data'')), w)
      | Some RegistryReference \<Rightarrow>
          (case ce_resolve ce (the regRef) w of
             (Inl e, w1) \<Rightarrow> (Inl (wrap (''unable to get component descriptor from registry ('' @ ce_show ce (the regRef) @ '')'') e), w1)
           | (Inr d, w1) \<Rightarrow> (Inr ((new_cd inst RegistryReference d)\<lparr>ic_registryRef := regRef\<rparr>), w1))
      | Some ConfigMapReference \<Rightarrow>
          (case ResolveConfigMapReference (ce_env ce) c (the cmRef) w of
             (Inl e, w1) \<Rightarrow> (Inl (wrap (''unable to get component descriptor from configmap '' @ key_string (cm_ref (the cmRef))) e), w1)
           | (Inr (yaml, gen), w1) \<Rightarrow>
               (case parse_cd ce yaml of
                  Inl e \<Rightarrow> Inl e
                | Inr d \<Rightarrow> Inr ((new_cd inst ConfigMapReference d)\<lparr>ic_configMapRef := cmRef\<rparr>), w1))
      | Some SecretReference \<Rightarrow>
          (case ResolveSecretReference (ce_env ce) c (the secretRef) w of
             (Inl e, w1) \<Rightarrow> (Inl (wrap (''unable to get component descriptor from secret '' @ key_string (sr_ref (the secretRef))) e), w1)
           | (Inr (yaml, gen), w1) \<Rightarrow>
               (case parse_cd ce yaml of
                  Inl e \<Rightarrow> Inl e
                | Inr d \<Rightarrow> Inr ((new_cd inst SecretReference d)\<lparr>ic_secretRef := secretRef\<rparr>), w1)))"

definition GetComponentDescriptorImport ::
    "('w, 'j) cd_env \<Rightarrow> 'w kube_client \<Rightarrow> installation \<Rightarrow> component_descriptor_import \<Rightarrow> 'w \<Rightarrow> (gerr + imported_cd) \<times> 'w" where
  "GetComponentDescriptorImport ce c inst imp w =
     getComponentDescriptorImport ce c inst (ci_name imp) (ci_ref imp) (ci_configMapRef imp) (ci_secretRef imp) (ci_dataRef imp) w"

fun cd_list_elements ::
    "('w, 'j) cd_env \<Rightarrow> 'w kube_client \<Rightarrow> installation \<Rightarrow> string \<Rightarrow> nat \<Rightarrow> component_descriptor_import_data list \<Rightarrow> 'w
      \<Rightarrow> (gerr + imported_cd list) \<times> 'w" where
  "cd_list_elements ce c inst name i [] w = (Inr [], w)"
| "cd_list_elements ce c inst name i (x # xs) w =
     (case getComponentDescriptorImport ce c inst (name @ ''['' @ show_int (int i) @ '']'') (cl_ref x) (cl_configMapRef x)
             (cl_secretRef x) (cl_dataRef x) w of
        (Inl e, w1) \<Rightarrow> (Inl (wrap (''unable to retrieve component descriptor for index '' @ show_int (int i)
          @ '' of cd import list '' @ name) e), w1)
      | (Inr cd, w1) \<Rightarrow>
          (case cd_list_elements ce c inst name (Suc i) xs w1 of
             (Inl e, w2) \<Rightarrow> (Inl e, w2)
           | (Inr cds, w2) \<Rightarrow> (Inr (cd # cds), w2)))"

definition GetComponentDescriptorListImport ::
    "('w, 'j) cd_env \<Rightarrow> 'w kube_client \<Rightarrow> installation \<Rightarrow> component_descriptor_import \<Rightarrow> 'w \<Rightarrow> (gerr + imported_cd list) \<times> 'w" where
  "GetComponentDescriptorListImport ce c inst imp w =
     (case ci_list imp of
        None \<Rightarrow> (Inl (PlainError (''invalid component descriptor list import '' @ ci_name imp
          @ '': import does not describe a list'')), w)
      | Some xs \<Rightarrow> cd_list_elements ce c inst (ci_name imp) 0 xs w)"

section \<open>Reading imported component descriptors (operation.go)\<close>

text \<open>
  The source of a component descriptor is the installation that owns the importing one. It must
  exist, but its generation is not used: the generation of the import is the version.
\<close>

definition cd_source ::
    "'w kube_client \<Rightarrow> string \<Rightarrow> string \<Rightarrow> imported_cd \<Rightarrow> 'w \<Rightarrow> (gerr + object_reference option) \<times> 'w" where
  "cd_source c ns name cd w =
     (case installation_owner ns (ic_owner cd) of
        None \<Rightarrow> (Inr None, w)
      | Some ref \<Rightarrow>
          (case rc_get (kc_installations c) ref w of
             (Inl e, w1) \<Rightarrow>
               (Inl (wrap (''unable to get source installation '' @ quote_text (key_string ref) @ '' for import '' @ quote_text name) e), w1)
           | (Inr src, w1) \<Rightarrow> (Inr (Some ref), w1)))"

definition secret_key :: "secret_reference \<Rightarrow> string" where
  "secret_key r = key_string (sr_ref r) @ ''#'' @ sr_key r"

definition config_map_key :: "config_map_reference \<Rightarrow> string" where
  "config_map_key r = key_string (cm_ref r) @ ''#'' @ cm_key r"

definition read_cd ::
    "('w, 'j) cd_env \<Rightarrow> 'w kube_client \<Rightarrow> installation \<Rightarrow> component_descriptor_import \<Rightarrow> 'w
      \<Rightarrow> (imported_cd \<times> import_status) outcome \<times> 'w" where
  "read_cd ce c inst def w =
     (case GetComponentDescriptorImport ce c inst def w of
        (Inl e, w1) \<Rightarrow> (Fail e, w1)
      | (Inr cd, w1) \<Rightarrow>
          (case cd_source c (in_ns inst) (ci_name def) cd w1 of
             (Inl e, w2) \<Rightarrow> (Fail e, w2)
           | (Inr source, w2) \<Rightarrow>
               (let st = import_state (ci_name def) CDImportStatusType source (ce_version ce (ic_descriptor cd))
                in (case ic_refType cd of
                      RegistryReference \<Rightarrow> Done (cd, st\<lparr>is_componentDescriptorRef := ic_registryRef cd\<rparr>)
                    | ConfigMapReference \<Rightarrow>
                        (case ci_configMapRef def of
                           Some r \<Rightarrow> Done (cd, st\<lparr>is_configMapRef := config_map_key r\<rparr>) | None \<Rightarrow> Panic)
                    | SecretReference \<Rightarrow>
                        (case ci_secretRef def of
                           Some r \<Rightarrow> Done (cd, st\<lparr>is_secretRef := secret_key r\<rparr>) | None \<Rightarrow> Panic)
                    | DataReference \<Rightarrow> Done (cd, st), w2))))"

definition GetImportedComponentDescriptors ::
    "('w, 'j) cd_env \<Rightarrow> 'w kube_client \<Rightarrow> installation_base \<Rightarrow> 'w
      \<Rightarrow> (string \<times> imported_cd) list outcome \<times> installation_base \<times> 'w" where
  "GetImportedComponentDescriptors ce c i w =
     (case read_imports ci_name (read_cd ce c (ib_info i))
             (filter (\<lambda>def. ci_list def = None) (ii_componentDescriptors (in_imports (in_spec (ib_info i))))) [] (ib_importsStatus i) w of
        (r, table, w1) \<Rightarrow> (r, i\<lparr>ib_importsStatus := table\<rparr>, w1))"

definition cd_status :: "imported_cd \<Rightarrow> object_reference option \<Rightarrow> cd_import_status outcome" where
  "cd_status cd source =
     (let st = \<lparr>cs_componentDescriptorRef = None, cs_secretRef = [], cs_configMapRef = [], cs_sourceRef = source\<rparr>
      in case ic_refType cd of
           RegistryReference \<Rightarrow> Done (st\<lparr>cs_componentDescriptorRef := ic_registryRef cd\<rparr>)
         | ConfigMapReference \<Rightarrow>
             (case ic_configMapRef cd of Some r \<Rightarrow> Done (st\<lparr>cs_configMapRef := config_map_key r\<rparr>) | None \<Rightarrow> Panic)
         | SecretReference \<Rightarrow>
             (case ic_secretRef cd of Some r \<Rightarrow> Done (st\<lparr>cs_secretRef := secret_key r\<rparr>) | None \<Rightarrow> Panic)
         | DataReference \<Rightarrow> Done st)"

fun cd_states ::
    "'w kube_client \<Rightarrow> string \<Rightarrow> string \<Rightarrow> imported_cd list \<Rightarrow> 'w \<Rightarrow> cd_import_status list outcome \<times> 'w" where
  "cd_states c ns name [] w = (Done [], w)"
| "cd_states c ns name (cd # cds) w =
     (case cd_source c ns name cd w of
        (Inl e, w1) \<Rightarrow> (Fail e, w1)
      | (Inr source, w1) \<Rightarrow>
          (case cd_status cd source of
             Panic \<Rightarrow> (Panic, w1) | Fail e \<Rightarrow> (Fail e, w1)
           | Done st \<Rightarrow>
               (case cd_states c ns name cds w1 of
                  (Done sts, w2) \<Rightarrow> (Done (st # sts), w2)
                | r \<Rightarrow> r)))"

definition read_cd_list ::
    "('w, 'j) cd_env \<Rightarrow> 'w kube_client \<Rightarrow> installation \<Rightarrow> component_descriptor_import \<Rightarrow> 'w
      \<Rightarrow> (imported_cd list \<times> import_status) outcome \<times> 'w" where
  "read_cd_list ce c inst def w =
     (case GetComponentDescriptorListImport ce c inst def w of
        (Inl e, w1) \<Rightarrow> (Fail e, w1)
      | (Inr cds, w1) \<Rightarrow>
          (case cd_states c (in_ns inst) (ci_name def) cds w1 of
             (Panic, w2) \<Rightarrow> (Panic, w2) | (Fail e, w2) \<Rightarrow> (Fail e, w2)
           | (Done sts, w2) \<Rightarrow>
               (Done (cds, (import_state (ci_name def) CDListImportStatusType None [])\<lparr>is_componentDescriptors := sts\<rparr>), w2)))"

definition GetImportedComponentDescriptorLists ::
    "('w, 'j) cd_env \<Rightarrow> 'w kube_client \<Rightarrow> installation_base \<Rightarrow> 'w
      \<Rightarrow> (string \<times> imported_cd list) list outcome \<times> installation_base \<times> 'w" where
  "GetImportedComponentDescriptorLists ce c i w =
     (case read_imports ci_name (read_cd_list ce c (ib_info i))
             (filter (\<lambda>def. ci_list def \<noteq> None) (ii_componentDescriptors (in_imports (in_spec (ib_info i))))) [] (ib_importsStatus i) w of
        (r, table, w1) \<Rightarrow> (r, i\<lparr>ib_importsStatus := table\<rparr>, w1))"

section \<open>Properties\<close>

text \<open>What was read holds the reference that it was read from, so recording its state cannot fail.\<close>

lemma getComponentDescriptorImport_reference:
  assumes "getComponentDescriptorImport ce c inst impName regRef cmRef secretRef dataRef w = (Inr cd, w1)"
  shows "(ic_refType cd = ConfigMapReference \<longrightarrow> ic_configMapRef cd = cmRef \<and> cmRef \<noteq> None)
    \<and> (ic_refType cd = SecretReference \<longrightarrow> ic_secretRef cd = secretRef \<and> secretRef \<noteq> None)
    \<and> (ic_refType cd = RegistryReference \<longrightarrow> ic_registryRef cd = regRef \<and> regRef \<noteq> None)
    \<and> ic_refType cd \<noteq> DataReference"
  using assms
  by (auto simp: getComponentDescriptorImport_def cd_reference_type_of_def new_cd_def
      split: option.splits cd_reference_type.splits prod.splits sum.splits if_splits)

lemma read_cd_no_panic: "fst (read_cd ce c inst def w) \<noteq> Panic"
proof (cases "GetComponentDescriptorImport ce c inst def w")
  case (Pair r w1)
  show ?thesis
  proof (cases r)
    case (Inr cd)
    with Pair getComponentDescriptorImport_reference [of ce c inst "ci_name def" "ci_ref def" "ci_configMapRef def"
        "ci_secretRef def" "ci_dataRef def" w cd w1] show ?thesis
      by (auto simp: read_cd_def GetComponentDescriptorImport_def Let_def case_prod_beta split: sum.splits cd_reference_type.splits)
  qed (simp add: Pair read_cd_def)
qed

lemma cd_list_elements_reference:
  "cd_list_elements ce c inst name i xs w = (Inr cds, w1) \<Longrightarrow> cd \<in> set cds \<Longrightarrow>
     (ic_refType cd = ConfigMapReference \<longrightarrow> ic_configMapRef cd \<noteq> None) \<and> (ic_refType cd = SecretReference \<longrightarrow> ic_secretRef cd \<noteq> None)"
proof (induction xs arbitrary: i w cds)
  case (Cons x xs)
  then show ?case
    by (fastforce split: prod.splits sum.splits dest: getComponentDescriptorImport_reference)
qed simp

lemma cd_states_no_panic:
  "\<forall>cd \<in> set cds. (ic_refType cd = ConfigMapReference \<longrightarrow> ic_configMapRef cd \<noteq> None) \<and> (ic_refType cd = SecretReference \<longrightarrow> ic_secretRef cd \<noteq> None)
     \<Longrightarrow> fst (cd_states c ns name cds w) \<noteq> Panic"
proof (induction cds arbitrary: w)
  case (Cons cd cds)
  have s: "cd_status cd source \<noteq> Panic" for source
    using Cons.prems by (auto simp: cd_status_def Let_def split: cd_reference_type.split option.split)
  obtain r w1 where r: "cd_source c ns name cd w = (r, w1)" by (cases "cd_source c ns name cd w")
  have IH: "fst (cd_states c ns name cds w1) \<noteq> Panic" by (rule Cons.IH) (use Cons.prems in simp)
  show ?case
    using r s IH by (auto split: sum.splits outcome.splits prod.splits)
qed simp

lemma read_cd_list_no_panic: "fst (read_cd_list ce c inst def w) \<noteq> Panic"
proof (cases "GetComponentDescriptorListImport ce c inst def w")
  case (Pair r w1)
  show ?thesis
  proof (cases r)
    case (Inr cds)
    with Pair have "cd_list_elements ce c inst (ci_name def) 0 (the (ci_list def)) w = (Inr cds, w1)"
      by (auto simp: GetComponentDescriptorListImport_def split: option.splits)
    from cd_list_elements_reference [OF this] have "fst (cd_states c (in_ns inst) (ci_name def) cds w1) \<noteq> Panic"
      by (intro cd_states_no_panic) blast
    with Pair Inr show ?thesis by (auto simp: read_cd_list_def split: prod.splits outcome.splits)
  qed (simp add: Pair read_cd_list_def)
qed

lemma read_imports_no_panic:
  assumes "\<And>def w. fst (read def w) \<noteq> Panic"
  shows "fst (read_imports name_of read defs found table w) \<noteq> Panic"
proof (induction defs arbitrary: found table w)
  case (Cons d defs)
  obtain r w1 where r: "read d w = (r, w1)" by (cases "read d w")
  show ?case
  proof (cases r)
    case (Done x)
    then show ?thesis using r Cons.IH by (cases x) simp
  qed (use r assms [of d w] in simp_all)
qed simp

end
