(* ===== verification/Subinstallations.thy ===== *)
theory Subinstallations
  imports SiblingChecks ExecutionProps
begin

text \<open>
  Sub-installations (\<open>pkg/landscaper/installations/subinstallations\<close>): finding those that exist, the
  templates, deletion of orphans, creation and update, triggers. The theorem says what an update writes;
  the examples at the end show that the context of the parent is lost and that references are doubled.
\<close>

section \<open>Operations (subinstallations/operation.go, operation.go)\<close>

text \<open>
  The operation on an installation: the installation in memory with the states and values of its
  imports, the imported targets, the imports and exports of its blueprint, its context and the name of the
  current operation for errors. From libraries or other components come
  the rendering of the templates, the resolution of a template's blueprint, the aggregate of
  validation errors and the check of names.
\<close>

record 'j inst_operation =
  io_inst :: installation
  io_importsStatus :: import_table
  io_imports :: "(string \<times> 'j) list"
  io_targets :: "(string \<times> imported_target) list"
  io_targetLists :: "(string \<times> imported_target list) list"
  io_blueprintImports :: "import_definition list"
  io_blueprintExports :: "export_definition list"
  io_context :: inst_context
  io_current :: string

record ('w, 'j) sub_env =
  su_setOwner :: "installation \<Rightarrow> object_meta \<Rightarrow> gerr + object_meta"
  su_templates :: "'j inst_operation \<Rightarrow> 'w \<Rightarrow> (gerr + installation_template list) \<times> 'w"
  su_blueprint :: "installation \<Rightarrow> installation_template
      \<Rightarrow> gerr + blueprint_definition \<times> component_descriptor_definition option"
  su_aggregate :: "field_error list \<Rightarrow> gerr"
  su_dns :: "string \<Rightarrow> string list"

definition op_error :: "time \<Rightarrow> 'j inst_operation \<Rightarrow> gerr \<Rightarrow> string \<Rightarrow> string \<Rightarrow> gerr" where
  "op_error now o1 e reason msg = NewWrappedError now e (io_current o1) reason msg []"

definition EnsureSubInstallationsCondition :: string where
  "EnsureSubInstallationsCondition = ''EnsureSubInstallations''"

definition SubinstallationNameAnnotation :: string where
  "SubinstallationNameAnnotation = ''landscaper.gardener.cloud/subinstallation-name''"

definition op_inst :: "(installation \<Rightarrow> installation) \<Rightarrow> 'j inst_operation \<Rightarrow> 'j inst_operation" where
  "op_inst f o1 = o1\<lparr>io_inst := f (io_inst o1)\<rparr>"

section \<open>Triggering sub-installations (subinstallations.go)\<close>

definition set_operation :: "string \<Rightarrow> installation \<Rightarrow> installation" where
  "set_operation operation i = i\<lparr>in_meta := SetMetaDataAnnotation (in_meta i) OperationAnnotation operation\<rparr>"

fun TriggerSubInstallations ::
    "'w kube_client \<Rightarrow> named_object_reference list \<Rightarrow> string \<Rightarrow> 'w \<Rightarrow> gerr option \<times> 'w" where
  "TriggerSubInstallations c [] operation w = (None, w)"
| "TriggerSubInstallations c (ref # refs) operation w =
     (case rc_get (kc_installations c) (no_reference ref) w of
        (Inl e, w1) \<Rightarrow> (Some (wrap (''unable to get sub installation '' @ key_string (no_reference ref)) e), w1)
      | (Inr subInst, w1) \<Rightarrow>
          (case rc_update (kc_installations c) (set_operation operation subInst) w1 of
             (Inl e, w2) \<Rightarrow> (Some (wrap (''unable to update sub installation '' @ key_string (no_reference ref)) e), w2)
           | (Inr i, w2) \<Rightarrow> TriggerSubInstallations c refs operation w2))"

section \<open>The sub-installations that exist\<close>

definition getSubinstallationNameByReference :: "named_object_reference list \<Rightarrow> string \<Rightarrow> string \<Rightarrow> string option" where
  "getSubinstallationNameByReference refs namespace name =
     map_option no_name (List.find (\<lambda>r. or_namespace (no_reference r) = namespace \<and> or_name (no_reference r) = name) refs)"

type_synonym sub_map = "(string \<times> installation) list"

definition sub_name :: "named_object_reference list \<Rightarrow> installation \<Rightarrow> string option" where
  "sub_name refs sub =
     (case map_of (om_annotations (in_meta sub)) SubinstallationNameAnnotation of
        Some n \<Rightarrow> Some n
      | None \<Rightarrow> getSubinstallationNameByReference refs (om_namespace (in_meta sub)) (om_name (in_meta sub)))"

fun index_subs ::
    "named_object_reference list \<Rightarrow> installation list \<Rightarrow> sub_map \<Rightarrow> named_object_reference list
      \<Rightarrow> installation + sub_map \<times> named_object_reference list" where
  "index_subs refs [] found states = Inr (found, states)"
| "index_subs refs (sub # subs) found states =
     (case sub_name refs sub of
        None \<Rightarrow> Inl sub
      | Some name \<Rightarrow>
          index_subs refs subs (AList.update name sub found)
            (states @ [\<lparr>no_name = name, no_reference = \<lparr>or_name = om_name (in_meta sub), or_namespace = om_namespace (in_meta sub)\<rparr>\<rparr>]))"

definition sub_condition :: "time \<Rightarrow> installation \<Rightarrow> condition" where
  "sub_condition now inst = GetOrInitCondition now (ins_conditions (in_status inst)) EnsureSubInstallationsCondition"

definition GetSubInstallations ::
    "'w kube_client \<Rightarrow> 'j inst_operation \<Rightarrow> 'w \<Rightarrow> (gerr + sub_map) \<times> 'j inst_operation \<times> 'w" where
  "GetSubInstallations c o1 w =
     (let inst = io_inst o1;
          cond = sub_condition (kc_now c w) inst
      in case ListSubinstallations c inst [] w of
           (Inl e, w1) \<Rightarrow>
             (Inl (op_error (kc_now c w1) o1 e ''SubInstallationsNotFound'' (error_string e)),
              op_inst (inst_merge_conditions [UpdatedCondition (kc_now c w1) cond ConditionFalse ''SubInstallationsNotFound''
                ''Unable to list subinstallations'' []]) o1, w1)
         | (Inr subs, w1) \<Rightarrow>
             (case index_subs (ins_installationReferences (in_status inst)) subs [] [] of
                Inl sub \<Rightarrow>
                  (let e = PlainError (''dangling installation found '' @ om_name (in_meta sub))
                   in (Inl (op_error (kc_now c w1) o1 e ''DanglingSubinstallation'' (error_string e)), o1, w1))
              | Inr (found, states) \<Rightarrow>
                  (Inr found, op_inst (\<lambda>i. i\<lparr>in_status := (in_status i)\<lparr>ins_installationReferences := states\<rparr>\<rparr>) o1, w1)))"

section \<open>Templates\<close>

fun isOptionalParentImport :: "string \<Rightarrow> import_definition list \<Rightarrow> bool \<Rightarrow> bool" where
  "isOptionalParentImport impRef [] isConditional = False"
| "isOptionalParentImport impRef (ImportDefinition fv ty required dflt conditional # defs) isConditional =
     (if fv_name fv = impRef then isConditional \<or> required = Some False
      else if conditional \<noteq> [] \<and> isOptionalParentImport impRef conditional True then True
      else isOptionalParentImport impRef defs isConditional)"

definition drop_missing_imports :: "'j inst_operation \<Rightarrow> installation_template \<Rightarrow> installation_template" where
  "drop_missing_imports o1 tmpl =
     tmpl\<lparr>it_imports := (it_imports tmpl)\<lparr>ii_data := filter (\<lambda>imp.
       map_of (io_imports o1) (im_dataRef imp) \<noteq> None
       \<or> \<not> isOptionalParentImport (im_dataRef imp) (io_blueprintImports o1) False) (ii_data (it_imports tmpl))\<rparr>\<rparr>"

fun buildCoreImports :: "(string \<times> 'j) list \<Rightarrow> import_definition list \<Rightarrow> import_definition list" where
  "buildCoreImports imps [] = []"
| "buildCoreImports imps (ImportDefinition fv ty required dflt conditional # defs) =
     ImportDefinition fv ty required dflt conditional
     # (if map_of imps (fv_name fv) \<noteq> None \<and> conditional \<noteq> [] then buildCoreImports imps conditional else [])
     @ buildCoreImports imps defs"

definition ValidateSubinstallations ::
    "('w, 'j) sub_env \<Rightarrow> 'j inst_operation \<Rightarrow> installation_template list \<Rightarrow> time \<Rightarrow> gerr option" where
  "ValidateSubinstallations env o1 tmpls now =
     (let errs = ValidateInstallationTemplates (su_dns env) (path_New ''subinstallations'')
            (buildCoreImports (io_imports o1) (io_blueprintImports o1)) tmpls
      in if errs = [] then None
         else Some (op_error now o1 (su_aggregate env errs) ''ValidateSubInstallations'' (error_string (su_aggregate env errs))))"

definition GetCDImport :: "installation \<Rightarrow> string \<Rightarrow> gerr + component_descriptor_import" where
  "GetCDImport inst key =
     (case List.find (\<lambda>e. ci_name e = key) (ii_componentDescriptors (in_imports (in_spec inst))) of
        Some e \<Rightarrow> Inr e
      | None \<Rightarrow> Inl (PlainError (''import with key '' @ key @ '' not found'')))"

definition resolve_list_element ::
    "installation \<Rightarrow> string \<Rightarrow> nat \<Rightarrow> component_descriptor_import_data \<Rightarrow> gerr + component_descriptor_import_data" where
  "resolve_list_element inst name k limp =
     (if cl_dataRef limp = [] then Inr limp
      else case GetCDImport inst (cl_dataRef limp) of
        Inl e \<Rightarrow> Inl (wrap (''unable to resolve data reference for component descriptor import '' @ quote_text name
          @ '' at index '' @ show_int (int k) @ '' in subinstallation: import '' @ quote_text (cl_dataRef limp) @ '' not found in parent'') e)
      | Inr p \<Rightarrow> Inr (limp\<lparr>cl_dataRef := ci_dataRef p, cl_ref := ci_ref p, cl_configMapRef := ci_configMapRef p,
                        cl_secretRef := ci_secretRef p\<rparr>))"

fun resolve_list ::
    "installation \<Rightarrow> string \<Rightarrow> nat \<Rightarrow> component_descriptor_import_data list \<Rightarrow> gerr + component_descriptor_import_data list" where
  "resolve_list inst name k [] = Inr []"
| "resolve_list inst name k (l # ls) =
     (case resolve_list_element inst name k l of
        Inl e \<Rightarrow> Inl e
      | Inr l1 \<Rightarrow> (case resolve_list inst name (Suc k) ls of Inl e \<Rightarrow> Inl e | Inr ls1 \<Rightarrow> Inr (l1 # ls1)))"

definition resolve_cd_import :: "installation \<Rightarrow> component_descriptor_import \<Rightarrow> gerr + component_descriptor_import" where
  "resolve_cd_import inst imp =
     (if ci_dataRef imp \<noteq> []
      then (case GetCDImport inst (ci_dataRef imp) of
              Inl e \<Rightarrow> Inl (wrap (''unable to resolve data reference for component descriptor import '' @ quote_text (ci_name imp)
                @ '' in subinstallation: import '' @ quote_text (ci_dataRef imp) @ '' not found in parent'') e)
            | Inr p \<Rightarrow> Inr (imp\<lparr>ci_dataRef := ci_dataRef p, ci_ref := ci_ref p, ci_configMapRef := ci_configMapRef p,
                              ci_secretRef := ci_secretRef p, ci_list := ci_list p\<rparr>))
      else case ci_list imp of
        Some (l # ls) \<Rightarrow>
          (case resolve_list inst (ci_name imp) 0 (l # ls) of Inl e \<Rightarrow> Inl e | Inr ls1 \<Rightarrow> Inr (imp\<lparr>ci_list := Some ls1\<rparr>))
      | _ \<Rightarrow> Inr imp)"

fun resolve_cd_imports :: "installation \<Rightarrow> component_descriptor_import list \<Rightarrow> gerr + component_descriptor_import list" where
  "resolve_cd_imports inst [] = Inr []"
| "resolve_cd_imports inst (i # is) =
     (case resolve_cd_import inst i of
        Inl e \<Rightarrow> Inl e
      | Inr i1 \<Rightarrow> (case resolve_cd_imports inst is of Inl e \<Rightarrow> Inl e | Inr is1 \<Rightarrow> Inr (i1 # is1)))"

fun resolve_templates :: "installation \<Rightarrow> installation_template list \<Rightarrow> gerr + installation_template list" where
  "resolve_templates inst [] = Inr []"
| "resolve_templates inst (t # ts) =
     (case resolve_cd_imports inst (ii_componentDescriptors (it_imports t)) of
        Inl e \<Rightarrow> Inl e
      | Inr cds \<Rightarrow>
          (case resolve_templates inst ts of
             Inl e \<Rightarrow> Inl e
           | Inr ts1 \<Rightarrow> Inr (t\<lparr>it_imports := (it_imports t)\<lparr>ii_componentDescriptors := cds\<rparr>\<rparr> # ts1)))"

section \<open>Orphaned sub-installations\<close>

definition getInstallationTemplate :: "installation_template list \<Rightarrow> string \<Rightarrow> installation_template option" where
  "getInstallationTemplate tmpls name = List.find (\<lambda>t. it_name t = name) tmpls"

text \<open>
  The error, whether a deletion was triggered, the operation and the world. The order in which the map
  of sub-installations is traversed is open in Go; here it is that of the list.
\<close>

fun cleanupOrphanedSubInstallations ::
    "'w kube_client \<Rightarrow> condition \<Rightarrow> sub_map \<Rightarrow> installation_template list \<Rightarrow> bool \<Rightarrow> 'j inst_operation \<Rightarrow> 'w
      \<Rightarrow> (gerr + bool) \<times> 'j inst_operation \<times> 'w" where
  "cleanupOrphanedSubInstallations c cond [] tmpls deleted o1 w = (Inr deleted, o1, w)"
| "cleanupOrphanedSubInstallations c cond ((defName, subInst) # subs) tmpls deleted o1 w =
     (case getInstallationTemplate tmpls defName of
        Some t \<Rightarrow> cleanupOrphanedSubInstallations c cond subs tmpls deleted o1 w
      | None \<Rightarrow>
          (case rc_delete (kc_installations c) subInst w of
             (None, w1) \<Rightarrow> cleanupOrphanedSubInstallations c cond subs tmpls True o1 w1
           | (Some e, w1) \<Rightarrow>
               if IsNotFound e then cleanupOrphanedSubInstallations c cond subs tmpls deleted o1 w1
               else (Inl (op_error (kc_now c w1) o1 e ''InstallationNotDeleted'' (error_string e)),
                     op_inst (inst_merge_conditions [UpdatedCondition (kc_now c w1) cond ConditionFalse ''InstallationNotDeleted''
                       (''Sub Installation '' @ om_name (in_meta subInst) @ '' cannot be deleted'') []] \<circ> inst_phase PhFailed) o1, w1)))"

section \<open>Creating and updating sub-installations\<close>

definition empty_installation :: installation where
  "empty_installation =
     \<lparr>in_meta = empty_meta,
      in_spec = \<lparr>in_context = [], in_componentDescriptor = None, in_blueprint = \<lparr>bd_reference = None, bd_inline = None\<rparr>,
                 in_registryPullSecrets = [], in_imports = \<lparr>ii_data = [], ii_targets = [], ii_componentDescriptors = []\<rparr>,
                 in_importDataMappings = [], in_exports = \<lparr>ix_data = [], ix_targets = []\<rparr>, in_exportDataMappings = []\<rparr>,
      in_status = \<lparr>ins_phase = PhEmpty, ins_observedGeneration = 0, ins_conditions = [], ins_lastError = None,
                   ins_configGeneration = [], ins_imports = [], ins_installationReferences = [],
                   ins_executionReference = None\<rparr>\<rparr>"

definition new_sub_installation :: "installation \<Rightarrow> installation_template \<Rightarrow> installation" where
  "new_sub_installation inst tmpl =
     empty_installation\<lparr>in_meta := empty_meta\<lparr>
       om_generateName := take (InstallationGenerateNameMaxLength - 1) (it_name tmpl) @ ''-'',
       om_namespace := om_namespace (in_meta inst)\<rparr>\<rparr>"

text \<open>The context is set first, and lost when the specification is replaced as a whole.\<close>

definition mutate_sub_installation ::
    "('w, 'j) sub_env \<Rightarrow> installation \<Rightarrow> installation_template \<Rightarrow> blueprint_definition
      \<Rightarrow> component_descriptor_definition option \<Rightarrow> installation \<Rightarrow> gerr + installation" where
  "mutate_sub_installation env inst tmpl subBlueprint subCdDef subInst =
     (let s1 = subInst\<lparr>in_spec := (in_spec subInst)\<lparr>in_context := in_context (in_spec inst)\<rparr>,
                in_meta := (in_meta subInst)
                  \<lparr>om_labels := [(EncompassedByLabel, om_name (in_meta inst))],
                   om_annotations := [(SubinstallationNameAnnotation, it_name tmpl)]\<rparr>\<rparr>
      in case su_setOwner env inst (in_meta s1) of
           Inl e \<Rightarrow> Inl (wrap ''unable to set owner reference'' e)
         | Inr m \<Rightarrow>
             (let s2 = s1\<lparr>in_meta := m,
                   in_spec := \<lparr>in_context = [], in_componentDescriptor = subCdDef, in_blueprint = subBlueprint,
                     in_registryPullSecrets = in_registryPullSecrets (in_spec inst), in_imports = it_imports tmpl,
                     in_importDataMappings = it_importDataMappings tmpl, in_exports = it_exports tmpl,
                     in_exportDataMappings = it_exportDataMappings tmpl\<rparr>\<rparr>
              in Inr (SetDefaults_Installation s2)))"

definition NewInstallationReferenceState :: "string \<Rightarrow> installation \<Rightarrow> named_object_reference" where
  "NewInstallationReferenceState name inst =
     \<lparr>no_name = name, no_reference = \<lparr>or_name = om_name (in_meta inst), or_namespace = om_namespace (in_meta inst)\<rparr>\<rparr>"

definition add_reference :: "named_object_reference \<Rightarrow> installation \<Rightarrow> installation" where
  "add_reference r i = i\<lparr>in_status := (in_status i)\<lparr>ins_installationReferences := ins_installationReferences (in_status i) @ [r]\<rparr>\<rparr>"

definition createOrUpdateNewInstallation ::
    "('w, 'j) sub_env \<Rightarrow> 'w kube_client \<Rightarrow> installation_template \<Rightarrow> installation option \<Rightarrow> 'j inst_operation \<Rightarrow> 'w
      \<Rightarrow> gerr option \<times> 'j inst_operation \<times> 'w" where
  "createOrUpdateNewInstallation env c tmpl subInst o1 w =
     (let inst = io_inst o1;
          cond = sub_condition (kc_now c w) inst;
          sub = (case subInst of Some s \<Rightarrow> s | None \<Rightarrow> new_sub_installation inst tmpl)
      in case su_blueprint env inst tmpl of
           Inl e \<Rightarrow> (Some e, o1, w)
         | Inr (subBlueprint, subCdDef) \<Rightarrow>
             (case controllerutil_CreateOrUpdate (kc_installations c) in_meta
                     (\<lambda>_. mutate_sub_installation env inst tmpl subBlueprint subCdDef) sub w of
                (Inl e, w1) \<Rightarrow>
                  (Some (wrap (''unable to create installation for '' @ it_name tmpl) e),
                   op_inst (inst_merge_conditions [UpdatedCondition (kc_now c w1) cond ConditionFalse ''InstallationCreatingFailed''
                     (''Sub Installation '' @ it_name tmpl @ '' cannot be created'') []]) o1, w1)
              | (Inr (result, sub1), w1) \<Rightarrow>
                  (let inst1 = add_reference (NewInstallationReferenceState (it_name tmpl) sub1) inst
                   in case rc_statusUpdate (kc_installations c) inst1 w1 of
                        (Inl e, w2) \<Rightarrow>
                          (Some (wrap (''unable to add new installation for '' @ it_name tmpl @ '' to state'') e), o1\<lparr>io_inst := inst1\<rparr>, w2)
                      | (Inr inst2, w2) \<Rightarrow> (None, o1\<lparr>io_inst := inst2\<rparr>, w2))))"

fun createOrUpdateSubinstallations ::
    "('w, 'j) sub_env \<Rightarrow> 'w kube_client \<Rightarrow> sub_map \<Rightarrow> installation_template list \<Rightarrow> 'j inst_operation \<Rightarrow> 'w
      \<Rightarrow> gerr option \<times> 'j inst_operation \<times> 'w" where
  "createOrUpdateSubinstallations env c subs [] o1 w = (None, o1, w)"
| "createOrUpdateSubinstallations env c subs (t # ts) o1 w =
     (case createOrUpdateNewInstallation env c t (map_of subs (it_name t)) o1 w of
        (Some e, o2, w1) \<Rightarrow>
          (let e1 = wrap (''unable to create installation for '' @ it_name t) e
           in (Some (op_error (kc_now c w1) o2 e1 ''CreateOrUpdateInstallation'' (error_string e1)), o2, w1))
      | (None, o2, w1) \<Rightarrow> createOrUpdateSubinstallations env c subs ts o2 w1)"

section \<open>Ensure\<close>

fun blocking_sub :: "sub_map \<Rightarrow> (string \<times> string) option" where
  "blocking_sub [] = None"
| "blocking_sub ((n, sub) # subs) =
     (if om_deletionTimestamp (in_meta sub) \<noteq> None
      then Some (''DeletingSubInstallation'', ''not eligible for update due to deletion of subinstallation '' @ om_name (in_meta sub))
      else if ins_phase (in_status sub) = PhProgressing
      then Some (''RunningSubinstallation'', ''not eligible for update due to running subinstallation '' @ om_name (in_meta sub))
      else blocking_sub subs)"

definition op_UpdateInstallationStatus ::
    "'w kube_client \<Rightarrow> condition \<Rightarrow> 'j inst_operation \<Rightarrow> 'w \<Rightarrow> gerr option \<times> 'j inst_operation \<times> 'w" where
  "op_UpdateInstallationStatus c cond o1 w =
     (case UpdateInstallationStatus c (io_inst o1) (ins_phase (in_status (io_inst o1))) [cond] w of
        (r, inst1, w1) \<Rightarrow> (r, o1\<lparr>io_inst := inst1\<rparr>, w1))"

definition ensure_templates ::
    "('w, 'j) sub_env \<Rightarrow> 'w kube_client \<Rightarrow> 'j inst_operation \<Rightarrow> 'w \<Rightarrow> (gerr + installation_template list) \<times> 'w" where
  "ensure_templates env c o1 w =
     (case su_templates env o1 w of
        (Inl e, w1) \<Rightarrow>
          (let e1 = wrap ''unable to get installation templates of blueprint'' e
           in (Inl (op_error (kc_now c w1) o1 e1 ''GetInstallationTemplates'' (error_string e1)), w1))
      | (Inr tmpls0, w1) \<Rightarrow>
          (let tmpls = map (drop_missing_imports o1) tmpls0
           in case ValidateSubinstallations env o1 tmpls (kc_now c w1) of
                Some e \<Rightarrow> (Inl e, w1)
              | None \<Rightarrow> (resolve_templates (io_inst o1) tmpls, w1)))"

definition sub_Ensure ::
    "('w, 'j) sub_env \<Rightarrow> 'w kube_client \<Rightarrow> 'j inst_operation \<Rightarrow> 'w \<Rightarrow> gerr option \<times> 'j inst_operation \<times> 'w" where
  "sub_Ensure env c o0 w =
     (let cond = sub_condition (kc_now c w) (io_inst o0);
          o1 = o0\<lparr>io_current := EnsureSubInstallationsCondition\<rparr>
      in case GetSubInstallations c o1 w of
           (Inl e, o2, w1) \<Rightarrow> (Some e, o2, w1)
         | (Inr subs, o2, w1) \<Rightarrow>
             (case blocking_sub subs of
                Some (reason, msg) \<Rightarrow>
                  (Some (op_error (kc_now c w1) o2 (PlainError msg) reason msg), op_inst (inst_merge_conditions [cond]) o2, w1)
              | None \<Rightarrow>
                  (case ensure_templates env c o2 w1 of
                     (Inl e, w2) \<Rightarrow> (Some e, o2, w2)
                   | (Inr tmpls, w2) \<Rightarrow>
                       (case cleanupOrphanedSubInstallations c (sub_condition (kc_now c w2) (io_inst o2)) subs tmpls False o2 w2 of
                          (Inl e, o3, w3) \<Rightarrow> (Some e, o3, w3)
                        | (Inr True, o3, w3) \<Rightarrow> (None, o3, w3)
                        | (Inr False, o3, w3) \<Rightarrow>
                            (case createOrUpdateSubinstallations env c subs tmpls o3 w3 of
                               (Some e, o4, w4) \<Rightarrow> (Some e, o4, w4)
                             | (None, o4, w4) \<Rightarrow>
                                 op_UpdateInstallationStatus c (UpdatedCondition (kc_now c w4) cond ConditionTrue
                                   ''InstallationsInstalled'' ''All Installations are successfully installed'' []) o4 w4)))))"

section \<open>Properties\<close>

text \<open>Whatever the context of the parent is, a sub-installation is written with the default context.\<close>

lemma mutate_sub_installation_context:
  "mutate_sub_installation env inst tmpl bp cd sub = Inr sub' \<Longrightarrow> in_context (in_spec sub') = DefaultContextName"
  by (auto simp: mutate_sub_installation_def SetDefaults_Installation_def Let_def split: sum.splits)

text \<open>A sub-installation is labelled and annotated so that it is found again under its template's name.\<close>

definition keeps_labels :: "('w, 'j) sub_env \<Rightarrow> bool" where
  "keeps_labels env \<longleftrightarrow> (\<forall>inst m m'. su_setOwner env inst m = Inr m' \<longrightarrow>
     om_labels m' = om_labels m \<and> om_annotations m' = om_annotations m)"

lemma SetDefaults_Installation_meta [simp]: "in_meta (SetDefaults_Installation i) = in_meta i"
  by (simp add: SetDefaults_Installation_def Let_def)

lemma mutate_sub_installation_name:
  assumes "keeps_labels env" "mutate_sub_installation env inst tmpl bp cd sub = Inr sub'"
  shows "sub_name refs sub' = Some (it_name tmpl)" "map_of (om_labels (in_meta sub')) EncompassedByLabel = Some (om_name (in_meta inst))"
  using assms
  by (auto simp: mutate_sub_installation_def keeps_labels_def sub_name_def Let_def split: sum.splits)

subsection \<open>Writes\<close>

lemma create_object_writes_mutated:
  assumes "create_object (logged_resource cr up st pa sp del c) meta f key obj s = (r, s')"
    and "\<And>w o1 x. f w o1 = Inr x \<Longrightarrow> ObjectKeyFromObject (meta x) = key \<Longrightarrow> P (cr x)"
  shows "writes_only P s s'"
proof (cases "f s obj")
  case (Inl e)
  with assms(1) show ?thesis by (simp add: create_object_def Mutate_def)
next
  case (Inr x)
  with assms(1) assms(2) [OF Inr] show ?thesis
    by (auto simp: create_object_def Mutate_def intro: logged_writes split: sum.splits if_splits prod.splits)
qed

lemma controllerutil_writes_mutated:
  assumes r: "controllerutil_CreateOrUpdate (logged_resource cr up st pa sp del c) meta f obj s = (r, s')"
    and P: "\<And>w o1 x. f w o1 = Inr x \<Longrightarrow> ObjectKeyFromObject (meta x) = ObjectKeyFromObject (meta obj) \<Longrightarrow> P (cr x)"
      "\<And>w o1 x. f w o1 = Inr x \<Longrightarrow> ObjectKeyFromObject (meta x) = ObjectKeyFromObject (meta obj) \<Longrightarrow> P (up x)"
  shows "writes_only P s s'"
proof -
  let ?key = "ObjectKeyFromObject (meta obj)"
  obtain g s1 where g: "unlogged_call (rc_get c ?key) s = (g, s1)" by (cases "unlogged_call (rc_get c ?key) s")
  have s1: "writes_only P s s1" by (rule unlogged_writes [OF g])
  have "writes_only P s1 s'"
  proof (cases g)
    case (Inl e)
    show ?thesis
    proof (cases "IsNotFound e")
      case True
      with r g Inl have "create_object (logged_resource cr up st pa sp del c) meta f ?key obj s1 = (r, s')"
        by (simp add: controllerutil_CreateOrUpdate_def Let_def)
      then show ?thesis by (rule create_object_writes_mutated) (rule P(1))
    qed (use r g Inl in \<open>simp add: controllerutil_CreateOrUpdate_def Let_def\<close>)
  next
    case (Inr ex)
    show ?thesis
    proof (cases "f s1 ex")
      case (Inl e)
      with r g Inr show ?thesis by (simp add: controllerutil_CreateOrUpdate_def Let_def Mutate_def)
    next
      case x: (Inr x)
      with r g Inr P(2) [OF x] show ?thesis
        by (auto simp: controllerutil_CreateOrUpdate_def Let_def Mutate_def intro: logged_writes
          split: sum.splits if_splits prod.splits)
    qed
  qed
  with s1 show ?thesis by (rule writes_only_trans)
qed

text \<open>A sub-installation as it is written: found under its parent and its template, in the default context.\<close>

fun sub_write :: "string \<Rightarrow> string set \<Rightarrow> api_write \<Rightarrow> bool" where
  "sub_write parent names (CreateInst s) = (map_of (om_labels (in_meta s)) EncompassedByLabel = Some parent
     \<and> (\<exists>n \<in> names. map_of (om_annotations (in_meta s)) SubinstallationNameAnnotation = Some n)
     \<and> in_context (in_spec s) = DefaultContextName)"
| "sub_write parent names (UpdateInst s) = (map_of (om_labels (in_meta s)) EncompassedByLabel = Some parent
     \<and> (\<exists>n \<in> names. map_of (om_annotations (in_meta s)) SubinstallationNameAnnotation = Some n)
     \<and> in_context (in_spec s) = DefaultContextName)"
| "sub_write parent names (StatusUpdateInst i) = (om_name (in_meta i) = parent)"
| "sub_write parent names _ = False"

lemma mutate_sub_installation_written:
  assumes "keeps_labels env" "mutate_sub_installation env inst tmpl bp cd sub = Inr s" "it_name tmpl \<in> names"
  shows "map_of (om_labels (in_meta s)) EncompassedByLabel = Some (om_name (in_meta inst))
   \<and> (\<exists>n \<in> names. map_of (om_annotations (in_meta s)) SubinstallationNameAnnotation = Some n)
   \<and> in_context (in_spec s) = DefaultContextName"
  using assms mutate_sub_installation_context [OF assms(2)]
  by (auto simp: mutate_sub_installation_def keeps_labels_def Let_def split: sum.splits)

text \<open>The answer to a status update is the same installation.\<close>

definition status_keeps_name :: "'w kube_client \<Rightarrow> bool" where
  "status_keeps_name c \<longleftrightarrow> (\<forall>i w i' w'. rc_statusUpdate (kc_installations c) i w = (Inr i', w') \<longrightarrow>
     om_name (in_meta i') = om_name (in_meta i))"

lemma logged_status_name:
  assumes "status_keeps_name c" "logged_call a (rc_statusUpdate (kc_installations c) i) s = (Inr i', s')"
  shows "om_name (in_meta i') = om_name (in_meta i)"
  using assms by (auto simp: logged_call_def status_keeps_name_def Let_def split: prod.splits)

lemma createOrUpdateNewInstallation_writes:
  assumes "keeps_labels env" "status_keeps_name c" "it_name tmpl \<in> names" "om_name (in_meta (io_inst o1)) = parent"
    and r: "createOrUpdateNewInstallation env (logged c) tmpl sub o1 s = (r, o2, s')"
  shows "writes_only (sub_write parent names) s s' \<and> om_name (in_meta (io_inst o2)) = parent"
proof (cases "su_blueprint env (io_inst o1) tmpl")
  case (Inl e)
  with r assms(4) show ?thesis by (auto simp: createOrUpdateNewInstallation_def Let_def)
next
  case (Inr p)
  obtain bp cd where p: "p = (bp, cd)" by (cases p)
  let ?f = "\<lambda>_. mutate_sub_installation env (io_inst o1) tmpl bp cd"
  let ?sub = "case sub of Some s \<Rightarrow> s | None \<Rightarrow> new_sub_installation (io_inst o1) tmpl"
  obtain x s1 where x: "controllerutil_CreateOrUpdate (kc_installations (logged c)) in_meta ?f ?sub s = (x, s1)"
    by (cases "controllerutil_CreateOrUpdate (kc_installations (logged c)) in_meta ?f ?sub s")
  have s1: "writes_only (sub_write parent names) s s1"
    using x unfolding logged_sel
    by (rule controllerutil_writes_mutated)
      (use mutate_sub_installation_written [OF assms(1) _ assms(3)] assms(4) in \<open>simp_all\<close>)
  show ?thesis
  proof (cases x)
    case (Inl e)
    with r Inr p x s1 assms(4) show ?thesis
      by (auto simp: createOrUpdateNewInstallation_def Let_def op_inst_def inst_merge_conditions_def simp del: logged_sel(8))
  next
    case x': (Inr y)
    obtain res s0 where y: "y = (res, s0)" by (cases y)
    let ?inst = "add_reference (NewInstallationReferenceState (it_name tmpl) s0) (io_inst o1)"
    have n: "om_name (in_meta ?inst) = parent" using assms(4) by (simp add: add_reference_def)
    obtain u s2 where u: "logged_call (StatusUpdateInst ?inst) (rc_statusUpdate (kc_installations c) ?inst) s1 = (u, s2)"
      by (cases "logged_call (StatusUpdateInst ?inst) (rc_statusUpdate (kc_installations c) ?inst) s1")
    then have "rc_statusUpdate (kc_installations (logged c)) ?inst s1 = (u, s2)" by simp
    have "createOrUpdateNewInstallation env (logged c) tmpl sub o1 s =
        (case u of Inl e \<Rightarrow> (Some (wrap (''unable to add new installation for '' @ it_name tmpl @ '' to state'') e), o1\<lparr>io_inst := ?inst\<rparr>, s2)
         | Inr i \<Rightarrow> (None, o1\<lparr>io_inst := i\<rparr>, s2))"
      unfolding createOrUpdateNewInstallation_def Let_def Inr p sum.case prod.case x x' y
        \<open>rc_statusUpdate (kc_installations (logged c)) ?inst s1 = (u, s2)\<close> ..
    then have e: "s' = s2 \<and> io_inst o2 = (case u of Inl e \<Rightarrow> ?inst | Inr i \<Rightarrow> i)" unfolding r by (cases u) simp_all
    have f: "writes_only (sub_write parent names) s1 s2" by (rule logged_writes [OF u]) (simp add: n)
    have "om_name (in_meta (case u of Inl e \<Rightarrow> ?inst | Inr i \<Rightarrow> i)) = parent"
    proof (cases u)
      case (Inr i)
      from logged_status_name [OF assms(2) u [unfolded Inr]] have "om_name (in_meta i) = parent" unfolding n .
      then show ?thesis unfolding Inr sum.case .
    qed (simp add: n)
    then show ?thesis unfolding conjunct1 [OF e] conjunct2 [OF e] using writes_only_trans [OF s1 f] by simp
  qed
qed

lemma createOrUpdateSubinstallations_writes:
  assumes "keeps_labels env" "status_keeps_name c"
  shows "it_name ` set ts \<subseteq> names \<Longrightarrow> om_name (in_meta (io_inst o1)) = parent \<Longrightarrow>
    createOrUpdateSubinstallations env (logged c) subs ts o1 s = (r, o2, s') \<Longrightarrow>
    writes_only (sub_write parent names) s s' \<and> om_name (in_meta (io_inst o2)) = parent"
proof (induction ts arbitrary: o1 s)
  case (Cons t ts)
  obtain x o3 s1 where x: "createOrUpdateNewInstallation env (logged c) t (map_of subs (it_name t)) o1 s = (x, o3, s1)"
    by (rule prod_cases3)
  have w: "writes_only (sub_write parent names) s s1 \<and> om_name (in_meta (io_inst o3)) = parent"
    by (rule createOrUpdateNewInstallation_writes [OF assms _ Cons.prems(2) x]) (use Cons.prems(1) in simp)
  show ?case
  proof (cases x)
    case None
    with Cons.prems(3) x have "createOrUpdateSubinstallations env (logged c) subs ts o3 s1 = (r, o2, s')" by simp
    from Cons.IH [OF _ conjunct2 [OF w] this] Cons.prems(1)
    have r: "writes_only (sub_write parent names) s1 s' \<and> om_name (in_meta (io_inst o2)) = parent" by simp
    show ?thesis using writes_only_trans [OF conjunct1 [OF w] conjunct1 [OF r]] r by simp
  next
    case (Some e)
    with Cons.prems(3) x have "o2 = o3" "s' = s1" by (simp_all add: Let_def)
    with w show ?thesis by simp
  qed
qed simp

definition orphan :: "sub_map \<Rightarrow> installation_template list \<Rightarrow> installation \<Rightarrow> bool" where
  "orphan subs tmpls s \<longleftrightarrow> (\<exists>n. (n, s) \<in> set subs \<and> n \<notin> it_name ` set tmpls)"

fun orphan_deletion :: "sub_map \<Rightarrow> installation_template list \<Rightarrow> api_write \<Rightarrow> bool" where
  "orphan_deletion subs tmpls (DeleteInst s) = orphan subs tmpls s"
| "orphan_deletion subs tmpls _ = False"

lemma getInstallationTemplate_None: "getInstallationTemplate tmpls n = None \<longleftrightarrow> n \<notin> it_name ` set tmpls"
  by (auto simp: getInstallationTemplate_def find_None_iff)

lemma cleanup_writes:
  "cleanupOrphanedSubInstallations (logged c) cond subs tmpls deleted o1 s = (r, o2, s') \<Longrightarrow>
     writes_only (orphan_deletion subs tmpls) s s' \<and> om_name (in_meta (io_inst o2)) = om_name (in_meta (io_inst o1))
     \<and> (deleted \<longrightarrow> r \<noteq> Inr False)"
proof (induction subs arbitrary: deleted s)
  case (Cons p subs)
  obtain n sub where p: "p = (n, sub)" by (cases p)
  have wider: "orphan_deletion subs tmpls a \<Longrightarrow> orphan_deletion (p # subs) tmpls a" for a
    by (cases a) (auto simp: orphan_def)
  show ?case
  proof (cases "getInstallationTemplate tmpls n")
    case (Some t)
    with Cons.prems p have "cleanupOrphanedSubInstallations (logged c) cond subs tmpls deleted o1 s = (r, o2, s')" by simp
    note IH = Cons.IH [OF this]
    have "writes_only (orphan_deletion (p # subs) tmpls) s s'" by (rule writes_only_weaken [OF conjunct1 [OF IH] wider])
    with conjunct2 [OF IH] show ?thesis by (intro conjI) blast+
  next
    case None
    then have o: "orphan_deletion (p # subs) tmpls (DeleteInst sub)"
      using p by (auto simp: orphan_def getInstallationTemplate_None)
    obtain d s1 where d: "logged_call (DeleteInst sub) (rc_delete (kc_installations c) sub) s = (d, s1)"
      by (cases "logged_call (DeleteInst sub) (rc_delete (kc_installations c) sub) s")
    have s1: "writes_only (orphan_deletion (p # subs) tmpls) s s1" using o by (rule logged_writes [OF d])
    have rest: ?thesis if "cleanupOrphanedSubInstallations (logged c) cond subs tmpls deleted' o1 s1 = (r, o2, s')"
      "deleted \<longrightarrow> deleted'" for deleted'
    proof -
      note IH = Cons.IH [OF that(1)]
      have "writes_only (orphan_deletion (p # subs) tmpls) s1 s'" by (rule writes_only_weaken [OF conjunct1 [OF IH] wider])
      note t = writes_only_trans [OF s1 this]
      have "deleted \<longrightarrow> r \<noteq> Inr False" using conjunct2 [OF conjunct2 [OF IH]] that(2) by blast
      with t conjunct1 [OF conjunct2 [OF IH]] show ?thesis by (intro conjI)
    qed
    show ?thesis
    proof (cases d)
      case d': None
      with Cons.prems p None d show ?thesis by (intro rest [of True]) simp_all
    next
      case d': (Some e)
      show ?thesis
      proof (cases "IsNotFound e")
        case True
        with Cons.prems p None d d' show ?thesis by (intro rest [of deleted]) simp_all
      next
        case False
        with Cons.prems p None d d' have "s' = s1" "io_inst o2 = inst_merge_conditions
            [UpdatedCondition (kc_now c (fst s1)) cond ConditionFalse ''InstallationNotDeleted''
              (''Sub Installation '' @ om_name (in_meta sub) @ '' cannot be deleted'') []] (inst_phase PhFailed (io_inst o1))" "\<exists>e. r = Inl e"
          by (auto simp: op_inst_def)
        with s1 show ?thesis by (auto simp: inst_merge_conditions_def inst_phase_def)
      qed
    qed
  qed
qed auto

lemma blocking_sub_None:
  "blocking_sub subs = None \<Longrightarrow> (n, s) \<in> set subs \<Longrightarrow> om_deletionTimestamp (in_meta s) = None \<and> ins_phase (in_status s) \<noteq> PhProgressing"
  by (induction subs) (auto split: if_splits)

text \<open>What an update of the sub-installations starts from: those that exist and the templates.\<close>

definition sub_plan ::
    "('w, 'j) sub_env \<Rightarrow> 'w kube_client \<Rightarrow> 'j inst_operation \<Rightarrow> 'w
      \<Rightarrow> (sub_map \<times> installation_template list \<times> 'j inst_operation \<times> 'w) option" where
  "sub_plan env c o1 w =
     (case GetSubInstallations c (o1\<lparr>io_current := EnsureSubInstallationsCondition\<rparr>) w of
        (Inr subs, o2, w1) \<Rightarrow>
          (if blocking_sub subs \<noteq> None then None
           else case ensure_templates env c o2 w1 of (Inr tmpls, w2) \<Rightarrow> Some (subs, tmpls, o2, w2) | _ \<Rightarrow> None)
      | _ \<Rightarrow> None)"

text \<open>The rendering of templates writes no object of the cluster, only its own state.\<close>

definition silent_templates :: "('w \<times> api_write list, 'j) sub_env \<Rightarrow> bool" where
  "silent_templates env \<longleftrightarrow> (\<forall>o1 s. snd (snd (su_templates env o1 s)) = snd s)"

lemma GetSubInstallations_silent:
  assumes "GetSubInstallations (logged c) o1 s = (r, o2, s')"
  shows "snd s' = snd s \<and> om_name (in_meta (io_inst o2)) = om_name (in_meta (io_inst o1))"
proof -
  obtain g s1 where g: "ListSubinstallations (logged c) (io_inst o1) [] s = (g, s1)"
    by (cases "ListSubinstallations (logged c) (io_inst o1) [] s")
  have "snd s1 = snd s"
    using g by (auto simp: ListSubinstallations_def unlogged_call_def split: sum.splits prod.splits)
  with assms g show ?thesis
    by (auto simp: GetSubInstallations_def Let_def op_inst_def inst_merge_conditions_def split: sum.splits prod.splits)
qed

lemma ensure_templates_silent:
  assumes "silent_templates env" "ensure_templates env (logged c) o1 s = (r, s')"
  shows "snd s' = snd s"
proof -
  have "snd (snd (ensure_templates env (logged c) o1 s)) = snd (snd (su_templates env o1 s))"
    by (simp add: ensure_templates_def case_prod_beta Let_def split: sum.split option.split)
  moreover have "snd (snd (su_templates env o1 s)) = snd s" using assms(1) unfolding silent_templates_def by blast
  ultimately show ?thesis unfolding assms(2) by simp
qed


section \<open>Examples\<close>

definition example_template :: installation_template where
  "example_template = \<lparr>it_name = ''sub'', it_blueprint = \<lparr>tb_ref = ''cd://resources/bp'', tb_filesystem = []\<rparr>,
     it_imports = \<lparr>ii_data = [], ii_targets = [], ii_componentDescriptors = []\<rparr>, it_importDataMappings = [],
     it_exports = \<lparr>ix_data = [], ix_targets = []\<rparr>, it_exportDataMappings = []\<rparr>"

definition example_sub_env :: "('w, string) sub_env" where
  "example_sub_env = \<lparr>su_setOwner = (\<lambda>i m. Inr m), su_templates = (\<lambda>o1 w. (Inr [example_template], w)),
     su_blueprint = (\<lambda>i t. Inr (\<lparr>bd_reference = None, bd_inline = None\<rparr>, None)), su_aggregate = (\<lambda>es. PlainError []),
     su_dns = (\<lambda>s. [])\<rparr>"

definition parent_inst :: installation where
  "parent_inst = (let i = example_installation ''parent'' [] [] PhPending
     in i\<lparr>in_spec := (in_spec i)\<lparr>in_context := ''production''\<rparr>\<rparr>)"

definition parent_op :: "string inst_operation" where
  "parent_op = \<lparr>io_inst = parent_inst, io_importsStatus = ib_importsStatus (newInstallationBase parent_inst),
     io_imports = [], io_targets = [], io_targetLists = [], io_blueprintImports = [], io_blueprintExports = [],
     io_context = exporter_context, io_current = []\<rparr>"

definition old_sub :: "string \<Rightarrow> phase \<Rightarrow> installation" where
  "old_sub name p = (let i = example_installation name [] [] p
     in i\<lparr>in_meta := (in_meta i)\<lparr>om_labels := [(EncompassedByLabel, ''parent'')],
            om_annotations := [(SubinstallationNameAnnotation, name)]\<rparr>\<rparr>)"

definition sub_run :: "installation list \<Rightarrow> gerr option \<times> string inst_operation \<times> (cluster \<times> api_write list)" where
  "sub_run subs = sub_Ensure example_sub_env (logged example_client) parent_op (installation_cluster (parent_inst # subs) [], [])"

lemma sub_runs:
  "length (snd (snd (snd (sub_run [old_sub ''old'' PhSucceeded])))) = 1
   \<and> (case snd (snd (snd (sub_run []))) of CreateInst s # l \<Rightarrow> in_context (in_spec s) = ''default'' | _ \<Rightarrow> False)
   \<and> map no_name (ins_installationReferences (in_status (io_inst (fst (snd (sub_run [old_sub ''sub'' PhSucceeded])))))) = [''sub'', ''sub'']"
  by code_simp

lemmas sub_run_writes = conjunct1 [OF sub_runs]

lemma example_status_keeps_name: "status_keeps_name example_client"
  by (auto simp: status_keeps_name_def example_client_def store_client_def store_replace_def Let_def split: option.splits)


text \<open>
  A parent in the context \<open>production\<close> gets a sub-installation in the context \<open>default\<close>.
\<close>

lemma parent_context_is_lost:
  "in_context (in_spec parent_inst) = ''production''
   \<and> (\<exists>s. CreateInst s \<in> set (snd (snd (snd (sub_run [])))) \<and> in_context (in_spec s) = ''default'')"
proof -
  have "in_context (in_spec parent_inst) = ''production''" by code_simp
  moreover have "(case snd (snd (snd (sub_run []))) of CreateInst s # l \<Rightarrow> in_context (in_spec s) = ''default'' | _ \<Rightarrow> False)"
    using sub_runs by blast
  then have "\<exists>s. CreateInst s \<in> set (snd (snd (snd (sub_run [])))) \<and> in_context (in_spec s) = ''default''"
    by (auto split: list.splits api_write.splits)
  ultimately show ?thesis ..
qed

text \<open>After an update of a sub-installation that exists, the status refers to it twice.\<close>

lemma references_are_doubled:
  "map no_name (ins_installationReferences (in_status (io_inst (fst (snd (sub_run [old_sub ''sub'' PhSucceeded]))))))
     = [''sub'', ''sub'']"
  using sub_runs by blast

end
