(* ===== verification/InstallationExecutions.thy ===== *)
theory InstallationExecutions
  imports Subinstallations
begin

text \<open>
  The execution of an installation (\<open>pkg/landscaper/installations/executions\<close>): rendering the templates of
  deploy items, resolving their targets, creating or updating the execution, reading its exports. The
  theorem connects it with the validation of executions.
\<close>

section \<open>Deploy item specifications (executions/template/template.go)\<close>

record target_reference =
  tr_name :: string
  tr_import :: string
  tr_index :: "int option"

record deploy_item_specification =
  sp_name :: string
  sp_type :: string
  sp_target :: "target_reference option"
  sp_labels :: smap
  sp_configuration :: "string option"
  sp_dependsOn :: "string list"

section \<open>Templates of an execution (executions/operation.go)\<close>

text \<open>
  The template engine renders the specifications; the check of label values, the aggregate of errors
  and the controller reference come from libraries.
\<close>

record ('w, 'j) exec_env =
  ee_render :: "'j inst_operation \<Rightarrow> 'w \<Rightarrow> (gerr + deploy_item_specification list) \<times> 'w"
  ee_labels :: label_validator
  ee_aggregate :: "field_error list \<Rightarrow> gerr"
  ee_setOwner :: "installation \<Rightarrow> object_meta \<Rightarrow> gerr + object_meta"

definition ReconcileExecutionCondition :: string where
  "ReconcileExecutionCondition = ''ReconcileExecution''"

definition TemplatingFailedReason :: string where
  "TemplatingFailedReason = ''TemplatingFailed''"

definition deployItemSpecificationError :: "string \<Rightarrow> string \<Rightarrow> gerr" where
  "deployItemSpecificationError name msg = PlainError (''invalid deployitem specification '' @ go_quote name @ '': '' @ msg)"

text \<open>The reference to the object of an imported target.\<close>

definition target_object :: "imported_target \<Rightarrow> object_reference" where
  "target_object t = \<lparr>or_name = om_name (tg_meta (mt_raw t)), or_namespace = om_namespace (tg_meta (mt_raw t))\<rparr>"

definition resolve_target ::
    "'j inst_operation \<Rightarrow> string \<Rightarrow> target_reference \<Rightarrow> gerr + object_reference" where
  "resolve_target o1 name ref =
     (case tr_index ref of
        Some k \<Rightarrow>
          (case map_of (io_targetLists o1) (tr_import ref) of
             None \<Rightarrow> Inl (deployItemSpecificationError name (''targetlist import '' @ go_quote (tr_import ref) @ '' not found''))
           | Some ts \<Rightarrow>
               if k < 0 \<or> k \<ge> int (length ts)
               then Inl (deployItemSpecificationError name (''index '' @ show_int k @ '' out of bounds''))
               else Inr (target_object (ts ! nat k)))
      | None \<Rightarrow>
          if tr_import ref \<noteq> []
          then (case map_of (io_targets o1) (tr_import ref) of
                  None \<Rightarrow> Inl (deployItemSpecificationError name (''target import '' @ go_quote (tr_import ref) @ '' not found''))
                | Some t \<Rightarrow> Inr (target_object t))
          else if tr_name ref = [] then Inl (deployItemSpecificationError name ''empty target reference'')
          else Inr \<lparr>or_name = tr_name ref, or_namespace = om_namespace (in_meta (io_inst o1))\<rparr>)"

definition template_of :: "deploy_item_specification \<Rightarrow> object_reference option \<Rightarrow> deploy_item_template" where
  "template_of e target =
     \<lparr>dt_name = sp_name e, dt_type = sp_type e, dt_target = target, dt_labels = sp_labels e,
      dt_configuration = sp_configuration e, dt_dependsOn = sp_dependsOn e\<rparr>"

fun exec_templates :: "'j inst_operation \<Rightarrow> deploy_item_specification list \<Rightarrow> gerr + deploy_item_template list" where
  "exec_templates o1 [] = Inr []"
| "exec_templates o1 (e # es) =
     (case (case sp_target e of
              None \<Rightarrow> Inr None
            | Some ref \<Rightarrow> (case resolve_target o1 (sp_name e) ref of Inl x \<Rightarrow> Inl x | Inr t \<Rightarrow> Inr (Some t))) of
        Inl x \<Rightarrow> Inl x
      | Inr target \<Rightarrow>
          (case exec_templates o1 es of Inl x \<Rightarrow> Inl x | Inr ts \<Rightarrow> Inr (template_of e target # ts)))"

definition exec_condition :: "time \<Rightarrow> installation \<Rightarrow> condition" where
  "exec_condition now inst = GetOrInitCondition now (ins_conditions (in_status inst)) ReconcileExecutionCondition"

definition templating_failed :: "time \<Rightarrow> condition \<Rightarrow> string \<Rightarrow> 'j inst_operation \<Rightarrow> 'j inst_operation" where
  "templating_failed now cond msg o1 =
     op_inst (inst_merge_conditions [UpdatedCondition now cond ConditionFalse TemplatingFailedReason msg []]) o1"

text \<open>
  The reference of the component descriptor is injected into the installation of the operation itself.
\<close>

definition injected :: "'j inst_operation \<Rightarrow> 'j inst_operation" where
  "injected o1 = op_inst (InjectComponentDescriptorRef (cx_external (io_context o1))) o1"

text \<open>
  \<open>None\<close> is the \<open>nil\<close> list, without an error. The search for cycles in the validation always
  ends, so its result is a list of errors.
\<close>

definition RenderDeployItemTemplates ::
    "('w, 'j) exec_env \<Rightarrow> 'w kube_client \<Rightarrow> 'j inst_operation \<Rightarrow> 'w
      \<Rightarrow> (gerr + deploy_item_template list option) \<times> 'j inst_operation \<times> 'w" where
  "RenderDeployItemTemplates env c o0 w =
     (let cond = exec_condition (kc_now c w) (io_inst o0);
          o1 = injected o0
      in case ee_render env o1 w of
           (Inl e, w1) \<Rightarrow>
             (Inl (wrap ''unable to template executions'' e), templating_failed (kc_now c w1) cond ''Unable to template executions'' o1, w1)
         | (Inr [], w1) \<Rightarrow> (Inr None, o1, w1)
         | (Inr (e # es), w1) \<Rightarrow>
             (case exec_templates o1 (e # es) of
                Inl x \<Rightarrow> (Inl x, templating_failed (kc_now c w1) cond (error_string x) o1, w1)
              | Inr ts \<Rightarrow>
                  (case ValidateDeployItemTemplateList (ee_labels env) (path_New ''deployExecutions'') ts of
                     Some [] \<Rightarrow> (Inr (Some ts), o1, w1)
                   | errs \<Rightarrow>
                       (let x = wrap ''error validating deployitem templates'' (ee_aggregate env (case errs of Some es \<Rightarrow> es | None \<Rightarrow> []))
                        in (Inl x, templating_failed (kc_now c w1) cond (error_string x) o1, w1)))))"

section \<open>Ensure\<close>

text \<open>
  The conversion of the templates to the versioned type (\<open>apis/core/v1alpha1/conversion.go\<close>) copies the fields of each
  template and never returns an error; the model has one type for both.
\<close>

definition new_execution :: "installation \<Rightarrow> execution" where
  "new_execution inst =
     \<lparr>ex_meta = empty_meta\<lparr>om_name := om_name (in_meta inst), om_namespace := om_namespace (in_meta inst)\<rparr>,
      ex_spec = \<lparr>ex_context = [], ex_deployItems = [], ex_registryPullSecrets = in_registryPullSecrets (in_spec inst)\<rparr>,
      ex_status = \<lparr>es_phase = PhEmpty, es_observedGeneration = 0, es_conditions = [], es_lastError = None,
                   es_exportReference = None, es_deployItemReferences = [], es_executionGenerations = []\<rparr>\<rparr>"

definition mutate_execution ::
    "('w, 'j) exec_env \<Rightarrow> installation \<Rightarrow> deploy_item_template list \<Rightarrow> execution \<Rightarrow> gerr + execution" where
  "mutate_execution env inst tmpls exec =
     (let e1 = exec\<lparr>ex_spec := (ex_spec exec)\<lparr>ex_context := in_context (in_spec inst), ex_deployItems := tmpls\<rparr>,
            ex_meta := SetMetaDataAnnotation (ex_meta exec) OperationAnnotation
              (if HasOperation (in_meta inst) ForceReconcileOperation then ForceReconcileOperation else ReconcileOperation)\<rparr>
      in case ee_setOwner env inst (ex_meta e1) of
           Inl e \<Rightarrow> Inl e
         | Inr m \<Rightarrow> Inr (SetDefaults_Execution (e1\<lparr>ex_meta := m\<rparr>)))"

definition op_set_status ::
    "'w kube_client \<Rightarrow> phase \<Rightarrow> condition \<Rightarrow> 'j inst_operation \<Rightarrow> 'w \<Rightarrow> gerr option \<times> 'j inst_operation \<times> 'w" where
  "op_set_status c p cond o1 w =
     (case UpdateInstallationStatus c (io_inst o1) p [cond] w of (r, inst1, w1) \<Rightarrow> (r, o1\<lparr>io_inst := inst1\<rparr>, w1))"

definition exec_Ensure ::
    "('w, 'j) exec_env \<Rightarrow> 'w kube_client \<Rightarrow> 'j inst_operation \<Rightarrow> 'w
      \<Rightarrow> gerr option \<times> 'j inst_operation \<times> 'w" where
  "exec_Ensure env c o0 w =
     (case RenderDeployItemTemplates env c o0 w of
        (Inl e, o1, w1) \<Rightarrow> (Some e, o1, w1)
      | (Inr None, o1, w1) \<Rightarrow> (None, o1, w1)
      | (Inr (Some tmpls), o1, w1) \<Rightarrow>
          (let inst = io_inst o1;
               cond = exec_condition (kc_now c w1) inst
           in case CreateOrUpdate (kc_executions c) ex_meta (\<lambda>_. mutate_execution env inst tmpls) (new_execution inst) w1 of
                (Inl e, w2) \<Rightarrow>
                  (case op_set_status c PhProgressing (UpdatedCondition (kc_now c w2) cond ConditionFalse ''CreateOrUpdateExecution''
                          ''Unable to create or update execution'' []) o1 w2 of
                     (r, o2, w3) \<Rightarrow> (Some e, o2, w3))
              | (Inr (result, exec), w2) \<Rightarrow>
                  (let o2 = op_inst (\<lambda>i. i\<lparr>in_status := (in_status i)\<lparr>ins_executionReference :=
                          Some \<lparr>or_name = om_name (ex_meta exec), or_namespace = om_namespace (ex_meta exec)\<rparr>\<rparr>\<rparr>) o1
                   in op_set_status c (ins_phase (in_status (io_inst o2))) (UpdatedCondition (kc_now c w2) cond ConditionTrue
                        ''ExecutionDeployed'' ''Deployed execution item'' []) o2 w2)))"

text \<open>The exported values of the execution; \<open>None\<close> where there is no execution.\<close>

definition GetExportedValues ::
    "'j inst_env \<Rightarrow> 'w kube_client \<Rightarrow> installation \<Rightarrow> 'w \<Rightarrow> (gerr + 'j imported_data option) \<times> 'w" where
  "GetExportedValues env c inst w =
     (case rc_get (kc_executions c) (ObjectKey (om_name (in_meta inst)) (om_namespace (in_meta inst))) w of
        (Inl e, w1) \<Rightarrow> (if IsNotFound e then Inr None else Inl e, w1)
      | (Inr exec, w1) \<Rightarrow>
          (case rc_get (kc_dataObjects c) (ObjectKey (GenerateDataObjectName (ie_digest env)
                  (DataObjectSourceFromExecution exec) []) (om_namespace (in_meta inst))) w1 of
             (Inl e, w2) \<Rightarrow> (Inl e, w2)
           | (Inr raw, w2) \<Rightarrow> (case NewFromDataObject env raw of Inl e \<Rightarrow> Inl e | Inr d \<Rightarrow> Inr (Some d), w2)))"


section \<open>Properties\<close>

text \<open>
  The object of the target of a specification, stated without the code: the element of an imported list at the index,
  the imported target, or the target of that name in the namespace of the installation.
\<close>

inductive resolved_target :: "'j inst_operation \<Rightarrow> target_reference option \<Rightarrow> object_reference option \<Rightarrow> bool" for o1 where
  no_target: "resolved_target o1 None None"
| list_element: "tr_index r = Some k \<Longrightarrow> (tr_import r, ts) \<in> set (io_targetLists o1) \<Longrightarrow>
    \<forall>x. (tr_import r, x) \<in> set (io_targetLists o1) \<longrightarrow> x = ts \<Longrightarrow> 0 \<le> k \<Longrightarrow> nat k < length ts \<Longrightarrow>
    resolved_target o1 (Some r) (Some (target_object (ts ! nat k)))"
| imported: "tr_index r = None \<Longrightarrow> tr_import r \<noteq> [] \<Longrightarrow> (tr_import r, t) \<in> set (io_targets o1) \<Longrightarrow>
    \<forall>x. (tr_import r, x) \<in> set (io_targets o1) \<longrightarrow> x = t \<Longrightarrow> resolved_target o1 (Some r) (Some (target_object t))"
| named: "tr_index r = None \<Longrightarrow> tr_import r = [] \<Longrightarrow> tr_name r \<noteq> [] \<Longrightarrow>
    resolved_target o1 (Some r) (Some \<lparr>or_name = tr_name r, or_namespace = om_namespace (in_meta (io_inst o1))\<rparr>)"

definition template_for :: "'j inst_operation \<Rightarrow> deploy_item_specification \<Rightarrow> deploy_item_template \<Rightarrow> bool" where
  "template_for o1 e t \<longleftrightarrow> dt_name t = sp_name e \<and> dt_type t = sp_type e \<and> dt_labels t = sp_labels e
     \<and> dt_configuration t = sp_configuration e \<and> dt_dependsOn t = sp_dependsOn e \<and> resolved_target o1 (sp_target e) (dt_target t)"

lemma distinct_keys_unique: "distinct (map fst xs) \<Longrightarrow> (k, a) \<in> set xs \<Longrightarrow> (k, b) \<in> set xs \<Longrightarrow> a = b"
  by (metis map_of_is_SomeI option.inject)

lemma resolve_target_resolved:
  assumes d: "distinct (map fst (io_targetLists o1))" "distinct (map fst (io_targets o1))" and r: "resolve_target o1 n ref = Inr t"
  shows "resolved_target o1 (Some ref) (Some t)"
proof (cases "tr_index ref")
  case (Some k)
  with r obtain ts where m: "map_of (io_targetLists o1) (tr_import ref) = Some ts" "0 \<le> k" "nat k < length ts" "t = target_object (ts ! nat k)"
    by (auto simp: resolve_target_def split: option.splits if_splits)
  from list_element [OF Some map_of_SomeD [OF m(1)] _ m(2,3)] distinct_keys_unique [OF d(1) _ map_of_SomeD [OF m(1)]] m(4)
  show ?thesis by blast
next
  case None
  show ?thesis
  proof (cases "tr_import ref = []")
    case True
    with None r named [OF None True] show ?thesis by (auto simp: resolve_target_def split: if_splits)
  next
    case False
    with None r obtain x where m: "map_of (io_targets o1) (tr_import ref) = Some x" "t = target_object x"
      by (auto simp: resolve_target_def split: option.splits)
    from imported [OF None False map_of_SomeD [OF m(1)]] distinct_keys_unique [OF d(2) _ map_of_SomeD [OF m(1)]] m(2)
    show ?thesis by blast
  qed
qed

lemma exec_templates_for:
  assumes "distinct (map fst (io_targetLists o1))" "distinct (map fst (io_targets o1))"
  shows "exec_templates o1 es = Inr ts \<Longrightarrow> list_all2 (template_for o1) es ts"
proof (induction es arbitrary: ts)
  case (Cons e es)
  then obtain target ts1 where t: "ts = template_of e target # ts1" "exec_templates o1 es = Inr ts1"
    and r: "(case sp_target e of None \<Rightarrow> Inr None
      | Some ref \<Rightarrow> (case resolve_target o1 (sp_name e) ref of Inl x \<Rightarrow> Inl x | Inr t \<Rightarrow> Inr (Some t))) = Inr target"
    by (auto split: sum.splits)
  from r have "resolved_target o1 (sp_target e) target"
    by (auto intro: no_target dest: resolve_target_resolved [OF assms] split: option.splits sum.splits)
  with Cons.IH [OF t(2)] t(1) show ?case by (simp add: template_for_def template_of_def)
qed simp

definition keeps_annotations :: "('w, 'j) exec_env \<Rightarrow> bool" where
  "keeps_annotations env \<longleftrightarrow> (\<forall>inst m m'. ee_setOwner env inst m = Inr m' \<longrightarrow> om_annotations m' = om_annotations m)"

text \<open>The execution that an installation with these templates should have.\<close>

definition execution_of :: "installation \<Rightarrow> deploy_item_template list \<Rightarrow> execution \<Rightarrow> bool" where
  "execution_of inst ts e \<longleftrightarrow>
     ObjectKeyFromObject (ex_meta e) = ObjectKeyFromObject (in_meta inst)
   \<and> ex_deployItems (ex_spec e) = ts
   \<and> ex_context (ex_spec e) = (if in_context (in_spec inst) = [] then DefaultContextName else in_context (in_spec inst))
   \<and> HasOperation (ex_meta e)
       (if HasOperation (in_meta inst) ForceReconcileOperation then ForceReconcileOperation else ReconcileOperation)"

fun exec_write :: "installation \<Rightarrow> deploy_item_template list \<Rightarrow> api_write \<Rightarrow> bool" where
  "exec_write inst ts (CreateExec e) = execution_of inst ts e"
| "exec_write inst ts (UpdateExec e) = execution_of inst ts e"
| "exec_write inst ts (StatusUpdateInst i) = (in_meta i = in_meta inst)"
| "exec_write inst ts _ = False"

lemma SetDefaults_Execution_sel [simp]:
  "ex_meta (SetDefaults_Execution e) = ex_meta e"
  "ex_deployItems (ex_spec (SetDefaults_Execution e)) = ex_deployItems (ex_spec e)"
  by (simp_all add: SetDefaults_Execution_def)

lemma mutate_execution_of:
  assumes "keeps_annotations env" "mutate_execution env inst ts e = Inr e'"
    and "ObjectKeyFromObject (ex_meta e') = ObjectKeyFromObject (in_meta inst)"
  shows "execution_of inst ts e'"
proof -
  let ?op = "if HasOperation (in_meta inst) ForceReconcileOperation then ForceReconcileOperation else ReconcileOperation"
  let ?m = "SetMetaDataAnnotation (ex_meta e) OperationAnnotation ?op"
  from assms(2) obtain m where m: "ee_setOwner env inst ?m = Inr m"
    and e': "e' = SetDefaults_Execution (e\<lparr>ex_spec := (ex_spec e)\<lparr>ex_context := in_context (in_spec inst), ex_deployItems := ts\<rparr>,
      ex_meta := m\<rparr>)"
    by (auto simp: mutate_execution_def Let_def split: sum.splits)
  from assms(1) m have "om_annotations m = om_annotations ?m" unfolding keeps_annotations_def by blast
  then have "HasOperation m ?op"
    by (simp add: HasOperation_def SetMetaDataAnnotation_def)
  with assms(3) show ?thesis
    unfolding e' by (auto simp: execution_of_def SetDefaults_Execution_def)
qed

lemma RenderDeployItemTemplates_Some:
  assumes "RenderDeployItemTemplates env c o0 s = (Inr (Some ts), o1, s1)"
  shows "o1 = injected o0 \<and> s1 = snd (ee_render env (injected o0) s) \<and> ts \<noteq> []
    \<and> ValidateDeployItemTemplateList (ee_labels env) (path_New ''deployExecutions'') ts = Some []
    \<and> (\<exists>es. fst (ee_render env (injected o0) s) = Inr es \<and> exec_templates (injected o0) es = Inr ts)"
proof -
  obtain x s2 where x: "ee_render env (injected o0) s = (x, s2)" by (cases "ee_render env (injected o0) s")
  have ne: "exec_templates o' (e # es) = Inr ts \<Longrightarrow> ts \<noteq> []" for o' e es
    by (auto split: sum.splits)
  from assms x show ?thesis
    by (auto simp: RenderDeployItemTemplates_def Let_def dest: ne split: sum.splits list.splits option.splits)
qed

lemma RenderDeployItemTemplates_world:
  "snd (snd (RenderDeployItemTemplates env c o0 s)) = snd (ee_render env (injected o0) s)"
  by (simp add: RenderDeployItemTemplates_def Let_def case_prod_beta split: sum.split list.split option.split)

lemma injected_meta [simp]: "in_meta (io_inst (injected o1)) = in_meta (io_inst o1)"
  "in_context (in_spec (io_inst (injected o1))) = in_context (in_spec (io_inst o1))"
  by (simp_all add: injected_def op_inst_def InjectComponentDescriptorRef_def split: option.split)

lemma op_set_status_writes:
  assumes "op_set_status (logged c) p cond o1 s = (r, o2, s')" "in_meta (io_inst o1) = in_meta inst"
  shows "writes_only (exec_write inst ts) s s'"
proof -
  have "snd (snd (snd (op_set_status (logged c) p cond o1 s)))
      = snd s @ [StatusUpdateInst (inst_merge_conditions [cond] (inst_phase p (io_inst o1)))]"
    by (simp add: op_set_status_def UpdateInstallationStatus_def Let_def case_prod_beta logged_call_def split: sum.split)
  then show ?thesis using assms by (simp add: writes_only_def inst_merge_conditions_def inst_phase_def)
qed

lemma CreateOrUpdate_named:
  "om_name (meta obj) \<noteq> [] \<or> om_generateName (meta obj) = [] \<Longrightarrow> CreateOrUpdate c meta f obj s = controllerutil_CreateOrUpdate c meta f obj s"
  by (auto simp: CreateOrUpdate_def)

lemma exec_Ensure_log:
  assumes "keeps_annotations env" and run: "exec_Ensure env (logged c) o1 s0 = (r, o2, (w', l))"
  shows "\<exists>l1. l = snd (snd (ee_render env (injected o1) s0)) @ l1 \<and> (l1 \<noteq> [] \<longrightarrow>
    (\<exists>es ts. fst (ee_render env (injected o1) s0) = Inr es \<and> exec_templates (injected o1) es = Inr ts \<and> ts \<noteq> []
      \<and> ValidateDeployItemTemplateList (ee_labels env) (path_New ''deployExecutions'') ts = Some []
      \<and> list_all (exec_write (io_inst o1) ts) l1))"
proof -
  obtain x o3 s1 where x: "RenderDeployItemTemplates env (logged c) o1 s0 = (x, o3, s1)" by (rule prod_cases3)
  have s1: "s1 = snd (ee_render env (injected o1) s0)"
    using RenderDeployItemTemplates_world [of env "logged c" o1 "s0"] unfolding x by simp
  show ?thesis
  proof (cases "\<exists>ts. x = Inr (Some ts)")
    case False
    then have "(w', l) = s1"
      using run x by (auto simp: exec_Ensure_def split: sum.splits option.splits)
    then show ?thesis using s1 by (metis append_Nil2 snd_conv)
  next
    case True
    then obtain ts where ts: "x = Inr (Some ts)" ..
    note p = RenderDeployItemTemplates_Some [OF x [unfolded ts]]
    let ?inst = "io_inst o1" and ?i = "io_inst o3"
    have o3: "o3 = injected o1" using p ..
    have i: "in_meta ?i = in_meta ?inst" "in_context (in_spec ?i) = in_context (in_spec ?inst)" unfolding o3 by simp_all
    have of: "execution_of ?i ts e = execution_of ?inst ts e" for e by (simp add: execution_of_def i)
    let ?f = "\<lambda>_. mutate_execution env ?i ts"
    have key: "ObjectKeyFromObject (ex_meta (new_execution ?i)) = ObjectKeyFromObject (in_meta ?inst)"
      by (simp add: new_execution_def ObjectKeyFromObject_def i)
    obtain y s2 where y: "CreateOrUpdate (kc_executions (logged c)) ex_meta ?f (new_execution ?i) s1 = (y, s2)"
      by (cases "CreateOrUpdate (kc_executions (logged c)) ex_meta ?f (new_execution ?i) s1")
    have "controllerutil_CreateOrUpdate (kc_executions (logged c)) ex_meta ?f (new_execution ?i) s1 = (y, s2)"
      using y by (simp add: CreateOrUpdate_def new_execution_def empty_meta_def)
    then have s2: "writes_only (exec_write ?inst ts) s1 s2"
      unfolding logged_sel
      by (rule controllerutil_writes_mutated)
        (use mutate_execution_of [OF assms(1), of ?i ts] key i of in \<open>simp_all\<close>)
    have s': "writes_only (exec_write ?inst ts) s2 (w', l)"
    proof (cases y)
      case (Inl e)
      with run x ts y obtain r1 where "op_set_status (logged c) PhProgressing (UpdatedCondition (kc_now (logged c) s2)
          (exec_condition (kc_now (logged c) s1) ?i) ConditionFalse ''CreateOrUpdateExecution''
          ''Unable to create or update execution'' []) o3 s2 = (r1, o2, (w', l))"
        by (auto simp: exec_Ensure_def Let_def split: prod.splits)
      then show ?thesis by (rule op_set_status_writes) (rule i)
    next
      case (Inr z)
      obtain res e where z: "z = (res, e)" by (cases z)
      let ?o = "op_inst (\<lambda>i. i\<lparr>in_status := (in_status i)\<lparr>ins_executionReference :=
        Some \<lparr>or_name = om_name (ex_meta e), or_namespace = om_namespace (ex_meta e)\<rparr>\<rparr>\<rparr>) o3"
      have "op_set_status (logged c) (ins_phase (in_status (io_inst ?o))) (UpdatedCondition (kc_now (logged c) s2)
          (exec_condition (kc_now (logged c) s1) ?i) ConditionTrue ''ExecutionDeployed'' ''Deployed execution item'' []) ?o s2
          = (r, o2, (w', l))"
        using run x ts y Inr z by (simp add: exec_Ensure_def Let_def)
      then show ?thesis by (rule op_set_status_writes) (simp add: op_inst_def i)
    qed
    from writes_only_trans [OF s2 s'] obtain l1 where "l = snd s1 @ l1" "list_all (exec_write ?inst ts) l1"
      by (auto simp: writes_only_def)
    with p show ?thesis unfolding s1 by blast
  qed
qed

text \<open>
  C28: executions hold accepted templates. Whatever \<open>Ensure\<close> writes after the rendering of the specifications, it
  writes for templates that correspond one to one to the specifications, with the object that the target of each
  specification means, and that the validation of executions accepts: an
  execution with the name of the installation, exactly these templates, its context and the request
  for a reconcile (a forced one where the installation has it), and the status of the installation. If the target of
  one specification does not exist, nothing is written. The imported targets have different names, as in a Go map.
\<close>

theorem executions_hold_accepted_templates:
  assumes "keeps_annotations env" and run: "exec_Ensure env (logged c) o1 (w, []) = (r, o2, (w', l))"
    and maps: "distinct (map fst (io_targetLists o1))" "distinct (map fst (io_targets o1))"
  shows "\<exists>l1. l = snd (snd (ee_render env (injected o1) (w, []))) @ l1 \<and> (l1 \<noteq> [] \<longrightarrow>
    (\<exists>es ts. fst (ee_render env (injected o1) (w, [])) = Inr es \<and> list_all2 (template_for o1) es ts \<and> ts \<noteq> []
      \<and> ValidateDeployItemTemplateList (ee_labels env) (path_New ''deployExecutions'') ts = Some []
      \<and> list_all (exec_write (io_inst o1) ts) l1))"
proof -
  have "io_targetLists (injected o1) = io_targetLists o1" "io_targets (injected o1) = io_targets o1"
    by (simp_all add: injected_def op_inst_def)
  moreover have "resolved_target (injected o1) = resolved_target o1"
    by (intro ext) (simp add: resolved_target.simps calculation)
  then have "template_for (injected o1) = template_for o1" by (intro ext) (simp add: template_for_def)
  ultimately have "exec_templates (injected o1) es = Inr ts \<Longrightarrow> list_all2 (template_for o1) es ts" for es ts
    using exec_templates_for [of "injected o1" es ts] maps by simp
  with exec_Ensure_log [OF assms(1) run] show ?thesis by blast
qed

section \<open>Example\<close>

text \<open>A specification whose target is the second element of an imported list of targets.\<close>

definition example_specification :: deploy_item_specification where
  "example_specification = \<lparr>sp_name = ''item'', sp_type = ''landscaper.gardener.cloud/mock'',
     sp_target = Some \<lparr>tr_name = [], tr_import = ''clusters'', tr_index = Some 1\<rparr>, sp_labels = [],
     sp_configuration = Some ''{}'', sp_dependsOn = []\<rparr>"

definition example_exec_env :: "('w, string) exec_env" where
  "example_exec_env = \<lparr>ee_render = (\<lambda>o1 w. (Inr [example_specification], w)), ee_labels = (\<lambda>p m. []),
     ee_aggregate = (\<lambda>es. PlainError []), ee_setOwner = (\<lambda>i m. Inr m)\<rparr>"

definition target_named :: "string \<Rightarrow> imported_target" where
  "target_named name = NewFromTarget example_inst_env \<lparr>tg_meta = empty_meta\<lparr>om_name := name, om_namespace := ''ns''\<rparr>,
     tg_spec = \<lparr>tg_type = ''t'', tg_configuration = None\<rparr>\<rparr>"

definition exec_run :: "gerr option \<times> string inst_operation \<times> (cluster \<times> api_write list)" where
  "exec_run = exec_Ensure example_exec_env (logged example_client)
     (parent_op\<lparr>io_targetLists := [(''clusters'', [target_named ''a'', target_named ''b''])]\<rparr>)
     (installation_cluster [parent_inst] [], [])"

lemma exec_run_writes:
  "(case snd (snd (snd exec_run)) of
      [CreateExec e, StatusUpdateInst i] \<Rightarrow> map dt_target (ex_deployItems (ex_spec e)) = [Some (ObjectKey ''b'' ''ns'')]
    | _ \<Rightarrow> False)"
  by code_simp

lemma executions_hold_accepted_templates_witness:
  "\<exists>ts. ts \<noteq> [] \<and> ValidateDeployItemTemplateList (\<lambda>p m. []) (path_New ''deployExecutions'') ts = Some []
     \<and> list_all (exec_write parent_inst ts) (snd (snd (snd exec_run)))"
proof -
  obtain r o2 w l where run: "exec_run = (r, o2, (w, l))" by (metis prod.collapse)
  have "l \<noteq> []" using exec_run_writes unfolding run by auto
  moreover have "keeps_annotations example_exec_env" by (simp add: keeps_annotations_def example_exec_env_def)
  ultimately show ?thesis
    using executions_hold_accepted_templates [OF _ run [unfolded exec_run_def]] unfolding run
    by (auto simp: example_exec_env_def parent_op_def)
qed

end
