(* ===== verification/ImportConstruction.thy ===== *)
theory ImportConstruction
  imports SiblingChecks
begin

text \<open>
  The construction of the values of the imports
  (\<open>pkg/landscaper/installations/imports/constructor.go\<close>), and its equivalence with the definition of
  what a correct set of imports is.
\<close>

section \<open>Construction of the imports (imports/constructor.go)\<close>

text \<open>
  The values that have been read for the imports, by name; the data of a target, a target list or a
  component descriptor is converted by a library, which may fail. The schema validator, the type of
  a target and the elements of a list come from libraries too.
\<close>

record 'j import_values =
  iv_mappings :: "(string \<times> 'j) list"
  iv_dataObjects :: "(string \<times> 'j) list"
  iv_targets :: "(string \<times> (gerr + 'j)) list"
  iv_targetLists :: "(string \<times> (gerr + 'j)) list"
  iv_componentDescriptors :: "(string \<times> (gerr + 'j)) list"
  iv_componentDescriptorLists :: "(string \<times> (gerr + 'j)) list"

record 'j schema_env =
  se_validator :: "string \<Rightarrow> gerr + ('j \<Rightarrow> gerr option)"
  se_specType :: "'j \<Rightarrow> gerr + string"
  se_elements :: "'j \<Rightarrow> 'j list option"

definition child_path :: "string \<Rightarrow> string \<Rightarrow> string" where
  "child_path path name = path @ ''.'' @ name"

definition SchemaValidationFailed :: "string \<Rightarrow> gerr option \<Rightarrow> gerr" where
  "SchemaValidationFailed msg e = NewInstError ''SchemaValidationFailed'' msg e"

definition not_satisfied :: "string \<Rightarrow> string \<Rightarrow> gerr" where
  "not_satisfied name ty = NewImportNotFoundError (''blueprint defines import '' @ go_quote name @ '' of type '' @ ty
     @ '', which is not satisfied'') None"

text \<open>A missing import: nothing, if it is not required.\<close>

definition missing_import :: "import_definition \<Rightarrow> (string \<times> 'j) list \<Rightarrow> (string \<times> 'j) list outcome" where
  "missing_import def imports =
     (if id_required def = Some False then Done imports
      else Fail (not_satisfied (fv_name (id_fieldValue def)) (id_type def)))"

definition check_data :: "'j schema_env \<Rightarrow> string \<Rightarrow> string option \<Rightarrow> 'j \<Rightarrow> unit outcome" where
  "check_data se path schema v =
     (case schema of
        None \<Rightarrow> Panic
      | Some s \<Rightarrow>
          (case se_validator se s of
             Inl e \<Rightarrow> Fail (SchemaValidationFailed (path @ '': validator creation failed'') (Some e))
           | Inr validate \<Rightarrow>
               (case validate v of
                  Some e \<Rightarrow> Fail (SchemaValidationFailed (path @ '': imported datatype does not have the expected schema'') (Some e))
                | None \<Rightarrow> Done ())))"

definition check_targetType :: "'j schema_env \<Rightarrow> string \<Rightarrow> string \<Rightarrow> 'j \<Rightarrow> unit outcome" where
  "check_targetType se path expected v =
     (case se_specType se v of
        Inl e \<Rightarrow> Fail (SchemaValidationFailed
                   (path @ '': imported target does not match the expected target template schema'') (Some e))
      | Inr targetType \<Rightarrow>
          if expected \<noteq> targetType
          then Fail (SchemaValidationFailed (path @ '': imported target type is '' @ targetType @ '' but expected '' @ expected) None)
          else Done ())"

fun check_elements :: "'j schema_env \<Rightarrow> string \<Rightarrow> string \<Rightarrow> nat \<Rightarrow> 'j list \<Rightarrow> unit outcome" where
  "check_elements se path expected k [] = Done ()"
| "check_elements se path expected k (v # vs) =
     (case se_specType se v of
        Inl e \<Rightarrow> Fail (SchemaValidationFailed (path @ '': element at position '' @ show_int (int k)
                   @ '' of the imported targetlist does not match the expected target template schema'') (Some e))
      | Inr targetType \<Rightarrow>
          if expected \<noteq> targetType
          then Fail (SchemaValidationFailed (path @ '': type of the element at position '' @ show_int (int k)
                 @ '' of the imported targetlist is '' @ targetType @ '' but expected '' @ expected) None)
          else check_elements se path expected (Suc k) vs)"

definition check_targetList :: "'j schema_env \<Rightarrow> string \<Rightarrow> string \<Rightarrow> 'j \<Rightarrow> unit outcome" where
  "check_targetList se path expected v =
     (case se_elements se v of
        None \<Rightarrow> Fail (SchemaValidationFailed (path @ '': targetlist import is not a list'') None)
      | Some vs \<Rightarrow> check_elements se path expected 0 vs)"

text \<open>A converted value goes into the imports, if there is one.\<close>

definition put_converted ::
    "string \<Rightarrow> string \<Rightarrow> (string \<times> (gerr + 'j)) list \<Rightarrow> string \<Rightarrow> (string \<times> 'j) list \<Rightarrow> gerr + (string \<times> 'j) list" where
  "put_converted path what vals name imports =
     (case map_of vals name of
        None \<Rightarrow> Inr imports
      | Some (Inl e) \<Rightarrow> Inl (SchemaValidationFailed (path @ '': imported '' @ what @ '' cannot be parsed'') (Some e))
      | Some (Inr v) \<Rightarrow> Inr (AList.update name v imports))"

definition converted_import ::
    "string \<Rightarrow> string \<Rightarrow> (string \<times> (gerr + 'j)) list \<Rightarrow> import_definition \<Rightarrow> ('j \<Rightarrow> unit outcome) \<Rightarrow> (string \<times> 'j) list
      \<Rightarrow> (string \<times> 'j) list outcome" where
  "converted_import path what vals def check imports =
     (let name = fv_name (id_fieldValue def)
      in case put_converted path what vals name imports of
           Inl e \<Rightarrow> Fail e
         | Inr imports1 \<Rightarrow>
             (case map_of imports1 name of
                None \<Rightarrow> missing_import def imports1
              | Some v \<Rightarrow> (case check v of Done u \<Rightarrow> Done imports1 | Fail e \<Rightarrow> Fail e | Panic \<Rightarrow> Panic)))"

definition put_data :: "'j import_values \<Rightarrow> string \<Rightarrow> (string \<times> 'j) list \<Rightarrow> (string \<times> 'j) list" where
  "put_data iv name imports =
     (case map_of (iv_mappings iv) name of
        Some v \<Rightarrow> AList.update name v imports
      | None \<Rightarrow> (case map_of (iv_dataObjects iv) name of Some v \<Rightarrow> AList.update name v imports | None \<Rightarrow> imports))"

definition merge_imports :: "(string \<times> 'j) list \<Rightarrow> (string \<times> 'j) list \<Rightarrow> (string \<times> 'j) list" where
  "merge_imports imports additional = foldl (\<lambda>m (k, v). AList.update k v m) imports additional"

fun constructImports ::
    "'j schema_env \<Rightarrow> 'j import_values \<Rightarrow> string \<Rightarrow> (string \<times> 'j) list \<Rightarrow> import_definition list \<Rightarrow> (string \<times> 'j) list outcome" where
  "constructImports se iv path imports [] = Done imports"
| "constructImports se iv path imports (ImportDefinition fv ty required dflt conditional # defs) =
     (let name = fv_name fv;
          defPath = child_path path name;
          def = ImportDefinition fv ty required dflt conditional;
          converted = (\<lambda>what vals check.
             case converted_import defPath what vals def check imports of
               Done imports1 \<Rightarrow> constructImports se iv path imports1 defs
             | Fail e \<Rightarrow> Fail e | Panic \<Rightarrow> Panic)
      in if ty = ''data''
         then (let imports1 = put_data iv name imports
               in case map_of imports1 name of
                    None \<Rightarrow>
                      (case missing_import def imports1 of
                         Done m \<Rightarrow> constructImports se iv path m defs
                       | Fail e \<Rightarrow> Fail e | Panic \<Rightarrow> Panic)
                  | Some v \<Rightarrow>
                      (case check_data se defPath (fv_schema fv) v of
                         Panic \<Rightarrow> Panic
                       | Fail e \<Rightarrow> Fail e
                       | Done u \<Rightarrow>
                           if conditional \<noteq> []
                           then (case constructImports se iv defPath [] conditional of
                                   Panic \<Rightarrow> Panic
                                 | Fail e \<Rightarrow> Fail e
                                 | Done below \<Rightarrow> constructImports se iv path (merge_imports imports1 below) defs)
                           else constructImports se iv path imports1 defs))
         else if ty = ''target''
         then converted ''target'' (iv_targets iv) (check_targetType se defPath (fv_targetType fv))
         else if ty = ''targetList''
         then converted ''target'' (iv_targetLists iv) (check_targetList se defPath (fv_targetType fv))
         else if ty = ''componentDescriptor''
         then converted ''component descriptor'' (iv_componentDescriptors iv) (\<lambda>v. Done ())
         else if ty = ''componentDescriptorList''
         then converted ''component descriptor list'' (iv_componentDescriptorLists iv) (\<lambda>v. Done ())
         else Fail (PlainError (defPath @ '': unknown import type '' @ CHR 0x27 # ty @ [CHR 0x27])))"

section \<open>What is constructed\<close>

text \<open>The value of a definition, by its type, and whether it is a good one.\<close>

definition import_value :: "'j import_values \<Rightarrow> import_definition \<Rightarrow> (gerr + 'j) option" where
  "import_value iv d =
     (let name = fv_name (id_fieldValue d)
      in if id_type d = ''data''
         then (case map_of (iv_mappings iv) name of
                 Some v \<Rightarrow> Some (Inr v)
               | None \<Rightarrow> map_option Inr (map_of (iv_dataObjects iv) name))
         else if id_type d = ''target'' then map_of (iv_targets iv) name
         else if id_type d = ''targetList'' then map_of (iv_targetLists iv) name
         else if id_type d = ''componentDescriptor'' then map_of (iv_componentDescriptors iv) name
         else if id_type d = ''componentDescriptorList'' then map_of (iv_componentDescriptorLists iv) name
         else None)"

definition good_value :: "'j schema_env \<Rightarrow> import_definition \<Rightarrow> 'j \<Rightarrow> bool" where
  "good_value se d v =
     (if id_type d = ''data''
      then \<exists>s validate. fv_schema (id_fieldValue d) = Some s \<and> se_validator se s = Inr validate \<and> validate v = None
      else if id_type d = ''target'' then se_specType se v = Inr (fv_targetType (id_fieldValue d))
      else if id_type d = ''targetList''
      then \<exists>vs. se_elements se v = Some vs \<and> (\<forall>x \<in> set vs. se_specType se x = Inr (fv_targetType (id_fieldValue d)))
      else True)"

definition known_type :: "string \<Rightarrow> bool" where
  "known_type ty \<longleftrightarrow> ty \<in> {''data'', ''target'', ''targetList'', ''componentDescriptor'', ''componentDescriptorList''}"

definition import_ok :: "'j schema_env \<Rightarrow> 'j import_values \<Rightarrow> import_definition \<Rightarrow> bool" where
  "import_ok se iv d \<longleftrightarrow> known_type (id_type d) \<and>
     (case import_value iv d of
        None \<Rightarrow> id_required d = Some False
      | Some (Inl e) \<Rightarrow> False
      | Some (Inr v) \<Rightarrow> good_value se d v)"

text \<open>The definitions that are looked at: the conditional ones only below data that is there.\<close>

fun reached_imports :: "'j import_values \<Rightarrow> import_definition list \<Rightarrow> import_definition list" where
  "reached_imports iv [] = []"
| "reached_imports iv (ImportDefinition fv ty required dflt conditional # defs) =
     ImportDefinition fv ty required dflt conditional
     # (if ty = ''data'' \<and> import_value iv (ImportDefinition fv ty required dflt conditional) \<noteq> None
        then reached_imports iv conditional else [])
     @ reached_imports iv defs"

definition constructed_value :: "'j import_values \<Rightarrow> import_definition list \<Rightarrow> string \<Rightarrow> 'j option" where
  "constructed_value iv ds n =
     (case List.find (\<lambda>d. fv_name (id_fieldValue d) = n) ds of
        None \<Rightarrow> None
      | Some d \<Rightarrow> (case import_value iv d of Some (Inr v) \<Rightarrow> Some v | _ \<Rightarrow> None))"

abbreviation def_name :: "import_definition \<Rightarrow> string" where
  "def_name d \<equiv> fv_name (id_fieldValue d)"

definition def_names :: "import_definition list \<Rightarrow> string list" where
  "def_names defs = map def_name (getFlattenedImports defs)"

lemma def_names_simps [simp]:
  "def_names [] = []"
  "def_names (ImportDefinition fv ty required dflt conditional # defs) = fv_name fv # def_names conditional @ def_names defs"
  by (simp_all add: def_names_def)

lemma reached_names: "def_name ` set (reached_imports iv defs) \<subseteq> set (def_names defs)"
  by (induction iv defs rule: reached_imports.induct) auto

lemma constructed_value_Nil [simp]: "constructed_value iv [] n = None"
  by (simp add: constructed_value_def)

lemma constructed_value_Cons:
  "constructed_value iv (d # ds) n =
     (if n = def_name d then (case import_value iv d of Some (Inr v) \<Rightarrow> Some v | _ \<Rightarrow> None) else constructed_value iv ds n)"
  by (auto simp: constructed_value_def)

lemma constructed_value_append:
  "constructed_value iv (xs @ ys) n =
     (if n \<in> def_name ` set xs then constructed_value iv xs n else constructed_value iv ys n)"
  by (induction xs) (auto simp: constructed_value_Cons)

lemma constructed_value_None: "n \<notin> def_name ` set ds \<Longrightarrow> constructed_value iv ds n = None"
  by (induction ds) (auto simp: constructed_value_Cons)

lemma merge_imports_map:
  "distinct (map fst below) \<Longrightarrow> map_of (merge_imports m0 below) = map_of m0 ++ map_of below"
  unfolding merge_imports_def
proof (induction below arbitrary: m0)
  case (Cons p below)
  obtain k v where p: "p = (k, v)" by (cases p)
  with Cons.prems have "map_of below k = None" by (simp add: map_of_eq_None_iff)
  with Cons p show ?case by (auto simp: update_conv' fun_eq_iff map_add_def split: option.split)
qed simp

lemma merge_imports_distinct: "distinct (map fst m0) \<Longrightarrow> distinct (map fst (merge_imports m0 below))"
  unfolding merge_imports_def by (induction below arbitrary: m0) (auto simp: distinct_update)

subsection \<open>One definition\<close>

lemma check_data_Done:
  "check_data se path schema v = Done () \<longleftrightarrow>
     (\<exists>s validate. schema = Some s \<and> se_validator se s = Inr validate \<and> validate v = None)"
  by (auto simp: check_data_def split: option.split sum.split)

lemma check_targetType_Done: "check_targetType se path expected v = Done () \<longleftrightarrow> se_specType se v = Inr expected"
  by (auto simp: check_targetType_def split: sum.split)

lemma check_elements_Done:
  "check_elements se path expected k vs = Done () \<longleftrightarrow> (\<forall>x \<in> set vs. se_specType se x = Inr expected)"
  by (induction vs arbitrary: k) (auto split: sum.split)

lemma check_targetList_Done:
  "check_targetList se path expected v = Done () \<longleftrightarrow>
     (\<exists>vs. se_elements se v = Some vs \<and> (\<forall>x \<in> set vs. se_specType se x = Inr expected))"
  by (auto simp: check_targetList_def check_elements_Done split: option.split)

lemma missing_import_Done: "missing_import d imports = Done m \<longleftrightarrow> id_required d = Some False \<and> m = imports"
  by (auto simp: missing_import_def)

lemma converted_import_Done:
  assumes "map_of imports (def_name d) = None"
  shows "converted_import path what vals d check imports = Done m \<longleftrightarrow>
    (case map_of vals (def_name d) of
       None \<Rightarrow> id_required d = Some False \<and> m = imports
     | Some (Inl e) \<Rightarrow> False
     | Some (Inr v) \<Rightarrow> check v = Done () \<and> m = AList.update (def_name d) v imports)"
  using assms
  by (cases "map_of vals (def_name d)")
    (auto simp: converted_import_def put_converted_def Let_def missing_import_Done update_conv' split: sum.split outcome.split)

text \<open>What the first definition contributes, and what follows.\<close>

definition below_imports ::
    "'j schema_env \<Rightarrow> 'j import_values \<Rightarrow> string \<Rightarrow> import_definition \<Rightarrow> (string \<times> 'j) list outcome" where
  "below_imports se iv path d =
     (if id_type d = ''data'' then constructImports se iv (child_path path (def_name d)) [] (id_conditionalImports d) else Done [])"

lemma construct_converted:
  assumes "map_of imports (def_name d) = None"
  shows "(case converted_import path what vals d check imports of
      Done imports1 \<Rightarrow> k imports1 | Fail e \<Rightarrow> Fail e | Panic \<Rightarrow> Panic) = Done m \<longleftrightarrow>
    (case map_of vals (def_name d) of
       None \<Rightarrow> id_required d = Some False \<and> k imports = Done m
     | Some (Inl e) \<Rightarrow> False
     | Some (Inr v) \<Rightarrow> check v = Done () \<and> k (AList.update (def_name d) v imports) = Done m)"
proof -
  have "?thesis \<longleftrightarrow> ((\<exists>m1. converted_import path what vals d check imports = Done m1 \<and> k m1 = Done m) \<longleftrightarrow>
    (case map_of vals (def_name d) of
       None \<Rightarrow> id_required d = Some False \<and> k imports = Done m
     | Some (Inl e) \<Rightarrow> False
     | Some (Inr v) \<Rightarrow> check v = Done () \<and> k (AList.update (def_name d) v imports) = Done m))"
    by (cases "converted_import path what vals d check imports") simp_all
  then show ?thesis unfolding converted_import_Done [OF assms]
    by (cases "map_of vals (def_name d)") (auto split: sum.split)
qed

lemma constructImports_Cons:
  assumes "map_of imports (def_name d) = None"
  shows "constructImports se iv path imports (d # defs) = Done m \<longleftrightarrow> known_type (id_type d) \<and>
    (case import_value iv d of
       None \<Rightarrow> id_required d = Some False \<and> constructImports se iv path imports defs = Done m
     | Some (Inl e) \<Rightarrow> False
     | Some (Inr v) \<Rightarrow> good_value se d v \<and> (\<exists>below. below_imports se iv path d = Done below
         \<and> constructImports se iv path (merge_imports (AList.update (def_name d) v imports) below) defs = Done m))"
proof (cases d)
  case (ImportDefinition fv ty required dflt conditional)
  have types: "''data'' \<noteq> ''target''" "''data'' \<noteq> ''targetList''" "''data'' \<noteq> ''componentDescriptor''"
    "''data'' \<noteq> ''componentDescriptorList''" "''target'' \<noteq> ''targetList''" "''target'' \<noteq> ''componentDescriptor''"
    "''target'' \<noteq> ''componentDescriptorList''" "''targetList'' \<noteq> ''componentDescriptor''"
    "''targetList'' \<noteq> ''componentDescriptorList''" "''componentDescriptor'' \<noteq> ''componentDescriptorList''" by simp_all
  have merge_Nil: "merge_imports i [] = i" for i :: "(string \<times> 'a) list" by (simp add: merge_imports_def)
  note fresh = assms [unfolded ImportDefinition]
  consider "ty = ''data''" | "ty = ''target''" | "ty = ''targetList''" | "ty = ''componentDescriptor''"
    | "ty = ''componentDescriptorList''" | "\<not> known_type ty"
    by (auto simp: known_type_def)
  then show ?thesis
  proof cases
    case 1
    show ?thesis
    proof (cases "import_value iv d")
      case None
      with 1 ImportDefinition have "map_of (iv_mappings iv) (fv_name fv) = None" "map_of (iv_dataObjects iv) (fv_name fv) = None"
        by (auto simp: import_value_def Let_def split: option.splits)
      with 1 None ImportDefinition fresh show ?thesis
        by (auto simp: put_data_def known_type_def missing_import_Done Let_def missing_import_def)
    next
      case (Some r)
      with 1 ImportDefinition obtain v where v: "r = Inr v" "put_data iv (fv_name fv) imports = AList.update (fv_name fv) v imports"
        by (auto simp: import_value_def put_data_def Let_def split: option.splits)
      show ?thesis
        using 1 Some v ImportDefinition check_data_Done [of se "child_path path (fv_name fv)" "fv_schema fv" v]
        by (cases "check_data se (child_path path (fv_name fv)) (fv_schema fv) v";
            cases "constructImports se iv (child_path path (fv_name fv)) [] conditional")
          (auto simp: Let_def known_type_def good_value_def below_imports_def update_conv' merge_Nil)
    qed
  qed (use ImportDefinition fresh types in \<open>simp_all add: Let_def construct_converted known_type_def import_value_def
      good_value_def below_imports_def merge_Nil check_targetType_Done check_targetList_Done split: option.split sum.split\<close>)
qed

subsection \<open>All definitions\<close>

lemma below_imports_keys:
  assumes "map_of below = constructed_value iv (reached_imports iv conditional)" and "n \<notin> set (def_names conditional)"
  shows "map_of below n = None"
  using assms reached_names [of iv conditional] by (auto intro!: constructed_value_None)

lemma constructImports_reached:
  assumes "\<forall>n \<in> set (def_names defs). map_of m0 n = None" "distinct (def_names defs)" "distinct (map fst m0)"
  shows "((\<exists>m. constructImports se iv path m0 defs = Done m) \<longleftrightarrow> (\<forall>d \<in> set (reached_imports iv defs). import_ok se iv d))
    \<and> (\<forall>m. constructImports se iv path m0 defs = Done m \<longrightarrow> distinct (map fst m)
         \<and> map_of m = map_of m0 ++ constructed_value iv (reached_imports iv defs))"
  using assms
proof (induction iv defs arbitrary: path m0 rule: reached_imports.induct)
  case (1 iv)
  then show ?case by (auto simp: fun_eq_iff map_add_def)
next
  case (2 iv fv ty required dflt conditional defs)
  let ?d = "ImportDefinition fv ty required dflt conditional"
  have fresh: "map_of m0 (def_name ?d) = None" using "2.prems"(1) by simp
  note Cons = constructImports_Cons [OF fresh, of se iv path defs]
  have rest: "\<forall>n \<in> set (def_names defs). map_of m0 n = None" "distinct (def_names defs)" using "2.prems" by simp_all
  show ?case
  proof (cases "import_value iv ?d")
    case None
    note IH = "2.IH"(2) [OF rest "2.prems"(3), of path]
    have "map_of m0 ++ constructed_value iv (?d # reached_imports iv defs) = map_of m0 ++ constructed_value iv (reached_imports iv defs)"
    proof (rule ext)
      fix n
      have "constructed_value iv (reached_imports iv defs) (fv_name fv) = None"
        using "2.prems"(2) reached_names [of iv defs] by (intro constructed_value_None) auto
      then show "(map_of m0 ++ constructed_value iv (?d # reached_imports iv defs)) n
          = (map_of m0 ++ constructed_value iv (reached_imports iv defs)) n"
        using None by (simp add: map_add_def constructed_value_Cons)
    qed
    with None IH Cons show ?thesis by (auto simp: import_ok_def)
  next
    case (Some r)
    show ?thesis
    proof (cases r)
      case (Inl e)
      with Some Cons show ?thesis by (auto simp: import_ok_def)
    next
      case (Inr v)
      let ?low = "if ty = ''data'' then reached_imports iv conditional else []"
      have below: "((\<exists>b. below_imports se iv path ?d = Done b) \<longleftrightarrow> (\<forall>x \<in> set ?low. import_ok se iv x))
          \<and> (\<forall>b. below_imports se iv path ?d = Done b \<longrightarrow> distinct (map fst b) \<and> map_of b = constructed_value iv ?low)"
      proof (cases "ty = ''data''")
        case True
        then have "ty = ''data'' \<and> import_value iv ?d \<noteq> None" using Some by simp
        from "2.IH"(1) [OF this, of "[]" "child_path path (fv_name fv)"] True "2.prems"(2) show ?thesis
          by (simp add: below_imports_def)
      next
        case False
        then show ?thesis by (auto simp: below_imports_def fun_eq_iff)
      qed
      let ?m1 = "\<lambda>b. merge_imports (AList.update (fv_name fv) v m0) b"
      have m1: "distinct (map fst (?m1 b))" "map_of (?m1 b) = (map_of m0)(fv_name fv \<mapsto> v) ++ constructed_value iv ?low"
        "\<forall>n \<in> set (def_names defs). map_of (?m1 b) n = None"
        if b: "below_imports se iv path ?d = Done b" for b
      proof -
        from below b have d: "distinct (map fst b)" "map_of b = constructed_value iv ?low" by blast+
        show "distinct (map fst (?m1 b))" using "2.prems"(3) by (intro merge_imports_distinct) (simp add: distinct_update)
        show m: "map_of (?m1 b) = (map_of m0)(fv_name fv \<mapsto> v) ++ constructed_value iv ?low"
          by (simp add: merge_imports_map [OF d(1)] d(2) update_conv')
        show "\<forall>n \<in> set (def_names defs). map_of (?m1 b) n = None"
        proof
          fix n assume n: "n \<in> set (def_names defs)"
          then have "n \<noteq> fv_name fv" "n \<notin> set (def_names conditional)" "map_of m0 n = None" using "2.prems" by auto
          moreover from this have "constructed_value iv ?low n = None"
            using reached_names [of iv conditional] by (auto intro: constructed_value_None)
          ultimately show "map_of (?m1 b) n = None" unfolding m by (simp add: map_add_def)
        qed
      qed
      note IH = "2.IH"(2) [OF m1(3) rest(2) m1(1), of _ path]
      have Cons': "constructImports se iv path m0 (?d # defs) = Done m \<longleftrightarrow> known_type ty \<and> good_value se ?d v
          \<and> (\<exists>b. below_imports se iv path ?d = Done b \<and> constructImports se iv path (?m1 b) defs = Done m)" for m
        using Cons Some Inr by simp
      have reach: "reached_imports iv (?d # defs) = ?d # ?low @ reached_imports iv defs" using Some by simp
      have ok: "import_ok se iv ?d \<longleftrightarrow> known_type ty \<and> good_value se ?d v" using Some Inr by (simp add: import_ok_def)
      have "(\<exists>m. constructImports se iv path m0 (?d # defs) = Done m) \<longleftrightarrow>
          (\<forall>x \<in> set (reached_imports iv (?d # defs)). import_ok se iv x)"
      proof -
        have "(\<exists>m. constructImports se iv path m0 (?d # defs) = Done m) \<longleftrightarrow> known_type ty \<and> good_value se ?d v
            \<and> (\<exists>b. below_imports se iv path ?d = Done b) \<and> (\<forall>x \<in> set (reached_imports iv defs). import_ok se iv x)"
          unfolding Cons' using IH by blast
        also have "\<dots> \<longleftrightarrow> (\<forall>x \<in> set (?d # ?low @ reached_imports iv defs). import_ok se iv x)"
          using below ok by (simp add: ball_Un)
        finally show ?thesis unfolding reach .
      qed
      moreover have "distinct (map fst m) \<and> map_of m = map_of m0 ++ constructed_value iv (reached_imports iv (?d # defs))"
        if m: "constructImports se iv path m0 (?d # defs) = Done m" for m
      proof -
        from m obtain b where b: "below_imports se iv path ?d = Done b" "constructImports se iv path (?m1 b) defs = Done m"
          unfolding Cons' by blast
        from IH [OF b(1) b(1)] b(2)
        have r: "distinct (map fst m)" "map_of m = map_of (?m1 b) ++ constructed_value iv (reached_imports iv defs)" by blast+
        have low: "def_name ` set ?low \<subseteq> set (def_names conditional)" using reached_names [of iv conditional] by auto
        have "map_of m n = (map_of m0 ++ constructed_value iv (?d # ?low @ reached_imports iv defs)) n" for n
        proof (cases "n \<in> insert (fv_name fv) (def_name ` set ?low)")
          case True
          with low "2.prems"(2) have "n \<notin> def_name ` set (reached_imports iv defs)"
            using reached_names [of iv defs] by auto
          moreover have "fv_name fv \<notin> def_name ` set ?low" using low "2.prems"(2) by auto
          ultimately show ?thesis using True Some Inr unfolding r(2) m1(2) [OF b(1)]
            by (auto simp: map_add_def constructed_value_Cons constructed_value_append constructed_value_None split: option.split)
        next
          case False
          then show ?thesis unfolding r(2) m1(2) [OF b(1)]
            by (auto simp: map_add_def constructed_value_Cons constructed_value_append constructed_value_None split: option.split)
        qed
        with r(1) show ?thesis unfolding reach by (intro conjI ext) auto
      qed
      ultimately show ?thesis by blast
    qed
  qed
qed

text \<open>
  C26: the construction of the imports, which fills a map definition by definition, is the check of each definition by
  itself. If the names of a blueprint's imports are different, it succeeds exactly if every definition that
  is reached (the conditional ones only below data that is there) is missing and not required, or has a
  value that fits its schema or target type; and the result maps each name to the value of its definition.
\<close>

theorem constructImports_exact:
  assumes "distinct (def_names defs)"
  shows "((\<exists>m. constructImports se iv path [] defs = Done m) \<longleftrightarrow> (\<forall>d \<in> set (reached_imports iv defs). import_ok se iv d))
    \<and> (\<forall>m. constructImports se iv path [] defs = Done m \<longrightarrow> map_of m = constructed_value iv (reached_imports iv defs))"
  using constructImports_reached [of defs "[]" se iv path] assms by simp

section \<open>Example\<close>

text \<open>An optional import that is missing, and data with a conditional import that is there.\<close>

definition example_imports :: "import_definition list" where
  "example_imports =
     (let fv = (\<lambda>n. \<lparr>fv_name = n, fv_schema = Some ''{}'', fv_targetType = []\<rparr>)
      in [ImportDefinition (fv ''a'') ''data'' (Some False) None [ImportDefinition (fv ''b'') ''data'' None None []],
          ImportDefinition (fv ''c'') ''data'' None None [ImportDefinition (fv ''d'') ''data'' None None []]])"

definition example_values :: "string import_values" where
  "example_values = \<lparr>iv_mappings = [(''d'', ''2'')], iv_dataObjects = [(''c'', ''1'')], iv_targets = [], iv_targetLists = [],
     iv_componentDescriptors = [], iv_componentDescriptorLists = []\<rparr>"

definition any_schema :: "string schema_env" where
  "any_schema = \<lparr>se_validator = (\<lambda>s. Inr (\<lambda>v. None)), se_specType = (\<lambda>v. Inr []), se_elements = (\<lambda>v. Some [])\<rparr>"

lemma constructImports_exact_witness:
  "\<exists>m. constructImports any_schema example_values ''i'' [] example_imports = Done m
    \<and> map_of m = constructed_value example_values (reached_imports example_values example_imports)"
proof -
  have d: "distinct (def_names example_imports)" by code_simp
  have "constructImports any_schema example_values ''i'' [] example_imports = Done [(''c'', ''1''), (''d'', ''2'')]" by code_simp
  with constructImports_exact [OF d, of any_schema example_values "''i''"] show ?thesis by blast
qed

end
