(* ===== verification/InstallationObjects.thy ===== *)
theory InstallationObjects
  imports InstallationExecutions ImportConstruction
begin

text \<open>
  The objects that pass data between installations: data objects and targets for imports and exports
  (\<open>pkg/landscaper/installations/operation.go\<close>, \<open>exports/constructor.go\<close>, \<open>dataobjects/target.go\<close>). What is
  exported is read by the siblings as it was; a list of targets is never updated.
\<close>

section \<open>Targets as objects of the cluster (dataobjects/target.go, targetlist.go)\<close>

definition with_metadata :: "(do_metadata \<Rightarrow> do_metadata) \<Rightarrow> imported_target \<Rightarrow> imported_target" where
  "with_metadata f t = t\<lparr>mt_metadata := f (mt_metadata t)\<rparr>"

definition copy_map :: "smap \<Rightarrow> smap \<Rightarrow> smap" where
  "copy_map src m = foldl (\<lambda>m (k, v). smap_set m k v) m src"

definition configuration_hash :: "'j inst_env \<Rightarrow> target_spec \<Rightarrow> string" where
  "configuration_hash env spec = ie_sha env (case tg_configuration spec of Some d \<Rightarrow> d | None \<Rightarrow> [])"

definition target_Build :: "'j inst_env \<Rightarrow> imported_target \<Rightarrow> target" where
  "target_Build env t =
     (let raw = mt_raw t;
          m = empty_meta\<lparr>om_name := GenerateDataObjectName (ie_digest env) (md_context (mt_metadata t)) (md_key (mt_metadata t)),
                om_namespace := md_namespace (mt_metadata t),
                om_annotations := copy_map (om_annotations (tg_meta raw)) [],
                om_labels := copy_map (om_labels (tg_meta raw)) []\<rparr>
      in \<lparr>tg_meta = SetMetadataFromObject m ((mt_metadata t)\<lparr>md_hash := configuration_hash env (tg_spec raw)\<rparr>),
          tg_spec = tg_spec raw\<rparr>)"

definition target_Apply :: "'j inst_env \<Rightarrow> imported_target \<Rightarrow> target \<Rightarrow> target" where
  "target_Apply env t raw =
     (let m = (tg_meta raw)\<lparr>om_name := GenerateDataObjectName (ie_digest env) (md_context (mt_metadata t)) (md_key (mt_metadata t)),
                om_namespace := md_namespace (mt_metadata t)\<rparr>
      in raw\<lparr>tg_spec := tg_spec (mt_raw t),
             tg_meta := SetMetadataFromObject m ((mt_metadata t)\<lparr>md_hash := configuration_hash env (tg_spec (mt_raw t))\<rparr>)\<rparr>)"

text \<open>
  The elements of a target list are pointers: \<open>Build\<close> makes the new objects the raw targets of the
  elements, so what \<open>Apply\<close> reads as the target of the element is the object that it is applied to.
\<close>

definition tl_Build_at :: "'j inst_env \<Rightarrow> nat \<Rightarrow> imported_target \<Rightarrow> imported_target" where
  "tl_Build_at env i t =
     (let raw = mt_raw t;
          m = empty_meta\<lparr>om_name := GenerateDataObjectNameWithIndex (ie_digest env) (md_context (mt_metadata t))
                  (md_key (mt_metadata t)) (int i),
                om_namespace := md_namespace (mt_metadata t),
                om_annotations := copy_map (om_annotations (tg_meta raw)) [],
                om_labels := copy_map (om_labels (tg_meta raw)) []\<rparr>
      in t\<lparr>mt_raw := \<lparr>tg_meta = SetMetadataFromObject m (mt_metadata t), tg_spec = tg_spec raw\<rparr>\<rparr>)"

fun tl_Build :: "'j inst_env \<Rightarrow> nat \<Rightarrow> imported_target list \<Rightarrow> imported_target list" where
  "tl_Build env i [] = []"
| "tl_Build env i (t # ts) = tl_Build_at env i t # tl_Build env (Suc i) ts"

definition tl_Apply :: "'j inst_env \<Rightarrow> nat \<Rightarrow> imported_target \<Rightarrow> target \<Rightarrow> target" where
  "tl_Apply env i t raw =
     (let m = (tg_meta raw)\<lparr>om_name := GenerateDataObjectNameWithIndex (ie_digest env) (md_context (mt_metadata t))
                  (md_key (mt_metadata t)) (int i),
                om_namespace := md_namespace (mt_metadata t)\<rparr>
      in raw\<lparr>tg_spec := tg_spec (mt_raw t), tg_meta := SetMetadataFromObject m (mt_metadata t)\<rparr>)"

section \<open>Storing imports (operation.go)\<close>

text \<open>
  From the libraries come also the decoding of a target from a JSON value, the elements of a
  JSON list, and the encoding of a generation.
\<close>

record 'j object_env =
  jo_env :: "'j inst_env"
  jo_target :: "'j \<Rightarrow> gerr + target"
  jo_list :: "'j \<Rightarrow> 'j list option"
  jo_encode :: "int \<times> (string \<times> string) list \<Rightarrow> gerr + string"

definition CreateImportsCondition :: string where
  "CreateImportsCondition = ''CreateImports''"

definition ImportDataObjectSourceType :: string where
  "ImportDataObjectSourceType = ''import''"

definition import_metadata :: "installation \<Rightarrow> string \<Rightarrow> string \<Rightarrow> do_metadata \<Rightarrow> do_metadata" where
  "import_metadata inst src key md =
     md\<lparr>md_namespace := om_namespace (in_meta inst), md_source := src, md_context := src, md_key := key,
        md_sourceType := ImportDataObjectSourceType\<rparr>"

text \<open>What a failure leaves in the status.\<close>

definition import_failed ::
    "time \<Rightarrow> condition \<Rightarrow> string \<Rightarrow> string \<Rightarrow> string \<Rightarrow> string \<Rightarrow> gerr \<Rightarrow> 'j inst_operation \<Rightarrow> 'j inst_operation" where
  "import_failed now cond reason msg errOperation errReason e =
     op_inst (\<lambda>i. let i1 = inst_merge_conditions [UpdatedCondition now cond ConditionFalse reason msg []] i
       in i1\<lparr>in_status := (in_status i1)\<lparr>ins_lastError :=
            Some (UpdatedError now (ins_lastError (in_status i1)) errOperation errReason (error_string e) [])\<rparr>\<rparr>)"

definition owned_data ::
    "'j inst_env \<Rightarrow> installation \<Rightarrow> 'j data_object \<Rightarrow> raw_data_object \<Rightarrow> gerr + raw_data_object" where
  "owned_data env inst d raw =
     (case ie_setOwner env inst (do_meta raw) of
        Inl e \<Rightarrow> Inl e
      | Inr m \<Rightarrow> do_Apply (ie_digest env) (ie_sha env) (ie_marshal env) d (raw\<lparr>do_meta := m\<rparr>))"

definition owned_target ::
    "'j inst_env \<Rightarrow> installation \<Rightarrow> (target \<Rightarrow> target) \<Rightarrow> target \<Rightarrow> gerr + target" where
  "owned_target env inst apply raw =
     (case ie_setOwner env inst (tg_meta raw) of
        Inl e \<Rightarrow> Inl e
      | Inr m \<Rightarrow> Inr (apply (raw\<lparr>tg_meta := m\<rparr>)))"

definition for_import :: "string \<Rightarrow> import_definition \<Rightarrow> string" where
  "for_import text def = text @ '' for import '' @ quote_text (fv_name (id_fieldValue def))"

definition createOrUpdateDataImport ::
    "'j object_env \<Rightarrow> 'w kube_client \<Rightarrow> string \<Rightarrow> import_definition \<Rightarrow> 'j \<Rightarrow> 'j inst_operation \<Rightarrow> 'w
      \<Rightarrow> gerr option \<times> 'j inst_operation \<times> 'w" where
  "createOrUpdateDataImport je c src def v o1 w =
     (let env = jo_env je; inst = io_inst o1;
          cond = GetOrInitCondition (kc_now c w) (ins_conditions (in_status inst)) CreateImportsCondition;
          key = fv_name (id_fieldValue def);
          d = (new_data_object v)\<lparr>do_metadata := import_metadata inst src key (do_metadata (new_data_object v))\<rparr>
      in case do_Build (ie_digest env) (ie_sha env) (ie_marshal env) d of
           Inl e \<Rightarrow>
             (Some (wrap (for_import ''unable to build data object'' def) e),
              import_failed (kc_now c w) cond ''CreateDataObjects'' (for_import ''unable to create data object'' def)
                ''CreateDataObjects'' (for_import ''unable to create dataobjects'' def) e o1, w)
         | Inr raw \<Rightarrow>
             (case controllerutil_CreateOrUpdate (kc_dataObjects c) do_meta (\<lambda>_. owned_data env inst d) raw w of
                (Inl e, w1) \<Rightarrow>
                  (Some (wrap (for_import (''unable to create or update data object '' @ quote_text (om_name (do_meta raw))) def) e),
                   import_failed (kc_now c w1) cond ''CreateDataObjects'' (for_import ''unable to create data object'' def)
                     ''CreateDatatObjects'' (for_import ''unable to create data objects'' def) e o1, w1)
              | (Inr r, w1) \<Rightarrow> (None, o1, w1)))"

definition store_target ::
    "'j object_env \<Rightarrow> 'w kube_client \<Rightarrow> condition \<Rightarrow> import_definition \<Rightarrow> (target \<Rightarrow> target) \<Rightarrow> target \<Rightarrow> 'j inst_operation \<Rightarrow> 'w
      \<Rightarrow> gerr option \<times> 'j inst_operation \<times> 'w" where
  "store_target je c cond def apply raw o1 w =
     (case controllerutil_CreateOrUpdate (kc_targets c) tg_meta (\<lambda>_. owned_target (jo_env je) (io_inst o1) apply) raw w of
        (Inl e, w1) \<Rightarrow>
          (Some (wrap (for_import (''unable to create or update target '' @ quote_text (om_name (tg_meta raw))) def) e),
           import_failed (kc_now c w1) cond ''CreateTargets'' (for_import ''unable to create target'' def)
             ''CreateTargets'' (for_import ''unable to create target'' def) e o1, w1)
      | (Inr r, w1) \<Rightarrow> (None, o1, w1))"

definition createOrUpdateTargetImport ::
    "'j object_env \<Rightarrow> 'w kube_client \<Rightarrow> string \<Rightarrow> import_definition \<Rightarrow> 'j \<Rightarrow> 'j inst_operation \<Rightarrow> 'w
      \<Rightarrow> gerr option \<times> 'j inst_operation \<times> 'w" where
  "createOrUpdateTargetImport je c src def v o1 w =
     (let cond = GetOrInitCondition (kc_now c w) (ins_conditions (in_status (io_inst o1))) CreateImportsCondition
      in case jo_target je v of
           Inl e \<Rightarrow> (Some e, o1, w)
         | Inr raw \<Rightarrow>
             (let t = with_metadata (import_metadata (io_inst o1) src (fv_name (id_fieldValue def))) (NewFromTarget (jo_env je) raw)
              in store_target je c cond def (target_Apply (jo_env je) t) (target_Build (jo_env je) t) o1 w))"

fun decode_targets :: "'j object_env \<Rightarrow> 'j list \<Rightarrow> gerr + target list" where
  "decode_targets je [] = Inr []"
| "decode_targets je (v # vs) =
     (case jo_target je v of
        Inl e \<Rightarrow> Inl e
      | Inr t \<Rightarrow> (case decode_targets je vs of Inl e \<Rightarrow> Inl e | Inr ts \<Rightarrow> Inr (t # ts)))"

fun store_targets ::
    "'j object_env \<Rightarrow> 'w kube_client \<Rightarrow> condition \<Rightarrow> import_definition \<Rightarrow> nat \<Rightarrow> imported_target list \<Rightarrow> 'j inst_operation \<Rightarrow> 'w
      \<Rightarrow> gerr option \<times> 'j inst_operation \<times> 'w" where
  "store_targets je c cond def i [] o1 w = (None, o1, w)"
| "store_targets je c cond def i (t # ts) o1 w =
     (case store_target je c cond def (\<lambda>raw. tl_Apply (jo_env je) i (t\<lparr>mt_raw := raw\<rparr>) raw) (mt_raw t) o1 w of
        (Some e, o2, w1) \<Rightarrow> (Some e, o2, w1)
      | (None, o2, w1) \<Rightarrow> store_targets je c cond def (Suc i) ts o2 w1)"

definition createOrUpdateTargetListImport ::
    "'j object_env \<Rightarrow> 'w kube_client \<Rightarrow> string \<Rightarrow> import_definition \<Rightarrow> 'j list \<Rightarrow> 'j inst_operation \<Rightarrow> 'w
      \<Rightarrow> gerr option \<times> 'j inst_operation \<times> 'w" where
  "createOrUpdateTargetListImport je c src def vs o1 w =
     (let cond = GetOrInitCondition (kc_now c w) (ins_conditions (in_status (io_inst o1))) CreateImportsCondition
      in case decode_targets je vs of
           Inl e \<Rightarrow> (Some e, o1, w)
         | Inr raws \<Rightarrow>
             store_targets je c cond def 0
               (tl_Build (jo_env je) 0 (map (with_metadata (import_metadata (io_inst o1) src (fv_name (id_fieldValue def))))
                 (NewFromTargetList (jo_env je) raws))) o1 w)"

definition wrapped :: "string \<Rightarrow> import_definition \<Rightarrow> gerr option \<times> 'o \<times> 'w \<Rightarrow> gerr option \<times> 'o \<times> 'w" where
  "wrapped kind def r = (case r of (e, rest) \<Rightarrow>
     (map_option (wrap (''unable to create or update '' @ kind @ '' import '' @ quote_text (fv_name (id_fieldValue def)))) e, rest))"

definition import_object ::
    "'j object_env \<Rightarrow> 'w kube_client \<Rightarrow> string \<Rightarrow> import_definition \<Rightarrow> 'j \<Rightarrow> 'j inst_operation \<Rightarrow> 'w
      \<Rightarrow> gerr option \<times> 'j inst_operation \<times> 'w" where
  "import_object je c src def v o1 w =
     (if id_type def = ''data'' then wrapped ''data'' def (createOrUpdateDataImport je c src def v o1 w)
      else if id_type def = ''target'' then wrapped ''target'' def (createOrUpdateTargetImport je c src def v o1 w)
      else if id_type def = ''targetList''
      then (case jo_list je v of
              None \<Rightarrow> (Some (PlainError (''targetlist import '' @ quote_text (fv_name (id_fieldValue def)) @ '' is not a list'')), o1, w)
            | Some vs \<Rightarrow> wrapped ''targetlist'' def (createOrUpdateTargetListImport je c src def vs o1 w))
      else if id_type def \<in> {''componentDescriptor'', ''componentDescriptorList''} then (None, o1, w)
      else (Some (PlainError (''unknown import type '' @ quote_text (id_type def) @ '' for import ''
              @ quote_text (fv_name (id_fieldValue def)))), o1, w))"

fun createOrUpdateImports ::
    "'j object_env \<Rightarrow> 'w kube_client \<Rightarrow> string \<Rightarrow> import_definition list \<Rightarrow> 'j inst_operation \<Rightarrow> 'w
      \<Rightarrow> gerr option \<times> 'j inst_operation \<times> 'w" where
  "createOrUpdateImports je c src [] o1 w = (None, o1, w)"
| "createOrUpdateImports je c src (ImportDefinition fv ty required dflt conditional # defs) o1 w =
     (case map_of (io_imports o1) (fv_name fv) of
        None \<Rightarrow>
          (if required = Some False then createOrUpdateImports je c src defs o1 w
           else (Some (PlainError (''import '' @ fv_name fv @ '' not defined'')), o1, w))
      | Some v \<Rightarrow>
          (case createOrUpdateImports je c src conditional o1 w of
             (Some e, o2, w1) \<Rightarrow> (Some e, o2, w1)
           | (None, o2, w1) \<Rightarrow>
               (case import_object je c src (ImportDefinition fv ty required dflt conditional) v o2 w1 of
                  (Some e, o3, w2) \<Rightarrow> (Some e, o3, w2)
                | (None, o3, w2) \<Rightarrow> createOrUpdateImports je c src defs o3 w2)))"

definition CreateOrUpdateImports ::
    "'j object_env \<Rightarrow> 'w kube_client \<Rightarrow> 'j inst_operation \<Rightarrow> 'w \<Rightarrow> gerr option \<times> 'j inst_operation \<times> 'w" where
  "CreateOrUpdateImports je c o1 w =
     createOrUpdateImports je c (DataObjectSourceFromInstallation (io_inst o1)) (io_blueprintImports o1) o1 w"


section \<open>Storing exports (operation.go)\<close>

definition CreateExportsCondition :: string where
  "CreateExportsCondition = ''CreateExports''"

definition ExportDataObjectSourceType :: string where
  "ExportDataObjectSourceType = ''export''"

definition export_metadata :: "installation \<Rightarrow> string \<Rightarrow> do_metadata \<Rightarrow> do_metadata" where
  "export_metadata inst ctx md =
     md\<lparr>md_namespace := om_namespace (in_meta inst), md_source := DataObjectSourceFromInstallation inst, md_context := ctx\<rparr>"

definition export_failed :: "time \<Rightarrow> condition \<Rightarrow> string \<Rightarrow> string \<Rightarrow> 'j inst_operation \<Rightarrow> 'j inst_operation" where
  "export_failed now cond reason msg = op_inst (inst_merge_conditions [UpdatedCondition now cond ConditionFalse reason msg []])"

definition put_export ::
    "'j object_env \<Rightarrow> 'w kube_client \<Rightarrow> condition \<Rightarrow> 'j data_object \<Rightarrow> 'j inst_operation \<Rightarrow> 'w
      \<Rightarrow> gerr option \<times> 'j inst_operation \<times> 'w" where
  "put_export je c cond d0 o1 w =
     (let env = jo_env je; inst = io_inst o1;
          d = d0\<lparr>do_metadata := export_metadata inst (cx_name (io_context o1)) (do_metadata d0)\<rparr>;
          key = md_key (do_metadata d);
          failed = (\<lambda>w. export_failed (kc_now c w) cond ''CreateDataObjects'' (''unable to create data object for export '' @ key) o1)
      in case do_Build (ie_digest env) (ie_sha env) (ie_marshal env) d of
           Inl e \<Rightarrow> (Some (wrap (''unable to build data object for export '' @ key) e), failed w, w)
         | Inr raw \<Rightarrow>
             (case controllerutil_CreateOrUpdate (kc_dataObjects c) do_meta (\<lambda>_. owned_data env inst d) raw w of
                (Inl e, w1) \<Rightarrow>
                  (Some (wrap (''unable to create or update data object '' @ om_name (do_meta raw) @ '' for export '' @ key) e), failed w1, w1)
              | (Inr r, w1) \<Rightarrow> (None, o1, w1)))"

definition put_target_export ::
    "'j object_env \<Rightarrow> 'w kube_client \<Rightarrow> condition \<Rightarrow> imported_target \<Rightarrow> 'j inst_operation \<Rightarrow> 'w
      \<Rightarrow> gerr option \<times> 'j inst_operation \<times> 'w" where
  "put_target_export je c cond t0 o1 w =
     (let env = jo_env je; inst = io_inst o1;
          t = with_metadata (export_metadata inst (cx_name (io_context o1))) t0;
          key = md_key (mt_metadata t); raw = target_Build env t
      in case controllerutil_CreateOrUpdate (kc_targets c) tg_meta (\<lambda>_. owned_target env inst (target_Apply env t)) raw w of
           (Inl e, w1) \<Rightarrow>
             (Some (wrap (''unable to create or update target '' @ om_name (tg_meta raw) @ '' for export '' @ key) e),
              export_failed (kc_now c w1) cond ''CreateTargets'' (''unable to create target for export '' @ key) o1, w1)
         | (Inr r, w1) \<Rightarrow> (None, o1, w1))"

fun put_all ::
    "('a \<Rightarrow> 'o \<Rightarrow> 'w \<Rightarrow> gerr option \<times> 'o \<times> 'w) \<Rightarrow> 'a list \<Rightarrow> 'o \<Rightarrow> 'w \<Rightarrow> gerr option \<times> 'o \<times> 'w" where
  "put_all put [] o1 w = (None, o1, w)"
| "put_all put (x # xs) o1 w =
     (case put x o1 w of
        (Some e, o2, w1) \<Rightarrow> (Some e, o2, w1)
      | (None, o2, w1) \<Rightarrow> put_all put xs o2 w1)"

definition set_configGeneration :: "string \<Rightarrow> installation \<Rightarrow> installation" where
  "set_configGeneration gen i = i\<lparr>in_status := (in_status i)\<lparr>ins_configGeneration := gen\<rparr>\<rparr>"

definition CreateOrUpdateExports ::
    "'j object_env \<Rightarrow> 'w kube_client \<Rightarrow> 'j data_object list \<Rightarrow> imported_target list \<Rightarrow> 'j inst_operation \<Rightarrow> 'w
      \<Rightarrow> gerr option \<times> 'j inst_operation \<times> 'w" where
  "CreateOrUpdateExports je c dataExports targetExports o1 w =
     (let cond = GetOrInitCondition (kc_now c w) (ins_conditions (in_status (io_inst o1))) CreateExportsCondition
      in case CreateGenerationHash (jo_encode je) (ie_sha (jo_env je)) (io_inst o1) of
           Inl e \<Rightarrow> (Some e, export_failed (kc_now c w) cond ''CreateConfigHash'' (''unable to create config hash: '' @ error_string e) o1, w)
         | Inr configGen \<Rightarrow>
             (case put_all (put_export je c cond) dataExports o1 w of
                (Some e, o2, w1) \<Rightarrow> (Some e, o2, w1)
              | (None, o2, w1) \<Rightarrow>
                  (case put_all (put_target_export je c cond) targetExports o2 w1 of
                     (Some e, o3, w2) \<Rightarrow> (Some e, o3, w2)
                   | (None, o3, w2) \<Rightarrow>
                       op_UpdateInstallationStatus c
                         (UpdatedCondition (kc_now c w2) cond ConditionTrue ''DataObjectsCreated'' ''DataObjects successfully created'' [])
                         (op_inst (set_configGeneration configGen) o3) w2)))"

section \<open>The exports of an installation (exports/constructor.go)\<close>

text \<open>
  The export templates are rendered by a template engine, from the exports of the deploy items, the
  data objects and the targets that the installation contains.
\<close>

record target_template =
  tt_labels :: smap
  tt_annotations :: smap
  tt_spec :: target_spec

record ('w, 'j) export_env =
  ep_env :: "'j inst_env"
  ep_schema :: "'j schema_env"
  ep_render :: "'j inst_operation \<Rightarrow> 'j option \<Rightarrow> (string \<times> 'j) list \<Rightarrow> (string \<times> 'j) list \<Rightarrow> 'w
    \<Rightarrow> (gerr + (string \<times> 'j) list) \<times> 'w"
  ep_type :: "'j \<Rightarrow> gerr + string"
  ep_template :: "'j \<Rightarrow> gerr + target_template"
  ep_encodeTarget :: "target \<Rightarrow> gerr + 'j"

definition GetExportDefinition :: "export_definition list \<Rightarrow> string \<Rightarrow> export_definition option" where
  "GetExportDefinition defs key = List.find (\<lambda>d. fv_name (xd_fieldValue d) = key) defs"

fun aggregate_data :: "'j inst_env \<Rightarrow> raw_data_object list \<Rightarrow> (string \<times> 'j) list \<Rightarrow> gerr + (string \<times> 'j) list" where
  "aggregate_data env [] agg = Inr agg"
| "aggregate_data env (d # ds) agg =
     (case ie_unmarshal env (do_data d) of
        Inl e \<Rightarrow> Inl (wrap (''error while decoding data object '' @ om_name (do_meta d)) e)
      | Inr v \<Rightarrow> aggregate_data env ds (AList.update (md_key (GetMetadataFromObject (ie_sha env) (do_meta d) (Some (do_data d)))) v agg))"

definition aggregateDataObjectsInContext ::
    "('w, 'j) export_env \<Rightarrow> 'w kube_client \<Rightarrow> installation \<Rightarrow> 'w \<Rightarrow> (gerr + (string \<times> 'j) list) \<times> 'w" where
  "aggregateDataObjectsInContext ep c inst w =
     (case rc_list (kc_dataObjects c) (DataObjectContextLabel, DataObjectSourceFromInstallation inst) (om_namespace (in_meta inst)) w of
        (Inl e, w1) \<Rightarrow> (Inl e, w1)
      | (Inr items, w1) \<Rightarrow> (aggregate_data (ep_env ep) items [], w1))"

fun aggregate_targets :: "('w, 'j) export_env \<Rightarrow> target list \<Rightarrow> (string \<times> 'j) list \<Rightarrow> gerr + (string \<times> 'j) list" where
  "aggregate_targets ep [] agg = Inr agg"
| "aggregate_targets ep (t # ts) agg =
     (case ep_encodeTarget ep t of
        Inl e \<Rightarrow> Inl (wrap (''error while encoding target '' @ om_name (tg_meta t)) e)
      | Inr v \<Rightarrow> aggregate_targets ep ts (AList.update
          (md_key (GetMetadataFromObject (ie_sha (ep_env ep)) (tg_meta t) (tg_configuration (tg_spec t)))) v agg))"

definition aggregateTargetsInContext ::
    "('w, 'j) export_env \<Rightarrow> 'w kube_client \<Rightarrow> installation \<Rightarrow> 'w \<Rightarrow> (gerr + (string \<times> 'j) list) \<times> 'w" where
  "aggregateTargetsInContext ep c inst w =
     (case rc_list (kc_targets c) (DataObjectContextLabel, DataObjectSourceFromInstallation inst) (om_namespace (in_meta inst)) w of
        (Inl e, w1) \<Rightarrow> (Inl e, w1)
      | (Inr items, w1) \<Rightarrow> (aggregate_targets ep items [], w1))"

definition check_export :: "('w, 'j) export_env \<Rightarrow> string \<Rightarrow> export_definition \<Rightarrow> 'j \<Rightarrow> unit outcome" where
  "check_export ep path def v =
     (if xd_type def = ''data''
      then (case fv_schema (xd_fieldValue def) of
              None \<Rightarrow> Panic
            | Some s \<Rightarrow>
                (case se_validator (ep_schema ep) s of
                   Inl e \<Rightarrow> Fail (PlainError (path @ '': validator creation failed: '' @ error_string e))
                 | Inr validate \<Rightarrow>
                     (case validate v of
                        Some e \<Rightarrow> Fail (PlainError (path @ '': exported data does not satisfy the configured schema: '' @ error_string e))
                      | None \<Rightarrow> Done ())))
      else if xd_type def = ''target''
      then (case ep_type ep v of
              Inl e \<Rightarrow> Fail (wrap (path @ '': exported target does not match the expected target template schema'') e)
            | Inr targetType \<Rightarrow>
                if fv_targetType (xd_fieldValue def) \<noteq> targetType
                then Fail (PlainError (path @ '': exported target type is '' @ targetType @ '' but expected ''
                       @ fv_targetType (xd_fieldValue def)))
                else Done ())
      else Fail (PlainError (path @ '': unknown export type '' @ quote_text (xd_type def))))"

text \<open>Values without a definition are dropped.\<close>

fun defined_exports ::
    "('w, 'j) export_env \<Rightarrow> export_definition list \<Rightarrow> string \<Rightarrow> (string \<times> 'j) list \<Rightarrow> (string \<times> 'j) list outcome" where
  "defined_exports ep defs path [] = Done []"
| "defined_exports ep defs path ((name, v) # exps) =
     (case GetExportDefinition defs name of
        None \<Rightarrow> defined_exports ep defs path exps
      | Some def \<Rightarrow>
          (case check_export ep path def v of
             Panic \<Rightarrow> Panic
           | Fail e \<Rightarrow> Fail e
           | Done u \<Rightarrow>
               (case defined_exports ep defs path exps of
                  Panic \<Rightarrow> Panic | Fail e \<Rightarrow> Fail e | Done r \<Rightarrow> Done ((name, v) # r))))"

definition set_key :: "string \<Rightarrow> string \<Rightarrow> do_metadata \<Rightarrow> do_metadata" where
  "set_key sourceType key md = md\<lparr>md_sourceType := sourceType, md_key := key\<rparr>"

definition export_object :: "data_export \<Rightarrow> 'j \<Rightarrow> 'j data_object" where
  "export_object dx v = (new_data_object v)\<lparr>do_metadata :=
     set_key ExportDataObjectSourceType (dx_dataRef dx) (do_metadata (new_data_object v))\<rparr>"

fun data_objects_of :: "string \<Rightarrow> (string \<times> 'j) list \<Rightarrow> data_export list \<Rightarrow> gerr + 'j data_object list" where
  "data_objects_of path exps [] = Inr []"
| "data_objects_of path exps (dx # dxs) =
     (case map_of exps (dx_name dx) of
        None \<Rightarrow> Inl (PlainError (child_path path (dx_name dx) @ '': data export is not defined''))
      | Some v \<Rightarrow>
          (case data_objects_of path exps dxs of
             Inl e \<Rightarrow> Inl e
           | Inr ds \<Rightarrow> Inr (export_object dx v # ds)))"

definition ConvertTargetTemplateToTarget :: "('w, 'j) export_env \<Rightarrow> 'j \<Rightarrow> gerr + imported_target" where
  "ConvertTargetTemplateToTarget ep v =
     (case ep_template ep v of
        Inl e \<Rightarrow> Inl e
      | Inr t \<Rightarrow> Inr (NewFromTarget (ep_env ep)
          \<lparr>tg_meta = empty_meta\<lparr>om_labels := tt_labels t, om_annotations := tt_annotations t\<rparr>, tg_spec = tt_spec t\<rparr>))"

fun targets_of :: "('w, 'j) export_env \<Rightarrow> string \<Rightarrow> (string \<times> 'j) list \<Rightarrow> target_export list \<Rightarrow> gerr + imported_target list" where
  "targets_of ep path exps [] = Inr []"
| "targets_of ep path exps (tx # txs) =
     (case map_of exps (tx_name tx) of
        None \<Rightarrow> Inl (PlainError (child_path path (tx_name tx) @ '': target export is not defined''))
      | Some v \<Rightarrow>
          (case ConvertTargetTemplateToTarget ep v of
             Inl e \<Rightarrow> Inl (wrap (child_path path (tx_name tx) @ '': unable to build target from template'') e)
           | Inr t \<Rightarrow>
               (case targets_of ep path exps txs of
                  Inl e \<Rightarrow> Inl e
                | Inr ts \<Rightarrow> Inr (with_metadata (set_key ExportDataObjectSourceType (tx_target tx)) t # ts))))"

definition Construct_exports ::
    "('w, 'j) export_env \<Rightarrow> 'w kube_client \<Rightarrow> 'j inst_operation \<Rightarrow> 'w
      \<Rightarrow> ('j data_object list \<times> imported_target list) outcome \<times> 'w" where
  "Construct_exports ep c o1 w =
     (let inst = io_inst o1; path = child_path (''(inst: '' @ om_name (in_meta inst) @ '')'') ''internalExports''
      in case GetExportedValues (ep_env ep) c inst w of
           (Inl e, w1) \<Rightarrow> (Fail e, w1)
         | (Inr execDo, w1) \<Rightarrow>
             (case aggregateDataObjectsInContext ep c inst w1 of
                (Inl e, w2) \<Rightarrow> (Fail (wrap ''unable to aggregate data object'' e), w2)
              | (Inr dataMap, w2) \<Rightarrow>
                  (case aggregateTargetsInContext ep c inst w2 of
                     (Inl e, w3) \<Rightarrow> (Fail (wrap ''unable to aggregate target'' e), w3)
                   | (Inr targetMap, w3) \<Rightarrow>
                       (case ep_render ep o1 (map_option mp_value execDo) dataMap targetMap w3 of
                          (Inl e, w4) \<Rightarrow> (Fail e, w4)
                        | (Inr exps0, w4) \<Rightarrow>
                            (case defined_exports ep (io_blueprintExports o1) path exps0 of
                               Panic \<Rightarrow> (Panic, w4)
                             | Fail e \<Rightarrow> (Fail e, w4)
                             | Done exps \<Rightarrow>
                                 (case data_objects_of (child_path (child_path path ''exports'') ''data'') exps
                                         (ix_data (in_exports (in_spec inst))) of
                                    Inl e \<Rightarrow> (Fail e, w4)
                                  | Inr ds \<Rightarrow>
                                      (case targets_of ep (child_path (child_path path ''exports'') ''targets'') exps
                                              (ix_targets (in_exports (in_spec inst))) of
                                         Inl e \<Rightarrow> (Fail e, w4)
                                       | Inr ts \<Rightarrow> (Done (ds, ts), w4))))))))"

section \<open>Exports reach the siblings\<close>

text \<open>
  What the API server promises for data objects, seen through a \<open>view\<close> of the world: a read returns
  the stored object, a write stores the object and touches no other, and writes of targets and
  statuses touch no data object. The server may set other metadata of what it stores.
\<close>

definition stored_as :: "raw_data_object \<Rightarrow> raw_data_object \<Rightarrow> bool" where
  "stored_as x y \<longleftrightarrow> do_data y = do_data x \<and> om_labels (do_meta y) = om_labels (do_meta x)
     \<and> om_annotations (do_meta y) = om_annotations (do_meta x)"

definition same_view :: "('w \<Rightarrow> 'v) \<Rightarrow> ('w \<Rightarrow> 'r \<times> 'w) \<Rightarrow> bool" where
  "same_view view call \<longleftrightarrow> (\<forall>w. view (snd (call w)) = view w)"

definition data_store :: "'w kube_client \<Rightarrow> ('w \<Rightarrow> object_reference \<Rightarrow> raw_data_object option) \<Rightarrow> bool" where
  "data_store c view \<longleftrightarrow>
     (\<forall>k w. rc_get (kc_dataObjects c) k w = ((case view w k of Some x \<Rightarrow> Inr x | None \<Rightarrow> Inl not_found), w))
   \<and> (\<forall>x w y w'. om_name (do_meta x) \<noteq> [] \<longrightarrow> view w (ObjectKeyFromObject (do_meta x)) = None \<longrightarrow>
        rc_create (kc_dataObjects c) x w = (Inr y, w') \<longrightarrow>
        stored_as x y \<and> view w' = (view w)(ObjectKeyFromObject (do_meta x) \<mapsto> y))
   \<and> (\<forall>x w y w'. rc_update (kc_dataObjects c) x w = (Inr y, w') \<longrightarrow>
        stored_as x y \<and> view w' = (view w)(ObjectKeyFromObject (do_meta x) \<mapsto> y))
   \<and> (\<forall>k. same_view view (rc_get (kc_targets c) k)) \<and> (\<forall>x. same_view view (rc_create (kc_targets c) x))
   \<and> (\<forall>x. same_view view (rc_update (kc_targets c) x)) \<and> (\<forall>i. same_view view (rc_statusUpdate (kc_installations c) i))"

lemma stored_as_refl: "stored_as x x"
  by (simp add: stored_as_def)

lemma data_storeD:
  assumes "data_store c view"
  shows "rc_get (kc_dataObjects c) k w = ((case view w k of Some x \<Rightarrow> Inr x | None \<Rightarrow> Inl not_found), w)"
    "om_name (do_meta x) \<noteq> [] \<Longrightarrow> view w (ObjectKeyFromObject (do_meta x)) = None \<Longrightarrow>
      rc_create (kc_dataObjects c) x w = (Inr y, w') \<Longrightarrow>
      stored_as x y \<and> view w' = (view w)(ObjectKeyFromObject (do_meta x) \<mapsto> y)"
    "rc_update (kc_dataObjects c) x w = (Inr y, w') \<Longrightarrow>
      stored_as x y \<and> view w' = (view w)(ObjectKeyFromObject (do_meta x) \<mapsto> y)"
  using assms unfolding data_store_def by blast+

lemma store_object:
  assumes c: "data_store c view" and n: "om_name (do_meta obj) \<noteq> []"
    and r: "controllerutil_CreateOrUpdate (kc_dataObjects c) do_meta (\<lambda>_. f) obj w = (Inr (res, y), w')"
  shows "\<exists>x base. f base = Inr x \<and> stored_as x y \<and> view w' = (view w)(ObjectKeyFromObject (do_meta obj) \<mapsto> y)"
proof -
  let ?k = "ObjectKeyFromObject (do_meta obj)"
  note get = data_storeD(1) [OF c, of ?k w]
  have nf: "IsNotFound not_found" by (simp add: not_found_def)
  show ?thesis
  proof (cases "view w ?k")
    case None
    with r get nf have "create_object (kc_dataObjects c) do_meta (\<lambda>_. f) ?k obj w = (Inr (res, y), w')"
      by (simp add: controllerutil_CreateOrUpdate_def Let_def)
    then obtain x where x: "f obj = Inr x" "ObjectKeyFromObject (do_meta x) = ?k" "rc_create (kc_dataObjects c) x w = (Inr y, w')"
      by (auto simp: create_object_def Mutate_def split: sum.splits if_splits prod.splits)
    have "om_name (do_meta x) \<noteq> []" using x(2) n by (simp add: ObjectKeyFromObject_def)
    from data_storeD(2) [OF c this _ x(3)] x(1,2) None show ?thesis by metis
  next
    case (Some old)
    then have g: "rc_get (kc_dataObjects c) ?k w = (Inr old, w)" using get by simp
    obtain x where x: "f old = Inr x" "ObjectKeyFromObject (do_meta x) = ?k"
      and u: "if x = old then y = x \<and> w' = w else rc_update (kc_dataObjects c) x w = (Inr y, w')"
      using r unfolding controllerutil_CreateOrUpdate_def Let_def g
      by (auto simp: Mutate_def split: sum.splits if_splits prod.splits)
    show ?thesis
    proof (cases "x = old")
      case True
      with u Some have "view w' = (view w)(?k \<mapsto> y)" "stored_as x y"
        by (auto simp: fun_upd_idem stored_as_refl)
      with x(1) show ?thesis by blast
    next
      case False
      with u data_storeD(3) [OF c, of x w y w'] x show ?thesis by metis
    qed
  qed
qed

definition export_key :: "'j object_env \<Rightarrow> 'j inst_operation \<Rightarrow> 'j data_object \<Rightarrow> object_reference" where
  "export_key je o1 d = ObjectKey (GenerateDataObjectName (ie_digest (jo_env je)) (cx_name (io_context o1)) (md_key (do_metadata d)))
     (om_namespace (in_meta (io_inst o1)))"

text \<open>A stored object with the data of an export, its hash and its source.\<close>

definition holds_export :: "'j object_env \<Rightarrow> 'j inst_operation \<Rightarrow> 'j data_object \<Rightarrow> raw_data_object \<Rightarrow> bool" where
  "holds_export je o1 d y \<longleftrightarrow> ie_marshal (jo_env je) (do_value d) = Inr (do_data y)
     \<and> smap_get (om_labels (do_meta y)) DataObjectSourceLabel = DataObjectSourceFromInstallation (io_inst o1)
     \<and> map_of (om_annotations (do_meta y)) DataObjectHashAnnotation = Some (ie_sha (jo_env je) (do_data y))"

lemma put_export_stored:
  assumes c: "data_store c view" and n: "or_name (export_key je o1 d) \<noteq> []"
    and r: "put_export je c cond d o1 w = (None, o2, w')"
  shows "o2 = o1 \<and> (\<exists>y. holds_export je o1 d y \<and> view w' = (view w)(export_key je o1 d \<mapsto> y))"
proof -
  let ?env = "jo_env je"
  let ?d = "d\<lparr>do_metadata := export_metadata (io_inst o1) (cx_name (io_context o1)) (do_metadata d)\<rparr>"
  obtain raw where raw: "do_Build (ie_digest ?env) (ie_sha ?env) (ie_marshal ?env) ?d = Inr raw"
    using r by (cases "do_Build (ie_digest ?env) (ie_sha ?env) (ie_marshal ?env) ?d") (auto simp: put_export_def Let_def)
  obtain res y where y: "controllerutil_CreateOrUpdate (kc_dataObjects c) do_meta (\<lambda>_. owned_data ?env (io_inst o1) ?d) raw w
      = (Inr (res, y), w')" and o2: "o2 = o1"
    using r raw by (auto simp: put_export_def Let_def split: prod.splits sum.splits)
  have k: "ObjectKeyFromObject (do_meta raw) = export_key je o1 d"
    using raw by (auto simp: do_Build_def do_Apply_def Let_def export_key_def export_metadata_def ObjectKeyFromObject_def ObjectKey_def
        split: sum.splits)
  then have "om_name (do_meta raw) \<noteq> []" using n by (metis ObjectKeyFromObject_def object_reference.select_convs(1))
  from store_object [OF c this y] obtain x base where x: "owned_data ?env (io_inst o1) ?d base = Inr x" "stored_as x y"
    "view w' = (view w)(export_key je o1 d \<mapsto> y)" unfolding k by blast
  have "DataObjectSourceFromInstallation (io_inst o1) \<noteq> []"
    by (simp add: DataObjectSourceFromInstallation_def InstallationPrefix_def)
  with x(1) have "holds_export je o1 d x"
    by (auto simp: owned_data_def do_Apply_def Let_def holds_export_def export_metadata_def SetMetadataFromObject_def
        smap_get_set_nonempty split: sum.splits)
  with x(2) have "holds_export je o1 d y" by (simp add: holds_export_def stored_as_def)
  with o2 x(3) show ?thesis by blast
qed

lemma put_exports_stored:
  assumes c: "data_store c view"
  shows "put_all (put_export je c cond) ds o1 w = (None, o2, w') \<Longrightarrow> distinct (map (export_key je o1) ds) \<Longrightarrow>
    (\<forall>d \<in> set ds. or_name (export_key je o1 d) \<noteq> []) \<Longrightarrow>
    o2 = o1 \<and> (\<forall>d \<in> set ds. \<exists>y. view w' (export_key je o1 d) = Some y \<and> holds_export je o1 d y)
      \<and> (\<forall>k. k \<notin> export_key je o1 ` set ds \<longrightarrow> view w' k = view w k)"
proof (induction ds arbitrary: w)
  case (Cons d ds)
  obtain r o3 w1 where r: "put_export je c cond d o1 w = (r, o3, w1)" by (rule prod_cases3)
  with Cons.prems(1) have "r = None" by (cases r) simp_all
  with r have r: "put_export je c cond d o1 w = (None, o3, w1)" by simp
  from put_export_stored [OF c _ r] Cons.prems(3) obtain y where o3: "o3 = o1"
    and y: "holds_export je o1 d y" "view w1 = (view w)(export_key je o1 d \<mapsto> y)" by auto
  from Cons.prems(1) r o3 have "put_all (put_export je c cond) ds o1 w1 = (None, o2, w')" by simp
  note IH = Cons.IH [OF this]
  have "export_key je o1 d \<notin> export_key je o1 ` set ds" "distinct (map (export_key je o1) ds)" using Cons.prems(2) by simp_all
  with IH Cons.prems(3) y show ?case by auto
qed simp

lemma put_target_export_view:
  assumes "data_store c view"
  shows "view (snd (snd (put_target_export je c cond t o1 w))) = view w"
proof -
  have s: "view (snd (rc_get (kc_targets c) k w)) = view w" "view (snd (rc_create (kc_targets c) x w)) = view w"
    "view (snd (rc_update (kc_targets c) x w)) = view w" for k x w
    using assms unfolding data_store_def same_view_def by blast+
  have "view (snd (controllerutil_CreateOrUpdate (kc_targets c) tg_meta f obj w)) = view w" for f obj
    by (simp add: controllerutil_CreateOrUpdate_def create_object_def Let_def case_prod_beta s split: sum.split)
  then show ?thesis
    by (simp add: put_target_export_def Let_def case_prod_beta split: sum.split)
qed

lemma put_target_exports_view:
  assumes "data_store c view"
  shows "view (snd (snd (put_all (put_target_export je c cond) ts o1 w))) = view w"
proof (induction ts arbitrary: o1 w)
  case (Cons t ts)
  obtain r o2 w1 where r: "put_target_export je c cond t o1 w = (r, o2, w1)" by (rule prod_cases3)
  from put_target_export_view [OF assms, of je cond t o1 w] have "view w1 = view w" unfolding r by simp
  with Cons.IH [of o2 w1] show ?case by (simp add: r split: option.split)
qed simp

text \<open>
  C27: what an installation exports is what its siblings import. If the exports are stored without an error,
  under different names, then an import that refers to one of them in the same context and namespace
  is read as exactly the exported value, with its hash and the exporting installation as its source.
\<close>

theorem exports_reach_siblings:
  assumes c: "data_store c view"
    and codec: "\<forall>v b. ie_marshal (jo_env je) v = Inr b \<longrightarrow> ie_unmarshal (jo_env je) b = Inr v"
    and names: "distinct (map (export_key je o1) ds)" "\<forall>d \<in> set ds. or_name (export_key je o1 d) \<noteq> []"
    and run: "CreateOrUpdateExports je c ds ts o1 w = (None, o2, w')"
    and d: "d \<in> set ds" "im_dataRef imp = md_key (do_metadata d)" "im_dataRef imp \<noteq> []"
    and imp: "im_secretRef imp = None" "im_configMapRef imp = None"
  shows "\<exists>x owner. GetDataImport (jo_env je) c (cx_name (io_context o1)) (om_namespace (in_meta (io_inst o1))) imp w' = (Done (x, owner), w')
    \<and> mp_value x = do_value d \<and> md_hash (mp_metadata x) = ie_sha (jo_env je) (do_data (mp_raw x))
    \<and> md_source (mp_metadata x) = DataObjectSourceFromInstallation (io_inst o1)"
proof -
  let ?cond = "GetOrInitCondition (kc_now c w) (ins_conditions (in_status (io_inst o1))) CreateExportsCondition"
  obtain gen where gen: "CreateGenerationHash (jo_encode je) (ie_sha (jo_env je)) (io_inst o1) = Inr gen"
    using run by (cases "CreateGenerationHash (jo_encode je) (ie_sha (jo_env je)) (io_inst o1)")
      (auto simp: CreateOrUpdateExports_def Let_def)
  obtain r1 o3 w1 where r1: "put_all (put_export je c ?cond) ds o1 w = (r1, o3, w1)" by (rule prod_cases3)
  obtain r2 o4 w2 where r2: "put_all (put_target_export je c ?cond) ts o3 w1 = (r2, o4, w2)" by (rule prod_cases3)
  have "r1 = None" using run gen r1 by (cases r1) (auto simp: CreateOrUpdateExports_def Let_def)
  have "r2 = None" using run gen r1 r2 \<open>r1 = None\<close> by (cases r2) (auto simp: CreateOrUpdateExports_def Let_def)
  from put_exports_stored [OF c r1 [unfolded \<open>r1 = None\<close>] names] d(1)
  obtain y where y: "view w1 (export_key je o1 d) = Some y" "holds_export je o1 d y" by blast
  have "view w2 = view w1" using put_target_exports_view [OF c, of je ?cond ts o3 w1] unfolding r2 by simp
  moreover have "view w' = view w2"
  proof -
    have "view (snd (rc_statusUpdate (kc_installations c) i w2)) = view w2" for i
      using c unfolding data_store_def same_view_def by blast
    then have "view (snd (snd (op_UpdateInstallationStatus c cond o5 w2))) = view w2" for cond o5
      by (simp add: op_UpdateInstallationStatus_def UpdateInstallationStatus_def Let_def case_prod_beta split: sum.split)
    moreover have "snd (snd (op_UpdateInstallationStatus c (UpdatedCondition (kc_now c w2) ?cond ConditionTrue ''DataObjectsCreated''
        ''DataObjects successfully created'' []) (op_inst (set_configGeneration gen) o4) w2)) = w'"
      using run gen r1 r2 \<open>r1 = None\<close> \<open>r2 = None\<close> by (simp add: CreateOrUpdateExports_def Let_def)
    ultimately show ?thesis by metis
  qed
  ultimately have y': "view w' (export_key je o1 d) = Some y" using y(1) by simp
  have "rc_get (kc_dataObjects c) (export_key je o1 d) w' = (Inr y, w')" using data_storeD(1) [OF c] y' by simp
  then have "data_from_ref (jo_env je) c (cx_name (io_context o1)) (om_namespace (in_meta (io_inst o1))) imp w' = (Inr (Some y), w')"
    using d by (simp add: data_from_ref_def export_key_def Let_def)
  moreover have "ie_unmarshal (jo_env je) (do_data y) = Inr (do_value d)" using codec y(2) by (simp add: holds_export_def)
  ultimately show ?thesis
    using y(2) imp by (simp add: GetDataImport_def data_from_secret_def data_from_configMap_def NewFromDataObject_def
        holds_export_def GetMetadataFromObject_def)
qed


section \<open>Target lists\<close>

text \<open>
  A target list import never changes the specification of a target that exists. The object that is
  read from the cluster replaces the imported target before its specification is copied, so every write
  for an existing target carries the specification it had, whatever is imported.
\<close>

theorem target_list_update_is_lost:
  assumes "jo_target je v = Inr raw"
    and got: "rc_get (kc_targets c) (ObjectKey (GenerateDataObjectNameWithIndex (ie_digest (jo_env je)) src
        (fv_name (id_fieldValue def)) 0) (om_namespace (in_meta (io_inst o1)))) w = (Inr old, w1)"
    and run: "createOrUpdateTargetListImport je (logged c) src def [v] o1 (w, []) = (r, o2, (w', l))"
  shows "\<forall>a \<in> set l. \<exists>t. a = WriteTarget t \<and> tg_spec t = tg_spec old"
proof -
  let ?env = "jo_env je"
  let ?t = "tl_Build_at ?env 0 (with_metadata (import_metadata (io_inst o1) src (fv_name (id_fieldValue def))) (NewFromTarget ?env raw))"
  let ?f = "\<lambda>_. owned_target ?env (io_inst o1) (\<lambda>raw. tl_Apply ?env 0 (?t\<lparr>mt_raw := raw\<rparr>) raw)"
  have f: "tg_spec x = tg_spec o'" if "?f s o' = Inr x" for s o' x
    using that by (auto simp: owned_target_def tl_Apply_def Let_def split: sum.splits)
  have k: "ObjectKeyFromObject (tg_meta (mt_raw ?t)) = ObjectKey (GenerateDataObjectNameWithIndex (ie_digest ?env) src
        (fv_name (id_fieldValue def)) 0) (om_namespace (in_meta (io_inst o1)))"
    by (simp add: tl_Build_at_def with_metadata_def import_metadata_def Let_def ObjectKeyFromObject_def ObjectKey_def)
  have g: "unlogged_call (rc_get (kc_targets c) (ObjectKeyFromObject (tg_meta (mt_raw ?t)))) (w, []) = (Inr old, (w1, [] :: api_write list))"
    unfolding k by (simp add: unlogged_call_def got)
  obtain x s where x: "controllerutil_CreateOrUpdate (kc_targets (logged c)) tg_meta ?f (mt_raw ?t) (w, []) = (x, s)"
    by (cases "controllerutil_CreateOrUpdate (kc_targets (logged c)) tg_meta ?f (mt_raw ?t) (w, [])")
  have "\<forall>a \<in> set (snd s). \<exists>t. a = WriteTarget t \<and> tg_spec t = tg_spec old"
  proof (cases "?f (w, []) old")
    case (Inl e)
    with x g show ?thesis by (auto simp: controllerutil_CreateOrUpdate_def Let_def Mutate_def)
  next
    case (Inr y)
    note f [OF Inr]
    moreover have "snd s = [] \<or> snd s = [WriteTarget y]"
    proof (cases "ObjectKeyFromObject (tg_meta y) = ObjectKeyFromObject (tg_meta (mt_raw ?t)) \<and> y \<noteq> old")
      case False
      with x g Inr show ?thesis by (auto simp: controllerutil_CreateOrUpdate_def Let_def Mutate_def split: if_splits)
    next
      case True
      have "snd (snd (controllerutil_CreateOrUpdate (kc_targets (logged c)) tg_meta ?f (mt_raw ?t) (w, []))) = [WriteTarget y]"
        using g Inr True by (simp add: controllerutil_CreateOrUpdate_def Let_def Mutate_def case_prod_beta split: sum.split)
      then show ?thesis unfolding x by simp
    qed
    ultimately show ?thesis by auto
  qed
  moreover have "snd (snd (snd (createOrUpdateTargetListImport je (logged c) src def [v] o1 (w, [])))) = snd s"
    using assms(1) x by (simp add: createOrUpdateTargetListImport_def Let_def NewFromTargetList_def store_target_def
        case_prod_beta split: sum.split option.split del: logged_sel)
  ultimately show ?thesis unfolding run by simp
qed


section \<open>Examples\<close>

definition example_object_env :: "string object_env" where
  "example_object_env = \<lparr>jo_env = example_inst_env,
     jo_target = (\<lambda>v. Inr \<lparr>tg_meta = empty_meta, tg_spec = \<lparr>tg_type = ''t'', tg_configuration = Some v\<rparr>\<rparr>),
     jo_list = (\<lambda>v. Some [v]), jo_encode = (\<lambda>x. Inr ''gen'')\<rparr>"

definition base_op :: "string inst_operation" where
  "base_op = parent_op\<lparr>io_inst := base_inst\<rparr>"

definition data_view :: "cluster \<Rightarrow> object_reference \<Rightarrow> raw_data_object option" where
  "data_view w k = List.find (\<lambda>x. has_key (do_meta x) k) (cw_data w)"

lemma find_append_None: "List.find P xs = None \<Longrightarrow> List.find P (xs @ ys) = List.find P ys"
  by (induction xs) (auto split: if_splits)

lemma find_append_Some: "List.find P xs \<noteq> None \<Longrightarrow> List.find P (xs @ ys) = List.find P xs"
  by (induction xs) (auto split: if_splits)

lemma has_key_own: "has_key m k \<longleftrightarrow> ObjectKeyFromObject m = k"
  by (cases k) (simp add: has_key_def ObjectKeyFromObject_def)

lemma find_replaced:
  assumes "ObjectKeyFromObject (meta y) = k"
  shows "List.find (\<lambda>x. has_key (meta x) k') (map (\<lambda>x. if has_key (meta x) k then y else x) xs) =
    (if k' = k then (if List.find (\<lambda>x. has_key (meta x) k) xs = None then None else Some y)
     else List.find (\<lambda>x. has_key (meta x) k') xs)"
  using assms by (induction xs) (auto simp: has_key_own)

lemma data_view_create:
  assumes "data_view w (ObjectKeyFromObject (do_meta x)) = None" "ObjectKeyFromObject (do_meta y) = ObjectKeyFromObject (do_meta x)"
  shows "data_view (w\<lparr>cw_data := cw_data w @ [y]\<rparr>) = (data_view w)(ObjectKeyFromObject (do_meta x) \<mapsto> y)"
proof
  fix k show "data_view (w\<lparr>cw_data := cw_data w @ [y]\<rparr>) k = ((data_view w)(ObjectKeyFromObject (do_meta x) \<mapsto> y)) k"
    using assms by (cases "data_view w k = None") (auto simp: data_view_def find_append_None find_append_Some has_key_own)
qed

lemma data_view_replace:
  assumes "data_view w k \<noteq> None" "ObjectKeyFromObject (do_meta y) = k"
  shows "data_view (w\<lparr>cw_data := map (\<lambda>x. if has_key (do_meta x) k then y else x) (cw_data w)\<rparr>) = (data_view w)(k \<mapsto> y)"
  using assms by (auto simp: data_view_def find_replaced)

lemma example_data_store: "data_store example_client data_view"
proof -
  have get: "rc_get (kc_dataObjects example_client) k w = ((case data_view w k of Some x \<Rightarrow> Inr x | None \<Rightarrow> Inl not_found), w)" for k w
    by (simp add: example_client_def store_client_def store_get_def data_view_def Let_def split: option.split)
  have create: "stored_as x y \<and> data_view w' = (data_view w)(ObjectKeyFromObject (do_meta x) \<mapsto> y)"
    if "om_name (do_meta x) \<noteq> []" "data_view w (ObjectKeyFromObject (do_meta x)) = None"
      "rc_create (kc_dataObjects example_client) x w = (Inr y, w')" for x w y w'
  proof -
    have y: "y = x\<lparr>do_meta := (do_meta x)\<lparr>om_generation := 1\<rparr>\<rparr>" and w': "w' = w\<lparr>cw_data := cw_data w @ [y]\<rparr>"
      using that(1,3) by (auto simp: example_client_def store_client_def store_create_def Let_def)
    have k: "ObjectKeyFromObject (do_meta y) = ObjectKeyFromObject (do_meta x)" unfolding y by (simp add: ObjectKeyFromObject_def)
    have "stored_as x y" unfolding y by (simp add: stored_as_def)
    with data_view_create [OF that(2) k] show ?thesis unfolding w' by (intro conjI)
  qed
  have update: "stored_as x y \<and> data_view w' = (data_view w)(ObjectKeyFromObject (do_meta x) \<mapsto> y)"
    if u: "rc_update (kc_dataObjects example_client) x w = (Inr y, w')" for x w y w'
  proof -
    let ?k = "ObjectKeyFromObject (do_meta x)"
    obtain old where old: "data_view w ?k = Some old"
      using u by (cases "data_view w ?k") (auto simp: example_client_def store_client_def store_replace_def data_view_def Let_def)
    then obtain g where y: "y = x\<lparr>do_meta := (do_meta x)\<lparr>om_generation := g\<rparr>\<rparr>"
      and w': "w' = w\<lparr>cw_data := map (\<lambda>z. if has_key (do_meta z) ?k then y else z) (cw_data w)\<rparr>"
      using u by (auto simp: example_client_def store_client_def store_replace_def data_view_def Let_def)
    have "ObjectKeyFromObject (do_meta y) = ?k" "stored_as x y"
      unfolding y by (simp_all add: ObjectKeyFromObject_def stored_as_def)
    with data_view_replace [of w ?k y] old show ?thesis unfolding w' by simp
  qed
  have "same_view data_view (rc_get (kc_targets example_client) k)" "same_view data_view (rc_create (kc_targets example_client) t)"
    "same_view data_view (rc_update (kc_targets example_client) t)" "same_view data_view (rc_statusUpdate (kc_installations example_client) i)"
    for k t i
    by (simp_all add: same_view_def data_view_def fun_eq_iff example_client_def store_client_def store_get_def store_create_def
        store_replace_def Let_def split: option.split)
  with get create update show ?thesis unfolding data_store_def by blast
qed

definition export_run :: "gerr option \<times> string inst_operation \<times> cluster" where
  "export_run = CreateOrUpdateExports example_object_env example_client
     [export_object \<lparr>dx_name = ''a'', dx_dataRef = ''a''\<rparr> ''42'', export_object \<lparr>dx_name = ''b'', dx_dataRef = ''b''\<rparr> ''43''] [] base_op
     (installation_cluster [base_inst] [exported_data ''base'' ''a''])"

lemma export_run_evaluated:
  "fst export_run = None
   \<and> map (export_key example_object_env base_op) [export_object \<lparr>dx_name = ''a'', dx_dataRef = ''a''\<rparr> ''42'',
       export_object \<lparr>dx_name = ''b'', dx_dataRef = ''b''\<rparr> ''43''] = [ObjectKey ''a'' ''ns'', ObjectKey ''b'' ''ns'']
   \<and> cx_name (io_context base_op) = [] \<and> om_namespace (in_meta (io_inst base_op)) = ''ns''"
  by code_simp

lemmas export_run_done = conjunct1 [OF export_run_evaluated]
  and example_export_keys = conjunct1 [OF conjunct2 [OF export_run_evaluated]]

lemma exports_reach_siblings_witness:
  "\<exists>x owner w'. GetDataImport example_inst_env example_client [] ''ns''
     \<lparr>im_name = ''in'', im_dataRef = ''a'', im_version = [], im_secretRef = None, im_configMapRef = None\<rparr> w' = (Done (x, owner), w')
     \<and> mp_value x = ''42''"
proof -
  obtain o2 w' where run: "export_run = (None, o2, w')" using export_run_done by (metis prod.collapse)
  have op: "cx_name (io_context base_op) = []" "om_namespace (in_meta (io_inst base_op)) = ''ns''"
    using export_run_evaluated by blast+
  have je: "jo_env example_object_env = example_inst_env" by (simp add: example_object_env_def)
  let ?ds = "[export_object \<lparr>dx_name = ''a'', dx_dataRef = ''a''\<rparr> ''42'', export_object \<lparr>dx_name = ''b'', dx_dataRef = ''b''\<rparr> ''43'']"
  let ?imp = "\<lparr>im_name = ''in'', im_dataRef = ''a'', im_version = [], im_secretRef = None, im_configMapRef = None\<rparr>"
  have codec: "\<forall>v b. ie_marshal (jo_env example_object_env) v = Inr b \<longrightarrow> ie_unmarshal (jo_env example_object_env) b = Inr v"
    by (simp add: je example_inst_env_def)
  have names: "distinct (map (export_key example_object_env base_op) ?ds)"
    "\<forall>d \<in> set ?ds. or_name (export_key example_object_env base_op d) \<noteq> []"
    using example_export_keys by (simp_all add: ObjectKey_def)
  have d: "hd ?ds \<in> set ?ds" "im_dataRef ?imp = md_key (do_metadata (hd ?ds))" "do_value (hd ?ds) = ''42''"
    by (simp_all add: export_object_def set_key_def new_data_object_def)
  have "\<exists>x owner. GetDataImport example_inst_env example_client [] ''ns'' ?imp w' = (Done (x, owner), w') \<and> mp_value x = ''42''"
    using exports_reach_siblings [OF example_data_store codec names run [unfolded export_run_def] d(1,2)]
    unfolding op je d(3) by auto
  then show ?thesis by blast
qed


text \<open>An installation with a list of one target: the list holds a new value, the target keeps the old one.\<close>

definition list_definition :: import_definition where
  "list_definition = ImportDefinition \<lparr>fv_name = ''clusters'', fv_schema = None, fv_targetType = ''t''\<rparr> ''targetList'' None None []"

definition old_target :: target where
  "old_target = \<lparr>tg_meta = empty_meta\<lparr>om_name := ''src/clusters[0]'', om_namespace := ''ns''\<rparr>,
     tg_spec = \<lparr>tg_type = ''t'', tg_configuration = Some ''old''\<rparr>\<rparr>"

definition list_cluster :: cluster where
  "list_cluster = (installation_cluster [base_inst] [])\<lparr>cw_targets := [old_target]\<rparr>"

definition list_run :: "gerr option \<times> string inst_operation \<times> (cluster \<times> api_write list)" where
  "list_run = createOrUpdateTargetListImport example_object_env (logged example_client) ''src'' list_definition [''new''] base_op
     (list_cluster, [])"

lemma target_list_update_is_lost_witness:
  "list_all (\<lambda>a. \<exists>t. a = WriteTarget t \<and> tg_configuration (tg_spec t) = Some ''old'') (snd (snd (snd list_run)))
   \<and> snd (snd (snd list_run)) \<noteq> [] \<and> fst list_run = None"
proof -
  obtain r o2 w l where run: "list_run = (r, o2, (w, l))" by (metis prod.collapse)
  have evaluated: "rc_get (kc_targets example_client) (ObjectKey (GenerateDataObjectNameWithIndex (\<lambda>s. s) ''src''
      (fv_name (id_fieldValue list_definition)) 0) (om_namespace (in_meta (io_inst base_op)))) list_cluster = (Inr old_target, list_cluster)
    \<and> length (snd (snd (snd list_run))) = 1 \<and> fst list_run = None"
    by code_simp
  note got = conjunct1 [OF evaluated]
  have "jo_target example_object_env ''new'' = Inr \<lparr>tg_meta = empty_meta, tg_spec = \<lparr>tg_type = ''t'', tg_configuration = Some ''new''\<rparr>\<rparr>"
    "ie_digest (jo_env example_object_env) = (\<lambda>s. s)" by (simp_all add: example_object_env_def example_inst_env_def)
  then have "\<forall>a \<in> set l. \<exists>t. a = WriteTarget t \<and> tg_spec t = tg_spec old_target"
    using target_list_update_is_lost [OF _ _ run [unfolded list_run_def]] got by simp
  then have "list_all (\<lambda>a. \<exists>t. a = WriteTarget t \<and> tg_configuration (tg_spec t) = Some ''old'') (snd (snd (snd list_run)))"
    unfolding run by (auto simp: list_all_iff old_target_def)
  then show ?thesis using evaluated by auto
qed

end
