(* ===== verification/InstallationController.thy ===== *)
theory InstallationController
  imports InstallationDescriptors ImportValidation InstallationObjects
begin

text \<open>
  The controller of installations (pkg/landscaper/controllers/installations): the construction of imports and exports,
  the update of the children, the deletion, the phases of the children and the handling of errors, composed
  from the operations of the other theories on installations.
\<close>

section \<open>The controller and its operations (controllers/installations/controller.go)\<close>

text \<open>
  The controller with what it takes from other components and libraries: the overwrites, the registries, the
  resolution of blueprints and component descriptors, the template engines and codecs. \<open>ct_fuel\<close>
  bounds the recursion of the check of siblings.
\<close>

record ('w, 'j) inst_controller =
  ct_env :: "'j inst_env"
  ct_fuel :: nat
  ct_overwrites :: overwrite_env
  ct_registries :: "object_reference list \<Rightarrow> installation \<Rightarrow> 'w \<Rightarrow> gerr option \<times> 'w"
  ct_blueprint :: "component_descriptor_reference option \<Rightarrow> blueprint_definition \<Rightarrow> 'w \<Rightarrow> (gerr + blueprint) \<times> 'w"
  ct_build :: "inst_context \<Rightarrow> 'w \<Rightarrow> gerr option \<times> 'w"
  ct_aggregate :: "gerr list \<Rightarrow> gerr"
  ct_schema :: "'j schema_env"
  ct_descriptors :: "('w, 'j) cd_env"
  ct_targetData :: "target \<Rightarrow> gerr + 'j"
  ct_targetListData :: "target list \<Rightarrow> gerr + 'j"
  ct_descriptorData :: "string \<Rightarrow> gerr + 'j"
  ct_descriptorListData :: "string list \<Rightarrow> gerr + 'j"
  ct_spiff :: "(string \<times> 'j) list \<Rightarrow> gerr + (string \<Rightarrow> string \<Rightarrow> gerr + 'j)"
  ct_importExecutions :: "'j inst_operation \<Rightarrow> 'w \<Rightarrow> (gerr + string list \<times> (string \<times> 'j) list) \<times> 'w"
  ct_objects :: "'j object_env"
  ct_sub :: "('w, 'j) sub_env"
  ct_exec :: "('w, 'j) exec_env"
  ct_exports :: "('w, 'j) export_env"

text \<open>
  Results: \<open>None\<close> if the check of siblings does not return within its fuel. \<open>and_then\<close> goes on where
  there was no error, \<open>with_error\<close> wraps an error.
\<close>

type_synonym ('o, 'w) run = "unit outcome option \<times> 'o \<times> 'w"

definition and_then :: "('o, 'w) run \<Rightarrow> ('o \<Rightarrow> 'w \<Rightarrow> ('o, 'w) run) \<Rightarrow> ('o, 'w) run" where
  "and_then r k = (case r of
     (Some (Done u), o1, w) \<Rightarrow> k o1 w
   | _ \<Rightarrow> r)"

definition returns :: "gerr option \<times> 'o \<times> 'w \<Rightarrow> ('o, 'w) run" where
  "returns r = (case r of
     (None, o1, w) \<Rightarrow> (Some (Done ()), o1, w)
   | (Some e, o1, w) \<Rightarrow> (Some (Fail e), o1, w))"

definition with_error :: "('w \<Rightarrow> gerr \<Rightarrow> gerr) \<Rightarrow> ('o, 'w) run \<Rightarrow> ('o, 'w) run" where
  "with_error f r = (case r of
     (Some (Fail e), o1, w) \<Rightarrow> (Some (Fail (f w e)), o1, w)
   | _ \<Rightarrow> r)"

definition ls_wrapped :: "'w kube_client \<Rightarrow> string \<Rightarrow> string \<Rightarrow> error_code list \<Rightarrow> 'w \<Rightarrow> gerr \<Rightarrow> gerr" where
  "ls_wrapped c operation reason codes w e = NewWrappedError (kc_now c w) e operation reason (error_string e) codes"

definition new_operation :: "blueprint \<Rightarrow> inst_context \<Rightarrow> installation \<Rightarrow> 'j inst_operation" where
  "new_operation bp cx inst =
     \<lparr>io_inst = inst, io_importsStatus = ib_importsStatus (newInstallationBase inst), io_imports = [], io_targets = [],
      io_targetLists = [], io_blueprintImports = bp_imports bp, io_blueprintExports = bp_exports bp, io_context = cx, io_current = []\<rparr>"

definition initPrerequisites ::
    "('w, 'j) inst_controller \<Rightarrow> 'w kube_client \<Rightarrow> installation \<Rightarrow> 'w \<Rightarrow> (gerr + 'j inst_operation) \<times> installation \<times> 'w" where
  "initPrerequisites ct c inst w =
     (let failed = (\<lambda>reason e i w. (Inl (ls_wrapped c ''InitPrerequisites'' reason [] w e), i, w))
      in case GetInstallationContext (ct_overwrites ct) c inst w of
           (Inl e, i, w1) \<Rightarrow> failed ''CalculateContext'' e i w1
         | (Inr cx, i, w1) \<Rightarrow>
             (case ct_registries ct (xc_RegistryPullSecrets (cx_external cx) @ in_registryPullSecrets (in_spec i)) i w1 of
                (Some e, w2) \<Rightarrow> failed ''SetupRegistries'' e i w2
              | (None, w2) \<Rightarrow>
                  (case ct_blueprint ct (ComponentDescriptorRef (cx_external cx)) (in_blueprint (in_spec i)) w2 of
                     (Inl e, w3) \<Rightarrow> failed ''ResolveBlueprint'' e i w3
                   | (Inr bp, w3) \<Rightarrow>
                       (case ct_build ct cx w3 of
                          (Some e, w4) \<Rightarrow> failed ''InitInstallationOperation'' (wrap ''unable to create installation operation'' e) i w4
                        | (None, w4) \<Rightarrow> (Inr (new_operation bp cx i), i, w4)))))"

section \<open>Imports of an operation (reconcile.go, imports/constructor.go, imports/operation.go)\<close>

definition op_base :: "'j inst_operation \<Rightarrow> installation_base" where
  "op_base o1 = \<lparr>ib_info = io_inst o1, ib_importsStatus = io_importsStatus o1\<rparr>"

definition put_base :: "installation_base \<Rightarrow> 'j inst_operation \<Rightarrow> 'j inst_operation" where
  "put_base i o1 = o1\<lparr>io_inst := ib_info i, io_importsStatus := ib_importsStatus i\<rparr>"

definition put_parent :: "installation \<Rightarrow> 'j inst_operation \<Rightarrow> 'j inst_operation" where
  "put_parent p o1 = o1\<lparr>io_context := (io_context o1)\<lparr>cx_parent := Some p\<rparr>\<rparr>"

text \<open>The parent is resolved with its own context, which may overwrite its reference in memory.\<close>

definition new_validator ::
    "('w, 'j) inst_controller \<Rightarrow> 'w kube_client \<Rightarrow> 'j inst_operation \<Rightarrow> internal_installation option \<Rightarrow> ('w, 'j) validator" where
  "new_validator ct c o1 parent =
     \<lparr>vl_env = ct_env ct, vl_client = c, vl_contextName = cx_name (io_context o1), vl_inst = io_inst o1, vl_parent = parent,
      vl_siblings = cx_siblings (io_context o1), vl_aggregate = ct_aggregate ct\<rparr>"

definition CreateInternalInstallationWithContext ::
    "('w, 'j) inst_controller \<Rightarrow> 'w kube_client \<Rightarrow> installation \<Rightarrow> 'w \<Rightarrow> (gerr + internal_installation) \<times> installation \<times> 'w" where
  "CreateInternalInstallationWithContext ct c inst w =
     (case GetExternalContext (ct_overwrites ct) c inst w of
        (Inl e, i, w1) \<Rightarrow> (Inl e, i, w1)
      | (Inr lsCtx, i, w1) \<Rightarrow>
          (case ct_blueprint ct (ComponentDescriptorRef lsCtx) (in_blueprint (in_spec i)) w1 of
             (Inl e, w2) \<Rightarrow> (Inl (wrap (''unable to resolve blueprint for '' @ om_namespace (in_meta i) @ ''/'' @ om_name (in_meta i)) e), i, w2)
           | (Inr bp, w2) \<Rightarrow> (Inr \<lparr>nn_base = newInstallationBase i, nn_blueprintImports = bp_imports bp\<rparr>, i, w2)))"

definition NewValidator ::
    "('w, 'j) inst_controller \<Rightarrow> 'w kube_client \<Rightarrow> 'j inst_operation \<Rightarrow> 'w \<Rightarrow> (gerr + ('w, 'j) validator) \<times> 'j inst_operation \<times> 'w" where
  "NewValidator ct c o1 w =
     (case cx_parent (io_context o1) of
        None \<Rightarrow> (Inr (new_validator ct c o1 None), o1, w)
      | Some p \<Rightarrow>
          (case CreateInternalInstallationWithContext ct c p w of
             (Inl e, p1, w1) \<Rightarrow> (Inl e, put_parent p1 o1, w1)
           | (Inr parent, p1, w1) \<Rightarrow> (Inr (new_validator ct c o1 (Some parent)), put_parent p1 o1, w1)))"

definition eligibleToUpdate ::
    "('w, 'j) inst_controller \<Rightarrow> 'w kube_client \<Rightarrow> 'j inst_operation \<Rightarrow> 'w \<Rightarrow> bool outcome option \<times> 'j inst_operation \<times> 'w" where
  "eligibleToUpdate ct c o1 w =
     (if om_generation (in_meta (io_inst o1)) \<noteq> ins_observedGeneration (in_status (io_inst o1)) then (Some (Done True), o1, w)
      else case NewValidator ct c o1 w of
             (Inl e, o2, w1) \<Rightarrow> (Some (Fail e), o2, w1)
           | (Inr v, o2, w1) \<Rightarrow>
               (case OutdatedImports v (op_base o2) w1 of
                  (Done True, i, w2) \<Rightarrow>
                    (case CheckDependentInstallations v (ct_fuel ct) i w2 of (r, i2, w3) \<Rightarrow> (r, put_base i2 o2, w3))
                | (r, i, w2) \<Rightarrow> (Some r, put_base i o2, w2)))"

text \<open>The values for the templates of the data mappings: later kinds of imports overwrite earlier ones.\<close>

fun put_values :: "string \<Rightarrow> (string \<times> (gerr + 'j)) list \<Rightarrow> (string \<times> 'j) list \<Rightarrow> gerr + (string \<times> 'j) list" where
  "put_values what [] vals = Inr vals"
| "put_values what ((name, r) # rs) vals =
     (case r of
        Inl e \<Rightarrow> Inl (PlainError (''unable to get '' @ what @ '' data for import '' @ name))
      | Inr v \<Rightarrow> put_values what rs (AList.update name v vals))"

definition template_values :: "'j import_values \<Rightarrow> gerr + (string \<times> 'j) list" where
  "template_values iv =
     (case put_values ''target'' (iv_targets iv) (iv_dataObjects iv) of
        Inl e \<Rightarrow> Inl e
      | Inr v1 \<Rightarrow>
          (case put_values ''targetlist'' (iv_targetLists iv) v1 of
             Inl e \<Rightarrow> Inl e
           | Inr v2 \<Rightarrow> put_values ''target'' (iv_componentDescriptors iv) v2))"

fun map_templates :: "(string \<Rightarrow> string \<Rightarrow> gerr + 'j) \<Rightarrow> (string \<times> string) list \<Rightarrow> gerr + (string \<times> 'j) list" where
  "map_templates tmpl [] = Inr []"
| "map_templates tmpl ((key, raw) # ms) =
     (case tmpl key raw of
        Inl e \<Rightarrow> Inl e
      | Inr v \<Rightarrow> (case map_templates tmpl ms of Inl e \<Rightarrow> Inl e | Inr vs \<Rightarrow> Inr ((key, v) # vs)))"

definition templateDataMappings ::
    "('w, 'j) inst_controller \<Rightarrow> installation \<Rightarrow> 'j import_values \<Rightarrow> gerr + (string \<times> 'j) list" where
  "templateDataMappings ct inst iv =
     (case template_values iv of
        Inl e \<Rightarrow> Inl e
      | Inr vals \<Rightarrow>
          (case ct_spiff ct vals of
             Inl e \<Rightarrow> Inl (wrap ''unable to init spiff templater'' e)
           | Inr tmpl \<Rightarrow> map_templates tmpl (in_importDataMappings (in_spec inst))))"

definition read_values ::
    "('w, 'j) inst_controller \<Rightarrow> (string \<times> 'j imported_data) list \<Rightarrow> (string \<times> imported_target) list
      \<Rightarrow> (string \<times> imported_target list) list \<Rightarrow> (string \<times> imported_cd) list \<Rightarrow> (string \<times> imported_cd list) list \<Rightarrow> 'j import_values" where
  "read_values ct ds ts tls cds cdls =
     \<lparr>iv_mappings = [], iv_dataObjects = map (\<lambda>(n, d). (n, mp_value d)) ds,
      iv_targets = map (\<lambda>(n, t). (n, ct_targetData ct (mt_raw t))) ts,
      iv_targetLists = map (\<lambda>(n, l). (n, ct_targetListData ct (map mt_raw l))) tls,
      iv_componentDescriptors = map (\<lambda>(n, d). (n, ct_descriptorData ct (ic_descriptor d))) cds,
      iv_componentDescriptorLists = map (\<lambda>(n, l). (n, ct_descriptorListData ct (map ic_descriptor l))) cdls\<rparr>"

definition set_values ::
    "(string \<times> 'j) list \<Rightarrow> (string \<times> imported_target) list \<Rightarrow> (string \<times> imported_target list) list \<Rightarrow> 'j inst_operation \<Rightarrow> 'j inst_operation" where
  "set_values vals ts tls o1 = o1\<lparr>io_targets := ts, io_targetLists := tls, io_imports := vals\<rparr>"

definition Construct ::
    "('w, 'j) inst_controller \<Rightarrow> 'w kube_client \<Rightarrow> 'j inst_operation \<Rightarrow> 'w \<Rightarrow> unit outcome \<times> 'j inst_operation \<times> 'w" where
  "Construct ct c o1 w =
     (case read_all_imports (ct_env ct) c (cx_name (io_context o1)) (op_base o1) w of
        (Panic, i1, w1) \<Rightarrow> (Panic, put_base i1 o1, w1)
      | (Fail e, i1, w1) \<Rightarrow> (Fail e, put_base i1 o1, w1)
      | (Done (ds, ts, tls), i1, w1) \<Rightarrow>
          (case GetImportedComponentDescriptors (ct_descriptors ct) c i1 w1 of
             (Panic, i2, w2) \<Rightarrow> (Panic, put_base i2 o1, w2)
           | (Fail e, i2, w2) \<Rightarrow> (Fail e, put_base i2 o1, w2)
           | (Done cds, i2, w2) \<Rightarrow>
               (case GetImportedComponentDescriptorLists (ct_descriptors ct) c i2 w2 of
                  (Panic, i3, w3) \<Rightarrow> (Panic, put_base i3 o1, w3)
                | (Fail e, i3, w3) \<Rightarrow> (Fail e, put_base i3 o1, w3)
                | (Done cdls, i3, w3) \<Rightarrow>
                    (let o2 = put_base i3 o1; iv = read_values ct ds ts tls cds cdls
                     in case templateDataMappings ct (io_inst o2) iv of
                          Inl e \<Rightarrow> (Fail e, o2, w3)
                        | Inr mappings \<Rightarrow>
                            (case constructImports (ct_schema ct) (iv\<lparr>iv_mappings := mappings\<rparr>) (om_name (in_meta (io_inst o2))) []
                                    (io_blueprintImports o2) of
                               Panic \<Rightarrow> (Panic, o2, w3)
                             | Fail e \<Rightarrow> (Fail e, o2, w3)
                             | Done vals \<Rightarrow> (Done (), set_values vals ts tls o2, w3))))))"

text \<open>The import executions of the blueprint; as in the execution, the reference is injected into the installation.\<close>

definition ImportValidationFailed :: string where
  "ImportValidationFailed = ''ImportValidationFailed''"

definition imports_Ensure ::
    "('w, 'j) inst_controller \<Rightarrow> 'w kube_client \<Rightarrow> 'j inst_operation \<Rightarrow> 'w \<Rightarrow> gerr option \<times> 'j inst_operation \<times> 'w" where
  "imports_Ensure ct c o0 w =
     (let cond = GetOrInitCondition (kc_now c w) (ins_conditions (in_status (io_inst o0))) ValidateImportsCondition;
          o1 = injected o0;
          failed = (\<lambda>now msg. op_inst (inst_merge_conditions [UpdatedCondition now cond ConditionFalse ImportValidationFailed msg []]))
      in case ct_importExecutions ct o1 w of
           (Inl e, w1) \<Rightarrow> (Some (wrap ''unable to template executions'' e), failed (kc_now c w1) ''Unable to template executions'' o1, w1)
         | (Inr (errors, bindings), w1) \<Rightarrow>
             (let o2 = o1\<lparr>io_imports := merge_imports (io_imports o1) bindings\<rparr>; msg = join_comma errors
              in if errors = [] then (None, o2, w1)
                 else (Some (wrap ''import validation failed'' (PlainError msg)), failed (kc_now c w1) msg o2, w1)))"

definition ConstructImports ::
    "('w, 'j) inst_controller \<Rightarrow> 'w kube_client \<Rightarrow> 'j inst_operation \<Rightarrow> 'w \<Rightarrow> ('j inst_operation, 'w) run" where
  "ConstructImports ct c o1 w =
     (case NewValidator ct c o1 w of
        (Inl e, o2, w1) \<Rightarrow>
          (Some (Fail (ls_wrapped c ''Validate'' ''ImportsSatisfied'' [] w1 (wrap ''unable to init import validator'' e))), o2, w1)
      | (Inr v, o2, w1) \<Rightarrow>
          and_then
            (with_error (ls_wrapped c ''Validate'' ''ImportsSatisfied'' [])
              (case ImportsSatisfied v (ct_fuel ct) (op_base o2) w1 of (r, i, w2) \<Rightarrow> (r, put_base i o2, w2)))
            (\<lambda>o3 w3. and_then
              (with_error (ls_wrapped c ''Reconcile'' ''ConstructImports'' [])
                (case Construct ct c o3 w3 of (r, o4, w4) \<Rightarrow> (Some r, o4, w4)))
              (\<lambda>o4 w4. and_then
                (with_error (ls_wrapped c ''Reconcile'' ''ConstructImports'' []) (returns (imports_Ensure ct c o4 w4)))
                (\<lambda>o5 w5. with_error (ls_wrapped c ''Reconcile'' ''CreateOrUpdateImports'' [])
                  (returns (CreateOrUpdateImports (ct_objects ct) c o5 w5))))))"

section \<open>Updating an installation (reconcile.go)\<close>

definition op_status :: "(installation_status \<Rightarrow> installation_status) \<Rightarrow> 'j inst_operation \<Rightarrow> 'j inst_operation" where
  "op_status f = op_inst (\<lambda>i. i\<lparr>in_status := f (in_status i)\<rparr>)"

definition finish_update :: "'j inst_operation \<Rightarrow> 'j inst_operation" where
  "finish_update o1 = op_status (\<lambda>s. s\<lparr>ins_imports := GetStatus (io_importsStatus o1),
     ins_observedGeneration := om_generation (in_meta (io_inst o1)), ins_phase := PhProgressing, ins_lastError := None\<rparr>) o1"

definition trigger_subs :: "'w kube_client \<Rightarrow> 'j inst_operation \<Rightarrow> 'w \<Rightarrow> gerr option \<times> 'j inst_operation \<times> 'w" where
  "trigger_subs c o1 w =
     (case TriggerSubInstallations c (ins_installationReferences (in_status (io_inst o1))) ReconcileOperation w of
        (r, w1) \<Rightarrow> (map_option (wrap ''unable to trigger subinstallations'') r, o1, w1))"

definition Update ::
    "('w, 'j) inst_controller \<Rightarrow> 'w kube_client \<Rightarrow> 'j inst_operation \<Rightarrow> 'w \<Rightarrow> ('j inst_operation, 'w) run" where
  "Update ct c o0 w =
     and_then (ConstructImports ct c o0 w)
       (\<lambda>o1 w1. and_then
         (with_error (ls_wrapped c ''Reconcile'' ''CreateOrUpdateImports'' []) (returns (CreateOrUpdateImports (ct_objects ct) c o1 w1)))
         (\<lambda>o2 w2. and_then (returns (sub_Ensure (ct_sub ct) c (op_inst (inst_phase PhProgressing) o2) w2))
           (\<lambda>o3 w3. and_then
             (with_error (ls_wrapped c ''Reconcile'' ''ReconcileSubinstallations'' []) (returns (trigger_subs c o3 w3)))
             (\<lambda>o4 w4. and_then
               (with_error (ls_wrapped c ''Reconcile'' ''ReconcileExecution'' []) (returns (exec_Ensure (ct_exec ct) c o4 w4)))
               (\<lambda>o5 w5. (Some (Done ()), finish_update o5, w5))))))"

section \<open>Deletion (controllers/installations/reconcile_delete.go)\<close>

text \<open>The check of the target exports asks for imports of data.\<close>

definition checkIfSiblingImports :: "installation \<Rightarrow> installation list \<Rightarrow> bool" where
  "checkIfSiblingImports inst siblings =
     list_ex (\<lambda>sibling. list_ex (\<lambda>d. IsImportingData sibling (dx_dataRef d)) (ix_data (in_exports (in_spec inst)))
       \<or> list_ex (\<lambda>t. IsImportingData sibling (tx_target t)) (ix_targets (in_exports (in_spec inst)))) siblings"

definition force_execution :: "execution \<Rightarrow> execution" where
  "force_execution exec = exec\<lparr>ex_meta := SetOperation (ex_meta exec) ForceReconcileOperation\<rparr>"

definition deleteExecution :: "'w kube_client \<Rightarrow> installation \<Rightarrow> 'w \<Rightarrow> (gerr + bool) \<times> 'w" where
  "deleteExecution c inst w =
     (case GetExecutionForInstallation c inst w of
        (Inl e, w1) \<Rightarrow> (Inl e, w1)
      | (Inr None, w1) \<Rightarrow> (Inr True, w1)
      | (Inr (Some exec), w1) \<Rightarrow>
          (case (if time_is_zero (om_deletionTimestamp (ex_meta exec)) then rc_delete (kc_executions c) exec w1 else (None, w1)) of
             (Some e, w2) \<Rightarrow> (Inl e, w2)
           | (None, w2) \<Rightarrow>
               (if HasOperation (in_meta inst) ForceReconcileOperation
                then (case rc_update (kc_executions c) (force_execution exec) w2 of
                        (Inl e, w3) \<Rightarrow> (Inl (PlainError ''unable to add force reconcile label''), w3)
                      | (Inr exec1, w3) \<Rightarrow> (Inr False, w3))
                else (Inr False, w2))))"

text \<open>In the loop the name \<open>inst\<close> is the sub-installation, in both conditions.\<close>

fun delete_subs :: "'w kube_client \<Rightarrow> installation list \<Rightarrow> 'w \<Rightarrow> gerr option \<times> 'w" where
  "delete_subs c [] w = (None, w)"
| "delete_subs c (i # is) w =
     (case (if time_is_zero (om_deletionTimestamp (in_meta i)) then rc_delete (kc_installations c) i w else (None, w)) of
        (Some e, w1) \<Rightarrow> (Some e, w1)
      | (None, w1) \<Rightarrow>
          (if HasOperation (in_meta i) ForceReconcileOperation
           then (case rc_update (kc_installations c) (set_operation ForceReconcileOperation i) w1 of
                   (Inl e, w2) \<Rightarrow>
                     (Some (wrap (''unable to add force reconcile annotation to subinstallation '' @ om_name (in_meta i)) e), w2)
                 | (Inr i1, w2) \<Rightarrow> delete_subs c is w2)
           else delete_subs c is w1))"

definition deleteSubInstallations :: "'w kube_client \<Rightarrow> installation \<Rightarrow> 'w \<Rightarrow> (gerr + bool) \<times> 'w" where
  "deleteSubInstallations c inst w =
     (case ListSubinstallations c inst [] w of
        (Inl e, w1) \<Rightarrow> (Inl e, w1)
      | (Inr subs, w1) \<Rightarrow>
          (if subs = [] then (Inr True, w1)
           else case delete_subs c subs w1 of
                  (Some e, w2) \<Rightarrow> (Inl e, w2)
                | (None, w2) \<Rightarrow> (Inr False, w2)))"

definition released :: "installation \<Rightarrow> installation" where
  "released inst = inst\<lparr>in_meta := RemoveFinalizer (in_meta inst) LandscaperFinalizer\<rparr>"

definition update_installation :: "'w kube_client \<Rightarrow> installation \<Rightarrow> 'w \<Rightarrow> gerr option \<times> installation \<times> 'w" where
  "update_installation c inst w =
     (case rc_update (kc_installations c) inst w of
        (Inl e, w1) \<Rightarrow> (Some e, inst, w1)
      | (Inr inst1, w1) \<Rightarrow> (None, inst1, w1))"

definition DeleteExecutionAndSubinstallations ::
    "'w kube_client \<Rightarrow> 'j inst_operation \<Rightarrow> 'w \<Rightarrow> gerr option \<times> 'j inst_operation \<times> 'w" where
  "DeleteExecutionAndSubinstallations c o0 w =
     (let o1 = op_inst (inst_phase PhDeleting) (o0\<lparr>io_current := ''Deletion''\<rparr>);
          failed = (\<lambda>reason e w. (Some (op_error (kc_now c w) o1 e reason (error_string e)), o1, w))
      in case deleteExecution c (io_inst o1) w of
           (Inl e, w1) \<Rightarrow> failed ''DeleteExecution'' e w1
         | (Inr execDeleted, w1) \<Rightarrow>
             (case deleteSubInstallations c (io_inst o1) w1 of
                (Inl e, w2) \<Rightarrow> failed ''DeleteSubinstallations'' e w2
              | (Inr subInstsDeleted, w2) \<Rightarrow>
                  (if \<not> execDeleted \<or> \<not> subInstsDeleted then (None, o1, w2)
                   else case update_installation c (released (io_inst o1)) w2 of
                          (r, i, w3) \<Rightarrow> (r, o1\<lparr>io_inst := i\<rparr>, w3))))"

definition inst_run :: "('j inst_operation, 'w) run \<Rightarrow> (installation, 'w) run" where
  "inst_run r = (case r of (x, o1, w) \<Rightarrow> (x, io_inst o1, w))"

definition without_operation :: "installation \<Rightarrow> installation" where
  "without_operation i = i\<lparr>in_meta := (in_meta i)\<lparr>om_annotations := smap_del (om_annotations (in_meta i)) OperationAnnotation\<rparr>\<rparr>"

definition remove_operation :: "'w kube_client \<Rightarrow> 'j inst_operation \<Rightarrow> 'w \<Rightarrow> gerr option \<times> 'j inst_operation \<times> 'w" where
  "remove_operation c o1 w =
     (case update_installation c (without_operation (io_inst o1)) w of
        (r, i, w1) \<Rightarrow>
          (map_option (\<lambda>e. op_error (kc_now c w1) o1 e ''RemoveOperationAnnotation'' ''Unable to remove operation annotation'') r,
           o1\<lparr>io_inst := i\<rparr>, w1))"

definition SiblingImportError :: gerr where
  "SiblingImportError = PlainError ''a sibling still imports some of the exports''"

definition delete_forced ::
    "('w, 'j) inst_controller \<Rightarrow> 'w kube_client \<Rightarrow> installation \<Rightarrow> 'w \<Rightarrow> (installation, 'w) run" where
  "delete_forced ct c inst w =
     (case initPrerequisites ct c inst w of
        (Inl e, i, w1) \<Rightarrow> (Some (Fail e), i, w1)
      | (Inr o1, i, w1) \<Rightarrow>
          inst_run (and_then (Update ct c o1 w1)
            (\<lambda>o2 w2. and_then (returns (DeleteExecutionAndSubinstallations c o2 w2))
              (\<lambda>o3 w3. returns (remove_operation c o3 w3)))))"

text \<open>The last part of the deletion: an outdated installation is updated before its children are deleted.\<close>

definition delete_children ::
    "('w, 'j) inst_controller \<Rightarrow> 'w kube_client \<Rightarrow> installation \<Rightarrow> 'w \<Rightarrow> (installation, 'w) run" where
  "delete_children ct c inst w =
     (case initPrerequisites ct c inst w of
        (Inl e, i, w1) \<Rightarrow> (Some (Fail e), i, w1)
      | (Inr o0, i, w1) \<Rightarrow>
          (case eligibleToUpdate ct c (o0\<lparr>io_current := ''Deletion''\<rparr>) w1 of
             (None, o1, w2) \<Rightarrow> (None, io_inst o1, w2)
           | (Some Panic, o1, w2) \<Rightarrow> (Some Panic, io_inst o1, w2)
           | (Some (Fail e), o1, w2) \<Rightarrow> (Some (Fail (ls_wrapped c ''Deletion'' ''EligibleForUpdate'' [] w2 e)), io_inst o1, w2)
           | (Some (Done eligible), o1, w2) \<Rightarrow>
               inst_run (and_then
                 (if eligible then Update ct c (op_inst (inst_phase PhPending) o1) w2 else (Some (Done ()), o1, w2))
                 (\<lambda>o2 w3. returns (DeleteExecutionAndSubinstallations c o2 w3)))))"

definition handleDelete ::
    "('w, 'j) inst_controller \<Rightarrow> 'w kube_client \<Rightarrow> installation \<Rightarrow> 'w \<Rightarrow> (installation, 'w) run" where
  "handleDelete ct c inst w =
     (let failed = (\<lambda>reason codes e w. (Some (Fail (ls_wrapped c ''Deletion'' reason codes w e)), inst, w))
      in if HasOperation (in_meta inst) ForceReconcileOperation then delete_forced ct c inst w
         else case GetParentAndSiblings c inst w of
                (Inl e, w1) \<Rightarrow> failed ''CalculateInstallationContext'' [ErrorInternalProblem] e w1
              | (Inr (parent, siblings), w1) \<Rightarrow>
                  (if checkIfSiblingImports inst siblings then failed ''SiblingImport'' [] SiblingImportError w1
                   else case exec_CombinedPhase c inst w1 of
                          (Inl e, w2) \<Rightarrow> failed ''CheckExecutionStatus'' [ErrorInternalProblem] e w2
                        | (Inr execPhase, w2) \<Rightarrow>
                            (case sub_CombinedPhase c inst w2 of
                               (Inl e, w3) \<Rightarrow> failed ''CheckSubinstallationStatus'' [] e w3
                             | (Inr subPhase, w3) \<Rightarrow>
                                 (let combined = CombinedInstallationPhase [subPhase, execPhase]
                                  in if execPhase = PhEmpty \<and> subPhase = PhEmpty
                                     then returns (update_installation c (released inst) w3)
                                     else if combined \<noteq> PhEmpty \<and> \<not> IsCompletedInstallationPhase combined
                                     then (Some (Done ()), inst_phase PhDeleting inst, w3)
                                     else delete_children ct c inst w3))))"

section \<open>Reconciliation (reconcile.go)\<close>

text \<open>After a successful run of the children: the imports are constructed again and the exports stored.\<close>

definition construct_exports ::
    "('w, 'j) inst_controller \<Rightarrow> 'w kube_client \<Rightarrow> 'j inst_operation \<Rightarrow> 'w
      \<Rightarrow> ('j data_object list \<times> imported_target list) outcome \<times> 'w" where
  "construct_exports ct c o1 w =
     (case Construct_exports (ct_exports ct) c o1 w of
        (Fail e, w1) \<Rightarrow> (Fail (op_error (kc_now c w1) o1 e ''ConstructExports'' (error_string e)), w1)
      | r \<Rightarrow> r)"

definition op_wrapped :: "'w kube_client \<Rightarrow> 'j inst_operation \<Rightarrow> string \<Rightarrow> 'w \<Rightarrow> gerr \<Rightarrow> gerr" where
  "op_wrapped c o1 reason w e = op_error (kc_now c w) o1 e reason (error_string e)"

definition trigger_siblings :: "'w kube_client \<Rightarrow> 'j inst_operation \<Rightarrow> 'w \<Rightarrow> gerr option \<times> 'j inst_operation \<times> 'w" where
  "trigger_siblings c o1 w =
     (case TriggerDependants c (io_context o1) (io_inst o1) w of (r, w1) \<Rightarrow> (r, o1, w1))"

definition complete_installation ::
    "('w, 'j) inst_controller \<Rightarrow> 'w kube_client \<Rightarrow> 'j inst_operation \<Rightarrow> 'w \<Rightarrow> ('j inst_operation, 'w) run" where
  "complete_installation ct c o0 w =
     and_then (ConstructImports ct c o0 w)
       (\<lambda>o1a w1.
          let o1 = o1a\<lparr>io_current := ''Completing''\<rparr>
          in case construct_exports ct c o1 w1 of
               (Panic, w2) \<Rightarrow> (Some Panic, o1, w2)
             | (Fail e, w2) \<Rightarrow> (Some (Fail e), o1, w2)
             | (Done (dataExports, targetExports), w2) \<Rightarrow>
                 and_then
                   (with_error (op_wrapped c o1 ''CreateOrUpdateExports'')
                     (returns (CreateOrUpdateExports (ct_objects ct) c dataExports targetExports o1 w2)))
                   (\<lambda>o2 w3. and_then
                     (with_error (\<lambda>w e. op_wrapped c o2 ''TriggerDependents'' w (wrap ''unable to trigger dependent installations'' e))
                       (returns (trigger_siblings c (op_inst (inst_phase PhSucceeded) o2) w3)))
                     (\<lambda>o3 w4. (Some (Done ()), op_status (\<lambda>s. s\<lparr>ins_lastError := None\<rparr>) o3, w4))))"

definition reconcile_phase ::
    "('w, 'j) inst_controller \<Rightarrow> 'w kube_client \<Rightarrow> installation \<Rightarrow> phase \<Rightarrow> 'w \<Rightarrow> (installation, 'w) run" where
  "reconcile_phase ct c inst combinedState w =
     (if HasOperation (in_meta inst) AbortOperation
      then (case rc_statusUpdate (kc_installations c) (inst_phase PhAborted inst) w of
              (Inl e, w1) \<Rightarrow> (Some (Fail e), inst_phase PhAborted inst, w1)
            | (Inr i, w1) \<Rightarrow> (Some (Done ()), i, w1))
      else case initPrerequisites ct c inst w of
             (Inl e, i, w1) \<Rightarrow> (Some (Fail e), i, w1)
           | (Inr o0, i, w1) \<Rightarrow>
               (case eligibleToUpdate ct c (o0\<lparr>io_current := ''Validate''\<rparr>) w1 of
                  (None, o1, w2) \<Rightarrow> (None, io_inst o1, w2)
                | (Some Panic, o1, w2) \<Rightarrow> (Some Panic, io_inst o1, w2)
                | (Some (Fail e), o1, w2) \<Rightarrow> (Some (Fail (op_wrapped c o1 ''EligibleForUpdate'' w2 e)), io_inst o1, w2)
                | (Some (Done eligible), o1, w2) \<Rightarrow>
                    inst_run
                      (if eligible then Update ct c (op_inst (inst_phase PhPending) o1) w2
                       else if combinedState \<noteq> PhSucceeded then (Some (Done ()), op_inst (inst_phase combinedState) o1, w2)
                       else complete_installation ct c o1 w2)))"

definition reconcile ::
    "('w, 'j) inst_controller \<Rightarrow> 'w kube_client \<Rightarrow> installation \<Rightarrow> 'w \<Rightarrow> (installation, 'w) run" where
  "reconcile ct c inst w =
     (case exec_CombinedPhase c inst w of
        (Inl e, w1) \<Rightarrow> (Some (Fail (ls_wrapped c ''Validate'' ''CheckExecutionStatus'' [ErrorInternalProblem] w1 e)), inst, w1)
      | (Inr execState, w1) \<Rightarrow>
          (case sub_CombinedPhase c inst w1 of
             (Inl e, w2) \<Rightarrow> (Some (Fail (ls_wrapped c ''Validate'' ''CheckSubinstallationStatus'' [] w2 e)), inst, w2)
           | (Inr subState, w2) \<Rightarrow>
               (let combined = CombinedInstallationPhase [subState, execState]
                in if combined = PhEmpty then reconcile_phase ct c inst PhSucceeded w2
                   else if \<not> IsCompletedInstallationPhase combined then (Some (Done ()), inst_phase PhProgressing inst, w2)
                   else reconcile_phase ct c inst combined w2)))"

definition forceReconcile ::
    "('w, 'j) inst_controller \<Rightarrow> 'w kube_client \<Rightarrow> installation \<Rightarrow> 'w \<Rightarrow> (installation, 'w) run" where
  "forceReconcile ct c inst w =
     (case initPrerequisites ct c inst w of
        (Inl e, i, w1) \<Rightarrow> (Some (Fail e), i, w1)
      | (Inr o1, i, w1) \<Rightarrow>
          inst_run (and_then (Update ct c (op_inst (inst_phase PhPending) o1) w1)
            (\<lambda>o2 w2. case update_installation c (without_operation (io_inst o2)) w2 of
               (Some e, i2, w3) \<Rightarrow> (Some (Fail e), o2\<lparr>io_inst := i2\<rparr>, w3)
             | (None, i2, w3) \<Rightarrow>
                 (Some (Done ()), op_status (\<lambda>s. s\<lparr>ins_observedGeneration := om_generation (in_meta i2), ins_phase := PhProgressing\<rparr>)
                    (o2\<lparr>io_inst := i2\<rparr>), w3))))"

section \<open>The phases of the children (helper.go)\<close>

definition child_phases :: "'w kube_client \<Rightarrow> installation \<Rightarrow> 'w \<Rightarrow> (gerr + phase list) \<times> 'w" where
  "child_phases c inst w =
     (case (case ins_executionReference (in_status inst) of
              None \<Rightarrow> (Inr [], w)
            | Some ref \<Rightarrow>
                (case rc_get (kc_executions c) ref w of
                   (Inl e, w1) \<Rightarrow> (Inl (wrap (''error getting execution for installation '' @ om_namespace (in_meta inst) @ ''/''
                     @ om_name (in_meta inst)) e), w1)
                 | (Inr exec, w1) \<Rightarrow> (Inr [es_phase (ex_status exec)], w1))) of
        (Inl e, w1) \<Rightarrow> (Inl e, w1)
      | (Inr phases, w1) \<Rightarrow>
          (case ListSubinstallations c inst [] w1 of
             (Inl e, w2) \<Rightarrow> (Inl (wrap (''error fetching subinstallations for installation '' @ om_namespace (in_meta inst) @ ''/''
               @ om_name (in_meta inst)) e), w2)
           | (Inr subs, w2) \<Rightarrow> (Inr (phases @ map (\<lambda>s. ins_phase (in_status s)) subs), w2)))"

definition for_installation :: "string \<Rightarrow> installation \<Rightarrow> gerr \<Rightarrow> gerr" where
  "for_installation text inst = wrap (text @ '' for installation '' @ om_namespace (in_meta inst) @ ''/'' @ om_name (in_meta inst))"

definition op_set_phase :: "'w kube_client \<Rightarrow> phase \<Rightarrow> 'j inst_operation \<Rightarrow> 'w \<Rightarrow> gerr option \<times> 'j inst_operation \<times> 'w" where
  "op_set_phase c p o1 w =
     (case UpdateInstallationStatus c (io_inst o1) p [] w of (r, inst1, w1) \<Rightarrow> (r, o1\<lparr>io_inst := inst1\<rparr>, w1))"

definition follow_phase ::
    "('w, 'j) inst_controller \<Rightarrow> 'w kube_client \<Rightarrow> 'j inst_operation \<Rightarrow> phase \<Rightarrow> 'w \<Rightarrow> ('j inst_operation, 'w) run" where
  "follow_phase ct c o0 cp w =
     and_then
       (if cp = PhSucceeded
        then (case construct_exports ct c o0 w of
                (Panic, w1) \<Rightarrow> (Some Panic, o0, w1)
              | (Fail e, w1) \<Rightarrow> (Some (Fail e), o0, w1)
              | (Done (dataExports, targetExports), w1) \<Rightarrow>
                  with_error (op_wrapped c o0 ''CreateOrUpdateExports'')
                    (returns (CreateOrUpdateExports (ct_objects ct) c dataExports targetExports o0 w1)))
        else (Some (Done ()), o0, w))
       (\<lambda>o1 w1. and_then
         (with_error (\<lambda>w. for_installation ''error updating installation status'' (io_inst o1)) (returns (op_set_phase c cp o1 w1)))
         (\<lambda>o2 w2. if cp = PhSucceeded
            then with_error (op_wrapped c o2 ''TriggerDependants'') (returns (trigger_siblings c o2 w2))
            else (Some (Done ()), o2, w2)))"

definition HandleSubComponentPhaseChanges ::
    "('w, 'j) inst_controller \<Rightarrow> 'w kube_client \<Rightarrow> installation \<Rightarrow> 'w \<Rightarrow> (installation, 'w) run" where
  "HandleSubComponentPhaseChanges ct c inst w =
     (case child_phases c inst w of
        (Inl e, w1) \<Rightarrow> (Some (Fail e), inst, w1)
      | (Inr phases, w1) \<Rightarrow>
          (let cp = CombinedInstallationPhase phases
           in if phases = [] \<or> ins_phase (in_status inst) = cp then (Some (Done ()), inst, w1)
              else case initPrerequisites ct c inst w1 of
                     (Inl e, i, w2) \<Rightarrow> (Some (Fail (for_installation ''unable to construct operation'' inst e)), i, w2)
                   | (Inr o1, i, w2) \<Rightarrow> inst_run (follow_phase ct c o1 cp w2)))"

section \<open>The controller (controller.go)\<close>

definition inst_handled_status :: "time \<Rightarrow> gerr option \<Rightarrow> installation \<Rightarrow> installation" where
  "inst_handled_status now err inst =
     (let lastError = TryUpdateError now (ins_lastError (in_status inst)) err
      in inst\<lparr>in_status := (in_status inst)\<lparr>ins_lastError := lastError,
                ins_phase := GetPhaseForLastError (ins_phase (in_status inst)) lastError (5 * minute)\<rparr>\<rparr>)"

definition inst_HandleErrorFunc ::
    "'w kube_client \<Rightarrow> installation \<Rightarrow> gerr option \<Rightarrow> installation \<Rightarrow> 'w \<Rightarrow> gerr option \<times> 'w" where
  "inst_HandleErrorFunc c old err inst w =
     (let inst1 = inst_handled_status (kc_now c w) err inst
      in if in_status old \<noteq> in_status inst1
         then (case rc_statusUpdate (kc_installations c) inst1 w of
                 (Inl err2, w1) \<Rightarrow> (if err \<noteq> None then Some err2 else err, w1)
               | (Inr inst2, w1) \<Rightarrow> (err, w1))
         else (err, w))"

text \<open>A panic ends the run, and so does a check that does not return; both leave the error handler out.\<close>

definition handled :: "'w kube_client \<Rightarrow> installation \<Rightarrow> (installation, 'w) run \<Rightarrow> unit outcome option \<times> 'w" where
  "handled c old r = (case r of
     (Some (Done u), inst, w) \<Rightarrow>
       (case inst_HandleErrorFunc c old None inst w of
          (None, w1) \<Rightarrow> (Some (Done ()), w1) | (Some e, w1) \<Rightarrow> (Some (Fail e), w1))
   | (Some (Fail e), inst, w) \<Rightarrow>
       (case inst_HandleErrorFunc c old (Some e) inst w of
          (None, w1) \<Rightarrow> (Some (Done ()), w1) | (Some e1, w1) \<Rightarrow> (Some (Fail e1), w1))
   | (x, inst, w) \<Rightarrow> (x, w))"

definition protected :: "installation \<Rightarrow> installation" where
  "protected inst = inst\<lparr>in_meta := AddFinalizer (in_meta inst) LandscaperFinalizer\<rparr>"

definition reconcile_installation ::
    "('w, 'j) inst_controller \<Rightarrow> 'w kube_client \<Rightarrow> installation \<Rightarrow> 'w \<Rightarrow> unit outcome option \<times> 'w" where
  "reconcile_installation ct c inst w =
     (if HasOperation (in_meta inst) ReconcileOperation
      then (case update_installation c (without_operation inst) w of
              (Some e, i, w1) \<Rightarrow> (Some (Fail e), w1)
            | (None, i, w1) \<Rightarrow> handled c inst (reconcile ct c i w1))
      else if HasOperation (in_meta inst) ForceReconcileOperation then handled c inst (forceReconcile ct c inst w)
      else if IsCompletedInstallationPhase (ins_phase (in_status inst))
        \<and> ins_observedGeneration (in_status inst) = om_generation (in_meta inst)
      then (case HandleSubComponentPhaseChanges ct c inst w of
              (Some (Fail e), i, w1) \<Rightarrow> (Some (Fail (ls_wrapped c ''Reconcile'' ''HandleSubComponentPhaseChanges'' [] w1 e)), w1)
            | (r, i, w1) \<Rightarrow> (r, w1))
      else handled c inst (reconcile ct c inst w))"

definition inst_Reconcile ::
    "('w, 'j) inst_controller \<Rightarrow> 'w kube_client \<Rightarrow> object_reference \<Rightarrow> 'w \<Rightarrow> unit outcome option \<times> 'w" where
  "inst_Reconcile ct c key w =
     (case rc_get (kc_installations c) key w of
        (Inl e, w1) \<Rightarrow> (if IsNotFound e then Some (Done ()) else Some (Fail e), w1)
      | (Inr stored, w1) \<Rightarrow>
          (let inst = SetDefaults_Installation stored
           in if time_is_zero (om_deletionTimestamp (in_meta inst)) \<and> \<not> HasFinalizer (om_finalizers (in_meta inst)) LandscaperFinalizer
              then (case rc_update (kc_installations c) (protected inst) w1 of
                      (Inl e, w2) \<Rightarrow> (Some (Fail e), w2)
                    | (Inr i, w2) \<Rightarrow> (Some (Done ()), w2))
              else if \<not> time_is_zero (om_deletionTimestamp (in_meta inst)) then handled c inst (handleDelete ct c inst w1)
              else reconcile_installation ct c inst w1))"

end
