(* ===== verification/InstallationControllerFacts.thy ===== *)
theory InstallationControllerFacts
  imports InstallationController
begin

text \<open>
  What the controller of installations does: the order of deletion, what a finished installation follows, what comes
  before the phase Succeeded, and an update that a removed template cuts short. The examples run the whole controller on a cluster in memory.
\<close>

section \<open>Reads of the logged client\<close>

lemma GetExecutionForInstallation_logged:
  "GetExecutionForInstallation (logged c) inst (w, l)
     = (fst (GetExecutionForInstallation c inst w), snd (GetExecutionForInstallation c inst w), l)"
  by (simp add: GetExecutionForInstallation_def unlogged_call_def case_prod_beta split: sum.split)

lemma ListSubinstallations_logged:
  "ListSubinstallations (logged c) inst fs (w, l)
     = (fst (ListSubinstallations c inst fs w), snd (ListSubinstallations c inst fs w), l)"
  by (simp add: ListSubinstallations_def unlogged_call_def case_prod_beta split: sum.split)

lemma GetParentAndSiblings_logged:
  "GetParentAndSiblings (logged c) inst (w, l)
     = (fst (GetParentAndSiblings c inst w), snd (GetParentAndSiblings c inst w), l)"
  by (simp add: GetParentAndSiblings_def GetRootInstallations_def ListSubinstallations_logged unlogged_call_def case_prod_beta split: sum.split)

lemma exec_CombinedPhase_logged:
  "exec_CombinedPhase (logged c) inst (w, l) = (fst (exec_CombinedPhase c inst w), snd (exec_CombinedPhase c inst w), l)"
  by (simp add: exec_CombinedPhase_def GetExecutionForInstallation_logged case_prod_beta split: sum.split)

lemma sub_CombinedPhase_logged:
  "sub_CombinedPhase (logged c) inst (w, l) = (fst (sub_CombinedPhase c inst w), snd (sub_CombinedPhase c inst w), l)"
  by (simp add: sub_CombinedPhase_def ListSubinstallations_logged case_prod_beta split: sum.split)

lemma child_phases_logged:
  "child_phases (logged c) inst (w, l) = (fst (child_phases c inst w), snd (child_phases c inst w), l)"
  by (simp add: child_phases_def ListSubinstallations_logged unlogged_call_def case_prod_beta split: sum.split option.split)

lemmas logged_reads = GetExecutionForInstallation_logged ListSubinstallations_logged GetParentAndSiblings_logged
  exec_CombinedPhase_logged sub_CombinedPhase_logged child_phases_logged

section \<open>Deletion\<close>

definition execution_deletion :: "installation \<Rightarrow> execution option \<Rightarrow> api_write list" where
  "execution_deletion inst exec = (case exec of
     None \<Rightarrow> []
   | Some x \<Rightarrow> (if time_is_zero (om_deletionTimestamp (ex_meta x)) then [DeleteExec x] else [])
       @ (if HasOperation (in_meta inst) ForceReconcileOperation then [UpdateExec (force_execution x)] else []))"

definition sub_deletion :: "installation \<Rightarrow> api_write list" where
  "sub_deletion i =
     (if time_is_zero (om_deletionTimestamp (in_meta i)) then [DeleteInst i] else [])
     @ (if HasOperation (in_meta i) ForceReconcileOperation then [UpdateInst (set_operation ForceReconcileOperation i)] else [])"

lemma deleteExecution_log:
  assumes run: "deleteExecution (logged c) inst (w, l) = (Inr b, s)"
  shows "\<exists>exec. fst (GetExecutionForInstallation c inst w) = Inr exec \<and> snd s = l @ execution_deletion inst exec
    \<and> (b \<longleftrightarrow> exec = None) \<and> fst s = snd (deleteExecution c inst w)"
proof (cases "GetExecutionForInstallation c inst w")
  case (Pair x w1)
  then show ?thesis
    using run
    by (auto simp: deleteExecution_def execution_deletion_def GetExecutionForInstallation_logged logged_call_def
        split: sum.splits option.splits if_splits prod.splits)
qed

lemma delete_subs_log:
  "delete_subs (logged c) is s = (None, s') \<Longrightarrow> snd s' = snd s @ concat (map sub_deletion is)"
proof (induction "is" arbitrary: s)
  case (Cons i "is")
  let ?del = "if time_is_zero (om_deletionTimestamp (in_meta i)) then rc_delete (kc_installations (logged c)) i s else (None, s)"
  obtain s1 where del: "?del = (None, s1)"
    using Cons.prems by (cases ?del) (auto split: option.splits)
  then have l1: "snd s1 = snd s @ (if time_is_zero (om_deletionTimestamp (in_meta i)) then [DeleteInst i] else [])"
    by (auto simp: logged_call_def split: if_splits prod.splits)
  show ?case
  proof (cases "HasOperation (in_meta i) ForceReconcileOperation")
    case True
    let ?u = "set_operation ForceReconcileOperation i"
    obtain i1 s2 where up: "rc_update (kc_installations (logged c)) ?u s1 = (Inr i1, s2)"
      using Cons.prems True del
      by (cases "rc_update (kc_installations (logged c)) ?u s1") (auto split: sum.splits)
    have "snd s2 = snd s1 @ [UpdateInst ?u]" using up by (auto simp: logged_call_def split: prod.splits)
    moreover have "delete_subs (logged c) is s2 = (None, s')" using Cons.prems True del up by simp
    ultimately show ?thesis using Cons.IH l1 True by (simp add: sub_deletion_def)
  next
    case False
    then have "delete_subs (logged c) is s1 = (None, s')" using Cons.prems del by simp
    then show ?thesis using Cons.IH l1 False by (simp add: sub_deletion_def)
  qed
qed simp

lemma deleteSubInstallations_log:
  assumes run: "deleteSubInstallations (logged c) inst s = (Inr b, s')"
  obtains subs where "fst (ListSubinstallations c inst [] (fst s)) = Inr subs" "snd s' = snd s @ concat (map sub_deletion subs)"
    "b \<longleftrightarrow> subs = []"
proof (cases "ListSubinstallations c inst [] (fst s)")
  case (Pair x w1)
  have l: "ListSubinstallations (logged c) inst [] s = (x, w1, snd s)"
    using Pair ListSubinstallations_logged [of c inst "[]" "fst s" "snd s"] by simp
  obtain subs where x: "x = Inr subs" using run l by (cases x) (auto simp: deleteSubInstallations_def)
  show ?thesis
  proof (cases "subs = []")
    case True
    then show ?thesis using that [of "[]"] run l x Pair by (auto simp: deleteSubInstallations_def)
  next
    case False
    then obtain "delete_subs (logged c) subs (w1, snd s) = (None, s')" "\<not> b"
      using run l x
      by (cases "delete_subs (logged c) subs (w1, snd s)") (auto simp: deleteSubInstallations_def split: option.splits)
    then show ?thesis using that [of subs] delete_subs_log [of c subs "(w1, snd s)" s'] False Pair x by simp
  qed
qed

text \<open>
  C7: children are deleted before the installation. When \<open>DeleteExecutionAndSubinstallations\<close> returns without an
  error, its complete log is: the deletion of the execution, if there is one that is not yet leaving
  (and the forced update of it, where the installation is forced), the same for each sub-installation
  that the list returned, and the removal of the finalizer exactly if there was neither an
  execution nor a sub-installation.
\<close>

theorem children_deleted_before_installation:
  assumes run: "DeleteExecutionAndSubinstallations (logged c) o0 (w, []) = (None, o1, w', log)"
  defines "inst \<equiv> inst_phase PhDeleting (io_inst o0)"
  shows "\<exists>exec subs. fst (GetExecutionForInstallation c inst w) = Inr exec
      \<and> fst (ListSubinstallations c inst [] (snd (deleteExecution c inst w))) = Inr subs
      \<and> log = execution_deletion inst exec @ concat (map sub_deletion subs)
          @ (if exec = None \<and> subs = [] then [UpdateInst (released inst)] else [])"
proof -
  have inst: "io_inst (op_inst (inst_phase PhDeleting) (o0\<lparr>io_current := ''Deletion''\<rparr>)) = inst"
    by (simp add: inst_def op_inst_def)
  obtain b s where e: "deleteExecution (logged c) inst (w, []) = (Inr b, s)"
    using run by (auto simp: DeleteExecutionAndSubinstallations_def Let_def inst split: prod.splits sum.splits)
  obtain b2 s2 where d: "deleteSubInstallations (logged c) inst s = (Inr b2, s2)"
    using run e by (auto simp: DeleteExecutionAndSubinstallations_def Let_def inst split: prod.splits sum.splits)
  obtain exec where exec: "fst (GetExecutionForInstallation c inst w) = Inr exec" "snd s = execution_deletion inst exec"
    "b \<longleftrightarrow> exec = None" "fst s = snd (deleteExecution c inst w)"
    using deleteExecution_log [OF e] by auto
  obtain subs where subs: "fst (ListSubinstallations c inst [] (fst s)) = Inr subs"
    "snd s2 = snd s @ concat (map sub_deletion subs)" "b2 \<longleftrightarrow> subs = []"
    using deleteSubInstallations_log [OF d] by auto
  have "log = snd s2 @ (if exec = None \<and> subs = [] then [UpdateInst (released inst)] else [])"
    using run e d exec(3) subs(3)
    by (auto simp: DeleteExecutionAndSubinstallations_def Let_def inst update_installation_def logged_call_def
        split: prod.splits sum.splits if_splits)
  with exec subs show ?thesis by auto
qed

definition leaving :: "installation \<Rightarrow> bool" where
  "leaving inst \<longleftrightarrow> \<not> time_is_zero (om_deletionTimestamp (in_meta inst))"

definition status_write :: "installation \<Rightarrow> api_write \<Rightarrow> bool" where
  "status_write inst a \<longleftrightarrow> (\<exists>i. a = StatusUpdateInst i \<and> in_meta i = in_meta inst \<and> in_spec i = in_spec inst)"

lemma inst_handled_status_write: "status_write inst (StatusUpdateInst (inst_handled_status now err inst))"
  by (simp add: status_write_def inst_handled_status_def Let_def)

lemma inst_HandleErrorFunc_log:
  "snd (snd (inst_HandleErrorFunc (logged c) old err inst s)) = snd s @
     (if in_status old \<noteq> in_status (inst_handled_status (kc_now c (fst s)) err inst)
      then [StatusUpdateInst (inst_handled_status (kc_now c (fst s)) err inst)] else [])"
  by (simp add: inst_HandleErrorFunc_def Let_def logged_call_def case_prod_beta split: sum.split)

lemma inst_HandleErrorFunc_error:
  "fst (inst_HandleErrorFunc c old (Some e) inst s) \<noteq> None"
  by (simp add: inst_HandleErrorFunc_def Let_def case_prod_beta split: sum.split)

lemma handled_Fail:
  "\<exists>e1. handled c old (Some (Fail e), inst, s) = (Some (Fail e1), snd (inst_HandleErrorFunc c old (Some e) inst s))"
  using inst_HandleErrorFunc_error [of c old e inst s]
  by (cases "inst_HandleErrorFunc c old (Some e) inst s") (auto simp: handled_def split: option.splits)

lemma handled_log:
  "snd (snd (handled (logged c) old (Some x, inst, s))) = snd s @ (if x = Panic then [] else
     (let i = inst_handled_status (kc_now c (fst s)) (case x of Fail e \<Rightarrow> Some e | _ \<Rightarrow> None) inst
      in if in_status old \<noteq> in_status i then [StatusUpdateInst i] else []))"
proof (cases x)
  case (Done u)
  then show ?thesis
    using inst_HandleErrorFunc_log [of c old None inst s] by (simp add: handled_def case_prod_beta split: option.split)
next
  case (Fail e)
  then show ?thesis
    using inst_HandleErrorFunc_log [of c old "Some e" inst s] by (simp add: handled_def case_prod_beta split: option.split)
qed (simp add: handled_def)

text \<open>
  C8: the deletion of an installation waits, unless the installation has the annotation for a forced reconcile. As long as a
  sibling imports one of the exported data objects, or the children are not completed, a run of the controller on a
  leaving installation without that annotation writes at most the status of the installation, with its metadata and
  specification unchanged: no child is deleted and the finalizer stays. Where a sibling imports, the run ends with an
  error. (With the annotation the check of the siblings is skipped.)
\<close>

theorem deletion_waits_for_siblings_and_children:
  assumes stored: "rc_get (kc_installations c) key w = (Inr stored, w1)"
  defines "inst \<equiv> SetDefaults_Installation stored"
  assumes leaving: "leaving inst" and no_force: "\<not> HasOperation (in_meta inst) ForceReconcileOperation"
    and siblings: "GetParentAndSiblings c inst w1 = (Inr (parent, siblings), w2)"
    and children: "exec_CombinedPhase c inst w2 = (Inr p1, w3)" "sub_CombinedPhase c inst w3 = (Inr p2, w4)"
    and blocked: "checkIfSiblingImports inst siblings \<or> \<not> IsCompletedInstallationPhase (CombinedInstallationPhase [p2, p1])
        \<and> CombinedInstallationPhase [p2, p1] \<noteq> PhEmpty"
    and run: "inst_Reconcile ct (logged c) key (w, []) = (r, w', log)"
  shows "list_all (status_write inst) log \<and> length log \<le> 1
    \<and> (checkIfSiblingImports inst siblings \<longrightarrow> (\<exists>e. r = Some (Fail e)))"
proof -
  have get: "rc_get (kc_installations (logged c)) key (w, []) = (Inr stored, w1, [])"
    using stored by (simp add: unlogged_call_def)
  have reads: "GetParentAndSiblings (logged c) inst (w1, []) = (Inr (parent, siblings), w2, [])"
    "exec_CombinedPhase (logged c) inst (w2, []) = (Inr p1, w3, [])" "sub_CombinedPhase (logged c) inst (w3, []) = (Inr p2, w4, [])"
    using siblings children by (simp_all add: logged_reads)
  have start: "inst_Reconcile ct (logged c) key (w, []) = handled (logged c) inst (handleDelete ct (logged c) inst (w1, []))"
    using get leaving by (simp add: inst_Reconcile_def Let_def leaving_def inst_def)
  have empty_phases: "CombinedInstallationPhase [PhEmpty, PhEmpty] = PhEmpty" by code_simp
  show ?thesis
  proof (cases "checkIfSiblingImports inst siblings")
    case True
    obtain e where "handleDelete ct (logged c) inst (w1, []) = (Some (Fail e), inst, w2, [])"
      using True reads no_force by (simp add: handleDelete_def Let_def)
    then have run1: "(r, w', log) = handled (logged c) inst (Some (Fail e), inst, w2, [])" using run start by simp
    then obtain e1 where "r = Some (Fail e1)" using handled_Fail [of "logged c" inst e inst "(w2, [])"] by auto
    moreover have "log = snd (snd (handled (logged c) inst (Some (Fail e), inst, w2, [])))" using run1 by (metis snd_conv)
    ultimately show ?thesis
      using handled_log [of c inst "Fail e" inst "(w2, [])"] inst_handled_status_write [of inst "kc_now c w2" "Some e"]
      by (simp add: Let_def)
  next
    case False
    then have "handleDelete ct (logged c) inst (w1, []) = (Some (Done ()), inst_phase PhDeleting inst, w4, [])"
      using blocked reads no_force empty_phases by (auto simp: handleDelete_def Let_def)
    then have "log = snd (snd (handled (logged c) inst (Some (Done ()), inst_phase PhDeleting inst, w4, [])))"
      using run start by simp
    then show ?thesis
      using False handled_log [of c inst "Done ()" "inst_phase PhDeleting inst" "(w4, [])"]
        inst_handled_status_write [of "inst_phase PhDeleting inst" "kc_now c w4" None]
      by (auto simp: Let_def status_write_def inst_phase_def split: if_splits)
  qed
qed

section \<open>A finished installation follows its children\<close>

lemma HandleSubComponentPhaseChanges_same:
  assumes "child_phases c inst w = (Inr phases, w1)"
    and "phases = [] \<or> ins_phase (in_status inst) = CombinedInstallationPhase phases"
  shows "HandleSubComponentPhaseChanges ct c inst w = (Some (Done ()), inst, w1)"
  using assms by (auto simp: HandleSubComponentPhaseChanges_def Let_def)

lemma HandleSubComponentPhaseChanges_follow:
  assumes "child_phases c inst w = (Inr phases, w1)" "phases \<noteq> []"
    and "ins_phase (in_status inst) \<noteq> CombinedInstallationPhase phases"
    and "initPrerequisites ct c inst w1 = (Inr o1, i, w2)"
  shows "HandleSubComponentPhaseChanges ct c inst w = inst_run (follow_phase ct c o1 (CombinedInstallationPhase phases) w2)"
  using assms by (simp add: HandleSubComponentPhaseChanges_def Let_def)

lemma inst_run_snd: "snd (snd (inst_run r)) = snd (snd r)"
  by (simp add: inst_run_def case_prod_beta)

lemma with_error_snd: "snd (with_error f r) = snd r"
  by (cases r) (auto simp: with_error_def split: option.split outcome.split)

lemma returns_snd: "snd (returns r) = snd r"
  by (cases r) (auto simp: returns_def split: option.split)

lemma op_set_phase_log:
  "snd (snd (snd (op_set_phase (logged c) p o1 s))) = snd s @ [StatusUpdateInst (inst_phase p (io_inst o1))]"
  by (simp add: op_set_phase_def UpdateInstallationStatus_def Let_def logged_call_def case_prod_beta inst_merge_conditions_def
      MergeConditions_def split: sum.split)

lemma trigger_siblings_log:
  "\<exists>ss. set ss \<subseteq> set (cx_siblings (io_context o1)) \<and> snd (snd (snd (trigger_siblings (logged c) o1 s))) = snd s @ map (UpdateInst \<circ> triggered) ss"
proof -
  let ?all = "dependants (io_inst o1) (cx_siblings (io_context o1))"
  obtain r s1 where t: "trigger_dependants (logged c) (io_inst o1) (cx_siblings (io_context o1)) s = (r, s1)"
    by (cases "trigger_dependants (logged c) (io_inst o1) (cx_siblings (io_context o1)) s")
  from t obtain n where "snd s1 = snd s @ map (UpdateInst \<circ> triggered) (take n ?all)"
    using trigger_dependants_writes [of c "io_inst o1" "cx_siblings (io_context o1)" "fst s" "snd s" r "fst s1" "snd s1"] by auto
  moreover have "set (take n ?all) \<subseteq> set (cx_siblings (io_context o1))"
    using set_take_subset [of n ?all] by (auto simp: dependants_def)
  moreover have "snd (snd (trigger_siblings (logged c) o1 s)) = s1"
    using t by (simp add: trigger_siblings_def TriggerDependants_def)
  ultimately show ?thesis by metis
qed

lemma op_set_phase_context: "io_context (fst (snd (op_set_phase c p o1 s))) = io_context o1"
  by (simp add: op_set_phase_def case_prod_beta)

text \<open>What is written once the exports are stored: the phase, then the triggers of siblings.\<close>

lemma follow_stored_log:
  assumes exports: "construct_exports ct (logged c) o1 s = (Done (ds, ts), s1)"
    "CreateOrUpdateExports (ct_objects ct) (logged c) ds ts o1 s1 = (None, o2, s2)"
  shows "\<exists>ss. set ss \<subseteq> set (cx_siblings (io_context o2)) \<and> snd (snd (snd (follow_phase ct (logged c) o1 PhSucceeded s)))
    = snd s2 @ StatusUpdateInst (inst_phase PhSucceeded (io_inst o2)) # map (UpdateInst \<circ> triggered) ss"
proof -
  obtain r o3 s3 where p: "op_set_phase (logged c) PhSucceeded o2 s2 = (r, o3, s3)" by (rule prod_cases3)
  have s3: "snd s3 = snd s2 @ [StatusUpdateInst (inst_phase PhSucceeded (io_inst o2))]" and o3: "io_context o3 = io_context o2"
    using op_set_phase_log [of c PhSucceeded o2 s2] op_set_phase_context [of "logged c" PhSucceeded o2 s2] unfolding p by simp_all
  show ?thesis
  proof (cases r)
    case None
    then have "snd (snd (follow_phase ct (logged c) o1 PhSucceeded s)) = snd (snd (trigger_siblings (logged c) o3 s3))"
      using exports p
      by (cases "trigger_siblings (logged c) o3 s3") (auto simp: follow_phase_def and_then_def with_error_def returns_def split: option.split)
    then show ?thesis using trigger_siblings_log [of o3 c s3] s3 o3 by auto
  next
    case (Some e)
    then have "snd (snd (follow_phase ct (logged c) o1 PhSucceeded s)) = s3"
      using exports p by (simp add: follow_phase_def and_then_def with_error_def returns_def)
    then show ?thesis using s3 by (intro exI [of _ "[]"]) simp
  qed
qed

lemma follow_failed_exports:
  "construct_exports ct c o1 s = (Done (ds, ts), s1) \<Longrightarrow> CreateOrUpdateExports (ct_objects ct) c ds ts o1 s1 = (Some e, o2, s2)
     \<Longrightarrow> snd (snd (follow_phase ct c o1 PhSucceeded s)) = s2"
  by (simp add: follow_phase_def and_then_def with_error_def returns_def)

lemma follow_no_exports:
  "construct_exports ct c o1 s = (x, s1) \<Longrightarrow> (\<And>ds ts. x \<noteq> Done (ds, ts)) \<Longrightarrow> snd (snd (follow_phase ct c o1 PhSucceeded s)) = s1"
  by (cases x) (auto simp: follow_phase_def and_then_def)

text \<open>The writes of a run that sets the phase Succeeded, by how the exports end.\<close>

definition succeeded_writes :: "('w \<times> api_write list, 'j) inst_controller \<Rightarrow> 'w kube_client \<Rightarrow> 'j inst_operation
    \<Rightarrow> 'w \<times> api_write list \<Rightarrow> api_write list \<Rightarrow> bool" where
  "succeeded_writes ct c o1 s log =
     (case construct_exports ct (logged c) o1 s of
        (Done (ds, ts), s1) \<Rightarrow>
          (case CreateOrUpdateExports (ct_objects ct) (logged c) ds ts o1 s1 of
             (None, o2, s2) \<Rightarrow> (\<exists>ss. set ss \<subseteq> set (cx_siblings (io_context o2))
               \<and> log = snd s2 @ StatusUpdateInst (inst_phase PhSucceeded (io_inst o2)) # map (UpdateInst \<circ> triggered) ss)
           | (Some e, o2, s2) \<Rightarrow> log = snd s2)
      | (_, s1) \<Rightarrow> log = snd s1)"

lemma follow_succeeded_writes:
  "succeeded_writes ct c o1 s (snd (snd (snd (follow_phase ct (logged c) o1 PhSucceeded s))))"
proof -
  obtain x s1 where x: "construct_exports ct (logged c) o1 s = (x, s1)" by (cases "construct_exports ct (logged c) o1 s")
  show ?thesis
  proof (cases "\<exists>ds ts. x = Done (ds, ts)")
    case False
    with x follow_no_exports [OF x] show ?thesis by (cases x) (auto simp: succeeded_writes_def)
  next
    case True
    then obtain ds ts where x': "construct_exports ct (logged c) o1 s = (Done (ds, ts), s1)" using x by blast
    obtain r o2 s2 where e: "CreateOrUpdateExports (ct_objects ct) (logged c) ds ts o1 s1 = (r, o2, s2)" by (rule prod_cases3)
    show ?thesis
    proof (cases r)
      case None
      with follow_stored_log [OF x'] e x' show ?thesis by (simp add: succeeded_writes_def)
    next
      case (Some y)
      with follow_failed_exports [OF x'] e x' show ?thesis by (simp add: succeeded_writes_def)
    qed
  qed
qed

lemma follow_other_log:
  "cp \<noteq> PhSucceeded \<Longrightarrow> snd (snd (snd (follow_phase ct (logged c) o1 cp s))) = snd s @ [StatusUpdateInst (inst_phase cp (io_inst o1))]"
  using op_set_phase_log [of c cp o1 s]
  by (simp add: follow_phase_def and_then_def case_prod_beta with_error_snd returns_snd split: option.split outcome.split)

definition at_rest :: "installation \<Rightarrow> bool" where
  "at_rest inst \<longleftrightarrow> \<not> leaving inst \<and> HasFinalizer (om_finalizers (in_meta inst)) LandscaperFinalizer
     \<and> \<not> HasOperation (in_meta inst) ReconcileOperation \<and> \<not> HasOperation (in_meta inst) ForceReconcileOperation
     \<and> IsCompletedInstallationPhase (ins_phase (in_status inst))
     \<and> ins_observedGeneration (in_status inst) = om_generation (in_meta inst)"

lemma inst_Reconcile_finished:
  assumes "rc_get (kc_installations c) key w = (Inr stored, w1)" "at_rest (SetDefaults_Installation stored)"
    "HandleSubComponentPhaseChanges ct c (SetDefaults_Installation stored) w1 = (r, i, w2)"
  shows "snd (inst_Reconcile ct c key w) = w2 \<and> (r = Some (Done ()) \<longrightarrow> fst (inst_Reconcile ct c key w) = r)"
  using assms
  by (auto simp: inst_Reconcile_def at_rest_def leaving_def reconcile_installation_def Let_def split: option.split outcome.split)

text \<open>
  C9: a finished installation follows its children. The run of the controller on a completed installation without
  requests writes nothing if it has no children or its phase is the combined phase of them. Otherwise, after what the
  preparation of the operation has written, it writes exactly the status with the combined phase; if that phase is
  Succeeded, the exports are constructed and stored first, the status is written only if both end without an error, and
  after it only siblings are triggered.
\<close>

theorem finished_installation_follows_children:
  assumes stored: "rc_get (kc_installations c) key w = (Inr stored, w1)"
  defines "inst \<equiv> SetDefaults_Installation stored"
  assumes at_rest: "at_rest inst"
    and children: "child_phases c inst w1 = (Inr phases, w2)"
    and run: "inst_Reconcile ct (logged c) key (w, []) = (r, w', log)"
  shows "(phases = [] \<or> ins_phase (in_status inst) = CombinedInstallationPhase phases \<longrightarrow> r = Some (Done ()) \<and> w' = w2 \<and> log = [])
    \<and> (\<forall>o1 i s. phases \<noteq> [] \<and> ins_phase (in_status inst) \<noteq> CombinedInstallationPhase phases
          \<and> initPrerequisites ct (logged c) inst (w2, []) = (Inr o1, i, s)
        \<longrightarrow> (if CombinedInstallationPhase phases = PhSucceeded then succeeded_writes ct c o1 s log
             else log = snd s @ [StatusUpdateInst (inst_phase (CombinedInstallationPhase phases) (io_inst o1))]))"
proof -
  have get: "rc_get (kc_installations (logged c)) key (w, []) = (Inr stored, w1, [])"
    using stored by (simp add: unlogged_call_def)
  have phases: "child_phases (logged c) inst (w1, []) = (Inr phases, w2, [])" using children by (simp add: logged_reads)
  have same: "r = Some (Done ()) \<and> w' = w2 \<and> log = []"
    if "phases = [] \<or> ins_phase (in_status inst) = CombinedInstallationPhase phases"
    using inst_Reconcile_finished [OF get at_rest [unfolded inst_def]
        HandleSubComponentPhaseChanges_same [OF phases that, unfolded inst_def], of ct] run by simp
  let ?cp = "CombinedInstallationPhase phases"
  have "if ?cp = PhSucceeded then succeeded_writes ct c o1 s log else log = snd s @ [StatusUpdateInst (inst_phase ?cp (io_inst o1))]"
    if other: "phases \<noteq> []" "ins_phase (in_status inst) \<noteq> ?cp" and pre: "initPrerequisites ct (logged c) inst (w2, []) = (Inr o1, i, s)"
    for o1 i s
  proof -
    let ?run = "HandleSubComponentPhaseChanges ct (logged c) inst (w1, [])"
    obtain r1 i1 s1 where run1: "?run = (r1, i1, s1)" by (rule prod_cases3)
    have "snd (snd (follow_phase ct (logged c) o1 ?cp s)) = s1"
      using HandleSubComponentPhaseChanges_follow [OF phases other pre] run1 by (metis inst_run_snd snd_conv)
    moreover have "s1 = (w', log)"
      using inst_Reconcile_finished [OF get at_rest [unfolded inst_def] run1 [unfolded inst_def]] run by simp
    ultimately have "log = snd (snd (snd (follow_phase ct (logged c) o1 ?cp s)))" by simp
    then show ?thesis using follow_succeeded_writes [of ct c o1 s] follow_other_log [of ?cp ct c o1 s] by simp
  qed
  with same show ?thesis by blast
qed

section \<open>A successful run\<close>

lemma and_then_Done: "and_then r k = (Some (Done ()), o2, w2) \<longleftrightarrow> (\<exists>o1 w1. r = (Some (Done ()), o1, w1) \<and> k o1 w1 = (Some (Done ()), o2, w2))"
  by (auto simp: and_then_def split: prod.splits option.splits outcome.splits)

lemma with_error_Done: "with_error f r = (Some (Done ()), o2, w2) \<longleftrightarrow> r = (Some (Done ()), o2, w2)"
  by (auto simp: with_error_def split: prod.splits option.splits outcome.splits)

lemma returns_Done: "returns r = (Some (Done ()), o2, w2) \<longleftrightarrow> r = (None, o2, w2)"
  by (auto simp: returns_def split: prod.splits option.splits)

lemma inst_run_Done: "inst_run r = (Some (Done ()), i, w2) \<longleftrightarrow> (\<exists>o2. r = (Some (Done ()), o2, w2) \<and> io_inst o2 = i)"
  by (auto simp: inst_run_def split: prod.splits)

lemmas run_Done = and_then_Done with_error_Done returns_Done inst_run_Done

lemma Update_Done:
  assumes "Update ct c o0 w = (Some (Done ()), o6, w6)"
  shows "ins_phase (in_status (io_inst o6)) = PhProgressing
    \<and> ins_observedGeneration (in_status (io_inst o6)) = om_generation (in_meta (io_inst o6))"
  using assms by (auto simp: Update_def run_Done finish_update_def op_status_def op_inst_def)

lemma complete_installation_Done:
  assumes "complete_installation ct c o0 w = (Some (Done ()), o4, w4)"
  obtains o1 w1 ds ts w2 o2 w3 where "ConstructImports ct c o0 w = (Some (Done ()), o1, w1)"
    "Construct_exports (ct_exports ct) c (o1\<lparr>io_current := ''Completing''\<rparr>) w1 = (Done (ds, ts), w2)"
    "CreateOrUpdateExports (ct_objects ct) c ds ts (o1\<lparr>io_current := ''Completing''\<rparr>) w2 = (None, o2, w3)"
    "TriggerDependants c (io_context o2) (inst_phase PhSucceeded (io_inst o2)) w3 = (None, w4)"
proof -
  from assms obtain o1 w1 where 1: "ConstructImports ct c o0 w = (Some (Done ()), o1, w1)"
    and k: "(case construct_exports ct c (o1\<lparr>io_current := ''Completing''\<rparr>) w1 of
               (Panic, w2) \<Rightarrow> (Some Panic, o1\<lparr>io_current := ''Completing''\<rparr>, w2)
             | (Fail e, w2) \<Rightarrow> (Some (Fail e), o1\<lparr>io_current := ''Completing''\<rparr>, w2)
             | (Done (dataExports, targetExports), w2) \<Rightarrow>
                 and_then
                   (with_error (op_wrapped c (o1\<lparr>io_current := ''Completing''\<rparr>) ''CreateOrUpdateExports'')
                     (returns (CreateOrUpdateExports (ct_objects ct) c dataExports targetExports (o1\<lparr>io_current := ''Completing''\<rparr>) w2)))
                   (\<lambda>o2 w3. and_then
                     (with_error (\<lambda>w e. op_wrapped c o2 ''TriggerDependents'' w (wrap ''unable to trigger dependent installations'' e))
                       (returns (trigger_siblings c (op_inst (inst_phase PhSucceeded) o2) w3)))
                     (\<lambda>o3 w4. (Some (Done ()), op_status (\<lambda>s. s\<lparr>ins_lastError := None\<rparr>) o3, w4)))) = (Some (Done ()), o4, w4)"
    by (auto simp: complete_installation_def Let_def and_then_Done)
  from k obtain ds ts w2 where 2: "construct_exports ct c (o1\<lparr>io_current := ''Completing''\<rparr>) w1 = (Done (ds, ts), w2)"
    by (auto split: prod.splits outcome.splits)
  with k obtain o2 w3 where 3: "CreateOrUpdateExports (ct_objects ct) c ds ts (o1\<lparr>io_current := ''Completing''\<rparr>) w2 = (None, o2, w3)"
    and 4: "fst (TriggerDependants c (io_context o2) (inst_phase PhSucceeded (io_inst o2)) w3) = None"
      "snd (TriggerDependants c (io_context o2) (inst_phase PhSucceeded (io_inst o2)) w3) = w4"
    by (auto simp: run_Done trigger_siblings_def op_inst_def case_prod_beta)
  have "Construct_exports (ct_exports ct) c (o1\<lparr>io_current := ''Completing''\<rparr>) w1 = (Done (ds, ts), w2)"
    using 2 by (auto simp: construct_exports_def split: prod.splits outcome.splits)
  moreover have "TriggerDependants c (io_context o2) (inst_phase PhSucceeded (io_inst o2)) w3 = (None, w4)"
    using 4 by (metis prod.collapse)
  ultimately show thesis using that 1 3 by blast
qed

definition unsettled_phases :: "phase set" where
  "unsettled_phases = {PhInit, PhPending, PhProgressing, PhDeleting, PhAborted, PhFailed}"

lemma combined_two_settled:
  "CombinedInstallationPhase [a, b] \<in> {PhEmpty, PhSucceeded} \<Longrightarrow> a \<notin> unsettled_phases \<and> b \<notin> unsettled_phases"
  by (cases a; cases b) (simp_all add: CombinedInstallationPhase_def unsettled_phases_def)

lemma eligibleToUpdate_False:
  "eligibleToUpdate ct c o1 w = (Some (Done False), o2, w2)
     \<Longrightarrow> ins_observedGeneration (in_status (io_inst o1)) = om_generation (in_meta (io_inst o1))"
  by (auto simp: eligibleToUpdate_def split: if_splits)

text \<open>
  C6: an installation becomes Succeeded only after its children, its imports and its exports. If \<open>reconcile\<close> ends without
  an error and the phase Succeeded, then no child is in an unsettled phase, the observed generation is
  the current one, the installation is not eligible for an update, its imports are satisfied and
  constructed, its exports were constructed and stored without an error, and the dependent
  siblings were triggered with that as the last step.
\<close>

theorem succeeded_only_with_children_and_exports:
  assumes run: "reconcile ct c inst w = (Some (Done ()), i, w')" "ins_phase (in_status i) = PhSucceeded"
    and no_abort: "\<not> HasOperation (in_meta inst) AbortOperation"
  shows "\<exists>p1 w1 p2 w2. exec_CombinedPhase c inst w = (Inr p1, w1) \<and> sub_CombinedPhase c inst w1 = (Inr p2, w2)
    \<and> p1 \<notin> unsettled_phases \<and> p2 \<notin> unsettled_phases
    \<and> (\<exists>o0 i0 w3 o1 w4. initPrerequisites ct c inst w2 = (Inr o0, i0, w3)
        \<and> ins_observedGeneration (in_status (io_inst o0)) = om_generation (in_meta (io_inst o0))
        \<and> eligibleToUpdate ct c (o0\<lparr>io_current := ''Validate''\<rparr>) w3 = (Some (Done False), o1, w4)
        \<and> (\<exists>o2 w5 ds ts w6 o3 w7. ConstructImports ct c o1 w4 = (Some (Done ()), o2, w5)
            \<and> Construct_exports (ct_exports ct) c (o2\<lparr>io_current := ''Completing''\<rparr>) w5 = (Done (ds, ts), w6)
            \<and> CreateOrUpdateExports (ct_objects ct) c ds ts (o2\<lparr>io_current := ''Completing''\<rparr>) w6 = (None, o3, w7)
            \<and> TriggerDependants c (io_context o3) (inst_phase PhSucceeded (io_inst o3)) w7 = (None, w')))"
proof -
  obtain p1 w1 where p1: "exec_CombinedPhase c inst w = (Inr p1, w1)"
    using run(1) by (auto simp: reconcile_def split: prod.splits sum.splits)
  obtain p2 w2 where p2: "sub_CombinedPhase c inst w1 = (Inr p2, w2)"
    using run(1) p1 by (auto simp: reconcile_def split: prod.splits sum.splits)
  let ?cp = "CombinedInstallationPhase [p2, p1]"
  obtain cp where phase: "reconcile_phase ct c inst cp w2 = (Some (Done ()), i, w')"
    and cp: "cp = (if ?cp = PhEmpty then PhSucceeded else ?cp)"
    using run p1 p2 by (auto simp: reconcile_def Let_def inst_phase_def split: if_splits)
  obtain o0 i0 w3 where o0: "initPrerequisites ct c inst w2 = (Inr o0, i0, w3)"
    using phase no_abort by (auto simp: reconcile_phase_def split: prod.splits sum.splits)
  obtain e o1 w4 where e: "eligibleToUpdate ct c (o0\<lparr>io_current := ''Validate''\<rparr>) w3 = (Some (Done e), o1, w4)"
    using phase no_abort o0 by (auto simp: reconcile_phase_def split: prod.splits option.splits outcome.splits)
  have "\<not> e"
    using phase no_abort o0 e run(2) Update_Done by (fastforce simp: reconcile_phase_def inst_run_Done)
  moreover have s: "cp = PhSucceeded"
    using phase no_abort o0 e \<open>\<not> e\<close> run(2)
    by (auto simp: reconcile_phase_def inst_run_Done op_inst_def inst_phase_def split: if_splits)
  ultimately obtain o4 where "complete_installation ct c o1 w4 = (Some (Done ()), o4, w')"
    using phase no_abort o0 e by (auto simp: reconcile_phase_def inst_run_Done)
  then have "\<exists>o2 w5 ds ts w6 o3 w7. ConstructImports ct c o1 w4 = (Some (Done ()), o2, w5)
      \<and> Construct_exports (ct_exports ct) c (o2\<lparr>io_current := ''Completing''\<rparr>) w5 = (Done (ds, ts), w6)
      \<and> CreateOrUpdateExports (ct_objects ct) c ds ts (o2\<lparr>io_current := ''Completing''\<rparr>) w6 = (None, o3, w7)
      \<and> TriggerDependants c (io_context o3) (inst_phase PhSucceeded (io_inst o3)) w7 = (None, w')"
    by (rule complete_installation_Done) blast
  moreover have "p1 \<notin> unsettled_phases \<and> p2 \<notin> unsettled_phases"
    using combined_two_settled [of p2 p1] cp s by (auto split: if_splits)
  moreover have "eligibleToUpdate ct c (o0\<lparr>io_current := ''Validate''\<rparr>) w3 = (Some (Done False), o1, w4)"
    using e \<open>\<not> e\<close> by simp
  moreover note eligibleToUpdate_False [OF this, simplified]
  ultimately show ?thesis using p1 p2 o0 by blast
qed

text \<open>
  The finalizer comes first. The run of the controller on an installation that is not being deleted and has
  no finalizer writes the installation with the finalizer, and nothing else.
\<close>

theorem finalizer_before_anything_else:
  assumes stored: "rc_get (kc_installations c) key w = (Inr stored, w1)"
  defines "inst \<equiv> SetDefaults_Installation stored"
  assumes new: "\<not> leaving inst" "\<not> HasFinalizer (om_finalizers (in_meta inst)) LandscaperFinalizer"
    and run: "inst_Reconcile ct (logged c) key (w, []) = (r, w', log)"
  shows "log = [UpdateInst (protected inst)]"
proof -
  have "rc_get (kc_installations (logged c)) key (w, []) = (Inr stored, w1, [])"
    using stored by (simp add: unlogged_call_def)
  then show ?thesis
    using new run
    by (auto simp: inst_Reconcile_def Let_def leaving_def inst_def logged_call_def split: sum.splits prod.splits)
qed

section \<open>Deleting an orphan ends an update early\<close>

lemma cleanup_deleted:
  "cleanupOrphanedSubInstallations (logged c) cond subs tmpls False o1 s = (Inr True, o2, s') \<Longrightarrow> snd s' \<noteq> snd s"
proof (induction subs arbitrary: s)
  case (Cons p subs)
  obtain n sub where p: "p = (n, sub)" by (cases p)
  show ?case
  proof (cases "getInstallationTemplate tmpls n")
    case (Some t)
    with Cons.prems p have "cleanupOrphanedSubInstallations (logged c) cond subs tmpls False o1 s = (Inr True, o2, s')" by simp
    then show ?thesis by (rule Cons.IH)
  next
    case None
    obtain d s1 where d: "logged_call (DeleteInst sub) (rc_delete (kc_installations c) sub) s = (d, s1)"
      by (cases "logged_call (DeleteInst sub) (rc_delete (kc_installations c) sub) s")
    then have s1: "snd s1 = snd s @ [DeleteInst sub]" by (auto simp: logged_call_def Let_def split: prod.splits)
    obtain b where "cleanupOrphanedSubInstallations (logged c) cond subs tmpls b o1 s1 = (Inr True, o2, s')"
      using Cons.prems p None d by (auto split: option.splits if_splits)
    from conjunct1 [OF cleanup_writes [OF this]] s1 show ?thesis by (auto simp: writes_only_def)
  qed
qed simp

lemma sub_Ensure_skips:
  assumes "sub_plan env (logged c) o1 s = Some (subs, tmpls, o3, s1)"
    and "cleanupOrphanedSubInstallations (logged c) (sub_condition (kc_now (logged c) s1) (io_inst o3)) subs tmpls False o3 s1 = (Inr True, o4, s2)"
  shows "sub_Ensure env (logged c) o1 s = (None, o4, s2)"
  using assms by (cases "blocking_sub subs") (auto simp: sub_plan_def sub_Ensure_def Let_def split: prod.splits sum.splits if_splits bool.splits)

lemma sub_plan_silent:
  assumes "silent_templates env" "sub_plan env (logged c) o1 s = Some (subs, tmpls, o3, s1)"
  shows "snd s1 = snd s"
proof -
  obtain g o2 s2 where g: "GetSubInstallations (logged c) (o1\<lparr>io_current := EnsureSubInstallationsCondition\<rparr>) s = (g, o2, s2)"
    by (rule prod_cases3)
  obtain t s3 where t: "ensure_templates env (logged c) o2 s2 = (t, s3)" by (cases "ensure_templates env (logged c) o2 s2")
  have "s3 = s1" using assms(2) g t by (auto simp: sub_plan_def split: sum.splits if_splits)
  with GetSubInstallations_silent [OF g] ensure_templates_silent [OF assms(1) t] show ?thesis by simp
qed

fun installation_update :: "api_write \<Rightarrow> bool" where
  "installation_update (UpdateInst i) = True"
| "installation_update _ = False"

lemma TriggerSubInstallations_writes:
  "TriggerSubInstallations (logged c) refs op s = (r, s') \<Longrightarrow> writes_only installation_update s s'"
proof (induction refs arbitrary: s)
  case (Cons ref refs)
  obtain g s1 where g: "rc_get (kc_installations (logged c)) (no_reference ref) s = (g, s1)"
    by (cases "rc_get (kc_installations (logged c)) (no_reference ref) s")
  then have s1: "writes_only installation_update s s1" by (auto simp: unlogged_call_def writes_only_def split: prod.splits)
  show ?case
  proof (cases g)
    case (Inl e)
    with Cons.prems g s1 show ?thesis by auto
  next
    case (Inr i)
    obtain u s2 where u: "logged_call (UpdateInst (set_operation op i)) (rc_update (kc_installations c) (set_operation op i)) s1 = (u, s2)"
      by (cases "logged_call (UpdateInst (set_operation op i)) (rc_update (kc_installations c) (set_operation op i)) s1")
    then have s2: "writes_only installation_update s1 s2" by (rule logged_writes) simp
    note s12 = writes_only_trans [OF s1 s2]
    show ?thesis
    proof (cases u)
      case (Inl e)
      with Cons.prems g Inr u s12 show ?thesis by auto
    next
      case u': (Inr i2)
      with Cons.prems g Inr u have "TriggerSubInstallations (logged c) refs op s2 = (r, s')" by simp
      from writes_only_trans [OF s12 Cons.IH [OF this]] show ?thesis .
    qed
  qed
qed (simp add: writes_only_def)

text \<open>The rendering of deploy items writes no object of the cluster, only its own state.\<close>

definition silent_items :: "('w \<times> api_write list, 'j) exec_env \<Rightarrow> bool" where
  "silent_items env \<longleftrightarrow> (\<forall>o1 s. snd (snd (ee_render env o1 s)) = snd s)"

lemma exec_Ensure_creates_no_inst:
  assumes "keeps_annotations env" "silent_items env" "exec_Ensure env (logged c) o1 s = (r, o2, s')"
  shows "\<exists>l. snd s' = snd s @ l \<and> (\<forall>i. CreateInst i \<notin> set l)"
proof -
  obtain w' l' where s': "s' = (w', l')" by (cases s')
  have "snd (snd (ee_render env (injected o1) s)) = snd s" using assms(2) unfolding silent_items_def by blast
  with exec_Ensure_log [OF assms(1) assms(3) [unfolded s']] obtain l1 ts where l: "l' = snd s @ l1"
    "l1 \<noteq> [] \<longrightarrow> list_all (exec_write (io_inst o1) ts) l1" by auto
  then have "\<forall>i. CreateInst i \<notin> set l1" by (auto simp: list_all_iff)
  with l s' show ?thesis by auto
qed

text \<open>
  C36: a removed template suppresses a new one. If an update ends without an error and, among the sub-installations, the
  deletion of one without a template was triggered, then whatever the templates are it writes no new
  sub-installation: after the imports it deletes sub-installations without a template, and creates none. All
  the same it ends in the phase Progressing with the current generation recorded as observed, so that
  this generation is not updated again.
\<close>

theorem removed_template_suppresses_new_template:
  assumes run: "Update ct (logged c) o0 s0 = (Some (Done ()), o6, s6)"
    and constructed: "ConstructImports ct (logged c) o0 s0 = (Some (Done ()), o1, s1)"
      "CreateOrUpdateImports (ct_objects ct) (logged c) o1 s1 = (None, o2, s2)"
    and plan: "sub_plan (ct_sub ct) (logged c) (op_inst (inst_phase PhProgressing) o2) s2 = Some (subs, tmpls, o3, s3)"
    and deleted: "cleanupOrphanedSubInstallations (logged c) (sub_condition (kc_now (logged c) s3) (io_inst o3)) subs tmpls False o3 s3
      = (Inr True, o4, s4)"
    and env: "silent_templates (ct_sub ct)" "keeps_annotations (ct_exec ct)" "silent_items (ct_exec ct)"
  shows "(\<exists>dels rest. snd s6 = snd s2 @ dels @ rest \<and> dels \<noteq> [] \<and> list_all (orphan_deletion subs tmpls) dels
      \<and> (\<forall>i. CreateInst i \<notin> set rest))
    \<and> ins_phase (in_status (io_inst o6)) = PhProgressing
    \<and> ins_observedGeneration (in_status (io_inst o6)) = om_generation (in_meta (io_inst o6))"
proof -
  note sub = sub_Ensure_skips [OF plan deleted]
  from run constructed sub obtain o5 s5 o5' where trigger: "trigger_subs (logged c) o4 s4 = (None, o5, s5)"
    and exec: "exec_Ensure (ct_exec ct) (logged c) o5 s5 = (None, o5', s6)"
    by (auto simp: Update_def run_Done)
  obtain dels where dels: "snd s4 = snd s3 @ dels" "list_all (orphan_deletion subs tmpls) dels"
    using cleanup_writes [OF deleted] by (auto simp: writes_only_def)
  have "snd s3 = snd s2" by (rule sub_plan_silent [OF env(1) plan])
  moreover have "dels \<noteq> []" using cleanup_deleted [OF deleted] dels(1) by auto
  moreover obtain ups where ups: "snd s5 = snd s4 @ ups" "list_all installation_update ups"
    using trigger TriggerSubInstallations_writes [of c _ _ s4] by (fastforce simp: trigger_subs_def writes_only_def split: prod.splits)
  moreover have "\<forall>i. CreateInst i \<notin> set ups" using ups(2) by (auto simp: list_all_iff)
  moreover obtain l where "snd s6 = snd s5 @ l" "\<forall>i. CreateInst i \<notin> set l"
    using exec_Ensure_creates_no_inst [OF env(2,3) exec] by blast
  ultimately have "snd s6 = snd s2 @ dels @ (ups @ l) \<and> dels \<noteq> [] \<and> (\<forall>i. CreateInst i \<notin> set (ups @ l))"
    using dels(1) by auto
  with dels(2) Update_Done [OF run] show ?thesis by blast
qed

section \<open>Examples\<close>

definition example_blueprint :: blueprint where
  "example_blueprint = \<lparr>bp_annotations = [], bp_jsonSchemaVersion = [], bp_localTypes = [], bp_imports = [], bp_importExecutions = [],
     bp_exports = [\<lparr>xd_fieldValue = \<lparr>fv_name = ''a'', fv_schema = Some [], fv_targetType = []\<rparr>, xd_type = ''data''\<rparr>], bp_subinstallations = [], bp_subinstallationExecutions = [], bp_deployExecutions = [], bp_exportExecutions = []\<rparr>"

definition example_controller_env :: "('w, string) inst_controller" where
  "example_controller_env =
     \<lparr>ct_env = example_inst_env, ct_fuel = 5,
      ct_overwrites = \<lparr>oo_overwriter = None, oo_diff = (\<lambda>a b. []), oo_inlineReference = (\<lambda>s. \<lparr>cr_repositoryContext = None,
        cr_componentName = s, cr_version = []\<rparr>)\<rparr>,
      ct_registries = (\<lambda>rs i w. (None, w)), ct_blueprint = (\<lambda>r d w. (Inr example_blueprint, w)), ct_build = (\<lambda>cx w. (None, w)),
      ct_aggregate = (\<lambda>es. PlainError []), ct_schema = any_schema,
      ct_descriptors = \<lparr>ce_env = example_inst_env, ce_resolve = (\<lambda>r w. (Inr [], w)), ce_toJSON = Inr, ce_decode = Inr,
        ce_version = (\<lambda>d. []), ce_show = (\<lambda>r. [])\<rparr>,
      ct_targetData = (\<lambda>t. Inr []), ct_targetListData = (\<lambda>t. Inr []), ct_descriptorData = Inr,
      ct_descriptorListData = (\<lambda>ds. Inr []), ct_spiff = (\<lambda>vs. Inr (\<lambda>k raw. Inr raw)),
      ct_importExecutions = (\<lambda>o1 w. (Inr ([], []), w)), ct_objects = example_object_env, ct_sub = example_sub_env,
      ct_exec = example_exec_env\<lparr>ee_render := (\<lambda>o1 w. (Inr [], w))\<rparr>,
      ct_exports = \<lparr>ep_env = example_inst_env, ep_schema = any_schema, ep_render = (\<lambda>o1 a b d w. (Inr [(''a'', ''1'')], w)),
        ep_type = (\<lambda>v. Inr []), ep_template = (\<lambda>v. Inl (PlainError [])), ep_encodeTarget = (\<lambda>t. Inr [])\<rparr>\<rparr>"

definition protected_inst :: "string \<Rightarrow> phase \<Rightarrow> installation" where
  "protected_inst name p = protected (example_installation name [] [''a''] p)"

definition lone_run :: "unit outcome option \<times> installation \<times> cluster" where
  "lone_run = reconcile example_controller_env example_client (protected_inst ''lone'' PhProgressing)
     (installation_cluster [protected_inst ''lone'' PhProgressing] [])"

definition outdated_parent :: installation where
  "outdated_parent = (let i = protected_inst ''parent'' PhSucceeded in i\<lparr>in_meta := (in_meta i)\<lparr>om_generation := 2\<rparr>\<rparr>)"

definition default_context :: ls_context where
  "default_context = \<lparr>lc_meta = empty_meta\<lparr>om_name := ''default'', om_namespace := ''ns''\<rparr>, lc_repositoryContext = None,
     lc_registryPullSecrets = [], lc_configurations = []\<rparr>"

definition example_world :: "installation list \<Rightarrow> cluster" where
  "example_world insts = (installation_cluster insts [])\<lparr>cw_contexts := [default_context]\<rparr>"

definition old_child :: installation where
  "old_child = protected (old_sub ''old'' PhSucceeded)"

lemma lone_run_succeeds: "fst lone_run = Some (Done ()) \<and> ins_phase (in_status (fst (snd lone_run))) = PhSucceeded"
  by code_simp

definition outdated_op :: "string inst_operation" where
  "outdated_op = parent_op\<lparr>io_inst := outdated_parent\<rparr>"

definition outdated_run :: "(string inst_operation, cluster \<times> api_write list) run" where
  "outdated_run = Update example_controller_env (logged example_client) outdated_op (example_world [outdated_parent, old_child], [])"

lemma removed_template_suppresses_new_template_witness:
  "\<exists>o6 s6. outdated_run = (Some (Done ()), o6, s6)
    \<and> ins_observedGeneration (in_status (io_inst o6)) = om_generation (in_meta (io_inst o6))"
proof -
  let ?ct = "example_controller_env :: (cluster \<times> api_write list, string) inst_controller"
  let ?c = "logged example_client" let ?s = "(example_world [outdated_parent, old_child], [])"
  have evaluated: "(case outdated_run of (r, o6, s6) \<Rightarrow> r = Some (Done ()))
    \<and> (case ConstructImports ?ct ?c outdated_op ?s of (r1, o1, s1) \<Rightarrow> r1 = Some (Done ())
        \<and> (case CreateOrUpdateImports (ct_objects ?ct) ?c o1 s1 of (r2, o2, s2) \<Rightarrow> r2 = None
            \<and> (case sub_plan (ct_sub ?ct) ?c (op_inst (inst_phase PhProgressing) o2) s2 of
                  None \<Rightarrow> False
                | Some (subs, tmpls, o3, s3) \<Rightarrow>
                    (case cleanupOrphanedSubInstallations ?c (sub_condition (kc_now ?c s3) (io_inst o3)) subs tmpls False o3 s3 of
                       (Inl e, o4, s4) \<Rightarrow> False | (Inr b, o4, s4) \<Rightarrow> b))))" by code_simp
  obtain r o6 s6 where run: "outdated_run = (r, o6, s6)" by (rule prod_cases3)
  obtain r1 o1 s1 where 1: "ConstructImports ?ct ?c outdated_op ?s = (r1, o1, s1)" by (rule prod_cases3)
  obtain r2 o2 s2 where 2: "CreateOrUpdateImports (ct_objects ?ct) ?c o1 s1 = (r2, o2, s2)" by (rule prod_cases3)
  note evaluated = evaluated [unfolded run 1 2 prod.case]
  let ?plan = "sub_plan (ct_sub ?ct) ?c (op_inst (inst_phase PhProgressing) o2) s2"
  have "?plan \<noteq> None"
  proof
    assume n: "?plan = None"
    from evaluated show False unfolding n option.case by blast
  qed
  then obtain q where q: "?plan = Some q" by blast
  obtain subs tmpls o3 s3 where "q = (subs, tmpls, o3, s3)" by (rule prod_cases4)
  note 3 = q [unfolded this]
  obtain d o4 s4 where 4: "cleanupOrphanedSubInstallations ?c (sub_condition (kc_now ?c s3) (io_inst o3)) subs tmpls False o3 s3 = (d, o4, s4)"
    by (rule prod_cases3)
  note evaluated = evaluated [unfolded 3 option.case prod.case 4]
  have rs: "r = Some (Done ())" "r1 = Some (Done ())" "r2 = None" using evaluated by simp_all
  have "d = Inr True" using evaluated by (cases d) simp_all
  note steps = run [unfolded outdated_run_def rs(1)] 1 [unfolded rs(2)] 2 [unfolded rs(3)] 3 4 [unfolded this]
  have "silent_templates (ct_sub ?ct)" "keeps_annotations (ct_exec ?ct)" "silent_items (ct_exec ?ct)"
    by (simp_all add: silent_templates_def keeps_annotations_def silent_items_def example_controller_env_def example_sub_env_def example_exec_env_def)
  from removed_template_suppresses_new_template [OF steps this] run [unfolded rs(1)] show ?thesis by blast
qed

definition deleted_child_run :: "gerr option \<times> string inst_operation \<times> (cluster \<times> api_write list)" where
  "deleted_child_run = DeleteExecutionAndSubinstallations (logged example_client) parent_op
     (installation_cluster [parent_inst, old_child] [], [])"

lemma children_deleted_before_installation_witness:
  "snd (snd (snd deleted_child_run)) = [DeleteInst old_child]"
proof -
  obtain r o1 w1 l where t: "deleted_child_run = (r, o1, (w1, l))" by (metis prod.collapse)
  have "fst deleted_child_run = None" by code_simp
  then have "r = None" unfolding t by simp
  with t have run: "DeleteExecutionAndSubinstallations (logged example_client) parent_op
      (installation_cluster [parent_inst, old_child] [], []) = (None, o1, w1, l)" by (simp add: deleted_child_run_def)
  let ?inst = "inst_phase PhDeleting parent_inst" let ?w = "installation_cluster [parent_inst, old_child] []"
  have op: "io_inst parent_op = parent_inst" by (simp add: parent_op_def)
  have "fst (GetExecutionForInstallation example_client ?inst ?w) = Inr None" by code_simp
  moreover have "fst (ListSubinstallations example_client ?inst [] (snd (deleteExecution example_client ?inst ?w))) = Inr [old_child]"
    by code_simp
  moreover have "sub_deletion old_child = [DeleteInst old_child]" by code_simp
  ultimately have "l = [DeleteInst old_child]"
    using children_deleted_before_installation [OF run] unfolding op by (auto simp: execution_deletion_def)
  then show ?thesis unfolding t by simp
qed

definition leaving_exporter :: installation where
  "leaving_exporter = (let i = protected exporter_inst in i\<lparr>in_meta := (in_meta i)\<lparr>om_deletionTimestamp := Some 1\<rparr>\<rparr>)"

definition blocked_deletion :: "unit outcome option \<times> (cluster \<times> api_write list)" where
  "blocked_deletion = inst_Reconcile example_controller_env (logged example_client) (ObjectKey ''exporter'' ''ns'')
     (example_world [leaving_exporter, importer_inst], [])"

lemma deletion_waits_for_siblings_and_children_witness:
  "(\<exists>e. fst blocked_deletion = Some (Fail e)) \<and> length (snd (snd blocked_deletion)) \<le> 1"
proof -
  let ?w = "example_world [leaving_exporter, importer_inst]" let ?inst = "SetDefaults_Installation leaving_exporter"
  obtain r w1 l where t: "blocked_deletion = (r, (w1, l))" by (metis prod.collapse)
  have evaluated: "rc_get (kc_installations example_client) (ObjectKey ''exporter'' ''ns'') ?w = (Inr leaving_exporter, ?w)
    \<and> leaving ?inst \<and> \<not> HasOperation (in_meta ?inst) ForceReconcileOperation
    \<and> GetParentAndSiblings example_client ?inst ?w = (Inr (None, [importer_inst]), ?w)
    \<and> exec_CombinedPhase example_client ?inst ?w = (Inr PhEmpty, ?w)
    \<and> sub_CombinedPhase example_client ?inst ?w = (Inr PhEmpty, ?w) \<and> checkIfSiblingImports ?inst [importer_inst]" by code_simp
  have 1: "rc_get (kc_installations example_client) (ObjectKey ''exporter'' ''ns'') ?w = (Inr leaving_exporter, ?w)"
    and 2: "leaving ?inst" and 3: "\<not> HasOperation (in_meta ?inst) ForceReconcileOperation"
    and 4: "GetParentAndSiblings example_client ?inst ?w = (Inr (None, [importer_inst]), ?w)"
    and 5: "exec_CombinedPhase example_client ?inst ?w = (Inr PhEmpty, ?w)"
    and 6: "sub_CombinedPhase example_client ?inst ?w = (Inr PhEmpty, ?w)" and 7: "checkIfSiblingImports ?inst [importer_inst]"
    using evaluated by blast+
  from deletion_waits_for_siblings_and_children [OF 1 2 3 4 5 6 disjI1 [OF 7] t [unfolded blocked_deletion_def]] 7
  show ?thesis unfolding t by simp
qed

definition finished_parent :: installation where
  "finished_parent = protected_inst ''parent'' PhSucceeded"

definition failed_child_run :: "unit outcome option \<times> (cluster \<times> api_write list)" where
  "failed_child_run = inst_Reconcile example_controller_env (logged example_client) (ObjectKey ''parent'' ''ns'')
     (example_world [finished_parent, old_sub ''old'' PhFailed], [])"

lemma finished_installation_follows_children_witness:
  "\<exists>i. snd (snd failed_child_run) = [StatusUpdateInst (inst_phase PhFailed i)]"
proof -
  let ?w = "example_world [finished_parent, old_sub ''old'' PhFailed]" let ?inst = "SetDefaults_Installation finished_parent"
  obtain r w1 l where t: "failed_child_run = (r, (w1, l))" by (metis prod.collapse)
  have evaluated: "rc_get (kc_installations example_client) (ObjectKey ''parent'' ''ns'') ?w = (Inr finished_parent, ?w)
    \<and> at_rest ?inst \<and> child_phases example_client ?inst ?w = (Inr [PhFailed], ?w)
    \<and> CombinedInstallationPhase [PhFailed] = PhFailed \<and> ins_phase (in_status ?inst) = PhSucceeded
    \<and> (case initPrerequisites example_controller_env (logged example_client) ?inst (?w, []) of
        (Inl e, s) \<Rightarrow> False | (Inr o1, i, w3, log) \<Rightarrow> log = [])" by code_simp
  have 1: "rc_get (kc_installations example_client) (ObjectKey ''parent'' ''ns'') ?w = (Inr finished_parent, ?w)"
    and 2: "at_rest ?inst" and 3: "child_phases example_client ?inst ?w = (Inr [PhFailed], ?w)"
    and cp: "CombinedInstallationPhase [PhFailed] = PhFailed" "ins_phase (in_status ?inst) = PhSucceeded"
    using evaluated by blast+
  from evaluated obtain o1 i w3 where pre: "initPrerequisites example_controller_env (logged example_client) ?inst (?w, []) = (Inr o1, i, w3, [])"
    by (auto split: prod.splits sum.splits)
  have "l = [] @ [StatusUpdateInst (inst_phase (CombinedInstallationPhase [PhFailed]) (io_inst o1))]"
    using finished_installation_follows_children [OF 1 2 3 t [unfolded failed_child_run_def]] pre cp by auto
  then show ?thesis unfolding t using cp by auto
qed

lemma succeeded_only_with_children_and_exports_witness:
  "\<exists>p1 w1. exec_CombinedPhase example_client (protected_inst ''lone'' PhProgressing)
      (installation_cluster [protected_inst ''lone'' PhProgressing] []) = (Inr p1, w1) \<and> p1 \<notin> unsettled_phases"
proof -
  obtain r i w1 where t: "lone_run = (r, i, w1)" by (metis prod.collapse)
  have run: "r = Some (Done ())" "ins_phase (in_status i) = PhSucceeded" using lone_run_succeeds unfolding t by simp_all
  have "\<not> HasOperation (in_meta (protected_inst ''lone'' PhProgressing)) AbortOperation" by code_simp
  from succeeded_only_with_children_and_exports [OF t [unfolded lone_run_def run(1)] run(2) this] show ?thesis by blast
qed

definition new_inst :: installation where
  "new_inst = example_installation ''new'' [] [] PhEmpty"

definition first_inst_run :: "unit outcome option \<times> (cluster \<times> api_write list)" where
  "first_inst_run = inst_Reconcile example_controller_env (logged example_client) (ObjectKey ''new'' ''ns'') (example_world [new_inst], [])"

lemma finalizer_before_anything_else_witness:
  "snd (snd first_inst_run) = [UpdateInst (protected (SetDefaults_Installation new_inst))]"
proof -
  obtain r w1 l where t: "first_inst_run = (r, (w1, l))" by (metis prod.collapse)
  have evaluated: "rc_get (kc_installations example_client) (ObjectKey ''new'' ''ns'') (example_world [new_inst]) = (Inr new_inst, example_world [new_inst])
    \<and> \<not> leaving (SetDefaults_Installation new_inst)
    \<and> \<not> HasFinalizer (om_finalizers (in_meta (SetDefaults_Installation new_inst))) LandscaperFinalizer" by code_simp
  note 1 = conjunct1 [OF evaluated] and 2 = conjunct1 [OF conjunct2 [OF evaluated]] and 3 = conjunct2 [OF conjunct2 [OF evaluated]]
  from finalizer_before_anything_else [OF 1 2 3 t [unfolded first_inst_run_def]] show ?thesis unfolding t by simp
qed

end
