(* ===== verification/MediaTypes.thy ===== *)
theory MediaTypes
  imports KubeClient InstallationData
begin

text \<open>
  The media types of component blobs and blueprints (\<open>apis/mediatype\<close>): parsing, printing, and the questions about
  them. The main lemma is the round trip of parsing and printing.
\<close>

section \<open>Media types (apis/mediatype)\<close>

datatype media_format = DefaultFormat | OCIConfigFormat | OCILayerFormat

record media_type =
  my_orig :: string
  my_format :: media_format
  my_type :: string
  my_suffix :: "string option"
  my_version :: "string option"
  my_fileFormat :: "string option"
  my_compressionFormat :: "string option"

definition media_String :: "media_type \<Rightarrow> string" where
  "media_String t =
     (case (if my_compressionFormat t \<noteq> None \<and> my_suffix t = None then my_compressionFormat t else my_suffix t) of
        None \<Rightarrow> my_type t
      | Some s \<Rightarrow> my_type t @ ''+'' @ s)"

definition HasSuffix :: "media_type \<Rightarrow> string \<Rightarrow> bool" where
  "HasSuffix t suffix = (case my_suffix t of None \<Rightarrow> False | Some s \<Rightarrow> suffix = [] \<or> s = suffix)"

definition IsCompressed :: "media_type \<Rightarrow> string \<Rightarrow> bool" where
  "IsCompressed t format = (case my_compressionFormat t of
     None \<Rightarrow> (case my_suffix t of None \<Rightarrow> False | Some s \<Rightarrow> s = format)
   | Some f \<Rightarrow> format = [] \<or> f = format)"

definition HasFileFormat :: "media_type \<Rightarrow> string \<Rightarrow> bool" where
  "HasFileFormat t format = (case my_fileFormat t of None \<Rightarrow> False | Some f \<Rightarrow> format = [] \<or> f = format)"

section \<open>The builder\<close>

definition NewBuilder :: "string \<Rightarrow> media_type" where
  "NewBuilder t = \<lparr>my_orig = [], my_format = DefaultFormat, my_type = t, my_suffix = None, my_version = None, my_fileFormat = None,
     my_compressionFormat = None\<rparr>"

definition Compression :: "string \<Rightarrow> media_type \<Rightarrow> media_type" where
  "Compression f b = b\<lparr>my_compressionFormat := Some f, my_suffix := Some f\<rparr>"

definition FileFormat :: "string \<Rightarrow> media_type \<Rightarrow> media_type" where
  "FileFormat format b = b\<lparr>my_fileFormat := Some format, my_suffix := Some format\<rparr>"

definition IsConfigType :: "media_type \<Rightarrow> media_type" where
  "IsConfigType b = b\<lparr>my_format := OCIConfigFormat\<rparr>"

definition IsLayerType :: "media_type \<Rightarrow> media_type" where
  "IsLayerType b = b\<lparr>my_format := OCILayerFormat\<rparr>"

section \<open>Conversions (constants.go) and parsing\<close>

definition BlueprintArtifactsMediaTypeV0 :: string where
  "BlueprintArtifactsMediaTypeV0 = ''application/vnd.gardener.landscaper.blueprint.v1+tar+gzip''"

definition BlueprintArtifactsLayerMediaTypeV1 :: string where
  "BlueprintArtifactsLayerMediaTypeV1 = ''application/vnd.gardener.landscaper.blueprint.layer.v1.tar''"

definition JSONSchemaArtifactsMediaTypeV0 :: string where
  "JSONSchemaArtifactsMediaTypeV0 = ''application/vnd.gardener.landscaper.jsonscheme.v1+json''"

definition JSONSchemaArtifactsMediaTypeV1 :: string where
  "JSONSchemaArtifactsMediaTypeV1 = ''application/vnd.gardener.landscaper.jsonschema.layer.v1.json''"

type_synonym conversion = "string \<Rightarrow> gerr + string option"

definition DefaultMediaTypeConversions :: conversion where
  "DefaultMediaTypeConversions mediaType =
     (if mediaType = BlueprintArtifactsMediaTypeV0
      then Inr (Some (media_String (Compression ''gzip'' (NewBuilder BlueprintArtifactsLayerMediaTypeV1))))
      else if mediaType = JSONSchemaArtifactsMediaTypeV0 then Inr (Some JSONSchemaArtifactsMediaTypeV1)
      else Inr None)"

fun convert_all :: "conversion list \<Rightarrow> string \<Rightarrow> gerr + string" where
  "convert_all [] mediaType = Inr mediaType"
| "convert_all (f # fs) mediaType =
     (case f mediaType of
        Inl e \<Rightarrow> Inl (wrap ''error during conversion'' e)
      | Inr (Some converted) \<Rightarrow> convert_all fs converted
      | Inr None \<Rightarrow> convert_all fs mediaType)"

definition InvalidTypeError :: gerr where
  "InvalidTypeError = PlainError ''INVALID_MEDIA_TYPE''"

text \<open>\<open>Parse\<close> cuts the tree at the first plus sign of the whole text, which panics if that stands in the first part.\<close>

definition tree_format :: "string \<Rightarrow> media_type \<Rightarrow> media_type" where
  "tree_format tree mt =
     (let parts = rev (str_split tree (CHR ''.''))
      in case parts of
           version # kind # x # rest \<Rightarrow>
             (if kind = ''config'' then mt\<lparr>my_format := OCIConfigFormat, my_fileFormat := my_suffix mt, my_version := Some version\<rparr>
              else if rest \<noteq> [] \<and> x = ''layer''
              then mt\<lparr>my_format := OCILayerFormat, my_fileFormat := Some version, my_version := Some kind\<rparr>
              else mt)
         | _ \<Rightarrow> mt)"

definition parse_parts :: "string \<Rightarrow> string \<Rightarrow> string \<Rightarrow> media_type outcome" where
  "parse_parts mediaType t tree0 =
     (let mt0 = \<lparr>my_orig = mediaType, my_format = DefaultFormat, my_type = mediaType, my_suffix = None, my_version = None,
            my_fileFormat = None, my_compressionFormat = None\<rparr>;
          suffixIndex = length (takeWhile (\<lambda>x. x \<noteq> CHR ''+'') mediaType);
          start = length mediaType - length tree0;
          hasSuffix = suffixIndex < length mediaType
      in if hasSuffix \<and> suffixIndex < start then Panic
         else let mt = (if hasSuffix then mt0\<lparr>my_suffix := Some (drop (Suc suffixIndex) mediaType), my_type := take suffixIndex mediaType\<rparr> else mt0);
                  tree = (if hasSuffix then drop start (take suffixIndex mediaType) else tree0)
              in Done (if t \<noteq> ''application'' then mt\<lparr>my_type := mediaType, my_fileFormat := Some tree\<rparr> else tree_format tree mt))"

definition media_Parse :: "string \<Rightarrow> conversion list \<Rightarrow> media_type outcome" where
  "media_Parse mediaType0 conversions =
     (case convert_all (conversions @ [DefaultMediaTypeConversions]) mediaType0 of
        Inl e \<Rightarrow> Fail e
      | Inr mediaType \<Rightarrow>
          (case str_split mediaType (CHR ''/'') of
             [t, tree] \<Rightarrow> parse_parts mediaType t tree
           | _ \<Rightarrow> Fail InvalidTypeError))"

section \<open>The text of a parsed media type\<close>

lemma tree_format_sel [simp]:
  "my_suffix (tree_format tree mt) = my_suffix mt" "my_type (tree_format tree mt) = my_type mt"
  "my_orig (tree_format tree mt) = my_orig mt" "my_compressionFormat (tree_format tree mt) = my_compressionFormat mt"
  by (simp_all add: tree_format_def Let_def split: list.split)

lemma str_join_split: "str_join (str_split s c) c = s"
proof (induction s c rule: str_split.induct)
  case (2 x xs c)
  then show ?case by (cases "str_split xs c"; cases "tl (str_split xs c)") auto
qed simp

lemma length_takeWhile_less: "length (takeWhile P xs) < length xs \<longleftrightarrow> (\<exists>x \<in> set xs. \<not> P x)"
  by (induction xs) auto

lemma takeWhile_split:
  assumes "length (takeWhile P xs) < length xs"
  shows "take (length (takeWhile P xs)) xs @ xs ! length (takeWhile P xs) # drop (Suc (length (takeWhile P xs))) xs = xs"
  by (simp add: Cons_nth_drop_Suc assms)

text \<open>
  The text of a parsed media type. Let \<open>m\<close> be a media type after the conversions. If it has exactly one slash, then
  parsing panics if its first plus sign stands before the slash, and otherwise gives a media type whose text is \<open>m\<close>
  again for an application type; for other types a suffix appears twice. Without exactly one slash the parser reports an
  invalid type.
\<close>

theorem parsed_media_type_text:
  assumes conv: "convert_all (conversions @ [DefaultMediaTypeConversions]) m0 = Inr m"
  shows "(length (str_split m (CHR ''/'')) \<noteq> 2 \<longrightarrow> media_Parse m0 conversions = Fail InvalidTypeError)
    \<and> (\<forall>t tree. str_split m (CHR ''/'') = [t, tree] \<longrightarrow>
        (CHR ''+'' \<in> set t \<longrightarrow> media_Parse m0 conversions = Panic)
      \<and> (CHR ''+'' \<notin> set t \<longrightarrow> (\<exists>mt. media_Parse m0 conversions = Done mt \<and> my_orig mt = m
          \<and> (t = ''application'' \<longrightarrow> media_String mt = m)
          \<and> (t \<noteq> ''application'' \<longrightarrow> media_String mt = (if CHR ''+'' \<in> set m then m @ dropWhile (\<lambda>x. x \<noteq> CHR ''+'') m else m)))))"
proof (intro conjI allI impI)
  assume "length (str_split m (CHR ''/'')) \<noteq> 2"
  then show "media_Parse m0 conversions = Fail InvalidTypeError"
    using conv by (auto simp: media_Parse_def split: list.split)
next
  fix t tree assume split: "str_split m (CHR ''/'') = [t, tree]"
  have m: "m = t @ CHR ''/'' # tree" using str_join_split [of m "CHR ''/''"] split by simp
  have parse: "media_Parse m0 conversions = parse_parts m t tree" using conv split by (simp add: media_Parse_def)
  let ?n = "length (takeWhile (\<lambda>x. x \<noteq> CHR ''+'') m)"
  show "media_Parse m0 conversions = Panic" if "CHR ''+'' \<in> set t"
  proof -
    have "length (takeWhile (\<lambda>x. x \<noteq> CHR ''+'') t) < length t" using that by (auto simp: length_takeWhile_less)
    then have "?n < length t" using that m by (simp add: takeWhile_append)
    then show ?thesis using parse m by (simp add: parse_parts_def Let_def)
  qed
  assume t: "CHR ''+'' \<notin> set t"
  have "?n \<ge> Suc (length t)"
  proof -
    have "\<forall>x \<in> set t. x \<noteq> CHR ''+''" using t by auto
    then show ?thesis using m by (simp add: takeWhile_append2)
  qed
  then have start: "\<not> ?n < length m - length tree" using m by simp
  have plus: "CHR ''+'' \<in> set m \<longleftrightarrow> ?n < length m" by (auto simp: length_takeWhile_less)
  show "\<exists>mt. media_Parse m0 conversions = Done mt \<and> my_orig mt = m
          \<and> (t = ''application'' \<longrightarrow> media_String mt = m)
          \<and> (t \<noteq> ''application'' \<longrightarrow> media_String mt = (if CHR ''+'' \<in> set m then m @ dropWhile (\<lambda>x. x \<noteq> CHR ''+'') m else m))"
  proof (cases "?n < length m")
    case True
    have at: "m ! ?n = CHR ''+''" using nth_length_takeWhile [OF True] by simp
    have whole: "take ?n m @ CHR ''+'' # drop (Suc ?n) m = m" using takeWhile_split [OF True] at by simp
    have rest: "dropWhile (\<lambda>x. x \<noteq> CHR ''+'') m = CHR ''+'' # drop (Suc ?n) m"
      using True at by (simp add: dropWhile_eq_drop Cons_nth_drop_Suc [symmetric])
    show ?thesis
      using parse True start whole rest plus by (simp add: parse_parts_def Let_def media_String_def)
  next
    case False
    then show ?thesis using parse start plus by (simp add: parse_parts_def Let_def media_String_def)
  qed
qed

lemma parsed_media_type_text_witness:
  "\<exists>mt. media_Parse ''application/vnd.x.layer.v1.tar+gzip'' [] = Done mt \<and> media_String mt = ''application/vnd.x.layer.v1.tar+gzip''"
proof -
  let ?m = "''application/vnd.x.layer.v1.tar+gzip''"
  have "convert_all ([] @ [DefaultMediaTypeConversions]) ?m = Inr ?m" by code_simp
  from parsed_media_type_text [OF this]
  have "\<forall>t tree. str_split ?m (CHR ''/'') = [t, tree] \<longrightarrow> CHR ''+'' \<notin> set t \<longrightarrow>
      (\<exists>mt. media_Parse ?m [] = Done mt \<and> (t = ''application'' \<longrightarrow> media_String mt = ?m))" by blast
  moreover have "str_split ?m (CHR ''/'') = [''application'', ''vnd.x.layer.v1.tar+gzip'']" by code_simp
  moreover have "CHR ''+'' \<notin> set ''application''" by simp
  ultimately show ?thesis by blast
qed

text \<open>The converted legacy types have the text of the new ones; a suffix of another type is doubled.\<close>

lemma media_type_examples:
  "(case media_Parse BlueprintArtifactsMediaTypeV0 [] of Done mt \<Rightarrow> IsCompressed mt ''gzip'' \<and> my_format mt = OCILayerFormat | _ \<Rightarrow> False)"
  "(case media_Parse ''image/svg+xml'' [] of Done mt \<Rightarrow> media_String mt = ''image/svg+xml+xml'' | _ \<Rightarrow> False)"
  "media_Parse ''a+b/c'' [] = Panic"
  by code_simp+

end
