(* ===== verification/TargetCluster.thy ===== *)
theory TargetCluster
  imports InstallationData KubeClient
begin

text \<open>
  Unstructured objects of a target cluster, their nested fields and the client for them
  (\<open>controller-utils/pkg/kubernetes/kubernetes.go\<close>).
\<close>

section \<open>Unstructured objects\<close>

text \<open>
  JSON values, and objects of any kind as the deployers handle them. The metadata of an object are apart
  from its other fields.
\<close>

datatype json = JNull | JBool bool | JNum int | JStr string | JArr "json list" | JObj "(string \<times> json) list"

record group_version_kind =
  gk_group :: string
  gk_version :: string
  gk_kind :: string

record unstructured =
  us_apiVersion :: string
  us_kind :: string
  us_meta :: object_meta
  us_uid :: string
  us_resourceVersion :: "string option"
  us_fields :: "(string \<times> json) list"

text \<open>\<open>corev1.ObjectReference\<close>, with the fields that the program uses.\<close>

record core_reference =
  rf_apiVersion :: string
  rf_kind :: string
  rf_name :: string
  rf_namespace :: string
  rf_uid :: string

record typed_reference =
  tr_apiVersion :: string
  tr_kind :: string
  tr_name :: string
  tr_namespace :: string

text \<open>
  The kind of an object (\<open>unstructured.go\<close> of the API machinery), that of a reference (\<open>FromAPIVersionAndKind\<close>),
  and their texts.
\<close>

definition GroupVersionKind :: "unstructured \<Rightarrow> group_version_kind" where
  "GroupVersionKind u = (case ParseGroupVersion (us_apiVersion u) of
     Some (g, v) \<Rightarrow> \<lparr>gk_group = g, gk_version = v, gk_kind = us_kind u\<rparr>
   | None \<Rightarrow> \<lparr>gk_group = [], gk_version = [], gk_kind = []\<rparr>)"

definition FromAPIVersionAndKind :: "string \<Rightarrow> string \<Rightarrow> group_version_kind" where
  "FromAPIVersionAndKind apiVersion kind = (case ParseGroupVersion apiVersion of
     Some (g, v) \<Rightarrow> \<lparr>gk_group = g, gk_version = v, gk_kind = kind\<rparr>
   | None \<Rightarrow> \<lparr>gk_group = [], gk_version = [], gk_kind = kind\<rparr>)"

definition group_version_string :: "group_version_kind \<Rightarrow> string" where
  "group_version_string k = (if gk_group k \<noteq> [] then gk_group k @ ''/'' @ gk_version k else gk_version k)"

definition group_kind :: "group_version_kind \<Rightarrow> string \<times> string" where
  "group_kind k = (gk_group k, gk_kind k)"

definition group_kind_string :: "string \<times> string \<Rightarrow> string" where
  "group_kind_string gk = (if fst gk = [] then snd gk else snd gk @ ''.'' @ fst gk)"

definition gvk_string :: "group_version_kind \<Rightarrow> string" where
  "gvk_string k = gk_group k @ ''/'' @ gk_version k @ '', Kind='' @ gk_kind k"

definition us_key :: "unstructured \<Rightarrow> object_reference" where
  "us_key u = ObjectKey (om_name (us_meta u)) (om_namespace (us_meta u))"

definition CoreObjectReferenceFromUnstructuredObject :: "unstructured \<Rightarrow> core_reference" where
  "CoreObjectReferenceFromUnstructuredObject u =
     \<lparr>rf_apiVersion = group_version_string (GroupVersionKind u), rf_kind = us_kind u, rf_name = om_name (us_meta u),
      rf_namespace = om_namespace (us_meta u), rf_uid = us_uid u\<rparr>"

definition bare_object :: "string \<Rightarrow> string \<Rightarrow> string \<Rightarrow> string \<Rightarrow> unstructured" where
  "bare_object apiVersion kind name namespace =
     \<lparr>us_apiVersion = apiVersion, us_kind = kind, us_meta = empty_meta\<lparr>om_name := name, om_namespace := namespace\<rparr>,
      us_uid = [], us_resourceVersion = None, us_fields = []\<rparr>"

definition ObjectFromCoreObjectReference :: "core_reference \<Rightarrow> unstructured" where
  "ObjectFromCoreObjectReference r = bare_object (rf_apiVersion r) (rf_kind r) (rf_name r) (rf_namespace r)"

definition ObjectFromTypedObjectReference :: "typed_reference \<Rightarrow> unstructured" where
  "ObjectFromTypedObjectReference r = bare_object (tr_apiVersion r) (tr_kind r) (tr_name r) (tr_namespace r)"

section \<open>Nested fields (helpers.go of the API machinery)\<close>

definition accessor_error :: gerr where
  "accessor_error = PlainError ''accessor error''"

fun nested_field :: "json \<Rightarrow> string list \<Rightarrow> gerr + json option" where
  "nested_field v [] = Inr (Some v)"
| "nested_field v (f # fs) = (case v of
     JNull \<Rightarrow> Inr None
   | JObj m \<Rightarrow> (case map_of m f of None \<Rightarrow> Inr None | Some x \<Rightarrow> nested_field x fs)
   | _ \<Rightarrow> Inl accessor_error)"

definition nested_as :: "(json \<Rightarrow> bool) \<Rightarrow> unstructured \<Rightarrow> string list \<Rightarrow> gerr + json option" where
  "nested_as ok u path = (case nested_field (JObj (us_fields u)) path of
     Inr (Some v) \<Rightarrow> (if ok v then Inr (Some v) else Inl accessor_error)
   | r \<Rightarrow> r)"

definition is_map :: "json \<Rightarrow> bool" where
  "is_map v = (case v of JObj m \<Rightarrow> True | _ \<Rightarrow> False)"

definition is_text :: "json \<Rightarrow> bool" where
  "is_text v = (case v of JStr s \<Rightarrow> True | _ \<Rightarrow> False)"

definition is_slice :: "json \<Rightarrow> bool" where
  "is_slice v = (case v of JArr xs \<Rightarrow> True | _ \<Rightarrow> False)"

text \<open>\<open>SetNestedField\<close> creates the maps on the way; something else on the way is an error.\<close>

fun set_in :: "(string \<times> json) list \<Rightarrow> string list \<Rightarrow> json \<Rightarrow> gerr + (string \<times> json) list" where
  "set_in m [] v = Inr m"
| "set_in m [f] v = Inr (AList.update f v m)"
| "set_in m (f # g # fs) v =
     (case map_of m f of
        None \<Rightarrow> (case set_in [] (g # fs) v of Inl e \<Rightarrow> Inl e | Inr m1 \<Rightarrow> Inr (AList.update f (JObj m1) m))
      | Some (JObj m0) \<Rightarrow> (case set_in m0 (g # fs) v of Inl e \<Rightarrow> Inl e | Inr m1 \<Rightarrow> Inr (AList.update f (JObj m1) m))
      | Some _ \<Rightarrow> Inl accessor_error)"

definition SetNestedField :: "unstructured \<Rightarrow> json \<Rightarrow> string list \<Rightarrow> gerr + unstructured" where
  "SetNestedField u v path = (case set_in (us_fields u) path v of Inl e \<Rightarrow> Inl e | Inr m \<Rightarrow> Inr (u\<lparr>us_fields := m\<rparr>))"

section \<open>Required fields of an update (kubernetes.go)\<close>

definition copy_field :: "(json \<Rightarrow> bool) \<Rightarrow> string list \<Rightarrow> unstructured \<Rightarrow> unstructured \<Rightarrow> gerr + unstructured" where
  "copy_field ok path currObj obj = (case nested_as ok currObj path of
     Inl e \<Rightarrow> Inl e
   | Inr None \<Rightarrow> Inr obj
   | Inr (Some v) \<Rightarrow> SetNestedField obj v path)"

definition copy_secrets :: "unstructured \<Rightarrow> unstructured \<Rightarrow> gerr + unstructured" where
  "copy_secrets currObj obj = (case nested_as is_slice obj [''secrets''] of
     Inl e \<Rightarrow> Inl e
   | Inr own \<Rightarrow>
       (if own = None \<or> own = Some (JArr [])
        then (case nested_as is_slice currObj [''secrets''] of
                Inl e \<Rightarrow> Inl e
              | Inr (Some (JArr (x # xs))) \<Rightarrow> SetNestedField obj (JArr (x # xs)) [''secrets'']
              | Inr _ \<Rightarrow> Inr obj)
        else Inr obj))"

definition kind_fields :: "string \<Rightarrow> unstructured \<Rightarrow> unstructured \<Rightarrow> gerr + unstructured" where
  "kind_fields gk currObj obj =
     (if gk = ''Job.batch''
      then (case copy_field is_map [''spec'', ''selector''] currObj obj of
              Inl e \<Rightarrow> Inl e
            | Inr obj1 \<Rightarrow> copy_field is_map [''spec'', ''template'', ''metadata'', ''labels''] currObj obj1)
      else if gk = ''Service'' then copy_field is_text [''spec'', ''clusterIP''] currObj obj
      else if gk = ''ServiceAccount'' then copy_secrets currObj obj
      else Inr obj)"

definition SetRequiredNestedFieldsFromObj :: "unstructured \<Rightarrow> unstructured \<Rightarrow> gerr + unstructured" where
  "SetRequiredNestedFieldsFromObj currObj obj =
     (let currObjGK = group_kind (GroupVersionKind currObj); objGK = group_kind (GroupVersionKind obj)
      in if currObjGK \<noteq> objGK
         then Inl (PlainError (''objects do not have the same GoupKind: '' @ group_kind_string currObjGK @ ''/'' @ group_kind_string objGK))
         else case kind_fields (group_kind_string currObjGK) currObj obj of
                Inl e \<Rightarrow> Inl e
              | Inr obj1 \<Rightarrow>
                  Inr (case us_resourceVersion currObj of None \<Rightarrow> obj1 | Some v \<Rightarrow> obj1\<lparr>us_resourceVersion := Some v\<rparr>))"

section \<open>The client of the target cluster\<close>

text \<open>
  As the client of the landscaper cluster, for objects of any kind: a read gets the kind from the object that it fills.
  \<open>tc_discover\<close> lists the kinds of a group version, each with the flag whether it is namespaced.
\<close>

record 'w target_client =
  tc_get :: "group_version_kind \<Rightarrow> object_reference \<Rightarrow> 'w \<Rightarrow> (gerr + unstructured) \<times> 'w"
  tc_create :: "unstructured \<Rightarrow> 'w \<Rightarrow> (gerr + unstructured) \<times> 'w"
  tc_update :: "unstructured \<Rightarrow> 'w \<Rightarrow> (gerr + unstructured) \<times> 'w"
  tc_patch :: "unstructured \<Rightarrow> unstructured \<Rightarrow> 'w \<Rightarrow> (gerr + unstructured) \<times> 'w"
  tc_delete :: "unstructured \<Rightarrow> 'w \<Rightarrow> gerr option \<times> 'w"
  tc_discover :: "string \<Rightarrow> 'w \<Rightarrow> (gerr + (string \<times> bool) list) \<times> 'w"

datatype target_write =
    TargetCreate unstructured | TargetUpdate unstructured | TargetPatch unstructured unstructured | TargetDelete unstructured

definition logged_target :: "'w target_client \<Rightarrow> ('w \<times> target_write list) target_client" where
  "logged_target c =
     \<lparr>tc_get = \<lambda>k key. unlogged_call (tc_get c k key),
      tc_create = \<lambda>u. logged_call (TargetCreate u) (tc_create c u),
      tc_update = \<lambda>u. logged_call (TargetUpdate u) (tc_update c u),
      tc_patch = \<lambda>old new. logged_call (TargetPatch old new) (tc_patch c old new),
      tc_delete = \<lambda>u. logged_call (TargetDelete u) (tc_delete c u),
      tc_discover = \<lambda>gv. unlogged_call (tc_discover c gv)\<rparr>"

lemma logged_target_sel [simp]:
  "tc_get (logged_target c) k key = unlogged_call (tc_get c k key)"
  "tc_create (logged_target c) u = logged_call (TargetCreate u) (tc_create c u)"
  "tc_update (logged_target c) u = logged_call (TargetUpdate u) (tc_update c u)"
  "tc_patch (logged_target c) old new = logged_call (TargetPatch old new) (tc_patch c old new)"
  "tc_delete (logged_target c) u = logged_call (TargetDelete u) (tc_delete c u)"
  "tc_discover (logged_target c) gv = unlogged_call (tc_discover c gv)"
  by (simp_all add: logged_target_def)

end
