(* ===== verification/ResourceManager.thy ===== *)
theory ResourceManager
  imports TargetCluster
begin

text \<open>
  The applier of manifests, \<open>pkg/deployer/lib/resourcemanager/objectapplier.go\<close>, with the types of
  \<open>apis/deployer/utils/managedresource\<close>. Goroutines are interleaved by schedules.
\<close>

section \<open>Manifests and managed resources (managedresource/types.go)\<close>

datatype manifest_policy = ManagePolicy | FallbackPolicy | KeepPolicy | IgnorePolicy | OtherPolicy string

record managed_manifest =
  mf_policy :: manifest_policy
  mf_manifest :: string

record managed_resource =
  ms_policy :: manifest_policy
  ms_resource :: core_reference

definition TypedObjectReferenceList :: "managed_resource list \<Rightarrow> typed_reference list" where
  "TypedObjectReferenceList mrs = map (\<lambda>mr. \<lparr>tr_apiVersion = rf_apiVersion (ms_resource mr), tr_kind = rf_kind (ms_resource mr),
     tr_name = rf_name (ms_resource mr), tr_namespace = rf_namespace (ms_resource mr)\<rparr>) mrs"

datatype update_strategy = UpdateStrategyUpdate | UpdateStrategyPatch | OtherStrategy string

definition ManagedDeployItemLabel :: string where
  "ManagedDeployItemLabel = ''manifest.deployer.landscaper.gardener.cloud/deployitem''"

section \<open>The applier (objectapplier.go)\<close>

text \<open>
  The options of the applier with the client and the codecs. \<open>ra_polls\<close> is the number of polls before the delete
  timeout. Objects of one group are applied by goroutines: \<open>ra_schedule\<close> says in which order they and the clean-up make
  their steps, see below.
\<close>

record 'w applier =
  ra_client :: "'w target_client"
  ra_decode :: "string \<Rightarrow> gerr + unstructured"
  ra_typeMeta :: "string \<Rightarrow> gerr + string \<times> string"
  ra_crd :: "string \<Rightarrow> gerr + (string \<times> string) \<times> bool"
  ra_aggregate :: "gerr list \<Rightarrow> gerr"
  ra_now :: "'w \<Rightarrow> time"
  ra_polls :: nat
  ra_schedule :: "nat \<Rightarrow> nat list"
  ra_defaultNamespace :: string
  ra_deployItemName :: string
  ra_updateStrategy :: update_strategy
  ra_manifests :: "managed_manifest list"
  ra_labels :: smap

record manifest =
  mn_gvk :: group_version_kind
  mn_policy :: manifest_policy
  mn_raw :: string

text \<open>The cache of the applier for these lists is read but never written, so every call asks the server.\<close>

definition getApiResource :: "'w applier \<Rightarrow> manifest \<Rightarrow> 'w \<Rightarrow> (gerr + bool) \<times> 'w" where
  "getApiResource a m w =
     (let groupVersion = group_version_string (mn_gvk m)
      in case tc_discover (ra_client a) groupVersion w of
           (Inl e, w1) \<Rightarrow> (Inl (wrap (''unable to get api resources for '' @ groupVersion) e), w1)
         | (Inr resources, w1) \<Rightarrow>
             (case map_of resources (gk_kind (mn_gvk m)) of
                Some namespaced \<Rightarrow> (Inr namespaced, w1)
              | None \<Rightarrow> (Inl (PlainError (''unable to get apiresource for '' @ gvk_string (mn_gvk m))), w1)))"

text \<open>The manifests of the three groups: custom resource definitions, cluster-wide and namespaced objects.\<close>

record manifest_groups =
  mg_crds :: "manifest list"
  mg_clusterwide :: "manifest list"
  mg_namespaced :: "manifest list"

fun split_manifests ::
    "'w applier \<Rightarrow> managed_manifest list \<Rightarrow> manifest list \<Rightarrow> ((string \<times> string) \<times> bool) list \<Rightarrow> manifest list
      \<Rightarrow> gerr + manifest list \<times> ((string \<times> string) \<times> bool) list \<times> manifest list" where
  "split_manifests a [] crds info todo = Inr (crds, info, todo)"
| "split_manifests a (x # xs) crds info todo =
     (case ra_typeMeta a (mf_manifest x) of
        Inl e \<Rightarrow> Inl (wrap ''unable to parse type metadata'' e)
      | Inr (apiVersion, kind) \<Rightarrow>
          (let m = \<lparr>mn_gvk = FromAPIVersionAndKind apiVersion kind, mn_policy = mf_policy x, mn_raw = mf_manifest x\<rparr>
           in if kind = ''CustomResourceDefinition''
              then (case ra_crd a (mf_manifest x) of
                      Inl e \<Rightarrow> Inl (wrap ''unable to parse CRD'' e)
                    | Inr (gk, namespaced) \<Rightarrow> split_manifests a xs (crds @ [m]) (AList.update gk namespaced info) todo)
              else split_manifests a xs crds info (todo @ [m])))"

fun group_manifests ::
    "'w applier \<Rightarrow> ((string \<times> string) \<times> bool) list \<Rightarrow> manifest list \<Rightarrow> manifest_groups \<Rightarrow> 'w \<Rightarrow> (gerr + manifest_groups) \<times> 'w" where
  "group_manifests a info [] g w = (Inr g, w)"
| "group_manifests a info (m # ms) g w =
     (case getApiResource a m w of (r, w1) \<Rightarrow>
        (case (case r of Inr namespaced \<Rightarrow> Inr namespaced
                | Inl e \<Rightarrow> (case map_of info (group_kind (mn_gvk m)) of Some namespaced \<Rightarrow> Inr namespaced | None \<Rightarrow> Inl e)) of
           Inl e \<Rightarrow> (Inl e, w1)
         | Inr True \<Rightarrow> group_manifests a info ms (g\<lparr>mg_namespaced := mg_namespaced g @ [m]\<rparr>) w1
         | Inr False \<Rightarrow> group_manifests a info ms (g\<lparr>mg_clusterwide := mg_clusterwide g @ [m]\<rparr>) w1))"

definition prepareManifests :: "'w applier \<Rightarrow> 'w \<Rightarrow> (gerr + manifest_groups) \<times> 'w" where
  "prepareManifests a w =
     (case split_manifests a (ra_manifests a) [] [] [] of
        Inl e \<Rightarrow> (Inl e, w)
      | Inr (crds, info, todo) \<Rightarrow>
          group_manifests a info todo \<lparr>mg_crds = crds, mg_clusterwide = [], mg_namespaced = []\<rparr> w)"

section \<open>Applying an object\<close>

text \<open>
  A goroutine that applies an object makes at most three calls: it asks for the kind, reads the object and writes
  it. A worker is such a goroutine between two calls.
\<close>

datatype worker =
    ApplyStart manifest
  | ApplyRead manifest unstructured
  | ApplyWrite manifest unstructured "unstructured option"
  | ApplyDone "managed_resource option" "gerr option"

definition managed_of :: "manifest \<Rightarrow> unstructured \<Rightarrow> managed_resource" where
  "managed_of m u = \<lparr>ms_policy = mn_policy m, ms_resource = CoreObjectReferenceFromUnstructuredObject u\<rparr>"

definition set_label :: "string \<Rightarrow> string \<Rightarrow> unstructured \<Rightarrow> unstructured" where
  "set_label lab v u = u\<lparr>us_meta := (us_meta u)\<lparr>om_labels := smap_set (om_labels (us_meta u)) lab v\<rparr>\<rparr>"

definition injectLabels :: "'w applier \<Rightarrow> unstructured \<Rightarrow> unstructured" where
  "injectLabels a obj = foldl (\<lambda>u (k, v). set_label k v u) obj (ra_labels a)"

definition apply_start :: "'w applier \<Rightarrow> manifest \<Rightarrow> 'w \<Rightarrow> worker \<times> 'w" where
  "apply_start a m w =
     (if mn_policy m = IgnorePolicy then (ApplyDone None None, w)
      else case ra_decode a (mn_raw m) of
             Inl e \<Rightarrow> (ApplyDone None (Some (wrap (''error while decoding manifest '' @ gvk_string (mn_gvk m)) e)), w)
           | Inr obj \<Rightarrow>
               (if ra_defaultNamespace a \<noteq> [] \<and> om_namespace (us_meta obj) = []
                then (case getApiResource a m w of
                        (Inl e, w1) \<Rightarrow> (ApplyDone None (Some e), w1)
                      | (Inr namespaced, w1) \<Rightarrow>
                          (ApplyRead m (if namespaced then obj\<lparr>us_meta := (us_meta obj)\<lparr>om_namespace := ra_defaultNamespace a\<rparr>\<rparr> else obj), w1))
                else (ApplyRead m obj, w)))"

definition apply_read :: "'w applier \<Rightarrow> manifest \<Rightarrow> unstructured \<Rightarrow> 'w \<Rightarrow> worker \<times> 'w" where
  "apply_read a m obj w =
     (case tc_get (ra_client a) (GroupVersionKind obj) (us_key obj) w of
        (Inl e, w1) \<Rightarrow>
          (if IsNotFound e then (ApplyWrite m obj None, w1) else (ApplyDone None (Some (wrap ''unable to get object'' e)), w1))
      | (Inr currObj, w1) \<Rightarrow> (ApplyWrite m obj (Some currObj), w1))"

definition apply_create :: "'w applier \<Rightarrow> manifest \<Rightarrow> unstructured \<Rightarrow> 'w \<Rightarrow> worker \<times> 'w" where
  "apply_create a m obj w =
     (case tc_create (ra_client a) (set_label ManagedDeployItemLabel (ra_deployItemName a) obj) w of
        (Inl e, w1) \<Rightarrow> (ApplyDone None (Some (wrap (''unable to create resource '' @ key_string (us_key obj)) e)), w1)
      | (Inr u, w1) \<Rightarrow> (ApplyDone (Some (managed_of m u)) None, w1))"

text \<open>The label of a resource that somebody else manages is looked up in the rendered object.\<close>

definition apply_update :: "'w applier \<Rightarrow> manifest \<Rightarrow> unstructured \<Rightarrow> unstructured \<Rightarrow> 'w \<Rightarrow> worker \<times> 'w" where
  "apply_update a m obj0 currObj w =
     (let mr = managed_of m currObj
      in if mn_policy m = FallbackPolicy \<and> \<not> HasLabelWithValue (us_meta obj0) ManagedDeployItemLabel (ra_deployItemName a)
         then (ApplyDone None None, w)
         else case SetRequiredNestedFieldsFromObj currObj (set_label ManagedDeployItemLabel (ra_deployItemName a) (injectLabels a obj0)) of
                Inl e \<Rightarrow> (ApplyDone (Some mr) (Some e), w)
              | Inr obj \<Rightarrow>
                  (case ra_updateStrategy a of
                     UpdateStrategyUpdate \<Rightarrow>
                       (case tc_update (ra_client a) obj w of
                          (Inl e, w1) \<Rightarrow> (ApplyDone (Some mr) (Some (wrap (''unable to update resource '' @ key_string (us_key obj)) e)), w1)
                        | (Inr u, w1) \<Rightarrow> (ApplyDone (Some mr) None, w1))
                   | UpdateStrategyPatch \<Rightarrow>
                       (case tc_patch (ra_client a) currObj obj w of
                          (Inl e, w1) \<Rightarrow> (ApplyDone (Some mr) (Some (wrap (''unable to patch resource '' @ key_string (us_key obj)) e)), w1)
                        | (Inr u, w1) \<Rightarrow> (ApplyDone (Some mr) None, w1))
                   | OtherStrategy s \<Rightarrow> (ApplyDone (Some mr) (Some (PlainError (s @ '' is not a valid update strategy''))), w)))"

fun apply_step :: "'w applier \<Rightarrow> worker \<Rightarrow> 'w \<Rightarrow> worker \<times> 'w" where
  "apply_step a (ApplyStart m) w = apply_start a m w"
| "apply_step a (ApplyRead m obj) w = apply_read a m obj w"
| "apply_step a (ApplyWrite m obj None) w = apply_create a m obj w"
| "apply_step a (ApplyWrite m obj (Some currObj)) w = apply_update a m obj currObj w"
| "apply_step a (ApplyDone mr e) w = (ApplyDone mr e, w)"

section \<open>A group of goroutines\<close>

text \<open>
  A group starts a worker for each manifest and waits for all. A schedule is a list of indices: the workers make
  their steps in this order (an index out of range or of a worker that is done does nothing), then what is left is
  run to its end, one worker after the other. Every interleaving of the calls is one of these. A worker that gets done
  adds its error and its resource to the lists of the group.
\<close>

record apply_state =
  as_workers :: "worker list"
  as_errors :: "gerr list"
  as_managed :: "managed_resource list"

fun apply_done :: "worker \<Rightarrow> bool" where
  "apply_done (ApplyDone mr e) = True"
| "apply_done v = False"

fun record_result :: "worker \<Rightarrow> apply_state \<Rightarrow> apply_state" where
  "record_result (ApplyDone mr e) s =
     s\<lparr>as_errors := as_errors s @ (case e of Some x \<Rightarrow> [x] | None \<Rightarrow> []),
       as_managed := as_managed s @ (case mr of Some x \<Rightarrow> [x] | None \<Rightarrow> [])\<rparr>"
| "record_result v s = s"

definition group_step :: "'w applier \<Rightarrow> nat \<Rightarrow> apply_state \<times> 'w \<Rightarrow> apply_state \<times> 'w" where
  "group_step a i = (\<lambda>(s, w).
     if i < length (as_workers s) \<and> \<not> apply_done (as_workers s ! i)
     then (case apply_step a (as_workers s ! i) w of
             (v, w1) \<Rightarrow> (record_result v (s\<lparr>as_workers := (as_workers s)[i := v]\<rparr>), w1))
     else (s, w))"

definition rest_schedule :: "nat \<Rightarrow> nat list" where
  "rest_schedule n = concat (map (replicate 3) [0..<n])"

definition run_group :: "'w applier \<Rightarrow> nat list \<Rightarrow> manifest list \<Rightarrow> 'w \<Rightarrow> apply_state \<times> 'w" where
  "run_group a schedule ms w =
     fold (group_step a) (schedule @ rest_schedule (length ms)) (\<lparr>as_workers = map ApplyStart ms, as_errors = [], as_managed = []\<rparr>, w)"

text \<open>
  The resources of a group are sorted by the text of their references. The sort of the code is not stable: for equal
  texts its order is not specified, here it is that in which the workers ended.
\<close>

definition reference_text :: "core_reference \<Rightarrow> string" where
  "reference_text r = ''&ObjectReference{Kind:'' @ rf_kind r @ '',Namespace:'' @ rf_namespace r @ '',Name:'' @ rf_name r @ '',UID:'' @ rf_uid r
     @ '',APIVersion:'' @ rf_apiVersion r @ '',ResourceVersion:,FieldPath:,}''"

definition sort_managed :: "managed_resource list \<Rightarrow> managed_resource list" where
  "sort_managed mrs = sort_key (\<lambda>mr. map of_char (reference_text (ms_resource mr)) :: nat list) mrs"

fun apply_groups ::
    "'w applier \<Rightarrow> nat \<Rightarrow> manifest list list \<Rightarrow> gerr list \<Rightarrow> managed_resource list \<Rightarrow> 'w
      \<Rightarrow> gerr list \<times> managed_resource list \<times> 'w" where
  "apply_groups a k [] errs managed w = (errs, managed, w)"
| "apply_groups a k (ms # groups) errs managed w =
     (case run_group a (ra_schedule a k) ms w of
        (s, w1) \<Rightarrow> apply_groups a (Suc k) groups (errs @ as_errors s) (managed @ sort_managed (as_managed s)) w1)"

section \<open>Orphaned resources\<close>

definition same_resource :: "core_reference \<Rightarrow> core_reference \<Rightarrow> bool" where
  "same_resource obj found \<longleftrightarrow>
     rf_uid obj \<noteq> [] \<and> rf_uid found \<noteq> [] \<and> rf_uid obj = rf_uid found
     \<or> group_kind (FromAPIVersionAndKind (rf_apiVersion found) (rf_kind found)) = group_kind (FromAPIVersionAndKind (rf_apiVersion obj) (rf_kind obj))
       \<and> rf_name found = rf_name obj \<and> rf_namespace found = rf_namespace obj"

definition containsObjectRef :: "core_reference \<Rightarrow> managed_resource list \<Rightarrow> bool" where
  "containsObjectRef obj objects = list_ex (\<lambda>mr. same_resource obj (ms_resource mr)) objects"

text \<open>
  The loop reads the old resources and starts a goroutine for the deletion of each orphan, which deletes the object
  and polls until it is gone. \<open>ra_schedule\<close> gives the steps of the deletions before each read; in the end all are waited for.
  After an error of a read the loop returns at once: the deletions that were started are not waited for and go on in the
  background, by the steps that the schedule gives them, and the result does not depend on them.
\<close>

datatype deletion = DeleteObject unstructured | AwaitDeleted nat unstructured | DeletionDone "gerr option"

definition delete_failed :: "unstructured \<Rightarrow> gerr \<Rightarrow> gerr" where
  "delete_failed obj = wrap (''unable to delete '' @ gvk_string (GroupVersionKind obj) @ '' '' @ om_name (us_meta obj) @ ''/''
     @ om_namespace (us_meta obj))"

fun deletion_step :: "'w applier \<Rightarrow> deletion \<Rightarrow> 'w \<Rightarrow> deletion \<times> 'w" where
  "deletion_step a (DeleteObject obj) w =
     (case tc_delete (ra_client a) obj w of
        (Some e, w1) \<Rightarrow> (DeletionDone (Some (delete_failed obj e)), w1)
      | (None, w1) \<Rightarrow> (AwaitDeleted (ra_polls a) obj, w1))"
| "deletion_step a (AwaitDeleted n obj) w =
     (case tc_get (ra_client a) (GroupVersionKind obj) (us_key obj) w of
        (Inl e, w1) \<Rightarrow> (DeletionDone (if IsNotFound e then None else Some e), w1)
      | (Inr obj1, w1) \<Rightarrow>
          (if n = 0 then DeletionDone (Some (PlainError ''timed out waiting for the condition'')) else AwaitDeleted (n - 1) obj1, w1))"
| "deletion_step a (DeletionDone e) w = (DeletionDone e, w)"

definition deletions_step :: "'w applier \<Rightarrow> nat \<Rightarrow> deletion list \<times> 'w \<Rightarrow> deletion list \<times> 'w" where
  "deletions_step a i = (\<lambda>(ds, w).
     if i < length ds then (case deletion_step a (ds ! i) w of (d, w1) \<Rightarrow> (ds[i := d], w1)) else (ds, w))"

fun orphans_loop ::
    "'w applier \<Rightarrow> managed_resource list \<Rightarrow> nat \<Rightarrow> managed_resource list \<Rightarrow> deletion list \<Rightarrow> 'w \<Rightarrow> (gerr + deletion list) \<times> 'w" where
  "orphans_loop a new k [] ds w = (Inr ds, w)"
| "orphans_loop a new k (mr # mrs) ds w =
     (if ms_policy mr = IgnorePolicy \<or> ms_policy mr = KeepPolicy then orphans_loop a new (Suc k) mrs ds w
      else (case fold (deletions_step a) (ra_schedule a k) (ds, w) of
              (ds1, w1) \<Rightarrow>
                (let bare = ObjectFromCoreObjectReference (ms_resource mr)
                 in case tc_get (ra_client a) (GroupVersionKind bare) (us_key bare) w1 of
                      (Inl e, w2) \<Rightarrow>
                        (if IsNotFound e then orphans_loop a new (Suc k) mrs ds1 w2
                         else (Inl (wrap (''unable to get object '' @ gvk_string (GroupVersionKind bare) @ '' '' @ om_name (us_meta bare)) e),
                               snd (fold (deletions_step a) (ra_schedule a (Suc k + length mrs)) (ds1, w2))))
                    | (Inr obj, w2) \<Rightarrow>
                        (if \<not> containsObjectRef (ms_resource mr) new then orphans_loop a new (Suc k) mrs (ds1 @ [DeleteObject obj]) w2
                         else orphans_loop a new (Suc k) mrs ds1 w2))))"

definition deletion_errors :: "deletion list \<Rightarrow> gerr list" where
  "deletion_errors ds = concat (map (\<lambda>d. case d of DeletionDone (Some e) \<Rightarrow> [e] | _ \<Rightarrow> []) ds)"

definition cleanupOrphanedResources ::
    "'w applier \<Rightarrow> managed_resource list \<Rightarrow> managed_resource list \<Rightarrow> 'w \<Rightarrow> gerr option \<times> 'w" where
  "cleanupOrphanedResources a old new w =
     (case orphans_loop a new 3 old [] w of
        (Inl e, w1) \<Rightarrow> (Some e, w1)
      | (Inr ds, w1) \<Rightarrow>
          (case fold (deletions_step a)
                  (ra_schedule a (3 + length old) @ concat (map (replicate (Suc (Suc (ra_polls a)))) [0..<length ds])) (ds, w1) of
             (ds2, w2) \<Rightarrow> (if deletion_errors ds2 = [] then None else Some (ra_aggregate a (deletion_errors ds2)), w2)))"

section \<open>Apply\<close>

definition apply_failed :: "'w applier \<Rightarrow> string \<Rightarrow> gerr \<Rightarrow> 'w \<Rightarrow> gerr" where
  "apply_failed a reason e w = NewWrappedError (ra_now a w) e ''ApplyObjects'' reason (error_string e) []"

text \<open>\<open>Apply\<close>: the error, the managed resources of the applier, which are the old ones if no manifest was applied.\<close>

definition Apply :: "'w applier \<Rightarrow> managed_resource list \<Rightarrow> 'w \<Rightarrow> gerr option \<times> managed_resource list \<times> 'w" where
  "Apply a old w =
     (case prepareManifests a w of
        (Inl e, w1) \<Rightarrow> (Some e, old, w1)
      | (Inr g, w1) \<Rightarrow>
          (case apply_groups a 0 [mg_crds g, mg_clusterwide g, mg_namespaced g] [] [] w1 of
             (errs, new, w2) \<Rightarrow>
               (if errs \<noteq> [] then (Some (apply_failed a ''ApplyNewObject'' (ra_aggregate a errs) w2), new, w2)
                else case cleanupOrphanedResources a old new w2 of
                       (Some e, w3) \<Rightarrow>
                         (Some (apply_failed a ''CleanupOrphanedObects'' (wrap ''unable to cleanup orphaned resources'' e) w3), new, w3)
                     | (None, w3) \<Rightarrow> (None, new, w3))))"

definition ApplyManifests :: "'w applier \<Rightarrow> managed_resource list \<Rightarrow> 'w \<Rightarrow> (gerr + managed_resource list) \<times> 'w" where
  "ApplyManifests a old w = (case Apply a old w of
     (Some e, new, w1) \<Rightarrow> (Inl e, w1)
   | (None, new, w1) \<Rightarrow> (Inr new, w1))"

end
