(* ===== verification/Goroutines.thy ===== *)
theory Goroutines
  imports Prelude
begin

text \<open>
  Goroutines that share a world, run under every schedule of their steps, and the contract under which they end.
\<close>

text \<open>
  A pool is a list of goroutines that share a world. A step of one of them is a call and what it does until the next
  call. The schedule is a list of indices: the goroutines make their steps in this order (an index out of range does nothing),
  then what is left is run to its end, at most \<open>n\<close> steps each. Every interleaving of the calls is one of these.
\<close>

definition pool_step :: "('s \<Rightarrow> 'w \<Rightarrow> 's \<times> 'w) \<Rightarrow> nat \<Rightarrow> 's list \<times> 'w \<Rightarrow> 's list \<times> 'w" where
  "pool_step step i = (\<lambda>(ss, w). if i < length ss then (case step (ss ! i) w of (s, w1) \<Rightarrow> (ss[i := s], w1)) else (ss, w))"

definition run_pool :: "('s \<Rightarrow> 'w \<Rightarrow> 's \<times> 'w) \<Rightarrow> nat \<Rightarrow> nat list \<Rightarrow> 's list \<Rightarrow> 'w \<Rightarrow> 's list \<times> 'w" where
  "run_pool step n schedule ss w = fold (pool_step step) (schedule @ concat (map (replicate n) [0..<length ss])) (ss, w)"

lemma fold_pool_invariant:
  assumes "I ss w" "fold (pool_step step) is (ss, w) = (ss', w')"
    and inv: "\<And>ss w i s w'. I ss w \<Longrightarrow> i < length ss \<Longrightarrow> step (ss ! i) w = (s, w') \<Longrightarrow> I (ss[i := s]) w'"
  shows "I ss' w'"
  using assms(1,2)
proof (induction "is" arbitrary: ss w)
  case (Cons i "is")
  obtain ss1 w1 where 1: "pool_step step i (ss, w) = (ss1, w1)" by (cases "pool_step step i (ss, w)")
  then have "I ss1 w1" using Cons.prems(1) inv by (auto simp: pool_step_def split: if_splits prod.splits)
  then show ?case using Cons.IH Cons.prems(2) 1 by simp
qed simp

lemma run_pool_invariant:
  assumes "I ss w" "run_pool step n schedule ss w = (ss', w')"
    and "\<And>ss w i s w'. I ss w \<Longrightarrow> i < length ss \<Longrightarrow> step (ss ! i) w = (s, w') \<Longrightarrow> I (ss[i := s]) w'"
  shows "I ss' w'"
  using fold_pool_invariant [of I] assms unfolding run_pool_def by blast

lemma run_pool_length: "run_pool step n schedule ss w = (ss', w') \<Longrightarrow> length ss' = length ss"
  by (rule run_pool_invariant [where I = "\<lambda>xs w. length xs = length ss"]) auto

text \<open>The contract: a goroutine that is not done comes nearer to its end with every step.\<close>

locale worker_pool =
  fixes step :: "'s \<Rightarrow> 'w \<Rightarrow> 's \<times> 'w" and rank :: "'s \<Rightarrow> nat"
  assumes rank_step: "step s w = (s', w') \<Longrightarrow> rank s' \<le> rank s - 1"
begin

lemma pool_step_rank:
  assumes "pool_step step i (ss, w) = (ss', w')" "j < length ss"
  shows "length ss' = length ss \<and> rank (ss' ! j) \<le> rank (ss ! j) - (if i = j then 1 else 0)"
  using assms rank_step by (auto simp: pool_step_def nth_list_update split: if_splits prod.splits)

lemma fold_rank:
  assumes "fold (pool_step step) is (ss, w) = (ss', w')" "j < length ss"
  shows "length ss' = length ss \<and> rank (ss' ! j) \<le> rank (ss ! j) - length (filter (\<lambda>i. i = j) is)"
  using assms
proof (induction "is" arbitrary: ss w)
  case (Cons i "is")
  obtain ss1 w1 where 1: "pool_step step i (ss, w) = (ss1, w1)" by (cases "pool_step step i (ss, w)")
  then have "fold (pool_step step) is (ss1, w1) = (ss', w')" using Cons.prems(1) by simp
  with Cons.IH pool_step_rank [OF 1 Cons.prems(2)] Cons.prems(2) show ?case by (fastforce split: if_splits)
qed simp

lemma run_pool_ends:
  assumes run: "run_pool step n schedule ss w = (ss', w')" and ranks: "\<forall>s \<in> set ss. rank s \<le> n"
  shows "\<forall>s \<in> set ss'. rank s = 0"
proof
  fix s assume "s \<in> set ss'"
  then obtain j where j: "j < length ss" "s = ss' ! j"
    using run_pool_length [OF run] by (auto simp: in_set_conv_nth)
  have "length (filter (\<lambda>i. i = j) (concat (map (replicate n) [0..<m]))) = (if j < m then n else 0)" for m
    by (induction m) auto
  then have "rank (ss' ! j) \<le> rank (ss ! j) - n"
    using fold_rank [OF run [unfolded run_pool_def] j(1)] j(1) by (simp, arith)
  then show "rank s = 0" using ranks j by (auto simp: Ball_def)
qed

end

end
