(* ===== verification/ReadinessChecks.thy ===== *)
theory ReadinessChecks
  imports ResourceManager Goroutines
begin

text \<open>
  The checks of the readiness of deployed objects (\<open>pkg/deployer/lib/readinesscheck\<close>): waiting in polls whose
  goroutines read and check the objects, the default checks of workloads, and custom checks by JSON paths. Reading a
  typed object and JSON paths are library functions and arguments.
\<close>

section \<open>Waiting for objects (readiness.go)\<close>

datatype readiness_answer = ObjectReady | ObjectNotReady gerr | ObjectUnknown gerr | CheckPanics

type_synonym object_check = "unstructured \<Rightarrow> unit outcome"

text \<open>
  The environment of the checks. \<open>rk_polls timeout\<close> is the number of polls that the library makes after the first one,
  \<open>None\<close> when it polls without an end, which it does for the timeout zero. \<open>rk_schedule k\<close> are the steps of the
  goroutines of poll \<open>k\<close>.
\<close>

record 'w readiness =
  rk_client :: "'w target_client"
  rk_now :: "'w \<Rightarrow> time"
  rk_aggregate :: "gerr list \<Rightarrow> gerr"
  rk_polls :: "duration \<Rightarrow> nat option"
  rk_schedule :: "nat \<Rightarrow> nat list"

definition object_text :: "unstructured \<Rightarrow> string" where
  "object_text u = gvk_string (GroupVersionKind u) @ '' '' @ om_name (us_meta u) @ ''/'' @ om_namespace (us_meta u)"

definition IsObjectReady :: "'w target_client \<Rightarrow> object_check \<Rightarrow> unstructured \<Rightarrow> 'w \<Rightarrow> readiness_answer \<times> unstructured \<times> 'w" where
  "IsObjectReady c check obj w =
     (case tc_get c (GroupVersionKind obj) (us_key obj) w of
        (Inl e, w1) \<Rightarrow> (ObjectUnknown (wrap (''unable to get '' @ object_text obj) e), obj, w1)
      | (Inr obj1, w1) \<Rightarrow>
          ((case check obj1 of
              Done _ \<Rightarrow> ObjectReady
            | Fail e \<Rightarrow> ObjectNotReady (PlainError (object_text obj1 @ '' is not ready: '' @ error_string e))
            | Panic \<Rightarrow> CheckPanics), obj1, w1))"

text \<open>A goroutine reads and checks its object, then adds the error to the lists that all share.\<close>

record readiness_errors =
  re_all :: "gerr list"
  re_notReady :: "gerr list"
  re_panic :: bool

datatype checker = CheckObject unstructured | ReportAnswer unstructured readiness_answer | CheckDone unstructured

fun report_answer :: "readiness_answer \<Rightarrow> readiness_errors \<Rightarrow> readiness_errors" where
  "report_answer ObjectReady re = re"
| "report_answer (ObjectNotReady e) re = re\<lparr>re_notReady := re_notReady re @ [e]\<rparr>"
| "report_answer (ObjectUnknown e) re = re\<lparr>re_all := re_all re @ [e]\<rparr>"
| "report_answer CheckPanics re = re\<lparr>re_panic := True\<rparr>"

fun checker_step :: "'w target_client \<Rightarrow> object_check \<Rightarrow> checker \<Rightarrow> 'w \<times> readiness_errors \<Rightarrow> checker \<times> 'w \<times> readiness_errors" where
  "checker_step c check (CheckObject obj) (w, re) =
     (case IsObjectReady c check obj w of (answer, obj1, w1) \<Rightarrow> (ReportAnswer obj1 answer, w1, re))"
| "checker_step c check (ReportAnswer obj answer) (w, re) = (CheckDone obj, w, report_answer answer re)"
| "checker_step c check (CheckDone obj) (w, re) = (CheckDone obj, w, re)"

fun checked_object :: "checker \<Rightarrow> unstructured" where
  "checked_object (CheckObject obj) = obj"
| "checked_object (ReportAnswer obj answer) = obj"
| "checked_object (CheckDone obj) = obj"

definition ready_poll ::
    "'w readiness \<Rightarrow> object_check \<Rightarrow> nat \<Rightarrow> unstructured list \<Rightarrow> 'w \<Rightarrow> unstructured list \<times> 'w \<times> readiness_errors" where
  "ready_poll r check k objects w =
     (case run_pool (checker_step (rk_client r) check) 2 (rk_schedule r k) (map CheckObject objects)
             (w, \<lparr>re_all = [], re_notReady = [], re_panic = False\<rparr>) of
        (ss, w1, re) \<Rightarrow> (map checked_object ss, w1, re))"

text \<open>The polls from number \<open>k\<close> on, at most \<open>fuel\<close>; \<open>None\<close> if that is not enough. Each poll reads into the objects of the last one.\<close>

fun ready_polls ::
    "'w readiness \<Rightarrow> duration \<Rightarrow> object_check \<Rightarrow> nat \<Rightarrow> nat \<Rightarrow> unstructured list \<Rightarrow> 'w \<Rightarrow> (unit outcome \<times> 'w) option" where
  "ready_polls r timeout check 0 k objects w = None"
| "ready_polls r timeout check (Suc fuel) k objects w =
     (case ready_poll r check k objects w of
        (objects1, w1, re) \<Rightarrow>
          (if re_panic re then Some (Panic, w1)
           else if re_all re \<noteq> [] then Some (Fail (rk_aggregate r (re_all re)), w1)
           else if re_notReady re = [] then Some (Done (), w1)
           else if rk_polls r timeout = Some k then Some (Fail (rk_aggregate r (re_notReady re)), w1)
           else ready_polls r timeout check fuel (Suc k) objects1 w1))"

definition WaitForObjectsReady ::
    "'w readiness \<Rightarrow> nat \<Rightarrow> duration \<Rightarrow> unstructured list \<Rightarrow> object_check \<Rightarrow> 'w \<Rightarrow> (unit outcome \<times> 'w) option" where
  "WaitForObjectsReady r fuel timeout objects check w = ready_polls r timeout check fuel 0 objects w"

text \<open>The wrapping of its error by both kinds of checks.\<close>

definition readiness_failed :: "'w readiness \<Rightarrow> string \<Rightarrow> (unit outcome \<times> 'w) option \<Rightarrow> (unit outcome \<times> 'w) option" where
  "readiness_failed r currOp result = (case result of
     Some (Fail e, w) \<Rightarrow>
       Some (Fail (NewWrappedError (rk_now r w) e currOp ''CheckResourceReadiness'' (error_string e) [ErrorReadinessCheckTimeout]), w)
   | x \<Rightarrow> x)"

section \<open>Workloads (defaultreadinesscheck.go)\<close>

text \<open>The parts of the typed objects that the checks use; 32 bit integers are integers in their range.\<close>

record workload_condition =
  wc_type :: string
  wc_status :: string
  wc_reason :: string
  wc_message :: string

record workload =
  wl_generation :: int
  wl_observedGeneration :: int
  wl_conditions :: "workload_condition list"
  wl_replicas :: "int option"
  wl_readyReplicas :: int

datatype int_or_string = IntVal int | StringVal string

record daemon_set =
  dm_generation :: int
  dm_observedGeneration :: int
  dm_desiredNumberScheduled :: int
  dm_currentNumberScheduled :: int
  dm_updateStrategy :: string
  dm_rollingUpdate :: "int_or_string option option"

definition wrap32 :: "int \<Rightarrow> int" where
  "wrap32 x = (x + 2147483648) mod 4294967296 - 2147483648"

definition outdatedGeneration :: "int \<Rightarrow> int \<Rightarrow> gerr" where
  "outdatedGeneration current expected =
     PlainError (''observed generation outdated ('' @ show_int current @ ''/'' @ show_int expected @ '')'')"

definition notEnoughReadyReplicas :: "int \<Rightarrow> int \<Rightarrow> gerr" where
  "notEnoughReadyReplicas current expected =
     PlainError (''not enough ready replicas ('' @ show_int current @ ''/'' @ show_int expected @ '')'')"

definition conditionInvalidStatus :: "string \<Rightarrow> string \<Rightarrow> string \<Rightarrow> string \<Rightarrow> string \<Rightarrow> gerr" where
  "conditionInvalidStatus conditionType expected actual reason message =
     PlainError (''condition '' @ go_quote conditionType @ '' has invalid status '' @ actual @ '' (expected '' @ expected @ '') due to ''
       @ reason @ '': '' @ message)"

definition requiredConditionMissing :: "string \<Rightarrow> gerr" where
  "requiredConditionMissing conditionType = PlainError (''condition '' @ go_quote conditionType @ '' is missing'')"

definition checkConditionState :: "string \<Rightarrow> string \<Rightarrow> workload_condition \<Rightarrow> unit outcome" where
  "checkConditionState conditionType expected condition =
     (if expected \<noteq> wc_status condition
      then Fail (conditionInvalidStatus conditionType expected (wc_status condition) (wc_reason condition) (wc_message condition))
      else Done ())"

definition get_condition :: "workload_condition list \<Rightarrow> string \<Rightarrow> workload_condition option" where
  "get_condition conditions conditionType = List.find (\<lambda>c. wc_type c = conditionType) conditions"

definition CheckPod :: "workload_condition list \<Rightarrow> unit outcome" where
  "CheckPod conditions = (case get_condition conditions ''Ready'' of
     None \<Rightarrow> Fail (requiredConditionMissing ''Ready'')
   | Some condition \<Rightarrow>
       (if wc_reason condition = ''PodCompleted'' then Done () else checkConditionState ''Ready'' ''True'' condition))"

definition and_also :: "unit outcome \<Rightarrow> unit outcome \<Rightarrow> unit outcome" where
  "and_also r s = (case r of Done _ \<Rightarrow> s | _ \<Rightarrow> r)"

definition check_generation :: "int \<Rightarrow> int \<Rightarrow> unit outcome" where
  "check_generation observed generation = (if observed < generation then Fail (outdatedGeneration observed generation) else Done ())"

definition check_condition :: "bool \<Rightarrow> string \<Rightarrow> workload_condition list \<Rightarrow> string \<Rightarrow> unit outcome" where
  "check_condition required expected conditions conditionType = (case get_condition conditions conditionType of
     None \<Rightarrow> (if required then Fail (requiredConditionMissing conditionType) else Done ())
   | Some condition \<Rightarrow> checkConditionState conditionType expected condition)"

definition CheckDeployment :: "workload \<Rightarrow> unit outcome" where
  "CheckDeployment dp =
     and_also (check_generation (wl_observedGeneration dp) (wl_generation dp))
     (and_also (check_condition True ''True'' (wl_conditions dp) ''Available'')
     (and_also (check_condition False ''True'' (wl_conditions dp) ''Progressing'')
               (check_condition False ''False'' (wl_conditions dp) ''ReplicaFailure'')))"

definition check_replicas :: "workload \<Rightarrow> unit outcome" where
  "check_replicas x =
     (let replicas = (case wl_replicas x of None \<Rightarrow> 1 | Some n \<Rightarrow> n)
      in if wl_readyReplicas x < replicas then Fail (notEnoughReadyReplicas (wl_readyReplicas x) replicas) else Done ())"

definition CheckStatefulSet :: "workload \<Rightarrow> unit outcome" where
  "CheckStatefulSet sts = and_also (check_generation (wl_observedGeneration sts) (wl_generation sts)) (check_replicas sts)"

fun no_replica_failure :: "workload_condition list \<Rightarrow> unit outcome" where
  "no_replica_failure [] = Done ()"
| "no_replica_failure (c # cs) =
     (if wc_type c = ''ReplicaFailure'' then and_also (checkConditionState ''ReplicaFailure'' ''False'' c) (no_replica_failure cs)
      else no_replica_failure cs)"

definition CheckReplicaSet :: "workload \<Rightarrow> unit outcome" where
  "CheckReplicaSet rs =
     and_also (check_generation (wl_observedGeneration rs) (wl_generation rs))
     (and_also (no_replica_failure (wl_conditions rs)) (check_replicas rs))"

definition CheckReplicationController :: "workload \<Rightarrow> unit outcome" where
  "CheckReplicationController rc =
     and_also (check_generation (wl_observedGeneration rc) (wl_generation rc))
     (and_also (no_replica_failure (wl_conditions rc)) (check_replicas rc))"

text \<open>\<open>GetValueFromIntOrPercent\<close> of the library is the argument \<open>scaled\<close>.\<close>

definition daemonSetMaxUnavailable :: "(int_or_string option \<Rightarrow> int \<Rightarrow> gerr + int) \<Rightarrow> daemon_set \<Rightarrow> int" where
  "daemonSetMaxUnavailable scaled ds =
     (if dm_desiredNumberScheduled ds = 0 \<or> dm_updateStrategy ds \<noteq> ''RollingUpdate'' then 0
      else case dm_rollingUpdate ds of
             None \<Rightarrow> 0
           | Some maxUnavailable \<Rightarrow>
               (case scaled maxUnavailable (dm_desiredNumberScheduled ds) of Inl e \<Rightarrow> 0 | Inr n \<Rightarrow> wrap32 n))"

definition CheckDaemonSet :: "(int_or_string option \<Rightarrow> int \<Rightarrow> gerr + int) \<Rightarrow> daemon_set \<Rightarrow> unit outcome" where
  "CheckDaemonSet scaled ds =
     and_also (check_generation (dm_observedGeneration ds) (dm_generation ds))
     (let requiredAvailable = wrap32 (dm_desiredNumberScheduled ds - daemonSetMaxUnavailable scaled ds)
      in if dm_currentNumberScheduled ds < requiredAvailable
         then Fail (notEnoughReadyReplicas (dm_currentNumberScheduled ds) requiredAvailable) else Done ())"

text \<open>The conversions of the API machinery to typed objects.\<close>

record workload_codecs =
  wd_pod :: "unstructured \<Rightarrow> gerr + workload_condition list"
  wd_workload :: "unstructured \<Rightarrow> gerr + workload"
  wd_daemonSet :: "unstructured \<Rightarrow> gerr + daemon_set"
  wd_scaled :: "int_or_string option \<Rightarrow> int \<Rightarrow> gerr + int"

definition converted_check :: "gerr + 'a \<Rightarrow> ('a \<Rightarrow> unit outcome) \<Rightarrow> unit outcome" where
  "converted_check r check = (case r of Inl e \<Rightarrow> Fail e | Inr x \<Rightarrow> check x)"

definition DefaultCheckObject :: "workload_codecs \<Rightarrow> object_check" where
  "DefaultCheckObject cd u =
     (let gk = group_kind_string (group_kind (GroupVersionKind u))
      in if gk = ''Pod'' then converted_check (wd_pod cd u) CheckPod
         else if gk = ''Deployment.apps'' then converted_check (wd_workload cd u) CheckDeployment
         else if gk = ''ReplicaSet.apps'' then converted_check (wd_workload cd u) CheckReplicaSet
         else if gk = ''StatefulSet.apps'' then converted_check (wd_workload cd u) CheckStatefulSet
         else if gk = ''DaemonSet.apps'' then converted_check (wd_daemonSet cd u) (CheckDaemonSet (wd_scaled cd))
         else if gk = ''ReplicationController'' then converted_check (wd_workload cd u) CheckReplicationController
         else Done ())"

text \<open>The timeout is a pointer that the code dereferences.\<close>

definition DefaultCheckResourcesReady ::
    "'w readiness \<Rightarrow> workload_codecs \<Rightarrow> nat \<Rightarrow> string \<Rightarrow> duration option \<Rightarrow> typed_reference list \<Rightarrow> 'w
      \<Rightarrow> (unit outcome \<times> 'w) option" where
  "DefaultCheckResourcesReady r cd fuel currOp timeout managedResources w =
     (if managedResources = [] then Some (Done (), w)
      else case timeout of
             None \<Rightarrow> Some (Panic, w)
           | Some t \<Rightarrow> readiness_failed r currOp
               (WaitForObjectsReady r fuel t (map ObjectFromTypedObjectReference managedResources) (DefaultCheckObject cd) w))"

section \<open>Custom checks (customreadinesscheck.go)\<close>

datatype selection_operator =
    DoesNotExist | Exists | Equals | DoubleEquals | In | NotEquals | NotIn | OtherOperator string

record requirement_spec =
  rq_jsonPath :: string
  rq_operator :: selection_operator
  rq_value :: "string list"

record label_selector_spec =
  lx_apiVersion :: string
  lx_kind :: string
  lx_labels :: smap

record custom_check =
  cq_name :: string
  cq_timeout :: "duration option"
  cq_disabled :: bool
  cq_resource :: "typed_reference list option"
  cq_labelSelector :: "label_selector_spec option"
  cq_requirements :: "requirement_spec list"

text \<open>
  The libraries that the checks use: parsing a JSON path, finding its results in an object, decoding a raw JSON object,
  and encoding and decoding a value. The results of a path are lists of values.
\<close>

record json_lib =
  jl_parsePath :: "string \<Rightarrow> gerr option"
  jl_find :: "string \<Rightarrow> unstructured \<Rightarrow> gerr + json list list"
  jl_decode :: "string \<Rightarrow> gerr + (string \<times> json) list"
  jl_generic :: "json \<Rightarrow> gerr + json"

text \<open>\<open>reflect.DeepEqual\<close> on JSON values: maps have no order, so they are compared with their keys sorted.\<close>

primrec json_norm :: "json \<Rightarrow> json" where
  "json_norm JNull = JNull"
| "json_norm (JBool b) = JBool b"
| "json_norm (JNum n) = JNum n"
| "json_norm (JStr s) = JStr s"
| "json_norm (JArr xs) = JArr (map json_norm xs)"
| "json_norm (JObj m) = JObj (sort_key (\<lambda>(k, v). map of_char k :: nat list) (map (map_prod id json_norm) m))"

definition DeepEqual :: "json \<Rightarrow> json \<Rightarrow> bool" where
  "DeepEqual x y \<longleftrightarrow> json_norm x = json_norm y"

definition matchResourceConditions :: "json_lib \<Rightarrow> json \<Rightarrow> json list \<Rightarrow> selection_operator \<Rightarrow> bool outcome" where
  "matchResourceConditions jl object values operator =
     (case jl_generic jl object of
        Inl e \<Rightarrow> Fail e
      | Inr o1 \<Rightarrow>
          (case operator of
             Equals \<Rightarrow> Done (list_ex (DeepEqual o1) values)
           | DoubleEquals \<Rightarrow> Done (list_ex (DeepEqual o1) values)
           | In \<Rightarrow> Done (list_ex (DeepEqual o1) values)
           | NotEquals \<Rightarrow> (case values of [] \<Rightarrow> Panic | v # vs \<Rightarrow> Done (\<not> DeepEqual o1 v))
           | NotIn \<Rightarrow> Done (\<not> list_ex (DeepEqual o1) values)
           | _ \<Rightarrow> Done False))"

definition getFieldsByJSONPath :: "json_lib \<Rightarrow> unstructured \<Rightarrow> string \<Rightarrow> gerr + json list list" where
  "getFieldsByJSONPath jl obj fieldPath0 =
     (let fieldPath = (if take 1 fieldPath0 = ''.'' then fieldPath0 else ''.'' @ fieldPath0)
      in case jl_parsePath jl (''{'' @ fieldPath @ ''}'') of
           Some e \<Rightarrow> Inl (wrap (''cannot parse fieldPath '' @ fieldPath) e)
         | None \<Rightarrow>
             (case jl_find jl (''{'' @ fieldPath @ ''}'') obj of
                Inl e \<Rightarrow> Inl (wrap ''cannot find results'' e)
              | Inr found \<Rightarrow> Inr found))"

definition fieldDoesNotExist :: "json list list \<Rightarrow> bool" where
  "fieldDoesNotExist f = (case f of [] \<Rightarrow> True | x # xs \<Rightarrow> x = [])"

fun parse_values_from :: "json_lib \<Rightarrow> nat \<Rightarrow> string list \<Rightarrow> gerr + json list" where
  "parse_values_from jl i [] = Inr []"
| "parse_values_from jl i (v # vs) =
     (case jl_decode jl v of
        Inl e \<Rightarrow> Inl (wrap (''cannot unmarshal object at index '' @ show_int (int i)) e)
      | Inr m \<Rightarrow>
          (case map_of m ''value'' of
             None \<Rightarrow> Inl (PlainError (''object at index '' @ show_int (int i) @ '' does not contain the value key''))
           | Some val \<Rightarrow> (case parse_values_from jl (Suc i) vs of Inl e \<Rightarrow> Inl e | Inr vals \<Rightarrow> Inr (val # vals))))"

definition parseRequirementValues :: "json_lib \<Rightarrow> string list \<Rightarrow> gerr + json list" where
  "parseRequirementValues jl values = parse_values_from jl 0 values"

text \<open>The loop over the values of a field, then that over the requirements, which returns at the first satisfied existence.\<close>

definition not_fulfilled :: "unstructured \<Rightarrow> string \<Rightarrow> string" where
  "not_fulfilled u path =
     ''resource '' @ object_text u @ '' does not fulfil resource condition field '' @ path"

fun check_values ::
    "json_lib \<Rightarrow> time \<Rightarrow> string \<Rightarrow> unstructured \<Rightarrow> requirement_spec \<Rightarrow> json list \<Rightarrow> json list \<Rightarrow> unit outcome" where
  "check_values jl now currOp u rq [] vals = Done ()"
| "check_values jl now currOp u rq (x # xs) vals =
     (case matchResourceConditions jl x vals (rq_operator rq) of
        Panic \<Rightarrow> Panic
      | Fail e \<Rightarrow> Fail (NewWrappedError now e currOp ''check resource requirements'' (error_string e) [])
      | Done True \<Rightarrow> check_values jl now currOp u rq xs vals
      | Done False \<Rightarrow> Fail (NewError now currOp ''check object values'' (not_fulfilled u (rq_jsonPath rq)) []))"

fun CustomCheckObject :: "json_lib \<Rightarrow> time \<Rightarrow> string \<Rightarrow> requirement_spec list \<Rightarrow> object_check" where
  "CustomCheckObject jl now currOp [] u = Done ()"
| "CustomCheckObject jl now currOp (rq # rqs) u =
     (case getFieldsByJSONPath jl u (rq_jsonPath rq) of
        Inl e \<Rightarrow> Fail (NewWrappedError now e currOp ''parsing JSON path'' (error_string e) [])
      | Inr found \<Rightarrow>
          (if fieldDoesNotExist found
           then (if rq_operator rq = DoesNotExist then Done ()
                 else Fail (NewError now currOp ''object check''
                   (''field with JSON path '' @ rq_jsonPath rq @ '' does not exist'') []))
           else if rq_operator rq = Exists then Done ()
           else case parseRequirementValues jl (rq_value rq) of
                  Inl e \<Rightarrow> Fail (NewWrappedError now e currOp ''parse requirement values'' (error_string e) [])
                | Inr vals \<Rightarrow>
                    and_also (check_values jl now currOp u rq (concat found) vals) (CustomCheckObject jl now currOp rqs u)))"

definition getObjectsByTypedReference :: "typed_reference list \<Rightarrow> typed_reference list \<Rightarrow> unstructured list" where
  "getObjectsByTypedReference objects key =
     concat (map (\<lambda>x. concat (map (\<lambda>k. if x = k then [ObjectFromTypedObjectReference x] else []) key)) objects)"

definition labels_match :: "smap \<Rightarrow> smap \<Rightarrow> bool" where
  "labels_match labels selector = list_all (\<lambda>(k, v). smap_has labels k \<and> smap_get labels k = v) selector"

fun objects_by_labels ::
    "'w target_client \<Rightarrow> group_version_kind \<Rightarrow> smap \<Rightarrow> typed_reference list \<Rightarrow> 'w \<Rightarrow> (gerr + unstructured list) \<times> 'w" where
  "objects_by_labels c gvk labels [] w = (Inr [], w)"
| "objects_by_labels c gvk labels (x # xs) w =
     (let obj = ObjectFromTypedObjectReference x
      in if GroupVersionKind obj \<noteq> gvk then objects_by_labels c gvk labels xs w
         else case tc_get c (GroupVersionKind obj) (us_key obj) w of
                (Inl e, w1) \<Rightarrow> (Inl (wrap (''unable to get object '' @ object_text obj) e), w1)
              | (Inr obj1, w1) \<Rightarrow>
                  (case objects_by_labels c gvk labels xs w1 of
                     (Inl e, w2) \<Rightarrow> (Inl e, w2)
                   | (Inr objs, w2) \<Rightarrow> (Inr (if labels_match (om_labels (us_meta obj1)) labels then obj1 # objs else objs), w2)))"

definition getObjectsByLabels ::
    "'w target_client \<Rightarrow> typed_reference list \<Rightarrow> label_selector_spec \<Rightarrow> 'w \<Rightarrow> (gerr + unstructured list) \<times> 'w" where
  "getObjectsByLabels c objects selector w =
     (case ParseGroupVersion (lx_apiVersion selector) of
        None \<Rightarrow> (Inl (wrap (''unable to parse group/version of selector '' @ lx_apiVersion selector)
                       (PlainError (''unexpected GroupVersion string: '' @ lx_apiVersion selector))), w)
      | Some (g, v) \<Rightarrow>
          objects_by_labels c \<lparr>gk_group = g, gk_version = v, gk_kind = lx_kind selector\<rparr> (lx_labels selector) objects w)"

text \<open>
  The timeout is that of all checks, not the one of the configuration. The time of errors of a check is that of its
  start.
\<close>

definition CustomCheckResourcesReady ::
    "'w readiness \<Rightarrow> json_lib \<Rightarrow> nat \<Rightarrow> string \<Rightarrow> duration option \<Rightarrow> typed_reference list \<Rightarrow> custom_check \<Rightarrow> 'w
      \<Rightarrow> (unit outcome \<times> 'w) option" where
  "CustomCheckResourcesReady r jl fuel currOp timeout managedResources config w =
     (if cq_disabled config \<or> managedResources = [] then Some (Done (), w)
      else let byReference = (case cq_resource config of None \<Rightarrow> [] | Some key \<Rightarrow> getObjectsByTypedReference managedResources key)
      in case (case cq_labelSelector config of
                 None \<Rightarrow> (Inr [], w)
               | Some selector \<Rightarrow> getObjectsByLabels (rk_client r) managedResources selector w) of
           (Inl e, w1) \<Rightarrow>
             Some (Fail (NewWrappedError (rk_now r w1) e currOp ''get objects by LabelSelector'' (error_string e) [ErrorInternalProblem]), w1)
         | (Inr byLabels, w1) \<Rightarrow>
             (case timeout of
                None \<Rightarrow> Some (Panic, w1)
              | Some t \<Rightarrow> readiness_failed r currOp
                  (WaitForObjectsReady r fuel t (byReference @ byLabels)
                     (CustomCheckObject jl (rk_now r w1) currOp (cq_requirements config)) w1)))"

end
