(* ===== verification/ResourceExporter.thy ===== *)
theory ResourceExporter
  imports ReadinessChecks
begin

text \<open>
  The exporter of values from deployed objects (\<open>pkg/deployer/lib/resourcemanager/exporter.go\<close>), with the merge of maps
  (\<open>pkg/utils/miscellaneous.go\<close>) and the JSON paths of data objects (\<open>pkg/landscaper/dataobjects/jsonpath\<close>).
\<close>

section \<open>Values (miscellaneous.go and jsonpath.go)\<close>

text \<open>
  \<open>MergeMaps\<close> with \<open>None\<close> for the nil map. The merge of two maps has the entries of the second, where maps are merged,
  and the other entries of the first.
\<close>

primrec merge_json :: "json \<Rightarrow> json option \<Rightarrow> json" where
  "merge_json JNull old = JNull"
| "merge_json (JBool b) old = JBool b"
| "merge_json (JNum n) old = JNum n"
| "merge_json (JStr s) old = JStr s"
| "merge_json (JArr xs) old = JArr xs"
| "merge_json (JObj m) old =
     (case old of
        Some (JObj ext) \<Rightarrow>
          JObj (map (\<lambda>(k, f). (k, f (map_of ext k))) (map (map_prod id merge_json) m)
            @ filter (\<lambda>(k, v). k \<notin> fst ` set m) ext)
      | _ \<Rightarrow> JObj m)"

definition MergeMaps :: "(string \<times> json) list option \<Rightarrow> (string \<times> json) list option \<Rightarrow> (string \<times> json) list option" where
  "MergeMaps a b = (case (a, b) of
     (None, _) \<Rightarrow> b
   | (_, None) \<Rightarrow> a
   | (Some a1, Some b1) \<Rightarrow> Some (map (\<lambda>(k, v). (k, merge_json v (map_of a1 k))) b1 @ filter (\<lambda>(k, v). k \<notin> fst ` set b1) a1))"

text \<open>
  The parsed JSON path of the library is a tree of nodes. \<open>Construct\<close> walks over it with the map that it fills and the
  path to the map \<open>curValue\<close> in it.
\<close>

datatype path_node = ListNode "path_node list" | FieldNode string | OtherNode

fun constructWalk :: "path_node list \<Rightarrow> json \<Rightarrow> (string \<times> json) list \<times> string list \<Rightarrow> gerr + (string \<times> json) list \<times> string list" where
  "constructWalk [] v (out, cur) = Inr (out, cur)"
| "constructWalk (ListNode ns # nodes) v (out, cur) =
     (case constructWalk ns v (out, cur) of
        Inl e \<Rightarrow> Inl e
      | Inr x \<Rightarrow> constructWalk nodes v x)"
| "constructWalk (FieldNode f # nodes) v (out, cur) =
     (case set_in out (cur @ [f]) (if nodes = [] then v else JObj []) of
        Inl e \<Rightarrow> Inl e
      | Inr out1 \<Rightarrow> (if nodes = [] then Inr (out1, cur) else constructWalk nodes v (out1, cur @ [f])))"
| "constructWalk (OtherNode # nodes) v (out, cur) = Inl (PlainError ''supported values: NodeList, NodeField'')"

record path_lib =
  pl_parse :: "string \<Rightarrow> gerr option"
  pl_object :: "unstructured \<Rightarrow> json"
  pl_find :: "string \<Rightarrow> json \<Rightarrow> gerr + json list list"
  pl_nodes :: "string \<Rightarrow> gerr + path_node list"

definition dotted :: "string \<Rightarrow> string" where
  "dotted path = ''{'' @ (if take 1 path = ''.'' then path else ''.'' @ path) @ ''}''"

definition Construct_value :: "path_lib \<Rightarrow> string \<Rightarrow> json \<Rightarrow> gerr + (string \<times> json) list" where
  "Construct_value pl text v =
     (case pl_nodes pl (dotted text) of
        Inl e \<Rightarrow> Inl e
      | Inr root \<Rightarrow> (case constructWalk root v ([], []) of Inl e \<Rightarrow> Inl e | Inr (out, cur) \<Rightarrow> Inr out))"

text \<open>\<open>GetValue\<close> into a variable of the empty interface. A path that exists but has no results is out of range.\<close>

definition GetValue :: "path_lib \<Rightarrow> string \<Rightarrow> json \<Rightarrow> json outcome" where
  "GetValue pl path data =
     (case pl_parse pl (dotted path) of
        Some e \<Rightarrow> Fail e
      | None \<Rightarrow>
          (case pl_find pl (dotted path) data of
             Inl e \<Rightarrow> Fail e
           | Inr [] \<Rightarrow> Fail (PlainError ''not found'')
           | Inr (x # xs) \<Rightarrow>
               (if xs \<noteq> [] \<and> length x \<noteq> 1 then Fail (PlainError ''expected exactly one result'')
                else case x of [] \<Rightarrow> Panic | v # vs \<Rightarrow> Done v)))"

section \<open>Exports (exporter.go)\<close>

record from_object_reference =
  fo_apiVersion :: string
  fo_kind :: string
  fo_jsonPath :: string

record resource_export =
  xp_timeout :: "duration option"
  xp_key :: string
  xp_jsonPath :: string
  xp_fromResource :: "typed_reference option"
  xp_fromObjectRef :: "from_object_reference option"

record resource_exports =
  xs_defaultTimeout :: "duration option"
  xs_exports :: "resource_export list"

text \<open>
  \<open>xr_attempts timeout i\<close> is the number of attempts that the backoff of the library gives to the export with index \<open>i\<close>
  before the timeout; it waits for nothing between them, since the backoff has no duration.
\<close>

record 'w exporter =
  xr_client :: "'w target_client"
  xr_paths :: path_lib
  xr_aggregate :: "gerr list \<Rightarrow> gerr"
  xr_timedOut :: gerr
  xr_attempts :: "duration \<Rightarrow> nat \<Rightarrow> nat"
  xr_schedule :: "nat list"
  xr_defaultTimeout :: duration
  xr_objects :: "managed_resource list"

definition exporter_timeout :: "duration option \<Rightarrow> duration" where
  "exporter_timeout defaultTimeout = (case defaultTimeout of None \<Rightarrow> 5 * minute | Some t \<Rightarrow> t)"

definition resourceIsManaged :: "managed_resource list \<Rightarrow> typed_reference \<Rightarrow> bool" where
  "resourceIsManaged objects res =
     list_ex (\<lambda>mr. rf_apiVersion (ms_resource mr) = tr_apiVersion res \<and> rf_kind (ms_resource mr) = tr_kind res
       \<and> rf_name (ms_resource mr) = tr_name res \<and> rf_namespace (ms_resource mr) = tr_namespace res) objects"

definition not_managed :: "typed_reference \<Rightarrow> gerr" where
  "not_managed res = PlainError (''resource '' @ tr_apiVersion res @ ''/'' @ tr_kind res @ '' '' @ tr_name res @ '' ''
     @ tr_namespace res @ '' is not managed by the deployer'')"

definition unmanaged_errors :: "'w exporter \<Rightarrow> resource_export list \<Rightarrow> gerr list" where
  "unmanaged_errors x exports = concat (map (\<lambda>export. case xp_fromResource export of
     None \<Rightarrow> []
   | Some res \<Rightarrow> (if resourceIsManaged (xr_objects x) res then [] else [not_managed res])) exports)"

text \<open>The default of the exports is used even if the export has a timeout of its own.\<close>

definition export_timeout :: "'w exporter \<Rightarrow> resource_exports \<Rightarrow> resource_export \<Rightarrow> duration" where
  "export_timeout x exports export = (case xs_defaultTimeout exports of
     Some t \<Rightarrow> t
   | None \<Rightarrow> (case xp_timeout export of Some t \<Rightarrow> t | None \<Rightarrow> xr_defaultTimeout x))"

text \<open>
  A goroutine makes attempts: it reads the resource, and then the object that the value refers to, if the export says
  so. In the end it merges its value into the result or adds its errors.
\<close>

datatype export_worker =
    ExportTry nat resource_export typed_reference "gerr option"
  | ExportRead nat resource_export typed_reference from_object_reference typed_reference
  | ExportMerge resource_export "(string \<times> json) list"
  | ExportFailed resource_export "gerr list"
  | ExportPanics resource_export
  | ExportDone resource_export

record export_result =
  xu_errors :: "gerr list"
  xu_values :: "(string \<times> json) list option"
  xu_panic :: bool

definition referenced_object :: "typed_reference \<Rightarrow> from_object_reference \<Rightarrow> json \<Rightarrow> gerr + typed_reference" where
  "referenced_object res fo ref = (case ref of
     JObj refMap \<Rightarrow>
       (case map_of refMap ''name'' of
          Some (JStr name) \<Rightarrow>
            (case map_of refMap ''namespace'' of
               None \<Rightarrow> Inr \<lparr>tr_apiVersion = fo_apiVersion fo, tr_kind = fo_kind fo, tr_name = name, tr_namespace = tr_namespace res\<rparr>
             | Some (JStr namespace) \<Rightarrow>
                 Inr \<lparr>tr_apiVersion = fo_apiVersion fo, tr_kind = fo_kind fo, tr_name = name, tr_namespace = namespace\<rparr>
             | Some _ \<Rightarrow> Inl (PlainError ''expected namespace to be a string''))
        | Some _ \<Rightarrow> Inl (PlainError ''expected name to be a string'')
        | None \<Rightarrow> Inl (PlainError ''unexpected reference, expected map to have a name key''))
   | _ \<Rightarrow> Inl (PlainError ''unexpected reference, expected map with name and namespace''))"

definition export_value :: "'w exporter \<Rightarrow> nat \<Rightarrow> resource_export \<Rightarrow> typed_reference \<Rightarrow> json \<Rightarrow> export_worker" where
  "export_value x n export res v = (case Construct_value (xr_paths x) (xp_key export) v of
     Inl e \<Rightarrow> ExportTry n export res (Some e)
   | Inr m \<Rightarrow> ExportMerge export m)"

definition read_resource :: "'w exporter \<Rightarrow> typed_reference \<Rightarrow> 'w \<Rightarrow> (gerr + unstructured) \<times> 'w" where
  "read_resource x res w =
     (let obj = ObjectFromTypedObjectReference res in tc_get (xr_client x) (GroupVersionKind obj) (us_key obj) w)"

fun export_step :: "'w exporter \<Rightarrow> export_worker \<Rightarrow> 'w \<times> export_result \<Rightarrow> export_worker \<times> 'w \<times> export_result" where
  "export_step x (ExportTry 0 export res lastErr) (w, xu) =
     (ExportFailed export (xr_timedOut x # (case lastErr of None \<Rightarrow> [] | Some e \<Rightarrow> [e])), w, xu)"
| "export_step x (ExportTry (Suc n) export res lastErr) (w, xu) =
     (case read_resource x res w of
        (Inl e, w1) \<Rightarrow> (ExportTry n export res (Some e), w1, xu)
      | (Inr obj, w1) \<Rightarrow>
          ((case GetValue (xr_paths x) (xp_jsonPath export) (pl_object (xr_paths x) obj) of
              Panic \<Rightarrow> ExportPanics export
            | Fail e \<Rightarrow> ExportTry n export res (Some e)
            | Done v \<Rightarrow>
                (case xp_fromObjectRef export of
                   None \<Rightarrow> export_value x n export res v
                 | Some fo \<Rightarrow>
                     (case referenced_object res fo v of
                        Inl e \<Rightarrow> ExportTry n export res (Some e)
                      | Inr ref \<Rightarrow> ExportRead n export res fo ref))), w1, xu))"
| "export_step x (ExportRead n export res fo ref) (w, xu) =
     (case read_resource x ref w of
        (Inl e, w1) \<Rightarrow> (ExportTry n export res (Some e), w1, xu)
      | (Inr obj, w1) \<Rightarrow>
          ((case GetValue (xr_paths x) (fo_jsonPath fo) (pl_object (xr_paths x) obj) of
              Panic \<Rightarrow> ExportPanics export
            | Fail e \<Rightarrow> ExportTry n export res (Some e)
            | Done v \<Rightarrow> export_value x n export res v), w1, xu))"
| "export_step x (ExportMerge export m) (w, xu) = (ExportDone export, w, xu\<lparr>xu_values := MergeMaps (xu_values xu) (Some m)\<rparr>)"
| "export_step x (ExportFailed export errs) (w, xu) = (ExportDone export, w, xu\<lparr>xu_errors := xu_errors xu @ errs\<rparr>)"
| "export_step x (ExportPanics export) (w, xu) = (ExportDone export, w, xu\<lparr>xu_panic := True\<rparr>)"
| "export_step x (ExportDone export) (w, xu) = (ExportDone export, w, xu)"

definition export_workers :: "'w exporter \<Rightarrow> resource_exports \<Rightarrow> export_worker list" where
  "export_workers x exports = concat (map (\<lambda>(i, export). case xp_fromResource export of
     None \<Rightarrow> []
   | Some res \<Rightarrow> [ExportTry (xr_attempts x (export_timeout x exports export) i) export res None]) (enumerate 0 (xs_exports exports)))"

fun export_rank :: "export_worker \<Rightarrow> nat" where
  "export_rank (ExportTry n export res lastErr) = 2 * n + 2"
| "export_rank (ExportRead n export res fo ref) = 2 * n + 3"
| "export_rank (ExportMerge export m) = 1"
| "export_rank (ExportFailed export errs) = 1"
| "export_rank (ExportPanics export) = 1"
| "export_rank (ExportDone export) = 0"

definition Export :: "'w exporter \<Rightarrow> resource_exports \<Rightarrow> 'w \<Rightarrow> (string \<times> json) list option outcome \<times> 'w" where
  "Export x exports w =
     (if unmanaged_errors x (xs_exports exports) \<noteq> []
      then (Fail (xr_aggregate x (unmanaged_errors x (xs_exports exports))), w)
      else let ss = export_workers x exports
      in case run_pool (export_step x) (foldr max (map export_rank ss) 0) (xr_schedule x) ss
                (w, \<lparr>xu_errors = [], xu_values = None, xu_panic = False\<rparr>) of
           (ss1, w1, xu) \<Rightarrow>
             ((if xu_panic xu then Panic
               else if xu_errors xu \<noteq> [] then Fail (xr_aggregate x (xu_errors xu))
               else Done (xu_values xu)), w1))"

end
