(* ===== verification/DeployerConfigs.thy ===== *)
theory DeployerConfigs
  imports FieldErrors ResourceExporter
begin

text \<open>
  The configurations of manifest and helm deploy items: types, defaults and validation (\<open>apis/deployer\<close>).
\<close>

section \<open>Configurations of deploy items\<close>

record continuous_spec =
  cs_cron :: string
  cs_every :: "duration option"

record readiness_config =
  rz_disableDefault :: bool
  rz_timeout :: "duration option"
  rz_custom :: "custom_check list"

record manifest_config =
  mc_kubeconfig :: string
  mc_updateStrategy :: update_strategy
  mc_readinessChecks :: readiness_config
  mc_deleteTimeout :: "duration option"
  mc_manifests :: "managed_manifest list"
  mc_exports :: "resource_exports option"
  mc_continuousReconcile :: "continuous_spec option"

text \<open>A chart: the inline descriptor and the repository context only count as set or not.\<close>

record descriptor_reference =
  dr_repositoryContext :: bool
  dr_componentName :: string
  dr_version :: string

record remote_chart =
  ra_reference :: "descriptor_reference option"
  ra_inline :: bool
  ra_resourceName :: string

record chart_archive =
  ca_raw :: string
  ca_remote :: "string option"

record helm_chart =
  ch_ref :: string
  ch_fromResource :: "remote_chart option"
  ch_archive :: "chart_archive option"

record helm_config =
  hc_kubeconfig :: string
  hc_updateStrategy :: update_strategy
  hc_readinessChecks :: readiness_config
  hc_deleteTimeout :: "duration option"
  hc_chart :: helm_chart
  hc_name :: string
  hc_namespace :: string
  hc_createNamespace :: bool
  hc_values :: string
  hc_exportsFromManifests :: "resource_export list"
  hc_exports :: "resource_exports option"
  hc_continuousReconcile :: "continuous_spec option"

section \<open>Defaults (defaults.go)\<close>

definition default_timeout :: "duration option \<Rightarrow> duration option" where
  "default_timeout t = (case t of None \<Rightarrow> Some (3 * minute) | Some d \<Rightarrow> Some d)"

definition default_strategy :: "update_strategy \<Rightarrow> update_strategy" where
  "default_strategy s = (if s = OtherStrategy [] then UpdateStrategyUpdate else s)"

definition default_policy :: "managed_manifest \<Rightarrow> managed_manifest" where
  "default_policy m = (if mf_policy m = OtherPolicy [] then m\<lparr>mf_policy := ManagePolicy\<rparr> else m)"

definition SetDefaults_ManifestConfiguration :: "manifest_config \<Rightarrow> manifest_config" where
  "SetDefaults_ManifestConfiguration c =
     c\<lparr>mc_updateStrategy := default_strategy (mc_updateStrategy c),
       mc_readinessChecks := (mc_readinessChecks c)\<lparr>rz_timeout := default_timeout (rz_timeout (mc_readinessChecks c))\<rparr>,
       mc_deleteTimeout := default_timeout (mc_deleteTimeout c),
       mc_manifests := map default_policy (mc_manifests c)\<rparr>"

definition SetDefaults_HelmConfiguration :: "helm_config \<Rightarrow> helm_config" where
  "SetDefaults_HelmConfiguration c =
     c\<lparr>hc_updateStrategy := default_strategy (hc_updateStrategy c),
       hc_readinessChecks := (hc_readinessChecks c)\<lparr>rz_timeout := default_timeout (rz_timeout (hc_readinessChecks c))\<rparr>,
       hc_deleteTimeout := default_timeout (hc_deleteTimeout c)\<rparr>"

section \<open>Validation of manifests and timeouts\<close>

definition required_if :: "bool \<Rightarrow> field_path \<Rightarrow> string \<Rightarrow> field_error list" where
  "required_if missing p detail = (if missing then [FRequired p detail] else [])"

lemma required_if_Nil [simp]: "required_if b p d = [] \<longleftrightarrow> \<not> b"
  by (simp add: required_if_def)

text \<open>A manifest that is missing is one with an empty text.\<close>

definition ValidateManifest :: "field_path \<Rightarrow> managed_manifest \<Rightarrow> field_error list" where
  "ValidateManifest p m = required_if (mf_manifest m = []) (path_Child p ''manifest'') ''manifest must be defined''"

definition ValidateManifestList :: "field_path \<Rightarrow> managed_manifest list \<Rightarrow> field_error list" where
  "ValidateManifestList p ms = concat (map (\<lambda>(i, m). ValidateManifest (path_Index p i) m) (enumerate 0 ms))"

definition ValidateTimeout :: "field_path \<Rightarrow> duration option \<Rightarrow> field_error list" where
  "ValidateTimeout p timeout = (case timeout of
     None \<Rightarrow> [FRequired p ''timeout can not be empty'']
   | Some d \<Rightarrow> (if d < 0 then [FInvalid p ObjectValue ''timeout can not be negative''] else []))"

text \<open>The parser of cron expressions is an argument.\<close>

definition ContinuousReconcileSpecIsEmpty :: "continuous_spec option \<Rightarrow> bool" where
  "ContinuousReconcileSpecIsEmpty spec = (case spec of
     None \<Rightarrow> True
   | Some s \<Rightarrow> cs_cron s = [] \<and> (cs_every s = None \<or> cs_every s = Some 0))"

definition validateCronSpec :: "(string \<Rightarrow> gerr option) \<Rightarrow> field_path \<Rightarrow> string \<Rightarrow> field_error list" where
  "validateCronSpec parseCron p cron = (case parseCron cron of
     None \<Rightarrow> [] | Some e \<Rightarrow> [FInvalid p (TextValue cron) (error_string e)])"

definition validateEveryDuration :: "field_path \<Rightarrow> duration \<Rightarrow> field_error list" where
  "validateEveryDuration p d = (if d \<le> 0 then [FInvalid p ObjectValue ''specified duration has to be greater than zero''] else [])"

definition ValidateContinuousReconcileSpec :: "(string \<Rightarrow> gerr option) \<Rightarrow> field_path \<Rightarrow> continuous_spec option \<Rightarrow> field_error list" where
  "ValidateContinuousReconcileSpec parseCron p spec =
     (if ContinuousReconcileSpecIsEmpty spec then []
      else case spec of
        None \<Rightarrow> []
      | Some s \<Rightarrow>
          ValidateExactlyOneOf p (Some [(''Cron'', cs_cron s \<noteq> []), (''Every'', cs_every s \<noteq> None)]) [''Cron'', ''Every'']
          @ (if cs_cron s \<noteq> [] then validateCronSpec parseCron (path_Child p ''cron'') (cs_cron s) else [])
          @ (case cs_every s of None \<Rightarrow> [] | Some d \<Rightarrow> validateEveryDuration (path_Child p ''every'') d))"

section \<open>Validation of readiness checks\<close>

definition ValidateLabelSelectorSpec :: "field_path \<Rightarrow> label_selector_spec \<Rightarrow> field_error list" where
  "ValidateLabelSelectorSpec p spec =
     required_if (lx_labels spec = []) (path_Child p ''matchLabels'') ''must have at least one label to select on''"

fun validateOperator :: "selection_operator \<Rightarrow> gerr option" where
  "validateOperator (OtherOperator s) = Some (PlainError ''not an allowed operator'')"
| "validateOperator operator = None"

text \<open>The parser of JSON path templates is an argument; here it gets the path without braces.\<close>

definition ValidateRequirementSpec :: "(string \<Rightarrow> gerr option) \<Rightarrow> field_path \<Rightarrow> requirement_spec \<Rightarrow> field_error list" where
  "ValidateRequirementSpec parsePath p rq =
     required_if (rq_jsonPath rq = []) (path_Child p ''jsonPath'') ''JSON path must be defined''
     @ (if parsePath (rq_jsonPath rq) \<noteq> None
        then [FInvalid (path_Child p ''jsonPath'') (TextValue (rq_jsonPath rq)) ''is not a valid JSON path template''] else [])
     @ (if validateOperator (rq_operator rq) \<noteq> None
        then [FInvalid (path_Child p ''operator'') ObjectValue ''is not a valid operator''] else [])
     @ required_if (rq_operator rq \<noteq> DoesNotExist \<and> rq_operator rq \<noteq> Exists \<and> rq_value rq = [])
         (path_Child p ''value'') ''must have at least one value to compare to''
     @ (if rq_operator rq \<noteq> In \<and> rq_operator rq \<noteq> NotIn \<and> 1 < length (rq_value rq)
        then [FInvalid (path_Child p ''value'') ObjectValue ''must have exactly one value to compare to''] else [])"

definition ValidateCustomReadinessCheckConfiguration ::
    "(string \<Rightarrow> gerr option) \<Rightarrow> field_path \<Rightarrow> custom_check \<Rightarrow> field_error list" where
  "ValidateCustomReadinessCheckConfiguration parsePath p config =
     required_if (cq_name config = []) (path_Child p ''name'') ''must not be empty''
     @ required_if ((cq_resource config = None \<or> cq_resource config = Some []) \<and> cq_labelSelector config = None)
         (path_Child p ''resourceSelector/labelSelector'') ''must have either a resource or a set of labels''
     @ (case cq_labelSelector config of None \<Rightarrow> [] | Some spec \<Rightarrow> ValidateLabelSelectorSpec (path_Child p ''labelSelector'') spec)
     @ required_if (cq_requirements config = []) (path_Child p ''requirements'') ''must have at least one resource requirement''
     @ concat (map (ValidateRequirementSpec parsePath (path_Child p ''requirements'')) (cq_requirements config))"

definition ValidateReadinessCheckConfiguration ::
    "(string \<Rightarrow> gerr option) \<Rightarrow> field_path \<Rightarrow> readiness_config \<Rightarrow> field_error list" where
  "ValidateReadinessCheckConfiguration parsePath p config =
     concat (map (ValidateCustomReadinessCheckConfiguration parsePath (path_Child p ''customHealthCheckConfiguration'')) (rz_custom config))"

section \<open>Validation of exports\<close>

definition ValidateTypedObjectReference :: "field_path \<Rightarrow> typed_reference \<Rightarrow> field_error list" where
  "ValidateTypedObjectReference p ref =
     required_if (tr_apiVersion ref = []) (path_Child p ''apiVersion'') ''must not be empty''
     @ required_if (tr_kind ref = []) (path_Child p ''kind'') ''must not be empty''
     @ required_if (tr_name ref = []) (path_Child p ''name'') ''must not be empty''"

definition ValidateFromObjectReference :: "field_path \<Rightarrow> from_object_reference \<Rightarrow> field_error list" where
  "ValidateFromObjectReference p ref =
     required_if (fo_apiVersion ref = []) (path_Child p ''apiVersion'') ''must not be empty''
     @ required_if (fo_kind ref = []) (path_Child p ''kind'') ''must not be empty''
     @ required_if (fo_jsonPath ref = []) (path_Child p ''jsonPath'') ''must not be empty''"

definition ValidateManifestExport :: "field_path \<Rightarrow> resource_export \<Rightarrow> field_error list" where
  "ValidateManifestExport p export =
     required_if (xp_key export = []) (path_Child p ''key'') ''must not be empty''
     @ required_if (xp_jsonPath export = []) (path_Child p ''jsonPath'') ''must not be empty''
     @ (case xp_fromResource export of None \<Rightarrow> [] | Some ref \<Rightarrow> ValidateTypedObjectReference (path_Child p ''fromResource'') ref)
     @ (case xp_fromObjectRef export of None \<Rightarrow> [] | Some ref \<Rightarrow> ValidateFromObjectReference (path_Child p ''fromObjectRef'') ref)"

section \<open>Provider configurations\<close>

text \<open>The errors are aggregated to one; \<open>aggregateErrors\<close> gives its value.\<close>

record config_lib =
  cl_parseCron :: "string \<Rightarrow> gerr option"
  cl_parsePath :: "string \<Rightarrow> gerr option"
  cl_aggregate :: "field_error list \<Rightarrow> gerr"

definition to_aggregate :: "config_lib \<Rightarrow> field_error list \<Rightarrow> gerr option" where
  "to_aggregate cl errs = (if errs = [] then None else Some (cl_aggregate cl errs))"

definition ValidateManifestConfiguration :: "config_lib \<Rightarrow> manifest_config \<Rightarrow> gerr option" where
  "ValidateManifestConfiguration cl c = to_aggregate cl
     (ValidateManifestList (path_New []) (mc_manifests c)
      @ ValidateTimeout (path_New ''deleteTimeout'') (mc_deleteTimeout c)
      @ ValidateTimeout (path_Child (path_New ''readinessChecks'') ''timeout'') (rz_timeout (mc_readinessChecks c))
      @ ValidateReadinessCheckConfiguration (cl_parsePath cl) (path_New []) (mc_readinessChecks c)
      @ ValidateContinuousReconcileSpec (cl_parseCron cl) (path_New ''continuousReconcile'') (mc_continuousReconcile c))"

definition ValidateArchive :: "field_path \<Rightarrow> chart_archive \<Rightarrow> field_error list" where
  "ValidateArchive p archive =
     (if ca_raw archive = [] \<and> ca_remote archive = None then [FRequired (p @ [PName ''raw'', PName ''remote'']) ''must not be empty'']
      else case ca_remote archive of
             None \<Rightarrow> []
           | Some url \<Rightarrow> required_if (url = []) (path_Child (path_Child p ''remote'') ''url'') ''must not be empty'')"

definition ValidateFromResource :: "field_path \<Rightarrow> remote_chart \<Rightarrow> field_error list" where
  "ValidateFromResource p res =
     required_if (ra_resourceName res = []) (path_Child p ''resourceName'') ''must not be empty''
     @ (if ra_inline res then []
        else case ra_reference res of
               None \<Rightarrow> [FRequired (path_Child p ''ref'') ''must not be empty'']
             | Some ref \<Rightarrow>
                 required_if (\<not> dr_repositoryContext ref) (path_Child p ''repositoryContext'') ''must not be empty''
                 @ required_if (dr_componentName ref = []) (path_Child p ''componentName'') ''must not be empty''
                 @ required_if (dr_version ref = []) (path_Child p ''version'') ''must not be empty'')"

definition ValidateChart :: "field_path \<Rightarrow> helm_chart \<Rightarrow> field_error list" where
  "ValidateChart p chart =
     (if ch_ref chart = [] \<and> ch_archive chart = None \<and> ch_fromResource chart = None
      then [FRequired (p @ [PName ''ref'', PName ''archive'', PName ''fromResource'']) ''must not be empty'']
      else case ch_archive chart of
             Some archive \<Rightarrow> ValidateArchive (path_Child p ''archive'') archive
           | None \<Rightarrow>
               (case ch_fromResource chart of
                  Some res \<Rightarrow> ValidateFromResource (path_Child p ''fromResource'') res
                | None \<Rightarrow> []))"

fun validate_helm_exports :: "nat \<Rightarrow> string list \<Rightarrow> resource_export list \<Rightarrow> field_error list" where
  "validate_helm_exports i seen [] = []"
| "validate_helm_exports i seen (export # exports) =
     (let p = path_Index (path_New ''exportsFromManifests'') i
      in required_if (xp_key export = []) (path_Child p ''key'') ''must not be empty''
         @ (if xp_key export \<in> set seen
            then [FDuplicate (path_Child p ''key'') (''duplicated key '' @ xp_key export @ '' is not allowed'')] else [])
         @ required_if (xp_jsonPath export = []) (path_Child p ''jsonPath'') ''must not be empty''
         @ (case xp_fromResource export of
              None \<Rightarrow> []
            | Some res \<Rightarrow>
                (let q = path_Child p ''resource''
                 in required_if (tr_apiVersion res = []) (path_Child q ''apiGroup'') ''must not be empty''
                    @ required_if (tr_kind res = []) (path_Child q ''kind'') ''must not be empty''
                    @ required_if (tr_name res = []) (path_Child q ''name'') ''must not be empty''
                    @ required_if (tr_namespace res = []) (path_Child q ''namespace'') ''must not be empty''))
         @ validate_helm_exports (Suc i) (xp_key export # seen) exports)"

definition ValidateHelmConfiguration :: "config_lib \<Rightarrow> helm_config \<Rightarrow> gerr option" where
  "ValidateHelmConfiguration cl c = to_aggregate cl
     (ValidateTimeout (path_New ''deleteTimeout'') (hc_deleteTimeout c)
      @ ValidateTimeout (path_Child (path_New ''readinessChecks'') ''timeout'') (rz_timeout (hc_readinessChecks c))
      @ ValidateReadinessCheckConfiguration (cl_parsePath cl) (path_New ''readinessChecks'') (hc_readinessChecks c)
      @ ValidateChart (path_New ''chart'') (hc_chart c)
      @ ValidateContinuousReconcileSpec (cl_parseCron cl) (path_New ''continuousReconcile'') (hc_continuousReconcile c)
      @ required_if (hc_name c = []) (path_New ''name'') ''must not be empty''
      @ required_if (hc_namespace c = []) (path_New ''namespace'') ''must not be empty''
      @ validate_helm_exports 0 [] (hc_exportsFromManifests c))"

end
