(* ===== verification/ManifestDeployer.thy ===== *)
theory ManifestDeployer
  imports DeployerLib DeployerConfigs
begin

text \<open>
  The manifest deployer (\<open>pkg/deployer/manifest\<close>): it applies manifests, waits for the objects, exports values, and deletes. A
  run is \<open>None\<close> when it waits without an end.
\<close>

section \<open>The environment of a deployer\<close>

text \<open>
  The clients for the landscaper and the host cluster, the default timeout of exports from the configuration of the
  deployer, the libraries, and templates of the applier, the readiness check and the exporter that hold their libraries
  and schedules. \<open>dv_cluster\<close> makes the client of a target cluster from a kubeconfig.
\<close>

record 'w deployer_env =
  dv_lsClient :: "'w kube_client"
  dv_hostClient :: "'w kube_client"
  dv_exportTimeout :: "duration option"
  dv_configs :: config_lib
  dv_base64 :: "string \<Rightarrow> gerr + string"
  dv_cluster :: "string \<Rightarrow> gerr + 'w target_client"
  dv_targetConfig :: "string \<Rightarrow> gerr + value_ref"
  dv_aggregate :: "gerr list \<Rightarrow> gerr"
  dv_isNoMatch :: "gerr \<Rightarrow> bool"
  dv_encodeStatus :: "managed_resource list \<Rightarrow> gerr + string"
  dv_decodeStatus :: "string \<Rightarrow> gerr + managed_resource list"
  dv_applier :: "'w applier"
  dv_polls :: "duration \<Rightarrow> nat"
  dv_readiness :: "'w readiness"
  dv_codecs :: workload_codecs
  dv_json :: json_lib
  dv_exporter :: "'w exporter"
  dv_setOwner :: "deploy_item \<Rightarrow> object_meta \<Rightarrow> gerr + object_meta"
  dv_marshal :: "(string \<times> json) list option \<Rightarrow> gerr + string"
  dv_fuel :: nat

definition dv_now :: "'w deployer_env \<Rightarrow> 'w \<Rightarrow> time" where
  "dv_now e w = kc_now (dv_lsClient e) w"

definition wrapped_error :: "'w deployer_env \<Rightarrow> string \<Rightarrow> string \<Rightarrow> error_code list \<Rightarrow> 'w \<Rightarrow> gerr \<Rightarrow> gerr" where
  "wrapped_error e currOp reason codes w err = NewWrappedError (dv_now e w) err currOp reason (error_string err) codes"

text \<open>The kubeconfig of the configuration is used over that of the target. The letter in the first message is not ASCII.\<close>

definition TargetClient :: "'w deployer_env \<Rightarrow> string \<Rightarrow> target option \<Rightarrow> 'w \<Rightarrow> (gerr + 'w target_client) \<times> 'w" where
  "TargetClient e kubeconfig target w =
     (if kubeconfig \<noteq> []
      then ((case dv_base64 e kubeconfig of Inl err \<Rightarrow> Inl err | Inr k \<Rightarrow> dv_cluster e k), w)
      else case target of
             None \<Rightarrow> (Inl (PlainError ''neither a target nor kubeconfig are defined''), w)
           | Some t \<Rightarrow>
               (case dv_targetConfig e (case tg_configuration (tg_spec t) of None \<Rightarrow> [] | Some raw \<Rightarrow> raw) of
                  Inl err \<Rightarrow> (Inl (wrap (''unable to parse target conf'' @ [CHR 0xC3, CHR 0xAD] @ ''guration'') err), w)
                | Inr ref \<Rightarrow>
                    (case GetKubeconfigFromTargetConfig ref [dv_lsClient e, dv_hostClient e] w of
                       (Inl errs, w1) \<Rightarrow> (Inl (case errs of [err] \<Rightarrow> err | _ \<Rightarrow> dv_aggregate e errs), w1)
                     | (Inr k, w1) \<Rightarrow> (dv_cluster e k, w1))))"

text \<open>The checks of the readiness after an update: the default one, then the custom ones. \<open>None\<close>: the waiting does not end.\<close>

fun custom_checks ::
    "'w deployer_env \<Rightarrow> 'w target_client \<Rightarrow> string \<Rightarrow> duration option \<Rightarrow> typed_reference list \<Rightarrow> custom_check list \<Rightarrow> 'w
      \<Rightarrow> (unit outcome \<times> 'w) option" where
  "custom_checks e c currOp timeout refs [] w = Some (Done (), w)"
| "custom_checks e c currOp timeout refs (config # configs) w =
     (case CustomCheckResourcesReady ((dv_readiness e)\<lparr>rk_client := c\<rparr>) (dv_json e) (dv_fuel e) currOp timeout refs config w of
        Some (Done _, w1) \<Rightarrow> custom_checks e c currOp timeout refs configs w1
      | r \<Rightarrow> r)"

definition all_checks ::
    "'w deployer_env \<Rightarrow> 'w target_client \<Rightarrow> string \<Rightarrow> string \<Rightarrow> readiness_config \<Rightarrow> managed_resource list \<Rightarrow> 'w
      \<Rightarrow> (unit outcome \<times> 'w) option" where
  "all_checks e c defaultOp customOp config managed w =
     (let refs = TypedObjectReferenceList managed
      in case (if rz_disableDefault config then Some (Done (), w)
               else DefaultCheckResourcesReady ((dv_readiness e)\<lparr>rk_client := c\<rparr>) (dv_codecs e) (dv_fuel e) defaultOp
                      (rz_timeout config) refs w) of
           Some (Done _, w1) \<Rightarrow> custom_checks e c customOp (rz_timeout config) refs (rz_custom config) w1
         | r \<Rightarrow> r)"

definition with_phase :: "phase \<Rightarrow> deploy_item \<Rightarrow> deploy_item" where
  "with_phase p di = di\<lparr>di_status := (di_status di)\<lparr>ds_phase := p\<rparr>\<rparr>"

definition with_providerStatus :: "string option \<Rightarrow> deploy_item \<Rightarrow> deploy_item" where
  "with_providerStatus s di = di\<lparr>di_status := (di_status di)\<lparr>ds_providerStatus := s\<rparr>\<rparr>"

definition succeeded_item :: "deploy_item \<Rightarrow> deploy_item" where
  "succeeded_item di = di\<lparr>di_status := (di_status di)\<lparr>ds_phase := PhSucceeded, ds_lastError := None\<rparr>\<rparr>"

definition without_error :: "deploy_item \<Rightarrow> deploy_item" where
  "without_error di = di\<lparr>di_status := (di_status di)\<lparr>ds_lastError := None\<rparr>\<rparr>"

definition without_finalizer :: "deploy_item \<Rightarrow> deploy_item" where
  "without_finalizer di = di\<lparr>di_meta := RemoveFinalizer (di_meta di) LandscaperFinalizer\<rparr>"

definition update_item :: "'w deployer_env \<Rightarrow> deploy_item \<Rightarrow> 'w \<Rightarrow> unit outcome \<times> deploy_item \<times> 'w" where
  "update_item e di w = (case rc_update (kc_deployItems (dv_lsClient e)) di w of
     (Inl err, w1) \<Rightarrow> (Fail err, di, w1)
   | (Inr di1, w1) \<Rightarrow> (Done (), di1, w1))"

definition exporter_for :: "'w deployer_env \<Rightarrow> 'w target_client \<Rightarrow> managed_resource list \<Rightarrow> 'w exporter" where
  "exporter_for e c managed =
     (dv_exporter e)\<lparr>xr_client := c, xr_objects := managed, xr_defaultTimeout := exporter_timeout (dv_exportTimeout e)\<rparr>"

definition store_export ::
    "'w deployer_env \<Rightarrow> deploy_item \<Rightarrow> (string \<times> json) list option \<Rightarrow> 'w \<Rightarrow> unit outcome \<times> deploy_item \<times> 'w" where
  "store_export e di vals w =
     (case CreateOrUpdateExport (dv_setOwner e) (dv_marshal e) (dv_lsClient e) di (Some vals) w of
        (None, di1, w1) \<Rightarrow> (Done (), di1, w1)
      | (Some err, di1, w1) \<Rightarrow> (Fail err, di1, w1))"

section \<open>The manifest deployer (manifest.go and ensure.go)\<close>

text \<open>\<open>New\<close>: the decoder applies the defaults. The configuration is a pointer that is dereferenced.\<close>

definition manifest_New ::
    "'w deployer_env \<Rightarrow> (string \<Rightarrow> gerr + manifest_config) \<Rightarrow> deploy_item \<Rightarrow> 'w
      \<Rightarrow> (manifest_config \<times> managed_resource list option) outcome" where
  "manifest_New e parse di w =
     (let failed = (\<lambda>reason err. Fail (wrapped_error e ''InitManifestOperation'' reason [ErrorConfigurationProblem] w err))
      in case di_configuration (di_spec di) of
           None \<Rightarrow> Panic
         | Some raw \<Rightarrow>
             (case parse raw of
                Inl err \<Rightarrow> failed ''ParseProviderConfiguration'' err
              | Inr parsed \<Rightarrow>
                  (let config = SetDefaults_ManifestConfiguration parsed
                   in case ValidateManifestConfiguration (dv_configs e) config of
                        Some err \<Rightarrow> failed ''ValidateProviderConfiguration'' err
                      | None \<Rightarrow>
                          (case ds_providerStatus (di_status di) of
                             None \<Rightarrow> Done (config, None)
                           | Some rawStatus \<Rightarrow>
                               (case dv_decodeStatus e rawStatus of
                                  Inl err \<Rightarrow> failed ''ParseProviderStatus'' err
                                | Inr managed \<Rightarrow> Done (config, Some managed))))))"

definition manifest_applier :: "'w deployer_env \<Rightarrow> 'w target_client \<Rightarrow> manifest_config \<Rightarrow> duration \<Rightarrow> deploy_item \<Rightarrow> 'w applier" where
  "manifest_applier e c config deleteTimeout di =
     (dv_applier e)\<lparr>ra_client := c, ra_polls := dv_polls e deleteTimeout, ra_defaultNamespace := [],
       ra_deployItemName := om_name (di_meta di), ra_updateStrategy := mc_updateStrategy config,
       ra_manifests := mc_manifests config, ra_labels := [(ManagedDeployItemLabel, om_name (di_meta di))]\<rparr>"

definition manifest_exports ::
    "'w deployer_env \<Rightarrow> 'w target_client \<Rightarrow> manifest_config \<Rightarrow> managed_resource list \<Rightarrow> deploy_item \<Rightarrow> 'w
      \<Rightarrow> unit outcome \<times> deploy_item \<times> 'w" where
  "manifest_exports e c config managed di w =
     (case mc_exports config of
        None \<Rightarrow> (Done (), di, w)
      | Some exports \<Rightarrow>
          (case Export (exporter_for e c managed) exports w of
             (Panic, w1) \<Rightarrow> (Panic, di, w1)
           | (Fail err, w1) \<Rightarrow> (Fail (wrapped_error e ''ReconcileManifests'' ''ReadExportValues'' [] w1 err), di, w1)
           | (Done vals, w1) \<Rightarrow> store_export e di vals w1))"

definition manifest_ready ::
    "'w deployer_env \<Rightarrow> 'w target_client \<Rightarrow> manifest_config \<Rightarrow> managed_resource list \<Rightarrow> deploy_item \<Rightarrow> 'w
      \<Rightarrow> (unit outcome \<times> deploy_item \<times> 'w) option" where
  "manifest_ready e c config managed di w =
     (case all_checks e c ''DefaultCheckResourcesReadinessManifest'' ''CustomCheckResourcesReadinessManifest''
             (mc_readinessChecks config) managed w of
        None \<Rightarrow> None
      | Some (Done _, w1) \<Rightarrow> Some (manifest_exports e c config managed (succeeded_item di) w1)
      | Some (r, w1) \<Rightarrow> Some (r, di, w1))"

definition manifest_run ::
    "'w deployer_env \<Rightarrow> manifest_config \<Rightarrow> managed_resource list option \<Rightarrow> deploy_item \<Rightarrow> target option \<Rightarrow> 'w
      \<Rightarrow> (unit outcome \<times> deploy_item \<times> 'w) option" where
  "manifest_run e config status di target w =
     (let currOp = ''ReconcileManifests''; di0 = with_phase PhProgressing di
      in case TargetClient e (mc_kubeconfig config) target w of
           (Inl err, w1) \<Rightarrow> Some (Fail (wrapped_error e currOp ''TargetClusterClient'' [] w1 err), di0, w1)
         | (Inr c, w1) \<Rightarrow>
             (case mc_deleteTimeout config of
                None \<Rightarrow> Some (Panic, di0, w1)
              | Some t \<Rightarrow>
                  (case Apply (manifest_applier e c config t di0) (case status of None \<Rightarrow> [] | Some old \<Rightarrow> old) w1 of
                     (Some err, managed, w2) \<Rightarrow>
                       Some (Fail err, with_providerStatus (case dv_encodeStatus e managed of Inl _ \<Rightarrow> None | Inr s \<Rightarrow> Some s) di0, w2)
                   | (None, managed, w2) \<Rightarrow>
                       (case dv_encodeStatus e managed of
                          Inl err \<Rightarrow> Some (Fail (wrapped_error e currOp ''ProviderStatus'' [] w2 err), with_providerStatus None di0, w2)
                        | Inr s \<Rightarrow>
                            (case rc_statusUpdate (kc_deployItems (dv_lsClient e)) (with_providerStatus (Some s) di0) w2 of
                               (Inl err, w3) \<Rightarrow>
                                 Some (Fail (wrapped_error e currOp ''UpdateStatus'' [] w3 err), with_providerStatus (Some s) di0, w3)
                             | (Inr di1, w3) \<Rightarrow> manifest_ready e c config managed di1 w3)))))"

definition manifest_Reconcile ::
    "'w deployer_env \<Rightarrow> (string \<Rightarrow> gerr + manifest_config) \<Rightarrow> deploy_item \<Rightarrow> target option \<Rightarrow> 'w
      \<Rightarrow> (unit outcome \<times> deploy_item \<times> 'w) option" where
  "manifest_Reconcile e parse di target w =
     (case manifest_New e parse di w of
        Panic \<Rightarrow> Some (Panic, di, w)
      | Fail err \<Rightarrow> Some (Fail err, di, w)
      | Done (config, status) \<Rightarrow> manifest_run e config status di target w)"

text \<open>
  The deletion goes through the managed resources from the last to the first. \<open>keep\<close> are those that are left, \<open>gone\<close> the errors
  that count as deleted. The result is the references of the resources that were still there, or the first error.
\<close>

fun delete_managed ::
    "'w target_client \<Rightarrow> (managed_resource \<Rightarrow> bool) \<Rightarrow> (gerr \<Rightarrow> bool) \<Rightarrow> managed_resource list \<Rightarrow> 'w
      \<Rightarrow> (gerr + core_reference list) \<times> 'w" where
  "delete_managed c keep gone [] w = (Inr [], w)"
| "delete_managed c keep gone (mr # mrs) w =
     (if keep mr then delete_managed c keep gone mrs w
      else case tc_delete c (ObjectFromCoreObjectReference (ms_resource mr)) w of
             (Some err, w1) \<Rightarrow> (if gone err then delete_managed c keep gone mrs w1 else (Inl err, w1))
           | (None, w1) \<Rightarrow>
               (case delete_managed c keep gone mrs w1 of
                  (Inl err, w2) \<Rightarrow> (Inl err, w2)
                | (Inr refs, w2) \<Rightarrow> (Inr (ms_resource mr # refs), w2)))"

definition manifest_keeps :: "managed_resource \<Rightarrow> bool" where
  "manifest_keeps mr \<longleftrightarrow> ms_policy mr = IgnorePolicy \<or> ms_policy mr = KeepPolicy"

definition manifest_delete_run ::
    "'w deployer_env \<Rightarrow> manifest_config \<Rightarrow> managed_resource list option \<Rightarrow> deploy_item \<Rightarrow> target option \<Rightarrow> 'w
      \<Rightarrow> unit outcome \<times> deploy_item \<times> 'w" where
  "manifest_delete_run e config status di target w =
     (let currOp = ''DeleteManifests''; di0 = with_phase PhDeleting di
      in if status = None \<or> status = Some [] then update_item e (without_finalizer di0) w
         else case TargetClient e (mc_kubeconfig config) target w of
                (Inl err, w1) \<Rightarrow> (Fail (wrapped_error e currOp ''TargetClusterClient'' [] w1 err), di0, w1)
              | (Inr c, w1) \<Rightarrow>
                  (case delete_managed c manifest_keeps IsNotFound (rev (case status of None \<Rightarrow> [] | Some mrs \<Rightarrow> mrs)) w1 of
                     (Inl err, w2) \<Rightarrow> (Fail (wrapped_error e currOp ''DeleteManifest'' [] w2 err), di0, w2)
                   | (Inr refs, w2) \<Rightarrow>
                       (if refs \<noteq> [] then (Fail (PlainError ''not all items are deleted''), without_error di0, w2)
                        else update_item e (without_finalizer di0) w2)))"

definition manifest_Delete ::
    "'w deployer_env \<Rightarrow> (string \<Rightarrow> gerr + manifest_config) \<Rightarrow> deploy_item \<Rightarrow> target option \<Rightarrow> 'w \<Rightarrow> unit outcome \<times> deploy_item \<times> 'w" where
  "manifest_Delete e parse di target w =
     (case manifest_New e parse di w of
        Panic \<Rightarrow> (Panic, di, w)
      | Fail err \<Rightarrow> (Fail err, di, w)
      | Done (config, status) \<Rightarrow> manifest_delete_run e config status di target w)"

definition drop_operation :: "deploy_item \<Rightarrow> deploy_item" where
  "drop_operation di = di\<lparr>di_meta := (di_meta di)\<lparr>om_annotations := smap_del (om_annotations (di_meta di)) OperationAnnotation\<rparr>\<rparr>"

definition force_reconcile ::
    "(unit outcome \<times> deploy_item \<times> 'w) option \<Rightarrow> (unit outcome \<times> deploy_item \<times> 'w) option" where
  "force_reconcile r = (case r of Some (Done _, di, w) \<Rightarrow> Some (Done (), drop_operation di, w) | x \<Rightarrow> x)"

definition manifest_ForceReconcile ::
    "'w deployer_env \<Rightarrow> (string \<Rightarrow> gerr + manifest_config) \<Rightarrow> deploy_item \<Rightarrow> target option \<Rightarrow> 'w
      \<Rightarrow> (unit outcome \<times> deploy_item \<times> 'w) option" where
  "manifest_ForceReconcile e parse di target w = force_reconcile (manifest_Reconcile e parse di target w)"

text \<open>
  The next reconciliation (\<open>controller.go\<close>, and \<open>Schedule\<close> of the continuous reconciliation). The cron library gives the
  next time of an expression, or that of a constant delay.
\<close>

definition Schedule ::
    "(string \<Rightarrow> gerr + (time \<Rightarrow> time)) \<Rightarrow> (duration \<Rightarrow> time \<Rightarrow> time) \<Rightarrow> continuous_spec \<Rightarrow> gerr + (time \<Rightarrow> time)" where
  "Schedule parseCron every crs =
     (if cs_cron crs \<noteq> [] then parseCron (cs_cron crs)
      else case cs_every crs of
             Some d \<Rightarrow> Inr (every d)
           | None \<Rightarrow> Inl (PlainError ''neither Cron nor Every is specified''))"

definition next_reconcile ::
    "(string \<Rightarrow> gerr + (time \<Rightarrow> time)) \<Rightarrow> (duration \<Rightarrow> time \<Rightarrow> time) \<Rightarrow> continuous_spec option \<Rightarrow> time \<Rightarrow> gerr + time option" where
  "next_reconcile parseCron every spec lastTime =
     (case spec of
        None \<Rightarrow> Inr None
      | Some crs \<Rightarrow>
          (if ContinuousReconcileSpecIsEmpty spec then Inr None
           else case Schedule parseCron every crs of
                  Inl err \<Rightarrow> Inl err
                | Inr sched \<Rightarrow> Inr (Some (sched lastTime))))"

definition manifest_NextReconcile ::
    "'w deployer_env \<Rightarrow> (string \<Rightarrow> gerr + manifest_config) \<Rightarrow> (string \<Rightarrow> gerr + (time \<Rightarrow> time)) \<Rightarrow> (duration \<Rightarrow> time \<Rightarrow> time)
      \<Rightarrow> time \<Rightarrow> deploy_item \<Rightarrow> 'w \<Rightarrow> time option outcome" where
  "manifest_NextReconcile e parse parseCron every lastTime di w =
     (case manifest_New e parse di w of
        Panic \<Rightarrow> Panic
      | Fail err \<Rightarrow> Fail err
      | Done (config, status) \<Rightarrow> outcome_of (next_reconcile parseCron every (mc_continuousReconcile config) lastTime))"

end
