(* ===== verification/HelmDeployer.thy ===== *)
theory HelmDeployer
  imports ManifestDeployer
begin

text \<open>
  The helm deployer (\<open>pkg/deployer/helm\<close>): charts, templating, files to objects, and then as the manifest deployer.
\<close>

section \<open>Objects of rendered files (kubernetes.go)\<close>

text \<open>
  The YAML or JSON decoder of the library is a stream of documents: a raw object, an empty document or one that cannot be
  decoded, and then the end of the file. A JSON decoder that met a syntax error answers with it for ever: \<open>StreamStuck\<close>.
\<close>

datatype yaml_document = RawDocument string | EmptyDocument | BadDocument gerr

datatype doc_stream = StreamEnd | StreamStuck gerr | StreamNext yaml_document doc_stream

text \<open>\<open>typeMeta\<close> parses the kind of an object and says whether it is empty. The loop only ends at the end of the file.\<close>

fun DecodeObjectsToRawExtension :: "nat \<Rightarrow> (string \<Rightarrow> gerr + bool) \<Rightarrow> doc_stream \<Rightarrow> string list option" where
  "DecodeObjectsToRawExtension 0 typeMeta s = None"
| "DecodeObjectsToRawExtension (Suc fuel) typeMeta StreamEnd = Some []"
| "DecodeObjectsToRawExtension (Suc fuel) typeMeta (StreamStuck e) = DecodeObjectsToRawExtension fuel typeMeta (StreamStuck e)"
| "DecodeObjectsToRawExtension (Suc fuel) typeMeta (StreamNext (RawDocument raw) s) =
     (case DecodeObjectsToRawExtension fuel typeMeta s of
        None \<Rightarrow> None
      | Some objects \<Rightarrow> Some ((case typeMeta raw of Inl e \<Rightarrow> [] | Inr isEmpty \<Rightarrow> if isEmpty then [] else [raw]) @ objects))"
| "DecodeObjectsToRawExtension (Suc fuel) typeMeta (StreamNext d s) = DecodeObjectsToRawExtension fuel typeMeta s"

text \<open>The part of a path after the last slash.\<close>

definition base_name :: "string \<Rightarrow> string" where
  "base_name path = rev (takeWhile (\<lambda>x. x \<noteq> CHR ''/'') (rev path))"

fun ParseFilesToRawExtension ::
    "nat \<Rightarrow> (string \<Rightarrow> gerr + bool) \<Rightarrow> (string \<Rightarrow> doc_stream) \<Rightarrow> smap \<Rightarrow> string list option" where
  "ParseFilesToRawExtension fuel typeMeta decoder [] = Some []"
| "ParseFilesToRawExtension fuel typeMeta decoder ((name, content) # files) =
     (if base_name name = ''NOTES.txt'' then ParseFilesToRawExtension fuel typeMeta decoder files
      else case DecodeObjectsToRawExtension fuel typeMeta (decoder content) of
             None \<Rightarrow> None
           | Some decoded \<Rightarrow>
               (case ParseFilesToRawExtension fuel typeMeta decoder files of
                  None \<Rightarrow> None
                | Some objects \<Rightarrow> Some (decoded @ objects)))"

fun ResolveSecrets :: "('w, secret) resource_client \<Rightarrow> object_reference list \<Rightarrow> 'w \<Rightarrow> (gerr + secret list) \<times> 'w" where
  "ResolveSecrets c [] w = (Inr [], w)"
| "ResolveSecrets c (ref # refs) w =
     (case rc_get c ref w of
        (Inl e, w1) \<Rightarrow> (Inl e, w1)
      | (Inr s, w1) \<Rightarrow>
          (case ResolveSecrets c refs w1 of
             (Inl e, w2) \<Rightarrow> (Inl e, w2)
           | (Inr ss, w2) \<Rightarrow> (Inr (s # ss), w2)))"

section \<open>Charts (chart.go)\<close>

text \<open>
  The libraries of the helm deployer: loading a chart from the bytes of an archive, HTTP, resolving in registries, the
  registry client, and the template engine of helm.
\<close>

record ('w, 'o, 'ch) helm_lib =
  hl_parse :: "string \<Rightarrow> gerr + helm_config"
  hl_loadArchive :: "string \<Rightarrow> gerr + 'ch"
  hl_httpGet :: "string \<Rightarrow> 'w \<Rightarrow> (gerr + int \<times> string \<times> string \<times> gerr option) \<times> 'w"
  hl_resolveRef :: "'o \<Rightarrow> string \<Rightarrow> 'w \<Rightarrow> (gerr + string) \<times> 'w"
  hl_resolveResource :: "'o \<Rightarrow> remote_chart \<Rightarrow> 'w \<Rightarrow> (gerr + string) \<times> 'w"
  hl_ociClient :: "secret list \<Rightarrow> gerr + 'o"
  hl_parseValues :: "string \<Rightarrow> gerr + json"
  hl_renderValues :: "'ch \<Rightarrow> string \<Rightarrow> string \<Rightarrow> json \<Rightarrow> gerr + json"
  hl_render :: "'ch \<Rightarrow> json \<Rightarrow> 'w target_client \<Rightarrow> 'w \<Rightarrow> (gerr + smap) \<times> 'w"
  hl_crds :: "'ch \<Rightarrow> smap"
  hl_namespace :: "string \<Rightarrow> gerr + string"
  hl_typeMeta :: "string \<Rightarrow> gerr + bool"
  hl_decoder :: "string \<Rightarrow> doc_stream"

definition NoChartDefinedError :: gerr where
  "NoChartDefinedError = PlainError ''no chart was provided''"

definition loaded :: "string \<Rightarrow> gerr + 'ch \<Rightarrow> gerr + 'ch" where
  "loaded msg r = (case r of Inl e \<Rightarrow> Inl (wrap msg e) | Inr ch \<Rightarrow> Inr ch)"

definition getChartFromArchive ::
    "'w deployer_env \<Rightarrow> ('w, 'o, 'ch) helm_lib \<Rightarrow> chart_archive \<Rightarrow> 'w \<Rightarrow> (gerr + 'ch) \<times> 'w" where
  "getChartFromArchive e hl archive w =
     (if ca_raw archive \<noteq> []
      then ((case dv_base64 e (ca_raw archive) of
               Inl err \<Rightarrow> Inl (wrap ''unable to decode helm archive'' err)
             | Inr data \<Rightarrow> loaded ''unable to load chart from archive'' (hl_loadArchive hl data)), w)
      else case ca_remote archive of
             None \<Rightarrow> (Inl NoChartDefinedError, w)
           | Some url \<Rightarrow>
               (case hl_httpGet hl url w of
                  (Inl err, w1) \<Rightarrow> (Inl (wrap (''unable to fetch helm chart from '' @ go_quote url) err), w1)
                | (Inr (code, status, body, closeError), w1) \<Rightarrow>
                    ((if code < 200 \<or> 299 < code
                      then Inl (PlainError (''unable to fetch helm chart from '' @ go_quote url @ '': '' @ status))
                      else case loaded (''unable to load chart from '' @ go_quote url) (hl_loadArchive hl body) of
                             Inl err \<Rightarrow> Inl err
                           | Inr ch \<Rightarrow>
                               (case closeError of
                                  Some err \<Rightarrow> Inl (wrap (''unable to close remote stream from '' @ go_quote url) err)
                                | None \<Rightarrow> Inr ch)), w1)))"

definition GetChart :: "'w deployer_env \<Rightarrow> ('w, 'o, 'ch) helm_lib \<Rightarrow> 'o \<Rightarrow> helm_chart \<Rightarrow> 'w \<Rightarrow> (gerr + 'ch) \<times> 'w" where
  "GetChart e hl oci chart w =
     (case ch_archive chart of
        Some archive \<Rightarrow> getChartFromArchive e hl archive w
      | None \<Rightarrow>
          (if ch_ref chart \<noteq> []
           then (case hl_resolveRef hl oci (ch_ref chart) w of
                   (Inl err, w1) \<Rightarrow> (Inl err, w1)
                 | (Inr data, w1) \<Rightarrow> (loaded ''unable to load chart from archive'' (hl_loadArchive hl data), w1))
           else case ch_fromResource chart of
                  Some res \<Rightarrow>
                    (case hl_resolveResource hl oci res w of
                       (Inl err, w1) \<Rightarrow> (Inl err, w1)
                     | (Inr data, w1) \<Rightarrow> (loaded ''unable to load chart from archive'' (hl_loadArchive hl data), w1))
                | None \<Rightarrow> (Inl NoChartDefinedError, w)))"

section \<open>The helm deployer (helm.go and ensure.go)\<close>

definition helm_New ::
    "'w deployer_env \<Rightarrow> ('w, 'o, 'ch) helm_lib \<Rightarrow> deploy_item \<Rightarrow> 'w \<Rightarrow> (helm_config \<times> managed_resource list option) outcome" where
  "helm_New e hl di w =
     (let failed = (\<lambda>reason err. Fail (wrapped_error e ''InitHelmOperation'' reason [ErrorConfigurationProblem] w err))
      in case di_configuration (di_spec di) of
           None \<Rightarrow> Panic
         | Some raw \<Rightarrow>
             (case hl_parse hl raw of
                Inl err \<Rightarrow> failed ''ParseProviderConfiguration'' err
              | Inr parsed \<Rightarrow>
                  (let config = SetDefaults_HelmConfiguration parsed
                   in case ValidateHelmConfiguration (dv_configs e) config of
                        Some err \<Rightarrow> failed ''ValidateProviderConfiguration'' err
                      | None \<Rightarrow>
                          (case ds_providerStatus (di_status di) of
                             None \<Rightarrow> Done (config, None)
                           | Some rawStatus \<Rightarrow>
                               (case dv_decodeStatus e rawStatus of
                                  Inl err \<Rightarrow> failed ''ParseProviderStatus'' err
                                | Inr managed \<Rightarrow> Done (config, Some managed))))))"

definition createOCIClient ::
    "'w deployer_env \<Rightarrow> ('w, 'o, 'ch) helm_lib \<Rightarrow> object_reference list \<Rightarrow> 'w \<Rightarrow> (gerr + 'o) \<times> 'w" where
  "createOCIClient e hl registryPullSecrets w =
     (case ResolveSecrets (kc_secrets (dv_lsClient e)) registryPullSecrets w of
        (Inl err, w1) \<Rightarrow> (Inl err, w1)
      | (Inr secrets, w1) \<Rightarrow> (hl_ociClient hl secrets, w1))"

definition helm_Template ::
    "'w deployer_env \<Rightarrow> ('w, 'o, 'ch) helm_lib \<Rightarrow> helm_config \<Rightarrow> ls_context \<Rightarrow> deploy_item \<Rightarrow> target option \<Rightarrow> 'w
      \<Rightarrow> (gerr + 'w target_client \<times> smap \<times> smap \<times> json) \<times> 'w" where
  "helm_Template e hl config lsCtx di target w =
     (let failed = (\<lambda>reason codes w err. (Inl (wrapped_error e ''TemplateChart'' reason codes w err), w))
      in case TargetClient e (hc_kubeconfig config) target w of
           (Inl err, w1) \<Rightarrow> failed ''GetTargetClient'' [] w1 err
         | (Inr c, w1) \<Rightarrow>
             (case createOCIClient e hl (GetRegistryPullSecretsFromContext lsCtx @ di_registryPullSecrets (di_spec di)) w1 of
                (Inl err, w2) \<Rightarrow> failed ''BuildOCIClient'' [] w2 err
              | (Inr oci, w2) \<Rightarrow>
                  (case GetChart e hl oci (hc_chart config) w2 of
                     (Inl err, w3) \<Rightarrow> failed ''GetHelmChart'' [] w3 err
                   | (Inr ch, w3) \<Rightarrow>
                       (case hl_parseValues hl (hc_values config) of
                          Inl err \<Rightarrow> failed ''ParseHelmValues'' [ErrorConfigurationProblem] w3 err
                        | Inr values0 \<Rightarrow>
                            (case hl_renderValues hl ch (hc_name config) (hc_namespace config) values0 of
                               Inl err \<Rightarrow> failed ''RenderHelmValues'' [ErrorConfigurationProblem] w3 err
                             | Inr vals \<Rightarrow>
                                 (case hl_render hl ch vals c w3 of
                                    (Inl err, w4) \<Rightarrow> failed ''RenderHelmValues'' [ErrorConfigurationProblem] w4 err
                                  | (Inr files, w4) \<Rightarrow> (Inr (c, files, hl_crds hl ch, vals), w4)))))))"

fun exports_from_values ::
    "path_lib \<Rightarrow> json \<Rightarrow> resource_export list \<Rightarrow> (string \<times> json) list option \<Rightarrow> (string \<times> json) list option outcome" where
  "exports_from_values pl vals [] exports = Done exports"
| "exports_from_values pl vals (export # defs) exports =
     (if xp_fromResource export \<noteq> None then exports_from_values pl vals defs exports
      else case GetValue pl (xp_jsonPath export) vals of
             Panic \<Rightarrow> Panic
           | Fail err \<Rightarrow> Fail err
           | Done v \<Rightarrow>
               (case Construct_value pl (xp_key export) v of
                  Inl err \<Rightarrow> Fail err
                | Inr m \<Rightarrow> exports_from_values pl vals defs (MergeMaps exports (Some m))))"

definition constructExportsFromValues :: "path_lib \<Rightarrow> helm_config \<Rightarrow> json \<Rightarrow> (string \<times> json) list option outcome" where
  "constructExportsFromValues pl config vals =
     exports_from_values pl vals (hc_exportsFromManifests config @ (case hc_exports config of None \<Rightarrow> [] | Some x \<Rightarrow> xs_exports x))
       (Some [])"

definition helm_manifests ::
    "'w deployer_env \<Rightarrow> ('w, 'o, 'ch) helm_lib \<Rightarrow> helm_config \<Rightarrow> string list \<Rightarrow> string list \<Rightarrow> gerr + managed_manifest list" where
  "helm_manifests e hl config objects crdObjects =
     (let manifests = map (\<lambda>raw. \<lparr>mf_policy = ManagePolicy, mf_manifest = raw\<rparr>) (crdObjects @ objects)
      in if hc_createNamespace config \<and> hc_namespace config \<noteq> []
         then (case hl_namespace hl (hc_namespace config) of
                 Inl err \<Rightarrow> Inl (wrap ''unable to marshal release namespace'' err)
               | Inr rawNs \<Rightarrow> Inr (manifests @ [\<lparr>mf_policy = KeepPolicy, mf_manifest = rawNs\<rparr>]))
         else Inr manifests)"

definition HelmDeployItemLabel :: string where
  "HelmDeployItemLabel = ''helm.deployer.landscaper.gardener.cloud/deployitem''"

definition helm_applier ::
    "'w deployer_env \<Rightarrow> 'w target_client \<Rightarrow> helm_config \<Rightarrow> managed_manifest list \<Rightarrow> duration \<Rightarrow> deploy_item \<Rightarrow> 'w applier" where
  "helm_applier e c config manifests deleteTimeout di =
     (dv_applier e)\<lparr>ra_client := c, ra_polls := dv_polls e deleteTimeout, ra_defaultNamespace := hc_namespace config,
       ra_deployItemName := om_name (di_meta di), ra_updateStrategy := hc_updateStrategy config,
       ra_manifests := manifests, ra_labels := [(HelmDeployItemLabel, om_name (di_meta di))]\<rparr>"

text \<open>
  The second call of \<open>TargetClient\<close> finds the client of the first one, which kept the client for the discovery only
  if it came from the target. Without it the first question for the kinds of a group version panics: \<open>asks_discovery\<close>
  says whether the applier asks. If only a definition of a custom resource asks, other goroutines may have made calls before.
\<close>

definition asks_discovery :: "'w applier \<Rightarrow> bool" where
  "asks_discovery a = (case split_manifests a (ra_manifests a) [] [] [] of
     Inl e \<Rightarrow> False
   | Inr (crds, info, todo) \<Rightarrow>
       todo \<noteq> [] \<or> list_ex (\<lambda>m. mn_policy m \<noteq> IgnorePolicy \<and> ra_defaultNamespace a \<noteq> []
         \<and> (case ra_decode a (mn_raw m) of Inl e \<Rightarrow> False | Inr obj \<Rightarrow> om_namespace (us_meta obj) = [])) crds)"

definition helm_exports ::
    "'w deployer_env \<Rightarrow> 'w target_client \<Rightarrow> helm_config \<Rightarrow> managed_resource list \<Rightarrow> (string \<times> json) list option
      \<Rightarrow> deploy_item \<Rightarrow> 'w \<Rightarrow> unit outcome \<times> deploy_item \<times> 'w" where
  "helm_exports e c config managed exports di w =
     (let definition0 = (case hc_exports config of None \<Rightarrow> \<lparr>xs_defaultTimeout = None, xs_exports = []\<rparr> | Some x \<Rightarrow> x);
          exportDefinition = definition0\<lparr>xs_exports := xs_exports definition0 @ hc_exportsFromManifests config\<rparr>
      in if xs_exports exportDefinition = [] then store_export e di exports w
         else case Export (exporter_for e c managed) exportDefinition w of
                (Panic, w1) \<Rightarrow> (Panic, di, w1)
              | (Fail err, w1) \<Rightarrow> (Fail (wrapped_error e ''ApplyFile'' ''ReadExportValues'' [] w1 err), di, w1)
              | (Done resourceExports, w1) \<Rightarrow> store_export e di (MergeMaps exports resourceExports) w1)"

definition helm_ready ::
    "'w deployer_env \<Rightarrow> 'w target_client \<Rightarrow> helm_config \<Rightarrow> managed_resource list \<Rightarrow> (string \<times> json) list option
      \<Rightarrow> deploy_item \<Rightarrow> 'w \<Rightarrow> (unit outcome \<times> deploy_item \<times> 'w) option" where
  "helm_ready e c config managed exports di w =
     (case all_checks e c ''DefaultCheckResourcesReadinessHelm'' ''CustomCheckResourcesReadinessHelm''
             (hc_readinessChecks config) managed w of
        None \<Rightarrow> None
      | Some (Done _, w1) \<Rightarrow> Some (helm_exports e c config managed exports (succeeded_item di) w1)
      | Some (r, w1) \<Rightarrow> Some (r, di, w1))"

definition ApplyFiles ::
    "'w deployer_env \<Rightarrow> ('w, 'o, 'ch) helm_lib \<Rightarrow> 'w target_client \<Rightarrow> smap \<Rightarrow> smap \<Rightarrow> (string \<times> json) list option
      \<Rightarrow> helm_config \<Rightarrow> managed_resource list option \<Rightarrow> deploy_item \<Rightarrow> 'w \<Rightarrow> (unit outcome \<times> deploy_item \<times> 'w) option" where
  "ApplyFiles e hl c files crds exports config status di w =
     (case (ParseFilesToRawExtension (dv_fuel e) (hl_typeMeta hl) (hl_decoder hl) files,
            ParseFilesToRawExtension (dv_fuel e) (hl_typeMeta hl) (hl_decoder hl) crds) of
        (Some objects, Some crdObjects) \<Rightarrow>
          (case helm_manifests e hl config objects crdObjects of
             Inl err \<Rightarrow> Some (Fail err, di, w)
           | Inr manifests \<Rightarrow>
               (case hc_deleteTimeout config of
                  None \<Rightarrow> Some (Panic, di, w)
                | Some t \<Rightarrow>
                    (let a = helm_applier e c config manifests t di
                     in if hc_kubeconfig config \<noteq> [] \<and> asks_discovery a then Some (Panic, di, w)
                        else case Apply a (case status of None \<Rightarrow> [] | Some old \<Rightarrow> old) w of
                               (Some err, managed, w2) \<Rightarrow>
                                 Some (Fail err, with_providerStatus (case dv_encodeStatus e managed of Inl _ \<Rightarrow> None | Inr s \<Rightarrow> Some s) di, w2)
                             | (None, managed, w2) \<Rightarrow>
                                 (case dv_encodeStatus e managed of
                                    Inl err \<Rightarrow> Some (Fail (wrapped_error e ''ApplyFile'' ''ProviderStatus'' [] w2 err), with_providerStatus None di, w2)
                                  | Inr s \<Rightarrow>
                                      (case rc_statusUpdate (kc_deployItems (dv_lsClient e)) (with_providerStatus (Some s) di) w2 of
                                         (Inl err, w3) \<Rightarrow>
                                           Some (Fail (wrapped_error e ''ApplyFile'' ''UpdateStatus'' [] w3 err), with_providerStatus (Some s) di, w3)
                                       | (Inr di1, w3) \<Rightarrow> helm_ready e c config managed exports di1 w3)))))
      | _ \<Rightarrow> None)"

definition helm_Reconcile ::
    "'w deployer_env \<Rightarrow> ('w, 'o, 'ch) helm_lib \<Rightarrow> ls_context \<Rightarrow> deploy_item \<Rightarrow> target option \<Rightarrow> 'w
      \<Rightarrow> (unit outcome \<times> deploy_item \<times> 'w) option" where
  "helm_Reconcile e hl lsCtx di target w =
     (case helm_New e hl di w of
        Panic \<Rightarrow> Some (Panic, di, w)
      | Fail err \<Rightarrow> Some (Fail err, di, w)
      | Done (config, status) \<Rightarrow>
          (let di0 = with_phase PhProgressing di
           in case helm_Template e hl config lsCtx di0 target w of
                (Inl err, w1) \<Rightarrow> Some (Fail err, di0, w1)
              | (Inr (c, files, crds, vals), w1) \<Rightarrow>
                  (case constructExportsFromValues (xr_paths (dv_exporter e)) config vals of
                     Panic \<Rightarrow> Some (Panic, di0, w1)
                   | Fail err \<Rightarrow>
                       Some (Fail err, di0\<lparr>di_status := (di_status di0)\<lparr>ds_lastError := Some (UpdatedError (dv_now e w1)
                         (ds_lastError (di_status di0)) ''ConstructExportFromValues'' [] (error_string err) [])\<rparr>\<rparr>, w1)
                   | Done exports \<Rightarrow> ApplyFiles e hl c files crds exports config status di0 w1)))"

text \<open>The deletion also deletes what has the policy to be kept.\<close>

definition resource_text :: "core_reference \<Rightarrow> string" where
  "resource_text ref = rf_namespace ref @ ''/'' @ rf_name ref @ ''('' @ rf_kind ref @ '')''"

definition DeleteFiles ::
    "'w deployer_env \<Rightarrow> helm_config \<Rightarrow> managed_resource list option \<Rightarrow> deploy_item \<Rightarrow> target option \<Rightarrow> 'w
      \<Rightarrow> unit outcome \<times> deploy_item \<times> 'w" where
  "DeleteFiles e config status di target w =
     (let di0 = with_phase PhDeleting di
      in if status = None \<or> status = Some [] then update_item e (without_finalizer di0) w
         else case TargetClient e (hc_kubeconfig config) target w of
                (Inl err, w1) \<Rightarrow> (Fail err, di0, w1)
              | (Inr c, w1) \<Rightarrow>
                  (case delete_managed c (\<lambda>mr. False) (\<lambda>err. IsNotFound err \<or> dv_isNoMatch e err)
                          (rev (case status of None \<Rightarrow> [] | Some mrs \<Rightarrow> mrs)) w1 of
                     (Inl err, w2) \<Rightarrow> (Fail err, di0, w2)
                   | (Inr refs, w2) \<Rightarrow>
                       (if refs \<noteq> []
                        then (Fail (PlainError (''waiting for the deletion of '' @ go_quote (str_join (map resource_text refs) (CHR '',''))
                               @ '' to be completed'')), di0, w2)
                        else update_item e (without_finalizer di0) w2)))"

definition helm_Delete ::
    "'w deployer_env \<Rightarrow> ('w, 'o, 'ch) helm_lib \<Rightarrow> deploy_item \<Rightarrow> target option \<Rightarrow> 'w \<Rightarrow> unit outcome \<times> deploy_item \<times> 'w" where
  "helm_Delete e hl di target w =
     (case helm_New e hl di w of
        Panic \<Rightarrow> (Panic, di, w)
      | Fail err \<Rightarrow> (Fail err, di, w)
      | Done (config, status) \<Rightarrow> DeleteFiles e config status di target w)"

definition helm_ForceReconcile ::
    "'w deployer_env \<Rightarrow> ('w, 'o, 'ch) helm_lib \<Rightarrow> ls_context \<Rightarrow> deploy_item \<Rightarrow> target option \<Rightarrow> 'w
      \<Rightarrow> (unit outcome \<times> deploy_item \<times> 'w) option" where
  "helm_ForceReconcile e hl lsCtx di target w = force_reconcile (helm_Reconcile e hl lsCtx di target w)"

definition helm_NextReconcile ::
    "'w deployer_env \<Rightarrow> ('w, 'o, 'ch) helm_lib \<Rightarrow> (string \<Rightarrow> gerr + (time \<Rightarrow> time)) \<Rightarrow> (duration \<Rightarrow> time \<Rightarrow> time)
      \<Rightarrow> time \<Rightarrow> deploy_item \<Rightarrow> 'w \<Rightarrow> time option outcome" where
  "helm_NextReconcile e hl parseCron every lastTime di w =
     (case helm_New e hl di w of
        Panic \<Rightarrow> Panic
      | Fail err \<Rightarrow> Fail err
      | Done (config, status) \<Rightarrow> outcome_of (next_reconcile parseCron every (hc_continuousReconcile config) lastTime))"

end
