(* ===== verification/ResourceManagerFacts.thy ===== *)
theory ResourceManagerFacts
  imports ResourceManager ExecutionProps ExampleCluster
begin

text \<open>
  What the applier does under every schedule: a group of goroutines ends, objects are written group by group, the
  managed resources are those of the manifests, orphans are deleted last. Witnesses run on a target cluster in memory.
\<close>

section \<open>Objects of manifests\<close>

definition from_manifest :: "'w applier \<Rightarrow> manifest \<Rightarrow> unstructured \<Rightarrow> bool" where
  "from_manifest a m u \<longleftrightarrow> mn_policy m \<noteq> IgnorePolicy
     \<and> (\<exists>d. ra_decode a (mn_raw m) = Inr d \<and> us_kind u = us_kind d \<and> us_apiVersion u = us_apiVersion d
          \<and> om_name (us_meta u) = om_name (us_meta d))"

definition applied_object :: "'w applier \<Rightarrow> manifest \<Rightarrow> unstructured \<Rightarrow> bool" where
  "applied_object a m u \<longleftrightarrow> from_manifest a m u \<and> HasLabelWithValue (us_meta u) ManagedDeployItemLabel (ra_deployItemName a)"

definition apply_write :: "'w applier \<Rightarrow> manifest \<Rightarrow> target_write \<Rightarrow> bool" where
  "apply_write a m x \<longleftrightarrow> (case x of
     TargetCreate u \<Rightarrow> applied_object a m u | TargetUpdate u \<Rightarrow> applied_object a m u
   | TargetPatch cur u \<Rightarrow> applied_object a m u | TargetDelete u \<Rightarrow> False)"

lemma HasLabelWithValue_set_label: "HasLabelWithValue (us_meta (set_label k v u)) k v"
  by (simp add: set_label_def HasLabelWithValue_def map_of_smap_set)

lemma set_label_sel [simp]:
  "us_kind (set_label k v u) = us_kind u" "us_apiVersion (set_label k v u) = us_apiVersion u"
  "om_name (us_meta (set_label k v u)) = om_name (us_meta u)"
  "om_namespace (us_meta (set_label k v u)) = om_namespace (us_meta u)"
  by (simp_all add: set_label_def)

lemma foldl_labels:
  "us_kind (foldl (\<lambda>u (k, v). set_label k v u) u ls) = us_kind u
   \<and> us_apiVersion (foldl (\<lambda>u (k, v). set_label k v u) u ls) = us_apiVersion u
   \<and> om_name (us_meta (foldl (\<lambda>u (k, v). set_label k v u) u ls)) = om_name (us_meta u)
   \<and> om_namespace (us_meta (foldl (\<lambda>u (k, v). set_label k v u) u ls)) = om_namespace (us_meta u)"
  by (induction ls arbitrary: u) (simp_all add: case_prod_beta)

lemma injectLabels_sel [simp]:
  "us_kind (injectLabels a u) = us_kind u" "us_apiVersion (injectLabels a u) = us_apiVersion u"
  "om_name (us_meta (injectLabels a u)) = om_name (us_meta u)" "om_namespace (us_meta (injectLabels a u)) = om_namespace (us_meta u)"
  by (simp_all add: injectLabels_def foldl_labels)

definition same_head :: "unstructured \<Rightarrow> unstructured \<Rightarrow> bool" where
  "same_head u v \<longleftrightarrow> us_kind u = us_kind v \<and> us_apiVersion u = us_apiVersion v \<and> us_meta u = us_meta v"

lemma same_head_refl [simp]: "same_head u u"
  by (simp add: same_head_def)

lemma SetNestedField_head: "SetNestedField u v p = Inr u' \<Longrightarrow> same_head u' u"
  by (auto simp: SetNestedField_def same_head_def split: sum.splits)

lemma copy_field_head: "copy_field ok p cur u = Inr u' \<Longrightarrow> same_head u' u"
  using SetNestedField_head by (auto simp: copy_field_def split: sum.splits option.splits)

lemma copy_secrets_head: "copy_secrets cur u = Inr u' \<Longrightarrow> same_head u' u"
  using SetNestedField_head by (auto simp: copy_secrets_def split: sum.splits option.splits if_splits json.splits list.splits)

lemma same_head_trans: "same_head u v \<Longrightarrow> same_head v x \<Longrightarrow> same_head u x"
  by (simp add: same_head_def)

lemma kind_fields_head: "kind_fields gk cur u = Inr u' \<Longrightarrow> same_head u' u"
  by (auto simp: kind_fields_def dest: copy_field_head copy_secrets_head intro: same_head_trans split: if_splits sum.splits)

lemma SetRequired_head: "SetRequiredNestedFieldsFromObj cur u = Inr u' \<Longrightarrow> same_head u' u"
  using kind_fields_head
  by (fastforce simp: SetRequiredNestedFieldsFromObj_def Let_def same_head_def split: if_splits sum.splits option.splits)

lemma from_manifest_head: "from_manifest a m u \<Longrightarrow> same_head u' u \<Longrightarrow> from_manifest a m u'"
  by (auto simp: from_manifest_def same_head_def)

lemma from_manifest_label [simp]: "from_manifest a m (set_label k v u) = from_manifest a m u"
  by (simp add: from_manifest_def)

lemma from_manifest_inject [simp]: "from_manifest a m (injectLabels a' u) = from_manifest a m u"
  by (simp add: from_manifest_def)

lemma from_manifest_namespace [simp]:
  "from_manifest a m (u\<lparr>us_meta := (us_meta u)\<lparr>om_namespace := ns\<rparr>\<rparr>) = from_manifest a m u"
  by (simp add: from_manifest_def)

section \<open>Workers\<close>

text \<open>What the server promises: it answers with the object that was asked for.\<close>

definition honest_target :: "'w target_client \<Rightarrow> bool" where
  "honest_target c \<longleftrightarrow> (\<forall>k key w u w'. tc_get c k key w = (Inr u, w') \<longrightarrow> us_key u = key)
     \<and> (\<forall>u w u' w'. tc_create c u w = (Inr u', w') \<longrightarrow> us_key u' = us_key u)"

lemma honest_get: "honest_target c \<Longrightarrow> tc_get c k key w = (Inr u, w') \<Longrightarrow> us_key u = key"
  unfolding honest_target_def by blast

lemma honest_create: "honest_target c \<Longrightarrow> tc_create c u w = (Inr u', w') \<Longrightarrow> us_key u' = us_key u"
  unfolding honest_target_def by blast

definition manages :: "'w applier \<Rightarrow> manifest \<Rightarrow> managed_resource \<Rightarrow> bool" where
  "manages a m mr \<longleftrightarrow> ms_policy mr = mn_policy m \<and> mn_policy m \<noteq> IgnorePolicy
     \<and> (honest_target (ra_client a) \<longrightarrow> (\<exists>d. ra_decode a (mn_raw m) = Inr d \<and> rf_name (ms_resource mr) = om_name (us_meta d)))"

fun worker_ok :: "'w applier \<Rightarrow> manifest \<Rightarrow> worker \<Rightarrow> bool" where
  "worker_ok a m (ApplyStart m') \<longleftrightarrow> m' = m"
| "worker_ok a m (ApplyRead m' u) \<longleftrightarrow> m' = m \<and> from_manifest a m u"
| "worker_ok a m (ApplyWrite m' u cur) \<longleftrightarrow> m' = m \<and> from_manifest a m u
     \<and> (\<forall>x. cur = Some x \<and> honest_target (ra_client a) \<longrightarrow> us_key x = us_key u)"
| "worker_ok a m (ApplyDone mr e) \<longleftrightarrow> (\<forall>x. mr = Some x \<longrightarrow> manages a m x)
     \<and> (mr = None \<and> e = None \<longrightarrow> mn_policy m \<in> {IgnorePolicy, FallbackPolicy})"

fun worker_rank :: "worker \<Rightarrow> nat" where
  "worker_rank (ApplyStart m) = 3"
| "worker_rank (ApplyRead m u) = 2"
| "worker_rank (ApplyWrite m u cur) = 1"
| "worker_rank (ApplyDone mr e) = 0"

lemma apply_done_rank: "apply_done v \<longleftrightarrow> worker_rank v = 0"
  by (cases v) auto

lemma managed_of_manages:
  assumes "from_manifest a m u" "honest_target (ra_client a) \<longrightarrow> us_key x = us_key u"
  shows "manages a m (managed_of m x)"
  using assms
  by (auto simp: manages_def managed_of_def CoreObjectReferenceFromUnstructuredObject_def from_manifest_def us_key_def ObjectKey_def)

lemma apply_start_ok:
  "apply_start a m w = (v, w') \<Longrightarrow> worker_ok a m v \<and> worker_rank v \<le> 2"
  by (auto simp: apply_start_def from_manifest_def split: if_splits sum.splits prod.splits)

lemma apply_read_ok:
  assumes "apply_read a m u w = (v, w')" "from_manifest a m u"
  shows "worker_ok a m v \<and> worker_rank v \<le> 1"
  using assms by (auto simp: apply_read_def dest: honest_get split: if_splits sum.splits prod.splits)

lemma apply_create_ok:
  assumes "apply_create a m u w = (v, w')" "from_manifest a m u"
  shows "worker_ok a m v \<and> worker_rank v = 0"
proof -
  let ?u = "set_label ManagedDeployItemLabel (ra_deployItemName a) u"
  have "honest_target (ra_client a) \<longrightarrow> us_key x = us_key u" if "tc_create (ra_client a) ?u w = (Inr x, w1)" for x w1
    using honest_create [OF _ that] by (simp add: us_key_def)
  with assms show ?thesis
    by (auto simp: apply_create_def intro: managed_of_manages split: sum.splits prod.splits)
qed

lemma apply_update_ok:
  assumes "apply_update a m u cur w = (v, w')" "from_manifest a m u" "honest_target (ra_client a) \<longrightarrow> us_key cur = us_key u"
  shows "worker_ok a m v \<and> worker_rank v = 0"
  using assms managed_of_manages [OF assms(2,3)]
  by (auto simp: apply_update_def Let_def split: if_splits sum.splits prod.splits update_strategy.splits)

lemma apply_step_ok:
  assumes "apply_step a v w = (v', w')" "worker_ok a m v"
  shows "worker_ok a m v' \<and> worker_rank v' \<le> worker_rank v - 1"
  using assms apply_start_ok apply_read_ok apply_create_ok apply_update_ok
  by (cases "(a, v, w)" rule: apply_step.cases) fastforce+

lemma apply_step_writes:
  assumes "apply_step a v s = (v', s')" "worker_ok a m v" "ra_client a = logged_target c"
  shows "writes_only (apply_write a m) s s'"
proof (cases "(a, v, s)" rule: apply_step.cases)
  case (1 a m w)
  then show ?thesis
    using assms
    by (auto simp: apply_start_def getApiResource_def Let_def dest: unlogged_writes split: if_splits sum.splits prod.splits option.splits)
next
  case (2 a m obj w)
  then show ?thesis
    using assms by (auto simp: apply_read_def dest: unlogged_writes split: if_splits sum.splits prod.splits)
next
  case (3 a m obj w)
  let ?u = "set_label ManagedDeployItemLabel (ra_deployItemName a) obj"
  have "apply_write a m (TargetCreate ?u)"
    using 3 assms by (simp add: apply_write_def applied_object_def HasLabelWithValue_set_label)
  with 3 assms show ?thesis
    by (auto simp: apply_create_def dest: logged_writes split: sum.splits prod.splits)
next
  case (4 a m obj cur w)
  have "apply_write a m (TargetUpdate u) \<and> apply_write a m (TargetPatch cur u)"
    if "SetRequiredNestedFieldsFromObj cur (set_label ManagedDeployItemLabel (ra_deployItemName a) (injectLabels a obj)) = Inr u" for u
    using 4 assms SetRequired_head [OF that]
    by (auto simp: apply_write_def applied_object_def same_head_def HasLabelWithValue_set_label from_manifest_def)
  with 4 assms show ?thesis
    by (auto simp: apply_update_def Let_def dest: logged_writes split: if_splits sum.splits prod.splits update_strategy.splits)
next
  case (5 a mr e w)
  then show ?thesis using assms by simp
qed

section \<open>Groups\<close>

definition group_ok :: "'w applier \<Rightarrow> manifest list \<Rightarrow> apply_state \<Rightarrow> bool" where
  "group_ok a ms s \<longleftrightarrow> list_all2 (worker_ok a) ms (as_workers s)
     \<and> (\<forall>x e. ApplyDone (Some x) e \<in> set (as_workers s) \<longrightarrow> x \<in> set (as_managed s))
     \<and> (\<forall>x e. ApplyDone x (Some e) \<in> set (as_workers s) \<longrightarrow> e \<in> set (as_errors s))
     \<and> (\<forall>x \<in> set (as_managed s). \<exists>m \<in> set ms. manages a m x)"

lemma record_result_sel [simp]: "as_workers (record_result v s) = as_workers s"
  by (cases v) auto

lemma group_step_ok:
  assumes "group_ok a ms s"
  shows "group_ok a ms (fst (group_step a i (s, w)))"
proof (cases "i < length (as_workers s) \<and> \<not> apply_done (as_workers s ! i)")
  case True
  obtain v w1 where v: "apply_step a (as_workers s ! i) w = (v, w1)" by (cases "apply_step a (as_workers s ! i) w")
  have i: "i < length ms" "i < length (as_workers s)" using True assms by (auto simp: group_ok_def list_all2_lengthD)
  have "worker_ok a (ms ! i) (as_workers s ! i)" using assms i(1) by (auto simp: group_ok_def list_all2_conv_all_nth)
  from apply_step_ok [OF v this] have ok: "worker_ok a (ms ! i) v" by simp
  let ?s = "record_result v (s\<lparr>as_workers := (as_workers s)[i := v]\<rparr>)"
  have "list_all2 (worker_ok a) ms ((as_workers s)[i := v])"
    using assms ok i by (auto simp: group_ok_def list_all2_conv_all_nth nth_list_update)
  moreover have "set ((as_workers s)[i := v]) \<subseteq> insert v (set (as_workers s))" by (rule set_update_subset_insert)
  moreover have "ms ! i \<in> set ms" using i by simp
  ultimately have "group_ok a ms ?s"
    using assms ok by (cases v) (fastforce simp: group_ok_def split: option.splits)+
  then show ?thesis using True v by (simp add: group_step_def)
next
  case False
  then have "group_step a i (s, w) = (s, w)" by (simp only: group_step_def prod.case if_False)
  then show ?thesis using assms by simp
qed

lemma group_step_writes:
  assumes "group_ok a ms s" "ra_client a = logged_target c"
  shows "writes_only (\<lambda>x. \<exists>m \<in> set ms. apply_write a m x) w (snd (group_step a i (s, w)))"
proof (cases "i < length (as_workers s) \<and> \<not> apply_done (as_workers s ! i)")
  case True
  obtain v w1 where v: "apply_step a (as_workers s ! i) w = (v, w1)" by (cases "apply_step a (as_workers s ! i) w")
  have i: "i < length ms" using True assms by (auto simp: group_ok_def list_all2_lengthD)
  have "worker_ok a (ms ! i) (as_workers s ! i)" using assms i by (auto simp: group_ok_def list_all2_conv_all_nth)
  from apply_step_writes [OF v this assms(2)] have "writes_only (\<lambda>x. \<exists>m \<in> set ms. apply_write a m x) w w1"
    by (rule writes_only_weaken) (use i in auto)
  then show ?thesis using True v by (simp add: group_step_def)
next
  case False
  then have "group_step a i (s, w) = (s, w)" by (simp only: group_step_def prod.case if_False)
  then show ?thesis by simp
qed

lemma group_steps_ok: "group_ok a ms s \<Longrightarrow> group_ok a ms (fst (fold (group_step a) is (s, w)))"
proof (induction "is" arbitrary: s w)
  case (Cons i "is")
  obtain s1 w1 where s1: "group_step a i (s, w) = (s1, w1)" by (cases "group_step a i (s, w)")
  have "group_ok a ms s1" using group_step_ok [OF Cons.prems, of i w] s1 by simp
  from Cons.IH [OF this, of w1] s1 show ?case by simp
qed simp

lemma group_steps_writes:
  assumes "ra_client a = logged_target c"
  shows "group_ok a ms s \<Longrightarrow> writes_only (\<lambda>x. \<exists>m \<in> set ms. apply_write a m x) w (snd (fold (group_step a) is (s, w)))"
proof (induction "is" arbitrary: s w)
  case (Cons i "is")
  obtain s1 w1 where s1: "group_step a i (s, w) = (s1, w1)" by (cases "group_step a i (s, w)")
  have "group_ok a ms s1" using group_step_ok [OF Cons.prems, of i w] s1 by simp
  from Cons.IH [OF this, of w1] group_step_writes [OF Cons.prems assms, of w i] s1 show ?case
    by (simp add: writes_only_trans)
qed simp

text \<open>Each step of a worker brings it closer to its end, and no step of another moves it.\<close>

lemma group_step_rank:
  assumes "group_ok a ms s" "j < length ms"
  shows "worker_rank (as_workers (fst (group_step a i (s, w))) ! j) \<le> worker_rank (as_workers s ! j) - (if i = j then 1 else 0)"
proof (cases "i < length (as_workers s) \<and> \<not> apply_done (as_workers s ! i)")
  case True
  obtain v w1 where v: "apply_step a (as_workers s ! i) w = (v, w1)" by (cases "apply_step a (as_workers s ! i) w")
  have i: "i < length ms" using True assms by (auto simp: group_ok_def list_all2_lengthD)
  have "worker_ok a (ms ! i) (as_workers s ! i)" using assms i by (auto simp: group_ok_def list_all2_conv_all_nth)
  from apply_step_ok [OF v this] True v show ?thesis by (auto simp: group_step_def nth_list_update)
next
  case False
  then have "group_step a i (s, w) = (s, w)" by (simp only: group_step_def prod.case if_False)
  moreover have "i = j \<longrightarrow> worker_rank (as_workers s ! j) = 0"
    using False assms by (auto simp: apply_done_rank group_ok_def list_all2_lengthD)
  ultimately show ?thesis by auto
qed

lemma group_steps_rank:
  "group_ok a ms s \<Longrightarrow> j < length ms \<Longrightarrow>
     worker_rank (as_workers (fst (fold (group_step a) is (s, w))) ! j) \<le> worker_rank (as_workers s ! j) - count_list is j"
proof (induction "is" arbitrary: s w)
  case (Cons i "is")
  obtain s1 w1 where s1: "group_step a i (s, w) = (s1, w1)" by (cases "group_step a i (s, w)")
  have "group_ok a ms s1" using group_step_ok [OF Cons.prems(1), of i w] s1 by simp
  from Cons.IH [OF this Cons.prems(2), of w1] group_step_rank [OF Cons.prems, of i w] s1 show ?case by (auto split: if_splits)
qed simp

lemma rest_schedule_count: "j < n \<Longrightarrow> count_list (rest_schedule n) j = 3"
proof -
  have r: "count_list (replicate k i) j = (if i = j then k else 0)" for i k :: nat by (induction k) auto
  show "j < n \<Longrightarrow> count_list (rest_schedule n) j = 3"
    by (induction n) (auto simp: rest_schedule_def r less_Suc_eq)
qed

lemma start_group_ok: "group_ok a ms \<lparr>as_workers = map ApplyStart ms, as_errors = [], as_managed = []\<rparr>"
  by (auto simp: group_ok_def list_all2_conv_all_nth)

lemma group_ok_length: "group_ok a ms s \<Longrightarrow> length (as_workers s) = length ms"
  by (auto simp: group_ok_def dest: list_all2_lengthD)

lemma worker_rank_le: "worker_rank v \<le> 3"
  by (cases v) auto

text \<open>All goroutines of a group end, whatever the schedule is.\<close>

lemma run_group_ends:
  assumes "run_group a schedule ms w = (s, w')"
  shows "group_ok a ms s \<and> list_all apply_done (as_workers s)"
proof -
  let ?s0 = "\<lparr>as_workers = map ApplyStart ms, as_errors = [], as_managed = []\<rparr>"
  let ?is = "schedule @ rest_schedule (length ms)"
  have s: "s = fst (fold (group_step a) ?is (?s0, w))" using assms by (simp add: run_group_def)
  have ok: "group_ok a ms s" unfolding s by (rule group_steps_ok [OF start_group_ok])
  have "apply_done (as_workers s ! j)" if "j < length (as_workers s)" for j
  proof -
    have j: "j < length ms" using that ok by (simp add: group_ok_length)
    have "worker_rank (as_workers s ! j) \<le> worker_rank (as_workers ?s0 ! j) - count_list ?is j"
      unfolding s by (rule group_steps_rank [OF start_group_ok j])
    then show ?thesis
      using rest_schedule_count [OF j] worker_rank_le [of "as_workers ?s0 ! j"] by (simp add: apply_done_rank)
  qed
  with ok show ?thesis by (simp add: list_all_length)
qed

lemma run_group_writes:
  assumes "run_group a schedule ms w = (s, w')" "ra_client a = logged_target c"
  shows "writes_only (\<lambda>x. \<exists>m \<in> set ms. apply_write a m x) w w'"
  using group_steps_writes [OF assms(2) start_group_ok, of ms w "schedule @ rest_schedule (length ms)"] assms(1)
  by (simp add: run_group_def)

lemma run_group_managed:
  assumes "run_group a schedule ms w = (s, w')"
  shows "(\<forall>x \<in> set (as_managed s). \<exists>m \<in> set ms. manages a m x)
    \<and> (as_errors s = [] \<longrightarrow> (\<forall>m \<in> set ms. mn_policy m \<notin> {IgnorePolicy, FallbackPolicy} \<longrightarrow> (\<exists>x \<in> set (as_managed s). manages a m x)))"
proof -
  have ok: "group_ok a ms s" and d: "list_all apply_done (as_workers s)" using run_group_ends [OF assms] by simp_all
  have "\<exists>x \<in> set (as_managed s). manages a m x"
    if e: "as_errors s = []" and m: "m \<in> set ms" "mn_policy m \<notin> {IgnorePolicy, FallbackPolicy}" for m
  proof -
    obtain j where j: "j < length ms" "ms ! j = m" using m(1) by (auto simp: in_set_conv_nth)
    have jw: "j < length (as_workers s)" using j ok by (simp add: group_ok_length)
    have v: "worker_ok a m (as_workers s ! j)" using ok j by (auto simp: group_ok_def list_all2_conv_all_nth)
    have "apply_done (as_workers s ! j)" using d jw by (simp add: list_all_length)
    then obtain mr e where at: "as_workers s ! j = ApplyDone mr e" by (cases "as_workers s ! j") auto
    then have inw: "ApplyDone mr e \<in> set (as_workers s)" using jw by (metis nth_mem)
    have "e = None" using inw ok e by (cases e) (auto simp: group_ok_def)
    with v at m(2) obtain x where x: "mr = Some x" "manages a m x" by (cases mr) auto
    then show ?thesis using inw ok by (auto simp: group_ok_def)
  qed
  with ok show ?thesis by (auto simp: group_ok_def)
qed

section \<open>The groups one after the other\<close>

lemma set_sort_managed [simp]: "set (sort_managed mrs) = set mrs"
  by (simp add: sort_managed_def)

lemma apply_groups_managed:
  "apply_groups a k gs errs managed w = (errs', managed', w') \<Longrightarrow>
     (\<forall>x \<in> set managed'. x \<in> set managed \<or> (\<exists>m \<in> set (concat gs). manages a m x))
   \<and> set managed \<subseteq> set managed'
   \<and> (errs' = [] \<longrightarrow> errs = [] \<and> (\<forall>m \<in> set (concat gs). mn_policy m \<notin> {IgnorePolicy, FallbackPolicy} \<longrightarrow> (\<exists>x \<in> set managed'. manages a m x)))"
proof (induction gs arbitrary: k errs managed w)
  case (Cons ms gs)
  obtain s w1 where r: "run_group a (ra_schedule a k) ms w = (s, w1)" by (cases "run_group a (ra_schedule a k) ms w")
  from Cons.prems r have "apply_groups a (Suc k) gs (errs @ as_errors s) (managed @ sort_managed (as_managed s)) w1 = (errs', managed', w')"
    by simp
  note IH = Cons.IH [OF this]
  note G = run_group_managed [OF r]
  show ?case
  proof (intro conjI ballI impI)
    show "x \<in> set managed \<or> (\<exists>m \<in> set (concat (ms # gs)). manages a m x)" if "x \<in> set managed'" for x
    proof -
      from that IH have "x \<in> set (managed @ sort_managed (as_managed s)) \<or> (\<exists>m \<in> set (concat gs). manages a m x)" by blast
      then show ?thesis using G by auto
    qed
    show "set managed \<subseteq> set managed'" using IH by auto
    show "errs = []" if "errs' = []" using that IH by simp
    show "\<exists>x \<in> set managed'. manages a m x"
      if e: "errs' = []" and m: "m \<in> set (concat (ms # gs))" "mn_policy m \<notin> {IgnorePolicy, FallbackPolicy}" for m
    proof (cases "m \<in> set ms")
      case True
      have "as_errors s = []" using IH e by simp
      with G True m(2) obtain x where "x \<in> set (as_managed s)" "manages a m x" by blast
      then show ?thesis using IH by auto
    next
      case False
      then show ?thesis using e m IH by auto
    qed
  qed
qed auto

lemma split_manifests_sets:
  "split_manifests a xs crds info todo = Inr (crds', info', todo') \<Longrightarrow>
     (\<forall>x \<in> set xs. \<exists>m \<in> set crds' \<union> set todo'. mn_policy m = mf_policy x \<and> mn_raw m = mf_manifest x)
   \<and> set crds \<subseteq> set crds' \<and> set todo \<subseteq> set todo'
   \<and> (\<forall>m \<in> set crds' \<union> set todo'. m \<in> set crds \<union> set todo \<or> (\<exists>x \<in> set xs. mn_policy m = mf_policy x \<and> mn_raw m = mf_manifest x))
   \<and> (\<forall>m \<in> set crds'. m \<in> set crds \<or> gk_kind (mn_gvk m) = ''CustomResourceDefinition'')
   \<and> (\<forall>m \<in> set todo'. m \<in> set todo \<or> gk_kind (mn_gvk m) \<noteq> ''CustomResourceDefinition'')"
proof (induction xs arbitrary: crds info todo)
  case (Cons x xs)
  obtain av kind where t: "ra_typeMeta a (mf_manifest x) = Inr (av, kind)"
    using Cons.prems by (auto split: sum.splits)
  let ?m = "\<lparr>mn_gvk = FromAPIVersionAndKind av kind, mn_policy = mf_policy x, mn_raw = mf_manifest x\<rparr>"
  have k: "gk_kind (mn_gvk ?m) = kind" by (simp add: FromAPIVersionAndKind_def split: option.split)
  show ?case
  proof (cases "kind = ''CustomResourceDefinition''")
    case True
    then obtain gk ns where "ra_crd a (mf_manifest x) = Inr (gk, ns)"
      using Cons.prems t by (auto split: sum.splits)
    then have "split_manifests a xs (crds @ [?m]) (AList.update gk ns info) todo = Inr (crds', info', todo')"
      using Cons.prems t True by (simp add: Let_def)
    note I = Cons.IH [OF this]
    have m: "?m \<in> set crds'" using I by simp
    then have x: "\<exists>m \<in> set crds' \<union> set todo'. mn_policy m = mf_policy x \<and> mn_raw m = mf_manifest x"
      by (intro bexI [of _ ?m]) simp_all
    show ?thesis
    proof (intro conjI)
      show "\<forall>y \<in> set (x # xs). \<exists>m \<in> set crds' \<union> set todo'. mn_policy m = mf_policy y \<and> mn_raw m = mf_manifest y"
        using I x by simp
      show "\<forall>m \<in> set crds' \<union> set todo'. m \<in> set crds \<union> set todo \<or> (\<exists>y \<in> set (x # xs). mn_policy m = mf_policy y \<and> mn_raw m = mf_manifest y)"
      proof
        fix n assume "n \<in> set crds' \<union> set todo'"
        then have "n \<in> set crds \<union> set todo \<or> n = ?m \<or> (\<exists>y \<in> set xs. mn_policy n = mf_policy y \<and> mn_raw n = mf_manifest y)"
          using I by auto
        then show "n \<in> set crds \<union> set todo \<or> (\<exists>y \<in> set (x # xs). mn_policy n = mf_policy y \<and> mn_raw n = mf_manifest y)"
          by (elim disjE) simp_all
      qed
    qed (use I k True in auto)
  next
    case False
    then have "split_manifests a xs crds info (todo @ [?m]) = Inr (crds', info', todo')"
      using Cons.prems t by (simp add: Let_def)
    note I = Cons.IH [OF this]
    have m: "?m \<in> set todo'" using I by simp
    then have x: "\<exists>m \<in> set crds' \<union> set todo'. mn_policy m = mf_policy x \<and> mn_raw m = mf_manifest x"
      by (intro bexI [of _ ?m]) simp_all
    show ?thesis
    proof (intro conjI)
      show "\<forall>y \<in> set (x # xs). \<exists>m \<in> set crds' \<union> set todo'. mn_policy m = mf_policy y \<and> mn_raw m = mf_manifest y"
        using I x by simp
      show "\<forall>m \<in> set crds' \<union> set todo'. m \<in> set crds \<union> set todo \<or> (\<exists>y \<in> set (x # xs). mn_policy m = mf_policy y \<and> mn_raw m = mf_manifest y)"
      proof
        fix n assume "n \<in> set crds' \<union> set todo'"
        then have "n \<in> set crds \<union> set todo \<or> n = ?m \<or> (\<exists>y \<in> set xs. mn_policy n = mf_policy y \<and> mn_raw n = mf_manifest y)"
          using I by auto
        then show "n \<in> set crds \<union> set todo \<or> (\<exists>y \<in> set (x # xs). mn_policy n = mf_policy y \<and> mn_raw n = mf_manifest y)"
          by (elim disjE) simp_all
      qed
    qed (use I k False in auto)
  qed
qed auto

lemma group_manifests_sets:
  "group_manifests a info ms g w = (Inr g', w') \<Longrightarrow>
     mg_crds g' = mg_crds g
   \<and> set (mg_clusterwide g') \<union> set (mg_namespaced g') = set (mg_clusterwide g) \<union> set (mg_namespaced g) \<union> set ms"
proof (induction ms arbitrary: g w)
  case (Cons m ms)
  obtain r w1 where r: "getApiResource a m w = (r, w1)" by (cases "getApiResource a m w")
  obtain n where n: "(case r of Inr namespaced \<Rightarrow> Inr namespaced
      | Inl e \<Rightarrow> (case map_of info (group_kind (mn_gvk m)) of Some namespaced \<Rightarrow> Inr namespaced | None \<Rightarrow> Inl e)) = Inr n"
    using Cons.prems r by (auto split: sum.splits option.splits)
  show ?case
  proof (cases n)
    case True
    then have "group_manifests a info ms (g\<lparr>mg_namespaced := mg_namespaced g @ [m]\<rparr>) w1 = (Inr g', w')"
      using Cons.prems r n by simp
    from Cons.IH [OF this] show ?thesis by auto
  next
    case False
    then have "group_manifests a info ms (g\<lparr>mg_clusterwide := mg_clusterwide g @ [m]\<rparr>) w1 = (Inr g', w')"
      using Cons.prems r n by simp
    from Cons.IH [OF this] show ?thesis by auto
  qed
qed simp

section \<open>What is managed\<close>

definition managed_for :: "'w applier \<Rightarrow> managed_manifest \<Rightarrow> managed_resource \<Rightarrow> bool" where
  "managed_for a x mr \<longleftrightarrow> ms_policy mr = mf_policy x \<and> mf_policy x \<noteq> IgnorePolicy
     \<and> (\<exists>d. ra_decode a (mf_manifest x) = Inr d \<and> rf_name (ms_resource mr) = om_name (us_meta d))"

lemma applied_manifests_managed:
  assumes honest: "honest_target (ra_client a)" and run: "Apply a old w = (None, new, w')"
  shows "(\<forall>x \<in> set (ra_manifests a). mf_policy x \<notin> {IgnorePolicy, FallbackPolicy} \<longrightarrow> (\<exists>mr \<in> set new. managed_for a x mr))
    \<and> (\<forall>mr \<in> set new. \<exists>x \<in> set (ra_manifests a). managed_for a x mr)"
proof -
  obtain g w1 where g: "prepareManifests a w = (Inr g, w1)"
    using run by (auto simp: Apply_def split: prod.splits sum.splits)
  let ?gs = "[mg_crds g, mg_clusterwide g, mg_namespaced g]"
  obtain w2 where r: "apply_groups a 0 ?gs [] [] w1 = ([], new, w2)"
    using run g by (auto simp: Apply_def split: prod.splits option.splits if_splits)
  obtain crds info todo where s: "split_manifests a (ra_manifests a) [] [] [] = Inr (crds, info, todo)"
    and g2: "group_manifests a info todo \<lparr>mg_crds = crds, mg_clusterwide = [], mg_namespaced = []\<rparr> w = (Inr g, w1)"
    using g by (auto simp: prepareManifests_def split: sum.splits)
  have all: "set (concat ?gs) = set crds \<union> set todo" using group_manifests_sets [OF g2] by auto
  note S = split_manifests_sets [OF s] note G = apply_groups_managed [OF r]
  have S4: "\<forall>m \<in> set crds \<union> set todo. \<exists>x \<in> set (ra_manifests a). mn_policy m = mf_policy x \<and> mn_raw m = mf_manifest x"
    using S by simp
  have m: "managed_for a x mr" if "manages a m mr" "mn_policy m = mf_policy x" "mn_raw m = mf_manifest x" for m x mr
    using that honest by (auto simp: manages_def managed_for_def)
  show ?thesis
  proof (intro conjI ballI impI)
    fix x assume x: "x \<in> set (ra_manifests a)" "mf_policy x \<notin> {IgnorePolicy, FallbackPolicy}"
    then obtain m where "m \<in> set (concat ?gs)" "mn_policy m = mf_policy x" "mn_raw m = mf_manifest x"
      using S all by blast
    then show "\<exists>mr \<in> set new. managed_for a x mr" using G x(2) m by metis
  next
    fix mr assume "mr \<in> set new"
    then obtain m' where m': "m' \<in> set (concat ?gs)" "manages a m' mr" using G by auto
    have "m' \<in> set crds \<union> set todo" using m'(1) unfolding all .
    from bspec [OF S4 this] obtain x where "x \<in> set (ra_manifests a)" "mn_policy m' = mf_policy x" "mn_raw m' = mf_manifest x"
      by (elim bexE conjE)
    then show "\<exists>x \<in> set (ra_manifests a). managed_for a x mr" using m m'(2) by blast
  qed
qed

text \<open>
  C11: managed resources follow the manifests. If the server answers with the objects that it was asked for and \<open>Apply\<close>
  ends without an error, then for every schedule of its goroutines each manifest whose policy is neither ignore nor
  fallback has a managed resource with its policy and the name of its object, and each managed resource stems
  from a manifest.
\<close>

theorem managed_resources_follow_manifests:
  assumes honest: "honest_target (ra_client a)" and run: "Apply a old w = (None, new, w')"
  shows "(\<forall>x \<in> set (ra_manifests a). mf_policy x \<notin> {IgnorePolicy, FallbackPolicy} \<longrightarrow> (\<exists>mr \<in> set new. managed_for a x mr))
    \<and> (\<forall>mr \<in> set new. \<exists>x \<in> set (ra_manifests a). managed_for a x mr)"
  by (rule applied_manifests_managed [OF assms])

section \<open>The order of the writes\<close>

definition orphan_object :: "'w target_client \<Rightarrow> managed_resource list \<Rightarrow> managed_resource list \<Rightarrow> unstructured \<Rightarrow> bool" where
  "orphan_object c old new obj \<longleftrightarrow> (\<exists>mr \<in> set old. ms_policy mr \<notin> {IgnorePolicy, KeepPolicy} \<and> \<not> containsObjectRef (ms_resource mr) new
     \<and> (\<exists>w w'. tc_get c (GroupVersionKind (ObjectFromCoreObjectReference (ms_resource mr)))
            (us_key (ObjectFromCoreObjectReference (ms_resource mr))) w = (Inr obj, w')))"

definition orphan_write :: "'w target_client \<Rightarrow> managed_resource list \<Rightarrow> managed_resource list \<Rightarrow> target_write \<Rightarrow> bool" where
  "orphan_write c old new x \<longleftrightarrow> (\<exists>obj. x = TargetDelete obj \<and> orphan_object c old new obj)"

fun deletion_ok :: "(unstructured \<Rightarrow> bool) \<Rightarrow> deletion \<Rightarrow> bool" where
  "deletion_ok P (DeleteObject obj) \<longleftrightarrow> P obj"
| "deletion_ok P d \<longleftrightarrow> True"

lemma unlogged_answer: "unlogged_call f s = (r, s') \<Longrightarrow> \<exists>w'. f (fst s) = (r, w')"
  by (auto simp: unlogged_call_def split: prod.splits)

lemma deletion_step_ok:
  assumes "ra_client a = logged_target c" "deletion_step a d s = (d', s')" "deletion_ok P d"
  shows "deletion_ok P d' \<and> writes_only (\<lambda>x. \<exists>obj. x = TargetDelete obj \<and> P obj) s s'"
  using assms
  by (cases "(a, d, s)" rule: deletion_step.cases)
    (auto dest: unlogged_writes logged_writes [where P = "\<lambda>x. \<exists>obj. x = TargetDelete obj \<and> P obj"] split: prod.splits option.splits sum.splits if_splits)

lemma deletions_step_ok:
  assumes "ra_client a = logged_target c" "list_all (deletion_ok P) ds"
  shows "list_all (deletion_ok P) (fst (deletions_step a i (ds, s)))
    \<and> writes_only (\<lambda>x. \<exists>obj. x = TargetDelete obj \<and> P obj) s (snd (deletions_step a i (ds, s)))"
proof (cases "i < length ds")
  case True
  obtain d s1 where d: "deletion_step a (ds ! i) s = (d, s1)" by (cases "deletion_step a (ds ! i) s")
  have "deletion_ok P (ds ! i)" using assms(2) True by (simp add: list_all_length)
  from deletion_step_ok [OF assms(1) d this] show ?thesis
    using True assms(2) d by (auto simp: deletions_step_def list_all_length nth_list_update)
qed (use assms in \<open>simp add: deletions_step_def\<close>)

lemma deletions_steps_ok:
  "ra_client a = logged_target c \<Longrightarrow> list_all (deletion_ok P) ds \<Longrightarrow> fold (deletions_step a) is (ds, s) = (ds', s') \<Longrightarrow>
     list_all (deletion_ok P) ds' \<and> writes_only (\<lambda>x. \<exists>obj. x = TargetDelete obj \<and> P obj) s s'"
proof (induction "is" arbitrary: ds s)
  case (Cons i "is")
  obtain ds1 s1 where st: "deletions_step a i (ds, s) = (ds1, s1)" by (cases "deletions_step a i (ds, s)")
  from deletions_step_ok [OF Cons.prems(1,2), of i s] st
  have "list_all (deletion_ok P) ds1" "writes_only (\<lambda>x. \<exists>obj. x = TargetDelete obj \<and> P obj) s s1" by simp_all
  with Cons.IH [OF Cons.prems(1), of ds1 s1] Cons.prems(3) st writes_only_trans show ?case by fastforce
qed simp

lemma orphans_loop_writes:
  assumes "ra_client a = logged_target c"
  shows "set mrs \<subseteq> set old \<Longrightarrow> list_all (deletion_ok (orphan_object c old new)) ds \<Longrightarrow>
     orphans_loop a new k mrs ds s = (r, s') \<Longrightarrow>
     writes_only (orphan_write c old new) s s' \<and> (\<forall>ds'. r = Inr ds' \<longrightarrow> list_all (deletion_ok (orphan_object c old new)) ds')"
proof (induction mrs arbitrary: k ds s)
  case (Cons mr mrs)
  have rest: "set mrs \<subseteq> set old" using Cons.prems(1) by simp
  show ?case
  proof (cases "ms_policy mr = IgnorePolicy \<or> ms_policy mr = KeepPolicy")
    case True
    then have "orphans_loop a new (Suc k) mrs ds s = (r, s')" using Cons.prems(3) by simp
    from Cons.IH [OF rest Cons.prems(2) this] show ?thesis .
  next
    case policy: False
    let ?bare = "ObjectFromCoreObjectReference (ms_resource mr)"
    obtain ds1 s1 where f: "fold (deletions_step a) (ra_schedule a k) (ds, s) = (ds1, s1)"
      by (cases "fold (deletions_step a) (ra_schedule a k) (ds, s)")
    from deletions_steps_ok [OF assms Cons.prems(2) f]
    have ds1: "list_all (deletion_ok (orphan_object c old new)) ds1" "writes_only (orphan_write c old new) s s1"
      by (simp_all add: orphan_write_def [abs_def])
    obtain x s2 where get: "tc_get (ra_client a) (GroupVersionKind ?bare) (us_key ?bare) s1 = (x, s2)"
      by (cases "tc_get (ra_client a) (GroupVersionKind ?bare) (us_key ?bare) s1")
    then have w2: "writes_only (orphan_write c old new) s s2"
      using assms ds1(2) unlogged_writes writes_only_trans by fastforce
    show ?thesis
    proof (cases x)
      case (Inl e)
      show ?thesis
      proof (cases "IsNotFound e")
        case True
        then have "orphans_loop a new (Suc k) mrs ds1 s2 = (r, s')" using Cons.prems(3) policy f get Inl by (simp add: Let_def)
        from Cons.IH [OF rest ds1(1) this] show ?thesis using w2 writes_only_trans by blast
      next
        case False
        obtain ds3 s3 where b: "fold (deletions_step a) (ra_schedule a (Suc k + length mrs)) (ds1, s2) = (ds3, s3)"
          by (cases "fold (deletions_step a) (ra_schedule a (Suc k + length mrs)) (ds1, s2)")
        have "writes_only (orphan_write c old new) s2 s3"
          using deletions_steps_ok [OF assms ds1(1) b] by (simp add: orphan_write_def [abs_def])
        with w2 have "writes_only (orphan_write c old new) s s3" by (rule writes_only_trans)
        moreover have "s' = s3" "\<exists>e. r = Inl e" using Cons.prems(3) policy f get Inl False b by (auto simp: Let_def)
        ultimately show ?thesis by auto
      qed
    next
      case (Inr obj)
      show ?thesis
      proof (cases "containsObjectRef (ms_resource mr) new")
        case True
        then have "orphans_loop a new (Suc k) mrs ds1 s2 = (r, s')" using Cons.prems(3) policy f get Inr by (simp add: Let_def)
        from Cons.IH [OF rest ds1(1) this] show ?thesis using w2 writes_only_trans by blast
      next
        case False
        have "orphan_object c old new obj"
        proof -
          obtain w3 where "tc_get c (GroupVersionKind ?bare) (us_key ?bare) (fst s1) = (Inr obj, w3)"
            using unlogged_answer get Inr assms by (metis logged_target_sel(1))
          then show ?thesis using Cons.prems(1) policy False by (auto simp: orphan_object_def)
        qed
        then have "list_all (deletion_ok (orphan_object c old new)) (ds1 @ [DeleteObject obj])" using ds1(1) by simp
        moreover have "orphans_loop a new (Suc k) mrs (ds1 @ [DeleteObject obj]) s2 = (r, s')"
          using Cons.prems(3) policy f get Inr False by (simp add: Let_def)
        ultimately show ?thesis using Cons.IH [OF rest] w2 writes_only_trans by blast
      qed
    qed
  qed
qed auto

lemma cleanup_writes_orphans:
  assumes "ra_client a = logged_target c" "cleanupOrphanedResources a old new s = (r, s')"
  shows "writes_only (orphan_write c old new) s s'"
proof -
  obtain x s1 where l: "orphans_loop a new 3 old [] s = (x, s1)" by (cases "orphans_loop a new 3 old [] s")
  note L = orphans_loop_writes [OF assms(1) subset_refl _ l, simplified]
  show ?thesis
  proof (cases x)
    case (Inl e)
    then show ?thesis using assms(2) l L by (simp add: cleanupOrphanedResources_def)
  next
    case (Inr ds)
    let ?is = "ra_schedule a (3 + length old) @ concat (map (replicate (Suc (Suc (ra_polls a)))) [0..<length ds])"
    obtain ds2 s2 where f: "fold (deletions_step a) ?is (ds, s1) = (ds2, s2)" by (cases "fold (deletions_step a) ?is (ds, s1)")
    have "s' = s2" using assms(2) l Inr f by (auto simp: cleanupOrphanedResources_def)
    moreover have "writes_only (orphan_write c old new) s1 s2"
      using deletions_steps_ok [OF assms(1) _ f, of "orphan_object c old new"] L Inr by (simp add: orphan_write_def [abs_def])
    ultimately show ?thesis using L writes_only_trans by blast
  qed
qed

definition group_write :: "'w applier \<Rightarrow> manifest list \<Rightarrow> target_write \<Rightarrow> bool" where
  "group_write a ms x \<longleftrightarrow> (\<exists>m \<in> set ms. apply_write a m x)"

lemma group_manifests_silent:
  "ra_client a = logged_target c \<Longrightarrow> group_manifests a info ms g s = (r, s') \<Longrightarrow> snd s' = snd s"
proof (induction ms arbitrary: g s)
  case (Cons m ms)
  obtain x s1 where x: "getApiResource a m s = (x, s1)" by (cases "getApiResource a m s")
  have "snd s1 = snd s"
    using x Cons.prems(1) unlogged_call_snd
    by (auto simp: getApiResource_def Let_def unlogged_call_def split: prod.splits sum.splits option.splits)
  moreover obtain g1 where "group_manifests a info ms g1 s1 = (r, s') \<or> s' = s1"
    using Cons.prems(2) x by (auto split: sum.splits option.splits bool.splits)
  ultimately show ?case using Cons.IH [OF Cons.prems(1)] by metis
qed simp

section \<open>The three groups\<close>

text \<open>
  The groups as they should be, stated without the code: the manifests with their kinds in the given order, the custom resource
  definitions among them, and the scope of each other manifest, which is what the server answers for its kind
  when it is asked for one after the other, or else what the last custom resource definition for this kind declares.
\<close>

definition manifest_of :: "'w applier \<Rightarrow> managed_manifest \<Rightarrow> manifest" where
  "manifest_of a x = (case projr (ra_typeMeta a (mf_manifest x)) of (apiVersion, kind) \<Rightarrow>
     \<lparr>mn_gvk = FromAPIVersionAndKind apiVersion kind, mn_policy = mf_policy x, mn_raw = mf_manifest x\<rparr>)"

definition is_crd :: "manifest \<Rightarrow> bool" where
  "is_crd m \<longleftrightarrow> gk_kind (mn_gvk m) = ''CustomResourceDefinition''"

definition declarations :: "'w applier \<Rightarrow> managed_manifest list \<Rightarrow> ((string \<times> string) \<times> bool) list" where
  "declarations a xs = map (\<lambda>x. projr (ra_crd a (mf_manifest x))) (filter (\<lambda>x. is_crd (manifest_of a x)) xs)"

definition declared_scope :: "'w applier \<Rightarrow> string \<times> string \<Rightarrow> bool option" where
  "declared_scope a = map_of (rev (declarations a (ra_manifests a)))"

fun found_scopes :: "'w applier \<Rightarrow> manifest list \<Rightarrow> 'w \<Rightarrow> bool option list" where
  "found_scopes a [] w = []"
| "found_scopes a (m # ms) w =
     (case tc_discover (ra_client a) (group_version_string (mn_gvk m)) w of
        (answer, w1) \<Rightarrow>
          (case (case answer of Inr resources \<Rightarrow> map_of resources (gk_kind (mn_gvk m)) | Inl e \<Rightarrow> None) of
             Some namespaced \<Rightarrow> Some namespaced
           | None \<Rightarrow> declared_scope a (group_kind (mn_gvk m))) # found_scopes a ms w1)"

text \<open>The manifests with a scope, in the order of the manifests.\<close>

definition with_scope :: "bool \<Rightarrow> manifest list \<Rightarrow> bool list \<Rightarrow> manifest list" where
  "with_scope b ms scopes = map fst (filter (\<lambda>p. snd p = b) (zip ms scopes))"

definition right_groups :: "'w applier \<Rightarrow> 'w \<Rightarrow> manifest_groups \<Rightarrow> bool" where
  "right_groups a w g \<longleftrightarrow>
     (let ms = map (manifest_of a) (ra_manifests a); others = filter (\<lambda>m. \<not> is_crd m) ms
      in mg_crds g = filter is_crd ms
       \<and> (\<exists>scopes. found_scopes a others w = map Some scopes
            \<and> mg_clusterwide g = with_scope False others scopes \<and> mg_namespaced g = with_scope True others scopes))"

lemma split_manifests_exact:
  "split_manifests a xs crds info todo = Inr (crds', info', todo') \<Longrightarrow>
     crds' = crds @ filter is_crd (map (manifest_of a) xs) \<and> todo' = todo @ filter (\<lambda>m. \<not> is_crd m) (map (manifest_of a) xs)
   \<and> map_of info' = map_of info ++ map_of (rev (declarations a xs))"
proof (induction xs arbitrary: crds info todo)
  case (Cons x xs)
  obtain av kind where t: "ra_typeMeta a (mf_manifest x) = Inr (av, kind)"
    using Cons.prems by (auto split: sum.splits)
  let ?m = "\<lparr>mn_gvk = FromAPIVersionAndKind av kind, mn_policy = mf_policy x, mn_raw = mf_manifest x\<rparr>"
  have m: "manifest_of a x = ?m" by (simp add: manifest_of_def t)
  have k: "is_crd ?m \<longleftrightarrow> kind = ''CustomResourceDefinition''" by (simp add: is_crd_def FromAPIVersionAndKind_def split: option.split)
  show ?case
  proof (cases "kind = ''CustomResourceDefinition''")
    case True
    then obtain gk ns where c: "ra_crd a (mf_manifest x) = Inr (gk, ns)"
      using Cons.prems t by (auto split: sum.splits)
    then have "split_manifests a xs (crds @ [?m]) (AList.update gk ns info) todo = Inr (crds', info', todo')"
      using Cons.prems t True by (simp add: Let_def)
    note I = Cons.IH [OF this]
    have crd: "is_crd ?m" using k True by blast
    then have d: "declarations a (x # xs) = (gk, ns) # declarations a xs" unfolding declarations_def by (simp add: m c)
    have "map_of info' = map_of info ++ map_of (rev (declarations a (x # xs)))"
      unfolding d using I by (simp add: update_conv map_add_def fun_eq_iff split: option.split)
    with I crd show ?thesis by (simp add: m)
  next
    case False
    then have "split_manifests a xs crds info (todo @ [?m]) = Inr (crds', info', todo')"
      using Cons.prems t by (simp add: Let_def)
    note I = Cons.IH [OF this]
    have "\<not> is_crd ?m" using k False by blast
    then show ?thesis using I by (simp add: m declarations_def)
  qed
qed (simp add: declarations_def)

lemma getApiResource_scope:
  "getApiResource a m w = (r, w1) \<Longrightarrow> \<exists>answer. tc_discover (ra_client a) (group_version_string (mn_gvk m)) w = (answer, w1)
     \<and> (case answer of Inr resources \<Rightarrow> map_of resources (gk_kind (mn_gvk m)) | Inl e \<Rightarrow> None) = (case r of Inr ns \<Rightarrow> Some ns | Inl e \<Rightarrow> None)"
  by (auto simp: getApiResource_def Let_def split: prod.splits sum.splits option.splits)

lemma group_manifests_exact:
  "group_manifests a info ms g w = (Inr g', w') \<Longrightarrow> map_of info = declared_scope a \<Longrightarrow>
     \<exists>scopes. found_scopes a ms w = map Some scopes \<and> mg_crds g' = mg_crds g
       \<and> mg_clusterwide g' = mg_clusterwide g @ with_scope False ms scopes \<and> mg_namespaced g' = mg_namespaced g @ with_scope True ms scopes"
proof (induction ms arbitrary: g w)
  case (Cons m ms)
  obtain r w1 where r: "getApiResource a m w = (r, w1)" by (cases "getApiResource a m w")
  obtain n where n: "(case r of Inr namespaced \<Rightarrow> Inr namespaced
      | Inl e \<Rightarrow> (case map_of info (group_kind (mn_gvk m)) of Some namespaced \<Rightarrow> Inr namespaced | None \<Rightarrow> Inl e)) = Inr n"
    using Cons.prems(1) r by (auto split: sum.splits option.splits)
  let ?g = "if n then g\<lparr>mg_namespaced := mg_namespaced g @ [m]\<rparr> else g\<lparr>mg_clusterwide := mg_clusterwide g @ [m]\<rparr>"
  have "group_manifests a info ms ?g w1 = (Inr g', w')" using Cons.prems(1) r n by (cases n) simp_all
  from Cons.IH [OF this Cons.prems(2)] obtain scopes where I: "found_scopes a ms w1 = map Some scopes" "mg_crds g' = mg_crds ?g"
    "mg_clusterwide g' = mg_clusterwide ?g @ with_scope False ms scopes" "mg_namespaced g' = mg_namespaced ?g @ with_scope True ms scopes"
    by blast
  obtain answer where d: "tc_discover (ra_client a) (group_version_string (mn_gvk m)) w = (answer, w1)"
    and s: "(case answer of Inr resources \<Rightarrow> map_of resources (gk_kind (mn_gvk m)) | Inl e \<Rightarrow> None) = (case r of Inr ns \<Rightarrow> Some ns | Inl e \<Rightarrow> None)"
    using getApiResource_scope [OF r] by blast
  have "found_scopes a (m # ms) w = Some n # found_scopes a ms w1"
    using n s unfolding found_scopes.simps d prod.case Cons.prems(2) by (cases r) (auto split: option.splits)
  then show ?case using I by (intro exI [of _ "n # scopes"]) (simp add: with_scope_def)
qed (auto simp: with_scope_def)

lemma prepareManifests_groups:
  assumes "prepareManifests a w = (Inr g, w1)"
  shows "right_groups a w g"
proof -
  obtain crds info todo where s: "split_manifests a (ra_manifests a) [] [] [] = Inr (crds, info, todo)"
    and g: "group_manifests a info todo \<lparr>mg_crds = crds, mg_clusterwide = [], mg_namespaced = []\<rparr> w = (Inr g, w1)"
    using assms by (auto simp: prepareManifests_def split: sum.splits)
  note S = split_manifests_exact [OF s]
  then have "map_of info = declared_scope a" by (simp add: declared_scope_def)
  from group_manifests_exact [OF g this] S show ?thesis by (auto simp: right_groups_def Let_def)
qed

text \<open>
  C10: objects are applied in order and orphans deleted last. The manifests fall into the custom resource definitions, the
  cluster-wide and the namespaced objects, by what the server and the definitions among them say of their kinds. The log of
  \<open>Apply\<close> is that of the first group, then that of the second, then that of the third, and then the deletions; within a group any
  order is possible. What is created or updated has the head of a manifest of its group and the label of the deploy
  item. What is deleted was managed before with a policy to manage or fall back, was found by a read, and is not managed any
  more; nothing is deleted when an object could not be applied.
\<close>

theorem objects_applied_in_order:
  assumes c: "ra_client a = logged_target c" and run: "Apply a old (w, []) = (r, new, w', log)"
  shows "log = [] \<or> (\<exists>g l1 l2 l3 l4. right_groups a (w, []) g \<and> log = l1 @ l2 @ l3 @ l4
    \<and> list_all (group_write a (mg_crds g)) l1 \<and> list_all (group_write a (mg_clusterwide g)) l2
    \<and> list_all (group_write a (mg_namespaced g)) l3 \<and> list_all (orphan_write c old new) l4
    \<and> (fst (apply_groups a 0 [mg_crds g, mg_clusterwide g, mg_namespaced g] [] [] (snd (prepareManifests a (w, [])))) \<noteq> [] \<longrightarrow> l4 = []))"
proof -
  obtain x s1 where p: "prepareManifests a (w, []) = (x, s1)" by (cases "prepareManifests a (w, [])")
  have s1: "snd s1 = []"
    using p group_manifests_silent [OF c] by (auto simp: prepareManifests_def split: sum.splits prod.splits)
  show ?thesis
  proof (cases x)
    case (Inl e)
    then show ?thesis using run p s1 by (auto simp: Apply_def)
  next
    case (Inr g)
    obtain t1 s2 where 1: "run_group a (ra_schedule a 0) (mg_crds g) s1 = (t1, s2)" by (cases "run_group a (ra_schedule a 0) (mg_crds g) s1")
    obtain t2 s3 where 2: "run_group a (ra_schedule a (Suc 0)) (mg_clusterwide g) s2 = (t2, s3)"
      by (cases "run_group a (ra_schedule a (Suc 0)) (mg_clusterwide g) s2")
    obtain t3 s4 where 3: "run_group a (ra_schedule a (Suc (Suc 0))) (mg_namespaced g) s3 = (t3, s4)"
      by (cases "run_group a (ra_schedule a (Suc (Suc 0))) (mg_namespaced g) s3")
    obtain errs new' where gs: "apply_groups a 0 [mg_crds g, mg_clusterwide g, mg_namespaced g] [] [] s1 = (errs, new', s4)"
      using 1 2 3 by simp
    obtain l1 where l1: "snd s2 = l1" "list_all (group_write a (mg_crds g)) l1"
      using run_group_writes [OF 1 c] s1 by (auto simp: writes_only_def group_write_def [abs_def])
    obtain l2 where l2: "snd s3 = l1 @ l2" "list_all (group_write a (mg_clusterwide g)) l2"
      using run_group_writes [OF 2 c] l1 by (auto simp: writes_only_def group_write_def [abs_def])
    obtain l3 where l3: "snd s4 = l1 @ l2 @ l3" "list_all (group_write a (mg_namespaced g)) l3"
      using run_group_writes [OF 3 c] l2 by (auto simp: writes_only_def group_write_def [abs_def])
    obtain e s5 where cl: "cleanupOrphanedResources a old new' s4 = (e, s5)" by (cases "cleanupOrphanedResources a old new' s4")
    obtain l4 where l4: "snd s5 = l1 @ l2 @ l3 @ l4" "list_all (orphan_write c old new') l4"
      using cleanup_writes_orphans [OF c cl] l3 by (auto simp: writes_only_def)
    have new: "new' = new" using run p Inr gs cl by (auto simp: Apply_def split: if_splits option.splits)
    note right = prepareManifests_groups [OF p [unfolded Inr]]
    obtain l where "log = l1 @ l2 @ l3 @ l" "list_all (orphan_write c old new) l" "errs \<noteq> [] \<longrightarrow> l = []"
    proof (cases "errs = []")
      case True
      then have "log = l1 @ l2 @ l3 @ l4" using run p Inr gs cl l4(1) by (auto simp: Apply_def split: option.splits)
      then show thesis using that l4(2) new True by blast
    next
      case False
      then have "log = l1 @ l2 @ l3 @ []" using run p Inr gs l3(1) by (auto simp: Apply_def)
      then show thesis using that [of "[]"] by simp
    qed
    then show ?thesis using p Inr gs l1(2) l2(2) l3(2) right
      by (intro disjI2 exI [of _ g] exI [of _ l1] exI [of _ l2] exI [of _ l3] exI [of _ l]) (simp del: apply_groups.simps)
  qed
qed

section \<open>A target cluster in memory\<close>

text \<open>Objects are kept in a list; \<open>tw_readOnly\<close> refuses updates. All kinds but the custom resource definitions are namespaced.\<close>

record target_world =
  tw_readOnly :: bool
  tw_objects :: "unstructured list"

definition same_object :: "group_version_kind \<Rightarrow> object_reference \<Rightarrow> unstructured \<Rightarrow> bool" where
  "same_object k key u \<longleftrightarrow> GroupVersionKind u = k \<and> us_key u = key"

definition replace_object :: "unstructured \<Rightarrow> target_world \<Rightarrow> (gerr + unstructured) \<times> target_world" where
  "replace_object u w =
     (if tw_readOnly w then (Inl (PlainError ''forbidden''), w)
      else (Inr u, w\<lparr>tw_objects := map (\<lambda>x. if same_object (GroupVersionKind u) (us_key u) x then u else x) (tw_objects w)\<rparr>))"

definition example_target :: "target_world target_client" where
  "example_target =
     \<lparr>tc_get = \<lambda>k key w. (case List.find (same_object k key) (tw_objects w) of Some u \<Rightarrow> (Inr u, w) | None \<Rightarrow> (Inl not_found, w)),
      tc_create = \<lambda>u w. (Inr u, w\<lparr>tw_objects := tw_objects w @ [u]\<rparr>),
      tc_update = replace_object, tc_patch = \<lambda>old. replace_object,
      tc_delete = \<lambda>u w. (None, w\<lparr>tw_objects := filter (\<lambda>x. \<not> same_object (GroupVersionKind u) (us_key u) x) (tw_objects w)\<rparr>),
      tc_discover = \<lambda>gv w. (Inr [(''ConfigMap'', True), (''Service'', True), (''CustomResourceDefinition'', False)], w)\<rparr>"

definition example_object :: "string \<Rightarrow> unstructured" where
  "example_object name = bare_object ''v1'' ''ConfigMap'' name ''ns''"

text \<open>A manifest is the name of its config map.\<close>

definition example_applier :: "'w target_client \<Rightarrow> managed_manifest list \<Rightarrow> 'w applier" where
  "example_applier c ms =
     \<lparr>ra_client = c, ra_decode = (\<lambda>raw. Inr (example_object raw)), ra_typeMeta = (\<lambda>raw. Inr (''v1'', ''ConfigMap'')),
      ra_crd = (\<lambda>raw. Inr (([], []), False)), ra_aggregate = (\<lambda>es. PlainError []), ra_now = (\<lambda>w. 1), ra_polls = 1,
      ra_schedule = (\<lambda>k. [0, 1]), ra_defaultNamespace = [], ra_deployItemName = ''item'', ra_updateStrategy = UpdateStrategyUpdate,
      ra_manifests = ms, ra_labels = []\<rparr>"

lemma example_target_honest: "honest_target example_target"
  by (auto simp: honest_target_def example_target_def same_object_def find_Some_iff split: option.splits)

definition two_manifests :: "managed_manifest list" where
  "two_manifests = [\<lparr>mf_policy = ManagePolicy, mf_manifest = ''a''\<rparr>, \<lparr>mf_policy = KeepPolicy, mf_manifest = ''b''\<rparr>]"

definition empty_target :: target_world where
  "empty_target = \<lparr>tw_readOnly = False, tw_objects = []\<rparr>"

definition two_applied :: "gerr option \<times> managed_resource list \<times> target_world" where
  "two_applied = Apply (example_applier example_target two_manifests) [] empty_target"

lemma managed_resources_follow_manifests_witness:
  "\<exists>mr \<in> set (fst (snd two_applied)). ms_policy mr = KeepPolicy \<and> rf_name (ms_resource mr) = ''b''"
proof -
  obtain r new w' where t: "two_applied = (r, new, w')" by (rule prod_cases3)
  have "fst two_applied = None" by code_simp
  then have r: "r = None" unfolding t by simp
  have h: "honest_target (ra_client (example_applier example_target two_manifests))"
    by (simp add: example_applier_def example_target_honest)
  from managed_resources_follow_manifests [OF h t [unfolded two_applied_def r]]
  have "\<forall>x \<in> set two_manifests. mf_policy x \<notin> {IgnorePolicy, FallbackPolicy}
      \<longrightarrow> (\<exists>mr \<in> set new. managed_for (example_applier example_target two_manifests) x mr)"
    by (simp add: example_applier_def)
  then have "\<exists>mr \<in> set new. managed_for (example_applier example_target two_manifests) \<lparr>mf_policy = KeepPolicy, mf_manifest = ''b''\<rparr> mr"
    by (simp add: two_manifests_def)
  then show ?thesis unfolding t
    by (auto simp: managed_for_def example_applier_def example_object_def bare_object_def)
qed

definition orphan_resource :: managed_resource where
  "orphan_resource = \<lparr>ms_policy = ManagePolicy, ms_resource = CoreObjectReferenceFromUnstructuredObject (example_object ''old'')\<rparr>"

definition orphan_run :: "gerr option \<times> managed_resource list \<times> (target_world \<times> target_write list)" where
  "orphan_run = Apply (example_applier (logged_target example_target) two_manifests) [orphan_resource]
     (empty_target\<lparr>tw_objects := [example_object ''old'']\<rparr>, [])"

lemma objects_applied_in_order_witness:
  "\<exists>(g :: manifest_groups) l1 l2 l3 l4. snd (snd (snd orphan_run)) = l1 @ l2 @ l3 @ l4
     \<and> list_all (group_write (example_applier (logged_target example_target) two_manifests) (mg_namespaced g)) l3
     \<and> list_all (orphan_write example_target [orphan_resource] (fst (snd orphan_run))) l4"
proof -
  let ?a = "example_applier (logged_target example_target) two_manifests"
  obtain r new w' log where t: "orphan_run = (r, new, w', log)" by (metis prod.collapse)
  have "length (snd (snd (snd orphan_run))) = 3" by code_simp
  then have "log \<noteq> []" unfolding t by auto
  have c: "ra_client ?a = logged_target example_target" by (simp add: example_applier_def)
  from objects_applied_in_order [OF c t [unfolded orphan_run_def]] show ?thesis
  proof (elim disjE exE conjE, goal_cases)
    case 1
    with \<open>log \<noteq> []\<close> show ?case by simp
  next
    case 2
    then show ?case unfolding t snd_conv fst_conv by (intro exI conjI)
  qed
qed

section \<open>Two defects\<close>

definition fallback_manifests :: "managed_manifest list" where
  "fallback_manifests = [\<lparr>mf_policy = FallbackPolicy, mf_manifest = ''a''\<rparr>]"

fun applied_again :: "nat \<Rightarrow> 'w applier \<Rightarrow> managed_resource list \<times> 'w \<Rightarrow> managed_resource list \<times> 'w" where
  "applied_again 0 a s = s"
| "applied_again (Suc n) a (old, w) = applied_again n a (case Apply a old w of (r, new, w1) \<Rightarrow> (new, w1))"

text \<open>
  An object with the policy to fall back comes and goes. An applier with one such manifest, run on an empty
  cluster, creates the object; run again with the same manifest it finds the object, takes it for the object of
  somebody else, because the rendered object has no label, and so deletes it as an orphan; the third run creates it again.
\<close>

theorem fallback_object_comes_and_goes:
  "map (\<lambda>n. map (\<lambda>u. om_name (us_meta u)) (tw_objects (snd (applied_again n (example_applier example_target fallback_manifests) ([], empty_target)))))
     [1, 2, 3, 4] = [[''a''], [], [''a''], []]"
  by code_simp

definition old_and_new :: "target_world" where
  "old_and_new = \<lparr>tw_readOnly = True, tw_objects = [example_object ''a'', example_object ''old'']\<rparr>"

definition failed_apply :: "gerr option \<times> managed_resource list \<times> target_world" where
  "failed_apply = Apply (example_applier example_target [\<lparr>mf_policy = ManagePolicy, mf_manifest = ''a''\<rparr>]) [orphan_resource] old_and_new"

definition next_apply :: "gerr option \<times> managed_resource list \<times> target_world" where
  "next_apply = (case failed_apply of (r, managed, w) \<Rightarrow>
     Apply (example_applier example_target [\<lparr>mf_policy = ManagePolicy, mf_manifest = ''a''\<rparr>]) managed (w\<lparr>tw_readOnly := False\<rparr>))"

text \<open>
  An orphan is forgotten after an error. The old resource is not rendered any more. A run in which an update fails
  skips the clean-up and keeps only the resources that it applied; the next run succeeds, but the old object stays in the
  cluster and is not managed any more.
\<close>

theorem orphan_forgotten_after_error:
  "fst failed_apply \<noteq> None \<and> fst next_apply = None
   \<and> \<not> containsObjectRef (ms_resource orphan_resource) (fst (snd next_apply))
   \<and> example_object ''old'' \<in> set (tw_objects (snd (snd next_apply)))"
  by code_simp

end
