(* ===== verification/ReadinessFacts.thy ===== *)
theory ReadinessFacts
  imports ReadinessChecks ResourceManagerFacts
begin

text \<open>
  What waiting for objects means: it ends within the polls of the timeout, and when it ends well, every object was read
  and found ready, under every schedule.
\<close>

section \<open>Waiting\<close>

fun checker_rank :: "checker \<Rightarrow> nat" where
  "checker_rank (CheckObject obj) = 2"
| "checker_rank (ReportAnswer obj answer) = 1"
| "checker_rank (CheckDone obj) = 0"

interpretation checkers: worker_pool "checker_step c check" checker_rank for c check
proof
  fix s s' :: checker and w w'
  assume "checker_step c check s w = (s', w')"
  then show "checker_rank s' \<le> checker_rank s - 1"
    by (cases "(c, check, s, w)" rule: checker_step.cases) (auto split: prod.splits)
qed

definition recorded_target :: "'w target_client \<Rightarrow> ('w \<times> (object_reference \<times> (gerr + unstructured)) list) target_client" where
  "recorded_target c =
     \<lparr>tc_get = \<lambda>k key (w, l). (case tc_get c k key w of (x, w1) \<Rightarrow> (x, w1, l @ [(key, x)])),
      tc_create = \<lambda>u. unlogged_call (tc_create c u),
      tc_update = \<lambda>u. unlogged_call (tc_update c u),
      tc_patch = \<lambda>old new. unlogged_call (tc_patch c old new),
      tc_delete = \<lambda>u. unlogged_call (tc_delete c u),
      tc_discover = \<lambda>gv. unlogged_call (tc_discover c gv)\<rparr>"

text \<open>An answer that found its object ready, and the invariant of a poll with its reads \<open>last\<close>.\<close>

definition ready_read :: "object_check \<Rightarrow> object_reference \<times> (gerr + unstructured) \<Rightarrow> bool" where
  "ready_read check = (\<lambda>(key, x). \<exists>u. x = Inr u \<and> us_key u = key \<and> check u = Done ())"

definition clean_poll :: "checker list \<Rightarrow> readiness_errors \<Rightarrow> bool" where
  "clean_poll ss re \<longleftrightarrow> re = \<lparr>re_all = [], re_notReady = [], re_panic = False\<rparr>
     \<and> (\<forall>s \<in> set ss. \<forall>u answer. s = ReportAnswer u answer \<longrightarrow> answer = ObjectReady)"

definition poll_ok ::
    "object_check \<Rightarrow> unstructured list \<Rightarrow> (object_reference \<times> (gerr + unstructured)) list \<Rightarrow> checker list
      \<Rightarrow> ('w \<times> (object_reference \<times> (gerr + unstructured)) list) \<times> readiness_errors \<Rightarrow> bool" where
  "poll_ok check objects before ss x \<longleftrightarrow> (\<exists>last. snd (fst x) = before @ last
     \<and> map us_key (map checked_object ss) = map us_key objects
     \<and> (\<forall>s \<in> set ss. checker_rank s < 2 \<longrightarrow> us_key (checked_object s) \<in> fst ` set last)
     \<and> (clean_poll ss (snd x) \<longrightarrow> (\<forall>a \<in> set last. ready_read check a)))"

lemma unit_outcome_cases: "(x :: unit outcome) = Done () \<or> x \<noteq> Done ()"
  by simp

lemma checker_step_ok:
  assumes honest: "honest_target c" and ok: "poll_ok check objects before ss x" and i: "i < length ss"
    and step: "checker_step (recorded_target c) check (ss ! i) x = (s, x')"
  shows "poll_ok check objects before (ss[i := s]) x'"
proof -
  obtain w log re where x: "x = ((w, log), re)" by (metis prod.exhaust)
  obtain last where last: "log = before @ last" "map us_key (map checked_object ss) = map us_key objects"
    "\<forall>s \<in> set ss. checker_rank s < 2 \<longrightarrow> us_key (checked_object s) \<in> fst ` set last"
    "clean_poll ss re \<longrightarrow> (\<forall>a \<in> set last. ready_read check a)"
    using ok by (auto simp: poll_ok_def x)
  have len: "length ss = length objects" using arg_cong [OF last(2), of length] by simp
  have same: "map us_key (map checked_object (ss[i := s])) = map us_key objects"
    if "us_key (checked_object s) = us_key (checked_object (ss ! i))"
  proof -
    have "map us_key (map checked_object (ss[i := s])) = (map us_key (map checked_object ss))[i := us_key (checked_object (ss ! i))]"
      using that by (simp add: map_update)
    also have "\<dots> = map us_key (map checked_object ss)" using i by (metis (no_types, lifting) length_map list_update_id nth_map)
    finally show ?thesis using last(2) by simp
  qed
  show ?thesis
  proof (cases "ss ! i")
    case (CheckObject obj)
    obtain y w1 where get: "tc_get c (GroupVersionKind obj) (us_key obj) w = (y, w1)"
      by (cases "tc_get c (GroupVersionKind obj) (us_key obj) w")
    obtain u answer where s: "s = ReportAnswer u answer" "us_key u = us_key obj" "x' = ((w1, log @ [(us_key obj, y)]), re)"
      "answer = ObjectReady \<longrightarrow> ready_read check (us_key obj, y)"
      using step CheckObject get honest_get [OF honest] unfolding x
      by (cases y) (auto simp: IsObjectReady_def recorded_target_def ready_read_def split: outcome.splits)
    have "clean_poll ss re \<and> answer = ObjectReady" if "clean_poll (ss[i := s]) re"
    proof -
      have new: "ReportAnswer u answer \<in> set (ss[i := s])" using i s(1) by (simp add: set_update_memI)
      have "t \<in> set (ss[i := s]) \<or> t = CheckObject obj" if "t \<in> set ss" for t
        using that CheckObject i by (metis in_set_conv_nth length_list_update nth_list_update_neq)
      then show ?thesis using new \<open>clean_poll (ss[i := s]) re\<close> unfolding clean_poll_def by blast
    qed
    then show ?thesis unfolding poll_ok_def
      using last same s CheckObject by (intro exI [of _ "last @ [(us_key obj, y)]"]) (auto dest!: set_update_subset_insert [THEN subsetD])
  next
    case (ReportAnswer obj answer)
    have s: "s = CheckDone obj" "x' = ((w, log), report_answer answer re)" using step ReportAnswer x by auto
    have mem: "ReportAnswer obj answer \<in> set ss" using ReportAnswer i by (metis nth_mem)
    have "clean_poll ss re" if "clean_poll (ss[i := s]) (report_answer answer re)"
    proof -
      have "answer = ObjectReady" using that unfolding clean_poll_def by (cases answer; cases re) auto
      have "t \<in> set (ss[i := s]) \<or> t = ReportAnswer obj answer" if "t \<in> set ss" for t
        using that ReportAnswer i by (metis in_set_conv_nth length_list_update nth_list_update_neq)
      then show ?thesis using that \<open>answer = ObjectReady\<close> unfolding clean_poll_def by fastforce
    qed
    moreover have "us_key obj \<in> fst ` set last" using bspec [OF last(3) mem] by simp
    ultimately show ?thesis unfolding poll_ok_def
      using last same s ReportAnswer
      by (intro exI [of _ last]) (auto dest!: set_update_subset_insert [THEN subsetD] intro: rev_image_eqI)
  next
    case (CheckDone obj)
    then have "s = CheckDone obj" "x' = x" using step x by auto
    then show ?thesis using ok CheckDone i by (metis list_update_id)
  qed
qed

lemma ready_poll_ok:
  assumes c: "rk_client r = recorded_target c" and honest: "honest_target c"
    and run: "ready_poll r check k objects (w, log) = (objects1, (w1, log1), re)"
  shows "map us_key objects1 = map us_key objects \<and> (\<exists>last. log1 = log @ last
    \<and> (re_all re = [] \<and> re_notReady re = [] \<and> \<not> re_panic re
        \<longrightarrow> us_key ` set objects \<subseteq> fst ` set last \<and> (\<forall>a \<in> set last. ready_read check a)))"
proof -
  let ?re = "\<lparr>re_all = [], re_notReady = [], re_panic = False\<rparr>"
  obtain ss where pool: "run_pool (checker_step (recorded_target c) check) 2 (rk_schedule r k) (map CheckObject objects) ((w, log), ?re)
      = (ss, (w1, log1), re)" and objects1: "objects1 = map checked_object ss"
    using run by (auto simp: ready_poll_def c split: prod.splits)
  have "poll_ok check objects log (map CheckObject objects) ((w, log), ?re)"
    unfolding poll_ok_def by (intro exI [of _ "[]"]) (auto simp: comp_def)
  from run_pool_invariant [where I = "poll_ok check objects log", OF this pool] checker_step_ok [OF honest]
  have "poll_ok check objects log ss ((w1, log1), re)" by blast
  then obtain last where last: "log1 = log @ last" "map us_key (map checked_object ss) = map us_key objects"
    "\<forall>s \<in> set ss. checker_rank s < 2 \<longrightarrow> us_key (checked_object s) \<in> fst ` set last"
    "clean_poll ss re \<longrightarrow> (\<forall>a \<in> set last. ready_read check a)"
    by (auto simp: poll_ok_def)
  have ended: "\<forall>s \<in> set ss. checker_rank s = 0" by (rule checkers.run_pool_ends [OF pool]) auto
  then have "\<forall>s \<in> set ss. us_key (checked_object s) \<in> fst ` set last" using last(3) by simp
  then have "set (map us_key (map checked_object ss)) \<subseteq> fst ` set last" by auto
  then have keys: "us_key ` set objects \<subseteq> fst ` set last" using last(2) by (metis list.set_map)
  have "clean_poll ss re" if "re_all re = [] \<and> re_notReady re = [] \<and> \<not> re_panic re"
    unfolding clean_poll_def using that ended by (auto intro: readiness_errors.equality)
  then show ?thesis using last keys objects1 by blast
qed

lemma ready_polls_logs:
  assumes c: "rk_client r = recorded_target c" and honest: "honest_target c"
  shows "ready_polls r t check fuel k objs (w, log0) = Some (x, w', log) \<Longrightarrow> \<exists>mid last. log = log0 @ mid @ last
    \<and> (x = Done () \<longrightarrow> us_key ` set objs \<subseteq> fst ` set last \<and> (\<forall>a \<in> set last. ready_read check a))"
proof (induction fuel arbitrary: k objs w log0)
  case (Suc fuel)
  obtain objs1 w1 log1 re where p: "ready_poll r check k objs (w, log0) = (objs1, (w1, log1), re)"
    by (metis prod.exhaust)
  note ok = ready_poll_ok [OF c honest p]
  show ?case
  proof (cases "ready_polls r t check fuel (Suc k) objs1 (w1, log1) = Some (x, w', log)")
    case True
    from Suc.IH [OF True] obtain mid last where l: "log = log1 @ mid @ last"
      "x = Done () \<longrightarrow> us_key ` set objs1 \<subseteq> fst ` set last \<and> (\<forall>a \<in> set last. ready_read check a)" by blast
    have "us_key ` set objs1 = us_key ` set objs" using ok by (metis list.set_map)
    moreover obtain last1 where "log1 = log0 @ last1" using ok by blast
    ultimately show ?thesis using l by (intro exI [of _ "last1 @ mid"] exI [of _ last]) simp
  next
    case False
    obtain last where "log1 = log0 @ last" "re_all re = [] \<and> re_notReady re = [] \<and> \<not> re_panic re
        \<longrightarrow> us_key ` set objs \<subseteq> fst ` set last \<and> (\<forall>a \<in> set last. ready_read check a)" using ok by blast
    then show ?thesis using Suc.prems p False
      by (intro exI [of _ "[]"] exI [of _ last]) (auto split: if_splits)
  qed
qed simp

text \<open>
  Ready means observed. If waiting for objects ends without an error, then the reads of a last stretch found each of
  the objects, and each of these reads found its object ready, for every order in which the goroutines run.
\<close>

theorem ready_means_observed:
  assumes c: "rk_client r = recorded_target c" and honest: "honest_target c"
    and run: "WaitForObjectsReady r fuel t objects check (w, []) = Some (Done (), w', log)"
  shows "\<exists>before last. log = before @ last \<and> us_key ` set objects \<subseteq> fst ` set last
    \<and> (\<forall>(key, x) \<in> set last. \<exists>u. x = Inr u \<and> us_key u = key \<and> check u = Done ())"
  using ready_polls_logs [OF c honest run [unfolded WaitForObjectsReady_def]] unfolding ready_read_def by auto

text \<open>
  Waiting for objects ends. If the library makes \<open>n\<close> more polls before the timeout, the waiting returns, with the
  same result for all fuel beyond \<open>n\<close>.
\<close>

theorem readiness_wait_ends:
  assumes "rk_polls r t = Some n" and "n < fuel"
  shows "\<exists>x. WaitForObjectsReady r fuel t objects check w = Some x
    \<and> (\<forall>fuel' > n. WaitForObjectsReady r fuel' t objects check w = Some x)"
proof -
  have same: "ready_polls r t check (Suc m + extra) k objs w = ready_polls r t check (Suc m) k objs w
      \<and> ready_polls r t check (Suc m) k objs w \<noteq> None" if "m + k = n" for m k extra objs w
    using that
  proof (induction m arbitrary: k objs w)
    case 0
    then show ?case using assms(1) by (auto split: prod.splits)
  next
    case (Suc m)
    then have "\<And>objs w. ready_polls r t check (Suc (m + extra)) (Suc k) objs w = ready_polls r t check (Suc m) (Suc k) objs w
        \<and> ready_polls r t check (Suc m) (Suc k) objs w \<noteq> None" by simp
    then show ?case by (simp del: ready_polls.simps add: ready_polls.simps(2) [of _ _ _ "Suc m"] ready_polls.simps(2) [of _ _ _ "Suc (m + extra)"] split: prod.split)
  qed
  have "ready_polls r t check fuel' 0 objects w = ready_polls r t check (Suc n) 0 objects w" if "n < fuel'" for fuel'
    using same [of n 0 "fuel' - Suc n"] that by simp
  moreover have "ready_polls r t check (Suc n) 0 objects w \<noteq> None" using same [of n 0] by simp
  ultimately show ?thesis using assms(2) unfolding WaitForObjectsReady_def by auto
qed

text \<open>A readiness check with three polls, on two config maps.\<close>

definition example_readiness :: "'w target_client \<Rightarrow> 'w readiness" where
  "example_readiness c =
     \<lparr>rk_client = c, rk_now = (\<lambda>w. 1), rk_aggregate = (\<lambda>es. PlainError ''errors''), rk_polls = (\<lambda>t. Some 2), rk_schedule = (\<lambda>k. [1, 0])\<rparr>"

definition waiting_for_two :: "(unit outcome \<times> target_world \<times> (object_reference \<times> (gerr + unstructured)) list) option" where
  "waiting_for_two = WaitForObjectsReady (example_readiness (recorded_target example_target)) 5 60 [example_object ''a'', example_object ''b'']
     (\<lambda>u. Done ()) (empty_target\<lparr>tw_objects := [example_object ''a'', example_object ''b'']\<rparr>, [])"

lemma ready_means_observed_witness:
  "\<exists>before last. snd (snd (the waiting_for_two)) = before @ last \<and> {ObjectKey ''a'' ''ns'', ObjectKey ''b'' ''ns''} \<subseteq> fst ` set last"
proof -
  have "(case waiting_for_two of Some (Done u, x) \<Rightarrow> True | _ \<Rightarrow> False)" by code_simp
  then obtain w log where t: "waiting_for_two = Some (Done (), w, log)"
    by (auto split: option.splits prod.splits outcome.splits)
  have c: "rk_client (example_readiness (recorded_target example_target)) = recorded_target example_target"
    by (simp add: example_readiness_def)
  from ready_means_observed [OF c example_target_honest t [unfolded waiting_for_two_def]]
  obtain before last where "log = before @ last"
    "us_key ` set [example_object ''a'', example_object ''b''] \<subseteq> fst ` set last" by blast
  moreover have keys: "us_key ` set [example_object ''a'', example_object ''b''] = {ObjectKey ''a'' ''ns'', ObjectKey ''b'' ''ns''}"
    by (simp add: us_key_def example_object_def bare_object_def)
  ultimately have "{ObjectKey ''a'' ''ns'', ObjectKey ''b'' ''ns''} \<subseteq> fst ` set last" by (simp only:)
  with \<open>log = before @ last\<close> show ?thesis unfolding t option.sel snd_conv by blast
qed

lemma readiness_wait_ends_witness:
  "\<exists>x. \<forall>fuel > 2. WaitForObjectsReady (example_readiness example_target) fuel 60 [example_object ''a'']
     (\<lambda>u. Fail (PlainError ''not ready'')) empty_target = Some x"
  using readiness_wait_ends [of "example_readiness example_target" 60 2 3 "[example_object ''a'']"
      "\<lambda>u. Fail (PlainError ''not ready'')" empty_target]
  by (auto simp: example_readiness_def)

end
