(* ===== verification/ResourceExporterFacts.thy ===== *)
theory ResourceExporterFacts
  imports ResourceExporter ReadinessFacts "HOL-Library.Multiset"
begin

text \<open>
  Exported values are values that were read: the invariant of the goroutines of the exporter and the property.
\<close>

section \<open>What the exporter reads\<close>

interpretation exporters: worker_pool "export_step x" export_rank for x
proof
  fix s s' :: export_worker and w w'
  assume "export_step x s w = (s', w')"
  then show "export_rank s' \<le> export_rank s - 1"
    by (cases "(x, s, w)" rule: export_step.cases)
      (auto simp: export_value_def split: prod.splits sum.splits outcome.splits option.splits)
qed

lemma recorded_get [simp]:
  "tc_get (recorded_target c) k key (w, l) = (case tc_get c k key w of (x, w1) \<Rightarrow> (x, w1, l @ [(key, x)]))"
  by (simp add: recorded_target_def)

type_synonym read_log = "(object_reference \<times> (gerr + unstructured)) list"

definition found_in :: "read_log \<Rightarrow> typed_reference \<Rightarrow> unstructured \<Rightarrow> bool" where
  "found_in log res u \<longleftrightarrow> (ObjectKey (tr_name res) (tr_namespace res), Inr u) \<in> set log"

text \<open>The value of an export, as what was read determines it.\<close>

definition export_read :: "path_lib \<Rightarrow> read_log \<Rightarrow> resource_export \<Rightarrow> typed_reference \<Rightarrow> json \<Rightarrow> bool" where
  "export_read pl log export res v \<longleftrightarrow>
     (\<exists>u. found_in log res u \<and> GetValue pl (xp_jsonPath export) (pl_object pl u) = Done v)"

definition export_final :: "path_lib \<Rightarrow> read_log \<Rightarrow> resource_export \<Rightarrow> typed_reference \<Rightarrow> json \<Rightarrow> bool" where
  "export_final pl log export res v \<longleftrightarrow> (case xp_fromObjectRef export of
     None \<Rightarrow> export_read pl log export res v
   | Some fo \<Rightarrow> \<exists>v0 ref u. export_read pl log export res v0 \<and> referenced_object res fo v0 = Inr ref
       \<and> found_in log ref u \<and> GetValue pl (fo_jsonPath fo) (pl_object pl u) = Done v)"

definition export_holds :: "path_lib \<Rightarrow> read_log \<Rightarrow> resource_export \<Rightarrow> (string \<times> json) list \<Rightarrow> bool" where
  "export_holds pl log export m \<longleftrightarrow> (\<exists>res v. xp_fromResource export = Some res \<and> Construct_value pl (xp_key export) v = Inr m
     \<and> export_final pl log export res v)"

lemma found_in_mono: "found_in log res u \<Longrightarrow> found_in (log @ l) res u"
  by (simp add: found_in_def)

lemma export_read_mono: "export_read pl log export res v \<Longrightarrow> export_read pl (log @ l) export res v"
  by (auto simp: export_read_def intro: found_in_mono)

lemma export_final_mono: "export_final pl log export res v \<Longrightarrow> export_final pl (log @ l) export res v"
  unfolding export_final_def by (cases "xp_fromObjectRef export") (fastforce intro: export_read_mono found_in_mono)+

lemma export_holds_mono: "export_holds pl log export m \<Longrightarrow> export_holds pl (log @ l) export m"
  unfolding export_holds_def using export_final_mono by blast

lemma read_resource_logs:
  assumes "xr_client x = recorded_target c" "read_resource x res (w, log) = (y, w1, log1)"
  shows "\<exists>l. log1 = log @ l \<and> (\<forall>u. y = Inr u \<longrightarrow> found_in log1 res u)"
  using assms
  by (auto simp: read_resource_def Let_def found_in_def us_key_def ObjectFromTypedObjectReference_def bare_object_def split: prod.splits)

fun worker_of :: "export_worker \<Rightarrow> resource_export" where
  "worker_of (ExportTry n export res lastErr) = export"
| "worker_of (ExportRead n export res fo ref) = export"
| "worker_of (ExportMerge export m) = export"
| "worker_of (ExportFailed export errs) = export"
| "worker_of (ExportPanics export) = export"
| "worker_of (ExportDone export) = export"

fun export_worker_ok :: "path_lib \<Rightarrow> read_log \<Rightarrow> export_worker \<Rightarrow> bool" where
  "export_worker_ok pl log (ExportTry n export res lastErr) \<longleftrightarrow> xp_fromResource export = Some res"
| "export_worker_ok pl log (ExportRead n export res fo ref) \<longleftrightarrow> xp_fromResource export = Some res \<and> xp_fromObjectRef export = Some fo
     \<and> (\<exists>v0. export_read pl log export res v0 \<and> referenced_object res fo v0 = Inr ref)"
| "export_worker_ok pl log (ExportMerge export m) \<longleftrightarrow> export_holds pl log export m"
| "export_worker_ok pl log (ExportFailed export errs) \<longleftrightarrow> errs \<noteq> []"
| "export_worker_ok pl log (ExportPanics export) \<longleftrightarrow> True"
| "export_worker_ok pl log (ExportDone export) \<longleftrightarrow> True"

lemma export_worker_ok_mono: "export_worker_ok pl log s \<Longrightarrow> export_worker_ok pl (log @ l) s"
  by (cases s) (auto intro: export_holds_mono export_read_mono)

lemma export_value_ok:
  assumes "xp_fromResource export = Some res" and "export_final (xr_paths x) log export res v"
  shows "worker_of (export_value x n export res v) = export \<and> export_worker_ok (xr_paths x) log (export_value x n export res v)"
  using assms by (auto simp: export_value_def export_holds_def split: sum.splits)

text \<open>A step of a worker: it keeps its export, the log grows, and it keeps what was read.\<close>

lemma export_step_ok:
  assumes c: "xr_client x = recorded_target c" and ok: "export_worker_ok (xr_paths x) log s"
    and step: "export_step x s ((w, log), xu) = (s', (w1, log1), xu1)"
  shows "worker_of s' = worker_of s \<and> (\<exists>l. log1 = log @ l) \<and> export_worker_ok (xr_paths x) log1 s'"
proof (cases "(x, s, ((w, log), xu))" rule: export_step.cases)
  case (2 x1 n export res lastErr w2 xu2)
  obtain y w3 log3 where r: "read_resource x res (w, log) = (y, w3, log3)" by (metis prod.exhaust)
  obtain l where l: "log3 = log @ l" "\<forall>u. y = Inr u \<longrightarrow> found_in log3 res u" using read_resource_logs [OF c r] by blast
  have log1: "log1 = log3" using step 2 r by (auto split: sum.splits)
  show ?thesis
  proof (cases y)
    case (Inl e)
    then show ?thesis using step 2 r l log1 ok by auto
  next
    case (Inr u)
    then have found: "\<And>v. GetValue (xr_paths x) (xp_jsonPath export) (pl_object (xr_paths x) u) = Done v \<Longrightarrow> export_read (xr_paths x) log3 export res v"
      using l unfolding export_read_def by blast
    have "xp_fromResource export = Some res" using ok 2 by simp
    note val = export_value_ok [OF this, of x log3, unfolded export_final_def]
    show ?thesis using step 2 r l(1) Inr log1 ok val found
      by (auto split: outcome.splits option.splits sum.splits)
  qed
next
  case (3 x1 n export res fo ref w2 xu2)
  obtain y w3 log3 where r: "read_resource x ref (w, log) = (y, w3, log3)" by (metis prod.exhaust)
  obtain l where l: "log3 = log @ l" "\<forall>u. y = Inr u \<longrightarrow> found_in log3 ref u" using read_resource_logs [OF c r] by blast
  have log1: "log1 = log3" using step 3 r by (auto split: sum.splits)
  have ok3: "export_worker_ok (xr_paths x) log3 s" using export_worker_ok_mono [OF ok, of l] l by simp
  show ?thesis
  proof (cases y)
    case (Inl e)
    then show ?thesis using step 3 r l log1 ok by auto
  next
    case (Inr u)
    then have found: "found_in log3 ref u" using l by simp
    from ok3 3 obtain v0 where v0: "xp_fromResource export = Some res" "xp_fromObjectRef export = Some fo"
      "export_read (xr_paths x) log3 export res v0" "referenced_object res fo v0 = Inr ref" by auto
    then have "export_final (xr_paths x) log3 export res v" if "GetValue (xr_paths x) (fo_jsonPath fo) (pl_object (xr_paths x) u) = Done v" for v
      using that found unfolding export_final_def by auto
    from export_value_ok [OF v0(1) this] show ?thesis using step 3 r l(1) Inr log1 ok3
      by (auto split: outcome.splits)
  qed
qed (use step ok in auto)

definition merged :: "(string \<times> json) list list \<Rightarrow> (string \<times> json) list option" where
  "merged vals = foldl (\<lambda>r m. MergeMaps r (Some m)) None vals"

lemma merged_simps [simp]: "merged [] = None" "merged (vals @ [m]) = MergeMaps (merged vals) (Some m)"
  by (simp_all add: merged_def)

fun done_export :: "export_worker \<Rightarrow> resource_export list" where
  "done_export (ExportDone export) = [export]"
| "done_export s = []"

lemma mset_concat_update:
  assumes "i < length ss" "f (ss ! i) = []"
  shows "mset (concat (map f (ss[i := s]))) = mset (f s) + mset (concat (map f ss))"
proof -
  have "mset (concat (map f ss)) = mset (concat (map f (take i ss))) + mset (concat (map f (drop (Suc i) ss)))"
    by (subst id_take_nth_drop [OF assms(1)]) (simp add: assms(2))
  then show ?thesis by (subst upd_conv_take_nth_drop [OF assms(1)]) simp
qed

definition exporter_ok :: "path_lib \<Rightarrow> resource_export list \<Rightarrow> export_worker list \<Rightarrow> ('w \<times> read_log) \<times> export_result \<Rightarrow> bool" where
  "exporter_ok pl es ss x \<longleftrightarrow> map worker_of ss = es \<and> (\<forall>s \<in> set ss. export_worker_ok pl (snd (fst x)) s)
     \<and> (xu_errors (snd x) = [] \<and> \<not> xu_panic (snd x) \<longrightarrow> (\<exists>order vals. xu_values (snd x) = merged vals
         \<and> list_all2 (export_holds pl (snd (fst x))) order vals \<and> mset order = mset (concat (map done_export ss))))"

lemma holds_all_mono: "list_all2 (export_holds pl log) order vals \<Longrightarrow> list_all2 (export_holds pl (log @ l)) order vals"
  by (erule list_all2_mono) (rule export_holds_mono)

lemma export_step_result:
  assumes "export_step x s (wl, xu) = (s', wl1, xu1)" "done_export s = []"
  shows "xu1 = xu \<and> done_export s' = []
    \<or> (\<exists>export m. s = ExportMerge export m \<and> s' = ExportDone export \<and> wl1 = wl \<and> xu1 = xu\<lparr>xu_values := MergeMaps (xu_values xu) (Some m)\<rparr>)
    \<or> (\<exists>export errs. s = ExportFailed export errs \<and> xu1 = xu\<lparr>xu_errors := xu_errors xu @ errs\<rparr>)
    \<or> xu_panic xu1"
  using assms by (cases "(x, s, (wl, xu))" rule: export_step.cases)
    (auto simp: export_value_def split: prod.splits sum.splits outcome.splits option.splits)

lemma exports_step_ok:
  assumes c: "xr_client x = recorded_target c" and ok: "exporter_ok (xr_paths x) es ss y" and i: "i < length ss"
    and step: "export_step x (ss ! i) y = (s, y')"
  shows "exporter_ok (xr_paths x) es (ss[i := s]) y'"
proof -
  obtain w log xu w1 log1 xu1 where y: "y = ((w, log), xu)" "y' = ((w1, log1), xu1)" by (metis prod.exhaust)
  let ?pl = "xr_paths x"
  have ws: "map worker_of ss = es" "\<forall>s \<in> set ss. export_worker_ok ?pl log s" using ok y by (auto simp: exporter_ok_def)
  have "export_worker_ok ?pl log (ss ! i)" using ws(2) i by simp
  from export_step_ok [OF c this step [unfolded y]]
  obtain l where s: "worker_of s = worker_of (ss ! i)" "log1 = log @ l" "export_worker_ok ?pl log1 s" by blast
  have "map worker_of (ss[i := s]) = (map worker_of ss)[i := worker_of (ss ! i)]" by (simp add: map_update s(1))
  then have 1: "map worker_of (ss[i := s]) = es" using ws(1) i by (metis length_map list_update_id nth_map)
  have 2: "\<forall>t \<in> set (ss[i := s]). export_worker_ok ?pl log1 t"
    using s ws(2) export_worker_ok_mono by (auto dest!: set_update_subset_insert [THEN subsetD])
  have "\<exists>order vals. xu_values xu1 = merged vals \<and> list_all2 (export_holds ?pl log1) order vals
      \<and> mset order = mset (concat (map done_export (ss[i := s])))" if clean: "xu_errors xu1 = []" "\<not> xu_panic xu1"
  proof (cases "done_export (ss ! i) = []")
    case False
    then obtain export where "ss ! i = ExportDone export" by (cases "ss ! i") auto
    then have "s = ss ! i" "y' = y" using step y by auto
    then show ?thesis using ok clean y by (simp add: exporter_ok_def)
  next
    case True
    have res: "xu_errors xu = [] \<and> \<not> xu_panic xu \<Longrightarrow> \<exists>order vals. xu_values xu = merged vals
        \<and> list_all2 (export_holds ?pl log) order vals \<and> mset order = mset (concat (map done_export ss))"
      using ok y by (simp add: exporter_ok_def)
    from export_step_result [OF step [unfolded y] True] consider
        "xu1 = xu" "done_export s = []"
      | export m where "ss ! i = ExportMerge export m" "s = ExportDone export" "log1 = log" "xu1 = xu\<lparr>xu_values := MergeMaps (xu_values xu) (Some m)\<rparr>"
      | export errs where "ss ! i = ExportFailed export errs" "xu1 = xu\<lparr>xu_errors := xu_errors xu @ errs\<rparr>"
      using clean(2) by blast
    then show ?thesis
    proof cases
      case 1
      then obtain order vals where "xu_values xu = merged vals" "list_all2 (export_holds ?pl log) order vals"
        "mset order = mset (concat (map done_export ss))" using res clean by auto
      then show ?thesis using 1 s(2) holds_all_mono mset_concat_update [of i ss done_export, OF i True, of s] by fastforce
    next
      case 2
      then obtain order vals where o: "xu_values xu = merged vals" "list_all2 (export_holds ?pl log) order vals"
        "mset order = mset (concat (map done_export ss))" using res clean by auto
      have "export_holds ?pl log export m" using ws(2) i 2(1) by (metis export_worker_ok.simps(3) nth_mem)
      then have "list_all2 (export_holds ?pl log1) (order @ [export]) (vals @ [m])" using o(2) 2(3) by (simp add: list_all2_appendI)
      moreover have "mset (order @ [export]) = mset (concat (map done_export (ss[i := s])))"
        using mset_concat_update [of i ss done_export, OF i True, of s] 2(2) o(3) by simp
      moreover have "xu_values xu1 = merged (vals @ [m])" using 2(4) o(1) by simp
      ultimately show ?thesis by blast
    next
      case 3
      then have "errs \<noteq> []" using ws(2) i by (metis export_worker_ok.simps(4) nth_mem)
      then show ?thesis using 3(2) clean(1) by simp
    qed
  qed
  then show ?thesis using 1 2 y by (simp add: exporter_ok_def)
qed

text \<open>The exports that the exporter reads, those with a resource.\<close>

definition read_exports :: "resource_exports \<Rightarrow> resource_export list" where
  "read_exports exports = filter (\<lambda>export. xp_fromResource export \<noteq> None) (xs_exports exports)"

lemma workers_of_exports: "map worker_of (concat (map (\<lambda>(i, export). case xp_fromResource export of
     None \<Rightarrow> [] | Some res \<Rightarrow> [ExportTry (f export i) export res None]) (enumerate n es)))
   = filter (\<lambda>export. xp_fromResource export \<noteq> None) es"
  by (induction es arbitrary: n) (auto split: option.split)

lemma export_workers_props:
  "map worker_of (export_workers x exports) = read_exports exports"
  "\<forall>s \<in> set (export_workers x exports). export_worker_ok pl log s \<and> done_export s = []"
  by (auto simp: export_workers_def read_exports_def workers_of_exports split: option.splits)

lemma rank_le_max: "s \<in> set ss \<Longrightarrow> f s \<le> foldr max (map f ss) (0 :: nat)"
  by (induction ss) auto

text \<open>
  C16: Exported values were read. If the export ends without an error, every exported resource is managed, and the result
  is the merge, in some order, of one value for each export with a resource: that which its path has in the object
  that was read for it, or in the object that this one refers to, put under its key.
\<close>

theorem exported_values_are_read:
  assumes c: "xr_client x = recorded_target c" and run: "Export x exports (w, []) = (Done result, w', log)"
  shows "(\<forall>export \<in> set (xs_exports exports). \<forall>res. xp_fromResource export = Some res \<longrightarrow> resourceIsManaged (xr_objects x) res)
    \<and> (\<exists>order vals. mset order = mset (read_exports exports) \<and> list_all2 (export_holds (xr_paths x) log) order vals \<and> result = merged vals)"
proof
  let ?ss = "export_workers x exports" and ?xu = "\<lparr>xu_errors = [], xu_values = None, xu_panic = False\<rparr>"
  have managed: "unmanaged_errors x (xs_exports exports) = []" using run by (auto simp: Export_def split: if_splits)
  then show "\<forall>export \<in> set (xs_exports exports). \<forall>res. xp_fromResource export = Some res \<longrightarrow> resourceIsManaged (xr_objects x) res"
    by (auto simp: unmanaged_errors_def split: option.splits if_splits)
  obtain ss1 xu where pool: "run_pool (export_step x) (foldr max (map export_rank ?ss) 0) (xr_schedule x) ?ss ((w, []), ?xu) = (ss1, (w', log), xu)"
    and xu: "\<not> xu_panic xu" "xu_errors xu = []" "result = xu_values xu"
    using run managed by (auto simp: Export_def Let_def split: prod.splits if_splits)
  have "concat (map done_export ?ss) = []" using export_workers_props(2) [of x exports "xr_paths x" "[]"] by auto
  then have "exporter_ok (xr_paths x) (read_exports exports) ?ss ((w, []), ?xu)"
    using export_workers_props(1) [of x exports] export_workers_props(2) [of x exports "xr_paths x" "[]"]
    by (auto simp: exporter_ok_def intro!: exI [of _ "[]"])
  from run_pool_invariant [where I = "exporter_ok (xr_paths x) (read_exports exports)", OF this pool] exports_step_ok [OF c]
  have ok: "exporter_ok (xr_paths x) (read_exports exports) ss1 ((w', log), xu)" by blast
  have "\<forall>s \<in> set ss1. export_rank s = 0" by (rule exporters.run_pool_ends [OF pool]) (simp add: rank_le_max)
  then have "done_export s = [worker_of s]" if "s \<in> set ss1" for s using that by (cases s) fastforce+
  then have ended: "concat (map done_export ss1) = map worker_of ss1" by (induction ss1) auto
  have "map worker_of ss1 = read_exports exports" using ok by (simp add: exporter_ok_def)
  then have "mset (concat (map done_export ss1)) = mset (read_exports exports)" using ended by simp
  then show "\<exists>order vals. mset order = mset (read_exports exports) \<and> list_all2 (export_holds (xr_paths x) log) order vals \<and> result = merged vals"
    using ok xu unfolding exporter_ok_def fst_conv snd_conv by metis
qed

text \<open>An export of a config map, whose JSON path gives its whole value.\<close>

definition example_paths :: path_lib where
  "example_paths =
     \<lparr>pl_parse = (\<lambda>p. None), pl_object = (\<lambda>u. JStr (om_name (us_meta u))), pl_find = (\<lambda>p v. Inr [[v]]), pl_nodes = (\<lambda>t. Inr [FieldNode t])\<rparr>"

definition example_export :: resource_export where
  "example_export =
     \<lparr>xp_timeout = None, xp_key = ''key'', xp_jsonPath = ''data'',
      xp_fromResource = Some \<lparr>tr_apiVersion = ''v1'', tr_kind = ''ConfigMap'', tr_name = ''old'', tr_namespace = ''ns''\<rparr>,
      xp_fromObjectRef = None\<rparr>"

definition example_exporter :: "'w target_client \<Rightarrow> 'w exporter" where
  "example_exporter c =
     \<lparr>xr_client = c, xr_paths = example_paths, xr_aggregate = (\<lambda>es. PlainError ''errors''), xr_timedOut = PlainError ''timed out'',
      xr_attempts = (\<lambda>t i. 2), xr_schedule = [0], xr_defaultTimeout = 60, xr_objects = [orphan_resource]\<rparr>"

definition example_exported :: "(string \<times> json) list option outcome \<times> target_world \<times> read_log" where
  "example_exported = Export (example_exporter (recorded_target example_target)) \<lparr>xs_defaultTimeout = None, xs_exports = [example_export]\<rparr>
     (empty_target\<lparr>tw_objects := [example_object ''old'']\<rparr>, [])"

lemma exported_values_are_read_witness:
  "\<exists>vals. fst example_exported = Done (merged vals)
     \<and> list_all2 (export_holds example_paths (snd (snd example_exported))) [example_export] vals"
proof -
  have "fst example_exported \<noteq> Panic" "(case fst example_exported of Fail e \<Rightarrow> False | _ \<Rightarrow> True)" by code_simp+
  then obtain result where "fst example_exported = Done result" by (cases "fst example_exported") auto
  then obtain w log where t: "example_exported = (Done result, w, log)" by (metis prod.collapse)
  have c: "xr_client (example_exporter (recorded_target example_target)) = recorded_target example_target"
    and p: "xr_paths (example_exporter (recorded_target example_target)) = example_paths"
    by (simp_all add: example_exporter_def)
  from conjunct2 [OF exported_values_are_read [OF c t [unfolded example_exported_def]], unfolded p]
  obtain order vals where o: "mset order = mset [example_export]" "list_all2 (export_holds example_paths log) order vals" "result = merged vals"
    by (auto simp: read_exports_def example_export_def)
  then have "order = [example_export]" by simp
  then show ?thesis unfolding t using o by auto
qed

end
