(* ===== verification/DeployerConfigFacts.thy ===== *)
theory DeployerConfigFacts
  imports DeployerConfigs
begin

text \<open>
  What the validation of the configurations accepts, and what it means for the checks that run later.
\<close>

section \<open>What the validation accepts\<close>

definition requirement_ok :: "(string \<Rightarrow> gerr option) \<Rightarrow> requirement_spec \<Rightarrow> bool" where
  "requirement_ok parsePath rq \<longleftrightarrow> rq_jsonPath rq \<noteq> [] \<and> parsePath (rq_jsonPath rq) = None
     \<and> (case rq_operator rq of
          OtherOperator s \<Rightarrow> False
        | DoesNotExist \<Rightarrow> length (rq_value rq) \<le> 1
        | Exists \<Rightarrow> length (rq_value rq) \<le> 1
        | In \<Rightarrow> rq_value rq \<noteq> []
        | NotIn \<Rightarrow> rq_value rq \<noteq> []
        | _ \<Rightarrow> length (rq_value rq) = 1)"

lemma ValidateRequirementSpec_accepts: "ValidateRequirementSpec parsePath p rq = [] \<longleftrightarrow> requirement_ok parsePath rq"
proof -
  have "length xs = Suc 0 \<longleftrightarrow> xs \<noteq> [] \<and> \<not> Suc 0 < length xs" for xs :: "string list" by (cases xs) auto
  then show ?thesis
    by (cases "rq_operator rq") (auto simp: ValidateRequirementSpec_def requirement_ok_def)
qed

definition custom_check_ok :: "(string \<Rightarrow> gerr option) \<Rightarrow> custom_check \<Rightarrow> bool" where
  "custom_check_ok parsePath c \<longleftrightarrow> cq_name c \<noteq> []
     \<and> ((\<exists>x xs. cq_resource c = Some (x # xs)) \<or> (\<exists>spec. cq_labelSelector c = Some spec))
     \<and> (\<forall>spec. cq_labelSelector c = Some spec \<longrightarrow> lx_labels spec \<noteq> [])
     \<and> cq_requirements c \<noteq> [] \<and> (\<forall>rq \<in> set (cq_requirements c). requirement_ok parsePath rq)"

lemma ValidateCustomReadinessCheckConfiguration_accepts:
  "ValidateCustomReadinessCheckConfiguration parsePath p c = [] \<longleftrightarrow> custom_check_ok parsePath c"
  by (cases "cq_resource c"; cases "the (cq_resource c)"; cases "cq_labelSelector c")
    (auto simp: ValidateCustomReadinessCheckConfiguration_def custom_check_ok_def ValidateLabelSelectorSpec_def ValidateRequirementSpec_accepts)

definition continuous_ok :: "(string \<Rightarrow> gerr option) \<Rightarrow> continuous_spec option \<Rightarrow> bool" where
  "continuous_ok parseCron spec \<longleftrightarrow> (case spec of
     None \<Rightarrow> True
   | Some s \<Rightarrow> (case (cs_cron s, cs_every s) of
        ([], None) \<Rightarrow> True
      | ([], Some d) \<Rightarrow> 0 \<le> d
      | (cron, None) \<Rightarrow> parseCron cron = None
      | (cron, Some d) \<Rightarrow> False))"

lemma ValidateContinuousReconcileSpec_accepts:
  "ValidateContinuousReconcileSpec parseCron p spec = [] \<longleftrightarrow> continuous_ok parseCron spec"
proof (cases spec)
  case (Some s)
  then show ?thesis
    by (cases "cs_cron s"; cases "cs_every s")
      (auto simp: ValidateContinuousReconcileSpec_def ContinuousReconcileSpecIsEmpty_def continuous_ok_def validateCronSpec_def
        validateEveryDuration_def ValidateExactlyOneOf_Nil_iff ValidateExactlyOneOf_def Let_def split: option.splits)
qed (simp add: ValidateContinuousReconcileSpec_def ContinuousReconcileSpecIsEmpty_def continuous_ok_def)

definition timeout_ok :: "duration option \<Rightarrow> bool" where
  "timeout_ok t \<longleftrightarrow> (case t of None \<Rightarrow> False | Some d \<Rightarrow> 0 \<le> d)"

lemma ValidateTimeout_accepts: "ValidateTimeout p t = [] \<longleftrightarrow> timeout_ok t"
  by (auto simp: ValidateTimeout_def timeout_ok_def split: option.split)

lemma ValidateManifestList_accepts: "ValidateManifestList p ms = [] \<longleftrightarrow> (\<forall>m \<in> set ms. mf_manifest m \<noteq> [])"
proof -
  have "concat (map (\<lambda>(i, m). ValidateManifest (path_Index p i) m) (enumerate n ms)) = [] \<longleftrightarrow> (\<forall>m \<in> set ms. mf_manifest m \<noteq> [])" for n
    by (induction ms arbitrary: n) (auto simp: ValidateManifest_def)
  then show ?thesis by (simp add: ValidateManifestList_def)
qed

definition export_in_order :: "resource_export \<Rightarrow> bool" where
  "export_in_order export \<longleftrightarrow> xp_key export \<noteq> [] \<and> xp_jsonPath export \<noteq> []
     \<and> (\<forall>res. xp_fromResource export = Some res \<longrightarrow>
          tr_apiVersion res \<noteq> [] \<and> tr_kind res \<noteq> [] \<and> tr_name res \<noteq> [] \<and> tr_namespace res \<noteq> [])"

lemma validate_helm_exports_accepts:
  "validate_helm_exports i seen exports = [] \<longleftrightarrow>
     (\<forall>export \<in> set exports. export_in_order export) \<and> distinct (map xp_key exports) \<and> xp_key ` set exports \<inter> set seen = {}"
  by (induction i seen exports rule: validate_helm_exports.induct)
    (auto simp: Let_def export_in_order_def split: option.split)

definition chart_ok :: "helm_chart \<Rightarrow> bool" where
  "chart_ok chart \<longleftrightarrow> (case (ch_archive chart, ch_fromResource chart) of
     (Some archive, _) \<Rightarrow> (case ca_remote archive of None \<Rightarrow> ca_raw archive \<noteq> [] | Some url \<Rightarrow> url \<noteq> [])
   | (None, Some res) \<Rightarrow> ra_resourceName res \<noteq> [] \<and> (ra_inline res \<or> (case ra_reference res of
        None \<Rightarrow> False
      | Some ref \<Rightarrow> dr_repositoryContext ref \<and> dr_componentName ref \<noteq> [] \<and> dr_version ref \<noteq> []))
   | (None, None) \<Rightarrow> ch_ref chart \<noteq> [])"

lemma ValidateChart_accepts: "ValidateChart p chart = [] \<longleftrightarrow> chart_ok chart"
  by (auto simp: ValidateChart_def chart_ok_def ValidateArchive_def ValidateFromResource_def split: option.split)

text \<open>
  The configurations of manifest and helm deploy items that the validation accepts: those with timeouts that are
  set and not negative, with custom readiness checks in order, a continuous reconciliation that is empty or has one schedule,
  and with the texts of all manifests; for helm with a chart, a name, a namespace and exports in order with different keys.
\<close>

theorem provider_configurations_accepted:
  "(ValidateManifestConfiguration cl m = None \<longleftrightarrow>
     (\<forall>x \<in> set (mc_manifests m). mf_manifest x \<noteq> []) \<and> timeout_ok (mc_deleteTimeout m) \<and> timeout_ok (rz_timeout (mc_readinessChecks m))
     \<and> (\<forall>c \<in> set (rz_custom (mc_readinessChecks m)). custom_check_ok (cl_parsePath cl) c)
     \<and> continuous_ok (cl_parseCron cl) (mc_continuousReconcile m))
   \<and> (ValidateHelmConfiguration cl h = None \<longleftrightarrow>
     timeout_ok (hc_deleteTimeout h) \<and> timeout_ok (rz_timeout (hc_readinessChecks h))
     \<and> (\<forall>c \<in> set (rz_custom (hc_readinessChecks h)). custom_check_ok (cl_parsePath cl) c)
     \<and> chart_ok (hc_chart h) \<and> continuous_ok (cl_parseCron cl) (hc_continuousReconcile h) \<and> hc_name h \<noteq> [] \<and> hc_namespace h \<noteq> []
     \<and> (\<forall>export \<in> set (hc_exportsFromManifests h). export_in_order export) \<and> distinct (map xp_key (hc_exportsFromManifests h)))"
  by (auto simp: ValidateManifestConfiguration_def ValidateHelmConfiguration_def to_aggregate_def ValidateManifestList_accepts
      ValidateTimeout_accepts ValidateReadinessCheckConfiguration_def ValidateCustomReadinessCheckConfiguration_accepts
      ValidateContinuousReconcileSpec_accepts ValidateChart_accepts validate_helm_exports_accepts)

section \<open>Custom checks of accepted configurations\<close>

lemma parse_values_length: "parse_values_from jl i vs = Inr vals \<Longrightarrow> length vals = length vs"
  by (induction jl i vs arbitrary: vals rule: parse_values_from.induct) (auto split: sum.splits option.splits)

lemma check_values_no_panic:
  assumes "rq_operator rq = NotEquals \<longrightarrow> vals \<noteq> []"
  shows "check_values jl now currOp u rq xs vals \<noteq> Panic"
  using assms
  by (induction jl now currOp u rq xs vals rule: check_values.induct)
    (auto simp: matchResourceConditions_def split: outcome.splits bool.splits sum.splits list.splits selection_operator.splits)

text \<open>A requirement on values that an object meets, and one on existence.\<close>

definition meets_requirement :: "json_lib \<Rightarrow> unstructured \<Rightarrow> requirement_spec \<Rightarrow> bool" where
  "meets_requirement jl u rq \<longleftrightarrow> (\<exists>found vals. getFieldsByJSONPath jl u (rq_jsonPath rq) = Inr found \<and> \<not> fieldDoesNotExist found
     \<and> rq_operator rq \<noteq> Exists \<and> parseRequirementValues jl (rq_value rq) = Inr vals
     \<and> (\<forall>x \<in> set (concat found). matchResourceConditions jl x vals (rq_operator rq) = Done True))"

definition existence_met :: "json_lib \<Rightarrow> unstructured \<Rightarrow> requirement_spec \<Rightarrow> bool" where
  "existence_met jl u rq \<longleftrightarrow> (\<exists>found. getFieldsByJSONPath jl u (rq_jsonPath rq) = Inr found
     \<and> (if fieldDoesNotExist found then rq_operator rq = DoesNotExist else rq_operator rq = Exists))"

lemma check_values_met:
  "check_values jl now currOp u rq xs vals = Done () \<longleftrightarrow>
     (\<forall>x \<in> set xs. matchResourceConditions jl x vals (rq_operator rq) = Done True)"
  by (induction xs) (auto split: outcome.split bool.split)

lemma and_also_Done: "and_also r s = Done () \<longleftrightarrow> r = Done () \<and> s = Done ()"
  by (cases r) (auto simp: and_also_def)

lemma custom_check_step:
  "CustomCheckObject jl now currOp (rq # rqs) u = Done () \<longleftrightarrow>
     existence_met jl u rq \<or> meets_requirement jl u rq \<and> CustomCheckObject jl now currOp rqs u = Done ()"
  by (auto simp: existence_met_def meets_requirement_def and_also_Done check_values_met split: sum.splits)

lemma custom_check_prefix:
  "CustomCheckObject jl now currOp rqs u = Done () \<longleftrightarrow>
     (\<exists>k \<le> length rqs. (\<forall>i < k. meets_requirement jl u (rqs ! i)) \<and> (k < length rqs \<longrightarrow> existence_met jl u (rqs ! k)))"
proof (induction rqs)
  case (Cons rq rqs)
  show ?case (is "?l \<longleftrightarrow> (\<exists>k. ?P k)")
  proof
    assume ?l
    then consider "existence_met jl u rq" | "meets_requirement jl u rq" "CustomCheckObject jl now currOp rqs u = Done ()"
      unfolding custom_check_step by blast
    then show "\<exists>k. ?P k"
    proof cases
      case 1
      then show ?thesis by (intro exI [of _ 0]) simp
    next
      case 2
      then obtain k where "k \<le> length rqs" "\<forall>i < k. meets_requirement jl u (rqs ! i)" "k < length rqs \<longrightarrow> existence_met jl u (rqs ! k)"
        using Cons by blast
      then show ?thesis using 2(1) by (intro exI [of _ "Suc k"]) (auto simp: less_Suc_eq_0_disj)
    qed
  next
    assume "\<exists>k. ?P k"
    then obtain k where k: "?P k" by blast
    show ?l
    proof (cases k)
      case 0
      then show ?thesis using k custom_check_step by auto
    next
      case (Suc j)
      then have "\<forall>i < j. meets_requirement jl u (rqs ! i)" "j < length rqs \<longrightarrow> existence_met jl u (rqs ! j)" "j \<le> length rqs"
        using k by auto
      then have "CustomCheckObject jl now currOp rqs u = Done ()" using Cons by blast
      moreover have "meets_requirement jl u rq" using k Suc by (metis nth_Cons_0 zero_less_Suc)
      ultimately show ?thesis using custom_check_step by blast
    qed
  qed
qed simp

lemma custom_check_no_panic:
  assumes "\<forall>rq \<in> set rqs. requirement_ok parsePath rq"
  shows "CustomCheckObject jl now currOp rqs u \<noteq> Panic"
  using assms
proof (induction rqs)
  case (Cons rq rqs)
  have "vals \<noteq> []" if "parseRequirementValues jl (rq_value rq) = Inr vals" "rq_operator rq = NotEquals" for vals
    using parse_values_length [of jl 0 "rq_value rq" vals] that Cons.prems
    by (auto simp: requirement_ok_def parseRequirementValues_def)
  then have "check_values jl now currOp u rq xs vals \<noteq> Panic"
    if "parseRequirementValues jl (rq_value rq) = Inr vals" for vals xs
    using that check_values_no_panic by blast
  then show ?case using Cons by (auto simp: and_also_def split: sum.splits outcome.splits)
qed simp

text \<open>
  C17: What a custom check requires. An object passes exactly if it meets the requirements up to the first met one on the
  existence of a field, or all; what comes after a met existence is not looked at. The check of a requirement that the
  validation accepts never panics.
\<close>

theorem custom_check_exact:
  "(CustomCheckObject jl now currOp rqs u = Done () \<longleftrightarrow>
     (\<exists>k \<le> length rqs. (\<forall>i < k. meets_requirement jl u (rqs ! i)) \<and> (k < length rqs \<longrightarrow> existence_met jl u (rqs ! k))))
   \<and> (custom_check_ok parsePath config \<longrightarrow> CustomCheckObject jl now currOp (cq_requirements config) u \<noteq> Panic)"
  using custom_check_prefix custom_check_no_panic by (auto simp: custom_check_ok_def)

definition example_config_lib :: config_lib where
  "example_config_lib = \<lparr>cl_parseCron = (\<lambda>c. None), cl_parsePath = (\<lambda>p. None), cl_aggregate = (\<lambda>es. PlainError ''invalid'')\<rparr>"

definition example_check :: custom_check where
  "example_check =
     \<lparr>cq_name = ''ready'', cq_timeout = None, cq_disabled = False, cq_resource = None,
      cq_labelSelector = Some \<lparr>lx_apiVersion = ''v1'', lx_kind = ''ConfigMap'', lx_labels = [(''app'', ''x'')]\<rparr>,
      cq_requirements = [\<lparr>rq_jsonPath = ''.data'', rq_operator = NotEquals, rq_value = [''y'']\<rparr>]\<rparr>"

definition example_manifest_config :: manifest_config where
  "example_manifest_config =
     \<lparr>mc_kubeconfig = ''k'', mc_updateStrategy = UpdateStrategyUpdate,
      mc_readinessChecks = \<lparr>rz_disableDefault = True, rz_timeout = Some 60, rz_custom = [example_check]\<rparr>,
      mc_deleteTimeout = Some 60, mc_manifests = [\<lparr>mf_policy = ManagePolicy, mf_manifest = ''a''\<rparr>], mc_exports = None,
      mc_continuousReconcile = Some \<lparr>cs_cron = [], cs_every = Some 60\<rparr>\<rparr>"

definition example_helm_config :: helm_config where
  "example_helm_config =
     \<lparr>hc_kubeconfig = [], hc_updateStrategy = UpdateStrategyUpdate,
      hc_readinessChecks = \<lparr>rz_disableDefault = False, rz_timeout = Some 60, rz_custom = []\<rparr>, hc_deleteTimeout = Some 60,
      hc_chart = \<lparr>ch_ref = [], ch_fromResource = None, ch_archive = Some \<lparr>ca_raw = ''raw'', ca_remote = None\<rparr>\<rparr>,
      hc_name = ''release'', hc_namespace = ''ns'', hc_createNamespace = True, hc_values = [], hc_exportsFromManifests = [],
      hc_exports = None, hc_continuousReconcile = None\<rparr>"

lemma provider_configurations_accepted_witness:
  "ValidateManifestConfiguration example_config_lib example_manifest_config = None
   \<and> ValidateHelmConfiguration example_config_lib example_helm_config = None"
  using provider_configurations_accepted [of example_config_lib example_manifest_config example_helm_config]
  by (simp add: example_manifest_config_def example_helm_config_def example_check_def example_config_lib_def timeout_ok_def
      custom_check_ok_def requirement_ok_def continuous_ok_def chart_ok_def)

definition example_json_lib :: json_lib where
  "example_json_lib = \<lparr>jl_parsePath = (\<lambda>p. None), jl_find = (\<lambda>p u. Inr [[JStr (om_name (us_meta u))]]),
     jl_decode = (\<lambda>raw. Inr [(''value'', JStr raw)]), jl_generic = Inr\<rparr>"

lemma custom_check_exact_witness:
  "CustomCheckObject example_json_lib 1 ''op'' (cq_requirements example_check) (bare_object ''v1'' ''ConfigMap'' ''x'' ''ns'') = Done ()"
proof -
  let ?u = "bare_object ''v1'' ''ConfigMap'' ''x'' ''ns''"
  have "\<exists>k \<le> length (cq_requirements example_check). (\<forall>i < k. meets_requirement example_json_lib ?u (cq_requirements example_check ! i))
      \<and> (k < length (cq_requirements example_check) \<longrightarrow> existence_met example_json_lib ?u (cq_requirements example_check ! k))"
    by (intro exI [of _ 1])
      (simp add: example_check_def meets_requirement_def example_json_lib_def getFieldsByJSONPath_def fieldDoesNotExist_def
        parseRequirementValues_def matchResourceConditions_def DeepEqual_def bare_object_def)
  then show ?thesis
    using custom_check_exact [of example_json_lib 1 "''op''" "cq_requirements example_check" ?u "\<lambda>p. None" example_check] by blast
qed

end
