(* ===== verification/DeployerFacts.thy ===== *)
theory DeployerFacts
  imports HelmDeployer ResourceExporterFacts DeployerConfigFacts DeployerLibFacts
begin

text \<open>
  Properties of the manifest and the helm deployer.
\<close>

section \<open>Decoding files\<close>

fun stuck :: "doc_stream \<Rightarrow> bool" where
  "stuck StreamEnd = False"
| "stuck (StreamStuck e) = True"
| "stuck (StreamNext d s) = stuck s"

fun documents :: "doc_stream \<Rightarrow> nat" where
  "documents (StreamNext d s) = Suc (documents s)"
| "documents s = 0"

fun raw_objects :: "(string \<Rightarrow> gerr + bool) \<Rightarrow> doc_stream \<Rightarrow> string list" where
  "raw_objects typeMeta (StreamNext (RawDocument raw) s) = (if typeMeta raw = Inr False then [raw] else []) @ raw_objects typeMeta s"
| "raw_objects typeMeta (StreamNext d s) = raw_objects typeMeta s"
| "raw_objects typeMeta s = []"

text \<open>
  C37: Decoding a rendered file. The loop over the documents returns exactly for the streams that come to an end, and then,
  with fuel beyond the number of documents, it gives the objects with a kind, in order. After a syntax error in a JSON file
  it never returns.
\<close>

theorem decoding_ends_iff:
  "((\<exists>fuel. DecodeObjectsToRawExtension fuel typeMeta s \<noteq> None) \<longleftrightarrow> \<not> stuck s)
   \<and> (\<not> stuck s \<longrightarrow> (\<forall>fuel > documents s. DecodeObjectsToRawExtension fuel typeMeta s = Some (raw_objects typeMeta s)))"
proof -
  have ends: "DecodeObjectsToRawExtension fuel typeMeta s = Some (raw_objects typeMeta s)" if "\<not> stuck s" "documents s < fuel" for fuel s
    using that
    by (induction fuel typeMeta s rule: DecodeObjectsToRawExtension.induct) (auto split: sum.split)
  have never: "DecodeObjectsToRawExtension fuel typeMeta s = None" if "stuck s" for fuel
    using that by (induction fuel typeMeta s rule: DecodeObjectsToRawExtension.induct) auto
  show ?thesis using ends [of s "Suc (documents s)"] ends never by auto
qed

definition three_documents :: doc_stream where
  "three_documents = StreamNext (RawDocument ''a'') (StreamNext EmptyDocument (StreamNext (RawDocument ''b'') StreamEnd))"

lemma decoding_ends_iff_witness:
  "DecodeObjectsToRawExtension 9 (\<lambda>raw. Inr (raw = ''b'')) three_documents = Some [''a'']"
  using decoding_ends_iff [of "\<lambda>raw. Inr (raw = ''b'')" three_documents] by (simp add: three_documents_def)

section \<open>Deletion\<close>

definition unlogged_target :: "'w target_client \<Rightarrow> ('w \<times> 'l list) target_client" where
  "unlogged_target c =
     \<lparr>tc_get = \<lambda>k key. unlogged_call (tc_get c k key), tc_create = \<lambda>u. unlogged_call (tc_create c u),
      tc_update = \<lambda>u. unlogged_call (tc_update c u), tc_patch = \<lambda>old new. unlogged_call (tc_patch c old new),
      tc_delete = \<lambda>u. unlogged_call (tc_delete c u), tc_discover = \<lambda>gv. unlogged_call (tc_discover c gv)\<rparr>"

text \<open>The answers to the deletions of some resources, one after the other.\<close>

fun deletion_answers :: "'w target_client \<Rightarrow> managed_resource list \<Rightarrow> 'w \<Rightarrow> gerr option list" where
  "deletion_answers c [] w = []"
| "deletion_answers c (mr # mrs) w =
     (case tc_delete c (ObjectFromCoreObjectReference (ms_resource mr)) w of
        (r, w1) \<Rightarrow> r # deletion_answers c mrs w1)"

definition gone_answer :: "(gerr \<Rightarrow> bool) \<Rightarrow> gerr option \<Rightarrow> bool" where
  "gone_answer gone a \<longleftrightarrow> (\<exists>err. a = Some err \<and> gone err)"

lemma delete_managed_gone:
  "fst (delete_managed c keep gone mrs w) = Inr [] \<longleftrightarrow>
     (\<forall>a \<in> set (deletion_answers c (filter (\<lambda>mr. \<not> keep mr) mrs) w). gone_answer gone a)"
  by (induction c keep gone mrs w rule: delete_managed.induct)
    (auto simp: gone_answer_def split: prod.split sum.split option.split)

lemma delete_managed_unlogged:
  "delete_managed (unlogged_target c) keep gone mrs (w, l) =
     (case delete_managed c keep gone mrs w of (r, w1) \<Rightarrow> (r, w1, l))"
proof (induction mrs arbitrary: w)
  case (Cons mr mrs)
  obtain r w1 where d: "tc_delete c (ObjectFromCoreObjectReference (ms_resource mr)) w = (r, w1)"
    by (cases "tc_delete c (ObjectFromCoreObjectReference (ms_resource mr)) w")
  have "tc_delete (unlogged_target c) (ObjectFromCoreObjectReference (ms_resource mr)) (w, l) = (r, w1, l)"
    by (simp add: unlogged_target_def unlogged_call_def d)
  then show ?case using Cons d by (auto split: prod.splits sum.splits option.splits)
qed simp

text \<open>
  C13: The finalizer of a manifest item stays until its resources are gone. A deletion with managed resources in the status
  updates the deploy item, without its finalizer, exactly if the deletion of each resource that is neither to be kept nor
  ignored is answered with NotFound, from the last resource to the first, and only then it succeeds.
\<close>

theorem manifest_finalizer_removed_iff:
  assumes new: "manifest_New e parse di (w, []) = Done (config, Some managed)" and "managed \<noteq> []"
    and ls: "dv_lsClient e = logged c"
    and target: "TargetClient e (mc_kubeconfig config) target (w, []) = (Inr (unlogged_target tc), w1, [])"
    and run: "manifest_Delete e parse di target (w, []) = (r, di', w', log)"
  defines "gone \<equiv> (\<forall>a \<in> set (deletion_answers tc (filter (\<lambda>mr. \<not> manifest_keeps mr) (rev managed)) w1). gone_answer IsNotFound a)"
  shows "log = (if gone then [UpdateItem (without_finalizer (with_phase PhDeleting di))] else []) \<and> (r = Done () \<longrightarrow> gone)"
proof -
  obtain x w2 where d: "delete_managed tc manifest_keeps IsNotFound (rev managed) w1 = (x, w2)"
    by (cases "delete_managed tc manifest_keeps IsNotFound (rev managed) w1")
  have gone: "gone \<longleftrightarrow> x = Inr []"
    using delete_managed_gone [of tc manifest_keeps IsNotFound "rev managed" w1] d by (simp add: gone_def)
  show ?thesis
    using run new \<open>managed \<noteq> []\<close> target d gone
    by (auto simp: manifest_Delete_def manifest_delete_run_def Let_def delete_managed_unlogged update_item_def ls logged_call_def
        logged_resource_def split: sum.splits prod.splits if_splits)
qed

text \<open>
  What the helm deployer deletes: every resource, whatever its policy, where the manifest deployer leaves those that are
  to be kept. The namespace of a release, which the helm deployer adds as a resource to be kept, is deleted with the item.
\<close>

lemma helm_deletes_what_is_kept:
  "deletion_answers c (filter (\<lambda>mr. \<not> manifest_keeps mr) mrs) w = [] \<longleftrightarrow> (\<forall>mr \<in> set mrs. manifest_keeps mr)"
  "deletion_answers c (filter (\<lambda>mr. \<not> (\<lambda>mr. False) mr) mrs) w = [] \<longleftrightarrow> mrs = []"
proof -
  have nil: "deletion_answers c mrs w = [] \<longleftrightarrow> mrs = []" for mrs by (cases mrs) (auto split: prod.split)
  show "deletion_answers c (filter (\<lambda>mr. \<not> manifest_keeps mr) mrs) w = [] \<longleftrightarrow> (\<forall>mr \<in> set mrs. manifest_keeps mr)"
    by (simp add: nil filter_empty_conv)
  show "deletion_answers c (filter (\<lambda>mr. \<not> (\<lambda>mr. False) mr) mrs) w = [] \<longleftrightarrow> mrs = []"
    by (simp add: nil)
qed

section \<open>Errors of the deployers\<close>

text \<open>
  C38: An item whose exports cannot be read is stored as succeeded. When the checks of the readiness are done and then the
  export fails, the run of the manifest deployer ends with an error and an item in the phase Succeeded, without a last
  error; the error handler of the deployer library keeps this phase.
\<close>

theorem failed_export_leaves_succeeded:
  assumes "all_checks e c ''DefaultCheckResourcesReadinessManifest'' ''CustomCheckResourcesReadinessManifest''
      (mc_readinessChecks config) managed w = Some (Done (), w1)"
    and "mc_exports config = Some exports" and "Export (exporter_for e c managed) exports w1 = (Fail err, w2)"
  shows "\<exists>err' di'. manifest_ready e c config managed di w = Some (Fail err', di', w2)
    \<and> ds_phase (di_handled_status now (Some err') (di_status di')) = PhSucceeded"
  using assms
  by (simp add: manifest_ready_def manifest_exports_def di_handled_status_def Let_def succeeded_item_def TryUpdateError_def
      GetPhaseForLastError_def wrapped_error_def NewWrappedError_def error_UpdatedError_def UpdatedError_def go_defs)

text \<open>An empty target cluster, and a deployer for it.\<close>

definition bare_target :: "'w target_client" where
  "bare_target =
     \<lparr>tc_get = \<lambda>k key w. (Inl not_found, w), tc_create = \<lambda>u w. (Inr u, w), tc_update = \<lambda>u w. (Inl not_found, w),
      tc_patch = \<lambda>old u w. (Inl not_found, w), tc_delete = \<lambda>u w. (Some not_found, w), tc_discover = \<lambda>gv w. (Inr [], w)\<rparr>"

definition example_deployer_env :: "'w kube_client \<Rightarrow> 'w target_client \<Rightarrow> 'w deployer_env" where
  "example_deployer_env ls c =
     \<lparr>dv_lsClient = ls, dv_hostClient = ls, dv_exportTimeout = None, dv_configs = example_config_lib, dv_base64 = Inr,
      dv_cluster = (\<lambda>k. Inr c), dv_targetConfig = (\<lambda>raw. Inl (PlainError ''no target'')), dv_aggregate = (\<lambda>es. PlainError ''errors''),
      dv_isNoMatch = (\<lambda>e. False), dv_encodeStatus = (\<lambda>managed. Inr ''status''), dv_decodeStatus = (\<lambda>raw. Inr [orphan_resource]),
      dv_applier = example_applier c [], dv_polls = (\<lambda>t. 2), dv_readiness = example_readiness c,
      dv_codecs = \<lparr>wd_pod = (\<lambda>u. Inr []), wd_workload = (\<lambda>u. Inl not_found), wd_daemonSet = (\<lambda>u. Inl not_found), wd_scaled = (\<lambda>v n. Inr 0)\<rparr>,
      dv_json = example_json_lib, dv_exporter = example_exporter c, dv_setOwner = (\<lambda>di m. Inr m), dv_marshal = (\<lambda>v. Inr ''data''),
      dv_fuel = 5\<rparr>"

definition managed_item :: deploy_item where
  "managed_item = (let di = plain_item None in
     di\<lparr>di_meta := (di_meta di)\<lparr>om_finalizers := [LandscaperFinalizer]\<rparr>, di_spec := (di_spec di)\<lparr>di_configuration := Some ''config''\<rparr>,
       di_status := (di_status di)\<lparr>ds_providerStatus := Some ''status''\<rparr>\<rparr>)"

definition item_deletion :: "unit outcome \<times> deploy_item \<times> (cluster \<times> api_write list)" where
  "item_deletion = manifest_Delete (example_deployer_env (logged example_client) (unlogged_target bare_target))
     (\<lambda>raw. Inr example_manifest_config) managed_item None (deployer_cluster managed_item, [])"

lemma manifest_finalizer_removed_iff_witness:
  "snd (snd (snd item_deletion)) = [UpdateItem (without_finalizer (with_phase PhDeleting managed_item))]"
proof -
  let ?e = "example_deployer_env (logged example_client) (unlogged_target bare_target)" and ?w = "deployer_cluster managed_item"
  obtain r di' w' log where t: "item_deletion = (r, di', w', log)" by (metis prod.collapse)
  have "SetDefaults_ManifestConfiguration example_manifest_config = example_manifest_config"
    by (simp add: SetDefaults_ManifestConfiguration_def example_manifest_config_def default_strategy_def default_timeout_def default_policy_def)
  moreover have "ValidateManifestConfiguration example_config_lib example_manifest_config = None" by code_simp
  ultimately have new: "manifest_New ?e (\<lambda>raw. Inr example_manifest_config) managed_item (?w, []) = Done (example_manifest_config, Some [orphan_resource])"
    by (simp add: manifest_New_def managed_item_def Let_def plain_item_def example_deployer_env_def)
  have target: "TargetClient ?e (mc_kubeconfig example_manifest_config) None (?w, []) = (Inr (unlogged_target bare_target), ?w, [])"
    by (simp add: TargetClient_def example_manifest_config_def example_deployer_env_def)
  have gone: "\<forall>a \<in> set (deletion_answers bare_target (filter (\<lambda>mr. \<not> manifest_keeps mr) (rev [orphan_resource])) ?w). gone_answer IsNotFound a"
    by (simp add: orphan_resource_def manifest_keeps_def bare_target_def gone_answer_def not_found_def)
  have ls: "dv_lsClient ?e = logged example_client" by (simp add: example_deployer_env_def)
  from manifest_finalizer_removed_iff [OF new _ ls target t [unfolded item_deletion_def]] gone
  show ?thesis unfolding t by simp
qed

definition export_config :: manifest_config where
  "export_config = example_manifest_config\<lparr>mc_readinessChecks := \<lparr>rz_disableDefault = True, rz_timeout = Some 60, rz_custom = []\<rparr>,
     mc_exports := Some \<lparr>xs_defaultTimeout = None, xs_exports = [example_export]\<rparr>\<rparr>"

lemma failed_export_leaves_succeeded_witness:
  "\<exists>err di'. manifest_ready (example_deployer_env example_client bare_target) bare_target export_config [] managed_item (deployer_cluster managed_item)
      = Some (Fail err, di', deployer_cluster managed_item)
    \<and> ds_phase (di_handled_status 5 (Some err) (di_status di')) = PhSucceeded"
proof (rule failed_export_leaves_succeeded)
  let ?e = "example_deployer_env example_client bare_target"
  show "all_checks ?e bare_target ''DefaultCheckResourcesReadinessManifest'' ''CustomCheckResourcesReadinessManifest''
      (mc_readinessChecks export_config) [] (deployer_cluster managed_item) = Some (Done (), deployer_cluster managed_item)"
    by (simp add: all_checks_def export_config_def)
  show "mc_exports export_config = Some \<lparr>xs_defaultTimeout = None, xs_exports = [example_export]\<rparr>" by (simp add: export_config_def)
  show "Export (exporter_for ?e bare_target []) \<lparr>xs_defaultTimeout = None, xs_exports = [example_export]\<rparr> (deployer_cluster managed_item)
      = (Fail (PlainError ''errors''), deployer_cluster managed_item)"
    by (simp add: Export_def exporter_for_def example_deployer_env_def example_exporter_def unmanaged_errors_def example_export_def resourceIsManaged_def)
qed

section \<open>Success means ready\<close>

text \<open>What a computation adds to the recorded reads.\<close>

definition extends_log :: "'l list \<Rightarrow> 'w \<times> 'l list \<Rightarrow> bool" where
  "extends_log l x \<longleftrightarrow> (\<exists>l1. snd x = l @ l1)"

lemma extends_log_refl [simp]: "extends_log l (w, l)"
  by (simp add: extends_log_def)

lemma extends_log_trans: "extends_log l (w, l1) \<Longrightarrow> extends_log l1 x \<Longrightarrow> extends_log l x"
  by (auto simp: extends_log_def)

lemma extends_log_mem: "extends_log l (w, l1) \<Longrightarrow> a \<in> set l \<Longrightarrow> a \<in> set l1"
  by (auto simp: extends_log_def)

definition unlogged_resource :: "('w, 'o) resource_client \<Rightarrow> ('w \<times> 'l list, 'o) resource_client" where
  "unlogged_resource c =
     \<lparr>rc_get = \<lambda>key. unlogged_call (rc_get c key), rc_list = \<lambda>lab ns. unlogged_call (rc_list c lab ns),
      rc_select = \<lambda>reqs ns. unlogged_call (rc_select c reqs ns), rc_create = \<lambda>obj. unlogged_call (rc_create c obj),
      rc_update = \<lambda>obj. unlogged_call (rc_update c obj), rc_statusUpdate = \<lambda>obj. unlogged_call (rc_statusUpdate c obj),
      rc_patch = \<lambda>old new. unlogged_call (rc_patch c old new), rc_statusPatch = \<lambda>old new. unlogged_call (rc_statusPatch c old new),
      rc_delete = \<lambda>obj. unlogged_call (rc_delete c obj)\<rparr>"

lemma unlogged_call_eqD: "unlogged_call call (w, l) = (r, w1, l1) \<Longrightarrow> l1 = l"
  by (auto simp: unlogged_call_def split: prod.splits)

lemma objects_by_labels_extends:
  "objects_by_labels (recorded_target c) gvk labels refs (w, l) = (r, x) \<Longrightarrow> extends_log l x"
proof (induction refs arbitrary: w l r x)
  case (Cons ref refs)
  show ?case
  proof (cases "GroupVersionKind (ObjectFromTypedObjectReference ref) = gvk")
    case True
    obtain y w1 where get: "tc_get c gvk (us_key (ObjectFromTypedObjectReference ref)) w = (y, w1)"
      by (cases "tc_get c gvk (us_key (ObjectFromTypedObjectReference ref)) w")
    let ?l = "l @ [(us_key (ObjectFromTypedObjectReference ref), y)]"
    have l: "extends_log l (w1, ?l)" by (simp add: extends_log_def)
    show ?thesis
    proof (cases y)
      case (Inr u)
      obtain r2 x2 where rest: "objects_by_labels (recorded_target c) gvk labels refs (w1, ?l) = (r2, x2)" by (metis prod.exhaust)
      have "x = x2" using Cons.prems True get Inr rest by (auto simp: Let_def split: sum.splits)
      then show ?thesis using extends_log_trans [OF l Cons.IH [OF rest]] by simp
    qed (use Cons.prems True get l in \<open>auto simp: Let_def\<close>)
  qed (use Cons in \<open>auto simp: Let_def\<close>)
qed simp

lemma readiness_failed_Done: "readiness_failed r op result = Some (Done (), x) \<longleftrightarrow> result = Some (Done (), x)"
  by (auto simp: readiness_failed_def split: option.splits prod.splits outcome.splits)

lemma custom_check_extends:
  assumes c: "rk_client r = recorded_target c" and honest: "honest_target c"
    and run: "CustomCheckResourcesReady r jl fuel op t refs config (w, l) = Some (Done (), x)"
  shows "extends_log l x"
proof (cases "cq_disabled config \<or> refs = []")
  case False
  obtain r1 w1 l1 where sel: "(case cq_labelSelector config of None \<Rightarrow> (Inr [], (w, l))
      | Some selector \<Rightarrow> getObjectsByLabels (rk_client r) refs selector (w, l)) = (r1, (w1, l1))" by (metis prod.exhaust)
  have l1: "extends_log l (w1, l1)"
    using sel c objects_by_labels_extends by (fastforce simp: getObjectsByLabels_def split: option.splits prod.splits)
  from run False sel obtain objs timeout where wait:
    "WaitForObjectsReady r fuel timeout objs (CustomCheckObject jl (rk_now r (w1, l1)) op (cq_requirements config)) (w1, l1) = Some (Done (), x)"
    by (auto simp: CustomCheckResourcesReady_def Let_def readiness_failed_Done split: sum.splits option.splits)
  obtain w2 l2 where x: "x = (w2, l2)" by (cases x)
  from ready_polls_logs [OF c honest wait [unfolded WaitForObjectsReady_def x]] have "extends_log l1 x"
    unfolding x extends_log_def by auto
  then show ?thesis by (rule extends_log_trans [OF l1])
qed (use run in \<open>auto simp: CustomCheckResourcesReady_def\<close>)

lemma custom_checks_extend:
  assumes honest: "honest_target c"
  shows "custom_checks e (recorded_target c) op t refs configs (w, l) = Some (Done (), x) \<Longrightarrow> extends_log l x"
proof (induction configs arbitrary: w l)
  case (Cons config configs)
  from Cons.prems obtain w1 l1 where first: "CustomCheckResourcesReady ((dv_readiness e)\<lparr>rk_client := recorded_target c\<rparr>) (dv_json e)
      (dv_fuel e) op t refs config (w, l) = Some (Done (), (w1, l1))"
    and rest: "custom_checks e (recorded_target c) op t refs configs (w1, l1) = Some (Done (), x)"
    by (auto split: option.splits prod.splits outcome.splits)
  from custom_check_extends [OF _ honest first] have "extends_log l (w1, l1)" by simp
  then show ?case using Cons.IH [OF rest] by (rule extends_log_trans)
qed auto

lemma read_resource_extends:
  "xr_client x = recorded_target c \<Longrightarrow> read_resource x res (w, l) = (y, z) \<Longrightarrow> extends_log l z"
  using read_resource_logs [of x c res w l y "fst z" "snd z"] by (auto simp: extends_log_def)

lemma export_step_extends:
  assumes c: "xr_client x = recorded_target c" and step: "export_step x s ((w, l), xu) = (s', z, xu1)"
  shows "extends_log l z"
proof (cases "(x, s, ((w, l), xu))" rule: export_step.cases)
  case (2 x1 n export res lastErr w2 xu2)
  then show ?thesis using step read_resource_extends [OF c, of res w l] by (auto split: prod.splits sum.splits)
next
  case (3 x1 n export res fo ref w2 xu2)
  then show ?thesis using step read_resource_extends [OF c, of ref w l] by (auto split: prod.splits sum.splits)
qed (use step in auto)

lemma Export_extends:
  assumes c: "xr_client x = recorded_target c" and run: "Export x exports (w, l) = (r, z)"
  shows "extends_log l z"
proof (cases "unmanaged_errors x (xs_exports exports) = []")
  case True
  let ?ss = "export_workers x exports" and ?xu = "\<lparr>xu_errors = [], xu_values = None, xu_panic = False\<rparr>"
  obtain ss1 xu where pool: "run_pool (export_step x) (foldr max (map export_rank ?ss) 0) (xr_schedule x) ?ss ((w, l), ?xu) = (ss1, z, xu)"
    using run True by (auto simp: Export_def Let_def split: prod.splits)
  have "extends_log l (fst y1)" if "extends_log l (fst y)" "export_step x (ss ! i) y = (s, y1)" for ss i y s y1
  proof -
    obtain w2 l2 xu2 where y: "y = ((w2, l2), xu2)" by (metis prod.exhaust)
    obtain z1 xu1 where y1: "y1 = (z1, xu1)" by (cases y1)
    from export_step_extends [OF c that(2) [unfolded y y1]] have "extends_log l2 (fst y1)" unfolding y1 by simp
    then show ?thesis using that(1) y extends_log_trans by fastforce
  qed
  from run_pool_invariant [where I = "\<lambda>ss y. extends_log l (fst y)", OF _ pool] this show ?thesis by simp
qed (use run in \<open>auto simp: Export_def\<close>)

lemma CreateOrUpdateExport_log:
  assumes "kc_deployItems c = unlogged_resource ic" "kc_secrets c = unlogged_resource sc"
    and "CreateOrUpdateExport setOwner marshal c di vals (w, l) = (r, di', w', l')"
  shows "l' = l"
  using assms
  by (auto simp: CreateOrUpdateExport_def controllerutil_CreateOrUpdate_def create_object_def unlogged_resource_def Let_def
      dest!: unlogged_call_eqD split: option.splits sum.splits prod.splits if_splits)

lemma store_export_log:
  assumes "kc_deployItems (dv_lsClient e) = unlogged_resource ic" "kc_secrets (dv_lsClient e) = unlogged_resource sc"
    and "store_export e di vals (w, l) = (r, di', w', l')"
  shows "l' = l"
  using assms CreateOrUpdateExport_log [OF assms(1,2)] by (auto simp: store_export_def split: option.splits prod.splits)

lemma manifest_exports_extend:
  assumes ls: "kc_deployItems (dv_lsClient e) = unlogged_resource ic" "kc_secrets (dv_lsClient e) = unlogged_resource sc"
    and run: "manifest_exports e (recorded_target c) config managed di (w, l) = (r, di', z)"
  shows "extends_log l z"
proof (cases "mc_exports config")
  case (Some exports)
  obtain x w1 l1 where ex: "Export (exporter_for e (recorded_target c) managed) exports (w, l) = (x, w1, l1)" by (metis prod.exhaust)
  have l1: "extends_log l (w1, l1)" by (rule Export_extends [OF _ ex]) (simp add: exporter_for_def)
  show ?thesis
  proof (cases x)
    case (Done vals)
    obtain w2 l2 where z: "z = (w2, l2)" by (cases z)
    have "store_export e di vals (w1, l1) = (r, di', w2, l2)" using run Some ex Done z by (simp add: manifest_exports_def)
    from store_export_log [OF ls this] show ?thesis using l1 z by (auto simp: extends_log_def)
  qed (use run Some ex l1 in \<open>auto simp: manifest_exports_def\<close>)
qed (use run in \<open>auto simp: manifest_exports_def\<close>)

lemma default_check_reads:
  assumes honest: "honest_target c"
    and run: "DefaultCheckResourcesReady (r\<lparr>rk_client := recorded_target c\<rparr>) cd fuel op t (TypedObjectReferenceList managed) (w, l) = Some (Done (), w1, l1)"
  shows "extends_log l (w1, l1) \<and> (\<forall>mr \<in> set managed. \<exists>u. DefaultCheckObject cd u = Done ()
    \<and> us_key u = ObjectKey (rf_name (ms_resource mr)) (rf_namespace (ms_resource mr)) \<and> (us_key u, Inr u) \<in> set l1)"
proof (cases "TypedObjectReferenceList managed = []")
  case False
  let ?refs = "TypedObjectReferenceList managed"
  obtain timeout where wait: "WaitForObjectsReady (r\<lparr>rk_client := recorded_target c\<rparr>) fuel timeout (map ObjectFromTypedObjectReference ?refs)
      (DefaultCheckObject cd) (w, l) = Some (Done (), w1, l1)"
    using run False by (auto simp: DefaultCheckResourcesReady_def readiness_failed_Done split: option.splits)
  from ready_polls_logs [OF _ honest wait [unfolded WaitForObjectsReady_def]] obtain mid last where l: "l1 = l @ mid @ last"
    "us_key ` set (map ObjectFromTypedObjectReference ?refs) \<subseteq> fst ` set last" "\<forall>a \<in> set last. ready_read (DefaultCheckObject cd) a"
    by auto
  have "\<exists>u. DefaultCheckObject cd u = Done () \<and> us_key u = ObjectKey (rf_name (ms_resource mr)) (rf_namespace (ms_resource mr))
      \<and> (us_key u, Inr u) \<in> set l1" if "mr \<in> set managed" for mr
  proof -
    have "ObjectKey (rf_name (ms_resource mr)) (rf_namespace (ms_resource mr)) \<in> us_key ` set (map ObjectFromTypedObjectReference ?refs)"
      using that by (force simp: TypedObjectReferenceList_def ObjectFromTypedObjectReference_def bare_object_def us_key_def ObjectKey_def)
    then obtain y where y: "(ObjectKey (rf_name (ms_resource mr)) (rf_namespace (ms_resource mr)), y) \<in> set last"
      using l(2) by fastforce
    with l(3) obtain u where "y = Inr u" "us_key u = ObjectKey (rf_name (ms_resource mr)) (rf_namespace (ms_resource mr))"
      "DefaultCheckObject cd u = Done ()" by (auto simp: ready_read_def)
    then show ?thesis using y unfolding l(1) by (intro exI [of _ u]) simp
  qed
  then show ?thesis using l(1) by (auto simp: extends_log_def)
qed (use run in \<open>auto simp: DefaultCheckResourcesReady_def TypedObjectReferenceList_def\<close>)

text \<open>
  C12: Success means ready, unless the configuration disables the default checks. If they are not disabled and a run of the
  manifest deployer ends without an error, then the object of each manifest that is neither ignored nor a fallback was read from
  the target cluster and passed the default check of its kind.
\<close>

theorem manifest_success_means_ready:
  assumes target: "TargetClient e (mc_kubeconfig config) target (w, []) = (Inr (recorded_target c), w1, [])"
    and honest: "honest_target c" and checks: "\<not> rz_disableDefault (mc_readinessChecks config)"
    and ls: "kc_deployItems (dv_lsClient e) = unlogged_resource ic" "kc_secrets (dv_lsClient e) = unlogged_resource sc"
    and run: "manifest_run e config status di target (w, []) = Some (Done (), di', w', log)"
  shows "\<forall>x \<in> set (mc_manifests config). mf_policy x \<notin> {IgnorePolicy, FallbackPolicy} \<longrightarrow>
    (\<exists>d u. ra_decode (dv_applier e) (mf_manifest x) = Inr d \<and> om_name (us_meta d) = or_name (us_key u)
      \<and> (us_key u, Inr u) \<in> set log \<and> DefaultCheckObject (dv_codecs e) u = Done ())"
proof -
  let ?c = "recorded_target c" and ?di = "with_phase PhProgressing di"
  from run target obtain t managed w2 l2 s di1 w3 l3 where
    applied: "Apply (manifest_applier e ?c config t ?di) (case status of None \<Rightarrow> [] | Some old \<Rightarrow> old) (w1, []) = (None, managed, w2, l2)"
    and upd: "rc_statusUpdate (kc_deployItems (dv_lsClient e)) (with_providerStatus (Some s) ?di) (w2, l2) = (Inr di1, w3, l3)"
    and ready: "manifest_ready e ?c config managed di1 (w3, l3) = Some (Done (), di', w', log)"
    by (auto simp: manifest_run_def Let_def split: option.splits prod.splits sum.splits)
  have "l3 = l2" using upd ls(1) by (auto simp: unlogged_resource_def dest!: unlogged_call_eqD)
  from ready checks obtain w4 l4 w5 l5 where
    default: "DefaultCheckResourcesReady ((dv_readiness e)\<lparr>rk_client := ?c\<rparr>) (dv_codecs e) (dv_fuel e)
      ''DefaultCheckResourcesReadinessManifest'' (rz_timeout (mc_readinessChecks config)) (TypedObjectReferenceList managed) (w3, l3) = Some (Done (), w4, l4)"
    and custom: "custom_checks e ?c ''CustomCheckResourcesReadinessManifest'' (rz_timeout (mc_readinessChecks config))
      (TypedObjectReferenceList managed) (rz_custom (mc_readinessChecks config)) (w4, l4) = Some (Done (), w5, l5)"
    and exports: "manifest_exports e ?c config managed (succeeded_item di1) (w5, l5) = (Done (), di', w', log)"
    by (auto simp: manifest_ready_def all_checks_def Let_def split: option.splits prod.splits outcome.splits)
  have l4: "a \<in> set log" if "a \<in> set l4" for a
    using extends_log_mem [OF extends_log_trans [OF custom_checks_extend [OF honest custom] manifest_exports_extend [OF ls exports]]] that .
  have "honest_target (ra_client (manifest_applier e ?c config t ?di))"
    using honest by (fastforce simp: manifest_applier_def honest_target_def recorded_target_def unlogged_call_def split: prod.splits)
  from applied_manifests_managed [OF this applied]
  have "\<exists>mr \<in> set managed. managed_for (manifest_applier e ?c config t ?di) x mr"
    if "x \<in> set (mc_manifests config)" "mf_policy x \<notin> {IgnorePolicy, FallbackPolicy}" for x
    using that by (simp add: manifest_applier_def)
  then show ?thesis
    using conjunct2 [OF default_check_reads [OF honest default]] l4
    by (fastforce simp: managed_for_def manifest_applier_def ObjectKey_def)
qed

text \<open>The client of a landscaper cluster without objects.\<close>

definition quiet_client :: "('w \<times> 'l list) kube_client" where
  "quiet_client =
     \<lparr>kc_now = (\<lambda>w. 1), kc_deployItems = unlogged_resource no_objects, kc_executions = no_objects, kc_dataObjects = no_objects,
      kc_secrets = unlogged_resource no_objects, kc_configMaps = no_objects, kc_targets = no_objects, kc_contexts = no_objects,
      kc_installations = no_objects\<rparr>"

definition checked_config :: manifest_config where
  "checked_config = example_manifest_config\<lparr>mc_readinessChecks := \<lparr>rz_disableDefault = False, rz_timeout = Some 60, rz_custom = []\<rparr>\<rparr>"

definition successful_run :: "(unit outcome \<times> deploy_item \<times> target_world \<times> read_log) option" where
  "successful_run = manifest_run (example_deployer_env quiet_client (recorded_target example_target)) checked_config None managed_item None
     (empty_target, [])"

lemma manifest_success_means_ready_witness:
  "\<exists>u. us_key u \<in> fst ` set (snd (snd (snd (the successful_run)))) \<and> or_name (us_key u) = ''a''"
proof -
  let ?c = "recorded_target example_target" and ?ic = "no_objects :: (target_world, deploy_item) resource_client"
    and ?sc = "no_objects :: (target_world, secret) resource_client"
  let ?e = "example_deployer_env quiet_client ?c"
  have "(case successful_run of Some (Done u, x) \<Rightarrow> True | _ \<Rightarrow> False)" by code_simp
  then obtain di' w' log where t: "successful_run = Some (Done (), di', w', log)"
    by (auto split: option.splits prod.splits outcome.splits)
  have target: "TargetClient ?e (mc_kubeconfig checked_config) None (empty_target, []) = (Inr ?c, empty_target, [])"
    by (simp add: TargetClient_def checked_config_def example_manifest_config_def example_deployer_env_def)
  have checks: "\<not> rz_disableDefault (mc_readinessChecks checked_config)" by (simp add: checked_config_def)
  have ls: "kc_deployItems (dv_lsClient ?e) = unlogged_resource ?ic" "kc_secrets (dv_lsClient ?e) = unlogged_resource ?sc"
    by (simp_all add: example_deployer_env_def quiet_client_def)
  from manifest_success_means_ready [OF target example_target_honest checks ls t [unfolded successful_run_def]]
  show ?thesis unfolding t
    by (force simp: checked_config_def example_manifest_config_def example_deployer_env_def example_applier_def example_object_def bare_object_def)
qed

end
