(* ===== verification/MockDeployer.thy ===== *)
theory MockDeployer
  imports ManifestDeployer
begin

text \<open>
  The mock deployer (\<open>pkg/deployer/mock\<close>).
\<close>

section \<open>The mock deployer\<close>

record mock_config =
  mk_phase :: "phase option"
  mk_initialPhase :: "phase option"
  mk_providerStatus :: "string option"
  mk_export :: "string option"
  mk_continuousReconcile :: "continuous_spec option"

definition DeployItemValidationCondition :: string where
  "DeployItemValidationCondition = ''DeployItemValidation''"

text \<open>The error of the status update is ignored.\<close>

definition mock_report ::
    "'w kube_client \<Rightarrow> bool \<Rightarrow> string \<Rightarrow> string \<Rightarrow> deploy_item \<Rightarrow> 'w \<Rightarrow> deploy_item \<times> 'w" where
  "mock_report c valid reason message di w =
     (let di1 = di\<lparr>di_status := (di_status di)\<lparr>ds_conditions := CreateOrUpdateConditions (kc_now c w) (ds_conditions (di_status di))
            DeployItemValidationCondition (if valid then ConditionTrue else ConditionFalse) reason message []\<rparr>\<rparr>
      in case rc_statusUpdate (kc_deployItems c) di1 w of
           (Inl _, w1) \<Rightarrow> (di1, w1)
         | (Inr di2, w1) \<Rightarrow> (di2, w1))"

definition mock_getConfig ::
    "'w kube_client \<Rightarrow> (string \<Rightarrow> gerr + mock_config) \<Rightarrow> deploy_item \<Rightarrow> 'w \<Rightarrow> mock_config outcome \<times> deploy_item \<times> 'w" where
  "mock_getConfig c parse di w =
     (case di_configuration (di_spec di) of
        None \<Rightarrow> (Panic, di, w)
      | Some raw \<Rightarrow>
          (case parse raw of
             Inl err \<Rightarrow> (case mock_report c False ''FailedUnmarshal'' (error_string err) di w of (di1, w1) \<Rightarrow> (Fail err, di1, w1))
           | Inr config \<Rightarrow>
               (case mock_report c True ''SuccessfullValidation'' ''Successfully validated configuration'' di w of
                  (di1, w1) \<Rightarrow> (Done config, di1, w1))))"

definition mock_secret :: "deploy_item \<Rightarrow> secret" where
  "mock_secret di =
     \<lparr>sc_meta = (case ds_exportReference (di_status di) of
        None \<Rightarrow> empty_meta\<lparr>om_generateName := ''mock-export-'', om_namespace := om_namespace (di_meta di)\<rparr>
      | Some ref \<Rightarrow> empty_meta\<lparr>om_generateName := ''mock-export-'', om_name := or_name ref, om_namespace := or_namespace ref\<rparr>),
      sc_data = []\<rparr>"

definition mock_ensureExport ::
    "(deploy_item \<Rightarrow> object_meta \<Rightarrow> gerr + object_meta) \<Rightarrow> 'w kube_client \<Rightarrow> mock_config \<Rightarrow> deploy_item \<Rightarrow> 'w
      \<Rightarrow> gerr option \<times> deploy_item \<times> 'w" where
  "mock_ensureExport setOwner c config di w =
     (case mk_export config of
        None \<Rightarrow> (None, di, w)
      | Some data \<Rightarrow>
          (case CreateOrUpdate (kc_secrets c) sc_meta (\<lambda>_. mutate_export_secret setOwner di data) (mock_secret di) w of
             (Inl err, w1) \<Rightarrow> (Some err, di, w1)
           | (Inr (res, sec), w1) \<Rightarrow>
               (let di1 = di\<lparr>di_status := (di_status di)\<lparr>ds_exportReference := Some (ObjectKeyFromObject (sc_meta sec))\<rparr>\<rparr>
                in case rc_statusUpdate (kc_deployItems c) di1 w1 of
                     (Inl err, w2) \<Rightarrow> (Some err, di1, w2)
                   | (Inr di2, w2) \<Rightarrow> (None, di2, w2))))"

definition mock_phase :: "mock_config \<Rightarrow> phase \<Rightarrow> phase" where
  "mock_phase config p =
     (case mk_phase config of
        Some q \<Rightarrow> q
      | None \<Rightarrow>
          (case mk_initialPhase config of
             Some q \<Rightarrow> (if p = PhEmpty \<or> p = PhInit then q else p)
           | None \<Rightarrow> PhSucceeded))"

definition mock_Reconcile ::
    "(deploy_item \<Rightarrow> object_meta \<Rightarrow> gerr + object_meta) \<Rightarrow> 'w kube_client \<Rightarrow> (string \<Rightarrow> gerr + mock_config) \<Rightarrow> deploy_item \<Rightarrow> 'w
      \<Rightarrow> unit outcome \<times> deploy_item \<times> 'w" where
  "mock_Reconcile setOwner c parse di w =
     (case mock_getConfig c parse di w of
        (Panic, di1, w1) \<Rightarrow> (Panic, di1, w1)
      | (Fail err, di1, w1) \<Rightarrow> (Fail err, di1, w1)
      | (Done config, di1, w1) \<Rightarrow>
          (case mock_ensureExport setOwner c config di1 w1 of
             (Some err, di2, w2) \<Rightarrow> (Fail err, di2, w2)
           | (None, di2, w2) \<Rightarrow>
               (let di3 = with_phase (mock_phase config (ds_phase (di_status di2))) di2;
                    di4 = (case mk_providerStatus config of None \<Rightarrow> di3 | Some s \<Rightarrow> with_providerStatus (Some s) di3)
                in case rc_statusUpdate (kc_deployItems c) di4 w2 of
                     (Inl err, w3) \<Rightarrow> (Fail err, di4, w3)
                   | (Inr di5, w3) \<Rightarrow> (Done (), di5, w3))))"

definition mock_ensureDeletion :: "'w kube_client \<Rightarrow> deploy_item \<Rightarrow> 'w \<Rightarrow> gerr option \<times> 'w" where
  "mock_ensureDeletion c di w =
     (case ds_exportReference (di_status di) of
        None \<Rightarrow> (None, w)
      | Some ref \<Rightarrow>
          (case rc_delete (kc_secrets c) \<lparr>sc_meta = empty_meta\<lparr>om_name := or_name ref, om_namespace := or_namespace ref\<rparr>, sc_data = []\<rparr> w of
             (Some err, w1) \<Rightarrow> (if IsNotFound err then None else Some err, w1)
           | (None, w1) \<Rightarrow> (None, w1)))"

definition mock_Delete :: "'w kube_client \<Rightarrow> deploy_item \<Rightarrow> 'w \<Rightarrow> unit outcome \<times> deploy_item \<times> 'w" where
  "mock_Delete c di w = (case mock_ensureDeletion c di w of
     (None, w1) \<Rightarrow> (Done (), di, w1) | (Some err, w1) \<Rightarrow> (Fail err, di, w1))"

definition mock_ForceReconcile ::
    "(deploy_item \<Rightarrow> object_meta \<Rightarrow> gerr + object_meta) \<Rightarrow> 'w kube_client \<Rightarrow> (string \<Rightarrow> gerr + mock_config) \<Rightarrow> deploy_item \<Rightarrow> 'w
      \<Rightarrow> (unit outcome \<times> deploy_item \<times> 'w) option" where
  "mock_ForceReconcile setOwner c parse di w = force_reconcile (Some (mock_Reconcile setOwner c parse di w))"

text \<open>Reading the configuration stores its validation as a condition of the deploy item here too.\<close>

definition mock_NextReconcile ::
    "'w kube_client \<Rightarrow> (string \<Rightarrow> gerr + mock_config) \<Rightarrow> (string \<Rightarrow> gerr + (time \<Rightarrow> time)) \<Rightarrow> (duration \<Rightarrow> time \<Rightarrow> time)
      \<Rightarrow> time \<Rightarrow> deploy_item \<Rightarrow> 'w \<Rightarrow> time option outcome \<times> deploy_item \<times> 'w" where
  "mock_NextReconcile c parse parseCron every lastTime di w =
     (case mock_getConfig c parse di w of
        (Panic, di1, w1) \<Rightarrow> (Panic, di1, w1)
      | (Fail err, di1, w1) \<Rightarrow> (Fail err, di1, w1)
      | (Done config, di1, w1) \<Rightarrow> (outcome_of (next_reconcile parseCron every (mk_continuousReconcile config) lastTime), di1, w1))"

end
