(* ===== verification/ContainerState.thy ===== *)
theory ContainerState
  imports ManifestDeployer
begin

text \<open>
  The state of container deploy items (\<open>pkg/deployer/container/state/state.go\<close>): it is packed, split into chunks and stored in
  secrets, and restored from the newest secrets.
\<close>

section \<open>Secrets of the host cluster\<close>

text \<open>The labels and annotations (\<open>constants.go\<close>), and secrets with the parts that the container deployer uses.\<close>

definition ContainerDeployerDeployItemNameLabel :: string where
  "ContainerDeployerDeployItemNameLabel = ''deployitem.container.deployer.landscaper.gardener.cloud/name''"

definition ContainerDeployerDeployItemNamespaceLabel :: string where
  "ContainerDeployerDeployItemNamespaceLabel = ''deployitem.container.deployer.landscaper.gardener.cloud/namespace''"

definition ContainerDeployerTypeLabel :: string where
  "ContainerDeployerTypeLabel = ''container.deployer.landscaper.gardener.cloud/type''"

definition ContainerDeployerStateUUIDAnnotation :: string where
  "ContainerDeployerStateUUIDAnnotation = ''container.deployer.landscaper.gardener.cloud/uuid''"

definition ContainerDeployerStateNumAnnotation :: string where
  "ContainerDeployerStateNumAnnotation = ''container.deployer.landscaper.gardener.cloud/num''"

record host_secret =
  hs_meta :: object_meta
  hs_created :: time
  hs_type :: string
  hs_data :: smap

text \<open>\<open>strconv.Atoi\<close>: the number and whether there was no error; out of range it gives the bound with an error.\<close>

definition is_digit :: "char \<Rightarrow> bool" where
  "is_digit c \<longleftrightarrow> 48 \<le> (of_char c :: nat) \<and> (of_char c :: nat) \<le> 57"

definition decimal :: "string \<Rightarrow> int" where
  "decimal s = foldl (\<lambda>n c. 10 * n + (of_char c - 48)) 0 s"

definition Atoi :: "string \<Rightarrow> int \<times> bool" where
  "Atoi s =
     (let (negative, digits) = (case s of
            [] \<Rightarrow> (False, [])
          | c # cs \<Rightarrow> (if c = CHR ''-'' then (True, cs) else if c = CHR ''+'' then (False, cs) else (False, s)))
      in if digits = [] \<or> \<not> list_all is_digit digits then (0, False)
         else let n = (if negative then - decimal digits else decimal digits)
         in if n < - (2 ^ 63) then (- (2 ^ 63), False) else if 2 ^ 63 - 1 < n then (2 ^ 63 - 1, False) else (n, True))"

section \<open>The file system\<close>

text \<open>
  A path to look at; an opened file gives its bytes to the reads, and then the end or an error. \<open>fs_tarGzip\<close> writes the
  archive of a directory to a file, \<open>fs_extract\<close> unpacks the bytes of an archive to a directory.
\<close>

datatype stat_answer = PathExists | PathMissing | StatFails gerr

record 'w state_fs =
  fs_stat :: "string \<Rightarrow> 'w \<Rightarrow> stat_answer"
  fs_mkdirAll :: "string \<Rightarrow> 'w \<Rightarrow> gerr option \<times> 'w"
  fs_readDir :: "string \<Rightarrow> 'w \<Rightarrow> gerr + string list"
  fs_tempFile :: "'w \<Rightarrow> (gerr + string) \<times> 'w"
  fs_tarGzip :: "string \<Rightarrow> string \<Rightarrow> 'w \<Rightarrow> gerr option \<times> 'w"
  fs_open :: "string \<Rightarrow> 'w \<Rightarrow> gerr + string \<times> gerr option"
  fs_extract :: "string \<Rightarrow> string \<Rightarrow> 'w \<Rightarrow> gerr option \<times> 'w"

record 'w state_env =
  st_deployItem :: object_reference
  st_namespace :: string
  st_path :: string
  st_secrets :: "('w, host_secret) resource_client"
  st_fs :: "'w state_fs"
  st_uuid :: "'w \<Rightarrow> string \<times> 'w"
  st_osRemove :: "string \<Rightarrow> 'w \<Rightarrow> 'w"

section \<open>Backup\<close>

definition TrimNull :: "string \<Rightarrow> string" where
  "TrimNull s = rev (dropWhile (\<lambda>c. c = CHR 0x00) (rev (dropWhile (\<lambda>c. c = CHR 0x00) s)))"

definition MaxSecretSize :: nat where
  "MaxSecretSize = 1048576"

definition state_labels :: "object_reference \<Rightarrow> smap" where
  "state_labels di =
     [(ContainerDeployerDeployItemNameLabel, or_name di), (ContainerDeployerDeployItemNamespaceLabel, or_namespace di),
      (ContainerDeployerTypeLabel, ''state'')]"

definition state_secret :: "'w state_env \<Rightarrow> string \<Rightarrow> nat \<Rightarrow> string \<Rightarrow> host_secret" where
  "state_secret st uid count buffer =
     \<lparr>hs_meta = empty_meta\<lparr>om_generateName := ''state-'' @ or_namespace (st_deployItem st) @ ''-'' @ or_name (st_deployItem st) @ ''-'',
        om_namespace := st_namespace st, om_labels := state_labels (st_deployItem st),
        om_annotations := [(ContainerDeployerStateUUIDAnnotation, uid), (ContainerDeployerStateNumAnnotation, show_int (int count))]\<rparr>,
      hs_created = 0, hs_type = [], hs_data = [(DataObjectSecretDataKey, buffer)]\<rparr>"

text \<open>
  The loop of \<open>splitFileAndUploadChunks\<close>. A read overwrites the front of the buffer with what is left of the file, as far as
  the buffer goes; a read into an empty buffer reads nothing and gives no error. The trimmed buffer is the buffer of the
  next read. With too little fuel the result is \<open>None\<close>.
\<close>

fun split_chunks ::
    "nat \<Rightarrow> 'w state_env \<Rightarrow> string \<Rightarrow> string \<Rightarrow> string \<Rightarrow> gerr option \<Rightarrow> nat \<Rightarrow> object_reference list \<Rightarrow> 'w
      \<Rightarrow> ((object_reference list \<times> gerr option) \<times> 'w) option" where
  "split_chunks 0 st uid buffer file failure count refs w = None"
| "split_chunks (Suc fuel) st uid buffer file failure count refs w =
     (if file = [] \<and> buffer \<noteq> [] then Some ((case failure of None \<Rightarrow> (refs, None) | Some e \<Rightarrow> ([], Some e)), w)
      else let buffer1 = TrimNull (take (length buffer) file @ drop (length file) buffer)
      in case rc_create (st_secrets st) (state_secret st uid count buffer1) w of
           (Inl e, w1) \<Rightarrow> Some ((refs, Some e), w1)
         | (Inr secret, w1) \<Rightarrow>
             split_chunks fuel st uid buffer1 (drop (length buffer) file) failure (Suc count)
               (refs @ [ObjectKeyFromObject (hs_meta secret)]) w1)"

definition splitFileAndUploadChunks ::
    "nat \<Rightarrow> 'w state_env \<Rightarrow> string \<Rightarrow> 'w \<Rightarrow> ((object_reference list \<times> gerr option) \<times> 'w) option" where
  "splitFileAndUploadChunks fuel st filePath w =
     (case fs_open (st_fs st) filePath w of
        Inl e \<Rightarrow> Some (([], Some e), w)
      | Inr (file, failure) \<Rightarrow>
          (case st_uuid st w of
             (uid, w1) \<Rightarrow> split_chunks fuel st uid (replicate MaxSecretSize (CHR 0x00)) file failure 0 [] w1))"

definition Backup :: "nat \<Rightarrow> 'w state_env \<Rightarrow> 'w \<Rightarrow> (gerr option \<times> 'w) option" where
  "Backup fuel st w =
     (case fs_readDir (st_fs st) (st_path st) w of
        Inl e \<Rightarrow> Some (Some e, w)
      | Inr [] \<Rightarrow> Some (None, w)
      | Inr (f # files) \<Rightarrow>
          (case fs_tempFile (st_fs st) w of
             (Inl e, w1) \<Rightarrow> Some (Some e, w1)
           | (Inr tmp, w1) \<Rightarrow>
               (case fs_tarGzip (st_fs st) (st_path st) tmp w1 of
                  (Some e, w2) \<Rightarrow> Some (Some (wrap ''unable to tar and gzip State'' e), w2)
                | (None, w2) \<Rightarrow>
                    (case splitFileAndUploadChunks fuel st tmp w2 of
                       None \<Rightarrow> None
                     | Some ((refs, r), w3) \<Rightarrow> Some (r, st_osRemove st tmp w3)))))"

section \<open>Restore\<close>

text \<open>
  The loop over the listed secrets takes the address of its variable, which is one variable for all rounds (Go 1.16). The
  store maps addresses to secrets, the variable has the address 0.
\<close>

record restore_loop =
  rl_store :: "nat \<Rightarrow> host_secret option"
  rl_newest :: "nat option"
  rl_groups :: "(string \<times> nat list) list"

definition state_uuid :: "host_secret \<Rightarrow> string" where
  "state_uuid secret = smap_get (om_annotations (hs_meta secret)) ContainerDeployerStateUUIDAnnotation"

definition state_number :: "host_secret \<Rightarrow> int" where
  "state_number secret = fst (Atoi (smap_get (om_annotations (hs_meta secret)) ContainerDeployerStateNumAnnotation))"

definition loaded_secret :: "(nat \<Rightarrow> host_secret option) \<Rightarrow> nat \<Rightarrow> host_secret" where
  "loaded_secret store a = (case store a of
     Some s \<Rightarrow> s | None \<Rightarrow> \<lparr>hs_meta = empty_meta, hs_created = 0, hs_type = [], hs_data = []\<rparr>)"

fun append_to :: "string \<Rightarrow> nat \<Rightarrow> (string \<times> nat list) list \<Rightarrow> (string \<times> nat list) list" where
  "append_to k a [] = [(k, [a])]"
| "append_to k a ((k1, as) # groups) = (if k1 = k then (k1, as @ [a]) # groups else (k1, as) # append_to k a groups)"

definition restore_step :: "host_secret \<Rightarrow> restore_loop \<Rightarrow> restore_loop" where
  "restore_step secret x =
     (let store = (rl_store x)(0 \<mapsto> secret)
      in \<lparr>rl_store = store,
          rl_newest = (case rl_newest x of
             None \<Rightarrow> Some 0
           | Some a \<Rightarrow> (if hs_created (loaded_secret store a) < hs_created (loaded_secret store 0) then Some 0 else Some a)),
          rl_groups = append_to (state_uuid (loaded_secret store 0)) 0 (rl_groups x)\<rparr>)"

fun joined_chunks :: "host_secret list \<Rightarrow> gerr + string" where
  "joined_chunks [] = Inr []"
| "joined_chunks (s # ss) =
     (if \<not> smap_has (hs_data s) DataObjectSecretDataKey then Inl (PlainError (''expected chunk in secret '' @ om_name (hs_meta s)))
      else case joined_chunks ss of
             Inl e \<Rightarrow> Inl e
           | Inr data \<Rightarrow> Inr (smap_get (hs_data s) DataObjectSecretDataKey @ data))"

definition restoreFromSecrets :: "'w state_env \<Rightarrow> host_secret list \<Rightarrow> 'w \<Rightarrow> gerr option \<times> 'w" where
  "restoreFromSecrets st secrets w =
     (case joined_chunks (sort_key state_number secrets) of
        Inl e \<Rightarrow> (Some e, w)
      | Inr data \<Rightarrow> fs_extract (st_fs st) data (st_path st) w)"

text \<open>The errors of the deletions are logged. Their order is that of the map, which is not specified.\<close>

definition gcOldSecrets :: "'w state_env \<Rightarrow> host_secret list \<Rightarrow> 'w \<Rightarrow> 'w" where
  "gcOldSecrets st secrets w = fold (\<lambda>s w. snd (rc_delete (st_secrets st) s w)) secrets w"

definition state_requirements :: "object_reference \<Rightarrow> label_requirement list" where
  "state_requirements di = map (\<lambda>(k, v). LabelEquals k v) (state_labels di)"

definition prepare_path :: "'w state_env \<Rightarrow> 'w \<Rightarrow> gerr option \<times> 'w" where
  "prepare_path st w =
     (case fs_stat (st_fs st) (st_path st) w of
        PathExists \<Rightarrow> (None, w)
      | StatFails e \<Rightarrow> (Some (wrap ''unable to read from filesystem'' e), w)
      | PathMissing \<Rightarrow>
          (case fs_mkdirAll (st_fs st) (st_path st) w of
             (None, w1) \<Rightarrow> (None, w1)
           | (Some e, w1) \<Rightarrow> (Some (wrap (''unable to create directory '' @ go_quote (st_path st)) e), w1)))"

definition restore_listed :: "'w state_env \<Rightarrow> host_secret list \<Rightarrow> 'w \<Rightarrow> gerr option \<times> 'w" where
  "restore_listed st items w =
     (let x = fold restore_step items \<lparr>rl_store = Map.empty, rl_newest = None, rl_groups = []\<rparr>
      in case rl_newest x of
           None \<Rightarrow> (None, w)
         | Some newest \<Rightarrow>
             (let newestUuid = state_uuid (loaded_secret (rl_store x) newest);
                  secrets = (\<lambda>as. map (loaded_secret (rl_store x)) as)
              in case restoreFromSecrets st (case map_of (rl_groups x) newestUuid of None \<Rightarrow> [] | Some as \<Rightarrow> secrets as) w of
                   (Some e, w1) \<Rightarrow> (Some e, w1)
                 | (None, w1) \<Rightarrow>
                     (None, fold (\<lambda>(uid, as). gcOldSecrets st (secrets as)) (filter (\<lambda>(uid, as). uid \<noteq> newestUuid) (rl_groups x)) w1)))"

definition Restore :: "'w state_env \<Rightarrow> 'w \<Rightarrow> gerr option \<times> 'w" where
  "Restore st w =
     (if or_name (st_deployItem st) = [] \<or> or_namespace (st_deployItem st) = []
      then (Some (PlainError ''a deployitem has to be defined''), w)
      else if st_namespace st = [] then (Some (PlainError ''a target namespace has to be defined''), w)
      else case prepare_path st w of
             (Some e, w1) \<Rightarrow> (Some e, w1)
           | (None, w1) \<Rightarrow>
               (case rc_select (st_secrets st) (state_requirements (st_deployItem st)) (st_namespace st) w1 of
                  (Inl e, w2) \<Rightarrow> (if IsNotFound e then None else Some e, w2)
                | (Inr items, w2) \<Rightarrow> restore_listed st items w2))"

section \<open>Clean-up\<close>

text \<open>
  One pass deletes all secrets that were listed; it is complete when each of them is not found. The library makes
  \<open>attempts\<close> passes, then it gives up with \<open>timedOut\<close>. An error of the list is no error.
\<close>

fun cleanup_pass :: "('w, host_secret) resource_client \<Rightarrow> host_secret list \<Rightarrow> 'w \<Rightarrow> bool \<times> 'w" where
  "cleanup_pass c [] w = (True, w)"
| "cleanup_pass c (s # ss) w =
     (case rc_delete c s w of
        (r, w1) \<Rightarrow>
          (case cleanup_pass c ss w1 of
             (completed, w2) \<Rightarrow> ((case r of None \<Rightarrow> False | Some e \<Rightarrow> IsNotFound e) \<and> completed, w2)))"

fun cleanup_passes :: "nat \<Rightarrow> gerr \<Rightarrow> ('w, host_secret) resource_client \<Rightarrow> host_secret list \<Rightarrow> 'w \<Rightarrow> gerr option \<times> 'w" where
  "cleanup_passes 0 timedOut c secrets w = (Some timedOut, w)"
| "cleanup_passes (Suc n) timedOut c secrets w =
     (case cleanup_pass c secrets w of
        (True, w1) \<Rightarrow> (None, w1)
      | (False, w1) \<Rightarrow> cleanup_passes n timedOut c secrets w1)"

definition CleanupState ::
    "nat \<Rightarrow> gerr \<Rightarrow> ('w, host_secret) resource_client \<Rightarrow> string \<Rightarrow> object_reference \<Rightarrow> 'w \<Rightarrow> gerr option \<times> 'w" where
  "CleanupState attempts timedOut c namespace di w =
     (case rc_select c (state_requirements di) namespace w of
        (Inl e, w1) \<Rightarrow> (None, w1)
      | (Inr secrets, w1) \<Rightarrow> cleanup_passes attempts timedOut c secrets w1)"

section \<open>What the state comes to\<close>

lemma dropWhile_replicate_append: "P x \<Longrightarrow> dropWhile P (replicate n x @ ys) = dropWhile P ys"
  by (induction n) auto

lemma TrimNull_padded: "TrimNull (s @ replicate n (CHR 0x00)) = TrimNull s"
proof (cases "\<forall>c \<in> set s. c = CHR 0x00")
  case True
  then have "dropWhile (\<lambda>c. c = CHR 0x00) (s @ replicate n (CHR 0x00)) = []" "dropWhile (\<lambda>c. c = CHR 0x00) s = []"
    by (auto simp: dropWhile_eq_Nil_conv)
  then show ?thesis by (simp only: TrimNull_def)
next
  case False
  then obtain c where "c \<in> set s" "c \<noteq> CHR 0x00" by blast
  then show ?thesis by (simp add: TrimNull_def dropWhile_append1 dropWhile_replicate_append)
qed

lemma dropWhile_hd: "xs \<noteq> [] \<Longrightarrow> \<not> P (hd xs) \<Longrightarrow> dropWhile P xs = xs"
  by (cases xs) auto

lemma TrimNull_id: "s \<noteq> [] \<Longrightarrow> hd s \<noteq> CHR 0x00 \<Longrightarrow> last s \<noteq> CHR 0x00 \<Longrightarrow> TrimNull s = s"
  by (simp add: TrimNull_def dropWhile_hd hd_rev)

end
