(* ===== verification/ContainerPods.thy ===== *)
theory ContainerPods
  imports ContainerState ExecutionValidation
begin

text \<open>
  Names, configurations, pods and their status in the container deployer (\<open>apis/deployer/container\<close>,
  \<open>pkg/deployer/container/pod.go\<close>, \<open>container_reconcile.go\<close>).
\<close>

section \<open>Names and labels (constants.go, pod.go)\<close>

definition ContainerDeployerOperationForceCleanupAnnotation :: string where
  "ContainerDeployerOperationForceCleanupAnnotation = ''container.deployer.landscaper.gardener.cloud/force-cleanup''"

definition ContainerDeployerFinalizer :: string where
  "ContainerDeployerFinalizer = ''container.deployer.landscaper.gardener.cloud/finalizer''"

definition ContainerDeployerIDLabel :: string where
  "ContainerDeployerIDLabel = ''container.deployer.landscaper.gardener.cloud/deployer-id''"

definition ContainerDeployerNameLabel :: string where
  "ContainerDeployerNameLabel = ''container.deployer.landscaper.gardener.cloud/name''"

definition ContainerDeployerDeployItemGenerationLabel :: string where
  "ContainerDeployerDeployItemGenerationLabel = ''deployitem.container.deployer.landscaper.gardener.cloud/generation''"

datatype operation_type = OperationReconcile | OperationDelete

fun operation_text :: "operation_type \<Rightarrow> string" where
  "operation_text OperationReconcile = ''RECONCILE''"
| "operation_text OperationDelete = ''DELETE''"

definition InitContainerServiceAccountName :: "deploy_item \<Rightarrow> string" where
  "InitContainerServiceAccountName di = om_name (di_meta di) @ ''-init''"

definition WaitContainerServiceAccountName :: "deploy_item \<Rightarrow> string" where
  "WaitContainerServiceAccountName di = om_name (di_meta di) @ ''-wait''"

definition ExportSecretName :: "string \<Rightarrow> string \<Rightarrow> string" where
  "ExportSecretName ns name = ns @ ''-'' @ name @ ''-export''"

definition DeployItemExportSecretName :: "string \<Rightarrow> string" where
  "DeployItemExportSecretName name = name @ ''-export''"

definition ConfigurationSecretName :: "string \<Rightarrow> string \<Rightarrow> string" where
  "ConfigurationSecretName ns name = ns @ ''-'' @ name @ ''-config''"

definition ImagePullSecretName :: "string \<Rightarrow> string \<Rightarrow> string" where
  "ImagePullSecretName ns name = ns @ ''-'' @ name @ ''-imgpullsec''"

definition BluePrintPullSecretName :: "string \<Rightarrow> string \<Rightarrow> string" where
  "BluePrintPullSecretName ns name = ns @ ''-'' @ name @ ''-bppullsec''"

definition ComponentDescriptorPullSecretName :: "string \<Rightarrow> string \<Rightarrow> string" where
  "ComponentDescriptorPullSecretName ns name = ns @ ''-'' @ name @ ''-cdpullsec''"

definition DefaultLabels :: "string \<Rightarrow> string \<Rightarrow> string \<Rightarrow> string \<Rightarrow> smap" where
  "DefaultLabels deployerId deployerName diName diNamespace =
     [(ContainerDeployerIDLabel, deployerId), (ContainerDeployerNameLabel, deployerName),
      (ContainerDeployerDeployItemNameLabel, diName), (ContainerDeployerDeployItemNamespaceLabel, diNamespace)]"

definition InjectDefaultLabels :: "object_meta \<Rightarrow> smap \<Rightarrow> object_meta" where
  "InjectDefaultLabels m defaultLabels = m\<lparr>om_labels := fold (\<lambda>(k, v) labels. smap_set labels k v) defaultLabels (om_labels m)\<rparr>"

section \<open>Configurations and status (types)\<close>

record container_spec =
  cn_image :: string
  cn_command :: "string list"
  cn_args :: "string list"
  cn_pullPolicy :: string

text \<open>The configuration of the deployer, with the config files of the OCI configuration and the debug option to keep pods.\<close>

record container_configuration =
  cc_identity :: string
  cc_ociFiles :: "string list option"
  cc_namespace :: string
  cc_targetSelector :: "target_selector list"
  cc_defaultImage :: container_spec
  cc_initContainer :: container_spec
  cc_waitContainer :: container_spec
  cc_worker :: int
  cc_keepPod :: "bool option"

record container_config =
  pc_image :: string
  pc_command :: "string list"
  pc_args :: "string list"
  pc_importValues :: string
  pc_blueprint :: "blueprint_definition option"
  pc_componentDescriptor :: "component_descriptor_definition option"
  pc_registryPullSecrets :: "object_reference list"
  pc_continuousReconcile :: "continuous_spec option"

record reported_status =
  rs_message :: string
  rs_reason :: string
  rs_image :: string
  rs_imageID :: string
  rs_exitCode :: "int option"

record reported_pod =
  rp_podName :: string
  rp_lastRun :: "time option"
  rp_container :: reported_status
  rp_init :: reported_status
  rp_wait :: reported_status

record container_provider_status =
  cp_lastOperation :: string
  cp_podStatus :: "reported_pod option"

definition SetDefaults_ContainerConfiguration :: "container_configuration \<Rightarrow> container_configuration" where
  "SetDefaults_ContainerConfiguration c =
     c\<lparr>cc_namespace := (if cc_namespace c = [] then ''default'' else cc_namespace c),
       cc_defaultImage := (if cn_image (cc_defaultImage c) = [] then (cc_defaultImage c)\<lparr>cn_image := ''ubuntu:18.04''\<rparr> else cc_defaultImage c),
       cc_worker := (if cc_worker c \<le> 0 then 5 else cc_worker c)\<rparr>"

definition default_container_image :: "string \<Rightarrow> string \<Rightarrow> container_spec \<Rightarrow> container_spec" where
  "default_container_image gitVersion img c =
     (if cn_image c = [] then c\<lparr>cn_image := img @ '':'' @ (if gitVersion = ''0.0.0-dev'' then ''latest'' else gitVersion)\<rparr> else c)"

definition DefaultConfiguration :: "string \<Rightarrow> container_configuration \<Rightarrow> container_configuration" where
  "DefaultConfiguration gitVersion c =
     (let c1 = SetDefaults_ContainerConfiguration c
      in c1\<lparr>cc_initContainer := default_container_image gitVersion
              ''eu.gcr.io/gardener-project/landscaper/container-deployer-init'' (cc_initContainer c1),
            cc_waitContainer := default_container_image gitVersion
              ''eu.gcr.io/gardener-project/landscaper/container-deployer-wait'' (cc_waitContainer c1)\<rparr>)"

definition ValidateContainerConfiguration :: "config_lib \<Rightarrow> container_config \<Rightarrow> gerr option" where
  "ValidateContainerConfiguration cl c = to_aggregate cl
     (ValidateObjectReferenceList (pc_registryPullSecrets c) (path_New ''registryPullSecrets'')
      @ ValidateContinuousReconcileSpec (cl_parseCron cl) (path_New ''continuousReconcile'') (pc_continuousReconcile c))"

section \<open>Pods\<close>

datatype volume_source = EmptyDir | SecretVolume string

record volume =
  vl_name :: string
  vl_source :: volume_source

record volume_mount =
  vm_name :: string
  vm_readOnly :: bool
  vm_path :: string

datatype env_value = EnvValue string | EnvField string

type_synonym env_var = "string \<times> env_value"

record pod_container =
  pk_name :: string
  pk_image :: string
  pk_command :: "string list"
  pk_args :: "string list"
  pk_env :: "env_var list"
  pk_terminationPolicy :: string
  pk_pullPolicy :: string
  pk_mounts :: "volume_mount list"

record pod_spec =
  pd_automountToken :: bool
  pd_restartPolicy :: string
  pd_gracePeriod :: int
  pd_volumes :: "volume list"
  pd_runAsUser :: int
  pd_runAsGroup :: int
  pd_fsGroup :: int
  pd_initContainers :: "pod_container list"
  pd_containers :: "pod_container list"
  pd_imagePullSecrets :: "string list"

datatype pod_phase = PodPending | PodRunning | PodSucceeded | PodFailed | PodUnknown | OtherPodPhase string

text \<open>The state of a container; a time that it runs since is given as its text.\<close>

record terminated_state =
  tm_exitCode :: int
  tm_reason :: string
  tm_message :: string

record container_status =
  ct_name :: string
  ct_image :: string
  ct_imageID :: string
  ct_waiting :: "(string \<times> string) option"
  ct_running :: "string option"
  ct_terminated :: "terminated_state option"

record pod =
  po_meta :: object_meta
  po_created :: time
  po_spec :: pod_spec
  po_phase :: pod_phase
  po_initStatuses :: "container_status list"
  po_statuses :: "container_status list"

definition SharedBasePath :: string where
  "SharedBasePath = ''/data/ls/shared''"

definition ConfigurationPath :: string where
  "ConfigurationPath = ''/data/ls/internal/configuration.json''"

definition RegistrySecretBasePath :: string where
  "RegistrySecretBasePath = ''/data/ls/registry_secrets''"

definition DefaultEnvVars :: "env_var list" where
  "DefaultEnvVars =
     [(''IMPORTS_PATH'', EnvValue ''/data/ls/shared/imports/import.json''), (''EXPORTS_PATH'', EnvValue ''/data/ls/shared/exports/values''),
      (''COMPONENT_DESCRIPTOR_PATH'', EnvValue ''/data/ls/shared/component_descriptor.json''),
      (''CONTENT_PATH'', EnvValue ''/data/ls/shared/content''), (''STATE_PATH'', EnvValue ''/data/ls/shared/state''),
      (''POD_NAME'', EnvField ''metadata.name''), (''POD_NAMESPACE'', EnvField ''metadata.namespace'')]"

record pod_options =
  px_deployerID :: string
  px_config :: container_config
  px_initContainer :: container_spec
  px_waitContainer :: container_spec
  px_initAccountSecret :: object_reference
  px_waitAccountSecret :: object_reference
  px_configurationSecretName :: string
  px_imagePullSecret :: string
  px_blueprintPullSecret :: string
  px_descriptorPullSecret :: string
  px_name :: string
  px_namespace :: string
  px_deployItemName :: string
  px_deployItemNamespace :: string
  px_generation :: int
  px_operation :: operation_type
  px_debug :: bool

definition secret_mount :: "string \<Rightarrow> string \<Rightarrow> volume_mount" where
  "secret_mount name path = \<lparr>vm_name = name, vm_readOnly = True, vm_path = path\<rparr>"

text \<open>The secrets of the blueprint and the component descriptor; the code takes them from a map, in any order.\<close>

definition pull_secrets :: "pod_options \<Rightarrow> (string \<times> string) list" where
  "pull_secrets opts = filter (\<lambda>(name, v). v \<noteq> [])
     [(''blueprint-pull-secret'', px_blueprintPullSecret opts), (''cd-pull-secret'', px_descriptorPullSecret opts)]"

definition pod_containers :: "pod_options \<Rightarrow> pod_container \<times> pod_container \<times> pod_container" where
  "pod_containers opts =
     (let shared = \<lparr>vm_name = ''shared-volume'', vm_readOnly = False, vm_path = SharedBasePath\<rparr>;
          tokens = ''/var/run/secrets/kubernetes.io/serviceaccount'';
          item = [(''DEPLOY_ITEM_NAME'', EnvValue (px_deployItemName opts)), (''DEPLOY_ITEM_NAMESPACE'', EnvValue (px_deployItemNamespace opts))];
          ctr = (\<lambda>name c env policy mounts. \<lparr>pk_name = name, pk_image = cn_image c, pk_command = cn_command c, pk_args = cn_args c,
                     pk_env = DefaultEnvVars @ env, pk_terminationPolicy = ''FallbackToLogsOnError'', pk_pullPolicy = policy, pk_mounts = mounts\<rparr>)
      in (ctr ''init'' (px_initContainer opts)
            ([(''CONFIGURATION_PATH'', EnvValue ConfigurationPath)] @ item @ [(''REGISTRY_SECRETS_DIR'', EnvValue RegistrySecretBasePath)])
            (if px_debug opts then ''Always'' else cn_pullPolicy (px_initContainer opts))
            ([secret_mount ''configuration'' ''/data/ls/internal'', secret_mount ''serviceaccount-init'' tokens, shared]
             @ map (\<lambda>(name, v). secret_mount name (RegistrySecretBasePath @ ''/'' @ name)) (pull_secrets opts)),
          ctr ''main'' \<lparr>cn_image = pc_image (px_config opts), cn_command = pc_command (px_config opts), cn_args = pc_args (px_config opts),
              cn_pullPolicy = []\<rparr>
            [(''OPERATION'', EnvValue (operation_text (px_operation opts)))] ''IfNotPresent'' [shared],
          ctr ''wait'' (px_waitContainer opts) item
            (if px_debug opts then ''Always'' else cn_pullPolicy (px_waitContainer opts))
            [secret_mount ''serviceaccount-wait'' tokens, shared]))"

text \<open>The pod that is sent to the server, which gives it its name and its time. \<open>marshal\<close> encodes the blueprint, for its error only.\<close>

definition generatePod :: "(blueprint_definition \<Rightarrow> gerr option) \<Rightarrow> pod_options \<Rightarrow> gerr + pod" where
  "generatePod marshal opts =
     (case (case pc_blueprint (px_config opts) of None \<Rightarrow> None | Some b \<Rightarrow> marshal b) of
        Some e \<Rightarrow> Inl e
      | None \<Rightarrow>
          (case pod_containers opts of
             (initContainer, mainContainer, waitContainer) \<Rightarrow>
               (let m = InjectDefaultLabels (empty_meta\<lparr>om_generateName := px_name opts @ ''-'', om_namespace := px_namespace opts\<rparr>)
                      (DefaultLabels (px_deployerID opts) (px_name opts) (px_deployItemName opts) (px_deployItemNamespace opts))
                in Inr \<lparr>po_meta = (SetMetaDataLabel m ContainerDeployerDeployItemGenerationLabel (show_int (px_generation opts)))
                           \<lparr>om_finalizers := [ContainerDeployerFinalizer]\<rparr>,
                    po_created = 0,
                    po_spec = \<lparr>pd_automountToken = False, pd_restartPolicy = ''Never'', pd_gracePeriod = 300,
                      pd_volumes = [\<lparr>vl_name = ''serviceaccount-init'', vl_source = SecretVolume (or_name (px_initAccountSecret opts))\<rparr>,
                        \<lparr>vl_name = ''serviceaccount-wait'', vl_source = SecretVolume (or_name (px_waitAccountSecret opts))\<rparr>,
                        \<lparr>vl_name = ''shared-volume'', vl_source = EmptyDir\<rparr>,
                        \<lparr>vl_name = ''configuration'', vl_source = SecretVolume (px_configurationSecretName opts)\<rparr>]
                        @ map (\<lambda>(name, v). \<lparr>vl_name = name, vl_source = SecretVolume v\<rparr>) (pull_secrets opts),
                      pd_runAsUser = 1000, pd_runAsGroup = 3000, pd_fsGroup = 2000,
                      pd_initContainers = [initContainer], pd_containers = [mainContainer, waitContainer],
                      pd_imagePullSecrets = (if px_imagePullSecret opts = [] then [] else [px_imagePullSecret opts])\<rparr>,
                    po_phase = OtherPodPhase [], po_initStatuses = [], po_statuses = []\<rparr>)))"

section \<open>The status of a pod (container_reconcile.go)\<close>

definition GetStatusForContainer :: "container_status list \<Rightarrow> string \<Rightarrow> container_status option" where
  "GetStatusForContainer statuses name = List.find (\<lambda>s. ct_name s = name) statuses"

definition converted_status :: "container_status \<Rightarrow> reported_status" where
  "converted_status s =
     (let cs0 = \<lparr>rs_message = [], rs_reason = [], rs_image = ct_image s, rs_imageID = ct_imageID s, rs_exitCode = None\<rparr>;
          cs1 = (case ct_waiting s of None \<Rightarrow> cs0 | Some (reason, message) \<Rightarrow> cs0\<lparr>rs_message := message, rs_reason := reason\<rparr>);
          cs2 = (case ct_running s of None \<Rightarrow> cs1 | Some t \<Rightarrow> cs1\<lparr>rs_reason := ''Running''\<rparr>)
      in case ct_terminated s of
           None \<Rightarrow> cs2
         | Some t \<Rightarrow> cs2\<lparr>rs_reason := tm_reason t, rs_message := tm_message t, rs_exitCode := Some (tm_exitCode t)\<rparr>)"

definition no_status :: reported_status where
  "no_status = \<lparr>rs_message = [], rs_reason = [], rs_image = [], rs_imageID = [], rs_exitCode = None\<rparr>"

definition setStatusFromPod :: "pod \<Rightarrow> container_provider_status \<Rightarrow> container_provider_status" where
  "setStatusFromPod p s =
     (let s0 = (case cp_podStatus s of
            Some x \<Rightarrow> x
          | None \<Rightarrow> \<lparr>rp_podName = om_name (po_meta p), rp_lastRun = Some (po_created p), rp_container = no_status, rp_init = no_status,
              rp_wait = no_status\<rparr>);
          s1 = (case GetStatusForContainer (po_statuses p) ''main'' of None \<Rightarrow> s0 | Some c \<Rightarrow> s0\<lparr>rp_container := converted_status c\<rparr>);
          s2 = (case GetStatusForContainer (po_initStatuses p) ''init'' of None \<Rightarrow> s1 | Some c \<Rightarrow> s1\<lparr>rp_init := converted_status c\<rparr>);
          s3 = (case GetStatusForContainer (po_statuses p) ''wait'' of None \<Rightarrow> s2 | Some c \<Rightarrow> s2\<lparr>rp_wait := converted_status c\<rparr>)
      in s\<lparr>cp_podStatus := Some s3\<rparr>)"

text \<open>The condition of the init or the wait container.\<close>

definition container_condition ::
    "time \<Rightarrow> string \<Rightarrow> container_status option \<Rightarrow> condition list \<Rightarrow> condition list" where
  "container_condition now condType status conditions =
     (case status of
        None \<Rightarrow> conditions
      | Some s \<Rightarrow>
          (let c0 = GetOrInitCondition now conditions condType;
               c1 = (case ct_waiting s of None \<Rightarrow> c0 | Some (reason, message) \<Rightarrow> UpdatedCondition now c0 ConditionProgressing reason message []);
               c2 = (case ct_running s of
                       None \<Rightarrow> c1
                     | Some t \<Rightarrow> UpdatedCondition now c1 ConditionProgressing ''Pod running'' (''Pod started running at '' @ t) []);
               c3 = (case ct_terminated s of
                       None \<Rightarrow> c2
                     | Some t \<Rightarrow>
                         (if tm_exitCode t = 0
                          then UpdatedCondition now c2 ConditionTrue ''ContainerSucceeded'' ''Container successfully finished'' []
                          else UpdatedCondition now c2 ConditionFalse (tm_reason t) (tm_message t) []))
           in MergeConditions conditions [c3]))"

definition setConditionsFromPod :: "time \<Rightarrow> pod \<Rightarrow> condition list \<Rightarrow> condition list" where
  "setConditionsFromPod now p conditions =
     container_condition now ''WaitContainer'' (GetStatusForContainer (po_statuses p) ''wait'')
       (container_condition now ''InitContainer'' (GetStatusForContainer (po_initStatuses p) ''init'') conditions)"

definition image_error :: "time \<Rightarrow> string \<Rightarrow> container_status option \<Rightarrow> gerr option" where
  "image_error now operation status =
     (case status of
        None \<Rightarrow> None
      | Some s \<Rightarrow>
          (case ct_waiting s of
             None \<Rightarrow> None
           | Some (reason, message) \<Rightarrow>
               (if reason \<in> {''ErrImagePull'', ''ErrInvalidImageName'', ''RegistryUnavailable'', ''ErrImageNeverPull'', ''ImagePullBackOff''}
                then Some (NewError now operation reason message []) else None)))"

definition podIsInErrorState :: "time \<Rightarrow> pod \<Rightarrow> gerr option" where
  "podIsInErrorState now p =
     (case image_error now ''RunInitContainer'' (GetStatusForContainer (po_initStatuses p) ''init'') of
        Some e \<Rightarrow> Some e
      | None \<Rightarrow>
          (case image_error now ''RunWaitContainer'' (GetStatusForContainer (po_statuses p) ''wait'') of
             Some e \<Rightarrow> Some e
           | None \<Rightarrow> image_error now ''RunMainContainer'' (GetStatusForContainer (po_statuses p) ''main'')))"

definition pod_active :: "pod \<Rightarrow> bool" where
  "pod_active p \<longleftrightarrow> po_phase p = PodPending \<or> po_phase p = PodRunning \<or> po_phase p = PodUnknown"

text \<open>The generation is read from the annotations, where \<open>generatePod\<close> does not put it.\<close>

definition shouldRunNewPod :: "pod option \<Rightarrow> deploy_item \<Rightarrow> bool" where
  "shouldRunNewPod p di =
     (if (case p of
            None \<Rightarrow> False
          | Some x \<Rightarrow>
              (case map_of (om_annotations (po_meta x)) ContainerDeployerDeployItemGenerationLabel of
                 None \<Rightarrow> False
               | Some s \<Rightarrow> snd (Atoi s) \<and> fst (Atoi s) = om_generation (di_meta di)))
      then False else ds_phase (di_status di) = PhInit)"

end
