(* ===== verification/ContainerDeployer.thy ===== *)
theory ContainerDeployer
  imports ContainerPods Installations
begin

text \<open>
  The container deployer (\<open>pkg/deployer/container\<close>): it runs a deploy item as a pod on the host cluster. Secrets, service
  accounts, the reconciliation, the deletion, the events of pods and the garbage collector.
\<close>

section \<open>The clients of the host cluster\<close>

text \<open>Rules are on the core group; a binding names its role and its service accounts.\<close>

record service_account =
  sa_meta :: object_meta
  sa_secrets :: "string list"

record policy_rule =
  pr_resources :: "string list"
  pr_verbs :: "string list"

record rbac_role =
  ro_meta :: object_meta
  ro_rules :: "policy_rule list"

record role_binding =
  rb_meta :: object_meta
  rb_role :: string
  rb_accounts :: "object_reference list"

record 'w host_clients =
  hc_pods :: "('w, pod) resource_client"
  hc_secrets :: "('w, host_secret) resource_client"
  hc_accounts :: "('w, service_account) resource_client"
  hc_roles :: "('w, rbac_role) resource_client"
  hc_bindings :: "('w, role_binding) resource_client"

text \<open>
  The libraries for credentials, images, component descriptors and blueprints. A keyring \<open>'k\<close> collects credentials.
\<close>

record registry_auth =
  au_username :: string
  au_password :: string
  au_auth :: string
  au_identityToken :: string
  au_registryToken :: string

record 'k registry_lib =
  rg_readFile :: "string \<Rightarrow> gerr + string"
  rg_emptyKeyring :: 'k
  rg_parseAuths :: "string \<Rightarrow> gerr + string"
  rg_add :: "'k \<Rightarrow> string \<Rightarrow> gerr + 'k"
  rg_get :: "'k \<Rightarrow> string \<Rightarrow> registry_auth option"
  rg_domain :: "string \<Rightarrow> gerr + string"
  rg_marshalAuth :: "string \<Rightarrow> registry_auth \<Rightarrow> gerr + string"
  rg_isOCI :: "string \<Rightarrow> bool"
  rg_decodeOCI :: "string \<Rightarrow> gerr + string"
  rg_OCIRef :: "string \<Rightarrow> string \<Rightarrow> string \<Rightarrow> gerr + string"
  rg_newRegistry :: "string option \<Rightarrow> gerr option"
  rg_inlineReference :: "string \<Rightarrow> component_descriptor_reference"
  rg_resolve :: "component_descriptor_reference \<Rightarrow> gerr + string"
  rg_blueprintAccess :: "string \<Rightarrow> string \<Rightarrow> gerr + string"
  rg_isLocalBlob :: "string \<Rightarrow> bool"
  rg_decodeAccess :: "string \<Rightarrow> gerr + string"

text \<open>
  The environment of the deployer. \<open>ct_host\<close> is the client that the manager caches, \<open>ct_direct\<close> the other one.
  \<open>ct_polls\<close> is the number of polls for a service account after the first, \<open>ct_attempts\<close> the number of passes of the
  clean-up of the state; \<open>ct_timedOut\<close> is the error when they are used up.
\<close>

record ('w, 'k) container_env =
  ct_lsClient :: "'w kube_client"
  ct_host :: "'w host_clients"
  ct_direct :: "'w host_clients"
  ct_configuration :: container_configuration
  ct_gitVersion :: string
  ct_configs :: config_lib
  ct_encodeStatus :: "container_provider_status \<Rightarrow> gerr + string"
  ct_decodeStatus :: "string \<Rightarrow> gerr + container_provider_status"
  ct_marshalBlueprint :: "blueprint_definition \<Rightarrow> gerr option"
  ct_registry :: "'k registry_lib"
  ct_setOwner :: "deploy_item \<Rightarrow> object_meta \<Rightarrow> gerr + object_meta"
  ct_polls :: nat
  ct_attempts :: nat
  ct_timedOut :: gerr

definition container_error :: "('w, 'k) container_env \<Rightarrow> string \<Rightarrow> string \<Rightarrow> error_code list \<Rightarrow> 'w \<Rightarrow> gerr \<Rightarrow> gerr" where
  "container_error e currOp reason codes w err =
     NewWrappedError (kc_now (ct_lsClient e) w) err currOp reason (error_string err) codes"

section \<open>The operation of a deploy item (container.go)\<close>

record container_op =
  co_configuration :: container_configuration
  co_config :: container_config
  co_status :: container_provider_status

definition applyDefaults :: "string \<Rightarrow> container_configuration \<Rightarrow> container_config \<Rightarrow> container_configuration \<times> container_config" where
  "applyDefaults gitVersion c pc =
     (let c1 = DefaultConfiguration gitVersion c
      in (c1, if pc_image pc = [] then pc\<lparr>pc_image := cn_image (cc_defaultImage c1)\<rparr> else pc))"

definition no_provider_status :: container_provider_status where
  "no_provider_status = \<lparr>cp_lastOperation = [], cp_podStatus = None\<rparr>"

definition container_New ::
    "('w, 'k) container_env \<Rightarrow> (string \<Rightarrow> gerr + container_config) \<Rightarrow> deploy_item \<Rightarrow> 'w \<Rightarrow> container_op outcome" where
  "container_New e parse di w =
     (let failed = (\<lambda>reason err. Fail (container_error e ''Init'' reason [ErrorConfigurationProblem] w err))
      in case di_configuration (di_spec di) of
           None \<Rightarrow> Panic
         | Some raw \<Rightarrow>
             (case parse raw of
                Inl err \<Rightarrow> failed ''DecodeProviderConfiguration'' err
              | Inr parsed \<Rightarrow>
                  (case applyDefaults (ct_gitVersion e) (ct_configuration e) parsed of
                     (configuration, config) \<Rightarrow>
                       (case ValidateContainerConfiguration (ct_configs e) config of
                          Some err \<Rightarrow> failed ''ValidateProviderConfiguration'' err
                        | None \<Rightarrow>
                            (case (case ds_providerStatus (di_status di) of
                                     None \<Rightarrow> Inr no_provider_status
                                   | Some rawStatus \<Rightarrow> ct_decodeStatus e rawStatus) of
                               Inl err \<Rightarrow> failed ''DecodeProviderStatus'' err
                             | Inr status \<Rightarrow>
                                 Done \<lparr>co_configuration = configuration, co_config = config, co_status = status\<rparr>)))))"

section \<open>Secrets (container_reconcile.go)\<close>

definition DockerConfigJsonKey :: string where
  "DockerConfigJsonKey = ''.dockerconfigjson''"

definition named_secret :: "string \<Rightarrow> string \<Rightarrow> host_secret" where
  "named_secret name ns =
     \<lparr>hs_meta = empty_meta\<lparr>om_name := name, om_namespace := ns\<rparr>, hs_created = 0, hs_type = [], hs_data = []\<rparr>"

definition synced_secret :: "smap \<Rightarrow> string \<Rightarrow> smap \<Rightarrow> host_secret \<Rightarrow> host_secret" where
  "synced_secret defaultLabels kind data s =
     s\<lparr>hs_meta := SetMetaDataLabel (InjectDefaultLabels (hs_meta s) defaultLabels) ContainerDeployerTypeLabel kind, hs_data := data\<rparr>"

definition sync_host_secret ::
    "('w, 'k) container_env \<Rightarrow> smap \<Rightarrow> string \<Rightarrow> smap \<Rightarrow> host_secret \<Rightarrow> 'w \<Rightarrow> (gerr + string) \<times> 'w" where
  "sync_host_secret e defaultLabels kind data s w =
     (case controllerutil_CreateOrUpdate (hc_secrets (ct_direct e)) hs_meta (\<lambda>_ s. Inr (synced_secret defaultLabels kind data s)) s w of
        (Inl err, w1) \<Rightarrow> (Inl err, w1)
      | (Inr (res, s1), w1) \<Rightarrow> (Inr (om_name (hs_meta s1)), w1))"

definition registry_host :: "string \<Rightarrow> string" where
  "registry_host domain = (if domain = ''docker.io'' then ''index.docker.io'' else domain)"

definition syncSecrets ::
    "('w, 'k) container_env \<Rightarrow> container_op \<Rightarrow> 'k \<Rightarrow> smap \<Rightarrow> string \<Rightarrow> string \<Rightarrow> 'w \<Rightarrow> (gerr + string) \<times> 'w" where
  "syncSecrets e co keyring defaultLabels secretName imageReference w =
     (case rg_get (ct_registry e) keyring imageReference of
        None \<Rightarrow> (Inr [], w)
      | Some auth \<Rightarrow>
          (case rg_domain (ct_registry e) imageReference of
             Inl err \<Rightarrow> (Inl (wrap (''not a valid imageReference reference '' @ imageReference) err), w)
           | Inr domain \<Rightarrow>
               (case rg_marshalAuth (ct_registry e) (registry_host domain) auth of
                  Inl err \<Rightarrow> (Inl (wrap (''failed to create valid auth config JSON for '' @ registry_host domain) err), w)
                | Inr auths \<Rightarrow>
                    (case sync_host_secret e defaultLabels ''registry-pull-secret'' [(DockerConfigJsonKey, auths)]
                            ((named_secret secretName (cc_namespace (co_configuration co)))\<lparr>hs_type := ''kubernetes.io/dockerconfigjson''\<rparr>) w of
                       (Inl err, w1) \<Rightarrow> (Inl (wrap ''unable to image pull secret to host cluster'' err), w1)
                     | (Inr name, w1) \<Rightarrow> (Inr name, w1)))))"

text \<open>The files of the configuration are read first. What cannot be read or parsed is skipped.\<close>

fun add_auth_files :: "'k registry_lib \<Rightarrow> string list \<Rightarrow> 'k \<Rightarrow> gerr + 'k" where
  "add_auth_files rg [] keyring = Inr keyring"
| "add_auth_files rg (f # fs) keyring =
     (case rg_readFile rg f of
        Inl _ \<Rightarrow> add_auth_files rg fs keyring
      | Inr content \<Rightarrow>
          (case rg_parseAuths rg content of
             Inl _ \<Rightarrow> add_auth_files rg fs keyring
           | Inr auths \<Rightarrow>
               (case rg_add rg keyring auths of
                  Inl err \<Rightarrow> Inl (wrap (''unable to add config from '' @ go_quote f @ '' to credentials store'') err)
                | Inr keyring1 \<Rightarrow> add_auth_files rg fs keyring1)))"

text \<open>A secret that cannot be read is not skipped: the empty secret is parsed.\<close>

fun add_pull_secrets ::
    "('w, secret) resource_client \<Rightarrow> 'k registry_lib \<Rightarrow> object_reference list \<Rightarrow> 'k \<Rightarrow> 'w \<Rightarrow> (gerr + 'k) \<times> 'w" where
  "add_pull_secrets c rg [] keyring w = (Inr keyring, w)"
| "add_pull_secrets c rg (ref # refs) keyring w =
     (case rc_get c ref w of
        (answer, w1) \<Rightarrow>
          (case rg_parseAuths rg (case answer of Inl _ \<Rightarrow> [] | Inr sec \<Rightarrow> smap_get (sc_data sec) DockerConfigJsonKey) of
             Inl _ \<Rightarrow> add_pull_secrets c rg refs keyring w1
           | Inr auths \<Rightarrow>
               (case rg_add rg keyring auths of
                  Inl err \<Rightarrow> (Inl (wrap (''unable to add config from secret '' @ go_quote (key_string ref) @ '' to credentials store'') err), w1)
                | Inr keyring1 \<Rightarrow> add_pull_secrets c rg refs keyring1 w1)))"

definition container_keyring ::
    "('w, 'k) container_env \<Rightarrow> container_op \<Rightarrow> ls_context \<Rightarrow> deploy_item \<Rightarrow> 'w \<Rightarrow> (gerr + 'k) \<times> 'w" where
  "container_keyring e co lsCtx di w =
     (case add_auth_files (ct_registry e) (case cc_ociFiles (co_configuration co) of None \<Rightarrow> [] | Some fs \<Rightarrow> fs)
             (rg_emptyKeyring (ct_registry e)) of
        Inl err \<Rightarrow> (Inl err, w)
      | Inr keyring \<Rightarrow>
          (case add_pull_secrets (kc_secrets (ct_lsClient e)) (ct_registry e)
                  (GetRegistryPullSecretsFromContext lsCtx @ pc_registryPullSecrets (co_config co)) keyring w of
             (Inl err, w1) \<Rightarrow> (Inl err, w1)
           | (Inr keyring1, w1) \<Rightarrow>
               add_pull_secrets (kc_secrets (ct_lsClient e)) (ct_registry e) (di_registryPullSecrets (di_spec di)) keyring1 w1))"

text \<open>The image of the component descriptor, if it is in an OCI registry.\<close>

definition descriptor_image :: "'k registry_lib \<Rightarrow> container_config \<Rightarrow> (gerr + string) option" where
  "descriptor_image rg pc =
     (case pc_componentDescriptor pc of
        None \<Rightarrow> None
      | Some d \<Rightarrow>
          (case cd_reference d of
             None \<Rightarrow> None
           | Some ref \<Rightarrow>
               (case cr_repositoryContext ref of
                  None \<Rightarrow> None
                | Some ctx \<Rightarrow>
                    (if \<not> rg_isOCI rg ctx then None
                     else case rg_decodeOCI rg ctx of
                            Inl err \<Rightarrow> Some (Inl (wrap ''unable to decode oci repository context'' err))
                          | Inr repository \<Rightarrow>
                              (case rg_OCIRef rg repository (cr_componentName ref) (cr_version ref) of
                                 Inl err \<Rightarrow> Some (Inl (wrap ''unable to generate component descriptor oci reference'' err))
                               | Inr img \<Rightarrow> Some (Inr img))))))"

text \<open>The image of the blueprint, if it is not in the component descriptor. The reference can be nil.\<close>

definition blueprint_image :: "'k registry_lib \<Rightarrow> container_config \<Rightarrow> string option outcome" where
  "blueprint_image rg pc =
     (case (case pc_blueprint pc of None \<Rightarrow> None | Some b \<Rightarrow> bd_reference b, pc_componentDescriptor pc) of
        (Some name, Some d) \<Rightarrow>
          (case rg_newRegistry rg (cd_inline d) of
             Some err \<Rightarrow> Fail (wrap ''unable create registry reference to resolve component descriptor'' err)
           | None \<Rightarrow>
               (case GetReferenceFromComponentDescriptorDefinition (rg_inlineReference rg) (Some d) of
                  None \<Rightarrow> Panic
                | Some ref \<Rightarrow>
                    (case rg_resolve rg ref of
                       Inl err \<Rightarrow> Fail (wrap ''unable to resolve component descriptor'' err)
                     | Inr descriptor \<Rightarrow>
                         (case rg_blueprintAccess rg descriptor name of
                            Inl err \<Rightarrow> Fail (wrap ''unable to find blueprint resource in component descriptor'' err)
                          | Inr access \<Rightarrow>
                              (if rg_isLocalBlob rg access then Done None
                               else case rg_decodeAccess rg access of
                                      Inl err \<Rightarrow> Fail (wrap ''unable to parse oci registry access of blueprint resource'' err)
                                    | Inr img \<Rightarrow> Done (Some img))))))
      | _ \<Rightarrow> Done None)"

record synced_secrets =
  ss_image :: string
  ss_blueprint :: string
  ss_descriptor :: string

definition parseAndSyncSecrets ::
    "('w, 'k) container_env \<Rightarrow> container_op \<Rightarrow> ls_context \<Rightarrow> smap \<Rightarrow> deploy_item \<Rightarrow> 'w \<Rightarrow> synced_secrets outcome \<times> 'w" where
  "parseAndSyncSecrets e co lsCtx defaultLabels di w =
     (let ns = om_namespace (di_meta di); name = om_name (di_meta di); rg = ct_registry e
      in case container_keyring e co lsCtx di w of
           (Inl err, w1) \<Rightarrow> (Fail err, w1)
         | (Inr keyring, w1) \<Rightarrow>
             (case syncSecrets e co keyring defaultLabels (ImagePullSecretName ns name) (pc_image (co_config co)) w1 of
                (Inl err, w2) \<Rightarrow> (Fail (wrap ''unable to obtain and sync image pull secret to host cluster'' err), w2)
              | (Inr imageSecret, w2) \<Rightarrow>
                  (case (case descriptor_image rg (co_config co) of
                           None \<Rightarrow> (Inr [], w2)
                         | Some (Inl err) \<Rightarrow> (Inl err, w2)
                         | Some (Inr img) \<Rightarrow>
                             (case syncSecrets e co keyring defaultLabels (ComponentDescriptorPullSecretName ns name) img w2 of
                                (Inl err, w3) \<Rightarrow> (Inl (wrap ''unable to obtain and sync component descriptor secret to host cluster'' err), w3)
                              | r \<Rightarrow> r)) of
                     (Inl err, w3) \<Rightarrow> (Fail err, w3)
                   | (Inr descriptorSecret, w3) \<Rightarrow>
                       (case blueprint_image rg (co_config co) of
                          Panic \<Rightarrow> (Panic, w3)
                        | Fail err \<Rightarrow> (Fail err, w3)
                        | Done None \<Rightarrow> (Done \<lparr>ss_image = imageSecret, ss_blueprint = [], ss_descriptor = descriptorSecret\<rparr>, w3)
                        | Done (Some img) \<Rightarrow>
                            (case syncSecrets e co keyring defaultLabels (BluePrintPullSecretName ns name) img w3 of
                               (Inl err, w4) \<Rightarrow> (Fail (wrap ''unable to obtain and sync blueprint pull secret to host cluster'' err), w4)
                             | (Inr blueprintSecret, w4) \<Rightarrow>
                                 (Done \<lparr>ss_image = imageSecret, ss_blueprint = blueprintSecret, ss_descriptor = descriptorSecret\<rparr>, w4))))))"

definition SyncConfiguration ::
    "('w, 'k) container_env \<Rightarrow> container_op \<Rightarrow> smap \<Rightarrow> deploy_item \<Rightarrow> 'w \<Rightarrow> unit outcome \<times> 'w" where
  "SyncConfiguration e co defaultLabels di w =
     (case di_configuration (di_spec di) of
        None \<Rightarrow> (Panic, w)
      | Some raw \<Rightarrow>
          (case sync_host_secret e defaultLabels ''configuration'' [(''configuration.json'', raw)]
                  (named_secret (ConfigurationSecretName (om_namespace (di_meta di)) (om_name (di_meta di)))
                     (cc_namespace (co_configuration co))) w of
             (Inl err, w1) \<Rightarrow> (Fail (wrap ''unable to sync provider configuration to host cluster'' err), w1)
           | (Inr name, w1) \<Rightarrow> (Done (), w1)))"

definition mutate_synced_export ::
    "(deploy_item \<Rightarrow> object_meta \<Rightarrow> gerr + object_meta) \<Rightarrow> deploy_item \<Rightarrow> smap \<Rightarrow> secret \<Rightarrow> gerr + secret" where
  "mutate_synced_export setOwner di data sec =
     (case setOwner di (sc_meta sec) of
        Inl err \<Rightarrow> Inl err
      | Inr m \<Rightarrow> Inr (sec\<lparr>sc_meta := m, sc_data := data\<rparr>))"

definition SyncExport ::
    "('w, 'k) container_env \<Rightarrow> container_op \<Rightarrow> deploy_item \<Rightarrow> 'w \<Rightarrow> gerr option \<times> deploy_item \<times> 'w" where
  "SyncExport e co di w =
     (let name = ExportSecretName (om_namespace (di_meta di)) (om_name (di_meta di))
      in case rc_get (hc_secrets (ct_direct e)) (ObjectKey name (cc_namespace (co_configuration co))) w of
           (Inl err, w1) \<Rightarrow>
             (if IsNotFound err then None
              else Some (wrap (''unable to fetch exported secret '' @ name @ '' from host cluster'') err), di, w1)
         | (Inr exported, w1) \<Rightarrow>
             (case controllerutil_CreateOrUpdate (kc_secrets (ct_lsClient e)) sc_meta
                     (\<lambda>_. mutate_synced_export (ct_setOwner e) di (hs_data exported))
                     \<lparr>sc_meta = empty_meta\<lparr>om_name := DeployItemExportSecretName (om_name (di_meta di)),
                        om_namespace := om_namespace (di_meta di)\<rparr>, sc_data = []\<rparr> w1 of
                (Inl err, w2) \<Rightarrow> (Some (wrap ''unable to sync export to landscaper cluster'' err), di, w2)
              | (Inr (res, sec), w2) \<Rightarrow>
                  (None, di\<lparr>di_status := (di_status di)\<lparr>ds_exportReference := Some (ObjectKeyFromObject (sc_meta sec))\<rparr>\<rparr>, w2)))"

section \<open>Service accounts (pod.go)\<close>

definition host_meta :: "string \<Rightarrow> string \<Rightarrow> object_meta" where
  "host_meta name ns = empty_meta\<lparr>om_name := name, om_namespace := ns\<rparr>"

text \<open>One poll: the service account has a secret with a token; the errors of a failed read other than not found are logged.\<close>

definition poll_account :: "'w host_clients \<Rightarrow> object_reference \<Rightarrow> 'w \<Rightarrow> (gerr + object_reference option) \<times> 'w" where
  "poll_account c key w =
     (case rc_get (hc_accounts c) key w of
        (Inl err, w1) \<Rightarrow> (if IsNotFound err then Inl err else Inr None, w1)
      | (Inr sa, w1) \<Rightarrow>
          (case sa_secrets sa of
             [] \<Rightarrow> (Inr None, w1)
           | name # names \<Rightarrow>
               (let secretKey = ObjectKey name (om_namespace (sa_meta sa))
                in case rc_get (hc_secrets c) secretKey w1 of
                     (Inl err, w2) \<Rightarrow> (if IsNotFound err then Inl err else Inr None, w2)
                   | (Inr s, w2) \<Rightarrow>
                       (if hs_type s \<noteq> ''kubernetes.io/service-account-token''
                        then Inl (PlainError (''expected secret of type kubernetes.io/service-account-token but found '' @ hs_type s))
                        else Inr (Some secretKey), w2))))"

fun WaitAndGetServiceAccountSecret ::
    "nat \<Rightarrow> gerr \<Rightarrow> 'w host_clients \<Rightarrow> object_reference \<Rightarrow> 'w \<Rightarrow> (gerr + object_reference) \<times> 'w" where
  "WaitAndGetServiceAccountSecret n timedOut c key w =
     (case poll_account c key w of
        (Inl err, w1) \<Rightarrow> (Inl err, w1)
      | (Inr (Some secretKey), w1) \<Rightarrow> (Inr secretKey, w1)
      | (Inr None, w1) \<Rightarrow>
          (case n of 0 \<Rightarrow> (Inl timedOut, w1) | Suc m \<Rightarrow> WaitAndGetServiceAccountSecret m timedOut c key w1))"

definition ensure_account ::
    "('w, 'k) container_env \<Rightarrow> 'w host_clients \<Rightarrow> smap \<Rightarrow> string \<Rightarrow> string \<Rightarrow> policy_rule list \<Rightarrow> 'w \<Rightarrow> (gerr + object_reference) \<times> 'w" where
  "ensure_account e c labels name ns rules w =
     (case controllerutil_CreateOrUpdate (hc_accounts c) sa_meta (\<lambda>_ sa. Inr (sa\<lparr>sa_meta := InjectDefaultLabels (sa_meta sa) labels\<rparr>))
             \<lparr>sa_meta = host_meta name ns, sa_secrets = []\<rparr> w of
        (Inl err, w1) \<Rightarrow> (Inl err, w1)
      | (Inr (_, sa), w1) \<Rightarrow>
          (let m = host_meta (om_name (sa_meta sa)) (om_namespace (sa_meta sa))
           in case controllerutil_CreateOrUpdate (hc_roles c) ro_meta
                     (\<lambda>_ ro. Inr (ro\<lparr>ro_meta := InjectDefaultLabels (ro_meta ro) labels, ro_rules := rules\<rparr>))
                     \<lparr>ro_meta = m, ro_rules = []\<rparr> w1 of
                (Inl err, w2) \<Rightarrow> (Inl err, w2)
              | (Inr (_, ro), w2) \<Rightarrow>
                  (case controllerutil_CreateOrUpdate (hc_bindings c) rb_meta
                          (\<lambda>_ rb. Inr (rb\<lparr>rb_meta := InjectDefaultLabels (rb_meta rb) labels, rb_role := om_name (ro_meta ro),
                             rb_accounts := [ObjectKeyFromObject (sa_meta sa)]\<rparr>))
                          \<lparr>rb_meta = m, rb_role = [], rb_accounts = []\<rparr> w2 of
                     (Inl err, w3) \<Rightarrow> (Inl err, w3)
                   | (Inr _, w3) \<Rightarrow>
                       WaitAndGetServiceAccountSecret (ct_polls e) (ct_timedOut e) c (ObjectKeyFromObject (sa_meta sa)) w3)))"

definition init_rules :: "policy_rule list" where
  "init_rules = [\<lparr>pr_resources = [''secrets''], pr_verbs = [''get'', ''list'', ''delete'']\<rparr>]"

definition wait_rules :: "policy_rule list" where
  "wait_rules = [\<lparr>pr_resources = [''secrets''], pr_verbs = [''create'', ''update'', ''get'', ''list'']\<rparr>,
     \<lparr>pr_resources = [''pods''], pr_verbs = [''get'']\<rparr>]"

definition EnsureServiceAccounts ::
    "('w, 'k) container_env \<Rightarrow> 'w host_clients \<Rightarrow> deploy_item \<Rightarrow> string \<Rightarrow> smap \<Rightarrow> 'w
      \<Rightarrow> (gerr + object_reference \<times> object_reference) \<times> 'w" where
  "EnsureServiceAccounts e c di ns labels w =
     (case ensure_account e c labels (InitContainerServiceAccountName di) ns init_rules w of
        (Inl err, w1) \<Rightarrow> (Inl err, w1)
      | (Inr initSecret, w1) \<Rightarrow>
          (case ensure_account e c labels (WaitContainerServiceAccountName di) ns wait_rules w1 of
             (Inl err, w2) \<Rightarrow> (Inl err, w2)
           | (Inr waitSecret, w2) \<Rightarrow> (Inr (initSecret, waitSecret), w2)))"

section \<open>Clean-up (cleanup.go)\<close>

definition CleanupPod :: "('w \<Rightarrow> time) \<Rightarrow> 'w host_clients \<Rightarrow> pod \<Rightarrow> bool \<Rightarrow> 'w \<Rightarrow> gerr option \<times> 'w" where
  "CleanupPod clock c p keepPod w =
     (let failed = (\<lambda>reason what err w1. let err1 = wrap what err
            in (Some (NewWrappedError (clock w1) err1 ''CleanupPod'' reason (error_string err1) []), w1))
      in case rc_update (hc_pods c) (p\<lparr>po_meta := RemoveFinalizer (po_meta p) ContainerDeployerFinalizer\<rparr>) w of
           (Inl err, w1) \<Rightarrow> failed ''RemoveFinalizer'' ''unable to remove finalizer from pod'' err w1
         | (Inr p1, w1) \<Rightarrow>
             (if keepPod then (None, w1)
              else case rc_delete (hc_pods c) p1 w1 of
                     (Some err, w2) \<Rightarrow> failed ''DeletePod'' ''unable to delete pod'' err w2
                   | (None, w2) \<Rightarrow> (None, w2)))"

definition gone :: "gerr option \<Rightarrow> bool" where
  "gone r \<longleftrightarrow> (case r of None \<Rightarrow> True | Some err \<Rightarrow> IsNotFound err)"

definition cleanup_account :: "'w host_clients \<Rightarrow> object_meta \<Rightarrow> 'w \<Rightarrow> gerr option \<times> 'w" where
  "cleanup_account c m w =
     (case rc_delete (hc_bindings c) \<lparr>rb_meta = m, rb_role = [], rb_accounts = []\<rparr> w of
        (r1, w1) \<Rightarrow>
          (if \<not> gone r1 then (r1, w1)
           else case rc_delete (hc_roles c) \<lparr>ro_meta = m, ro_rules = []\<rparr> w1 of
                  (r2, w2) \<Rightarrow>
                    (if \<not> gone r2 then (r2, w2)
                     else case rc_delete (hc_accounts c) \<lparr>sa_meta = m, sa_secrets = []\<rparr> w2 of
                            (r3, w3) \<Rightarrow> (if \<not> gone r3 then (r3, w3) else (None, w3)))))"

definition CleanupRBAC :: "deploy_item \<Rightarrow> 'w host_clients \<Rightarrow> string \<Rightarrow> 'w \<Rightarrow> gerr option \<times> 'w" where
  "CleanupRBAC di c ns w =
     (case cleanup_account c (host_meta (InitContainerServiceAccountName di) ns) w of
        (Some err, w1) \<Rightarrow> (Some err, w1)
      | (None, w1) \<Rightarrow> cleanup_account c (host_meta (WaitContainerServiceAccountName di) ns) w1)"

fun delete_named :: "('w, host_secret) resource_client \<Rightarrow> string \<Rightarrow> string list \<Rightarrow> 'w \<Rightarrow> gerr option \<times> 'w" where
  "delete_named c ns [] w = (None, w)"
| "delete_named c ns (name # names) w =
     (case rc_delete c (named_secret name ns) w of
        (r, w1) \<Rightarrow> (if gone r then delete_named c ns names w1 else (r, w1)))"

definition item_secrets :: "deploy_item \<Rightarrow> string list" where
  "item_secrets di = map (\<lambda>f. f (om_namespace (di_meta di)) (om_name (di_meta di)))
     [ConfigurationSecretName, ExportSecretName, ImagePullSecretName, ComponentDescriptorPullSecretName, BluePrintPullSecretName]"

definition CleanupDeployItem ::
    "('w, 'k) container_env \<Rightarrow> deploy_item \<Rightarrow> 'w host_clients \<Rightarrow> string \<Rightarrow> 'w \<Rightarrow> gerr option \<times> deploy_item \<times> 'w" where
  "CleanupDeployItem e di c ns w =
     (case delete_named (hc_secrets c) ns (item_secrets di) w of
        (Some err, w1) \<Rightarrow> (Some err, di, w1)
      | (None, w1) \<Rightarrow>
          (case CleanupState (ct_attempts e) (ct_timedOut e) (hc_secrets c) ns (ObjectKeyFromObject (di_meta di)) w1 of
             (Some err, w2) \<Rightarrow> (Some err, di, w2)
           | (None, w2) \<Rightarrow>
               (case rc_delete (kc_secrets (ct_lsClient e))
                       \<lparr>sc_meta = host_meta (DeployItemExportSecretName (om_name (di_meta di))) (om_namespace (di_meta di)), sc_data = []\<rparr> w2 of
                  (r, w3) \<Rightarrow>
                    (if \<not> gone r then (r, di, w3)
                     else case rc_update (kc_deployItems (ct_lsClient e)) (without_finalizer di) w3 of
                            (Inl err, w4) \<Rightarrow> (Some err, without_finalizer di, w4)
                          | (Inr di1, w4) \<Rightarrow> (None, di1, w4)))))"

section \<open>The reconciliation (container_reconcile.go)\<close>

text \<open>The latest pod with the finalizer: the first of those that were created last.\<close>

fun latest_pod :: "pod list \<Rightarrow> pod option \<Rightarrow> pod option" where
  "latest_pod [] latest = latest"
| "latest_pod (p # ps) latest =
     latest_pod ps
       (if ContainerDeployerFinalizer \<notin> set (om_finalizers (po_meta p)) then latest
        else case latest of
               None \<Rightarrow> Some p
             | Some q \<Rightarrow> (if po_created q < po_created p then Some p else Some q))"

definition item_pods :: "string \<Rightarrow> string \<Rightarrow> label_requirement list" where
  "item_pods name ns =
     [LabelEquals ContainerDeployerDeployItemNameLabel name, LabelEquals ContainerDeployerDeployItemNamespaceLabel ns]"

definition getPod :: "('w, 'k) container_env \<Rightarrow> container_op \<Rightarrow> deploy_item \<Rightarrow> 'w \<Rightarrow> (gerr + pod) \<times> 'w" where
  "getPod e co di w =
     (case rc_select (hc_pods (ct_host e)) (item_pods (om_name (di_meta di)) (om_namespace (di_meta di)))
             (cc_namespace (co_configuration co)) w of
        (Inl err, w1) \<Rightarrow> (Inl err, w1)
      | (Inr pods, w1) \<Rightarrow>
          ((case latest_pod pods None of
              None \<Rightarrow> Inl (ApiError ReasonNotFound (om_name (di_meta di)))
            | Some p \<Rightarrow> Inr p), w1))"

definition collectAndSetPodStatus ::
    "('w, 'k) container_env \<Rightarrow> pod \<Rightarrow> container_provider_status \<Rightarrow> deploy_item \<Rightarrow> 'w \<Rightarrow> gerr option \<times> deploy_item" where
  "collectAndSetPodStatus e p status di w =
     (let di1 = di\<lparr>di_status := (di_status di)\<lparr>ds_conditions :=
            setConditionsFromPod (kc_now (ct_lsClient e) w) p (ds_conditions (di_status di))\<rparr>\<rparr>
      in case ct_encodeStatus e (setStatusFromPod p status) of
           Inl err \<Rightarrow> (Some err, di1)
         | Inr s \<Rightarrow> (None, with_providerStatus (Some s) di1))"

definition keeps_pod :: "container_op \<Rightarrow> bool" where
  "keeps_pod co \<longleftrightarrow> cc_keepPod (co_configuration co) = Some True"

definition op_CleanupPod :: "('w, 'k) container_env \<Rightarrow> container_op \<Rightarrow> pod \<Rightarrow> 'w \<Rightarrow> gerr option \<times> 'w" where
  "op_CleanupPod e co p w = CleanupPod (kc_now (ct_lsClient e)) (ct_host e) p (keeps_pod co) w"

text \<open>A pod that has not finished: its status is stored in memory only, unless it cannot start.\<close>

definition watch_pod ::
    "('w, 'k) container_env \<Rightarrow> container_op \<Rightarrow> pod \<Rightarrow> deploy_item \<Rightarrow> 'w \<Rightarrow> unit outcome \<times> deploy_item \<times> 'w" where
  "watch_pod e co p di w =
     (case collectAndSetPodStatus e p (co_status co) di w of
        (Some err, di1) \<Rightarrow> (Fail (container_error e ''Reconcile'' ''UpdatePodStatus'' [] w err), di1, w)
      | (None, di1) \<Rightarrow>
          (case podIsInErrorState (kc_now (ct_lsClient e) w) p of
             None \<Rightarrow> (Done (), with_phase PhProgressing di1, w)
           | Some podError \<Rightarrow>
               (case rc_statusUpdate (kc_deployItems (ct_lsClient e)) (with_phase PhFailed di1) w of
                  (Inl err, w1) \<Rightarrow> (Fail err, with_phase PhFailed di1, w1)
                | (Inr di2, w1) \<Rightarrow>
                    (case op_CleanupPod e co p w1 of
                       (Some err, w2) \<Rightarrow> (Fail err, di2, w2)
                     | (None, w2) \<Rightarrow> (Fail podError, di2, w2)))))"

text \<open>The new pod, after the secrets and the service accounts.\<close>

definition new_pod_options ::
    "container_op \<Rightarrow> operation_type \<Rightarrow> deploy_item \<Rightarrow> synced_secrets \<Rightarrow> object_reference \<Rightarrow> object_reference \<Rightarrow> pod_options" where
  "new_pod_options co operation di secrets initSecret waitSecret =
     \<lparr>px_deployerID = cc_identity (co_configuration co), px_config = co_config co,
      px_initContainer = cc_initContainer (co_configuration co), px_waitContainer = cc_waitContainer (co_configuration co),
      px_initAccountSecret = initSecret, px_waitAccountSecret = waitSecret,
      px_configurationSecretName = ConfigurationSecretName (om_namespace (di_meta di)) (om_name (di_meta di)),
      px_imagePullSecret = ss_image secrets, px_blueprintPullSecret = ss_blueprint secrets, px_descriptorPullSecret = ss_descriptor secrets,
      px_name = om_name (di_meta di), px_namespace = cc_namespace (co_configuration co), px_deployItemName = om_name (di_meta di),
      px_deployItemNamespace = om_namespace (di_meta di), px_generation = om_generation (di_meta di), px_operation = operation,
      px_debug = True\<rparr>"

definition prepare_pod ::
    "('w, 'k) container_env \<Rightarrow> container_op \<Rightarrow> ls_context \<Rightarrow> operation_type \<Rightarrow> deploy_item \<Rightarrow> 'w \<Rightarrow> pod outcome \<times> 'w" where
  "prepare_pod e co lsCtx operation di w =
     (let labels = DefaultLabels (cc_identity (co_configuration co)) (om_name (di_meta di)) (om_name (di_meta di)) (om_namespace (di_meta di));
          failed = (\<lambda>reason err w. (Fail (container_error e ''DeployPod'' reason [] w err), w))
      in case SyncConfiguration e co labels di w of
           (Panic, w1) \<Rightarrow> (Panic, w1)
         | (Fail err, w1) \<Rightarrow> failed ''SyncConfiguration'' err w1
         | (Done _, w1) \<Rightarrow>
             (case parseAndSyncSecrets e co lsCtx labels di w1 of
                (Panic, w2) \<Rightarrow> (Panic, w2)
              | (Fail err, w2) \<Rightarrow> failed ''ParseAndSyncSecrets'' err w2
              | (Done secrets, w2) \<Rightarrow>
                  (case EnsureServiceAccounts e (ct_direct e) di (cc_namespace (co_configuration co)) labels w2 of
                     (Inl err, w3) \<Rightarrow> failed ''EnsurePodRBAC'' err w3
                   | (Inr (initSecret, waitSecret), w3) \<Rightarrow>
                       (case generatePod (ct_marshalBlueprint e) (new_pod_options co operation di secrets initSecret waitSecret) of
                          Inl err \<Rightarrow> failed ''PodGeneration'' err w3
                        | Inr p \<Rightarrow> (Done p, w3)))))"

definition started_item :: "operation_type \<Rightarrow> deploy_item \<Rightarrow> deploy_item" where
  "started_item operation di = with_phase (if operation = OperationDelete then PhDeleting else PhProgressing) di"

definition pod_remove_operation :: "('w, 'k) container_env \<Rightarrow> deploy_item \<Rightarrow> 'w \<Rightarrow> unit outcome \<times> deploy_item \<times> 'w" where
  "pod_remove_operation e di w =
     (if \<not> HasOperation (di_meta di) ReconcileOperation then (Done (), di, w)
      else case rc_update (kc_deployItems (ct_lsClient e)) (drop_operation di) w of
             (Inl err, w1) \<Rightarrow> (Fail (container_error e ''DeployPod'' ''RemoveReconcileAnnotation'' [] w1 err), drop_operation di, w1)
           | (Inr di1, w1) \<Rightarrow> (Done (), di1, w1))"

definition start_pod ::
    "('w, 'k) container_env \<Rightarrow> container_op \<Rightarrow> ls_context \<Rightarrow> operation_type \<Rightarrow> deploy_item \<Rightarrow> 'w
      \<Rightarrow> unit outcome \<times> deploy_item \<times> 'w" where
  "start_pod e co lsCtx operation di w =
     (let di0 = with_phase PhInit di; failed = (\<lambda>reason err di w. (Fail (container_error e ''DeployPod'' reason [] w err), di, w))
      in case rc_get (kc_deployItems (ct_lsClient e)) (ObjectKeyFromObject (di_meta di0)) w of
           (Inl err, w1) \<Rightarrow> failed ''FetchDeployItem'' err di0 w1
         | (Inr oldDeployItem, w1) \<Rightarrow>
             (case prepare_pod e co lsCtx operation di0 w1 of
                (Panic, w2) \<Rightarrow> (Panic, di0, w2)
              | (Fail err, w2) \<Rightarrow> (Fail err, di0, w2)
              | (Done p, w2) \<Rightarrow>
                  (case rc_create (hc_pods (ct_host e)) p w2 of
                     (Inl err, w3) \<Rightarrow> failed ''CreatePod'' err di0 w3
                   | (Inr p1, w3) \<Rightarrow>
                       (case collectAndSetPodStatus e p1 (no_provider_status\<lparr>cp_lastOperation := operation_text operation\<rparr>) di0 w3 of
                          (Some err, di1) \<Rightarrow> failed ''UpdatePodStatus'' err di1 w3
                        | (None, di1) \<Rightarrow>
                            (case rc_statusPatch (kc_deployItems (ct_lsClient e)) oldDeployItem (started_item operation di1) w3 of
                               (Inl err, w4) \<Rightarrow> failed ''UpdateDeployItemStatus'' err (started_item operation di1) w4
                             | (Inr di2, w4) \<Rightarrow> pod_remove_operation e di2 w4)))))"

text \<open>A pod that has finished. An error of the export leaves the phase.\<close>

definition finished_item :: "pod \<Rightarrow> deploy_item \<Rightarrow> deploy_item" where
  "finished_item p di = (case po_phase p of
     PodSucceeded \<Rightarrow> with_phase PhSucceeded di | PodFailed \<Rightarrow> with_phase PhFailed di | _ \<Rightarrow> di)"

definition complete_pod ::
    "('w, 'k) container_env \<Rightarrow> container_op \<Rightarrow> operation_type \<Rightarrow> pod \<Rightarrow> deploy_item \<Rightarrow> 'w \<Rightarrow> unit outcome \<times> deploy_item \<times> 'w" where
  "complete_pod e co operation p di w =
     (case (if po_phase p = PodSucceeded then SyncExport e co di w else (None, di, w)) of
        (Some err, di1, w1) \<Rightarrow> (Fail (container_error e ''Complete'' ''SyncExport'' [] w1 err), di1, w1)
      | (None, di1, w1) \<Rightarrow>
          (case collectAndSetPodStatus e p ((co_status co)\<lparr>cp_lastOperation := operation_text operation\<rparr>) (finished_item p di1) w1 of
             (Some err, di2) \<Rightarrow> (Fail (container_error e ''Reconcile'' ''UpdatePodStatus'' [] w1 err), di2, w1)
           | (None, di2) \<Rightarrow>
               (case rc_statusUpdate (kc_deployItems (ct_lsClient e)) di2 w1 of
                  (Inl err, w2) \<Rightarrow> (Fail (container_error e ''Complete'' ''UpdateDeployItemStatus'' [] w2 err), di2, w2)
                | (Inr di3, w2) \<Rightarrow>
                    (case op_CleanupPod e co p w2 of
                       (Some err, w3) \<Rightarrow> (Fail err, di3, w3)
                     | (None, w3) \<Rightarrow> (Done (), without_error di3, w3)))))"

definition container_op_Reconcile ::
    "('w, 'k) container_env \<Rightarrow> container_op \<Rightarrow> ls_context \<Rightarrow> operation_type \<Rightarrow> deploy_item \<Rightarrow> 'w
      \<Rightarrow> unit outcome \<times> deploy_item \<times> 'w" where
  "container_op_Reconcile e co lsCtx operation di w =
     (case (case getPod e co di w of
              (Inl err, w1) \<Rightarrow> (if IsNotFound err then Inr None else Inl err, w1)
            | (Inr p, w1) \<Rightarrow> (Inr (Some p), w1)) of
        (Inl err, w1) \<Rightarrow> (Fail (container_error e ''Reconcile'' ''FetchRunningPod'' [] w1 err), di, w1)
      | (Inr pod, w1) \<Rightarrow>
          (case pod of
             None \<Rightarrow> (if shouldRunNewPod None di then start_pod e co lsCtx operation di w1 else (Done (), di, w1))
           | Some p \<Rightarrow>
               (if pod_active p then watch_pod e co p di w1
                else if shouldRunNewPod (Some p) di then start_pod e co lsCtx operation di w1
                else complete_pod e co operation p di w1)))"

definition container_op_Delete ::
    "('w, 'k) container_env \<Rightarrow> container_op \<Rightarrow> ls_context \<Rightarrow> deploy_item \<Rightarrow> 'w \<Rightarrow> unit outcome \<times> deploy_item \<times> 'w" where
  "container_op_Delete e co lsCtx di w =
     (if \<not> smap_has (om_annotations (di_meta di)) ContainerDeployerOperationForceCleanupAnnotation
         \<and> (cp_lastOperation (co_status co) \<noteq> operation_text OperationDelete \<or> ds_phase (di_status di) \<noteq> PhSucceeded)
      then container_op_Reconcile e co lsCtx OperationDelete di w
      else case CleanupRBAC di (ct_host e) (cc_namespace (co_configuration co)) w of
             (Some err, w1) \<Rightarrow> (Fail (container_error e ''Delete'' ''CleanupRBAC'' [] w1 err), di, w1)
           | (None, w1) \<Rightarrow>
               (case CleanupDeployItem e di (ct_direct e) (cc_namespace (co_configuration co)) w1 of
                  (Some err, di1, w2) \<Rightarrow> (Fail (container_error e ''Delete'' ''CleanupDeployItem'' [] w2 err), di1, w2)
                | (None, di1, w2) \<Rightarrow> (Done (), di1, w2)))"

section \<open>The deployer (reconciler\_deployitem.go)\<close>

definition container_run ::
    "('w, 'k) container_env \<Rightarrow> (string \<Rightarrow> gerr + container_config) \<Rightarrow> (container_op \<Rightarrow> unit outcome \<times> deploy_item \<times> 'w)
      \<Rightarrow> deploy_item \<Rightarrow> 'w \<Rightarrow> unit outcome \<times> deploy_item \<times> 'w" where
  "container_run e parse run di w =
     (case container_New e parse di w of
        Panic \<Rightarrow> (Panic, di, w)
      | Fail err \<Rightarrow> (Fail err, di, w)
      | Done co \<Rightarrow> run co)"

definition container_Reconcile ::
    "('w, 'k) container_env \<Rightarrow> (string \<Rightarrow> gerr + container_config) \<Rightarrow> ls_context \<Rightarrow> deploy_item \<Rightarrow> 'w
      \<Rightarrow> unit outcome \<times> deploy_item \<times> 'w" where
  "container_Reconcile e parse lsCtx di w =
     container_run e parse (\<lambda>co. container_op_Reconcile e co lsCtx OperationReconcile di w) di w"

definition container_Delete ::
    "('w, 'k) container_env \<Rightarrow> (string \<Rightarrow> gerr + container_config) \<Rightarrow> ls_context \<Rightarrow> deploy_item \<Rightarrow> 'w
      \<Rightarrow> unit outcome \<times> deploy_item \<times> 'w" where
  "container_Delete e parse lsCtx di w = container_run e parse (\<lambda>co. container_op_Delete e co lsCtx di w) di w"

definition container_ForceReconcile ::
    "('w, 'k) container_env \<Rightarrow> (string \<Rightarrow> gerr + container_config) \<Rightarrow> ls_context \<Rightarrow> deploy_item \<Rightarrow> 'w
      \<Rightarrow> unit outcome \<times> deploy_item \<times> 'w" where
  "container_ForceReconcile e parse lsCtx di w = container_Reconcile e parse lsCtx di w"

definition container_NextReconcile ::
    "('w, 'k) container_env \<Rightarrow> (string \<Rightarrow> gerr + container_config) \<Rightarrow> (string \<Rightarrow> gerr + (time \<Rightarrow> time)) \<Rightarrow> (duration \<Rightarrow> time \<Rightarrow> time)
      \<Rightarrow> time \<Rightarrow> deploy_item \<Rightarrow> 'w \<Rightarrow> time option outcome" where
  "container_NextReconcile e parse parseCron every lastTime di w =
     (case container_New e parse di w of
        Panic \<Rightarrow> Panic
      | Fail err \<Rightarrow> Fail err
      | Done co \<Rightarrow> outcome_of (next_reconcile parseCron every (pc_continuousReconcile (co_config co)) lastTime))"

section \<open>Events of pods (helper.go, reconciler\_pod.go)\<close>

definition ContainerType :: string where
  "ContainerType = ''landscaper.gardener.cloud/container''"

text \<open>
  The deploy item of a request with its context, if this deployer is responsible. The target is read from the namespace of
  the reference, not from that of the deploy item as the controller of the library does.
\<close>

definition target_matches ::
    "'w kube_client \<Rightarrow> requirement_matcher \<Rightarrow> target_selector list \<Rightarrow> deploy_item \<Rightarrow> 'w \<Rightarrow> (gerr + bool) \<times> 'w" where
  "target_matches c newRequirement selectors di w =
     (case di_target (di_spec di) of
        None \<Rightarrow> (Inr True, w)
      | Some ref \<Rightarrow>
          (case rc_get (kc_targets c) ref w of
             (Inl err, w1) \<Rightarrow> (Inl (wrap ''unable to get target for deploy item'' err), w1)
           | (Inr t, w1) \<Rightarrow>
               ((if selectors = [] then Inr True
                 else case MatchOne newRequirement t selectors of
                        Inl err \<Rightarrow> Inl (wrap ''unable to match target selector'' err)
                      | Inr matched \<Rightarrow> Inr matched), w1)))"

definition GetAndCheckReconcile ::
    "'w kube_client \<Rightarrow> requirement_matcher \<Rightarrow> container_configuration \<Rightarrow> object_reference \<Rightarrow> 'w
      \<Rightarrow> (gerr + (deploy_item \<times> ls_context) option) \<times> 'w" where
  "GetAndCheckReconcile c newRequirement config req w =
     (case rc_get (kc_deployItems c) req w of
        (Inl err, w1) \<Rightarrow> (if IsNotFound err then Inr None else Inl err, w1)
      | (Inr di, w1) \<Rightarrow>
          (if di_type (di_spec di) \<noteq> ContainerType then (Inr None, w1)
           else case target_matches c newRequirement (cc_targetSelector config) di w1 of
                  (Inl err, w2) \<Rightarrow> (Inl err, w2)
                | (Inr False, w2) \<Rightarrow> (Inr None, w2)
                | (Inr True, w2) \<Rightarrow>
                    (case rc_get (kc_contexts c) (ObjectKey (di_context (di_spec di)) (om_namespace (di_meta di))) w2 of
                       (Inl err, w3) \<Rightarrow> (Inl (wrap ''unable to get landscaper context'' err), w3)
                     | (Inr lsCtx, w3) \<Rightarrow> (Inr (Some (di, lsCtx)), w3))))"

definition PodReconciler_Reconcile ::
    "('w, 'k) container_env \<Rightarrow> requirement_matcher \<Rightarrow> (string \<Rightarrow> gerr + container_config) \<Rightarrow> object_reference \<Rightarrow> 'w
      \<Rightarrow> unit outcome \<times> 'w" where
  "PodReconciler_Reconcile e newRequirement parse req w =
     (case GetAndCheckReconcile (ct_lsClient e) newRequirement (ct_configuration e) req w of
        (Inl err, w1) \<Rightarrow> (Fail err, w1)
      | (Inr None, w1) \<Rightarrow> (Done (), w1)
      | (Inr (Some (di, lsCtx)), w1) \<Rightarrow>
          (case container_Reconcile e parse lsCtx di w1 of
             (Panic, di1, w2) \<Rightarrow> (Panic, w2)
           | (r, di1, w2) \<Rightarrow>
               (case di_HandleErrorFunc (ct_lsClient e) (di_status di) (case r of Fail err \<Rightarrow> Some err | _ \<Rightarrow> None) di1 w2 of
                  (Some err, di2, w3) \<Rightarrow> (Fail err, w3)
                | (None, di2, w3) \<Rightarrow> (Done (), w3))))"

definition getReconcileDeployItemRequest :: "object_meta \<Rightarrow> object_reference option" where
  "getReconcileDeployItemRequest m =
     (case map_of (om_labels m) ContainerDeployerDeployItemNameLabel of
        None \<Rightarrow> None
      | Some name \<Rightarrow>
          (case map_of (om_labels m) ContainerDeployerDeployItemNamespaceLabel of
             None \<Rightarrow> None
           | Some ns \<Rightarrow> Some (ObjectKey name ns)))"

section \<open>The garbage collector (garbage\_collector.go)\<close>

record 'w garbage_collector =
  gc_deployerID :: string
  gc_hostNamespace :: string
  gc_lsClient :: "'w kube_client"
  gc_hostClient :: "'w host_clients"

definition shouldReconcileManaged :: "string \<Rightarrow> string \<Rightarrow> object_meta \<Rightarrow> bool" where
  "shouldReconcileManaged deployerID hostNamespace m \<longleftrightarrow>
     om_namespace m = hostNamespace \<and> smap_has (om_labels m) ContainerDeployerDeployItemNameLabel
     \<and> smap_has (om_labels m) ContainerDeployerDeployItemNamespaceLabel
     \<and> (deployerID \<noteq> [] \<longrightarrow> map_of (om_labels m) ContainerDeployerIDLabel = Some deployerID)"

definition owner_key :: "object_meta \<Rightarrow> object_reference" where
  "owner_key m = ObjectKey (smap_get (om_labels m) ContainerDeployerDeployItemNameLabel)
     (smap_get (om_labels m) ContainerDeployerDeployItemNamespaceLabel)"

definition shouldGarbageCollect :: "'w garbage_collector \<Rightarrow> object_meta \<Rightarrow> 'w \<Rightarrow> (gerr + bool) \<times> 'w" where
  "shouldGarbageCollect g m w =
     (case rc_get (kc_deployItems (gc_lsClient g)) (owner_key m) w of
        (Inl err, w1) \<Rightarrow> (if IsNotFound err then Inr True else Inl err, w1)
      | (Inr di, w1) \<Rightarrow> (Inr False, w1))"

definition gone_item :: "object_reference \<Rightarrow> deploy_item" where
  "gone_item key =
     \<lparr>di_meta = host_meta (or_name key) (or_namespace key),
      di_spec = \<lparr>di_type = [], di_target = None, di_context = [], di_configuration = None, di_registryPullSecrets = [], di_timeout = None\<rparr>,
      di_status = \<lparr>ds_phase = PhEmpty, ds_observedGeneration = 0, ds_conditions = [], ds_lastError = None, ds_lastReconcileTime = None,
        ds_deployer = \<lparr>dp_identity = [], dp_name = [], dp_version = []\<rparr>, ds_providerStatus = None, ds_exportReference = None\<rparr>\<rparr>"

text \<open>For service accounts, roles and role bindings; \<open>get\<close> reads the metadata of an object of the kind.\<close>

definition cleanupRBACResources ::
    "'w garbage_collector \<Rightarrow> (object_reference \<Rightarrow> 'w \<Rightarrow> (gerr + object_meta) \<times> 'w) \<Rightarrow> object_reference \<Rightarrow> 'w \<Rightarrow> gerr option \<times> 'w" where
  "cleanupRBACResources g get req w =
     (case get req w of
        (Inl err, w1) \<Rightarrow> (if IsNotFound err then None else Some err, w1)
      | (Inr m, w1) \<Rightarrow>
          (case shouldGarbageCollect g m w1 of
             (Inl err, w2) \<Rightarrow> (Some err, w2)
           | (Inr False, w2) \<Rightarrow> (None, w2)
           | (Inr True, w2) \<Rightarrow> CleanupRBAC (gone_item (owner_key m)) (gc_hostClient g) (om_namespace m) w2))"

definition cleanupSecret :: "'w garbage_collector \<Rightarrow> object_reference \<Rightarrow> 'w \<Rightarrow> gerr option \<times> 'w" where
  "cleanupSecret g req w =
     (case rc_get (hc_secrets (gc_hostClient g)) req w of
        (Inl err, w1) \<Rightarrow> (Some err, w1)
      | (Inr s, w1) \<Rightarrow>
          (case shouldGarbageCollect g (hs_meta s) w1 of
             (Inl err, w2) \<Rightarrow> (Some err, w2)
           | (Inr False, w2) \<Rightarrow> (None, w2)
           | (Inr True, w2) \<Rightarrow>
               (case rc_delete (hc_secrets (gc_hostClient g)) s w2 of
                  (Some err, w3) \<Rightarrow>
                    (Some (wrap (''unable to garbage collect secret '' @ key_string (ObjectKeyFromObject (hs_meta s))) err), w3)
                | (None, w3) \<Rightarrow> (None, w3))))"

definition isLatestPod :: "'w garbage_collector \<Rightarrow> pod \<Rightarrow> 'w \<Rightarrow> (gerr + bool) \<times> 'w" where
  "isLatestPod g p w =
     (let key = owner_key (po_meta p)
      in case rc_select (hc_pods (gc_hostClient g)) (item_pods (or_name key) (or_namespace key)) (gc_hostNamespace g) w of
           (Inl err, w1) \<Rightarrow> (Inl err, w1)
         | (Inr pods, w1) \<Rightarrow>
             (if pods = [] then (Inl (PlainError (''no pods found in the host namespace '' @ gc_hostNamespace g)), w1)
              else ((case latest_pod pods None of
                       None \<Rightarrow> Inr False
                     | Some q \<Rightarrow> Inr (om_name (po_meta q) = om_name (po_meta p))), w1)))"

definition collect_pod :: "'w garbage_collector \<Rightarrow> pod \<Rightarrow> 'w \<Rightarrow> gerr option \<times> 'w" where
  "collect_pod g p w =
     (case CleanupPod (kc_now (gc_lsClient g)) (gc_hostClient g) p False w of
        (Some err, w1) \<Rightarrow> (Some (wrap (''unable to garbage collect pod '' @ key_string (ObjectKeyFromObject (po_meta p))) err), w1)
      | (None, w1) \<Rightarrow> (None, w1))"

definition cleanupPod :: "'w garbage_collector \<Rightarrow> object_reference \<Rightarrow> 'w \<Rightarrow> gerr option \<times> 'w" where
  "cleanupPod g req w =
     (case rc_get (hc_pods (gc_hostClient g)) req w of
        (Inl err, w1) \<Rightarrow> (Some err, w1)
      | (Inr p, w1) \<Rightarrow>
          (if pod_active p then (None, w1)
           else case shouldGarbageCollect g (po_meta p) w1 of
                  (Inl err, w2) \<Rightarrow> (Some err, w2)
                | (Inr True, w2) \<Rightarrow> collect_pod g p w2
                | (Inr False, w2) \<Rightarrow>
                    (if ContainerDeployerFinalizer \<notin> set (om_finalizers (po_meta p))
                     then rc_delete (hc_pods (gc_hostClient g)) p w2
                     else case isLatestPod g p w2 of
                            (Inl err, w3) \<Rightarrow> (Some err, w3)
                          | (Inr True, w3) \<Rightarrow> (None, w3)
                          | (Inr False, w3) \<Rightarrow> collect_pod g p w3)))"

end
