(* ===== verification/ContainerFacts.thy ===== *)
theory ContainerFacts
  imports ContainerDeployer DeployerFacts
begin

text \<open>
  What the container deployer stores and restores as state, which pods it creates and when it reports success.
\<close>

section \<open>Backup and restore\<close>

lemma trimmed_ends:
  assumes "rev (dropWhile P (rev (dropWhile P s))) \<noteq> []"
  shows "\<not> P (hd (rev (dropWhile P (rev (dropWhile P s)))))" "\<not> P (last (rev (dropWhile P (rev (dropWhile P s)))))"
proof -
  have "dropWhile P s \<noteq> []" using assms by (auto dest: set_dropWhileD)
  then obtain c ys where d: "dropWhile P s = c # ys" by (cases "dropWhile P s") auto
  have c: "\<not> P c" using hd_dropWhile [of P s] d by simp
  show "\<not> P (last (rev (dropWhile P (rev (dropWhile P s)))))"
    using assms hd_dropWhile [of P "rev (dropWhile P s)"] by (simp add: last_rev)
  show "\<not> P (hd (rev (dropWhile P (rev (dropWhile P s)))))"
    using c by (simp add: d dropWhile_append)
qed

lemma TrimNull_ends: "TrimNull s \<noteq> [] \<Longrightarrow> hd (TrimNull s) \<noteq> CHR 0x00 \<and> last (TrimNull s) \<noteq> CHR 0x00"
  unfolding TrimNull_def using trimmed_ends [of "\<lambda>c. c = CHR 0x00" s] by blast

lemma split_one_chunk:
  assumes "file \<noteq> []" "length file \<le> m" "TrimNull file \<noteq> []"
    and "rc_create (st_secrets st) (state_secret st uid 0 (TrimNull file)) w = (Inr s, w1)"
  shows "split_chunks 2 st uid (replicate m (CHR 0x00)) file None 0 [] w = Some (([ObjectKeyFromObject (hs_meta s)], None), w1)"
proof -
  have "take (length (replicate m (CHR 0x00))) file @ drop (length file) (replicate m (CHR 0x00))
      = file @ replicate (m - length file) (CHR 0x00)"
    using assms(2) by simp
  then have "TrimNull (take (length (replicate m (CHR 0x00))) file @ drop (length file) (replicate m (CHR 0x00))) = TrimNull file"
    by (simp only: TrimNull_padded)
  moreover have "drop (length (replicate m (CHR 0x00))) file = []" using assms(2) by simp
  ultimately show ?thesis using assms by (simp add: numeral_2_eq_2 Let_def)
qed

text \<open>All addresses are that of the loop variable, which holds the last secret.\<close>

definition all_zero :: "(string \<times> nat list) list \<Rightarrow> bool" where
  "all_zero gs \<longleftrightarrow> list_all (\<lambda>(k, as). list_all (\<lambda>a. a = 0) as) gs"

definition grouped :: "(string \<Rightarrow> bool) \<Rightarrow> (string \<times> nat list) list \<Rightarrow> nat" where
  "grouped P gs = sum_list (map (\<lambda>(k, as). if P k then length as else 0) gs)"

lemma map_of_append_to:
  "map_of (append_to k a gs) = (map_of gs)(k \<mapsto> (case map_of gs k of None \<Rightarrow> [] | Some as \<Rightarrow> as) @ [a])"
  by (induction gs) (auto split: option.splits)

lemma all_zero_append_to: "all_zero gs \<Longrightarrow> all_zero (append_to k 0 gs)"
  by (induction gs) (auto simp: all_zero_def split: if_splits)

lemma grouped_append_to: "grouped P (append_to k a gs) = grouped P gs + (if P k then 1 else 0)"
  by (induction gs) (auto simp: grouped_def)

definition restore_start :: restore_loop where
  "restore_start = \<lparr>rl_store = Map.empty, rl_newest = None, rl_groups = []\<rparr>"

lemma restore_step_sel [simp]:
  "rl_store (restore_step s x) 0 = Some s"
  "rl_newest (restore_step s x) = Some 0 \<longleftrightarrow> rl_newest x = None \<or> rl_newest x = Some 0
     \<or> hs_created (loaded_secret ((rl_store x)(0 \<mapsto> s)) (the (rl_newest x))) < hs_created s"
  "rl_groups (restore_step s x) = append_to (state_uuid s) 0 (rl_groups x)"
  by (auto simp: restore_step_def Let_def loaded_secret_def split: option.splits)

lemma restore_loop_newest: "rl_newest (fold restore_step ss restore_start) = (if ss = [] then None else Some 0)"
  by (induction ss rule: rev_induct) (auto simp: restore_start_def)

lemma restore_loop_groups:
  "all_zero (rl_groups (fold restore_step ss restore_start))
    \<and> grouped P (rl_groups (fold restore_step ss restore_start)) = length (filter (P \<circ> state_uuid) ss)"
  by (induction ss rule: rev_induct)
    (auto simp: restore_start_def all_zero_append_to grouped_append_to, auto simp: all_zero_def grouped_def)

lemma restore_loop_group:
  "map_of (rl_groups (fold restore_step ss restore_start)) k
     = (let n = length (filter (\<lambda>s. state_uuid s = k) ss) in if n = 0 then None else Some (replicate n 0))"
proof (induction ss rule: rev_induct)
  case (snoc s ss)
  then show ?case
    by (cases "length (filter (\<lambda>s. state_uuid s = k) ss)")
      (auto simp: map_of_append_to Let_def replicate_append_same split: if_splits)
qed (simp add: restore_start_def)

definition delete_again :: "'w state_env \<Rightarrow> host_secret \<Rightarrow> 'w \<Rightarrow> 'w" where
  "delete_again st s w = snd (rc_delete (st_secrets st) s w)"

lemma gcOldSecrets_replicate: "gcOldSecrets st (replicate n s) = (delete_again st s ^^ n)"
proof (induction n)
  case (Suc n)
  moreover have "gcOldSecrets st (replicate (Suc n) s) w = gcOldSecrets st (replicate n s) (delete_again st s w)" for w
    by (simp add: gcOldSecrets_def delete_again_def)
  ultimately show ?case by (simp only: fun_eq_iff funpow_Suc_right comp_def) simp
qed (simp add: gcOldSecrets_def fun_eq_iff)

lemma all_zero_list: "list_all (\<lambda>a. a = (0::nat)) as \<Longrightarrow> as = replicate (length as) 0"
  by (induction as) auto

lemma gc_groups:
  assumes "all_zero gs" "store 0 = Some s"
  shows "fold (\<lambda>(uid, as). gcOldSecrets st (map (loaded_secret store) as)) (filter (\<lambda>(uid, as). P uid) gs) w
    = (delete_again st s ^^ grouped P gs) w"
  using assms(1)
proof (induction gs arbitrary: w)
  case (Cons g gs)
  obtain uid as where g: "g = (uid, as)" by fastforce
  have "as = replicate (length as) 0" using Cons.prems g all_zero_list [of as] by (simp add: all_zero_def)
  then have "map (loaded_secret store) as = replicate (length as) s"
    using assms(2) by (metis loaded_secret_def map_replicate option.simps(5))
  then have "gcOldSecrets st (map (loaded_secret store) as) = (delete_again st s ^^ length as)"
    by (simp only: gcOldSecrets_replicate)
  moreover have "(delete_again st s ^^ (length as + n)) w = (delete_again st s ^^ n) ((delete_again st s ^^ length as) w)" for n
    using funpow_add [of n "length as" "delete_again st s"] by (simp add: add.commute)
  ultimately show ?case
    using Cons by (simp add: g all_zero_def grouped_def)
qed (simp add: grouped_def)

text \<open>
  C40: The restoration unpacks copies of the last listed secret, one for each listed secret with its uuid, and then deletes
  this secret, once for each listed secret with another uuid.
\<close>

theorem restore_repeats_the_last_secret:
  "restore_listed st (ss @ [s]) w =
     (case restoreFromSecrets st (replicate (length (filter (\<lambda>x. state_uuid x = state_uuid s) (ss @ [s]))) s) w of
        (Some e, w1) \<Rightarrow> (Some e, w1)
      | (None, w1) \<Rightarrow> (None, ((\<lambda>w. snd (rc_delete (st_secrets st) s w))
           ^^ length (filter (\<lambda>x. state_uuid x \<noteq> state_uuid s) (ss @ [s]))) w1))"
proof -
  let ?x = "fold restore_step (ss @ [s]) restore_start" and ?n = "length (filter (\<lambda>x. state_uuid x = state_uuid s) (ss @ [s]))"
  have store: "rl_store ?x 0 = Some s" by simp
  have load: "loaded_secret (rl_store ?x) 0 = s" by (simp add: loaded_secret_def)
  have newest: "rl_newest ?x = Some 0" by (simp only: restore_loop_newest) simp
  have group: "map_of (rl_groups ?x) (state_uuid s) = Some (replicate ?n 0)"
    unfolding restore_loop_group Let_def by simp
  have gc: "fold (\<lambda>(uid, as). gcOldSecrets st (map (loaded_secret (rl_store ?x)) as))
      (filter (\<lambda>(uid, as). uid \<noteq> state_uuid s) (rl_groups ?x)) w1
    = (delete_again st s ^^ length (filter (\<lambda>x. state_uuid x \<noteq> state_uuid s) (ss @ [s]))) w1" for w1
    using gc_groups [of "rl_groups ?x" "rl_store ?x" s st "\<lambda>uid. uid \<noteq> state_uuid s" w1] store
      restore_loop_groups [of "ss @ [s]" "\<lambda>uid. uid \<noteq> state_uuid s"]
    by (simp only: comp_def)
  have again: "delete_again st s = (\<lambda>w. snd (rc_delete (st_secrets st) s w))" by (simp add: delete_again_def fun_eq_iff)
  show ?thesis
    unfolding restore_listed_def restore_start_def [symmetric] Let_def newest option.case group load gc map_replicate again ..
qed

text \<open>
  C39: A state file that fits in one chunk is stored without the zero bytes at its ends, as one secret, and the restoration from this
  secret alone unpacks what was stored, which is the file if it neither begins nor ends with a zero byte.
\<close>

theorem single_chunk_state_roundtrip:
  assumes "fs_open (st_fs st) path w = Inr (file, None)" "length file \<le> MaxSecretSize" "TrimNull file \<noteq> []"
    and "st_uuid st w = (uid, w1)" "rc_create (st_secrets st) (state_secret st uid 0 (TrimNull file)) w1 = (Inr s, w2)"
    and "hs_data s = [(DataObjectSecretDataKey, TrimNull file)]"
  shows "splitFileAndUploadChunks 2 st path w = Some (([ObjectKeyFromObject (hs_meta s)], None), w2)
    \<and> restore_listed st [s] w3 = fs_extract (st_fs st) (TrimNull file) (st_path st) w3
    \<and> (TrimNull file = file \<longleftrightarrow> hd file \<noteq> CHR 0x00 \<and> last file \<noteq> CHR 0x00)"
proof (intro conjI)
  have "file \<noteq> []" using assms(3) by (auto simp: TrimNull_def)
  then show "splitFileAndUploadChunks 2 st path w = Some (([ObjectKeyFromObject (hs_meta s)], None), w2)"
    using assms by (simp add: splitFileAndUploadChunks_def split_one_chunk)
  show "restore_listed st [s] w3 = fs_extract (st_fs st) (TrimNull file) (st_path st) w3"
    using assms(6) by (auto simp: restore_listed_def restore_step_def loaded_secret_def restoreFromSecrets_def Let_def smap_has_def
        smap_get_def split: prod.splits option.splits)
  show "TrimNull file = file \<longleftrightarrow> hd file \<noteq> CHR 0x00 \<and> last file \<noteq> CHR 0x00"
    using TrimNull_ends [OF assms(3)] TrimNull_id [OF \<open>file \<noteq> []\<close>] by metis
qed

definition example_state :: "unit state_env" where
  "example_state =
     \<lparr>st_deployItem = ObjectKey ''x'' ''ns'', st_namespace = ''default'', st_path = ''/state'', st_secrets = no_objects,
      st_fs = \<lparr>fs_stat = \<lambda>_ _. PathExists, fs_mkdirAll = \<lambda>_ w. (None, w), fs_readDir = \<lambda>_ _. Inr [''f''], fs_tempFile = \<lambda>w. (Inr ''tmp'', w),
        fs_tarGzip = \<lambda>_ _ w. (None, w), fs_open = \<lambda>_ _. Inr (''abc'' @ [CHR 0x00], None), fs_extract = \<lambda>_ _ w. (None, w)\<rparr>,
      st_uuid = \<lambda>w. (''id'', w), st_osRemove = \<lambda>_ w. w\<rparr>"

lemma single_chunk_state_roundtrip_witness:
  "splitFileAndUploadChunks 2 example_state ''tmp'' ()
     = Some (([ObjectKeyFromObject (hs_meta (state_secret example_state ''id'' 0 ''abc''))], None), ())"
proof -
  have trim: "TrimNull (''abc'' @ [CHR 0x00]) = ''abc''" by (simp add: TrimNull_def)
  show ?thesis
    using single_chunk_state_roundtrip [of example_state "''tmp''" "()" "''abc'' @ [CHR 0x00]" "''id''" "()"
        "state_secret example_state ''id'' 0 ''abc''" "()"] trim
    by (simp add: example_state_def no_objects_def state_secret_def MaxSecretSize_def)
qed

section \<open>What the container deployer does to pods and to the status\<close>

text \<open>The events of a run: the answers to lists of pods, the pods that are created, and the status that is sent.\<close>

datatype container_event = PodsListed "gerr + pod list" | PodCreated pod | StatusSent deploy_item

definition listing_call :: "('r \<Rightarrow> 'a) \<Rightarrow> ('w \<Rightarrow> 'r \<times> 'w) \<Rightarrow> 'w \<times> 'a list \<Rightarrow> 'r \<times> ('w \<times> 'a list)" where
  "listing_call ev call s = (case call (fst s) of (r, w) \<Rightarrow> (r, w, snd s @ [ev r]))"

definition traced_kube :: "'w kube_client \<Rightarrow> ('w \<times> container_event list) kube_client" where
  "traced_kube c =
     \<lparr>kc_now = \<lambda>s. kc_now c (fst s),
      kc_deployItems = (unlogged_resource (kc_deployItems c))\<lparr>
        rc_statusUpdate := \<lambda>di. logged_call (StatusSent di) (rc_statusUpdate (kc_deployItems c) di),
        rc_statusPatch := \<lambda>old di. logged_call (StatusSent di) (rc_statusPatch (kc_deployItems c) old di)\<rparr>,
      kc_executions = unlogged_resource (kc_executions c), kc_dataObjects = unlogged_resource (kc_dataObjects c),
      kc_secrets = unlogged_resource (kc_secrets c), kc_configMaps = unlogged_resource (kc_configMaps c),
      kc_targets = unlogged_resource (kc_targets c), kc_contexts = unlogged_resource (kc_contexts c),
      kc_installations = unlogged_resource (kc_installations c)\<rparr>"

definition traced_host :: "'w host_clients \<Rightarrow> ('w \<times> container_event list) host_clients" where
  "traced_host c =
     \<lparr>hc_pods = (unlogged_resource (hc_pods c))\<lparr>
        rc_select := \<lambda>reqs ns. listing_call PodsListed (rc_select (hc_pods c) reqs ns),
        rc_create := \<lambda>p. logged_call (PodCreated p) (rc_create (hc_pods c) p)\<rparr>,
      hc_secrets = unlogged_resource (hc_secrets c), hc_accounts = unlogged_resource (hc_accounts c),
      hc_roles = unlogged_resource (hc_roles c), hc_bindings = unlogged_resource (hc_bindings c)\<rparr>"

definition traced :: "('w, 'k) container_env \<Rightarrow> ('w \<times> container_event list, 'k) container_env" where
  "traced e =
     \<lparr>ct_lsClient = traced_kube (ct_lsClient e), ct_host = traced_host (ct_host e), ct_direct = traced_host (ct_direct e),
      ct_configuration = ct_configuration e, ct_gitVersion = ct_gitVersion e, ct_configs = ct_configs e,
      ct_encodeStatus = ct_encodeStatus e, ct_decodeStatus = ct_decodeStatus e, ct_marshalBlueprint = ct_marshalBlueprint e,
      ct_registry = ct_registry e, ct_setOwner = ct_setOwner e, ct_polls = ct_polls e, ct_attempts = ct_attempts e,
      ct_timedOut = ct_timedOut e\<rparr>"

named_theorems same_log

lemma traced_sel [simp]:
  "ct_lsClient (traced e) = traced_kube (ct_lsClient e)" "ct_host (traced e) = traced_host (ct_host e)"
  "ct_direct (traced e) = traced_host (ct_direct e)" "ct_encodeStatus (traced e) = ct_encodeStatus e"
  "ct_marshalBlueprint (traced e) = ct_marshalBlueprint e" "ct_registry (traced e) = ct_registry e"
  "ct_polls (traced e) = ct_polls e" "ct_timedOut (traced e) = ct_timedOut e" "ct_setOwner (traced e) = ct_setOwner e"
  "kc_secrets (traced_kube k) = unlogged_resource (kc_secrets k)"
  "kc_now (traced_kube k) s = kc_now k (fst s)"
  "hc_secrets (traced_host c) = unlogged_resource (hc_secrets c)" "hc_accounts (traced_host c) = unlogged_resource (hc_accounts c)"
  "hc_roles (traced_host c) = unlogged_resource (hc_roles c)" "hc_bindings (traced_host c) = unlogged_resource (hc_bindings c)"
  by (simp_all add: traced_def traced_kube_def traced_host_def)

lemma unlogged_resource_log [same_log]:
  "rc_get (unlogged_resource c) key s = (r, s1) \<Longrightarrow> snd s1 = snd s"
  "rc_create (unlogged_resource c) obj s = (r, s1) \<Longrightarrow> snd s1 = snd s"
  "rc_update (unlogged_resource c) obj s = (r, s1) \<Longrightarrow> snd s1 = snd s"
  by (auto simp: unlogged_resource_def unlogged_call_def split: prod.splits)

lemma CreateOrUpdate_log [same_log]:
  "controllerutil_CreateOrUpdate (unlogged_resource c) meta f obj s = (r, s1) \<Longrightarrow> snd s1 = snd s"
  by (auto simp: controllerutil_CreateOrUpdate_def create_object_def Let_def split: sum.splits prod.splits if_splits
      dest!: unlogged_resource_log)

lemma sync_host_secret_log [same_log]: "sync_host_secret (traced e) labels kind data sec s = (r, s1) \<Longrightarrow> snd s1 = snd s"
  by (auto simp: sync_host_secret_def split: sum.splits prod.splits dest!: CreateOrUpdate_log)

lemma syncSecrets_log [same_log]: "syncSecrets (traced e) co keyring labels name img s = (r, s1) \<Longrightarrow> snd s1 = snd s"
  by (auto simp: syncSecrets_def split: option.splits sum.splits prod.splits dest!: sync_host_secret_log)

lemma add_pull_secrets_log [same_log]:
  "add_pull_secrets (unlogged_resource c) rg refs keyring s = (r, s1) \<Longrightarrow> snd s1 = snd s"
proof (induction refs arbitrary: keyring s)
  case (Cons ref refs)
  then show ?case by (auto split: sum.splits prod.splits dest!: unlogged_resource_log)
qed simp

lemma container_keyring_log [same_log]: "container_keyring (traced e) co lsCtx di s = (r, s1) \<Longrightarrow> snd s1 = snd s"
  by (auto simp: container_keyring_def split: sum.splits prod.splits option.splits dest!: add_pull_secrets_log)

lemma parseAndSyncSecrets_log [same_log]: "parseAndSyncSecrets (traced e) co lsCtx labels di s = (r, s1) \<Longrightarrow> snd s1 = snd s"
  by (auto simp: parseAndSyncSecrets_def Let_def split: sum.splits prod.splits option.splits outcome.splits
      dest!: container_keyring_log syncSecrets_log)

lemma SyncConfiguration_log [same_log]: "SyncConfiguration (traced e) co labels di s = (r, s1) \<Longrightarrow> snd s1 = snd s"
  by (auto simp: SyncConfiguration_def split: sum.splits prod.splits option.splits dest!: sync_host_secret_log)

lemma poll_account_log [same_log]: "poll_account (traced_host c) key s = (r, s1) \<Longrightarrow> snd s1 = snd s"
  by (auto simp: poll_account_def Let_def split: sum.splits prod.splits list.splits if_splits dest!: unlogged_resource_log)

lemma Wait_log [same_log]:
  "WaitAndGetServiceAccountSecret n t (traced_host c) key s = (r, s1) \<Longrightarrow> snd s1 = snd s"
proof (induction n arbitrary: s)
  case 0
  then show ?case by (auto split: sum.splits prod.splits option.splits dest!: poll_account_log)
next
  case (Suc n)
  show ?case
    using Suc.prems Suc.IH
    by (subst (asm) WaitAndGetServiceAccountSecret.simps)
      (auto simp del: WaitAndGetServiceAccountSecret.simps split: sum.splits prod.splits option.splits dest!: poll_account_log)
qed

lemma ensure_account_log [same_log]: "ensure_account (traced e) (traced_host c) labels name ns rules s = (r, s1) \<Longrightarrow> snd s1 = snd s"
  by (auto simp: ensure_account_def Let_def simp del: WaitAndGetServiceAccountSecret.simps split: sum.splits prod.splits
      dest!: CreateOrUpdate_log Wait_log)

lemma EnsureServiceAccounts_log [same_log]:
  "EnsureServiceAccounts (traced e) (traced_host c) di ns labels s = (r, s1) \<Longrightarrow> snd s1 = snd s"
  by (auto simp: EnsureServiceAccounts_def split: sum.splits prod.splits dest!: ensure_account_log)

lemma prepare_pod_log [same_log]: "prepare_pod (traced e) co lsCtx operation di s = (r, s1) \<Longrightarrow> snd s1 = snd s"
  by (auto simp: prepare_pod_def Let_def split: sum.splits prod.splits outcome.splits
      dest!: SyncConfiguration_log parseAndSyncSecrets_log EnsureServiceAccounts_log)

lemma SyncExport_log [same_log]: "SyncExport (traced e) co di s = (r, di1, s1) \<Longrightarrow> snd s1 = snd s"
  by (auto simp: SyncExport_def Let_def split: sum.splits prod.splits if_splits dest!: unlogged_resource_log CreateOrUpdate_log)

lemma op_CleanupPod_log [same_log]: "op_CleanupPod (traced e) co p s = (r, s1) \<Longrightarrow> snd s1 = snd s"
  by (auto simp: op_CleanupPod_def CleanupPod_def Let_def traced_host_def unlogged_resource_def unlogged_call_def
      split: sum.splits prod.splits if_splits option.splits)

definition unfinished_run :: "pod \<Rightarrow> bool" where
  "unfinished_run p \<longleftrightarrow> ContainerDeployerFinalizer \<in> set (om_finalizers (po_meta p))"

definition newest_run :: "pod list \<Rightarrow> pod \<Rightarrow> bool" where
  "newest_run pods p \<longleftrightarrow> p \<in> set pods \<and> unfinished_run p \<and> (\<forall>q \<in> set pods. unfinished_run q \<longrightarrow> po_created q \<le> po_created p)"

lemma latest_pod_start: "latest_pod ps (Some p) = Some q \<Longrightarrow>
    (q = p \<or> q \<in> set ps \<and> unfinished_run q) \<and> po_created p \<le> po_created q
    \<and> (\<forall>r \<in> set ps. unfinished_run r \<longrightarrow> po_created r \<le> po_created q)"
proof (induction ps arbitrary: p)
  case (Cons r ps)
  show ?case
  proof (cases "unfinished_run r \<and> po_created p < po_created r")
    case True
    then show ?thesis using Cons.IH [of r] Cons.prems by (auto simp: unfinished_run_def)
  next
    case False
    then have "latest_pod ps (Some p) = Some q" using Cons.prems by (auto simp: unfinished_run_def split: if_splits)
    then show ?thesis using Cons.IH [of p] False by auto
  qed
qed simp

lemma latest_pod_Some: "latest_pod ps (Some p) \<noteq> None"
  by (induction ps arbitrary: p) auto

lemma latest_pod_newest: "latest_pod ps None = Some p \<Longrightarrow> newest_run ps p"
proof (induction ps)
  case (Cons r ps)
  then show ?case
    using latest_pod_start [of ps r p] by (auto simp: newest_run_def unfinished_run_def split: if_splits)
qed simp

lemma latest_pod_None: "latest_pod ps None = None \<longleftrightarrow> (\<forall>p \<in> set ps. \<not> unfinished_run p)"
  by (induction ps) (auto simp: unfinished_run_def latest_pod_Some)

lemma getPod_log:
  assumes "getPod (traced e) co di s = (r, s1)"
  shows "\<exists>answer. snd s1 = snd s @ [PodsListed answer]
    \<and> (\<forall>p. r = Inr p \<longrightarrow> (\<exists>pods. answer = Inr pods \<and> newest_run pods p))
    \<and> (\<forall>err. r = Inl err \<longrightarrow> (\<exists>err. answer = Inl err) \<or> (\<exists>pods. answer = Inr pods \<and> (\<forall>p \<in> set pods. \<not> unfinished_run p)))"
  using assms
  by (auto simp: getPod_def traced_host_def listing_call_def latest_pod_newest latest_pod_None
      split: prod.splits sum.splits option.splits)

lemma watch_pod_log:
  assumes "watch_pod (traced e) co p di s = (r, di1, s1)"
  shows "snd s1 = snd s \<or> (\<exists>x. snd s1 = snd s @ [StatusSent x] \<and> ds_phase (di_status x) = PhFailed)"
  using assms
  by (auto simp: watch_pod_def traced_kube_def logged_call_def with_phase_def collectAndSetPodStatus_def Let_def with_providerStatus_def
      split: option.splits prod.splits sum.splits dest!: op_CleanupPod_log)

lemma pod_remove_operation_log: "pod_remove_operation (traced e) di s = (r, di1, s1) \<Longrightarrow> snd s1 = snd s"
  by (auto simp: pod_remove_operation_def traced_kube_def unlogged_resource_def unlogged_call_def split: if_splits prod.splits sum.splits)

definition pod_for :: "('w, 'k) container_env \<Rightarrow> container_op \<Rightarrow> operation_type \<Rightarrow> deploy_item \<Rightarrow> pod \<Rightarrow> bool" where
  "pod_for e co operation di p \<longleftrightarrow> (\<exists>secrets initSecret waitSecret.
     generatePod (ct_marshalBlueprint e) (new_pod_options co operation di secrets initSecret waitSecret) = Inr p)"

lemma prepare_pod_generated:
  "prepare_pod (traced e) co lsCtx operation di s = (r, s1) \<Longrightarrow> snd s1 = snd s \<and> (\<forall>p. r = Done p \<longrightarrow> pod_for e co operation di p)"
  by (frule prepare_pod_log) (auto simp: pod_for_def prepare_pod_def Let_def split: outcome.splits prod.splits sum.splits)

lemma started_status: "ds_phase (di_status (started_item operation di)) \<noteq> PhSucceeded"
  by (simp add: started_item_def with_phase_def)

lemma start_pod_log:
  assumes "start_pod (traced e) co lsCtx operation di s = (r, di1, s1)"
  shows "snd s1 = snd s
    \<or> (\<exists>p l. snd s1 = snd s @ PodCreated p # l
        \<and> (l = [] \<or> (\<exists>x. l = [StatusSent x] \<and> ds_phase (di_status x) \<noteq> PhSucceeded))
        \<and> pod_for e co operation (with_phase PhInit di) p)"
proof -
  have get: "snd s' = snd s" if "rc_get (kc_deployItems (traced_kube c)) key s = (x, s')" for c key x s'
    using that by (auto simp: traced_kube_def unlogged_resource_def unlogged_call_def split: prod.splits)
  have create: "snd s' = snd s0 @ [PodCreated p]" if "rc_create (hc_pods (traced_host c)) p s0 = (x, s')" for c p x s0 s'
    using that by (auto simp: traced_host_def logged_call_def split: prod.splits)
  have patch: "snd s' = snd s0 @ [StatusSent x]" if "rc_statusPatch (kc_deployItems (traced_kube c)) old x s0 = (y, s')" for c old x y s0 s'
    using that by (auto simp: traced_kube_def logged_call_def split: prod.splits)
  show ?thesis
    using assms started_status
    by (auto simp: start_pod_def Let_def split: prod.splits sum.splits outcome.splits option.splits
        dest!: get create patch pod_remove_operation_log prepare_pod_generated)
qed

lemma SyncExport_phase: "SyncExport e co di s = (r, di1, s1) \<Longrightarrow> ds_phase (di_status di1) = ds_phase (di_status di)"
  by (auto simp: SyncExport_def Let_def split: sum.splits prod.splits)

definition completed_status :: "('w, 'k) container_env \<Rightarrow> container_op \<Rightarrow> operation_type \<Rightarrow> pod \<Rightarrow> gerr + string" where
  "completed_status e co operation p = ct_encodeStatus e (setStatusFromPod p ((co_status co)\<lparr>cp_lastOperation := operation_text operation\<rparr>))"

lemma complete_pod_log:
  assumes "complete_pod (traced e) co operation p di s = (r, di1, s1)"
  shows "snd s1 = snd s \<or> (\<exists>x. snd s1 = snd s @ [StatusSent x] \<and> (ds_phase (di_status x) = PhSucceeded \<longrightarrow>
      ds_phase (di_status di) = PhSucceeded \<or> po_phase p = PodSucceeded \<and>
        (\<exists>status. completed_status e co operation p = Inr status \<and> ds_providerStatus (di_status x) = Some status)))"
proof -
  have send: "snd s' = snd s0 @ [StatusSent x]" if "rc_statusUpdate (kc_deployItems (traced_kube c)) x s0 = (y, s')" for c x s0 y s'
    using that by (auto simp: traced_kube_def logged_call_def split: prod.splits)
  have status: "ds_phase (di_status y) = ds_phase (di_status x) \<and> (\<exists>t. ct_encodeStatus e (setStatusFromPod p st) = Inr t
      \<and> ds_providerStatus (di_status y) = Some t)"
    if "collectAndSetPodStatus (traced e) p st x s0 = (None, y)" for st x s0 y
    using that by (auto simp: collectAndSetPodStatus_def Let_def with_providerStatus_def split: sum.splits)
  have phase: "ds_phase (di_status (finished_item p x)) = PhSucceeded \<Longrightarrow> ds_phase (di_status x) = PhSucceeded \<or> po_phase p = PodSucceeded" for x
    by (auto simp: finished_item_def with_phase_def split: pod_phase.splits)
  obtain r0 di0 s0 where export: "(if po_phase p = PodSucceeded then SyncExport (traced e) co di s else (None, di, s)) = (r0, di0, s0)"
    by (rule prod_cases3)
  have s0: "snd s0 = snd s" "ds_phase (di_status di0) = ds_phase (di_status di)"
    using export by (auto split: if_splits dest: SyncExport_log SyncExport_phase)
  show ?thesis
    using assms export s0 phase
    by (auto simp: complete_pod_def completed_status_def split: option.splits prod.splits sum.splits
        dest!: send op_CleanupPod_log status)
qed

text \<open>The events of a run.\<close>

lemma container_run_log:
  assumes "container_op_Reconcile (traced e) co lsCtx operation di (w, []) = (r, di1, w1, log)"
  shows "\<exists>answer l. log = PodsListed answer # l \<and> (l = []
    \<or> (\<exists>pods x. answer = Inr pods \<and> l = [StatusSent x] \<and> (ds_phase (di_status x) = PhSucceeded \<longrightarrow>
         ds_phase (di_status di) = PhSucceeded \<or> (\<exists>p. newest_run pods p \<and> po_phase p = PodSucceeded \<and>
           (\<exists>status. completed_status e co operation p = Inr status \<and> ds_providerStatus (di_status x) = Some status))))
    \<or> (\<exists>p l2. l = PodCreated p # l2 \<and> ds_phase (di_status di) = PhInit
         \<and> (\<forall>pods. answer = Inr pods \<longrightarrow> (\<forall>q \<in> set pods. \<not> unfinished_run q) \<or> (\<exists>q. newest_run pods q \<and> \<not> pod_active q))
         \<and> (l2 = [] \<or> (\<exists>x. l2 = [StatusSent x] \<and> ds_phase (di_status x) \<noteq> PhSucceeded))
         \<and> pod_for e co operation (with_phase PhInit di) p))"
proof -
  obtain r0 s0 where get: "getPod (traced e) co di (w, []) = (r0, s0)" by (metis prod.exhaust)
  obtain answer where answer: "snd s0 = [PodsListed answer]"
    "\<forall>p. r0 = Inr p \<longrightarrow> (\<exists>pods. answer = Inr pods \<and> newest_run pods p)"
    "\<forall>err. r0 = Inl err \<longrightarrow> (\<exists>err. answer = Inl err) \<or> (\<exists>pods. answer = Inr pods \<and> (\<forall>p \<in> set pods. \<not> unfinished_run p))"
    using getPod_log [OF get] by auto
  show ?thesis
  proof (cases r0)
    case (Inl err)
    show ?thesis
    proof (cases "IsNotFound err \<and> shouldRunNewPod None di")
      case True
      then have started: "start_pod (traced e) co lsCtx operation di s0 = (r, di1, w1, log)" "ds_phase (di_status di) = PhInit"
        using assms get Inl by (auto simp: container_op_Reconcile_def shouldRunNewPod_def)
      show ?thesis using start_pod_log [OF started(1)] started(2) answer Inl by auto
    qed (use assms get Inl answer in \<open>auto simp: container_op_Reconcile_def split: if_splits\<close>)
  next
    case (Inr p)
    then obtain pods where pods: "answer = Inr pods" "newest_run pods p" using answer by auto
    consider (watch) "pod_active p" "watch_pod (traced e) co p di s0 = (r, di1, w1, log)"
      | (start) "\<not> pod_active p" "ds_phase (di_status di) = PhInit" "start_pod (traced e) co lsCtx operation di s0 = (r, di1, w1, log)"
      | (complete) "complete_pod (traced e) co operation p di s0 = (r, di1, w1, log)"
      using assms get Inr by (auto simp: container_op_Reconcile_def shouldRunNewPod_def split: if_splits)
    then show ?thesis
    proof cases
      case watch
      then show ?thesis using watch_pod_log [OF watch(2)] answer pods by auto
    next
      case start
      then show ?thesis using start_pod_log [OF start(3)] answer pods by auto
    next
      case complete
      then show ?thesis using complete_pod_log [OF complete] answer pods by auto
    qed
  qed
qed

lemma generatePod_meta:
  "generatePod marshal opts = Inr p \<Longrightarrow> po_meta p =
     (SetMetaDataLabel (InjectDefaultLabels (empty_meta\<lparr>om_generateName := px_name opts @ ''-'', om_namespace := px_namespace opts\<rparr>)
        (DefaultLabels (px_deployerID opts) (px_name opts) (px_deployItemName opts) (px_deployItemNamespace opts)))
        ContainerDeployerDeployItemGenerationLabel (show_int (px_generation opts)))\<lparr>om_finalizers := [ContainerDeployerFinalizer]\<rparr>"
  by (auto simp: generatePod_def Let_def split: option.splits prod.splits)

lemma pod_for_meta:
  assumes "pod_for e co operation di p"
  shows "om_finalizers (po_meta p) = [ContainerDeployerFinalizer]" "om_annotations (po_meta p) = []"
    "om_namespace (po_meta p) = cc_namespace (co_configuration co)"
    "map_of (om_labels (po_meta p)) ContainerDeployerDeployItemNameLabel = Some (om_name (di_meta di))"
    "map_of (om_labels (po_meta p)) ContainerDeployerDeployItemNamespaceLabel = Some (om_namespace (di_meta di))"
    "map_of (om_labels (po_meta p)) ContainerDeployerDeployItemGenerationLabel = Some (show_int (om_generation (di_meta di)))"
proof -
  obtain secrets initSecret waitSecret where
    "generatePod (ct_marshalBlueprint e) (new_pod_options co operation di secrets initSecret waitSecret) = Inr p"
    using assms by (auto simp: pod_for_def)
  note m = generatePod_meta [OF this]
  show "om_finalizers (po_meta p) = [ContainerDeployerFinalizer]" "om_annotations (po_meta p) = []"
    "om_namespace (po_meta p) = cc_namespace (co_configuration co)"
    by (simp_all add: m SetMetaDataLabel_def InjectDefaultLabels_def empty_meta_def new_pod_options_def)
  show "map_of (om_labels (po_meta p)) ContainerDeployerDeployItemNameLabel = Some (om_name (di_meta di))"
    "map_of (om_labels (po_meta p)) ContainerDeployerDeployItemNamespaceLabel = Some (om_namespace (di_meta di))"
    "map_of (om_labels (po_meta p)) ContainerDeployerDeployItemGenerationLabel = Some (show_int (om_generation (di_meta di)))"
    by (simp_all add: m SetMetaDataLabel_def InjectDefaultLabels_def DefaultLabels_def empty_meta_def new_pod_options_def
        ContainerDeployerIDLabel_def ContainerDeployerNameLabel_def ContainerDeployerDeployItemNameLabel_def
        ContainerDeployerDeployItemNamespaceLabel_def ContainerDeployerDeployItemGenerationLabel_def)
qed

text \<open>The generation is a label of the new pod and not an annotation, so the guard that compares it is never taken.\<close>

lemma generation_guard_is_dead:
  assumes "pod_for e co operation di p"
  shows "shouldRunNewPod (Some p) di' \<longleftrightarrow> ds_phase (di_status di') = PhInit"
  using pod_for_meta(2) [OF assms] by (simp add: shouldRunNewPod_def)

text \<open>Different deploy items share names of secrets and service accounts on the host cluster.\<close>

lemma names_not_injective:
  "ConfigurationSecretName ''a-b'' ''c'' = ConfigurationSecretName ''a'' ''b-c''"
  "om_name (di_meta d1) = om_name (di_meta d2) \<Longrightarrow> InitContainerServiceAccountName d1 = InitContainerServiceAccountName d2"
  by (simp_all add: ConfigurationSecretName_def InitContainerServiceAccountName_def)

text \<open>A server whose answers have the phase of the deploy item that was sent.\<close>

definition keeps_item_phase :: "('w, deploy_item) resource_client \<Rightarrow> bool" where
  "keeps_item_phase c \<longleftrightarrow> (\<forall>x old w y w'.
     rc_update c x w = (Inr y, w') \<or> rc_statusUpdate c x w = (Inr y, w') \<or> rc_statusPatch c old x w = (Inr y, w')
       \<longrightarrow> ds_phase (di_status y) = ds_phase (di_status x))"

lemma keeps_item_phase_traced:
  "keeps_item_phase (kc_deployItems c) \<Longrightarrow> keeps_item_phase (kc_deployItems (traced_kube c))"
  by (fastforce simp: keeps_item_phase_def traced_kube_def unlogged_resource_def unlogged_call_def logged_call_def split: prod.splits)

lemma keeps_item_phaseD:
  assumes "keeps_item_phase c"
  shows "rc_update c x w = (Inr y, w') \<Longrightarrow> ds_phase (di_status y) = ds_phase (di_status x)"
    and "rc_statusUpdate c x w = (Inr y, w') \<Longrightarrow> ds_phase (di_status y) = ds_phase (di_status x)"
    and "rc_statusPatch c old x w = (Inr y, w') \<Longrightarrow> ds_phase (di_status y) = ds_phase (di_status x)"
  using assms unfolding keeps_item_phase_def by blast+

lemma collectAndSetPodStatus_phase: "collectAndSetPodStatus e p st di w = (r, di1) \<Longrightarrow> ds_phase (di_status di1) = ds_phase (di_status di)"
  by (auto simp: collectAndSetPodStatus_def Let_def with_providerStatus_def split: sum.splits)

lemma watch_pod_phase:
  assumes "keeps_item_phase (kc_deployItems (ct_lsClient e))" "watch_pod e co p di w = (r, di1, w1)"
  shows "ds_phase (di_status di1) \<in> {ds_phase (di_status di), PhProgressing, PhFailed}"
  using assms(2)
  by (auto simp: watch_pod_def with_phase_def split: option.splits prod.splits sum.splits
      dest: collectAndSetPodStatus_phase keeps_item_phaseD [OF assms(1)])

lemma pod_remove_operation_phase:
  assumes "keeps_item_phase (kc_deployItems (ct_lsClient e))" "pod_remove_operation e di w = (r, di1, w1)"
  shows "ds_phase (di_status di1) = ds_phase (di_status di)"
  using assms(2)
  by (auto simp: pod_remove_operation_def drop_operation_def split: if_splits prod.splits sum.splits dest!: keeps_item_phaseD [OF assms(1)])

lemma start_pod_phase:
  assumes "keeps_item_phase (kc_deployItems (ct_lsClient e))" "start_pod e co lsCtx operation di w = (r, di1, w1)"
  shows "ds_phase (di_status di1) \<noteq> PhSucceeded"
  using assms(2)
  by (auto simp: started_status started_status [symmetric] start_pod_def Let_def with_phase_def split: prod.splits sum.splits outcome.splits option.splits
      dest!: collectAndSetPodStatus_phase pod_remove_operation_phase [OF assms(1)] keeps_item_phaseD [OF assms(1)])

lemma complete_pod_phase:
  assumes "keeps_item_phase (kc_deployItems (ct_lsClient e))" "complete_pod e co operation p di w = (r, di1, w1)"
    and "ds_phase (di_status di1) = PhSucceeded" "ds_phase (di_status di) \<noteq> PhSucceeded"
  shows "po_phase p = PodSucceeded"
proof (rule ccontr)
  assume no: "po_phase p \<noteq> PodSucceeded"
  then have "ds_phase (di_status (finished_item p di)) \<noteq> PhSucceeded"
    using assms(4) by (auto simp: finished_item_def with_phase_def split: pod_phase.splits)
  with no assms(2,3) show False
    by (auto simp: complete_pod_def without_error_def split: prod.splits sum.splits option.splits
        dest!: collectAndSetPodStatus_phase keeps_item_phaseD [OF assms(1)])
qed

lemma complete_pod_Done:
  assumes "complete_pod (traced e) co operation p di s = (Done (), di1, s1)"
    and "keeps_item_phase (kc_deployItems (ct_lsClient e))"
  shows "\<exists>x. snd s1 = snd s @ [StatusSent x] \<and> ds_phase (di_status x) = ds_phase (di_status di1)"
proof -
  have send: "snd s' = snd s0 @ [StatusSent x] \<and> ds_phase (di_status y) = ds_phase (di_status x)"
    if u: "rc_statusUpdate (kc_deployItems (traced_kube (ct_lsClient e))) x s0 = (Inr y, s')" for x s0 y s'
    using keeps_item_phaseD(2) [OF keeps_item_phase_traced [OF assms(2)] u] u
    by (auto simp: traced_kube_def logged_call_def split: prod.splits)
  obtain r0 di0 s0 where export: "(if po_phase p = PodSucceeded then SyncExport (traced e) co di s else (None, di, s)) = (r0, di0, s0)"
    by (rule prod_cases3)
  have s0: "snd s0 = snd s" using export by (auto split: if_splits dest: SyncExport_log)
  have ls: "ct_lsClient (traced e) = traced_kube (ct_lsClient e)" by (simp add: traced_def)
  show ?thesis
    using assms(1) export s0
    by (auto simp: complete_pod_def without_error_def ls split: option.splits prod.splits sum.splits
        dest!: op_CleanupPod_log send)
qed


text \<open>
  C15: A run creates at most one pod, before it sends a status, only for an item in the phase Init and if no listed pod has the
  finalizer or the newest of them has finished. The new pod has the finalizer and the labels that the next run lists.
\<close>

theorem container_starts_one_pod:
  assumes "container_op_Reconcile (traced e) co lsCtx operation di (w, []) = (r, di1, w1, log)" "PodCreated p \<in> set log"
  shows "ds_phase (di_status di) = PhInit \<and> unfinished_run p
    \<and> (\<exists>answer sent. log = PodsListed answer # PodCreated p # map StatusSent sent \<and> length sent \<le> 1
       \<and> (\<forall>pods. answer = Inr pods \<longrightarrow> (\<forall>q \<in> set pods. \<not> unfinished_run q) \<or> (\<exists>q. newest_run pods q \<and> \<not> pod_active q)))
    \<and> om_namespace (po_meta p) = cc_namespace (co_configuration co)
    \<and> getReconcileDeployItemRequest (po_meta p) = Some (ObjectKeyFromObject (di_meta di))"
proof -
  obtain answer l where l: "log = PodsListed answer # PodCreated p # l" "ds_phase (di_status di) = PhInit"
    "\<forall>pods. answer = Inr pods \<longrightarrow> (\<forall>q \<in> set pods. \<not> unfinished_run q) \<or> (\<exists>q. newest_run pods q \<and> \<not> pod_active q)"
    "l = [] \<or> (\<exists>x. l = [StatusSent x])" "pod_for e co operation (with_phase PhInit di) p"
    using container_run_log [OF assms(1)] assms(2) by auto
  have "\<exists>sent. l = map StatusSent sent \<and> length sent \<le> 1"
    using l(4) by (metis (no_types, lifting) One_nat_def le_numeral_extra(4) length_Cons list.simps(8,9) list.size(3) zero_le_one)
  then show ?thesis
    using l pod_for_meta [OF l(5)]
    by (auto simp: unfinished_run_def getReconcileDeployItemRequest_def ObjectKey_def ObjectKeyFromObject_def with_phase_def)
qed

section \<open>An example\<close>

definition found :: "(object_reference \<Rightarrow> 'o) \<Rightarrow> (unit, 'o) resource_client" where
  "found f = no_objects\<lparr>rc_get := \<lambda>key w. (Inr (f key), w), rc_select := \<lambda>_ _ w. (Inr [f (ObjectKey [] [])], w)\<rparr>"

definition example_pod :: pod where
  "example_pod = \<lparr>po_meta = empty_meta\<lparr>om_name := ''x-1'', om_finalizers := [ContainerDeployerFinalizer]\<rparr>, po_created = 1,
     po_spec = \<lparr>pd_automountToken = False, pd_restartPolicy = [], pd_gracePeriod = 0, pd_volumes = [], pd_runAsUser = 0, pd_runAsGroup = 0,
       pd_fsGroup = 0, pd_initContainers = [], pd_containers = [], pd_imagePullSecrets = []\<rparr>,
     po_phase = PodSucceeded, po_initStatuses = [], po_statuses = []\<rparr>"

definition example_host :: "(unit, pod) resource_client \<Rightarrow> unit host_clients" where
  "example_host pods =
     \<lparr>hc_pods = pods,
      hc_secrets = found (\<lambda>key. (named_secret (or_name key) (or_namespace key))\<lparr>hs_type := ''kubernetes.io/service-account-token''\<rparr>),
      hc_accounts = found (\<lambda>key. \<lparr>sa_meta = host_meta (or_name key) (or_namespace key), sa_secrets = [''token'']\<rparr>),
      hc_roles = no_objects, hc_bindings = no_objects\<rparr>"

definition container_kube :: "deploy_item \<Rightarrow> unit kube_client" where
  "container_kube di =
     \<lparr>kc_now = \<lambda>_. 100, kc_deployItems = found (\<lambda>_. di), kc_executions = no_objects, kc_dataObjects = no_objects, kc_secrets = no_objects,
      kc_configMaps = no_objects, kc_targets = no_objects, kc_contexts = no_objects, kc_installations = no_objects\<rparr>"

definition example_registry :: "unit registry_lib" where
  "example_registry =
     \<lparr>rg_readFile = \<lambda>_. Inr [], rg_emptyKeyring = (), rg_parseAuths = \<lambda>_. Inr [], rg_add = \<lambda>_ _. Inr (), rg_get = \<lambda>_ _. None,
      rg_domain = Inr, rg_marshalAuth = \<lambda>h _. Inr h, rg_isOCI = \<lambda>_. False, rg_decodeOCI = Inr, rg_OCIRef = \<lambda>r _ _. Inr r,
      rg_newRegistry = \<lambda>_. None, rg_inlineReference = \<lambda>_. \<lparr>cr_repositoryContext = None, cr_componentName = [], cr_version = []\<rparr>,
      rg_resolve = \<lambda>_. Inr [], rg_blueprintAccess = \<lambda>_ _. Inr [], rg_isLocalBlob = \<lambda>_. True, rg_decodeAccess = Inr\<rparr>"

definition no_spec :: container_spec where
  "no_spec = \<lparr>cn_image = [], cn_command = [], cn_args = [], cn_pullPolicy = []\<rparr>"

definition example_configuration :: container_configuration where
  "example_configuration =
     \<lparr>cc_identity = ''me'', cc_ociFiles = None, cc_namespace = ''default'', cc_targetSelector = [], cc_defaultImage = no_spec,
      cc_initContainer = no_spec, cc_waitContainer = no_spec, cc_worker = 5, cc_keepPod = None\<rparr>"

definition example_container :: "deploy_item \<Rightarrow> (unit, pod) resource_client \<Rightarrow> (unit, unit) container_env" where
  "example_container di pods =
     \<lparr>ct_lsClient = container_kube di, ct_host = example_host pods, ct_direct = example_host pods,
      ct_configuration = example_configuration, ct_gitVersion = ''v1'',
      ct_configs = \<lparr>cl_parseCron = \<lambda>_. None, cl_parsePath = \<lambda>_. None, cl_aggregate = \<lambda>_. PlainError ''invalid''\<rparr>,
      ct_encodeStatus = \<lambda>s. Inr (cp_lastOperation s), ct_decodeStatus = \<lambda>_. Inr no_provider_status, ct_marshalBlueprint = \<lambda>_. None,
      ct_registry = example_registry, ct_setOwner = \<lambda>_. Inr, ct_polls = 1, ct_attempts = 1, ct_timedOut = PlainError ''timed out''\<rparr>"

definition example_op :: container_op where
  "example_op =
     \<lparr>co_configuration = example_configuration,
      co_config = \<lparr>pc_image = ''img'', pc_command = [], pc_args = [], pc_importValues = [], pc_blueprint = None,
        pc_componentDescriptor = None, pc_registryPullSecrets = [], pc_continuousReconcile = None\<rparr>,
      co_status = no_provider_status\<rparr>"

definition container_item :: "phase \<Rightarrow> deploy_item" where
  "container_item p = with_phase p (let di = plain_item None in di\<lparr>di_spec := (di_spec di)\<lparr>di_configuration := Some []\<rparr>\<rparr>)"

definition example_run :: "phase \<Rightarrow> (unit, pod) resource_client \<Rightarrow> unit outcome \<times> deploy_item \<times> unit \<times> container_event list" where
  "example_run p pods =
     container_op_Reconcile (traced (example_container (container_item p) pods)) example_op
       \<lparr>lc_meta = empty_meta, lc_repositoryContext = None, lc_registryPullSecrets = [], lc_configurations = []\<rparr> OperationReconcile
       (container_item p) ((), [])"

definition sent_item :: "container_event list \<Rightarrow> deploy_item" where
  "sent_item log = (case log of [_, StatusSent x] \<Rightarrow> x | _ \<Rightarrow> plain_item None)"

definition created_pod :: "container_event list \<Rightarrow> pod" where
  "created_pod log = (case log of _ # PodCreated p # _ \<Rightarrow> p | _ \<Rightarrow> example_pod)"

lemmas example_evaluation = example_run_def traced_def traced_kube_def traced_host_def example_container_def example_host_def
  container_kube_def found_def no_objects_def unlogged_resource_def unlogged_call_def logged_call_def listing_call_def
  container_op_Reconcile_def getPod_def shouldRunNewPod_def pod_active_def example_pod_def empty_meta_def

lemma example_success:
  "let (r, di1, w1, log) = example_run PhProgressing (found (\<lambda>_. example_pod))
   in StatusSent (sent_item log) \<in> set log \<and> ds_phase (di_status (sent_item log)) = PhSucceeded"
  by (simp add: example_evaluation complete_pod_def SyncExport_def Let_def controllerutil_CreateOrUpdate_def create_object_def Mutate_def
      collectAndSetPodStatus_def op_CleanupPod_def CleanupPod_def finished_item_def with_phase_def with_providerStatus_def
      example_op_def example_configuration_def mutate_synced_export_def ObjectKey_def ObjectKeyFromObject_def named_secret_def
      not_found_def container_item_def sent_item_def keeps_pod_def)

lemma example_start:
  "let (r, di1, w1, log) = example_run PhInit no_objects in PodCreated (created_pod log) \<in> set log"
  by (simp add: example_evaluation start_pod_def prepare_pod_def SyncConfiguration_def sync_host_secret_def parseAndSyncSecrets_def
      container_keyring_def example_registry_def GetRegistryPullSecretsFromContext_def syncSecrets_def descriptor_image_def blueprint_image_def
      EnsureServiceAccounts_def ensure_account_def poll_account_def host_meta_def generatePod_def new_pod_options_def pod_containers_def
      pod_remove_operation_def HasOperation_def started_item_def operation_text.simps
      Let_def controllerutil_CreateOrUpdate_def create_object_def Mutate_def
      collectAndSetPodStatus_def with_phase_def with_providerStatus_def synced_secret_def SetMetaDataLabel_def InjectDefaultLabels_def
      example_op_def example_configuration_def ObjectKey_def ObjectKeyFromObject_def named_secret_def plain_item_def
      not_found_def container_item_def created_pod_def)


lemma container_starts_one_pod_witness:
  "\<exists>p. unfinished_run p \<and> getReconcileDeployItemRequest (po_meta p) = Some (ObjectKeyFromObject (di_meta (container_item PhInit)))"
proof -
  obtain r di1 w1 log where run: "example_run PhInit no_objects = (r, di1, w1, log)" by (rule prod_cases4)
  have "PodCreated (created_pod log) \<in> set log" using example_start unfolding run by simp
  then show ?thesis using container_starts_one_pod [OF run [unfolded example_run_def]] by blast
qed

end
