(* ===== verification/Spec2Isabelle.thy ===== *)
theory Spec2Isabelle
  imports ExecutionController DeployItemController DeployerLibFacts InstallationControllerFacts MediaTypes
    DeployerFacts MockDeployer ContainerFacts
begin

text \<open>
  A model of the landscaper (\<open>github.com/gardener/landscaper\<close>), a Kubernetes operator that
  installs components in dependency order. An installation is expanded to an execution, an
  execution is a list of deploy item templates with dependencies, and each deploy item is carried
  out by a deployer that watches items of its type. All state lives in API objects: the
  controllers read and write them through a client, and each reconciliation is one run of a
  function on the current state. The development models these functions and proves what a run
  does.

  The program and the theories:

  \<^item> \<open>Prelude\<close>: strings, Go's integers and durations, association lists for Go maps, the locale
    of a table with keys that several components implement.
  \<^item> \<open>CoreTypes\<close>: the API objects of \<open>apis/core/v1alpha1\<close> as records, with the constants.
  \<^item> \<open>ApiHelpers\<close>: \<open>apis/core/v1alpha1/helper/helpers.go\<close> and the finalizers, labels and owners
    of \<open>controller-utils/pkg/kubernetes/kubernetes.go\<close>: operations, conditions, references, phases.
  \<^item> \<open>LsErrors\<close>: \<open>apis/errors/error.go\<close>. A Go error is a tree of plain, API, landscaper and
    wrapped errors.
  \<^item> \<open>FieldErrors\<close>, \<open>ExecutionValidation\<close>, \<open>InstallationValidation\<close>, \<open>BlueprintValidation\<close>: the package
    \<open>apis/core/validation\<close>. What the validation accepts is stated for each kind of object; the
    search for cyclic dependencies is proved to be complete and sound.
  \<^item> \<open>Defaults\<close>: \<open>apis/core/v1alpha1/defaults.go\<close>.
  \<^item> \<open>DataObjects\<close>: names, sources and storage of exported data
    (\<open>apis/core/v1alpha1/helper/dataobjects.go\<close>, \<open>pkg/landscaper/dataobjects/dataobject.go\<close>).
  \<^item> \<open>KubeClient\<close>: the client, as a record of functions over an unknown world, \<open>CreateOrUpdate\<close>, and
    a client that records its writes; \<open>ExampleCluster\<close>: an instance in memory for the witnesses.
  \<^item> \<open>ExecutionOps\<close>: the package \<open>pkg/landscaper/execution\<close>: \<open>Reconcile\<close> with the loop over the items,
    triggering, exports, \<open>Delete\<close>, the check of finished executions. \<open>ExecutionFacts\<close>,
    \<open>ExecutionProps\<close> and \<open>ExecutionDelete\<close> hold the lemmas on the loops and the properties.
  \<^item> \<open>ExecutionController\<close>: \<open>pkg/landscaper/controllers/execution/controller.go\<close>.
  \<^item> \<open>DeployItemController\<close>: \<open>pkg/landscaper/controllers/deployitem/controller.go\<close>: the timeouts.
  \<^item> \<open>DeployerHooks\<close>, \<open>DeployerLib\<close>, \<open>DeployerLibFacts\<close>: \<open>pkg/deployer/lib\<close>, the controller that every
    deployer runs in, with its hooks and target selectors.
  \<^item> \<open>Installations\<close>: component overwrites (\<open>pkg/landscaper/registry/componentoverwrites\<close>) and the core of
    \<open>pkg/landscaper/installations\<close>: import states, generations, parents, siblings, the context, triggers.
  \<^item> \<open>InstallationData\<close>: reading imported data and targets from the cluster
    (\<open>pkg/landscaper/installations/helper.go\<close>).
  \<^item> \<open>SiblingChecks\<close>, \<open>ImportValidation\<close>, \<open>ImportConstruction\<close>, \<open>ImportReading\<close>: the package
    \<open>pkg/landscaper/installations/imports\<close> and the reading of imports in \<open>operation.go\<close>.
  \<^item> \<open>Subinstallations\<close>: the package \<open>pkg/landscaper/installations/subinstallations\<close>. \<open>InstallationExecutions\<close>: the
    package \<open>pkg/landscaper/installations/executions\<close>, with the execution as the refinement of its templates.
  \<^item> \<open>InstallationObjects\<close>: how imports and exports are stored as data objects and targets (\<open>operation.go\<close>,
    \<open>exports/constructor.go\<close>, \<open>dataobjects/target.go\<close>). \<open>InstallationDescriptors\<close>: component descriptors as imports.
  \<^item> \<open>InstallationController\<close>, \<open>InstallationControllerFacts\<close>: \<open>pkg/landscaper/controllers/installations\<close>,
    which composes the operations of the other theories on installations.
  \<^item> \<open>MediaTypes\<close>: \<open>apis/mediatype\<close>.
  \<^item> \<open>TargetCluster\<close>, \<open>ResourceManager\<close>, \<open>ResourceManagerFacts\<close>: unstructured objects and the applier of manifests
    (\<open>pkg/deployer/lib/resourcemanager/objectapplier.go\<close>). Its goroutines make their calls in the order of a schedule,
    which is an argument: what is proved holds for every interleaving. \<open>Goroutines\<close>: pools of goroutines under every schedule,
    with the contract under which they end.
  \<^item> \<open>ReadinessChecks\<close>, \<open>ReadinessFacts\<close>: \<open>pkg/deployer/lib/readinesscheck\<close>, the waiting for objects, the default checks of
    workloads and the custom checks. \<open>ResourceExporter\<close>, \<open>ResourceExporterFacts\<close>: the export of values from deployed objects
    (\<open>resourcemanager/exporter.go\<close>), the merge of maps and JSON paths.
  \<^item> \<open>DeployerConfigs\<close>, \<open>DeployerConfigFacts\<close>: configurations of deploy items, defaults and validation (\<open>apis/deployer\<close>).
  \<^item> \<open>ManifestDeployer\<close>, \<open>HelmDeployer\<close>, \<open>MockDeployer\<close>, \<open>DeployerFacts\<close>: \<open>pkg/deployer/manifest\<close>, \<open>helm\<close> and \<open>mock\<close>: the operations that
    the library calls, composed of the applier, the checks and the exporter.
  \<^item> \<open>ContainerState\<close>, \<open>ContainerPods\<close>, \<open>ContainerDeployer\<close>, \<open>ContainerFacts\<close>: \<open>pkg/deployer/container\<close> and
    \<open>apis/deployer/container\<close>: deploy items that run as pods, their state in secrets, and the garbage collector.

  How the state is modelled. A structure is a record, a pointer to one an option, a map an
  association list whose order is the order of insertion. An operation that changes an object in
  memory returns it; an operation that talks to the API server takes the client and the world and
  returns the new world. A call of the client answers with an error or with the stored object,
  which overwrites the one in memory. Nothing is assumed about the server unless a property says
  so. Where the code can dereference a missing object, the result is an \<open>outcome\<close>, with \<open>Panic\<close> as
  one of its values. Loops are recursive functions on lists. Durations are 64 bit integers and wrap.

  What the lemmas show. For validation: \<open>accepts\<close> lemmas, a checker returns no error iff the object
  has the stated form. For the loops over items: which writes a step makes and what holds when it
  makes them. For the controllers: the complete log of writes of a run as a function of what was
  read. For installations: the check of siblings implements an inductive definition of readiness,
  reading and checking imports agree, the construction of imports is a check per definition, and the
  writes of each operation. For the deployers: success means that what was applied is there and ready, or that the pod
  succeeded; finalizers go only when the objects are gone. Properties are about all clients and all worlds, their witnesses run on \<open>ExampleCluster\<close>.

  Fuel. The search for cycles calls itself for the dependencies of an item and stops at an item
  on its path, so the depth is bounded by the number of items: it runs on \<open>Suc (length ts)\<close> and is
  proved never to run out (\<open>ValidateDeployItemTemplateList_exact\<close>). The check of siblings follows the sources of
  imports through the cluster, where nothing bounds it: \<open>CheckCompletedSiblingDependents\<close> runs on fuel, returns
  for all fuel beyond a rank of the installation where the sources have no cycle, and never where they
  have one. Waiting for objects polls as often as the timeout allows, which is an argument, and for the timeout zero without an end:
  such runs have no result, \<open>None\<close>. Decoding a rendered file and splitting a state file are bounded by fuel as well:
  \<open>decoding_ends_iff\<close> says for which files any fuel is enough, and \<open>single_chunk_state_roundtrip\<close> gives the fuel for one chunk.

  Arguments of the model, because their code is not in the repository: the client and the clock, the
  JSON library, digests and hashes, the text of times, the name checks of Kubernetes, label
  requirements, owner references; cron expressions, archives, charts and their templates, credentials and registries;
  to the library of the deployers the deployer is an argument, too, as it is an interface of the program.

  Not modelled: logging, events and metrics; the registration of controllers; generated code;
  concurrency between controllers, except that the world between two calls is arbitrary. The registries, the template engines, the
  webhooks and the agent drive foreign systems and libraries, which the model would have to take as arguments, as do the programs
  of the init and the wait container. Imports of component descriptors are read from registries and left out for the same reason.
\<close>

end
